(* ===== verification/Prelude.thy ===== *)
theory Prelude
  imports Main "HOL-Library.AList" "HOL-Library.Word"
begin

text \<open>
  What every theory of the development shares: the names given to the C++ library types, the
  decimal and hexadecimal printers of the standard library and of the server, the theorem
  collections, the generic lemmas on lists and association lists, and the locale of step
  machines with an invariant.

  \<^item> \<open>std::string\<close> is \<open>string\<close> (a list of bytes), \<open>std::vector\<close> a list, \<open>std::optional\<close> an
    option, \<open>dv::Result\<close> (\<open>shared/include/dv/core/result.hpp\<close>) a sum with the error on the left.
  \<^item> \<open>std::unordered_map\<close> is an association list with distinct keys, read with \<open>map_of\<close>, written
    with \<open>AList.update\<close>, \<open>AList.map_entry\<close> and \<open>AList.delete\<close>. Its order is the order the code
    iterates in, which the C++ library leaves unspecified; the list may be in any order, so
    what is proved for every list holds for every order of iteration.
\<close>

section \<open>Library types\<close>

type_synonym ('k, 'v) hash_map = "('k \<times> 'v) list"

text \<open>\<open>dv::Error\<close>: a stable machine readable code and a message for people.\<close>

record error =
  err_code :: string
  err_message :: string

type_synonym 'a result = "error + 'a"

definition mk_error :: "string \<Rightarrow> string \<Rightarrow> error" where
  "mk_error code msg = \<lparr>err_code = code, err_message = msg\<rparr>"

lemma err_code_mk_error [simp]: "err_code (mk_error c m) = c"
  by (simp add: mk_error_def)

definition result_ok :: "'a result \<Rightarrow> bool" where
  "result_ok r = (case r of Inl _ \<Rightarrow> False | Inr _ \<Rightarrow> True)"

definition result_value_or :: "'a result \<Rightarrow> 'a \<Rightarrow> 'a" where
  "result_value_or r fallback = (case r of Inr v \<Rightarrow> v | Inl _ \<Rightarrow> fallback)"

section \<open>Machine integers\<close>

text \<open>\<open>int\<close> and \<open>std::int64_t\<close> are integers kept in range by the casts the code writes:
  \<open>static_cast<int>\<close> keeps the low 32 bits, read as two's complement. Division truncates.\<close>

definition to_int32 :: "int \<Rightarrow> int" where
  "to_int32 i = (i + 2 ^ 31) mod 2 ^ 32 - 2 ^ 31"

definition to_int64 :: "int \<Rightarrow> int" where
  "to_int64 i = (i + 2 ^ 63) mod 2 ^ 64 - 2 ^ 63"

definition is_int32 :: "int \<Rightarrow> bool" where
  "is_int32 i \<longleftrightarrow> - (2 ^ 31) \<le> i \<and> i < 2 ^ 31"

definition is_int64 :: "int \<Rightarrow> bool" where
  "is_int64 i \<longleftrightarrow> - (2 ^ 63) \<le> i \<and> i < 2 ^ 63"

lemma to_int32_id [simp]: "is_int32 i \<Longrightarrow> to_int32 i = i"
  by (simp add: is_int32_def to_int32_def)

lemma to_int64_id [simp]: "is_int64 i \<Longrightarrow> to_int64 i = i"
  by (simp add: is_int64_def to_int64_def)

lemma is_int32_64: "is_int32 i \<Longrightarrow> is_int64 i"
  by (simp add: is_int32_def is_int64_def)

lemma is_int32_to_int32 [simp]: "is_int32 (to_int32 i)"
  by (simp add: is_int32_def to_int32_def)

definition trunc_div :: "int \<Rightarrow> int \<Rightarrow> int" where
  "trunc_div a b = sgn a * sgn b * (\<bar>a\<bar> div \<bar>b\<bar>)"

text \<open>A 16 bit word read as signed: the distance of one sequence number from another.\<close>

lemma sint_16_bounds: "- (2 ^ 15) \<le> sint (w :: 16 word)" "sint (w :: 16 word) < 2 ^ 15"
  using sint_greater_eq [of w] sint_lt [of w] by simp_all

lemma nat_sint_16:
  assumes "0 < sint (w :: 16 word)"
  shows "nat (sint w) = unat w"
proof -
  have "uint w = uint (word_of_int (sint w) :: 16 word)" by simp
  also have "\<dots> = sint w mod 2 ^ 16" unfolding uint_word_of_int by simp
  also have "\<dots> = sint w" using assms sint_16_bounds(2) [of w] by simp
  finally show ?thesis by (metis nat_uint_eq)
qed

text \<open>A call that may throw: on the left what \<open>what()\<close> says of the exception.\<close>

type_synonym 'a throwing = "string + 'a"

text \<open>Time points and durations of the steady clock, in nanoseconds.\<close>

type_synonym time = int

definition seconds :: "int \<Rightarrow> time" where "seconds n = n * 1000000000"

definition milliseconds :: "int \<Rightarrow> time" where "milliseconds n = n * 1000000"

section \<open>Theorem collections\<close>

named_theorems store_laws \<open>what a store returns after a write\<close>
named_theorems frame \<open>which part of a state an operation leaves alone\<close>
named_theorems inv_intros \<open>operations keep their invariant\<close>

section \<open>Decimal and hexadecimal printing\<close>

definition digit_char :: "nat \<Rightarrow> char" where
  "digit_char n = (char_of (48 + n) :: char)"

text \<open>\<open>std::to_string\<close> on a non-negative and on any integer.\<close>

fun to_string_nat :: "nat \<Rightarrow> string" where
  "to_string_nat n =
     (if n < 10 then [digit_char n] else to_string_nat (n div 10) @ [digit_char (n mod 10)])"

declare to_string_nat.simps [simp del]

definition to_string_int :: "int \<Rightarrow> string" where
  "to_string_int i = (if i < 0 then CHR ''-'' # to_string_nat (nat (- i)) else to_string_nat (nat i))"

definition parse_digit :: "char \<Rightarrow> nat" where
  "parse_digit c = of_char c - 48"

definition parse_nat :: "string \<Rightarrow> nat" where
  "parse_nat s = foldl (\<lambda>acc c. 10 * acc + parse_digit c) 0 s"

lemma parse_digit_char: "n < 10 \<Longrightarrow> parse_digit (digit_char n) = n"
  by (simp add: parse_digit_def digit_char_def)

lemma parse_to_string_nat [simp]: "parse_nat (to_string_nat n) = n"
proof (induction n rule: to_string_nat.induct)
  case (1 n)
  show ?case
  proof (cases "n < 10")
    case True
    then show ?thesis
      by (subst to_string_nat.simps) (simp add: parse_nat_def parse_digit_char)
  next
    case False
    with "1.IH" have "parse_nat (to_string_nat (n div 10)) = n div 10" by blast
    with False show ?thesis
      by (subst to_string_nat.simps) (simp add: parse_nat_def parse_digit_char)
  qed
qed

lemma to_string_nat_inject [simp]: "to_string_nat m = to_string_nat n \<longleftrightarrow> m = n"
  by (metis parse_to_string_nat)

lemma to_string_nat_nonempty [simp]: "to_string_nat n \<noteq> []"
  by (subst to_string_nat.simps) simp

section \<open>Lists\<close>

text \<open>Replacing in place the first element that satisfies a predicate, which is what the stores
  do through the iterator \<open>std::ranges::find_if\<close> returned.\<close>

fun update_first :: "('a \<Rightarrow> bool) \<Rightarrow> ('a \<Rightarrow> 'a) \<Rightarrow> 'a list \<Rightarrow> 'a list" where
  "update_first P f [] = []"
| "update_first P f (x # xs) = (if P x then f x # xs else x # update_first P f xs)"

lemma length_update_first [simp]: "length (update_first P f xs) = length xs"
  by (induction xs) auto

lemma map_update_first_same:
  "(\<And>x. P x \<Longrightarrow> g (f x) = g x) \<Longrightarrow> map g (update_first P f xs) = map g xs"
  by (induction xs) auto

lemma update_first_noop: "(\<And>x. x \<in> set xs \<Longrightarrow> \<not> P x) \<Longrightarrow> update_first P f xs = xs"
  by (induction xs) auto

lemma set_update_first: "set (update_first P f xs) \<subseteq> set xs \<union> f ` {x \<in> set xs. P x}"
  by (induction xs) auto

lemma find_update_first_same:
  assumes "\<And>x. P x \<Longrightarrow> P (f x)"
  shows "List.find P (update_first P f xs) = map_option f (List.find P xs)"
  using assms by (induction xs) auto

lemma find_update_first_other:
  assumes "\<And>x. P x \<Longrightarrow> \<not> Q x" and "\<And>x. P x \<Longrightarrow> \<not> Q (f x)"
  shows "List.find Q (update_first P f xs) = List.find Q xs"
  using assms by (induction xs) auto

lemma find_None_key: "List.find (\<lambda>x. key x = k) xs = None \<longleftrightarrow> k \<notin> key ` set xs"
  by (auto simp: find_None_iff)

lemma find_Some_key:
  "List.find (\<lambda>x. key x = k) xs = Some y \<Longrightarrow> y \<in> set xs \<and> key y = k"
  by (auto simp: find_Some_iff)

lemma find_distinct_key:
  "distinct (map key xs) \<Longrightarrow> y \<in> set xs \<Longrightarrow> key y = k \<Longrightarrow> List.find (\<lambda>x. key x = k) xs = Some y"
  by (induction xs) (auto simp: image_iff)

lemma find_append_key:
  "List.find P (xs @ ys) = (case List.find P xs of Some x \<Rightarrow> Some x | None \<Rightarrow> List.find P ys)"
  by (induction xs) auto

lemma find_filter_other:
  "(\<And>x. Q x \<Longrightarrow> P x) \<Longrightarrow> List.find Q (filter P xs) = List.find Q xs"
  by (induction xs) auto

lemma find_filter_same: "(\<And>x. Q x \<Longrightarrow> \<not> P x) \<Longrightarrow> List.find Q (filter P xs) = None"
  by (auto simp: find_None_iff)

lemma distinct_map_filter: "distinct (map f xs) \<Longrightarrow> distinct (map f (filter P xs))"
  by (induction xs) auto

lemma filter_update_first:
  assumes "\<And>x. P x \<Longrightarrow> Q (f x) = Q x"
  shows "length (filter Q (update_first P f xs)) = length (filter Q xs)"
  using assms by (induction xs) auto

lemma bex_map_same:
  "(\<And>x. Q (f x) = Q x) \<Longrightarrow> (\<exists>y \<in> set (map f xs). Q y) \<longleftrightarrow> (\<exists>x \<in> set xs. Q x)"
  by (induction xs) auto

text \<open>Erasing the element an iterator found.\<close>

fun erase_first :: "('a \<Rightarrow> bool) \<Rightarrow> 'a list \<Rightarrow> 'a list" where
  "erase_first P [] = []"
| "erase_first P (x # xs) = (if P x then xs else x # erase_first P xs)"

lemma erase_first_key:
  "distinct (map key xs) \<Longrightarrow> erase_first (\<lambda>x. key x = k) xs = filter (\<lambda>x. key x \<noteq> k) xs"
  by (induction xs) (auto simp: image_iff intro!: filter_True [symmetric])

lemma update_first_key:
  "distinct (map key xs) \<Longrightarrow>
     update_first (\<lambda>x. key x = k) f xs = map (\<lambda>x. if key x = k then f x else x) xs"
  by (induction xs) (auto simp: image_iff intro!: map_idI [symmetric])

section \<open>Association lists as hash maps\<close>

lemmas alist_simps [simp] = update_conv' delete_conv' distinct_update distinct_delete

lemma map_of_map_entry [simp]:
  "map_of (AList.map_entry k f xs) = (map_of xs)(k := map_option f (map_of xs k))"
  by (induction xs) (auto simp: fun_eq_iff)

lemma keys_map_entry [simp]: "map fst (AList.map_entry k f xs) = map fst xs"
  by (induction xs) auto

lemma fold_delete: "map_of (fold AList.delete ks m) = map_of m |` (- set ks)"
  by (induction ks arbitrary: m) (auto simp: fun_eq_iff restrict_map_def)

lemma distinct_fold_delete:
  "distinct (map fst m) \<Longrightarrow> distinct (map fst (fold AList.delete ks m))"
  by (induction ks arbitrary: m) (auto simp: distinct_delete)

lemma map_of_append_fresh:
  "map_of xs k = None \<Longrightarrow> map_of (xs @ [(k, v)]) = (map_of xs)(k \<mapsto> v)"
  by (induction xs) (auto simp: fun_eq_iff split: if_splits)

lemma update_fresh: "map_of xs k = None \<Longrightarrow> AList.update k v xs = xs @ [(k, v)]"
  by (induction xs) (auto split: if_splits)

lemma map_of_filter_key:
  "map_of (filter (\<lambda>(k, v). P k) xs) = (\<lambda>k. if P k then map_of xs k else None)"
  by (induction xs) (auto simp: fun_eq_iff)

lemma in_set_map_of: "distinct (map fst xs) \<Longrightarrow> (k, v) \<in> set xs \<longleftrightarrow> map_of xs k = Some v"
  by (auto dest: map_of_SomeD)

section \<open>Machines with an invariant\<close>

text \<open>
  The contract between a step function and a property it keeps, proved once: a run of any
  length from a good state stays good. Every state machine of the development interprets it.
\<close>

locale invariant_machine =
  fixes step :: "'e \<Rightarrow> 's \<Rightarrow> 's"
    and good :: "'s \<Rightarrow> bool"
  assumes step_good: "good s \<Longrightarrow> good (step e s)"
begin

lemma run_good: "good s \<Longrightarrow> good (fold step es s)"
  by (induction es arbitrary: s) (auto intro: step_good)

lemma run_prefix_good: "good s \<Longrightarrow> good (fold step (take n es) s)"
  by (rule run_good)

end

end
