(* ===== verification/Models.thy ===== *)
theory Models
  imports Prelude
begin

text \<open>
  The plain data of \<open>shared/include/dv/models\<close> and \<open>shared/src/models\<close>: accounts' roles and
  restrictions, users, participants, rooms, chat lines, notices and audit entries, with the text
  rules the server applies to what people type. The trimming loops are modelled index by index,
  as written, and shown equal to dropping the white space at both ends.
\<close>

section \<open>Roles and restrictions\<close>

datatype role = User | Admin

definition role_to_string :: "role \<Rightarrow> string" where
  "role_to_string r = (if r = Admin then ''admin'' else ''user'')"

definition role_from_string :: "string \<Rightarrow> role" where
  "role_from_string name = (if name = ''admin'' then Admin else User)"

lemma role_from_to_string [simp]: "role_from_string (role_to_string r) = r"
  by (cases r) (simp_all add: role_from_string_def role_to_string_def)

lemma role_from_string_admin_iff: "role_from_string s = Admin \<longleftrightarrow> s = ''admin''"
  by (simp add: role_from_string_def)

record restrictions =
  r_banned :: bool
  r_muted :: bool
  r_silenced :: bool
  r_screen_share_blocked :: bool

definition no_restrictions :: restrictions where
  "no_restrictions = \<lparr>r_banned = False, r_muted = False, r_silenced = False,
     r_screen_share_blocked = False\<rparr>"

lemma no_restrictions_sel [simp]:
  "\<not> r_banned no_restrictions" "\<not> r_muted no_restrictions"
  "\<not> r_silenced no_restrictions" "\<not> r_screen_share_blocked no_restrictions"
  by (simp_all add: no_restrictions_def)

definition restrictions_any :: "restrictions \<Rightarrow> bool" where
  "restrictions_any r \<longleftrightarrow> r_banned r \<or> r_muted r \<or> r_silenced r \<or> r_screen_share_blocked r"

text \<open>The lambda \<open>append\<close> of \<open>describe\<close>: a space before every name but the first.\<close>

definition append_word :: "string \<Rightarrow> string \<Rightarrow> string" where
  "append_word text name = (if text \<noteq> [] then text @ '' '' else text) @ name"

definition describe :: "restrictions \<Rightarrow> string" where
  "describe r =
    (let text = [];
         text = (if r_banned r then append_word text ''banned'' else text);
         text = (if r_muted r then append_word text ''muted'' else text);
         text = (if r_silenced r then append_word text ''silenced'' else text)
     in (if r_screen_share_blocked r then append_word text ''screen_share_blocked'' else text))"

lemma describe_empty_iff: "describe r = [] \<longleftrightarrow> \<not> restrictions_any r"
  by (simp add: describe_def append_word_def restrictions_any_def)

section \<open>Users and participants\<close>

record user =
  u_id :: string
  u_display_name :: string
  u_avatar :: string
  u_role :: role
  u_restrictions :: restrictions

text \<open>\<open>models::User{}\<close>: every field at its default.\<close>

definition default_user :: user where
  "default_user = \<lparr>u_id = [], u_display_name = [], u_avatar = [], u_role = User,
     u_restrictions = no_restrictions\<rparr>"

definition is_admin :: "user \<Rightarrow> bool" where
  "is_admin u \<longleftrightarrow> u_role u = Admin"

record participant =
  p_user :: user
  p_muted :: bool
  p_muted_by_admin :: bool
  p_sharing_screen :: bool
  p_sharing_audio :: bool

text \<open>\<open>Participant{.user = u}\<close>, the value a join pushes.\<close>

definition new_participant :: "user \<Rightarrow> participant" where
  "new_participant u = \<lparr>p_user = u, p_muted = False, p_muted_by_admin = False,
     p_sharing_screen = False, p_sharing_audio = False\<rparr>"

definition is_control :: "char \<Rightarrow> bool" where
  "is_control c \<longleftrightarrow> of_char c < (32 :: nat) \<or> of_char c = (127 :: nat)"

definition is_valid_display_name :: "string \<Rightarrow> bool" where
  "is_valid_display_name name \<longleftrightarrow> list_all (\<lambda>c. \<not> is_control c) name"

text \<open>\<open>models::user_label\<close>.\<close>

definition user_label :: "string \<Rightarrow> string \<Rightarrow> string \<Rightarrow> string" where
  "user_label uid display_name username =
    (let name = (if display_name = [] then username else display_name)
     in if name = [] then uid
        else if username = [] \<or> name = username then name
        else name @ '' ('' @ username @ '')'')"

section \<open>Text\<close>

definition is_space :: "char \<Rightarrow> bool" where
  "is_space c \<longleftrightarrow> c \<in> {CHR '' '', CHR 0x09, CHR 0x0A, CHR 0x0D, CHR 0x0B, CHR 0x0C}"

text \<open>The two loops of \<open>trim_text\<close>: the first runs \<open>begin\<close> forward, the second runs \<open>end\<close> back
  and never past \<open>begin\<close>.\<close>

function trim_begin :: "string \<Rightarrow> nat \<Rightarrow> nat" where
  "trim_begin s i = (if i < length s \<and> is_space (s ! i) then trim_begin s (Suc i) else i)"
  by pat_completeness auto
termination
  by (relation "measure (\<lambda>(s, i). length s - i)") auto

fun trim_end :: "string \<Rightarrow> nat \<Rightarrow> nat \<Rightarrow> nat" where
  "trim_end s b e = (if b < e \<and> is_space (s ! (e - 1)) then trim_end s b (e - 1) else e)"

declare trim_begin.simps [simp del] trim_end.simps [simp del]

definition substr :: "string \<Rightarrow> nat \<Rightarrow> nat \<Rightarrow> string" where
  "substr s from n = take n (drop from s)"

definition trim_text :: "string \<Rightarrow> string" where
  "trim_text s = (let b = trim_begin s 0; e = trim_end s b (length s) in substr s b (e - b))"

text \<open>\<open>trim_room_name\<close> has its own copy of the loops, with the same body.\<close>

definition trim_room_name :: "string \<Rightarrow> string" where
  "trim_room_name s = (let b = trim_begin s 0; e = trim_end s b (length s) in substr s b (e - b))"

definition trim_chat_text :: "string \<Rightarrow> string" where
  "trim_chat_text s = trim_text s"

definition trim_notice_text :: "string \<Rightarrow> string" where
  "trim_notice_text s = trim_text s"

text \<open>The reference: drop the white space at both ends.\<close>

definition strip :: "string \<Rightarrow> string" where
  "strip s = rev (dropWhile is_space (rev (dropWhile is_space s)))"

lemma trim_begin_spec:
  "i \<le> length s \<Longrightarrow> trim_begin s i = i + length (takeWhile is_space (drop i s))"
proof (induction s i rule: trim_begin.induct)
  case (1 s i)
  show ?case
  proof (cases "i < length s \<and> is_space (s ! i)")
    case True
    with 1 have "trim_begin s (Suc i) = Suc i + length (takeWhile is_space (drop (Suc i) s))"
      by simp
    with True show ?thesis
      by (subst trim_begin.simps) (simp add: Cons_nth_drop_Suc [symmetric])
  next
    case False
    with "1.prems" show ?thesis
      by (subst trim_begin.simps)
        (metis Cons_nth_drop_Suc add.right_neutral drop_all leI list.size(3) takeWhile.simps)
  qed
qed

lemma trim_end_spec:
  assumes "b \<le> e" and "e \<le> length s"
  shows "substr s b (trim_end s b e - b) = rev (dropWhile is_space (rev (substr s b (e - b))))"
  using assms
proof (induction s b e rule: trim_end.induct)
  case (1 s b e)
  show ?case
  proof (cases "b < e")
    case False
    with "1.prems" show ?thesis by (subst trim_end.simps) (simp add: substr_def)
  next
    case True
    then obtain k where k: "e = Suc k" "b \<le> k" by (cases e) auto
    have snoc: "substr s b (e - b) = substr s b (k - b) @ [s ! k]"
      using "1.prems" k True by (simp add: substr_def Suc_diff_le take_Suc_conv_app_nth)
    show ?thesis
    proof (cases "is_space (s ! k)")
      case True
      with \<open>b < e\<close> k have "trim_end s b e = trim_end s b (e - 1)"
        by (subst trim_end.simps) simp
      moreover have "substr s b (trim_end s b (e - 1) - b)
          = rev (dropWhile is_space (rev (substr s b (e - 1 - b))))"
        using "1.IH" \<open>b < e\<close> True k "1.prems" by simp
      ultimately show ?thesis unfolding snoc using True k by simp
    next
      case False
      then have "trim_end s b e = e" using k by (subst trim_end.simps) simp
      with False k show ?thesis unfolding snoc using snoc by simp
    qed
  qed
qed

lemma trim_loops_strip:
  "(let b = trim_begin s 0; e = trim_end s b (length s) in substr s b (e - b)) = strip s"
proof -
  let ?b = "trim_begin s 0"
  have b: "?b = length (takeWhile is_space s)" using trim_begin_spec [of 0 s] by simp
  then have "?b \<le> length s" by (simp add: length_takeWhile_le)
  then have "substr s ?b (trim_end s ?b (length s) - ?b)
      = rev (dropWhile is_space (rev (substr s ?b (length s - ?b))))"
    by (rule trim_end_spec) simp
  moreover have "substr s ?b (length s - ?b) = dropWhile is_space s"
    by (simp add: substr_def b dropWhile_eq_drop)
  ultimately show ?thesis by (simp add: strip_def Let_def)
qed

lemma trim_text_strip: "trim_text s = strip s"
  unfolding trim_text_def by (rule trim_loops_strip)

lemma trim_room_name_strip: "trim_room_name s = strip s"
  unfolding trim_room_name_def by (rule trim_loops_strip)

lemma strip_ends:
  "strip s \<noteq> [] \<Longrightarrow> \<not> is_space (hd (strip s)) \<and> \<not> is_space (last (strip s))"
proof -
  assume ne: "strip s \<noteq> []"
  let ?d = "dropWhile is_space s" and ?r = "dropWhile is_space (rev (dropWhile is_space s))"
  have r: "?r \<noteq> []" using ne by (simp add: strip_def)
  then have "\<not> is_space (hd ?r)" by (rule hd_dropWhile)
  then have l: "\<not> is_space (last (strip s))" using r by (simp add: strip_def last_rev)
  obtain p where "rev ?d = p @ ?r" using takeWhile_dropWhile_id by metis
  then have d: "?d = rev ?r @ rev p" by (metis rev_append rev_rev_ident)
  then have "?d \<noteq> []" using r by (metis append_is_Nil_conv rev_is_Nil_conv)
  then have "\<not> is_space (hd ?d)" by (rule hd_dropWhile)
  moreover have "hd ?d = hd (strip s)" using d r by (metis hd_append2 rev_is_Nil_conv strip_def)
  ultimately show ?thesis using l by simp
qed

lemma strip_id: "s \<noteq> [] \<Longrightarrow> \<not> is_space (hd s) \<Longrightarrow> \<not> is_space (last s) \<Longrightarrow> strip s = s"
proof -
  assume a: "s \<noteq> []" "\<not> is_space (hd s)" "\<not> is_space (last s)"
  then have "dropWhile is_space s = s" by (cases s) auto
  moreover from a have "dropWhile is_space (rev s) = rev s"
    by (metis dropWhile_eq_Cons_conv hd_rev list.collapse rev_is_Nil_conv dropWhile_eq_self_iff)
  ultimately show ?thesis by (simp add: strip_def)
qed

lemma strip_idem [simp]: "strip (strip s) = strip s"
proof (cases "strip s = []")
  case True
  have "strip [] = []" by (simp add: strip_def)
  with True show ?thesis by simp
next
  case False
  then show ?thesis using strip_ends [OF False] strip_id by blast
qed

lemma set_strip: "set (strip s) \<subseteq> set s"
proof
  fix x assume "x \<in> set (strip s)"
  then have "x \<in> set (dropWhile is_space (rev (dropWhile is_space s)))" by (simp add: strip_def)
  then have "x \<in> set (dropWhile is_space s)" by (auto dest: set_dropWhileD)
  then show "x \<in> set s" by (auto dest: set_dropWhileD)
qed

lemma length_strip: "length (strip s) \<le> length s"
  unfolding strip_def by (metis le_trans length_dropWhile_le length_rev)

section \<open>Chat lines, notices and audit entries\<close>

record chat_message =
  cm_id :: string
  cm_room_id :: string
  cm_user_id :: string
  cm_display_name :: string
  cm_text :: string
  cm_timestamp_seconds :: int

definition kMaxChatTextBytes :: nat where
  "kMaxChatTextBytes = 2000"

definition is_valid_chat_text :: "string \<Rightarrow> bool" where
  "is_valid_chat_text text =
    (let trimmed = trim_chat_text text in trimmed \<noteq> [] \<and> length trimmed \<le> kMaxChatTextBytes)"

record notice =
  nt_id :: string
  nt_user_id :: string
  nt_from_user_id :: string
  nt_from_display_name :: string
  nt_text :: string
  nt_created_at :: int
  nt_acknowledged_at :: int

definition acknowledged :: "notice \<Rightarrow> bool" where
  "acknowledged n \<longleftrightarrow> nt_acknowledged_at n \<noteq> 0"

definition kMaxNoticeTextBytes :: nat where
  "kMaxNoticeTextBytes = 500"

definition is_valid_notice_text :: "string \<Rightarrow> bool" where
  "is_valid_notice_text text =
    (let trimmed = trim_notice_text text in trimmed \<noteq> [] \<and> length trimmed \<le> kMaxNoticeTextBytes)"

record audit_entry =
  ae_id :: string
  ae_actor_id :: string
  ae_actor_username :: string
  ae_action :: string
  ae_target_id :: string
  ae_room_id :: string
  ae_detail :: string
  ae_timestamp_seconds :: int

section \<open>Rooms\<close>

definition kDefaultRoomCapacity :: int where "kDefaultRoomCapacity = 5"

definition kMinRoomCapacity :: int where "kMinRoomCapacity = 2"

definition kMaxRoomCapacity :: int where "kMaxRoomCapacity = 50"

definition is_valid_room_capacity :: "int \<Rightarrow> bool" where
  "is_valid_room_capacity c \<longleftrightarrow> c \<ge> kMinRoomCapacity \<and> c \<le> kMaxRoomCapacity"

record room =
  rm_id :: string
  rm_name :: string
  rm_participants :: "participant list"
  rm_owner_id :: string
  rm_persistent :: bool
  rm_capacity :: int

definition p_id :: "participant \<Rightarrow> string" where
  "p_id p = u_id (p_user p)"

text \<open>\<open>static_cast<std::size_t>(capacity)\<close> reads a negative size as a huge one.\<close>

definition room_is_full :: "room \<Rightarrow> bool" where
  "room_is_full r \<longleftrightarrow> int (length (rm_participants r)) \<ge> rm_capacity r mod 2 ^ 64"

definition room_find :: "room \<Rightarrow> string \<Rightarrow> participant option" where
  "room_find r uid = List.find (\<lambda>p. p_id p = uid) (rm_participants r)"

definition room_contains :: "room \<Rightarrow> string \<Rightarrow> bool" where
  "room_contains r uid \<longleftrightarrow> room_find r uid \<noteq> None"

definition screen_sharer :: "room \<Rightarrow> participant option" where
  "screen_sharer r = List.find p_sharing_screen (rm_participants r)"

definition kRoomIdLength :: nat where "kRoomIdLength = 6"

definition is_room_id_char :: "char \<Rightarrow> bool" where
  "is_room_id_char c \<longleftrightarrow>
     (of_char c \<ge> (48 :: nat) \<and> of_char c \<le> (57 :: nat)) \<or>
     (of_char c \<ge> (65 :: nat) \<and> of_char c \<le> (70 :: nat))"

definition is_valid_room_id :: "string \<Rightarrow> bool" where
  "is_valid_room_id rid \<longleftrightarrow>
     (if length rid \<noteq> kRoomIdLength then False else list_all is_room_id_char rid)"

definition kMaxRoomNameBytes :: nat where "kMaxRoomNameBytes = 48"

definition is_valid_room_name :: "string \<Rightarrow> bool" where
  "is_valid_room_name name =
    (let trimmed = trim_room_name name
     in if length trimmed > kMaxRoomNameBytes then False
        else list_all (\<lambda>c. \<not> is_control c) trimmed)"

definition room_label :: "string \<Rightarrow> string \<Rightarrow> string" where
  "room_label rid name = (if name = [] then rid else name)"

definition fold_ascii :: "char \<Rightarrow> char" where
  "fold_ascii c =
    (if of_char c \<ge> (65 :: nat) \<and> of_char c \<le> (90 :: nat) then char_of (of_char c + 32 :: nat) else c)"

definition room_name_key :: "string \<Rightarrow> string" where
  "room_name_key name = map fold_ascii (trim_room_name name)"

lemma room_contains_iff: "room_contains r uid \<longleftrightarrow> uid \<in> p_id ` set (rm_participants r)"
  by (auto simp: room_contains_def room_find_def find_None_key)

lemma room_find_SomeD: "room_find r uid = Some p \<Longrightarrow> p \<in> set (rm_participants r) \<and> p_id p = uid"
  unfolding room_find_def by (rule find_Some_key)

lemma is_space_fold_ascii [simp]: "is_space (fold_ascii c) = is_space c"
proof (cases "of_char c \<ge> (65 :: nat) \<and> of_char c \<le> (90 :: nat)")
  case True
  have "\<not> is_space c" using True by (auto simp: is_space_def)
  moreover have "\<not> is_space (fold_ascii c)"
  proof
    assume "is_space (fold_ascii c)"
    moreover have "of_char (fold_ascii c) = (of_char c + 32 :: nat)"
      using True by (simp add: fold_ascii_def)
    ultimately show False using True by (auto simp: is_space_def)
  qed
  ultimately show ?thesis by simp
next
  case False
  then have "fold_ascii c = c" unfolding fold_ascii_def by (rule if_not_P)
  then show ?thesis by simp
qed

lemma fold_ascii_idem [simp]: "fold_ascii (fold_ascii c) = fold_ascii c"
  by (auto simp: fold_ascii_def)

lemma strip_map_fold: "strip (map fold_ascii s) = map fold_ascii (strip s)"
  by (simp add: strip_def dropWhile_map rev_map comp_def)

lemma room_name_key_trim [simp]: "room_name_key (trim_room_name n) = room_name_key n"
  by (simp add: room_name_key_def trim_room_name_strip)

lemma room_name_key_idem [simp]: "room_name_key (room_name_key n) = room_name_key n"
  by (simp add: room_name_key_def trim_room_name_strip strip_map_fold comp_def)

lemma room_name_key_Nil_iff: "room_name_key n = [] \<longleftrightarrow> trim_room_name n = []"
  by (simp add: room_name_key_def)

section \<open>What the text rules guarantee\<close>

text \<open>What \<open>handle_chat\<close> stores: text that passes \<open>is_valid_chat_text\<close> is, once trimmed, not
  empty, at most 2000 bytes, without white space at either end, made of bytes of what was typed,
  and still valid, so storing and checking can never disagree.\<close>

lemma chat_text_stored_form:
  assumes "is_valid_chat_text t"
  shows "trim_chat_text t \<noteq> [] \<and> length (trim_chat_text t) \<le> 2000
    \<and> \<not> is_space (hd (trim_chat_text t)) \<and> \<not> is_space (last (trim_chat_text t))
    \<and> set (trim_chat_text t) \<subseteq> set t
    \<and> is_valid_chat_text (trim_chat_text t) \<and> trim_chat_text (trim_chat_text t) = trim_chat_text t"
  using assms strip_ends [of t]
  by (simp add: is_valid_chat_text_def trim_chat_text_def trim_text_strip kMaxChatTextBytes_def
      set_strip Let_def)

lemma chat_text_stored_form_witness:
  "trim_chat_text '' hello '' = ''hello'' \<and> is_valid_chat_text (trim_chat_text '' hello '')"
proof -
  have strip: "strip '' hello '' = ''hello''" by (simp add: strip_def is_space_def)
  then have "is_valid_chat_text '' hello ''"
    by (simp add: is_valid_chat_text_def trim_chat_text_def trim_text_strip kMaxChatTextBytes_def
        Let_def)
  from chat_text_stored_form [OF this] strip show ?thesis
    by (simp add: trim_chat_text_def trim_text_strip)
qed

text \<open>The index loops of \<open>trim_text\<close> and \<open>trim_room_name\<close> compute the same function, which is
  dropping the leading and the trailing white space.\<close>

lemma trim_loops_correct:
  "trim_text s = rev (dropWhile is_space (rev (dropWhile is_space s))) \<and> trim_room_name s = trim_text s"
  by (simp add: trim_text_strip trim_room_name_strip strip_def)

end
