(* ===== verification/Protocol.thy ===== *)
theory Protocol
  imports Models
begin

text \<open>
  The wire vocabulary of \<open>shared/include/dv/protocol/message.hpp\<close>: the summaries sent to
  administrators and clients, the 47 alternatives of \<open>protocol::Message\<close> with their fields in
  the order of the structs, the enum \<open>MessageType\<close> (its constructors carry the prefix \<open>MT_\<close>, the
  variant's do not), the table of wire names and \<open>type_of\<close>; and, from
  \<open>server/src/signaling/permissions.hpp\<close>, the one table that says who may send what.
\<close>

section \<open>Summaries\<close>

record user_summary =
  us_user :: user
  us_username :: string
  us_created_at :: int
  us_online :: bool

record room_summary =
  rs_id :: string
  rs_name :: string
  rs_owner_id :: string
  rs_persistent :: bool
  rs_participant_count :: int
  rs_capacity :: int

record session_summary =
  ss_id :: string
  ss_user_id :: string
  ss_ip :: string
  ss_connected_at :: int
  ss_last_seen_at :: int
  ss_ended_at :: int

section \<open>Messages\<close>

text \<open>The address of the media endpoint.\<close>

definition kSfuUserId :: string where "kSfuUserId = ''sfu''"

datatype (plugins only: code) message_type =
    MT_Authenticate
  | MT_Authenticated
  | MT_CreateRoom
  | MT_RoomCreated
  | MT_JoinRoom
  | MT_LeaveRoom
  | MT_UserJoined
  | MT_UserLeft
  | MT_Offer
  | MT_Answer
  | MT_IceCandidate
  | MT_ScreenShareStarted
  | MT_ScreenShareStopped
  | MT_Mute
  | MT_Unmute
  | MT_Nudge
  | MT_ChangePassword
  | MT_PasswordChanged
  | MT_SessionEnded
  | MT_ChatMessage
  | MT_ListChat
  | MT_ChatHistory
  | MT_SendNotice
  | MT_Notice
  | MT_AcknowledgeNotice
  | MT_Error
  | MT_Ping
  | MT_Pong
  | MT_KickUser
  | MT_UserKicked
  | MT_ForceMute
  | MT_RestrictUser
  | MT_UserRestricted
  | MT_ListUsers
  | MT_UserList
  | MT_CreateUser
  | MT_UpdateUser
  | MT_DeleteUser
  | MT_ListRooms
  | MT_RoomList
  | MT_DeleteRoom
  | MT_UpdateRoom
  | MT_ListAudit
  | MT_AuditList
  | MT_ListSessions
  | MT_SessionList
  | MT_EndSession

datatype (plugins only: code) message =
    Authenticate string string \<comment> \<open>username, password\<close>
  | Authenticated user string int \<comment> \<open>user, token, expires_in_seconds\<close>
  | CreateRoom string string bool int \<comment> \<open>user_id, room_name, persistent, capacity\<close>
  | RoomCreated string string int \<comment> \<open>room_id, room_name, capacity\<close>
  | JoinRoom string string string \<comment> \<open>room_id, user_id, display_name\<close>
  | LeaveRoom string string \<comment> \<open>room_id, user_id\<close>
  | UserJoined string user \<comment> \<open>room_id, user\<close>
  | UserLeft string string \<comment> \<open>room_id, user_id\<close>
  | Offer string string string string \<comment> \<open>room_id, from_user_id, to_user_id, sdp\<close>
  | Answer string string string string \<comment> \<open>room_id, from_user_id, to_user_id, sdp\<close>
  | IceCandidate string string string string string int \<comment> \<open>room_id, from_user_id, to_user_id, candidate, sdp_mid, sdp_mline_index\<close>
  | ScreenShareStarted string string bool \<comment> \<open>room_id, user_id, has_audio\<close>
  | ScreenShareStopped string string \<comment> \<open>room_id, user_id\<close>
  | Mute string string string \<comment> \<open>room_id, user_id, by_user_id\<close>
  | Unmute string string string \<comment> \<open>room_id, user_id, by_user_id\<close>
  | Nudge string string string \<comment> \<open>room_id, from_user_id, to_user_id\<close>
  | ChangePassword string string \<comment> \<open>current_password, new_password\<close>
  | PasswordChanged
  | SessionEnded string \<comment> \<open>reason\<close>
  | ChatMessage chat_message \<comment> \<open>message\<close>
  | ListChat string int \<comment> \<open>room_id, limit\<close>
  | ChatHistory string "chat_message list" \<comment> \<open>room_id, messages\<close>
  | SendNotice string string \<comment> \<open>user_id, text\<close>
  | Notice notice \<comment> \<open>notice\<close>
  | AcknowledgeNotice string \<comment> \<open>notice_id\<close>
  | ErrorMessage string string \<comment> \<open>code, message\<close>
  | Ping string \<comment> \<open>nonce\<close>
  | Pong string \<comment> \<open>nonce\<close>
  | KickUser string string string \<comment> \<open>room_id, user_id, reason\<close>
  | UserKicked string string string \<comment> \<open>room_id, user_id, reason\<close>
  | ForceMute string string bool \<comment> \<open>room_id, user_id, muted\<close>
  | RestrictUser string "bool option" "bool option" "bool option" "bool option" string \<comment> \<open>user_id, banned, muted, silenced, screen_share_blocked, reason\<close>
  | UserRestricted string restrictions string string string \<comment> \<open>user_id, restrictions, by_user_id, reason, room_id\<close>
  | ListUsers
  | UserList "user_summary list" \<comment> \<open>users\<close>
  | CreateUser string string string role \<comment> \<open>username, password, display_name, role\<close>
  | UpdateUser string "role option" "string option" "string option" \<comment> \<open>user_id, role, display_name, password\<close>
  | DeleteUser string \<comment> \<open>user_id\<close>
  | ListRooms
  | RoomList "room_summary list" \<comment> \<open>rooms\<close>
  | DeleteRoom string \<comment> \<open>room_id\<close>
  | UpdateRoom string int \<comment> \<open>room_id, capacity\<close>
  | ListAudit int string \<comment> \<open>limit, actor_id\<close>
  | AuditList "audit_entry list" \<comment> \<open>entries\<close>
  | ListSessions int \<comment> \<open>limit\<close>
  | SessionList "session_summary list" \<comment> \<open>sessions\<close>
  | EndSession string string \<comment> \<open>user_id, reason\<close>

section \<open>Wire names\<close>

definition kTypeMappings :: "(message_type \<times> string) list" where
  "kTypeMappings = [
    (MT_Authenticate, ''authenticate''),
    (MT_Authenticated, ''authenticated''),
    (MT_CreateRoom, ''create_room''),
    (MT_RoomCreated, ''room_created''),
    (MT_JoinRoom, ''join_room''),
    (MT_LeaveRoom, ''leave_room''),
    (MT_UserJoined, ''user_joined''),
    (MT_UserLeft, ''user_left''),
    (MT_Offer, ''offer''),
    (MT_Answer, ''answer''),
    (MT_IceCandidate, ''ice_candidate''),
    (MT_ScreenShareStarted, ''screen_share_started''),
    (MT_ScreenShareStopped, ''screen_share_stopped''),
    (MT_Mute, ''mute''),
    (MT_Unmute, ''unmute''),
    (MT_Nudge, ''nudge''),
    (MT_ChangePassword, ''change_password''),
    (MT_PasswordChanged, ''password_changed''),
    (MT_SessionEnded, ''session_ended''),
    (MT_ChatMessage, ''chat_message''),
    (MT_ListChat, ''list_chat''),
    (MT_ChatHistory, ''chat_history''),
    (MT_SendNotice, ''send_notice''),
    (MT_Notice, ''notice''),
    (MT_AcknowledgeNotice, ''acknowledge_notice''),
    (MT_Error, ''error''),
    (MT_Ping, ''ping''),
    (MT_Pong, ''pong''),
    (MT_KickUser, ''kick_user''),
    (MT_UserKicked, ''user_kicked''),
    (MT_ForceMute, ''force_mute''),
    (MT_RestrictUser, ''restrict_user''),
    (MT_UserRestricted, ''user_restricted''),
    (MT_ListUsers, ''list_users''),
    (MT_UserList, ''user_list''),
    (MT_CreateUser, ''create_user''),
    (MT_UpdateUser, ''update_user''),
    (MT_DeleteUser, ''delete_user''),
    (MT_ListRooms, ''list_rooms''),
    (MT_RoomList, ''room_list''),
    (MT_DeleteRoom, ''delete_room''),
    (MT_UpdateRoom, ''update_room''),
    (MT_ListAudit, ''list_audit''),
    (MT_AuditList, ''audit_list''),
    (MT_ListSessions, ''list_sessions''),
    (MT_SessionList, ''session_list''),
    (MT_EndSession, ''end_session'')]"

definition type_name :: "message_type \<Rightarrow> string" where
  "type_name t = (case List.find (\<lambda>m. fst m = t) kTypeMappings of
     Some m \<Rightarrow> snd m | None \<Rightarrow> ''unknown'')"

definition type_from_name :: "string \<Rightarrow> message_type option" where
  "type_from_name name = map_option fst (List.find (\<lambda>m. snd m = name) kTypeMappings)"

fun type_of :: "message \<Rightarrow> message_type" where
  "type_of (Authenticate _ _) = MT_Authenticate"
| "type_of (Authenticated _ _ _) = MT_Authenticated"
| "type_of (CreateRoom _ _ _ _) = MT_CreateRoom"
| "type_of (RoomCreated _ _ _) = MT_RoomCreated"
| "type_of (JoinRoom _ _ _) = MT_JoinRoom"
| "type_of (LeaveRoom _ _) = MT_LeaveRoom"
| "type_of (UserJoined _ _) = MT_UserJoined"
| "type_of (UserLeft _ _) = MT_UserLeft"
| "type_of (Offer _ _ _ _) = MT_Offer"
| "type_of (Answer _ _ _ _) = MT_Answer"
| "type_of (IceCandidate _ _ _ _ _ _) = MT_IceCandidate"
| "type_of (ScreenShareStarted _ _ _) = MT_ScreenShareStarted"
| "type_of (ScreenShareStopped _ _) = MT_ScreenShareStopped"
| "type_of (Mute _ _ _) = MT_Mute"
| "type_of (Unmute _ _ _) = MT_Unmute"
| "type_of (Nudge _ _ _) = MT_Nudge"
| "type_of (ChangePassword _ _) = MT_ChangePassword"
| "type_of PasswordChanged = MT_PasswordChanged"
| "type_of (SessionEnded _) = MT_SessionEnded"
| "type_of (ChatMessage _) = MT_ChatMessage"
| "type_of (ListChat _ _) = MT_ListChat"
| "type_of (ChatHistory _ _) = MT_ChatHistory"
| "type_of (SendNotice _ _) = MT_SendNotice"
| "type_of (Notice _) = MT_Notice"
| "type_of (AcknowledgeNotice _) = MT_AcknowledgeNotice"
| "type_of (ErrorMessage _ _) = MT_Error"
| "type_of (Ping _) = MT_Ping"
| "type_of (Pong _) = MT_Pong"
| "type_of (KickUser _ _ _) = MT_KickUser"
| "type_of (UserKicked _ _ _) = MT_UserKicked"
| "type_of (ForceMute _ _ _) = MT_ForceMute"
| "type_of (RestrictUser _ _ _ _ _ _) = MT_RestrictUser"
| "type_of (UserRestricted _ _ _ _ _) = MT_UserRestricted"
| "type_of ListUsers = MT_ListUsers"
| "type_of (UserList _) = MT_UserList"
| "type_of (CreateUser _ _ _ _) = MT_CreateUser"
| "type_of (UpdateUser _ _ _ _) = MT_UpdateUser"
| "type_of (DeleteUser _) = MT_DeleteUser"
| "type_of ListRooms = MT_ListRooms"
| "type_of (RoomList _) = MT_RoomList"
| "type_of (DeleteRoom _) = MT_DeleteRoom"
| "type_of (UpdateRoom _ _) = MT_UpdateRoom"
| "type_of (ListAudit _ _) = MT_ListAudit"
| "type_of (AuditList _) = MT_AuditList"
| "type_of (ListSessions _) = MT_ListSessions"
| "type_of (SessionList _) = MT_SessionList"
| "type_of (EndSession _ _) = MT_EndSession"

lemma kTypeMappings_distinct:
  "distinct (map fst kTypeMappings)" "distinct (map snd kTypeMappings)"
  by (simp_all add: kTypeMappings_def)

lemma kTypeMappings_total: "\<exists>n. (t, n) \<in> set kTypeMappings"
  by (cases t) (auto simp: kTypeMappings_def)

section \<open>The permission table\<close>

datatype access = AccAuthenticated | AccAdminOnly | AccServerToClient

fun access_for :: "message_type \<Rightarrow> access" where
  "access_for MT_Authenticate = AccAuthenticated"
| "access_for MT_CreateRoom = AccAuthenticated"
| "access_for MT_JoinRoom = AccAuthenticated"
| "access_for MT_LeaveRoom = AccAuthenticated"
| "access_for MT_Offer = AccAuthenticated"
| "access_for MT_Answer = AccAuthenticated"
| "access_for MT_IceCandidate = AccAuthenticated"
| "access_for MT_ScreenShareStarted = AccAuthenticated"
| "access_for MT_ScreenShareStopped = AccAuthenticated"
| "access_for MT_Mute = AccAuthenticated"
| "access_for MT_Unmute = AccAuthenticated"
| "access_for MT_Nudge = AccAuthenticated"
| "access_for MT_ChangePassword = AccAuthenticated"
| "access_for MT_ChatMessage = AccAuthenticated"
| "access_for MT_ListChat = AccAuthenticated"
| "access_for MT_AcknowledgeNotice = AccAuthenticated"
| "access_for MT_Ping = AccAuthenticated"
| "access_for MT_Pong = AccAuthenticated"
| "access_for MT_ListRooms = AccAuthenticated"
| "access_for MT_KickUser = AccAdminOnly"
| "access_for MT_ForceMute = AccAdminOnly"
| "access_for MT_RestrictUser = AccAdminOnly"
| "access_for MT_ListUsers = AccAdminOnly"
| "access_for MT_CreateUser = AccAdminOnly"
| "access_for MT_UpdateUser = AccAdminOnly"
| "access_for MT_DeleteUser = AccAdminOnly"
| "access_for MT_DeleteRoom = AccAdminOnly"
| "access_for MT_UpdateRoom = AccAdminOnly"
| "access_for MT_ListAudit = AccAdminOnly"
| "access_for MT_ListSessions = AccAdminOnly"
| "access_for MT_EndSession = AccAdminOnly"
| "access_for MT_SendNotice = AccAdminOnly"
| "access_for MT_Authenticated = AccServerToClient"
| "access_for MT_RoomCreated = AccServerToClient"
| "access_for MT_UserJoined = AccServerToClient"
| "access_for MT_UserLeft = AccServerToClient"
| "access_for MT_UserKicked = AccServerToClient"
| "access_for MT_UserRestricted = AccServerToClient"
| "access_for MT_PasswordChanged = AccServerToClient"
| "access_for MT_SessionEnded = AccServerToClient"
| "access_for MT_ChatHistory = AccServerToClient"
| "access_for MT_Notice = AccServerToClient"
| "access_for MT_UserList = AccServerToClient"
| "access_for MT_RoomList = AccServerToClient"
| "access_for MT_AuditList = AccServerToClient"
| "access_for MT_SessionList = AccServerToClient"
| "access_for MT_Error = AccServerToClient"

definition is_allowed :: "role \<Rightarrow> message_type \<Rightarrow> bool" where
  "is_allowed r t = (case access_for t of
     AccAuthenticated \<Rightarrow> True
   | AccAdminOnly \<Rightarrow> r = Admin
   | AccServerToClient \<Rightarrow> False)"

text \<open>The wire names are a bijection: every message type is named, no two share a name, and
  reading a name back gives the type it was written for; a string that is no type's name is
  refused.\<close>

lemma type_name_roundtrip:
  "type_from_name (type_name t) = Some t
    \<and> (\<forall>s u. type_from_name s = Some u \<longleftrightarrow> s = type_name u)"
proof -
  have name: "type_name t = n \<longleftrightarrow> (t, n) \<in> set kTypeMappings" for t n
  proof -
    obtain m where m: "(t, m) \<in> set kTypeMappings" using kTypeMappings_total by blast
    then have "List.find (\<lambda>x. fst x = t) kTypeMappings = Some (t, m)"
      using find_distinct_key [OF kTypeMappings_distinct(1) m refl] by simp
    then have "type_name t = m" by (simp add: type_name_def)
    then show ?thesis
      using m kTypeMappings_distinct(1) by (auto dest: eq_key_imp_eq_value)
  qed
  have from_name: "type_from_name s = Some u \<longleftrightarrow> (u, s) \<in> set kTypeMappings" for s u
  proof
    assume "type_from_name s = Some u"
    then show "(u, s) \<in> set kTypeMappings"
      by (auto simp: type_from_name_def dest: find_Some_key)
  next
    assume m: "(u, s) \<in> set kTypeMappings"
    then show "type_from_name s = Some u"
      using find_distinct_key [OF kTypeMappings_distinct(2) m refl] by (simp add: type_from_name_def)
  qed
  have "type_from_name s = Some u \<longleftrightarrow> s = type_name u" for s u
    unfolding from_name using name [of u s] by (simp add: eq_commute)
  then show ?thesis by simp
qed

text \<open>The permission table grants an administrator every message but those only the server sends,
  and an ordinary user exactly the same less the thirteen administrative ones.\<close>

lemma permission_table:
  "(is_allowed Admin t \<longleftrightarrow> access_for t \<noteq> AccServerToClient)
    \<and> (is_allowed User t \<longleftrightarrow> is_allowed Admin t \<and> t \<notin> {MT_KickUser, MT_ForceMute, MT_RestrictUser,
        MT_ListUsers, MT_CreateUser, MT_UpdateUser, MT_DeleteUser, MT_DeleteRoom, MT_UpdateRoom,
        MT_ListAudit, MT_ListSessions, MT_EndSession, MT_SendNotice})"
  by (cases t) (simp_all add: is_allowed_def)

end
