(* ===== verification/Stores.thy ===== *)
theory Stores
  imports Models "HOL-Library.Product_Lexorder"
begin

text \<open>
  The six stores of \<open>server/src/store\<close>: what each promises (the abstract classes \<open>UserStore\<close>,
  \<open>RoomStore\<close>, \<open>ChatStore\<close>, \<open>NoticeStore\<close>, \<open>SessionStore\<close>, \<open>AuditLog\<close>, as locales) and the
  in-memory implementations of \<open>memory_store.cpp\<close>, which are the product when the server is built
  without a database. A write returns what the code returns beside the new store; \<open>wall\<close> is the
  answer of \<open>unix_seconds_now()\<close>. Identifiers are drawn from a counter kept as a natural number.
\<close>

section \<open>Loops the stores share\<close>

text \<open>The walk that pushes matching elements until enough of them are there.\<close>

fun collect :: "nat \<Rightarrow> ('a \<Rightarrow> bool) \<Rightarrow> 'a list \<Rightarrow> 'a list" where
  "collect n P [] = []"
| "collect n P (x # xs) =
     (if n = 0 then [] else if P x then x # collect (n - 1) P xs else collect n P xs)"

lemma collect_0 [simp]: "collect 0 P xs = []"
  by (cases xs) auto

lemma collect_eq: "collect n P xs = take n (filter P xs)"
  by (induction xs arbitrary: n) (auto simp: take_Cons')

text \<open>The walk from the front that erases elements in surplus while they match; what is left of
  the surplus comes back beside the list.\<close>

fun erase_surplus :: "('a \<Rightarrow> bool) \<Rightarrow> nat \<Rightarrow> 'a list \<Rightarrow> 'a list \<times> nat" where
  "erase_surplus P n [] = ([], n)"
| "erase_surplus P n (x # xs) =
     (if n = 0 then (x # xs, 0)
      else if P x then erase_surplus P (n - 1) xs
      else (let (ys, k) = erase_surplus P n xs in (x # ys, k)))"

lemma erase_surplus_0 [simp]: "erase_surplus P 0 xs = (xs, 0)"
  by (cases xs) auto

lemma erase_surplus_count:
  "erase_surplus P n xs = (ys, k) \<Longrightarrow>
     k = n - length (filter P xs) \<and> length ys = length xs - (n - k) \<and> k \<le> n
     \<and> n - k \<le> length xs"
proof (induction xs arbitrary: n ys k)
  case Nil
  then show ?case by simp
next
  case (Cons x xs)
  show ?case
  proof (cases "n = 0")
    case True
    with Cons.prems show ?thesis by simp
  next
    case n: False
    show ?thesis
    proof (cases "P x")
      case True
      with n Cons.prems have "erase_surplus P (n - 1) xs = (ys, k)" by simp
      from Cons.IH [OF this] n True show ?thesis by (auto simp: Suc_diff_le)
    next
      case False
      with n Cons.prems obtain zs where zs: "erase_surplus P n xs = (zs, k)" and "ys = x # zs"
        by (auto split: prod.splits)
      from Cons.IH [OF zs] False \<open>ys = x # zs\<close> show ?thesis by (auto simp: Suc_diff_le)
    qed
  qed
qed

lemma erase_surplus_keeps:
  "erase_surplus P n xs = (ys, k) \<Longrightarrow> filter (\<lambda>x. \<not> P x) ys = filter (\<lambda>x. \<not> P x) xs"
proof (induction xs arbitrary: n ys k)
  case (Cons x xs)
  then show ?case by (auto split: if_splits prod.splits)
qed simp

lemma erase_surplus_subset: "erase_surplus P n xs = (ys, k) \<Longrightarrow> set ys \<subseteq> set xs"
proof (induction xs arbitrary: n ys k)
  case (Cons x xs)
  then show ?case by (fastforce split: if_splits prod.splits)
qed simp

definition not_found :: "string \<Rightarrow> error" where
  "not_found what = mk_error (what @ ''_not_found'') ''no such record''"

section \<open>Limits\<close>

text \<open>The three \<open>clamp_..._limit\<close> functions share one contract.\<close>

locale clamped_limit =
  fixes clamp :: "int \<Rightarrow> int" and dflt mx :: int
  assumes clamp_default: "n \<le> 0 \<Longrightarrow> clamp n = dflt"
    and clamp_mid: "0 < n \<Longrightarrow> n \<le> mx \<Longrightarrow> clamp n = n"
    and clamp_over: "mx < n \<Longrightarrow> clamp n = mx"
    and default_range: "0 < dflt" "dflt \<le> mx"
begin

lemma clamp_range: "1 \<le> clamp n \<and> clamp n \<le> mx"
proof -
  consider "n \<le> 0" | "0 < n" "n \<le> mx" | "mx < n" by linarith
  then show ?thesis
    using default_range by cases (auto simp: clamp_default clamp_mid clamp_over)
qed

lemma clamp_idem: "clamp (clamp n) = clamp n"
proof -
  have "0 < clamp n" and "clamp n \<le> mx" using clamp_range [of n] by auto
  then show ?thesis by (rule clamp_mid)
qed

end

definition clamp_chat_limit :: "int \<Rightarrow> int" where
  "clamp_chat_limit requested =
    (if requested \<le> 0 then 100 else if requested > 500 then 500 else requested)"

definition clamp_session_limit :: "int \<Rightarrow> int" where
  "clamp_session_limit requested =
    (if requested \<le> 0 then 200 else if requested > 2000 then 2000 else requested)"

definition clamp_audit_limit :: "int \<Rightarrow> int" where
  "clamp_audit_limit requested =
    (if requested \<le> 0 then 100 else if requested > 500 then 500 else requested)"

interpretation chat_limit: clamped_limit clamp_chat_limit 100 500
  by unfold_locales (auto simp: clamp_chat_limit_def)

interpretation session_limit: clamped_limit clamp_session_limit 200 2000
  by unfold_locales (auto simp: clamp_session_limit_def)

interpretation audit_limit: clamped_limit clamp_audit_limit 100 500
  by unfold_locales (auto simp: clamp_audit_limit_def)

section \<open>Accounts\<close>

record account =
  ac_user :: user
  ac_username :: string
  ac_salt_hex :: string
  ac_password_hash_hex :: string
  ac_created_at :: int
  ac_session_end_requested_at :: int

definition ac_id :: "account \<Rightarrow> string" where
  "ac_id a = u_id (ac_user a)"

definition ac_role :: "account \<Rightarrow> role" where
  "ac_role a = u_role (ac_user a)"

type_synonym user_store = "account list"

definition users_find_by_username :: "user_store \<Rightarrow> string \<Rightarrow> account option" where
  "users_find_by_username s name = List.find (\<lambda>a. ac_username a = name) s"

definition users_find_by_id :: "user_store \<Rightarrow> string \<Rightarrow> account option" where
  "users_find_by_id s uid = List.find (\<lambda>a. ac_id a = uid) s"

definition users_create :: "int \<Rightarrow> account \<Rightarrow> user_store \<Rightarrow> error option \<times> user_store" where
  "users_create wall a s =
    (if list_ex (\<lambda>other. ac_username other = ac_username a) s
     then (Some (mk_error ''user_exists'' ''username is already taken''), s)
     else (let a = (if ac_created_at a = 0 then a\<lparr>ac_created_at := wall\<rparr> else a)
           in (None, s @ [a])))"

definition users_list :: "user_store \<Rightarrow> account list" where
  "users_list s = s"

definition users_update :: "account \<Rightarrow> user_store \<Rightarrow> error option \<times> user_store" where
  "users_update a s =
    (case users_find_by_id s (ac_id a) of
       None \<Rightarrow> (Some (not_found ''user''), s)
     | Some it \<Rightarrow> (None, update_first (\<lambda>other. ac_id other = ac_id a)
                          (\<lambda>_. a\<lparr>ac_created_at := ac_created_at it\<rparr>) s))"

definition users_remove :: "string \<Rightarrow> user_store \<Rightarrow> error option \<times> user_store" where
  "users_remove uid s =
    (if filter (\<lambda>a. ac_id a = uid) s = [] then (Some (not_found ''user''), s)
     else (None, filter (\<lambda>a. ac_id a \<noteq> uid) s))"

definition users_count_with_role :: "user_store \<Rightarrow> role \<Rightarrow> nat" where
  "users_count_with_role s r = length (filter (\<lambda>a. ac_role a = r) s)"

text \<open>What \<open>UserStore\<close> promises its two clients, the authenticator and the hub.\<close>

locale account_store =
  fixes create :: "int \<Rightarrow> account \<Rightarrow> 's \<Rightarrow> error option \<times> 's"
    and by_name :: "'s \<Rightarrow> string \<Rightarrow> account option"
    and by_id :: "'s \<Rightarrow> string \<Rightarrow> account option"
    and upd :: "account \<Rightarrow> 's \<Rightarrow> error option \<times> 's"
    and remove :: "string \<Rightarrow> 's \<Rightarrow> error option \<times> 's"
    and count :: "'s \<Rightarrow> role \<Rightarrow> nat"
  assumes by_id_id: "by_id s i = Some a \<Longrightarrow> ac_id a = i"
    and by_name_name: "by_name s n = Some a \<Longrightarrow> ac_username a = n"
    and create_taken: "by_name s (ac_username a) = Some b \<Longrightarrow>
      create w a s = (Some (mk_error ''user_exists'' ''username is already taken''), s)"
    and create_free: "by_name s (ac_username a) = None \<Longrightarrow> fst (create w a s) = None
      \<and> by_name (snd (create w a s)) (ac_username a)
          = Some (if ac_created_at a = 0 then a\<lparr>ac_created_at := w\<rparr> else a)"
    and create_id_kept: "by_id s i = Some b \<Longrightarrow> by_id (snd (create w a s)) i = Some b"
    and create_count: "count s r \<le> count (snd (create w a s)) r"
    and update_missing: "by_id s (ac_id a) = None \<Longrightarrow> upd a s = (Some (not_found ''user''), s)"
    and update_same: "by_id s (ac_id a) = Some b \<Longrightarrow> fst (upd a s) = None
      \<and> by_id (snd (upd a s)) (ac_id a) = Some (a\<lparr>ac_created_at := ac_created_at b\<rparr>)"
    and update_other: "i \<noteq> ac_id a \<Longrightarrow> by_id (snd (upd a s)) i = by_id s i"
    and update_count: "by_id s (ac_id a) = Some b \<Longrightarrow> ac_role a = ac_role b \<Longrightarrow>
      count (snd (upd a s)) r = count s r"
    and remove_missing: "by_id s i = None \<Longrightarrow> remove i s = (Some (not_found ''user''), s)"
    and remove_same: "by_id s i = Some b \<Longrightarrow> fst (remove i s) = None"
    and remove_gone: "by_id (snd (remove i s)) i = None"
    and remove_other: "j \<noteq> i \<Longrightarrow> by_id (snd (remove i s)) j = by_id s j"
    and count_pos: "by_id s i = Some a \<Longrightarrow> 0 < count s (ac_role a)"
begin

lemma update_other_admin:
  assumes "by_id s i = Some a" and "ac_role a = Admin" and "i \<noteq> ac_id b"
  shows "0 < count (snd (upd b s)) Admin"
  using assms by (metis count_pos update_other)

lemma remove_other_admin:
  assumes "by_id s i = Some a" and "ac_role a = Admin" and "i \<noteq> j"
  shows "0 < count (snd (remove j s)) Admin"
  using assms by (metis count_pos remove_other)

lemma update_keeps_admins:
  assumes "0 < count s Admin" and "by_id s (ac_id a) = Some b" and "ac_role a = ac_role b"
  shows "0 < count (snd (upd a s)) Admin"
  using assms by (simp add: update_count)

lemma create_keeps_admins: "0 < count s Admin \<Longrightarrow> 0 < count (snd (create w a s)) Admin"
  by (meson create_count less_le_trans)

end

lemma users_create_snd:
  "snd (users_create w a s) = s \<or> (\<exists>b. snd (users_create w a s) = s @ [b] \<and> ac_id b = ac_id a)"
  by (auto simp: users_create_def Let_def ac_id_def)

interpretation mem_users: account_store users_create users_find_by_username users_find_by_id
  users_update users_remove users_count_with_role
proof
  fix s i a b n w r j
  show "users_find_by_id s i = Some a \<Longrightarrow> ac_id a = i"
    by (auto simp: users_find_by_id_def dest: find_Some_key)
  show "users_find_by_username s n = Some a \<Longrightarrow> ac_username a = n"
    by (auto simp: users_find_by_username_def dest: find_Some_key)
  show "users_find_by_username s (ac_username a) = Some b \<Longrightarrow>
      users_create w a s = (Some (mk_error ''user_exists'' ''username is already taken''), s)"
    by (auto simp: users_find_by_username_def users_create_def list_ex_iff find_Some_iff
        dest: nth_mem)
  show "users_find_by_username s (ac_username a) = None \<Longrightarrow> fst (users_create w a s) = None
      \<and> users_find_by_username (snd (users_create w a s)) (ac_username a)
          = Some (if ac_created_at a = 0 then a\<lparr>ac_created_at := w\<rparr> else a)"
    by (auto simp: users_find_by_username_def users_create_def list_ex_iff find_None_iff
        find_append_key split: option.splits)
      (auto simp: find_Some_iff dest: nth_mem)
  show "users_find_by_id s i = Some b \<Longrightarrow> users_find_by_id (snd (users_create w a s)) i = Some b"
    by (auto simp: users_find_by_id_def users_create_def find_append_key Let_def)
  show "users_count_with_role s r \<le> users_count_with_role (snd (users_create w a s)) r"
    by (simp add: users_create_def users_count_with_role_def Let_def)
  show "users_find_by_id s (ac_id a) = None \<Longrightarrow> users_update a s = (Some (not_found ''user''), s)"
    by (simp add: users_update_def)
  show "users_find_by_id s (ac_id a) = Some b \<Longrightarrow> fst (users_update a s) = None
      \<and> users_find_by_id (snd (users_update a s)) (ac_id a)
          = Some (a\<lparr>ac_created_at := ac_created_at b\<rparr>)"
    by (simp add: users_update_def users_find_by_id_def find_update_first_same ac_id_def)
  show "i \<noteq> ac_id a \<Longrightarrow> users_find_by_id (snd (users_update a s)) i = users_find_by_id s i"
    by (auto simp: users_update_def users_find_by_id_def ac_id_def split: option.splits
        intro!: find_update_first_other)
  show "users_find_by_id s (ac_id a) = Some b \<Longrightarrow> ac_role a = ac_role b \<Longrightarrow>
      users_count_with_role (snd (users_update a s)) r = users_count_with_role s r"
  proof -
    assume f: "users_find_by_id s (ac_id a) = Some b" and role: "ac_role a = ac_role b"
    have *: "List.find P xs = Some b \<Longrightarrow>
      length (filter (\<lambda>x. ac_role x = r) (update_first P (\<lambda>_. a\<lparr>ac_created_at := t\<rparr>) xs))
        = length (filter (\<lambda>x. ac_role x = r) xs)" for P xs t
      using role by (induction xs) (auto simp: ac_role_def split: if_splits)
    then show ?thesis
      using f by (simp add: users_update_def users_count_with_role_def users_find_by_id_def)
  qed
  show "users_find_by_id s i = None \<Longrightarrow> users_remove i s = (Some (not_found ''user''), s)"
    by (auto simp: users_remove_def users_find_by_id_def find_None_iff filter_empty_conv)
  show "users_find_by_id s i = Some b \<Longrightarrow> fst (users_remove i s) = None"
    by (auto simp: users_remove_def users_find_by_id_def filter_empty_conv dest: find_Some_key)
  show "users_find_by_id (snd (users_remove i s)) i = None"
    by (auto simp: users_remove_def users_find_by_id_def find_None_iff filter_empty_conv)
  show "j \<noteq> i \<Longrightarrow> users_find_by_id (snd (users_remove i s)) j = users_find_by_id s j"
    by (auto simp: users_remove_def users_find_by_id_def intro!: find_filter_other)
  show "users_find_by_id s i = Some a \<Longrightarrow> 0 < users_count_with_role s (ac_role a)"
    by (auto simp: users_find_by_id_def users_count_with_role_def filter_empty_conv
        dest: find_Some_key)
qed

text \<open>Accounts with one identifier and one name each.\<close>

definition users_wf :: "user_store \<Rightarrow> bool" where
  "users_wf s \<longleftrightarrow> distinct (map ac_id s) \<and> distinct (map ac_username s)"

lemma users_wf_create [inv_intros]:
  "users_wf s \<Longrightarrow> users_find_by_id s (ac_id a) = None \<Longrightarrow> users_wf (snd (users_create w a s))"
  by (auto simp: users_wf_def users_create_def Let_def list_ex_iff users_find_by_id_def
      find_None_iff ac_id_def image_iff)

lemma users_wf_remove [inv_intros]: "users_wf s \<Longrightarrow> users_wf (snd (users_remove i s))"
  by (auto simp: users_wf_def users_remove_def distinct_map_filter)

lemma users_wf_update [inv_intros]:
  assumes "users_wf s"
    and "\<And>b. users_find_by_id s (ac_id a) = Some b \<Longrightarrow> ac_username a = ac_username b"
  shows "users_wf (snd (users_update a s))"
proof (cases "users_find_by_id s (ac_id a)")
  case None
  with assms(1) show ?thesis by (simp add: users_update_def)
next
  case (Some b)
  let ?u = "update_first (\<lambda>other. ac_id other = ac_id a) (\<lambda>_. a\<lparr>ac_created_at := ac_created_at b\<rparr>)"
  have "map ac_id (?u s) = map ac_id s"
    by (rule map_update_first_same) (simp add: ac_id_def)
  moreover have "List.find (\<lambda>x. ac_id x = ac_id a) xs = Some b \<Longrightarrow>
      map ac_username (?u xs) = map ac_username xs" for xs
    using assms(2) [OF Some] by (induction xs) (auto split: if_splits)
  ultimately show ?thesis
    using assms(1) Some by (simp add: users_update_def users_wf_def users_find_by_id_def)
qed

end
