(* ===== verification/RecordStores.thy ===== *)
theory RecordStores
  imports Stores
begin

text \<open>
  The stores of \<open>server/src/store\<close> beside the accounts: rooms, conversations, notices, sessions
  and the audit log, as \<open>memory_store.cpp\<close> keeps them, each with the contract its abstract class
  states as a locale and that contract discharged for the in-memory version.
\<close>

section \<open>Rooms\<close>

record room_record =
  rr_id :: string
  rr_name :: string
  rr_owner_id :: string
  rr_persistent :: bool
  rr_created_at :: int
  rr_capacity :: int

type_synonym room_store = "room_record list"

definition rooms_find :: "room_store \<Rightarrow> string \<Rightarrow> room_record option" where
  "rooms_find s rid = List.find (\<lambda>r. rr_id r = rid) s"

definition rooms_upsert :: "int \<Rightarrow> room_record \<Rightarrow> room_store \<Rightarrow> error option \<times> room_store" where
  "rooms_upsert wall rec s =
    (let rec = (if rr_created_at rec = 0 then rec\<lparr>rr_created_at := wall\<rparr> else rec)
     in case rooms_find s (rr_id rec) of
          None \<Rightarrow> (None, s @ [rec])
        | Some it \<Rightarrow> (None, update_first (\<lambda>other. rr_id other = rr_id rec)
                              (\<lambda>_. rec\<lparr>rr_created_at := rr_created_at it\<rparr>) s))"

definition rooms_list :: "room_store \<Rightarrow> room_record list" where
  "rooms_list s = s"

definition rooms_remove :: "string \<Rightarrow> room_store \<Rightarrow> error option \<times> room_store" where
  "rooms_remove rid s =
    (if filter (\<lambda>r. rr_id r = rid) s = [] then (Some (not_found ''room''), s)
     else (None, filter (\<lambda>r. rr_id r \<noteq> rid) s))"

text \<open>What a room record says apart from when it was made.\<close>

definition rr_content :: "room_record \<Rightarrow> string \<times> string \<times> string \<times> bool \<times> int" where
  "rr_content r = (rr_id r, rr_name r, rr_owner_id r, rr_persistent r, rr_capacity r)"

locale room_archive =
  fixes upsert :: "int \<Rightarrow> room_record \<Rightarrow> 's \<Rightarrow> error option \<times> 's"
    and find :: "'s \<Rightarrow> string \<Rightarrow> room_record option"
    and remove :: "string \<Rightarrow> 's \<Rightarrow> error option \<times> 's"
  assumes find_id: "find s i = Some r \<Longrightarrow> rr_id r = i"
    and upsert_ok: "fst (upsert w r s) = None"
    and upsert_same: "\<exists>r'. find (snd (upsert w r s)) (rr_id r) = Some r' \<and> rr_content r' = rr_content r"
    and upsert_keeps_creation: "find s (rr_id r) = Some b \<Longrightarrow>
      find (snd (upsert w r s)) (rr_id r) = Some (r\<lparr>rr_created_at := rr_created_at b\<rparr>)"
    and upsert_other: "i \<noteq> rr_id r \<Longrightarrow> find (snd (upsert w r s)) i = find s i"
    and remove_gone: "find (snd (remove i s)) i = None"
    and remove_other: "j \<noteq> i \<Longrightarrow> find (snd (remove i s)) j = find s j"
    and remove_missing: "find s i = None \<Longrightarrow> remove i s = (Some (not_found ''room''), s)"
begin

lemma remove_upsert: "find (snd (remove (rr_id r) (snd (upsert w r s)))) (rr_id r) = None"
  by (rule remove_gone)

lemma find_upsert_content:
  "map_option rr_content (find (snd (upsert w r s)) i)
     = (if i = rr_id r then Some (rr_content r) else map_option rr_content (find s i))"
proof (cases "i = rr_id r")
  case True
  with upsert_same [of w r s] show ?thesis by auto
qed (simp add: upsert_other)

lemma find_remove: "find (snd (remove i s)) j = (if j = i then None else find s j)"
  by (simp add: remove_gone remove_other)

end

interpretation mem_rooms: room_archive rooms_upsert rooms_find rooms_remove
proof
  fix s i r w b j
  show "rooms_find s i = Some r \<Longrightarrow> rr_id r = i"
    by (auto simp: rooms_find_def dest: find_Some_key)
  show "fst (rooms_upsert w r s) = None"
    by (simp add: rooms_upsert_def Let_def split: option.splits)
  show "\<exists>r'. rooms_find (snd (rooms_upsert w r s)) (rr_id r) = Some r' \<and> rr_content r' = rr_content r"
    by (auto simp: rooms_upsert_def rooms_find_def Let_def find_append_key find_update_first_same
        rr_content_def split: option.splits)
  show "rooms_find s (rr_id r) = Some b \<Longrightarrow>
      rooms_find (snd (rooms_upsert w r s)) (rr_id r) = Some (r\<lparr>rr_created_at := rr_created_at b\<rparr>)"
    by (auto simp: rooms_upsert_def rooms_find_def Let_def find_update_first_same)
  show "i \<noteq> rr_id r \<Longrightarrow> rooms_find (snd (rooms_upsert w r s)) i = rooms_find s i"
  proof -
    assume ne: "i \<noteq> rr_id r"
    then have "List.find (\<lambda>x. rr_id x = i) (update_first (\<lambda>x. rr_id x = rr_id r)
        (\<lambda>_. r\<lparr>rr_created_at := t\<rparr>) s) = List.find (\<lambda>x. rr_id x = i) s" for t
      by (intro find_update_first_other) auto
    with ne show ?thesis
      by (auto simp: rooms_upsert_def rooms_find_def Let_def find_append_key split: option.splits)
  qed
  show "rooms_find (snd (rooms_remove i s)) i = None"
    by (auto simp: rooms_remove_def rooms_find_def find_None_iff filter_empty_conv)
  show "j \<noteq> i \<Longrightarrow> rooms_find (snd (rooms_remove i s)) j = rooms_find s j"
    by (auto simp: rooms_remove_def rooms_find_def intro!: find_filter_other)
  show "rooms_find s i = None \<Longrightarrow> rooms_remove i s = (Some (not_found ''room''), s)"
    by (auto simp: rooms_remove_def rooms_find_def find_None_iff filter_empty_conv)
qed

section \<open>Conversations\<close>

record chat_store =
  ch_rooms :: "(string, chat_message list) hash_map"
  ch_next_id :: nat

definition empty_chat_store :: chat_store where
  "empty_chat_store = \<lparr>ch_rooms = [], ch_next_id = 1\<rparr>"

definition kCapacityPerRoom :: nat where "kCapacityPerRoom = 1000"

text \<open>\<open>rooms_[room_id]\<close> of a hash map: the entry, or an empty one made on the spot.\<close>

definition chat_room :: "chat_store \<Rightarrow> string \<Rightarrow> chat_message list" where
  "chat_room s rid = (case map_of (ch_rooms s) rid of None \<Rightarrow> [] | Some ms \<Rightarrow> ms)"

definition chat_append :: "int \<Rightarrow> chat_message \<Rightarrow> chat_store \<Rightarrow> chat_message result \<times> chat_store" where
  "chat_append wall m s =
    (let m = m\<lparr>cm_id := to_string_nat (ch_next_id s)\<rparr>;
         m = (if cm_timestamp_seconds m = 0 then m\<lparr>cm_timestamp_seconds := wall\<rparr> else m);
         line = chat_room s (cm_room_id m) @ [m];
         line = (if length line > kCapacityPerRoom
                 then drop (length line - kCapacityPerRoom) line else line)
     in (Inr m, s\<lparr>ch_next_id := Suc (ch_next_id s),
                  ch_rooms := AList.update (cm_room_id m) line (ch_rooms s)\<rparr>))"

definition chat_list :: "chat_store \<Rightarrow> string \<Rightarrow> int \<Rightarrow> chat_message list" where
  "chat_list s rid limit =
    (case map_of (ch_rooms s) rid of
       None \<Rightarrow> []
     | Some line \<Rightarrow>
         (let wanted = nat (clamp_chat_limit limit);
              skipped = (if length line > wanted then length line - wanted else 0)
          in drop skipped line))"

definition chat_clear :: "string \<Rightarrow> chat_store \<Rightarrow> error option \<times> chat_store" where
  "chat_clear rid s = (None, s\<lparr>ch_rooms := AList.delete rid (ch_rooms s)\<rparr>)"

text \<open>What \<open>ChatStore\<close> promises the hub and the room manager.\<close>

locale conversation_store =
  fixes append :: "int \<Rightarrow> chat_message \<Rightarrow> 's \<Rightarrow> chat_message result \<times> 's"
    and history :: "'s \<Rightarrow> string \<Rightarrow> int \<Rightarrow> chat_message list"
    and clear :: "string \<Rightarrow> 's \<Rightarrow> error option \<times> 's"
  assumes append_other: "r \<noteq> cm_room_id m \<Longrightarrow> history (snd (append w m s)) r n = history s r n"
    and append_last: "fst (append w m s) = Inr m' \<Longrightarrow>
      history (snd (append w m s)) (cm_room_id m) n \<noteq> []
      \<and> last (history (snd (append w m s)) (cm_room_id m) n) = m'"
    and append_content: "fst (append w m s) = Inr m' \<Longrightarrow>
      cm_room_id m' = cm_room_id m \<and> cm_user_id m' = cm_user_id m
      \<and> cm_display_name m' = cm_display_name m \<and> cm_text m' = cm_text m"
    and history_bound: "length (history s r n) \<le> nat (clamp_chat_limit n)"
    and clear_gone: "history (snd (clear r s)) r n = []"
    and clear_other: "q \<noteq> r \<Longrightarrow> history (snd (clear r s)) q n = history s q n"
    and clear_ok: "fst (clear r s) = None"
begin

lemma history_at_most: "length (history s r n) \<le> 500"
proof -
  have "clamp_chat_limit n \<le> 500" using chat_limit.clamp_range by blast
  with history_bound [of s r n] show ?thesis by linarith
qed

lemma append_after_clear:
  assumes "fst (append w m (snd (clear (cm_room_id m) s))) = Inr m'"
  shows "last (history (snd (append w m (snd (clear (cm_room_id m) s)))) (cm_room_id m) n) = m'"
  using append_last [OF assms] by blast

end

lemma chat_append_eq:
  "chat_append w m s =
    (let m' = (let m = m\<lparr>cm_id := to_string_nat (ch_next_id s)\<rparr>
               in if cm_timestamp_seconds m = 0 then m\<lparr>cm_timestamp_seconds := w\<rparr> else m);
         line = chat_room s (cm_room_id m) @ [m']
     in (Inr m', s\<lparr>ch_next_id := Suc (ch_next_id s),
                   ch_rooms := AList.update (cm_room_id m)
                     (drop (length line - kCapacityPerRoom) line) (ch_rooms s)\<rparr>))"
  by (simp add: chat_append_def Let_def)

lemma chat_list_window:
  "map_of (ch_rooms s) rid = Some line \<Longrightarrow>
     chat_list s rid n = drop (length line - nat (clamp_chat_limit n)) line"
  by (simp add: chat_list_def Let_def)

lemma last_drop_snoc: "length (xs @ [x]) - k < length (xs @ [x]) \<Longrightarrow>
    drop (length (xs @ [x]) - k) (xs @ [x]) \<noteq> [] \<and> last (drop (length (xs @ [x]) - k) (xs @ [x])) = x"
  by (metis drop_eq_Nil last_drop last_snoc not_le)

interpretation mem_chat: conversation_store chat_append chat_list chat_clear
proof
  fix r q m m' w s n
  show "r \<noteq> cm_room_id m \<Longrightarrow> chat_list (snd (chat_append w m s)) r n = chat_list s r n"
    by (auto simp: chat_append_def chat_list_def Let_def)
  have ge1: "1 \<le> clamp_chat_limit n" using chat_limit.clamp_range by blast
  show "fst (chat_append w m s) = Inr m' \<Longrightarrow>
      chat_list (snd (chat_append w m s)) (cm_room_id m) n \<noteq> []
      \<and> last (chat_list (snd (chat_append w m s)) (cm_room_id m) n) = m'"
  proof -
    assume a: "fst (chat_append w m s) = Inr m'"
    define xs where "xs = chat_room s (cm_room_id m) @ [m']"
    let ?line = "drop (length xs - kCapacityPerRoom) xs"
    have "map_of (ch_rooms (snd (chat_append w m s))) (cm_room_id m) = Some ?line"
      using a by (simp add: chat_append_eq Let_def xs_def)
    then have l: "chat_list (snd (chat_append w m s)) (cm_room_id m) n
        = drop (length ?line - nat (clamp_chat_limit n)) ?line" by (rule chat_list_window)
    have line: "?line \<noteq> [] \<and> last ?line = m'"
      unfolding xs_def by (rule last_drop_snoc) (simp add: kCapacityPerRoom_def)
    then obtain ys where ys: "?line = ys @ [m']" by (metis append_butlast_last_id)
    show ?thesis unfolding l ys by (rule last_drop_snoc) (use ge1 in simp)
  qed
  show "fst (chat_append w m s) = Inr m' \<Longrightarrow>
      cm_room_id m' = cm_room_id m \<and> cm_user_id m' = cm_user_id m
      \<and> cm_display_name m' = cm_display_name m \<and> cm_text m' = cm_text m"
    by (auto simp: chat_append_def Let_def)
  show "length (chat_list s r n) \<le> nat (clamp_chat_limit n)"
    by (auto simp: chat_list_def Let_def split: option.splits)
  show "chat_list (snd (chat_clear r s)) r n = []"
    by (simp add: chat_clear_def chat_list_def)
  show "q \<noteq> r \<Longrightarrow> chat_list (snd (chat_clear r s)) q n = chat_list s q n"
    by (simp add: chat_clear_def chat_list_def)
  show "fst (chat_clear r s) = None"
    by (simp add: chat_clear_def)
qed

text \<open>No room keeps more than its capacity.\<close>

definition chat_wf :: "chat_store \<Rightarrow> bool" where
  "chat_wf s \<longleftrightarrow> distinct (map fst (ch_rooms s))
     \<and> (\<forall>rid. length (chat_room s rid) \<le> kCapacityPerRoom)"

lemma chat_wf_append [inv_intros]: "chat_wf s \<Longrightarrow> chat_wf (snd (chat_append w m s))"
  by (auto simp: chat_wf_def chat_append_def chat_room_def Let_def)

lemma chat_wf_clear [inv_intros]: "chat_wf s \<Longrightarrow> chat_wf (snd (chat_clear r s))"
  by (auto simp: chat_wf_def chat_clear_def chat_room_def)

section \<open>Notices\<close>

record notice_store =
  no_notices :: "notice list"
  no_next_id :: nat

definition empty_notice_store :: notice_store where
  "empty_notice_store = \<lparr>no_notices = [], no_next_id = 1\<rparr>"

definition kNoticeCapacity :: nat where "kNoticeCapacity = 2000"

definition kMaxPendingPerDelivery :: nat where "kMaxPendingPerDelivery = 20"

definition notices_append :: "int \<Rightarrow> notice \<Rightarrow> notice_store \<Rightarrow> notice result \<times> notice_store" where
  "notices_append wall n s =
    (let n = n\<lparr>nt_id := to_string_nat (no_next_id s)\<rparr>;
         n = (if nt_created_at n = 0 then n\<lparr>nt_created_at := wall\<rparr> else n);
         all = no_notices s @ [n];
         excess = (if length all > kNoticeCapacity then length all - kNoticeCapacity else 0);
         (kept, excess) = erase_surplus acknowledged excess all;
         kept = (if excess > 0 then drop excess kept else kept)
     in (Inr n, \<lparr>no_notices = kept, no_next_id = Suc (no_next_id s)\<rparr>))"

definition notices_pending_for :: "notice_store \<Rightarrow> string \<Rightarrow> notice list" where
  "notices_pending_for s uid =
     collect kMaxPendingPerDelivery (\<lambda>n. \<not> (nt_user_id n \<noteq> uid \<or> acknowledged n)) (no_notices s)"

definition notices_acknowledge ::
  "int \<Rightarrow> string \<Rightarrow> string \<Rightarrow> notice_store \<Rightarrow> notice result \<times> notice_store" where
  "notices_acknowledge wall nid uid s =
    (let mine = (\<lambda>n. nt_id n = nid \<and> nt_user_id n = uid);
         stamp = (\<lambda>n. if \<not> acknowledged n then n\<lparr>nt_acknowledged_at := wall\<rparr> else n)
     in case List.find mine (no_notices s) of
          None \<Rightarrow> (Inl (not_found ''notice''), s)
        | Some n \<Rightarrow> (Inr (stamp n), s\<lparr>no_notices := update_first mine stamp (no_notices s)\<rparr>))"

definition notices_clear_for :: "string \<Rightarrow> notice_store \<Rightarrow> error option \<times> notice_store" where
  "notices_clear_for uid s = (None, s\<lparr>no_notices := filter (\<lambda>n. nt_user_id n \<noteq> uid) (no_notices s)\<rparr>)"

lemma notices_append_list:
  assumes "notices_append w n s = (res, s')"
  defines "n' \<equiv> (let n = n\<lparr>nt_id := to_string_nat (no_next_id s)\<rparr>
                  in if nt_created_at n = 0 then n\<lparr>nt_created_at := w\<rparr> else n)"
  shows "res = Inr n' \<and> no_next_id s' = Suc (no_next_id s)
    \<and> (\<exists>kept k. erase_surplus acknowledged (Suc (length (no_notices s)) - kNoticeCapacity)
                   (no_notices s @ [n']) = (kept, k)
          \<and> no_notices s' = drop k kept)"
  using assms by (auto simp: notices_append_def Let_def split: prod.splits if_splits)

text \<open>The notice store never holds more than its capacity once it is within it, and it never
  drops a notice nobody acknowledged while there is an acknowledged one to drop instead: if the
  acknowledged ones cover the surplus, every outstanding notice, the new one included, is kept in
  order.\<close>

lemma notices_append_capacity:
  assumes "notices_append w n s = (res, s')"
    and "length (no_notices s) \<le> kNoticeCapacity"
    and "nt_acknowledged_at n = 0"
  shows "length (no_notices s') \<le> kNoticeCapacity
    \<and> (Suc (length (no_notices s)) - kNoticeCapacity \<le> length (filter acknowledged (no_notices s)) \<longrightarrow>
      filter (\<lambda>x. \<not> acknowledged x) (no_notices s')
        = filter (\<lambda>x. \<not> acknowledged x) (no_notices s) @ [projr res])"
proof -
  from notices_append_list [OF assms(1)] obtain n' kept k where
    n': "res = Inr n'" "\<not> acknowledged n'"
    and e: "erase_surplus acknowledged (Suc (length (no_notices s)) - kNoticeCapacity)
        (no_notices s @ [n']) = (kept, k)" and s': "no_notices s' = drop k kept"
    using assms(3) by (auto simp: acknowledged_def Let_def split: if_splits)
  note c = erase_surplus_count [OF e]
  have "filter (\<lambda>x. \<not> acknowledged x) (no_notices s')
        = filter (\<lambda>x. \<not> acknowledged x) (no_notices s) @ [projr res]"
    if "Suc (length (no_notices s)) - kNoticeCapacity \<le> length (filter acknowledged (no_notices s))"
  proof -
    have "k = 0" using c that by auto
    then show ?thesis using erase_surplus_keeps [OF e] n' by (simp add: s')
  qed
  moreover have "length (no_notices s') \<le> kNoticeCapacity" using c assms(2) by (auto simp: s')
  ultimately show ?thesis by blast
qed

lemma notices_append_capacity_witness:
  "\<exists>res s'. notices_append 9 \<lparr>nt_id = [], nt_user_id = ''u'', nt_from_user_id = ''a'',
      nt_from_display_name = ''A'', nt_text = ''hi'', nt_created_at = 0, nt_acknowledged_at = 0\<rparr>
      empty_notice_store = (res, s') \<and> filter (\<lambda>x. \<not> acknowledged x) (no_notices s') = [projr res]"
proof -
  let ?n = "\<lparr>nt_id = [], nt_user_id = ''u'', nt_from_user_id = ''a'', nt_from_display_name = ''A'',
    nt_text = ''hi'', nt_created_at = 0, nt_acknowledged_at = 0\<rparr>"
  obtain res s' where a: "notices_append 9 ?n empty_notice_store = (res, s')" by fastforce
  from notices_append_capacity [OF a] a show ?thesis
    by (simp add: empty_notice_store_def kNoticeCapacity_def)
qed

text \<open>The contract \<open>NoticeStore\<close> states: whom a notice may be acknowledged by, and what a login is
  handed.\<close>

locale notice_archive =
  fixes append :: "int \<Rightarrow> notice \<Rightarrow> 's \<Rightarrow> notice result \<times> 's"
    and pending :: "'s \<Rightarrow> string \<Rightarrow> notice list"
    and ack :: "int \<Rightarrow> string \<Rightarrow> string \<Rightarrow> 's \<Rightarrow> notice result \<times> 's"
    and clear_for :: "string \<Rightarrow> 's \<Rightarrow> error option \<times> 's"
  assumes pending_mine: "n \<in> set (pending s u) \<Longrightarrow> nt_user_id n = u \<and> \<not> acknowledged n"
    and pending_bound: "length (pending s u) \<le> kMaxPendingPerDelivery"
    and ack_mine: "fst (ack w i u s) = Inr n \<Longrightarrow> nt_id n = i \<and> nt_user_id n = u"
    and ack_stamps: "fst (ack w i u s) = Inr n \<Longrightarrow> w \<noteq> 0 \<Longrightarrow> acknowledged n"
    and ack_error: "fst (ack w i u s) = Inl e \<Longrightarrow> e = not_found ''notice'' \<and> snd (ack w i u s) = s"
    and ack_other: "v \<noteq> u \<Longrightarrow> pending (snd (ack w i u s)) v = pending s v"
    and clear_for_gone: "pending (snd (clear_for u s)) u = []"
    and clear_for_other: "v \<noteq> u \<Longrightarrow> pending (snd (clear_for u s)) v = pending s v"
begin

lemma ack_foreign:
  assumes "fst (ack w i u s) = Inr n" and "v \<noteq> nt_user_id n"
  shows "pending (snd (ack w i u s)) v = pending s v"
  using assms ack_mine ack_other by metis

lemma pending_other_absent: "u \<noteq> v \<Longrightarrow> n \<in> set (pending s u) \<Longrightarrow> n \<notin> set (pending s v)"
  using pending_mine by blast

end

lemma filter_update_first_other:
  assumes "\<And>x. P x \<Longrightarrow> \<not> Q x" and "\<And>x. P x \<Longrightarrow> \<not> Q (f x)"
  shows "filter Q (update_first P f xs) = filter Q xs"
  using assms by (induction xs) auto

interpretation mem_notices: notice_archive notices_append notices_pending_for notices_acknowledge
  notices_clear_for
proof
  fix n s u w i e v
  show "n \<in> set (notices_pending_for s u) \<Longrightarrow> nt_user_id n = u \<and> \<not> acknowledged n"
    by (auto simp: notices_pending_for_def collect_eq dest: in_set_takeD)
  show "length (notices_pending_for s u) \<le> kMaxPendingPerDelivery"
    by (simp add: notices_pending_for_def collect_eq)
  show "fst (notices_acknowledge w i u s) = Inr n \<Longrightarrow> nt_id n = i \<and> nt_user_id n = u"
    by (auto simp: notices_acknowledge_def Let_def find_Some_iff split: option.splits if_splits)
  show "fst (notices_acknowledge w i u s) = Inr n \<Longrightarrow> w \<noteq> 0 \<Longrightarrow> acknowledged n"
    by (auto simp: notices_acknowledge_def Let_def acknowledged_def split: option.splits if_splits)
  show "fst (notices_acknowledge w i u s) = Inl e \<Longrightarrow>
      e = not_found ''notice'' \<and> snd (notices_acknowledge w i u s) = s"
    by (auto simp: notices_acknowledge_def Let_def split: option.splits)
  show "v \<noteq> u \<Longrightarrow> notices_pending_for (snd (notices_acknowledge w i u s)) v = notices_pending_for s v"
  proof -
    assume ne: "v \<noteq> u"
    then have "filter (\<lambda>n. nt_user_id n = v \<and> \<not> acknowledged n)
        (update_first (\<lambda>n. nt_id n = i \<and> nt_user_id n = u)
          (\<lambda>n. if \<not> acknowledged n then n\<lparr>nt_acknowledged_at := w\<rparr> else n) xs)
        = filter (\<lambda>n. nt_user_id n = v \<and> \<not> acknowledged n) xs" for xs
      by (intro filter_update_first_other) auto
    then show ?thesis
      by (auto simp: notices_acknowledge_def Let_def notices_pending_for_def collect_eq
          split: option.splits)
  qed
  show "notices_pending_for (snd (notices_clear_for u s)) u = []"
    by (simp add: notices_clear_for_def notices_pending_for_def collect_eq filter_empty_conv)
  show "v \<noteq> u \<Longrightarrow> notices_pending_for (snd (notices_clear_for u s)) v = notices_pending_for s v"
    by (simp add: notices_clear_for_def notices_pending_for_def collect_eq filter_filter conj_commute)
      (metis (mono_tags, lifting))
qed

end
