(* ===== verification/RoomManager.thy ===== *)
theory RoomManager
  imports RecordStores
begin

text \<open>
  \<open>server/src/rooms/room_manager.cpp\<close>: the live rooms, who is in which, and the rules of a room.
  The manager holds the two stores its options point at: \<open>mgr_store\<close>, where rooms are written, and
  \<open>mgr_chat\<close>, where their conversations are; a null pointer is \<open>None\<close>. The random engine is of the
  standard library and its digits are unspecified: \<open>D k\<close> is the \<open>k\<close>-th digit drawn and
  \<open>mgr_draws\<close> counts them. \<open>wall\<close> is the time the store stamps a new record with.
\<close>

section \<open>State\<close>

record room_manager =
  mgr_max_participants :: int
  mgr_store :: "room_store option"
  mgr_chat :: "chat_store option"
  mgr_draws :: nat
  mgr_rooms :: "(string, room) hash_map"
  mgr_user_to_room :: "(string, string) hash_map"

text \<open>\<open>RoomManager(options)\<close>; \<open>Options{}\<close> allows twenty people and has no stores.\<close>

definition new_room_manager :: "int \<Rightarrow> room_store option \<Rightarrow> chat_store option \<Rightarrow> room_manager" where
  "new_room_manager mx store chat = \<lparr>mgr_max_participants = mx, mgr_store = store, mgr_chat = chat,
     mgr_draws = 0, mgr_rooms = [], mgr_user_to_room = []\<rparr>"

definition kHexDigits :: string where "kHexDigits = ''0123456789ABCDEF''"

definition kMaxIdAttempts :: nat where "kMaxIdAttempts = 64"

definition kNoUsername :: string where "kNoUsername = []"

section \<open>Looking up\<close>

definition mgr_find :: "room_manager \<Rightarrow> string \<Rightarrow> room option" where
  "mgr_find M rid = map_of (mgr_rooms M) rid"

definition mgr_list :: "room_manager \<Rightarrow> room list" where
  "mgr_list M = map snd (mgr_rooms M)"

definition room_of :: "room_manager \<Rightarrow> string \<Rightarrow> string option" where
  "room_of M uid = map_of (mgr_user_to_room M) uid"

definition room_owned_by :: "room_manager \<Rightarrow> string \<Rightarrow> string option" where
  "room_owned_by M uid =
    (if uid = [] then None
     else map_option fst (List.find (\<lambda>(_, r). rm_owner_id r = uid) (mgr_rooms M)))"

definition name_taken :: "room_manager \<Rightarrow> string \<Rightarrow> bool" where
  "name_taken M key =
    (if key = [] then False
     else list_ex (\<lambda>(_, r). room_name_key (rm_name r) = key) (mgr_rooms M))"

definition max_capacity :: "room_manager \<Rightarrow> int" where
  "max_capacity M = (if mgr_max_participants M < kMinRoomCapacity then kMinRoomCapacity
     else if kMaxRoomCapacity < mgr_max_participants M then kMaxRoomCapacity
     else mgr_max_participants M)"

definition default_capacity :: "room_manager \<Rightarrow> int" where
  "default_capacity M = min kDefaultRoomCapacity (max_capacity M)"

section \<open>Making and ending rooms\<close>

definition generate_room_id :: "(nat \<Rightarrow> nat) \<Rightarrow> room_manager \<Rightarrow> string \<times> room_manager" where
  "generate_room_id D M =
    (map (\<lambda>k. kHexDigits ! D k) [mgr_draws M..<mgr_draws M + kRoomIdLength],
     M\<lparr>mgr_draws := mgr_draws M + kRoomIdLength\<rparr>)"

text \<open>A store that refuses is logged and carried on with.\<close>

definition forget :: "string \<Rightarrow> room_manager \<Rightarrow> room_manager" where
  "forget rid M = (case mgr_chat M of None \<Rightarrow> M
     | Some chat \<Rightarrow> M\<lparr>mgr_chat := Some (snd (chat_clear rid chat))\<rparr>)"

definition capacity_error :: "room_manager \<Rightarrow> error" where
  "capacity_error M = mk_error ''invalid_value'' (''a room holds between ''
     @ to_string_int kMinRoomCapacity @ '' and '' @ to_string_int (max_capacity M) @ '' people'')"

text \<open>The record \<open>create_room\<close> and \<open>set_capacity\<close> write: the creation time stays at zero.\<close>

definition record_of :: "room \<Rightarrow> int \<Rightarrow> room_record" where
  "record_of r capacity = \<lparr>rr_id = rm_id r, rr_name = rm_name r, rr_owner_id = rm_owner_id r,
     rr_persistent = True, rr_created_at = 0, rr_capacity = capacity\<rparr>"

fun create_attempts :: "(nat \<Rightarrow> nat) \<Rightarrow> int \<Rightarrow> nat \<Rightarrow> string \<Rightarrow> string \<Rightarrow> int \<Rightarrow> room_manager
    \<Rightarrow> string result \<times> room_manager" where
  "create_attempts D wall 0 wanted owner capacity M =
     (Inl (mk_error ''room_id_exhausted'' ''could not find a free room identifier''), M)"
| "create_attempts D wall (Suc attempts) wanted owner capacity M =
    (let (rid, M) = generate_room_id D M
     in if map_of (mgr_rooms M) rid \<noteq> None
        then create_attempts D wall attempts wanted owner capacity M
        else if (case mgr_store M of None \<Rightarrow> False | Some s \<Rightarrow> rooms_find s rid \<noteq> None)
        then create_attempts D wall attempts wanted owner capacity M
        else if wanted = [] \<and> name_taken M (room_name_key rid)
        then create_attempts D wall attempts wanted owner capacity M
        else (let r = \<lparr>rm_id = rid, rm_name = (if wanted = [] then rid else wanted),
                       rm_participants = [], rm_owner_id = owner, rm_persistent = True,
                       rm_capacity = capacity\<rparr>
              in case mgr_store M of
                   None \<Rightarrow> (Inr rid, M\<lparr>mgr_rooms := AList.update rid r (mgr_rooms M)\<rparr>)
                 | Some s \<Rightarrow> (case rooms_upsert wall (record_of r capacity) s of
                       (Some failure, s) \<Rightarrow> (Inl failure, M\<lparr>mgr_store := Some s\<rparr>)
                     | (None, s) \<Rightarrow> (Inr rid, M\<lparr>mgr_store := Some s,
                           mgr_rooms := AList.update rid r (mgr_rooms M)\<rparr>))))"

definition create_room :: "(nat \<Rightarrow> nat) \<Rightarrow> int \<Rightarrow> string \<Rightarrow> string \<Rightarrow> int \<Rightarrow> room_manager
    \<Rightarrow> string result \<times> room_manager" where
  "create_room D wall name owner capacity M =
    (if capacity \<noteq> 0 \<and> (\<not> is_valid_room_capacity capacity \<or> capacity > max_capacity M)
     then (Inl (capacity_error M), M)
     else (let capacity = (if capacity = 0 then default_capacity M else capacity);
               wanted = trim_room_name name
           in if name_taken M (room_name_key wanted)
              then (Inl (mk_error ''room_name_taken'' (''another room is already called '' @ wanted)), M)
              else create_attempts D wall kMaxIdAttempts wanted owner capacity M))"

text \<open>The body of the loop of \<open>load_rooms\<close> over the stored records.\<close>

definition load_record :: "room_record \<Rightarrow> room_manager \<times> nat \<Rightarrow> room_manager \<times> nat" where
  "load_record rec = (\<lambda>(M, loaded).
    if map_of (mgr_rooms M) (rr_id rec) \<noteq> None then (M, loaded)
    else (M\<lparr>mgr_rooms := AList.update (rr_id rec)
            \<lparr>rm_id = rr_id rec, rm_name = rr_name rec, rm_participants = [],
             rm_owner_id = rr_owner_id rec, rm_persistent = True,
             rm_capacity = (if rr_capacity rec > 0 then rr_capacity rec else kDefaultRoomCapacity)\<rparr>
            (mgr_rooms M)\<rparr>, Suc loaded))"

definition load_rooms :: "room_manager \<Rightarrow> nat \<times> room_manager" where
  "load_rooms M = (case mgr_store M of None \<Rightarrow> (0, M)
     | Some s \<Rightarrow> (let (M, loaded) = fold load_record (rooms_list s) (M, 0) in (loaded, M)))"

definition no_room :: "string \<Rightarrow> error" where
  "no_room rid = mk_error ''room_not_found'' (''no room with id '' @ rid)"

definition remove_room :: "string \<Rightarrow> room_manager \<Rightarrow> string list result \<times> room_manager" where
  "remove_room rid M =
    (case map_of (mgr_rooms M) rid of
       None \<Rightarrow>
         (case mgr_store M of
            None \<Rightarrow> (Inl (no_room rid), M)
          | Some s \<Rightarrow>
              (if rooms_find s rid = None then (Inl (no_room rid), M)
               else (case rooms_remove rid s of
                       (Some failure, s) \<Rightarrow> (Inl failure, M\<lparr>mgr_store := Some s\<rparr>)
                     | (None, s) \<Rightarrow> (Inr [], forget rid (M\<lparr>mgr_store := Some s\<rparr>)))))
     | Some r \<Rightarrow>
         (let removed = map p_id (rm_participants r);
              M = M\<lparr>mgr_user_to_room := fold AList.delete removed (mgr_user_to_room M)\<rparr>;
              M = M\<lparr>mgr_rooms := AList.delete rid (mgr_rooms M)\<rparr>;
              M = M\<lparr>mgr_store := map_option (\<lambda>s. snd (rooms_remove rid s)) (mgr_store M)\<rparr>
          in (Inr removed, forget rid M)))"

definition set_capacity :: "int \<Rightarrow> string \<Rightarrow> int \<Rightarrow> room_manager \<Rightarrow> error option \<times> room_manager" where
  "set_capacity wall rid capacity M =
    (if \<not> is_valid_room_capacity capacity \<or> capacity > max_capacity M
     then (Some (capacity_error M), M)
     else (case map_of (mgr_rooms M) rid of
       None \<Rightarrow> (Some (no_room rid), M)
     | Some r \<Rightarrow>
        (let resized = (\<lambda>M. M\<lparr>mgr_rooms := AList.map_entry rid (\<lambda>r. r\<lparr>rm_capacity := capacity\<rparr>)
                               (mgr_rooms M)\<rparr>)
         in case mgr_store M of
              None \<Rightarrow> (None, resized M)
            | Some s \<Rightarrow> (case rooms_upsert wall (record_of r capacity) s of
                  (Some failure, s) \<Rightarrow> (Some failure, M\<lparr>mgr_store := Some s\<rparr>)
                | (None, s) \<Rightarrow> (None, resized (M\<lparr>mgr_store := Some s\<rparr>))))))"

section \<open>Participants\<close>

definition not_in_room :: "string \<Rightarrow> string \<Rightarrow> room \<Rightarrow> error" where
  "not_in_room uid rid r = mk_error ''not_in_room'' (uid @ '' is not in '' @ room_label rid (rm_name r))"

definition person :: "participant \<Rightarrow> string" where
  "person p = user_label (p_id p) (u_display_name (p_user p)) kNoUsername"

definition set_participants :: "(participant list \<Rightarrow> participant list) \<Rightarrow> room \<Rightarrow> room" where
  "set_participants f r = r\<lparr>rm_participants := f (rm_participants r)\<rparr>"

definition leave :: "string \<Rightarrow> string \<Rightarrow> room_manager \<Rightarrow> error option \<times> room_manager" where
  "leave rid uid M =
    (case map_of (mgr_rooms M) rid of
       None \<Rightarrow> (Some (no_room rid), M)
     | Some r \<Rightarrow>
        (if room_find r uid = None then (Some (not_in_room uid rid r), M)
         else (None, M\<lparr>mgr_rooms := AList.map_entry rid
                          (set_participants (erase_first (\<lambda>p. p_id p = uid))) (mgr_rooms M),
                       mgr_user_to_room := AList.delete uid (mgr_user_to_room M)\<rparr>)))"

definition join :: "string \<Rightarrow> user \<Rightarrow> room_manager \<Rightarrow> error option \<times> room_manager" where
  "join rid u M =
    (case map_of (mgr_rooms M) rid of
       None \<Rightarrow> (Some (no_room rid), M)
     | Some r \<Rightarrow>
        (if room_contains r (u_id u)
         then (Some (mk_error ''already_in_room'' (user_label (u_id u) (u_display_name u) kNoUsername
                 @ '' is already in '' @ room_label rid (rm_name r))), M)
         else if room_is_full r
         then (Some (mk_error ''room_full'' (''room '' @ room_label rid (rm_name r) @ '' is full (''
                 @ to_string_int (rm_capacity r) @ '' people)'')), M)
         else (let M = (case room_of M (u_id u) of None \<Rightarrow> M
                        | Some previous \<Rightarrow> snd (leave previous (u_id u) M))
               in (None, M\<lparr>mgr_user_to_room := AList.update (u_id u) rid (mgr_user_to_room M),
                           mgr_rooms := AList.map_entry rid
                             (set_participants (\<lambda>ps. ps @ [new_participant u])) (mgr_rooms M)\<rparr>))))"

definition remove_from_any_room :: "string \<Rightarrow> room_manager \<Rightarrow> string option \<times> room_manager" where
  "remove_from_any_room uid M =
    (case room_of M uid of None \<Rightarrow> (None, M)
     | Some rid \<Rightarrow> (Some rid, snd (leave rid uid M)))"

text \<open>\<open>Room::find\<close> hands out a pointer, through which the code writes one participant.\<close>

definition update_participant ::
  "string \<Rightarrow> string \<Rightarrow> (participant \<Rightarrow> participant) \<Rightarrow> room_manager \<Rightarrow> room_manager" where
  "update_participant rid uid f M = M\<lparr>mgr_rooms := AList.map_entry rid
     (set_participants (update_first (\<lambda>p. p_id p = uid) f)) (mgr_rooms M)\<rparr>"

definition set_muted ::
  "string \<Rightarrow> string \<Rightarrow> bool \<Rightarrow> bool \<Rightarrow> room_manager \<Rightarrow> error option \<times> room_manager" where
  "set_muted rid uid muted by_admin M =
    (case map_of (mgr_rooms M) rid of
       None \<Rightarrow> (Some (no_room rid), M)
     | Some r \<Rightarrow> (case room_find r uid of
         None \<Rightarrow> (Some (not_in_room uid rid r), M)
       | Some p \<Rightarrow>
          (if \<not> by_admin \<and> \<not> muted \<and> p_muted_by_admin p
           then (Some (mk_error ''forbidden'' (''an administrator muted '' @ person p)), M)
           else (None, update_participant rid uid
                   (\<lambda>p. (if by_admin then p\<lparr>p_muted := muted, p_muted_by_admin := muted\<rparr>
                         else p\<lparr>p_muted := muted\<rparr>)) M))))"

definition start_screen_share ::
  "string \<Rightarrow> string \<Rightarrow> bool \<Rightarrow> room_manager \<Rightarrow> error option \<times> room_manager" where
  "start_screen_share rid uid with_audio M =
    (case map_of (mgr_rooms M) rid of
       None \<Rightarrow> (Some (no_room rid), M)
     | Some r \<Rightarrow> (case room_find r uid of
         None \<Rightarrow> (Some (not_in_room uid rid r), M)
       | Some p \<Rightarrow>
          (let start = (None, update_participant rid uid
                 (\<lambda>p. p\<lparr>p_sharing_screen := True, p_sharing_audio := with_audio\<rparr>) M)
           in case screen_sharer r of
                None \<Rightarrow> start
              | Some current \<Rightarrow>
                 (if p_id current \<noteq> uid
                  then (Some (mk_error ''screen_share_busy'' (person current
                          @ '' is already sharing in '' @ room_label rid (rm_name r))), M)
                  else start))))"

definition stop_screen_share ::
  "string \<Rightarrow> string \<Rightarrow> room_manager \<Rightarrow> error option \<times> room_manager" where
  "stop_screen_share rid uid M =
    (case map_of (mgr_rooms M) rid of
       None \<Rightarrow> (Some (no_room rid), M)
     | Some r \<Rightarrow> (case room_find r uid of
         None \<Rightarrow> (Some (not_in_room uid rid r), M)
       | Some p \<Rightarrow> (None, update_participant rid uid
             (\<lambda>p. p\<lparr>p_sharing_screen := False, p_sharing_audio := False\<rparr>) M)))"

section \<open>The invariant\<close>

text \<open>A room: no participant twice, at most one of them sharing, a mute of an administrator is a
  mute, sound is only shared with a screen, and a size a room can have.\<close>

definition participant_wf :: "participant \<Rightarrow> bool" where
  "participant_wf p \<longleftrightarrow> (p_muted_by_admin p \<longrightarrow> p_muted p) \<and> (p_sharing_audio p \<longrightarrow> p_sharing_screen p)"

definition room_wf :: "room \<Rightarrow> bool" where
  "room_wf r \<longleftrightarrow> distinct (map p_id (rm_participants r))
     \<and> length (filter p_sharing_screen (rm_participants r)) \<le> 1
     \<and> list_all participant_wf (rm_participants r)
     \<and> 0 < rm_capacity r \<and> is_int32 (rm_capacity r) \<and> rm_persistent r"

text \<open>The two maps of the manager agree: a user is indexed under a room exactly when that room
  lists them.\<close>

definition seating_ok :: "(string \<Rightarrow> room option) \<Rightarrow> (string \<Rightarrow> string option) \<Rightarrow> bool" where
  "seating_ok R U \<longleftrightarrow> (\<forall>rid r. R rid = Some r \<longrightarrow> rm_id r = rid \<and> room_wf r)
     \<and> (\<forall>uid rid. U uid = Some rid \<longleftrightarrow> (\<exists>r. R rid = Some r \<and> room_contains r uid))"

definition mgr_wf :: "room_manager \<Rightarrow> bool" where
  "mgr_wf M \<longleftrightarrow> distinct (map fst (mgr_rooms M)) \<and> distinct (map fst (mgr_user_to_room M))
     \<and> seating_ok (map_of (mgr_rooms M)) (map_of (mgr_user_to_room M))"

text \<open>What a restart would make of a record, and the same of a live room.\<close>

definition record_view :: "room_record \<Rightarrow> string \<times> string \<times> int" where
  "record_view rec = (rr_name rec, rr_owner_id rec,
     (if rr_capacity rec > 0 then rr_capacity rec else kDefaultRoomCapacity))"

definition room_view :: "room \<Rightarrow> string \<times> string \<times> int" where
  "room_view r = (rm_name r, rm_owner_id r, rm_capacity r)"

text \<open>The store and the live map hold the same rooms.\<close>

definition synced :: "room_manager \<Rightarrow> bool" where
  "synced M \<longleftrightarrow> (case mgr_store M of None \<Rightarrow> True
     | Some s \<Rightarrow> \<forall>rid. map_option record_view (rooms_find s rid)
                    = map_option room_view (map_of (mgr_rooms M) rid))"

lemma record_view_content: "rr_content a = rr_content b \<Longrightarrow> record_view a = record_view b"
  by (simp add: rr_content_def record_view_def)

lemma find_upsert_view:
  "map_option record_view (rooms_find (snd (rooms_upsert w r s)) i)
     = (if i = rr_id r then Some (record_view r) else map_option record_view (rooms_find s i))"
proof (cases "i = rr_id r")
  case True
  obtain r' where r': "rooms_find (snd (rooms_upsert w r s)) (rr_id r) = Some r'"
    "rr_content r' = rr_content r"
    using mem_rooms.upsert_same [of w r s] by (elim exE conjE) (rule that)
  from r' True record_view_content [OF r'(2)] show ?thesis by simp
qed (simp add: mem_rooms.upsert_other)

lemma length_filter_erase: "length (filter Q (erase_first P xs)) \<le> length (filter Q xs)"
  by (induction xs) auto

lemma set_erase_first: "set (erase_first P xs) \<subseteq> set xs"
  by (induction xs) auto

lemma room_wf_erase:
  assumes "room_wf r"
  shows "room_wf (set_participants (erase_first (\<lambda>p. p_id p = uid)) r)"
proof -
  let ?e = "erase_first (\<lambda>p. p_id p = uid) (rm_participants r)"
  have d: "distinct (map p_id (rm_participants r))" using assms by (simp add: room_wf_def)
  then have "distinct (map p_id ?e)" by (simp add: erase_first_key distinct_map_filter)
  moreover have "length (filter p_sharing_screen ?e) \<le> 1"
    using length_filter_erase assms unfolding room_wf_def by (metis le_trans)
  moreover have "list_all participant_wf ?e"
    using assms set_erase_first by (fastforce simp: room_wf_def list_all_iff)
  ultimately show ?thesis using assms by (simp add: room_wf_def set_participants_def)
qed

lemma room_wf_push:
  assumes "room_wf r" and "\<not> room_contains r (u_id u)"
  shows "room_wf (set_participants (\<lambda>ps. ps @ [new_participant u]) r)"
  using assms by (auto simp: room_wf_def set_participants_def room_contains_iff new_participant_def
      p_id_def participant_wf_def)

lemma contains_erase:
  assumes "room_wf r"
  shows "room_contains (set_participants (erase_first (\<lambda>p. p_id p = uid)) r) i
    \<longleftrightarrow> i \<noteq> uid \<and> room_contains r i"
proof -
  have "distinct (map p_id (rm_participants r))" using assms by (simp add: room_wf_def)
  then show ?thesis by (auto simp: room_contains_iff set_participants_def erase_first_key)
qed

lemma contains_push:
  "room_contains (set_participants (\<lambda>ps. ps @ [new_participant u]) r) i
     \<longleftrightarrow> i = u_id u \<or> room_contains r i"
  by (auto simp: room_contains_iff set_participants_def new_participant_def p_id_def)

lemma rm_id_set_participants [simp]: "rm_id (set_participants f r) = rm_id r"
  and room_view_set_participants [simp]: "room_view (set_participants f r) = room_view r"
  and rm_participants_set [simp]: "rm_participants (set_participants f r) = f (rm_participants r)"
  by (simp_all add: set_participants_def room_view_def)

lemma seatingD:
  assumes "seating_ok R U" and "R rid = Some r"
  shows "rm_id r = rid \<and> room_wf r"
  using assms by (simp add: seating_ok_def)

lemma seating_user: "seating_ok R U \<Longrightarrow>
    U uid = Some rid \<longleftrightarrow> (\<exists>r. R rid = Some r \<and> room_contains r uid)"
  by (simp add: seating_ok_def)

lemma seating_leave:
  assumes ok: "seating_ok R U" and r: "R rid = Some r" and c: "room_contains r uid"
  shows "seating_ok (R(rid \<mapsto> set_participants (erase_first (\<lambda>p. p_id p = uid)) r)) (U(uid := None))"
proof -
  note rwf = seatingD [OF ok r]
  have "q = rid" if "R q = Some r'" "room_contains r' uid" for q r'
    using seating_user [OF ok, of uid q] seating_user [OF ok, of uid rid] that r c by auto
  then show ?thesis
    using ok r rwf
    by (auto simp: seating_ok_def contains_erase room_wf_erase)
qed

lemma seating_join:
  assumes ok: "seating_ok R U" and r: "R rid = Some r" and u: "U (u_id u) = None"
  shows "seating_ok (R(rid \<mapsto> set_participants (\<lambda>ps. ps @ [new_participant u]) r))
    (U(u_id u \<mapsto> rid))"
proof -
  note rwf = seatingD [OF ok r]
  have no: "\<not> room_contains r' (u_id u)" if "R q = Some r'" for q r'
    using seating_user [OF ok, of "u_id u" q] that u by auto
  then show ?thesis
    using ok r rwf by (auto simp: seating_ok_def contains_push intro!: room_wf_push)
qed

lemma seating_update:
  assumes ok: "seating_ok R U" and r: "R rid = Some r"
    and same: "rm_id r' = rm_id r" "map p_id (rm_participants r') = map p_id (rm_participants r)"
    and wf: "room_wf r'"
  shows "seating_ok (R(rid \<mapsto> r')) U"
proof -
  have "room_contains r' i = room_contains r i" for i
    using same(2) by (simp add: room_contains_iff flip: set_map)
  then show ?thesis using ok r same(1) wf by (auto simp: seating_ok_def)
qed

lemma seating_new:
  assumes "seating_ok R U" and "R rid = None" and "rm_id r = rid" and "rm_participants r = []"
    and "room_wf r"
  shows "seating_ok (R(rid \<mapsto> r)) U"
  using assms by (auto simp: seating_ok_def room_contains_iff)

lemma seating_close:
  assumes ok: "seating_ok R U" and r: "R rid = Some r"
  shows "seating_ok (R(rid := None)) (U |` (- p_id ` set (rm_participants r)))"
proof -
  have "(U |` (- p_id ` set (rm_participants r))) uid = Some q
      \<longleftrightarrow> (\<exists>r'. (R(rid := None)) q = Some r' \<and> room_contains r' uid)" for uid q
    using seating_user [OF ok, of uid q] seating_user [OF ok, of uid rid] r
    by (auto simp: restrict_map_def room_contains_iff)
  then show ?thesis using ok by (auto simp: seating_ok_def)
qed

section \<open>Every operation keeps it\<close>

lemma p_id_update [simp]:
  "p_id (p\<lparr>p_muted := a\<rparr>) = p_id p" "p_id (p\<lparr>p_muted_by_admin := b\<rparr>) = p_id p"
  "p_id (p\<lparr>p_sharing_screen := c\<rparr>) = p_id p" "p_id (p\<lparr>p_sharing_audio := d\<rparr>) = p_id p"
  "p_id (new_participant u) = u_id u"
  by (simp_all add: p_id_def new_participant_def)

lemma mgr_wfD: "mgr_wf M \<Longrightarrow> seating_ok (map_of (mgr_rooms M)) (map_of (mgr_user_to_room M))"
  by (simp add: mgr_wf_def)

lemma view_set_participants:
  "map_option room_view (map_of (AList.map_entry rid (set_participants f) rs) q)
     = map_option room_view (map_of rs q)"
  by (simp add: option.map_comp comp_def)

lemma synced_cong:
  assumes "mgr_store M' = mgr_store M"
    and "\<And>q. map_option room_view (map_of (mgr_rooms M') q)
           = map_option room_view (map_of (mgr_rooms M) q)"
  shows "synced M' = synced M"
  by (cases "mgr_store M") (simp_all add: synced_def assms)

lemma leave_okD:
  assumes "leave rid uid M = (None, M')"
  obtains r where "map_of (mgr_rooms M) rid = Some r" and "room_contains r uid"
    and "M' = M\<lparr>mgr_rooms := AList.map_entry rid
           (set_participants (erase_first (\<lambda>p. p_id p = uid))) (mgr_rooms M),
         mgr_user_to_room := AList.delete uid (mgr_user_to_room M)\<rparr>"
proof (cases "map_of (mgr_rooms M) rid")
  case None
  then show ?thesis using assms by (simp add: leave_def)
next
  case (Some r)
  with assms show ?thesis by (intro that [of r]) (auto simp: leave_def room_contains_def split: if_splits)
qed

lemma leave_wf [inv_intros]:
  assumes "mgr_wf M" shows "mgr_wf (snd (leave rid uid M))"
proof (cases "fst (leave rid uid M)")
  case None
  then have "leave rid uid M = (None, snd (leave rid uid M))" by (metis prod.collapse)
  then obtain r where r: "map_of (mgr_rooms M) rid = Some r" "room_contains r uid"
    and M': "snd (leave rid uid M) = M\<lparr>mgr_rooms := AList.map_entry rid
           (set_participants (erase_first (\<lambda>p. p_id p = uid))) (mgr_rooms M),
         mgr_user_to_room := AList.delete uid (mgr_user_to_room M)\<rparr>"
    by (rule leave_okD)
  show ?thesis
    using assms seating_leave [OF mgr_wfD [OF assms] r] r by (simp add: M' mgr_wf_def)
next
  case (Some e)
  then have "snd (leave rid uid M) = M" by (auto simp: leave_def split: option.splits if_splits)
  with assms show ?thesis by simp
qed

lemma leave_synced [inv_intros]: "synced M \<Longrightarrow> synced (snd (leave rid uid M))"
  by (erule subst [OF synced_cong, rotated 2])
    (simp_all add: leave_def view_set_participants del: map_of_map_entry split: option.split)

lemma room_of_leave:
  "room_of (snd (leave rid uid M)) i = (if i = uid \<and> fst (leave rid uid M) = None then None else room_of M i)"
  by (auto simp: leave_def room_of_def split: option.splits)

lemma room_of_contains:
  "mgr_wf M \<Longrightarrow> room_of M uid = Some rid \<longleftrightarrow> (\<exists>r. mgr_find M rid = Some r \<and> room_contains r uid)"
  unfolding room_of_def mgr_find_def by (rule seating_user [OF mgr_wfD])

lemma leave_own_room:
  assumes "mgr_wf M" and "room_of M uid = Some rid"
  shows "fst (leave rid uid M) = None"
  using assms by (auto simp: room_of_contains leave_def mgr_find_def room_contains_def)

text \<open>The state a join pushes the newcomer into: the room they were in is left first.\<close>

definition left_previous :: "string \<Rightarrow> room_manager \<Rightarrow> room_manager" where
  "left_previous uid M = (case room_of M uid of None \<Rightarrow> M | Some previous \<Rightarrow> snd (leave previous uid M))"

lemma left_previous_wf: "mgr_wf M \<Longrightarrow> mgr_wf (left_previous uid M)"
  by (simp add: left_previous_def inv_intros split: option.split)

lemma left_previous_room_of: "mgr_wf M \<Longrightarrow> room_of (left_previous uid M) i
    = (if i = uid then None else room_of M i)"
  by (auto simp: left_previous_def room_of_leave leave_own_room split: option.split)

lemma left_previous_other:
  assumes "map_of (mgr_rooms M) rid = Some r" and "\<not> room_contains r uid" and "mgr_wf M"
  shows "map_of (mgr_rooms (left_previous uid M)) rid = Some r"
proof (cases "room_of M uid")
  case None
  with assms show ?thesis by (simp add: left_previous_def)
next
  case (Some q)
  with assms have "q \<noteq> rid" by (auto simp: room_of_contains mgr_find_def)
  with assms Some show ?thesis by (auto simp: left_previous_def leave_def split: option.splits)
qed

lemma join_okD:
  assumes "join rid u M = (None, M')"
  obtains r where "map_of (mgr_rooms M) rid = Some r" and "\<not> room_contains r (u_id u)"
    and "\<not> room_is_full r"
    and "M' = (left_previous (u_id u) M)
      \<lparr>mgr_user_to_room := AList.update (u_id u) rid (mgr_user_to_room (left_previous (u_id u) M)),
       mgr_rooms := AList.map_entry rid (set_participants (\<lambda>ps. ps @ [new_participant u]))
         (mgr_rooms (left_previous (u_id u) M))\<rparr>"
proof (cases "map_of (mgr_rooms M) rid")
  case None
  then show ?thesis using assms by (simp add: join_def)
next
  case (Some r)
  with assms show ?thesis
    by (intro that [of r]) (auto simp: join_def left_previous_def Let_def split: if_splits)
qed

lemma join_error: "join rid u M = (Some e, M') \<Longrightarrow> M' = M"
  by (auto simp: join_def Let_def split: option.splits if_splits)

lemma join_wf [inv_intros]:
  assumes "mgr_wf M" shows "mgr_wf (snd (join rid u M))"
proof -
  obtain f M' where j: "join rid u M = (f, M')" by fastforce
  show ?thesis
  proof (cases f)
    case None
    with j have "join rid u M = (None, M')" by simp
    then show ?thesis
    proof (rule join_okD)
      let ?L = "left_previous (u_id u) M"
      fix r assume r: "map_of (mgr_rooms M) rid = Some r" "\<not> room_contains r (u_id u)"
        and M': "M' = ?L\<lparr>mgr_user_to_room := AList.update (u_id u) rid (mgr_user_to_room ?L),
           mgr_rooms := AList.map_entry rid (set_participants (\<lambda>ps. ps @ [new_participant u]))
             (mgr_rooms ?L)\<rparr>"
      have l: "map_of (mgr_rooms ?L) rid = Some r" by (rule left_previous_other [OF r assms])
      have "map_of (mgr_user_to_room ?L) (u_id u) = None"
        using left_previous_room_of [OF assms, of "u_id u" "u_id u"] by (simp add: room_of_def)
      then show ?thesis
        using left_previous_wf [OF assms] l j
          seating_join [OF mgr_wfD [OF left_previous_wf [OF assms]] l]
        by (simp add: M' mgr_wf_def)
    qed
  next
    case (Some e)
    with join_error [of rid u M] j assms show ?thesis by simp
  qed
qed

lemma join_synced [inv_intros]:
  assumes "synced M" shows "synced (snd (join rid u M))"
proof -
  have l: "synced (left_previous uid M)" for uid
    using assms by (auto simp: left_previous_def inv_intros split: option.split)
  obtain f M' where j: "join rid u M = (f, M')" by fastforce
  show ?thesis
  proof (cases f)
    case None
    with j have "join rid u M = (None, M')" by simp
    then have "synced M' = synced (left_previous (u_id u) M)"
      by (rule join_okD) (rule synced_cong; simp add: view_set_participants del: map_of_map_entry)
    with l [of "u_id u"] j show ?thesis by simp
  next
    case (Some e)
    with join_error [of rid u M] j assms show ?thesis by simp
  qed
qed

lemma room_of_join:
  assumes "mgr_wf M" and "fst (join rid u M) = None"
  shows "room_of (snd (join rid u M)) i = (if i = u_id u then Some rid else room_of M i)"
proof -
  have "join rid u M = (None, snd (join rid u M))" using assms(2) by (metis prod.collapse)
  then show ?thesis
  proof (rule join_okD)
    let ?L = "left_previous (u_id u) M"
    assume "snd (join rid u M) = ?L\<lparr>mgr_user_to_room := AList.update (u_id u) rid (mgr_user_to_room ?L),
           mgr_rooms := AList.map_entry rid (set_participants (\<lambda>ps. ps @ [new_participant u]))
             (mgr_rooms ?L)\<rparr>"
    then show ?thesis
      using left_previous_room_of [OF assms(1), of "u_id u" i] by (auto simp: room_of_def)
  qed
qed

lemma remove_from_any_room_wf [inv_intros]: "mgr_wf M \<Longrightarrow> mgr_wf (snd (remove_from_any_room uid M))"
  and remove_from_any_room_synced [inv_intros]: "synced M \<Longrightarrow> synced (snd (remove_from_any_room uid M))"
  by (simp_all add: remove_from_any_room_def inv_intros split: option.split)

lemma room_of_remove_from_any_room: "mgr_wf M \<Longrightarrow> room_of (snd (remove_from_any_room uid M)) i
    = (if i = uid then None else room_of M i)"
  by (auto simp: remove_from_any_room_def room_of_leave leave_own_room split: option.split)

subsection \<open>Writing one participant\<close>

lemma update_participant_frame [simp]:
  "mgr_store (update_participant rid uid f M) = mgr_store M"
  "mgr_chat (update_participant rid uid f M) = mgr_chat M"
  "mgr_user_to_room (update_participant rid uid f M) = mgr_user_to_room M"
  "mgr_max_participants (update_participant rid uid f M) = mgr_max_participants M"
  "room_of (update_participant rid uid f M) i = room_of M i"
  by (simp_all add: update_participant_def room_of_def)

lemma update_participant_synced [inv_intros]: "synced M \<Longrightarrow> synced (update_participant rid uid f M)"
  by (erule subst [OF synced_cong, rotated 2])
    (simp_all add: update_participant_def view_set_participants del: map_of_map_entry)

lemma update_participant_wf:
  assumes "mgr_wf M" and r: "map_of (mgr_rooms M) rid = Some r"
    and "\<And>p. p_id (f p) = p_id p"
    and "room_wf (set_participants (update_first (\<lambda>p. p_id p = uid) f) r)"
  shows "mgr_wf (update_participant rid uid f M)"
proof -
  let ?r = "set_participants (update_first (\<lambda>p. p_id p = uid) f) r"
  have "map p_id (rm_participants ?r) = map p_id (rm_participants r)"
    using assms(3) by (simp add: map_update_first_same)
  then show ?thesis
    using seating_update [OF mgr_wfD [OF assms(1)] r, of ?r] assms r
    by (simp add: update_participant_def mgr_wf_def)
qed

lemma length_filter_same_key:
  "distinct (map key xs) \<Longrightarrow> (\<And>x. x \<in> set xs \<Longrightarrow> P x \<Longrightarrow> key x = k) \<Longrightarrow> length (filter P xs) \<le> 1"
proof (induction xs)
  case (Cons x xs)
  show ?case
  proof (cases "P x")
    case True
    with Cons.prems have "key x = k" by simp
    with Cons.prems have "\<not> P y" if "y \<in> set xs" for y
      using that by (metis distinct.simps(2) image_eqI list.set_intros(2) list.simps(9) set_map)
    then have "filter P xs = []" by (simp add: filter_empty_conv)
    then show ?thesis using True by simp
  next
    case False
    with Cons show ?thesis by simp
  qed
qed simp

lemma room_wf_update:
  assumes "room_wf r" and "\<And>p. p_id (f p) = p_id p"
    and "\<And>p. participant_wf p \<Longrightarrow> participant_wf (f p)"
    and "\<And>p. p \<in> set (update_first (\<lambda>p. p_id p = uid) f (rm_participants r)) \<Longrightarrow>
      p_sharing_screen p \<Longrightarrow> p_id p = k"
  shows "room_wf (set_participants (update_first (\<lambda>p. p_id p = uid) f) r)"
proof -
  let ?ps = "update_first (\<lambda>p. p_id p = uid) f (rm_participants r)"
  have m: "map p_id ?ps = map p_id (rm_participants r)"
    using assms(2) by (simp add: map_update_first_same)
  then have d: "distinct (map p_id ?ps)" using assms(1) by (simp add: room_wf_def)
  have "length (filter p_sharing_screen ?ps) \<le> 1"
    using length_filter_same_key [OF d] assms(4) by blast
  moreover have "list_all participant_wf ?ps"
    using set_update_first [of _ f "rm_participants r"] assms(1,3)
    by (fastforce simp: room_wf_def list_all_iff)
  ultimately show ?thesis using assms(1) d by (simp add: room_wf_def set_participants_def)
qed

text \<open>Who shares, when at most one does.\<close>

lemma sharer_unique:
  assumes "room_wf r" and "p \<in> set (rm_participants r)" and "p_sharing_screen p"
  shows "screen_sharer r = Some p"
proof -
  have "length (filter p_sharing_screen xs) \<le> 1 \<Longrightarrow> p \<in> set xs \<Longrightarrow> List.find p_sharing_screen xs = Some p"
    for xs
    using assms(3) by (induction xs) (auto simp: filter_empty_conv)
  then show ?thesis using assms by (simp add: screen_sharer_def room_wf_def)
qed

lemma update_first_key_cases:
  assumes "p \<in> set (update_first (\<lambda>p. key p = k) f xs)"
  shows "p \<in> set xs \<or> (\<exists>q \<in> set xs. key q = k \<and> p = f q)"
  using assms set_update_first [of "\<lambda>p. key p = k" f xs] by blast

lemma set_muted_wf [inv_intros]:
  assumes "mgr_wf M" shows "mgr_wf (snd (set_muted rid uid muted by_admin M))"
proof -
  define f :: "participant \<Rightarrow> participant" where "f = (\<lambda>p. if by_admin then p\<lparr>p_muted := muted, p_muted_by_admin := muted\<rparr>
                         else p\<lparr>p_muted := muted\<rparr>)"
  show ?thesis
  proof (cases "snd (set_muted rid uid muted by_admin M) = M")
    case False
    then obtain r p where r: "map_of (mgr_rooms M) rid = Some r" "room_find r uid = Some p"
      and nf: "\<not> (\<not> by_admin \<and> \<not> muted \<and> p_muted_by_admin p)"
      and M': "snd (set_muted rid uid muted by_admin M) = update_participant rid uid f M"
      by (auto simp: set_muted_def f_def split: option.splits if_splits)
    note rwf = seatingD [OF mgr_wfD [OF assms] r(1), THEN conjunct2]
    have d: "distinct (map p_id (rm_participants r))" using rwf by (simp add: room_wf_def)
    have p: "q = p" if "q \<in> set (rm_participants r)" "p_id q = uid" for q
      using find_distinct_key [OF d that] r(2) by (simp add: room_find_def)
    have "map p_id (update_first (\<lambda>p. p_id p = uid) f (rm_participants r)) = map p_id (rm_participants r)"
      by (rule map_update_first_same) (simp add: f_def p_id_def)
    moreover have "length (filter p_sharing_screen (update_first (\<lambda>p. p_id p = uid) f (rm_participants r)))
        = length (filter p_sharing_screen (rm_participants r))"
      by (rule filter_update_first) (simp add: f_def)
    moreover have "list_all participant_wf (update_first (\<lambda>p. p_id p = uid) f (rm_participants r))"
      using rwf p nf by (auto simp: list_all_iff room_wf_def f_def participant_wf_def
          dest!: update_first_key_cases split: if_splits)
    ultimately have "room_wf (set_participants (update_first (\<lambda>p. p_id p = uid) f) r)"
      using rwf by (simp add: room_wf_def set_participants_def)
    then show ?thesis
      unfolding M' by (intro update_participant_wf [OF assms r(1)]) (simp_all add: f_def p_id_def)
  qed (simp add: assms)
qed

lemma start_screen_share_cases:
  assumes "start_screen_share rid uid a M = (f, M')"
  obtains (refused) e where "f = Some e" "M' = M"
  | (started) r p where "f = None" "map_of (mgr_rooms M) rid = Some r" "room_find r uid = Some p"
      "screen_sharer r = None \<or> (\<exists>q. screen_sharer r = Some q \<and> p_id q = uid)"
      "M' = update_participant rid uid (\<lambda>p. p\<lparr>p_sharing_screen := True, p_sharing_audio := a\<rparr>) M"
  using assms by (auto simp: start_screen_share_def Let_def split: option.splits if_splits)

lemma start_screen_share_wf [inv_intros]:
  assumes "mgr_wf M" shows "mgr_wf (snd (start_screen_share rid uid a M))"
proof -
  obtain f M' where s: "start_screen_share rid uid a M = (f, M')" by fastforce
  then show ?thesis
  proof (cases rule: start_screen_share_cases)
    case refused
    with assms s show ?thesis by simp
  next
    case (started r p)
    note rwf = seatingD [OF mgr_wfD [OF assms] started(2), THEN conjunct2]
    have "room_wf (set_participants (update_first (\<lambda>p. p_id p = uid)
        (\<lambda>p. p\<lparr>p_sharing_screen := True, p_sharing_audio := a\<rparr>)) r)"
    proof (rule room_wf_update [OF rwf, where k = uid])
      fix q assume "q \<in> set (update_first (\<lambda>p. p_id p = uid)
          (\<lambda>p. p\<lparr>p_sharing_screen := True, p_sharing_audio := a\<rparr>) (rm_participants r))"
        and "p_sharing_screen q"
      then show "p_id q = uid"
        using sharer_unique [OF rwf] started(4) update_first_key_cases by (fastforce simp: p_id_def)
    qed (simp_all add: p_id_def participant_wf_def)
    then show ?thesis
      using s started(5) update_participant_wf [OF assms started(2)] by (simp add: p_id_def)
  qed
qed

lemma stop_screen_share_wf [inv_intros]:
  assumes "mgr_wf M" shows "mgr_wf (snd (stop_screen_share rid uid M))"
proof (cases "snd (stop_screen_share rid uid M) = M")
  case False
  let ?f = "\<lambda>p. p\<lparr>p_sharing_screen := False, p_sharing_audio := False\<rparr>"
  obtain r where r: "map_of (mgr_rooms M) rid = Some r"
    and M': "snd (stop_screen_share rid uid M) = update_participant rid uid ?f M"
    using False by (auto simp: stop_screen_share_def split: option.splits)
  note rwf = seatingD [OF mgr_wfD [OF assms] r, THEN conjunct2]
  obtain k where k: "\<And>q. q \<in> set (rm_participants r) \<Longrightarrow> p_sharing_screen q \<Longrightarrow> p_id q = k"
    using sharer_unique [OF rwf] by (metis option.inject)
  have "room_wf (set_participants (update_first (\<lambda>p. p_id p = uid) ?f) r)"
  proof (rule room_wf_update [OF rwf, where k = k])
    fix q assume "q \<in> set (update_first (\<lambda>p. p_id p = uid) ?f (rm_participants r))" "p_sharing_screen q"
    then show "p_id q = k" using k by (auto dest!: update_first_key_cases)
  qed (simp_all add: p_id_def participant_wf_def)
  then show ?thesis
    unfolding M' by (intro update_participant_wf [OF assms r]) (simp_all add: p_id_def)
qed (simp add: assms)

lemma participant_ops_synced [inv_intros]:
  "synced M \<Longrightarrow> synced (snd (set_muted rid uid m b M))"
  "synced M \<Longrightarrow> synced (snd (start_screen_share rid uid a M))"
  "synced M \<Longrightarrow> synced (snd (stop_screen_share rid uid M))"
  by (auto simp: set_muted_def start_screen_share_def stop_screen_share_def Let_def inv_intros
      split: option.split)

lemma participant_ops_room_of [simp]:
  "room_of (snd (set_muted rid uid m b M)) i = room_of M i"
  "room_of (snd (start_screen_share rid uid a M)) i = room_of M i"
  "room_of (snd (stop_screen_share rid uid M)) i = room_of M i"
  by (auto simp: set_muted_def start_screen_share_def stop_screen_share_def Let_def
      split: option.split)

subsection \<open>Making, ending, resizing and loading rooms\<close>

lemma generate_room_id_frame [simp]:
  "mgr_rooms (snd (generate_room_id D M)) = mgr_rooms M"
  "mgr_store (snd (generate_room_id D M)) = mgr_store M"
  "mgr_chat (snd (generate_room_id D M)) = mgr_chat M"
  "mgr_user_to_room (snd (generate_room_id D M)) = mgr_user_to_room M"
  "mgr_max_participants (snd (generate_room_id D M)) = mgr_max_participants M"
  by (simp_all add: generate_room_id_def)

text \<open>The room a creation adds.\<close>

definition created_room :: "string \<Rightarrow> string \<Rightarrow> string \<Rightarrow> int \<Rightarrow> room" where
  "created_room rid wanted owner capacity = \<lparr>rm_id = rid,
     rm_name = (if wanted = [] then rid else wanted), rm_participants = [], rm_owner_id = owner,
     rm_persistent = True, rm_capacity = capacity\<rparr>"

lemma created_room_sel [simp]:
  "rm_id (created_room i w ow c) = i" "rm_participants (created_room i w ow c) = []"
  "rm_name (created_room i w ow c) = (if w = [] then i else w)"
  "rm_owner_id (created_room i w ow c) = ow" "rm_capacity (created_room i w ow c) = c"
  "room_wf (created_room i w ow c) \<longleftrightarrow> 0 < c \<and> is_int32 c"
  by (simp_all add: created_room_def room_wf_def)

lemma rooms_upsert_ok [simp]: "rooms_upsert w r s = (f, s') \<Longrightarrow> f = None"
  using mem_rooms.upsert_ok [of w r s] by simp

text \<open>Either the attempts ran out, or an identifier that was free everywhere was drawn.\<close>

lemma create_attempts_cases:
  assumes "create_attempts D w n wanted owner c M = (res, M')"
  shows "(res = Inl (mk_error ''room_id_exhausted'' ''could not find a free room identifier'')
      \<and> mgr_rooms M' = mgr_rooms M \<and> mgr_store M' = mgr_store M)
    \<or> (\<exists>rid k. res = Inr rid \<and> rid = map (\<lambda>k. kHexDigits ! D k) [k..<k + kRoomIdLength]
        \<and> map_of (mgr_rooms M) rid = None
        \<and> (\<forall>s. mgr_store M = Some s \<longrightarrow> rooms_find s rid = None)
        \<and> (wanted = [] \<longrightarrow> \<not> name_taken M (room_name_key rid))
        \<and> mgr_rooms M' = AList.update rid (created_room rid wanted owner c) (mgr_rooms M)
        \<and> mgr_store M' = map_option (\<lambda>s. snd (rooms_upsert w
              (record_of (created_room rid wanted owner c) c) s)) (mgr_store M))"
  using assms
proof (induction n arbitrary: M)
  case 0
  then show ?case by simp
next
  case (Suc n)
  obtain rid M1 where g: "generate_room_id D M = (rid, M1)" by fastforce
  have M1: "mgr_rooms M1 = mgr_rooms M" "mgr_store M1 = mgr_store M"
    using generate_room_id_frame [of D M] g by auto
  then have nt: "name_taken M1 = name_taken M" by (simp add: name_taken_def fun_eq_iff)
  have rid: "rid = map (\<lambda>k. kHexDigits ! D k) [mgr_draws M..<mgr_draws M + kRoomIdLength]"
    using g by (simp add: generate_room_id_def)
  let ?again = "map_of (mgr_rooms M1) rid \<noteq> None
    \<or> (case mgr_store M1 of None \<Rightarrow> False | Some s \<Rightarrow> rooms_find s rid \<noteq> None)
    \<or> wanted = [] \<and> name_taken M1 (room_name_key rid)"
  show ?case
  proof (cases ?again)
    case True
    then have "create_attempts D w n wanted owner c M1 = (res, M')"
      using Suc.prems g by (auto split: if_splits)
    from Suc.IH [OF this] show ?thesis by (simp add: M1 nt)
  next
    case False
    then have free: "map_of (mgr_rooms M) rid = None"
      "\<forall>s. mgr_store M = Some s \<longrightarrow> rooms_find s rid = None"
      "wanted = [] \<longrightarrow> \<not> name_taken M (room_name_key rid)"
      by (simp_all add: M1 nt split: option.splits)
    let ?r = "created_room rid wanted owner c"
    have "res = Inr rid \<and> mgr_rooms M' = AList.update rid ?r (mgr_rooms M)
      \<and> mgr_store M' = map_option (\<lambda>s. snd (rooms_upsert w (record_of ?r c) s)) (mgr_store M)"
    proof (cases "mgr_store M")
      case None
      with Suc.prems g False M1 show ?thesis by (auto simp: created_room_def)
    next
      case (Some s)
      obtain s' where "rooms_upsert w (record_of ?r c) s = (None, s')"
        using mem_rooms.upsert_ok by (metis prod.collapse)
      with Suc.prems g False M1 Some show ?thesis by (auto simp: created_room_def)
    qed
    with free rid show ?thesis by blast
  qed
qed

lemma create_attempts_frame:
  assumes "create_attempts D w n wanted owner c M = (res, M')"
  shows "mgr_user_to_room M' = mgr_user_to_room M \<and> mgr_chat M' = mgr_chat M
    \<and> mgr_max_participants M' = mgr_max_participants M"
  using assms
proof (induction n arbitrary: M)
  case (Suc n)
  obtain rid M1 where g: "generate_room_id D M = (rid, M1)" by fastforce
  then have M1: "mgr_user_to_room M1 = mgr_user_to_room M" "mgr_chat M1 = mgr_chat M"
      "mgr_max_participants M1 = mgr_max_participants M"
    using generate_room_id_frame [of D M] by auto
  show ?case
  proof (cases "create_attempts D w n wanted owner c M1 = (res, M')")
    case True
    from Suc.IH [OF this] show ?thesis by (simp add: M1)
  next
    case False
    with Suc.prems g show ?thesis
      by (auto simp: Let_def M1 split: if_splits option.splits prod.splits)
  qed
qed simp

text \<open>A capacity that passed the checks of \<open>create_room\<close>.\<close>

definition granted_capacity :: "room_manager \<Rightarrow> int \<Rightarrow> int" where
  "granted_capacity M c = (if c = 0 then default_capacity M else c)"

lemma max_capacity_range: "2 \<le> max_capacity M \<and> max_capacity M \<le> 50"
  by (simp add: max_capacity_def kMinRoomCapacity_def kMaxRoomCapacity_def)

lemma granted_capacity_range:
  assumes "c = 0 \<or> is_valid_room_capacity c \<and> c \<le> max_capacity M"
  shows "2 \<le> granted_capacity M c \<and> granted_capacity M c \<le> max_capacity M"
  using assms max_capacity_range [of M]
  by (auto simp: granted_capacity_def default_capacity_def kDefaultRoomCapacity_def
      is_valid_room_capacity_def kMinRoomCapacity_def)

lemma create_room_cases:
  assumes "create_room D w name owner c M = (res, M')"
  obtains (refused) e where "res = Inl e" "mgr_rooms M' = mgr_rooms M" "mgr_store M' = mgr_store M"
  | (created) rid k where "res = Inr rid"
      "rid = map (\<lambda>k. kHexDigits ! D k) [k..<k + kRoomIdLength]"
      "c = 0 \<or> is_valid_room_capacity c \<and> c \<le> max_capacity M"
      "\<not> name_taken M (room_name_key (trim_room_name name))"
      "map_of (mgr_rooms M) rid = None"
      "\<forall>s. mgr_store M = Some s \<longrightarrow> rooms_find s rid = None"
      "trim_room_name name = [] \<longrightarrow> \<not> name_taken M (room_name_key rid)"
      "mgr_rooms M' = AList.update rid
         (created_room rid (trim_room_name name) owner (granted_capacity M c)) (mgr_rooms M)"
      "mgr_store M' = map_option (\<lambda>s. snd (rooms_upsert w (record_of
         (created_room rid (trim_room_name name) owner (granted_capacity M c)) (granted_capacity M c)) s))
         (mgr_store M)"
proof (cases "(c \<noteq> 0 \<and> (\<not> is_valid_room_capacity c \<or> c > max_capacity M))
    \<or> name_taken M (room_name_key (trim_room_name name))")
  case True
  with assms have "mgr_rooms M' = mgr_rooms M" "mgr_store M' = mgr_store M" "\<exists>e. res = Inl e"
    by (auto simp: create_room_def Let_def split: if_splits)
  then show ?thesis by (auto intro: refused)
next
  case False
  with assms have "create_attempts D w kMaxIdAttempts (trim_room_name name) owner
      (granted_capacity M c) M = (res, M')"
    by (auto simp: create_room_def granted_capacity_def Let_def split: if_splits)
  from create_attempts_cases [OF this] show ?thesis
  proof (elim disjE exE conjE)
    assume "res = Inl (mk_error ''room_id_exhausted'' ''could not find a free room identifier'')"
      "mgr_rooms M' = mgr_rooms M" "mgr_store M' = mgr_store M"
    then show ?thesis by (rule refused)
  next
    fix rid k
    assume "res = Inr rid" "rid = map (\<lambda>k. kHexDigits ! D k) [k..<k + kRoomIdLength]"
      "map_of (mgr_rooms M) rid = None" "\<forall>s. mgr_store M = Some s \<longrightarrow> rooms_find s rid = None"
      "trim_room_name name = [] \<longrightarrow> \<not> name_taken M (room_name_key rid)"
      "mgr_rooms M' = AList.update rid
         (created_room rid (trim_room_name name) owner (granted_capacity M c)) (mgr_rooms M)"
      "mgr_store M' = map_option (\<lambda>s. snd (rooms_upsert w (record_of
         (created_room rid (trim_room_name name) owner (granted_capacity M c)) (granted_capacity M c)) s))
         (mgr_store M)"
    moreover have "c = 0 \<or> is_valid_room_capacity c \<and> c \<le> max_capacity M" using False by auto
    ultimately show ?thesis using False created by blast
  qed
qed

lemma create_room_frame [simp]:
  "mgr_user_to_room (snd (create_room D w name owner c M)) = mgr_user_to_room M"
  "mgr_chat (snd (create_room D w name owner c M)) = mgr_chat M"
  using create_attempts_frame [of D w kMaxIdAttempts _ owner _ M]
  by (simp_all add: create_room_def Let_def) (metis prod.collapse)+

lemma create_room_wf [inv_intros]:
  assumes "mgr_wf M" shows "mgr_wf (snd (create_room D w name owner c M))"
proof -
  obtain res M' where "create_room D w name owner c M = (res, M')" by fastforce
  moreover from this have u: "mgr_user_to_room M' = mgr_user_to_room M"
    using create_room_frame(1) [of D w name owner c M] by simp
  ultimately show ?thesis
  proof (cases rule: create_room_cases)
    case refused
    with assms u \<open>create_room D w name owner c M = (res, M')\<close> show ?thesis by (simp add: mgr_wf_def)
  next
    case (created rid k)
    note range = granted_capacity_range [OF created(3)] max_capacity_range [of M]
    then have "is_int32 (granted_capacity M c)" "0 < granted_capacity M c"
      by (auto simp: is_int32_def)
    then have "seating_ok ((map_of (mgr_rooms M))(rid \<mapsto> created_room rid (trim_room_name name) owner
        (granted_capacity M c))) (map_of (mgr_user_to_room M))"
      by (intro seating_new [OF mgr_wfD [OF assms] created(5)]) simp_all
    with assms u created(8) \<open>create_room D w name owner c M = (res, M')\<close>
    show ?thesis by (simp add: mgr_wf_def)
  qed
qed

lemma create_room_synced [inv_intros]:
  assumes "synced M" shows "synced (snd (create_room D w name owner c M))"
proof -
  obtain res M' where cr: "create_room D w name owner c M = (res, M')" by fastforce
  then show ?thesis
  proof (cases rule: create_room_cases)
    case refused
    with assms cr synced_cong [of M' M] show ?thesis by simp
  next
    case (created rid k)
    let ?r = "created_room rid (trim_room_name name) owner (granted_capacity M c)"
    have "0 < granted_capacity M c" using granted_capacity_range [OF created(3)] by simp
    then have "record_view (record_of ?r (granted_capacity M c)) = room_view ?r"
      "rr_id (record_of ?r (granted_capacity M c)) = rid"
      by (simp_all add: record_view_def room_view_def record_of_def)
    then show ?thesis
      using assms cr created(8,9)
      by (cases "mgr_store M") (auto simp: synced_def find_upsert_view)
  qed
qed

lemma room_of_create_room [simp]: "room_of (snd (create_room D w name owner c M)) i = room_of M i"
  by (simp add: room_of_def)

lemma forget_frame [simp]:
  "mgr_rooms (forget rid M) = mgr_rooms M" "mgr_store (forget rid M) = mgr_store M"
  "mgr_user_to_room (forget rid M) = mgr_user_to_room M"
  "mgr_max_participants (forget rid M) = mgr_max_participants M"
  "mgr_chat (forget rid M) = map_option (\<lambda>c. snd (chat_clear rid c)) (mgr_chat M)"
  by (simp_all add: forget_def split: option.split)

lemma remove_room_live:
  assumes "map_of (mgr_rooms M) rid = Some r"
  shows "fst (remove_room rid M) = Inr (map p_id (rm_participants r))
    \<and> mgr_rooms (snd (remove_room rid M)) = AList.delete rid (mgr_rooms M)
    \<and> mgr_user_to_room (snd (remove_room rid M))
        = fold AList.delete (map p_id (rm_participants r)) (mgr_user_to_room M)
    \<and> mgr_store (snd (remove_room rid M)) = map_option (\<lambda>s. snd (rooms_remove rid s)) (mgr_store M)
    \<and> mgr_chat (snd (remove_room rid M)) = map_option (\<lambda>c. snd (chat_clear rid c)) (mgr_chat M)"
  using assms by (simp add: remove_room_def Let_def)

lemma remove_room_dead:
  assumes "map_of (mgr_rooms M) rid = None"
  shows "mgr_rooms (snd (remove_room rid M)) = mgr_rooms M
    \<and> mgr_user_to_room (snd (remove_room rid M)) = mgr_user_to_room M
    \<and> (\<forall>ids. fst (remove_room rid M) = Inr ids \<longrightarrow> ids = [])"
  using assms by (auto simp: remove_room_def split: option.splits prod.splits)

lemma remove_room_wf [inv_intros]:
  assumes "mgr_wf M" shows "mgr_wf (snd (remove_room rid M))"
proof (cases "map_of (mgr_rooms M) rid")
  case None
  with assms remove_room_dead [OF None] show ?thesis by (simp add: mgr_wf_def)
next
  case (Some r)
  with assms remove_room_live [OF Some] seating_close [OF mgr_wfD [OF assms] Some]
  show ?thesis by (simp add: mgr_wf_def fold_delete distinct_fold_delete)
qed

lemma synced_store:
  "synced M \<Longrightarrow> mgr_store M = Some s \<Longrightarrow>
     map_option record_view (rooms_find s rid) = map_option room_view (map_of (mgr_rooms M) rid)"
  by (simp add: synced_def)

lemma remove_room_synced [inv_intros]:
  assumes "synced M" shows "synced (snd (remove_room rid M))"
proof (cases "map_of (mgr_rooms M) rid")
  case None
  have "snd (remove_room rid M) = M"
  proof (cases "mgr_store M")
    case (Some s)
    with synced_store [OF assms Some, of rid] None show ?thesis by (simp add: remove_room_def)
  qed (simp add: remove_room_def None)
  with assms show ?thesis by simp
next
  case (Some r)
  from assms remove_room_live [OF Some] show ?thesis
    by (cases "mgr_store M") (auto simp: synced_def mem_rooms.find_remove)
qed

lemma room_of_remove_room:
  assumes "mgr_wf M"
  shows "room_of (snd (remove_room rid M)) i = (if room_of M i = Some rid then None else room_of M i)"
proof (cases "map_of (mgr_rooms M) rid")
  case None
  then have "room_of M i \<noteq> Some rid" using assms by (simp add: room_of_contains mgr_find_def)
  with remove_room_dead [OF None] show ?thesis by (simp add: room_of_def)
next
  case (Some r)
  have "room_of M i = Some rid \<longleftrightarrow> i \<in> p_id ` set (rm_participants r)"
    using assms Some by (simp add: room_of_contains mgr_find_def room_contains_iff)
  with remove_room_live [OF Some] show ?thesis by (simp add: room_of_def fold_delete restrict_map_def)
qed

lemma set_capacity_cases:
  assumes "set_capacity w rid c M = (f, M')"
  obtains (refused) e where "f = Some e" "M' = M"
  | (resized) r where "f = None" "is_valid_room_capacity c" "c \<le> max_capacity M"
      "map_of (mgr_rooms M) rid = Some r"
      "mgr_rooms M' = AList.map_entry rid (\<lambda>r. r\<lparr>rm_capacity := c\<rparr>) (mgr_rooms M)"
      "mgr_user_to_room M' = mgr_user_to_room M" "mgr_chat M' = mgr_chat M"
      "mgr_store M' = map_option (\<lambda>s. snd (rooms_upsert w (record_of r c) s)) (mgr_store M)"
proof (cases "(\<not> is_valid_room_capacity c \<or> c > max_capacity M) \<or> map_of (mgr_rooms M) rid = None")
  case True
  with assms have "f \<noteq> None \<and> M' = M" by (auto simp: set_capacity_def split: if_splits)
  then show ?thesis by (auto intro: refused)
next
  case False
  then obtain r where r: "map_of (mgr_rooms M) rid = Some r" by auto
  have ok: "is_valid_room_capacity c" "c \<le> max_capacity M" using False by auto
  show ?thesis
  proof (cases "mgr_store M")
    case None
    with assms r ok show ?thesis
      by (intro resized [OF _ ok r]) (auto simp: set_capacity_def Let_def)
  next
    case (Some s)
    obtain s' where s': "rooms_upsert w (record_of r c) s = (None, s')"
      using mem_rooms.upsert_ok by (metis prod.collapse)
    with assms r ok Some show ?thesis
      by (intro resized [OF _ ok r]) (auto simp: set_capacity_def Let_def)
  qed
qed

lemma set_capacity_wf [inv_intros]:
  assumes "mgr_wf M" shows "mgr_wf (snd (set_capacity w rid c M))"
proof -
  obtain f M' where sc: "set_capacity w rid c M = (f, M')" by fastforce
  then show ?thesis
  proof (cases rule: set_capacity_cases)
    case refused
    with assms sc show ?thesis by simp
  next
    case (resized r)
    have "room_wf (r\<lparr>rm_capacity := c\<rparr>)"
      using seatingD [OF mgr_wfD [OF assms] resized(4)] resized(2)
      by (auto simp: room_wf_def is_valid_room_capacity_def kMinRoomCapacity_def
          kMaxRoomCapacity_def is_int32_def)
    then have "seating_ok ((map_of (mgr_rooms M))(rid \<mapsto> r\<lparr>rm_capacity := c\<rparr>))
        (map_of (mgr_user_to_room M))"
      by (intro seating_update [OF mgr_wfD [OF assms] resized(4)]) simp_all
    with assms sc resized show ?thesis by (simp add: mgr_wf_def)
  qed
qed

lemma set_capacity_synced [inv_intros]:
  assumes "synced M" and "mgr_wf M" shows "synced (snd (set_capacity w rid c M))"
proof -
  obtain f M' where sc: "set_capacity w rid c M = (f, M')" by fastforce
  then show ?thesis
  proof (cases rule: set_capacity_cases)
    case refused
    with assms sc show ?thesis by simp
  next
    case (resized r)
    have "rm_id r = rid" using seatingD [OF mgr_wfD [OF assms(2)] resized(4)] by simp
    then have "record_view (record_of r c) = room_view (r\<lparr>rm_capacity := c\<rparr>)"
      "rr_id (record_of r c) = rid"
      using resized(2) by (simp_all add: record_view_def room_view_def record_of_def
          is_valid_room_capacity_def kMinRoomCapacity_def)
    then show ?thesis
      using assms(1) sc resized by (cases "mgr_store M") (auto simp: synced_def find_upsert_view)
  qed
qed

lemma room_of_set_capacity [simp]: "room_of (snd (set_capacity w rid c M)) i = room_of M i"
proof -
  obtain f M' where sc: "set_capacity w rid c M = (f, M')" by fastforce
  then show ?thesis by (cases rule: set_capacity_cases) (simp_all add: sc room_of_def)
qed

text \<open>Loading: what was live stays, what was not comes from its first record, empty.\<close>

lemma load_record_fold:
  assumes "fold load_record recs (M, n) = (M', n')"
  shows "mgr_user_to_room M' = mgr_user_to_room M \<and> mgr_store M' = mgr_store M
    \<and> mgr_chat M' = mgr_chat M
    \<and> map_option room_view (map_of (mgr_rooms M') rid) = (case map_of (mgr_rooms M) rid of
          Some r \<Rightarrow> Some (room_view r)
        | None \<Rightarrow> map_option record_view (List.find (\<lambda>r. rr_id r = rid) recs))
    \<and> (\<forall>r. map_of (mgr_rooms M') rid = Some r \<longrightarrow>
          map_of (mgr_rooms M) rid = Some r \<or> rm_participants r = [])"
  using assms
proof (induction recs arbitrary: M n)
  case (Cons rec recs)
  obtain M1 n1 where 1: "load_record rec (M, n) = (M1, n1)" by fastforce
  then have "fold load_record recs (M1, n1) = (M', n')" using Cons.prems by simp
  note IH = Cons.IH [OF this]
  show ?case
  proof (cases "map_of (mgr_rooms M) (rr_id rec)")
    case (Some r)
    then have "M1 = M" using 1 by (simp add: load_record_def)
    with IH Some show ?thesis by (auto split: option.splits)
  next
    case None
    with 1 IH show ?thesis
      by (auto simp: load_record_def record_view_def room_view_def split: option.splits if_splits)
  qed
qed (simp split: option.split)

lemma load_record_fold_wf:
  assumes "mgr_wf M" and "\<And>rec. rec \<in> set recs \<Longrightarrow> is_int32 (rr_capacity rec)"
  shows "mgr_wf (fst (fold load_record recs (M, n)))"
  using assms
proof (induction recs arbitrary: M n)
  case (Cons rec recs)
  obtain M1 n1 where 1: "load_record rec (M, n) = (M1, n1)" by fastforce
  have "mgr_wf M1"
  proof (cases "map_of (mgr_rooms M) (rr_id rec)")
    case (Some r)
    with 1 Cons.prems show ?thesis by (simp add: load_record_def)
  next
    case None
    let ?r = "\<lparr>rm_id = rr_id rec, rm_name = rr_name rec, rm_participants = [],
             rm_owner_id = rr_owner_id rec, rm_persistent = True,
             rm_capacity = (if rr_capacity rec > 0 then rr_capacity rec else kDefaultRoomCapacity)\<rparr>"
    have "room_wf ?r"
      using Cons.prems(2) by (auto simp: room_wf_def kDefaultRoomCapacity_def is_int32_def)
    then have "seating_ok ((map_of (mgr_rooms M))(rr_id rec \<mapsto> ?r)) (map_of (mgr_user_to_room M))"
      by (intro seating_new [OF mgr_wfD [OF Cons.prems(1)] None]) simp_all
    with 1 None Cons.prems(1) show ?thesis by (auto simp: load_record_def mgr_wf_def)
  qed
  with Cons 1 show ?case by simp
qed simp

section \<open>The manager as a machine\<close>

text \<open>Every call that changes the manager, as one step each.\<close>

datatype room_op =
    OpCreate string string int
  | OpRemove string
  | OpResize string int
  | OpJoin string user
  | OpLeave string string
  | OpDrop string
  | OpMute string string bool bool
  | OpShare string string bool
  | OpUnshare string string

fun room_step :: "(nat \<Rightarrow> nat) \<Rightarrow> int \<Rightarrow> room_op \<Rightarrow> room_manager \<Rightarrow> room_manager" where
  "room_step D wall (OpCreate name owner c) M = snd (create_room D wall name owner c M)"
| "room_step D wall (OpRemove rid) M = snd (remove_room rid M)"
| "room_step D wall (OpResize rid c) M = snd (set_capacity wall rid c M)"
| "room_step D wall (OpJoin rid u) M = snd (join rid u M)"
| "room_step D wall (OpLeave rid uid) M = snd (leave rid uid M)"
| "room_step D wall (OpDrop uid) M = snd (remove_from_any_room uid M)"
| "room_step D wall (OpMute rid uid muted by_admin) M = snd (set_muted rid uid muted by_admin M)"
| "room_step D wall (OpShare rid uid audio) M = snd (start_screen_share rid uid audio M)"
| "room_step D wall (OpUnshare rid uid) M = snd (stop_screen_share rid uid M)"

definition mgr_good :: "room_manager \<Rightarrow> bool" where
  "mgr_good M \<longleftrightarrow> mgr_wf M \<and> synced M"

lemma room_step_good: "mgr_good M \<Longrightarrow> mgr_good (room_step D wall op M)"
  by (cases op) (auto simp: mgr_good_def intro: inv_intros)

interpretation room_machine: invariant_machine "room_step D wall" mgr_good
  by unfold_locales (rule room_step_good)

lemma new_room_manager_good:
  assumes "store \<noteq> None \<longrightarrow> store = Some []"
  shows "mgr_good (new_room_manager mx store chat)"
  using assms by (auto simp: mgr_good_def new_room_manager_def mgr_wf_def seating_ok_def synced_def
      rooms_find_def)

section \<open>What the manager guarantees\<close>

text \<open>C35. After any sequence of calls on a new manager, whatever they were and whichever of them were
  refused: a user is in at most one room, the index and the rooms agree on which, no room lists
  anybody twice or has two people sharing a screen, a mute by an administrator is a mute, and the
  rooms are the rooms of the store, by name, owner and size.\<close>

theorem room_manager_invariant:
  "let M = fold (room_step D wall) ops (new_room_manager mx (Some []) chat) in
      (room_of M uid = Some rid \<longleftrightarrow>
        (\<exists>r. mgr_find M rid = Some r \<and> uid \<in> p_id ` set (rm_participants r)))
    \<and> (case mgr_find M rid of None \<Rightarrow> True | Some r \<Rightarrow>
          rm_id r = rid \<and> distinct (map p_id (rm_participants r))
        \<and> length (filter p_sharing_screen (rm_participants r)) \<le> 1
        \<and> filter (\<lambda>p. p_muted_by_admin p \<and> \<not> p_muted p) (rm_participants r) = []
        \<and> 0 < rm_capacity r)
    \<and> (case mgr_store M of None \<Rightarrow> True | Some s \<Rightarrow>
          map_option record_view (rooms_find s rid) = map_option room_view (mgr_find M rid))"
proof -
  define M where "M = fold (room_step D wall) ops (new_room_manager mx (Some []) chat)"
  have "mgr_good M"
    unfolding M_def by (rule room_machine.run_good [OF new_room_manager_good]) simp
  then have wf: "mgr_wf M" and sy: "synced M" by (simp_all add: mgr_good_def)
  have "room_of M uid = Some rid \<longleftrightarrow>
      (\<exists>r. mgr_find M rid = Some r \<and> uid \<in> p_id ` set (rm_participants r))"
    using room_of_contains [OF wf] by (simp add: room_contains_iff)
  moreover have "rm_id r = rid \<and> room_wf r" if "mgr_find M rid = Some r" for r
    using seatingD [OF mgr_wfD [OF wf]] that by (simp add: mgr_find_def)
  moreover have "map_option record_view (rooms_find s rid) = map_option room_view (mgr_find M rid)"
    if "mgr_store M = Some s" for s
    using synced_store [OF sy that] by (simp add: mgr_find_def)
  ultimately show ?thesis
    unfolding M_def [symmetric] Let_def
    by (auto simp: room_wf_def filter_empty_conv list_all_iff participant_wf_def split: option.split)
qed

text \<open>Joining: it succeeds exactly when the room exists, does not hold the user yet and is below
  its own size; a refusal changes nothing. Afterwards the user is at the end of that room's list,
  which is within its size, unmuted and not sharing, in no other room, and everybody else is where
  they were.\<close>

lemma join_effect:
  assumes "mgr_wf M" and "join rid u M = (f, M')"
  shows "(f = None \<longleftrightarrow> (\<exists>r. mgr_find M rid = Some r \<and> u_id u \<notin> p_id ` set (rm_participants r)
            \<and> int (length (rm_participants r)) < rm_capacity r))
    \<and> (f \<noteq> None \<longrightarrow> M' = M)
    \<and> (f = None \<longrightarrow> (\<exists>r r'. mgr_find M rid = Some r \<and> mgr_find M' rid = Some r'
          \<and> rm_participants r' = rm_participants r @ [new_participant u]
          \<and> int (length (rm_participants r')) \<le> rm_capacity r' \<and> rm_capacity r' = rm_capacity r)
        \<and> (\<forall>i. room_of M' i = (if i = u_id u then Some rid else room_of M i)))"
proof -
  have full: "room_is_full r \<longleftrightarrow> int (length (rm_participants r)) \<ge> rm_capacity r"
    if "map_of (mgr_rooms M) rid = Some r" for r
  proof -
    have "0 < rm_capacity r" "is_int32 (rm_capacity r)"
      using seatingD [OF mgr_wfD [OF assms(1)] that] by (simp_all add: room_wf_def)
    then show ?thesis by (simp add: room_is_full_def is_int32_def)
  qed
  show ?thesis
  proof (cases f)
    case (Some e)
    then have "\<not> (\<exists>r. map_of (mgr_rooms M) rid = Some r \<and> \<not> room_contains r (u_id u) \<and> \<not> room_is_full r)"
      using assms(2) by (auto simp: join_def Let_def split: if_splits)
    with Some assms(2) join_error full show ?thesis
      by (auto simp: mgr_find_def room_contains_iff not_le)
  next
    case None
    with assms(2) have j: "join rid u M = (None, M')" by simp
    then show ?thesis
    proof (rule join_okD)
      let ?L = "left_previous (u_id u) M"
      fix r
      assume r: "map_of (mgr_rooms M) rid = Some r" "\<not> room_contains r (u_id u)" "\<not> room_is_full r"
        and M': "M' = ?L\<lparr>mgr_user_to_room := AList.update (u_id u) rid (mgr_user_to_room ?L),
           mgr_rooms := AList.map_entry rid (set_participants (\<lambda>ps. ps @ [new_participant u]))
             (mgr_rooms ?L)\<rparr>"
      have "mgr_find M' rid = Some (set_participants (\<lambda>ps. ps @ [new_participant u]) r)"
        using left_previous_other [OF r(1,2) assms(1)] by (simp add: M' mgr_find_def)
      moreover have "room_of M' i = (if i = u_id u then Some rid else room_of M i)" for i
        using room_of_join [OF assms(1), of rid u i] j by simp
      ultimately show ?thesis
        using None r full [OF r(1)]
        by (auto simp: mgr_find_def room_contains_iff set_participants_def not_le)
    qed
  qed
qed

text \<open>Creating: a room is made with an identifier of six hexadecimal digits nobody else's room
  has, live or stored, under the trimmed name, or under the identifier when the name is empty, with
  a size this server allows; the name is refused if another room answers to it whatever the case and
  the spaces around it, so rooms whose names are told apart stay told apart. A refusal adds no
  room.\<close>

lemma create_room_effect:
  assumes "create_room D w name owner c M = (res, M')" and "\<And>k. D k < 16"
  shows "case res of Inl _ \<Rightarrow> mgr_rooms M' = mgr_rooms M \<and> mgr_store M' = mgr_store M
    | Inr rid \<Rightarrow> is_valid_room_id rid \<and> mgr_find M rid = None
        \<and> (case mgr_store M of None \<Rightarrow> True | Some s \<Rightarrow> rooms_find s rid = None)
        \<and> (\<exists>r. mgr_find M' = (mgr_find M)(rid \<mapsto> r) \<and> rm_id r = rid \<and> rm_participants r = []
            \<and> rm_owner_id r = owner \<and> 2 \<le> rm_capacity r \<and> rm_capacity r \<le> max_capacity M
            \<and> (c \<noteq> 0 \<longrightarrow> rm_capacity r = c)
            \<and> rm_name r = (if trim_room_name name = [] then rid else trim_room_name name)
            \<and> (\<forall>q r'. mgr_find M q = Some r' \<and> room_name_key (rm_name r) \<noteq> [] \<longrightarrow>
                  room_name_key (rm_name r') \<noteq> room_name_key (rm_name r)))"
  using assms(1)
proof (cases rule: create_room_cases)
  case refused
  then show ?thesis by simp
next
  case (created rid k)
  have hex: "is_room_id_char (kHexDigits ! n)" if "n < 16" for n
  proof -
    have "list_all is_room_id_char kHexDigits" by (simp add: kHexDigits_def is_room_id_char_def)
    then show ?thesis using that by (simp add: list_all_length kHexDigits_def)
  qed
  then have id: "is_valid_room_id rid"
    using assms(2) by (simp add: created(2) is_valid_room_id_def list_all_iff)
  have taken: "room_name_key (rm_name r') \<noteq> key"
    if "mgr_find M q = Some r'" "\<not> name_taken M key" "key \<noteq> []" for q r' key
    using that map_of_SomeD [of "mgr_rooms M" q r']
    by (auto simp: name_taken_def mgr_find_def list_ex_iff)
  let ?r = "created_room rid (trim_room_name name) owner (granted_capacity M c)"
  have "mgr_find M' = (mgr_find M)(rid \<mapsto> ?r)" using created(8) by (simp add: mgr_find_def fun_eq_iff)
  moreover have "\<not> name_taken M (room_name_key (rm_name ?r))" using created(4,7) by simp
  moreover note granted_capacity_range [OF created(3)]
  ultimately show ?thesis
    using created(1,5,6) id taken
    by (auto simp: mgr_find_def granted_capacity_def split: option.split intro!: exI [of _ ?r])
qed

text \<open>A restart: a new manager on the same store loads exactly the rooms that were live, with
  their names, owners and sizes, and nobody in them.\<close>

lemma restart_restores_rooms:
  assumes "mgr_good M" and "mgr_store M = Some s"
  shows "map_option room_view (mgr_find (snd (load_rooms (new_room_manager mx (Some s) chat))) rid)
      = map_option room_view (mgr_find M rid)
    \<and> (case mgr_find (snd (load_rooms (new_room_manager mx (Some s) chat))) rid of
         None \<Rightarrow> True | Some r \<Rightarrow> rm_participants r = [])"
proof -
  let ?N = "new_room_manager mx (Some s) chat"
  obtain M' n where f: "fold load_record (rooms_list s) (?N, 0) = (M', n)" by fastforce
  then have l: "snd (load_rooms ?N) = M'" by (simp add: load_rooms_def new_room_manager_def)
  have "map_option record_view (rooms_find s rid) = map_option room_view (mgr_find M rid)"
    using assms synced_store by (auto simp: mgr_good_def mgr_find_def)
  moreover have "mgr_rooms ?N = []" by (simp add: new_room_manager_def)
  then have "map_option room_view (map_of (mgr_rooms M') rid) = map_option record_view (rooms_find s rid)
      \<and> (\<forall>r. map_of (mgr_rooms M') rid = Some r \<longrightarrow> rm_participants r = [])"
    using load_record_fold [OF f, of rid] by (simp add: rooms_list_def rooms_find_def)
  ultimately show ?thesis unfolding l by (auto simp: mgr_find_def split: option.split)
qed

text \<open>Closing a room: it is gone from the live rooms and from the store, what was said in it is
  gone, the people it reports are exactly those who were in it and they are in no room, and every
  other room, seat and conversation is untouched.\<close>

lemma remove_room_effect:
  assumes "mgr_wf M" and "mgr_find M rid = Some r"
  shows "fst (remove_room rid M) = Inr (map p_id (rm_participants r))
    \<and> mgr_find (snd (remove_room rid M)) = (mgr_find M)(rid := None)
    \<and> (case mgr_store (snd (remove_room rid M)) of None \<Rightarrow> True | Some s \<Rightarrow> rooms_find s rid = None)
    \<and> (case mgr_chat (snd (remove_room rid M)) of None \<Rightarrow> True | Some ch \<Rightarrow> chat_list ch rid n = [])
    \<and> (\<forall>i. room_of (snd (remove_room rid M)) i = (if room_of M i = Some rid then None else room_of M i))
    \<and> (\<forall>q. q \<noteq> rid \<longrightarrow> map_option (\<lambda>ch. chat_list ch q n) (mgr_chat (snd (remove_room rid M)))
          = map_option (\<lambda>ch. chat_list ch q n) (mgr_chat M))"
  using remove_room_live [of M rid r] assms room_of_remove_room [OF assms(1), of rid]
  by (auto simp: mgr_find_def fun_eq_iff mem_rooms.remove_gone mem_chat.clear_gone
      mem_chat.clear_other option.map_comp comp_def split: option.split)


section \<open>The properties at work\<close>

text \<open>A server for ten people; the digits of the first identifier are drawn as 0, 1, 2, 3, 4, 5.\<close>

definition some_user :: user where
  "some_user = default_user\<lparr>u_id := ''7f'', u_display_name := ''Ana''\<rparr>"

definition toy_room :: room where
  "toy_room = \<lparr>rm_id = ''012345'', rm_name = ''Daily'', rm_participants = [], rm_owner_id = ''7f'',
     rm_persistent = True, rm_capacity = 5\<rparr>"

definition toy_manager :: room_manager where
  "toy_manager = snd (create_room (\<lambda>k. k mod 16) 9 '' Daily'' ''7f'' 0
     (new_room_manager 10 (Some []) (Some empty_chat_store)))"

definition toy_joined :: room_manager where
  "toy_joined = snd (join ''012345'' some_user toy_manager)"

lemma toy_create:
  "create_room (\<lambda>k. k mod 16) 9 '' Daily'' ''7f'' 0
     (new_room_manager 10 (Some []) (Some empty_chat_store)) = (Inr ''012345'', toy_manager)"
  "mgr_find toy_manager ''012345'' = Some toy_room"
proof -
  have t: "trim_room_name '' Daily'' = ''Daily''" by (simp add: trim_room_name_strip strip_def is_space_def)
  have k: "[0..<6] = [0, 1, 2, 3, 4, 5 :: nat]" by (simp add: upt_conv_Cons)
  note first = create_attempts.simps(2) [of _ _ 63, simplified]
  have "fst (create_room (\<lambda>k. k mod 16) 9 '' Daily'' ''7f'' 0
      (new_room_manager 10 (Some []) (Some empty_chat_store))) = Inr ''012345''
    \<and> mgr_find toy_manager ''012345'' = Some toy_room"
    by (simp add: toy_manager_def create_room_def Let_def t k kMaxIdAttempts_def first new_room_manager_def name_taken_def
        generate_room_id_def kRoomIdLength_def record_of_def
        rooms_find_def rooms_upsert_def mgr_find_def toy_room_def default_capacity_def
        max_capacity_def kMinRoomCapacity_def kMaxRoomCapacity_def kDefaultRoomCapacity_def
        kHexDigits_def)
  then show "create_room (\<lambda>k. k mod 16) 9 '' Daily'' ''7f'' 0
      (new_room_manager 10 (Some []) (Some empty_chat_store)) = (Inr ''012345'', toy_manager)"
    "mgr_find toy_manager ''012345'' = Some toy_room"
    by (auto simp: toy_manager_def prod_eq_iff)
qed

lemma toy_manager_good: "mgr_good toy_manager" "mgr_good toy_joined"
proof -
  have "mgr_good (new_room_manager 10 (Some []) (Some empty_chat_store))"
    by (rule new_room_manager_good) simp
  then show "mgr_good toy_manager" by (simp add: toy_manager_def mgr_good_def inv_intros)
  then show "mgr_good toy_joined" by (simp add: toy_joined_def mgr_good_def inv_intros)
qed

lemma toy_join: "join ''012345'' some_user toy_manager = (None, toy_joined)"
proof -
  have "map_of (mgr_rooms toy_manager) ''012345'' = Some toy_room"
    using toy_create(2) by (simp add: mgr_find_def)
  then have "fst (join ''012345'' some_user toy_manager) = None"
    by (simp add: join_def toy_room_def room_contains_def room_find_def room_is_full_def Let_def)
  then show ?thesis by (simp add: toy_joined_def prod_eq_iff)
qed

lemma toy_stored: "mgr_store toy_joined \<noteq> None"
proof -
  have "mgr_store toy_manager \<noteq> None"
    by (rule create_room_cases [OF toy_create(1)]) (simp_all add: new_room_manager_def)
  then show ?thesis
    by (auto simp: toy_joined_def join_def leave_def Let_def split: option.split)
qed

lemma create_room_effect_witness:
  "is_valid_room_id ''012345'' \<and> (\<exists>r. mgr_find toy_manager ''012345'' = Some r \<and> rm_name r = ''Daily'')"
  using create_room_effect [OF toy_create(1)] toy_create(2) by (simp add: toy_room_def)

lemma join_effect_witness:
  "room_of toy_joined ''7f'' = Some ''012345''"
  using join_effect [OF _ toy_join] toy_manager_good by (simp add: mgr_good_def some_user_def)

lemma restart_restores_rooms_witness:
  "\<exists>s. mgr_store toy_joined = Some s
     \<and> map_option room_view (mgr_find (snd (load_rooms (new_room_manager 10 (Some s) None))) ''012345'')
         = map_option room_view (mgr_find toy_joined ''012345'')"
proof -
  obtain s where s: "mgr_store toy_joined = Some s" using toy_stored by auto
  from restart_restores_rooms [OF toy_manager_good(2) this, of 10 None] s show ?thesis by blast
qed

lemma remove_room_effect_witness:
  "\<exists>r. mgr_find toy_joined ''012345'' = Some r
    \<and> fst (remove_room ''012345'' toy_joined) = Inr (map p_id (rm_participants r))
    \<and> room_of (snd (remove_room ''012345'' toy_joined)) ''7f'' = None"
proof -
  have wf: "mgr_wf toy_joined" using toy_manager_good by (simp add: mgr_good_def)
  have seat: "room_of toy_joined ''7f'' = Some ''012345''"
    using room_of_join [of toy_manager "''012345''" some_user "''7f''"] toy_join toy_manager_good
    by (simp add: mgr_good_def some_user_def)
  then obtain r where r: "mgr_find toy_joined ''012345'' = Some r"
    using room_of_contains [OF wf] by blast
  from remove_room_effect [OF wf r] r seat show ?thesis by simp
qed


end
