(* ===== verification/Authenticator.thy ===== *)
theory Authenticator
  imports Stores
begin

text \<open>
  \<open>server/src/signaling/authenticator.cpp\<close>: password accounts and session tokens over a user
  store. OpenSSL is not under \<open>src/\<close>: its random generator and its scrypt are the two fields of
  the parameter record \<open>crypto\<close>, either of which may fail, and a failure is the exception the code
  throws. \<open>CRYPTO_memcmp\<close> on buffers of one length is equality, as its manual says.
\<close>

section \<open>Parameters and state\<close>

text \<open>\<open>cr_rand k n\<close> is the answer to the \<open>k\<close>-th request, for \<open>n\<close> bytes; \<open>cr_scrypt pw salt\<close> the
  derived key.\<close>

record crypto =
  cr_rand :: "nat \<Rightarrow> nat \<Rightarrow> 8 word list option"
  cr_scrypt :: "string \<Rightarrow> string \<Rightarrow> 8 word list option"

record token =
  tk_user_id :: string
  tk_expires_at :: time

record authenticator =
  at_token_lifetime :: time
  at_users :: user_store
  at_tokens :: "(string, token) hash_map"
  at_draws :: nat

record session =
  s_user :: user
  s_token :: string
  s_expires_in_seconds :: int

record credentials =
  c_salt_hex :: string
  c_password_hash_hex :: string

text \<open>\<open>Options{}\<close>: tokens live eight hours.\<close>

definition default_token_lifetime :: time where
  "default_token_lifetime = seconds (8 * 3600)"

section \<open>Helpers\<close>

definition kDigits :: string where "kDigits = ''0123456789abcdef''"

definition to_hex :: "8 word list \<Rightarrow> string" where
  "to_hex bytes = concat (map (\<lambda>b. [kDigits ! unat (drop_bit 4 b), kDigits ! unat (and b 0x0F)]) bytes)"

definition random_hex :: "crypto \<Rightarrow> nat \<Rightarrow> authenticator \<Rightarrow> string throwing \<times> authenticator" where
  "random_hex C n A =
    (let A' = A\<lparr>at_draws := Suc (at_draws A)\<rparr>
     in case cr_rand C (at_draws A) n of
          None \<Rightarrow> (Inl ''the system random number generator failed'', A')
        | Some bytes \<Rightarrow> (Inr (to_hex bytes), A'))"

definition derive_key_hex :: "crypto \<Rightarrow> string \<Rightarrow> string \<Rightarrow> string throwing" where
  "derive_key_hex C password salt_hex =
    (case cr_scrypt C password salt_hex of
       None \<Rightarrow> Inl ''password key derivation failed''
     | Some key \<Rightarrow> Inr (to_hex key))"

definition constant_time_equals :: "string \<Rightarrow> string \<Rightarrow> bool" where
  "constant_time_equals left right = (if length left \<noteq> length right then False else left = right)"

lemma constant_time_equals_iff [simp]: "constant_time_equals l r \<longleftrightarrow> l = r"
  by (auto simp: constant_time_equals_def)

definition auth_unauthorized :: error where
  "auth_unauthorized = mk_error ''unauthorized'' ''invalid username or password''"

section \<open>Operations\<close>

text \<open>The account \<open>add_user\<close> fills in field by field.\<close>

definition new_account ::
  "string \<Rightarrow> string \<Rightarrow> role \<Rightarrow> string \<Rightarrow> string \<Rightarrow> string \<Rightarrow> account" where
  "new_account username display_name role uid salt key =
    \<lparr>ac_user = \<lparr>u_id = uid,
                u_display_name = (if display_name = [] then username else display_name),
                u_avatar = [], u_role = role, u_restrictions = no_restrictions\<rparr>,
     ac_username = username, ac_salt_hex = salt, ac_password_hash_hex = key,
     ac_created_at = 0, ac_session_end_requested_at = 0\<rparr>"

lemma new_account_sel [simp]:
  "ac_username (new_account n d r i s k) = n" "ac_salt_hex (new_account n d r i s k) = s"
  "ac_password_hash_hex (new_account n d r i s k) = k" "ac_id (new_account n d r i s k) = i"
  "ac_role (new_account n d r i s k) = r" "ac_created_at (new_account n d r i s k) = 0"
  "\<not> r_banned (u_restrictions (ac_user (new_account n d r i s k)))"
  by (simp_all add: new_account_def ac_id_def ac_role_def)

definition add_user ::
  "crypto \<Rightarrow> int \<Rightarrow> string \<Rightarrow> string \<Rightarrow> string \<Rightarrow> role \<Rightarrow> authenticator
     \<Rightarrow> user result throwing \<times> authenticator" where
  "add_user C wall username password display_name role A =
    (if username = [] \<or> password = []
     then (Inr (Inl (mk_error ''invalid_value'' ''username and password must not be empty'')), A)
     else if \<not> is_valid_display_name display_name
     then (Inr (Inl (mk_error ''invalid_value'' ''display name must not contain control characters'')), A)
     else (case random_hex C 16 A of
       (Inl e, A) \<Rightarrow> (Inl e, A)
     | (Inr uid, A) \<Rightarrow> (case random_hex C 16 A of
         (Inl e, A) \<Rightarrow> (Inl e, A)
       | (Inr salt, A) \<Rightarrow> (case derive_key_hex C password salt of
           Inl e \<Rightarrow> (Inl e, A)
         | Inr key \<Rightarrow>
             (let account = new_account username display_name role uid salt key
              in (case users_create wall account (at_users A) of
                    (Some failure, s) \<Rightarrow> (Inr (Inl failure), A\<lparr>at_users := s\<rparr>)
                  | (None, s) \<Rightarrow> (Inr (Inr (ac_user account)), A\<lparr>at_users := s\<rparr>)))))))"

text \<open>\<open>tokens_.emplace\<close> inserts only when the key is not there.\<close>

definition emplace :: "'k \<Rightarrow> 'v \<Rightarrow> ('k, 'v) hash_map \<Rightarrow> ('k, 'v) hash_map" where
  "emplace k v m = (case map_of m k of None \<Rightarrow> AList.update k v m | Some _ \<Rightarrow> m)"

definition authenticate ::
  "crypto \<Rightarrow> string \<Rightarrow> string \<Rightarrow> time \<Rightarrow> authenticator
     \<Rightarrow> session result throwing \<times> authenticator" where
  "authenticate C username password now A =
    (case users_find_by_username (at_users A) username of
       None \<Rightarrow> (Inr (Inl auth_unauthorized), A)
     | Some account \<Rightarrow>
        (case derive_key_hex C password (ac_salt_hex account) of
           Inl e \<Rightarrow> (Inl e, A)
         | Inr key \<Rightarrow>
            (if \<not> constant_time_equals (ac_password_hash_hex account) key
             then (Inr (Inl auth_unauthorized), A)
             else if r_banned (u_restrictions (ac_user account))
             then (Inr (Inl (mk_error ''account_banned''
                     ''this account has been suspended by an administrator'')), A)
             else (case random_hex C 32 A of
                (Inl e, A) \<Rightarrow> (Inl e, A)
              | (Inr tok, A) \<Rightarrow>
                  (Inr (Inr \<lparr>s_user = ac_user account, s_token = tok,
                      s_expires_in_seconds =
                        to_int32 (trunc_div (at_token_lifetime A) (seconds 1))\<rparr>),
                   A\<lparr>at_tokens := emplace tok
                        \<lparr>tk_user_id = u_id (ac_user account),
                         tk_expires_at = now + at_token_lifetime A\<rparr> (at_tokens A)\<rparr>)))))"

definition validate :: "string \<Rightarrow> time \<Rightarrow> authenticator \<Rightarrow> user result \<times> authenticator" where
  "validate tok now A =
    (let erased = A\<lparr>at_tokens := AList.delete tok (at_tokens A)\<rparr>;
         refuse = (\<lambda>msg. Inl (mk_error ''unauthorized'' msg))
     in case map_of (at_tokens A) tok of
          None \<Rightarrow> (refuse ''unknown session token'', A)
        | Some t \<Rightarrow>
           (if now \<ge> tk_expires_at t then (refuse ''session token has expired'', erased)
            else (case users_find_by_id (at_users A) (tk_user_id t) of
                    None \<Rightarrow> (refuse ''the account no longer exists'', erased)
                  | Some account \<Rightarrow>
                     (if r_banned (u_restrictions (ac_user account))
                      then (refuse ''the account has been suspended'', erased)
                      else (Inr (ac_user account), A)))))"

definition derive ::
  "crypto \<Rightarrow> string \<Rightarrow> authenticator \<Rightarrow> credentials result throwing \<times> authenticator" where
  "derive C password A =
    (if password = []
     then (Inr (Inl (mk_error ''invalid_value'' ''password must not be empty'')), A)
     else (case random_hex C 16 A of
       (Inl e, A) \<Rightarrow> (Inl e, A)
     | (Inr salt, A) \<Rightarrow> (case derive_key_hex C password salt of
         Inl e \<Rightarrow> (Inl e, A)
       | Inr key \<Rightarrow> (Inr (Inr \<lparr>c_salt_hex = salt, c_password_hash_hex = key\<rparr>), A))))"

definition set_password ::
  "crypto \<Rightarrow> string \<Rightarrow> string \<Rightarrow> authenticator \<Rightarrow> error option throwing \<times> authenticator" where
  "set_password C uid password A =
    (case derive C password A of
       (Inl e, A) \<Rightarrow> (Inl e, A)
     | (Inr (Inl e), A) \<Rightarrow> (Inr (Some e), A)
     | (Inr (Inr value), A) \<Rightarrow>
        (case users_find_by_id (at_users A) uid of
           None \<Rightarrow> (Inr (Some (mk_error ''user_not_found'' ''no such account'')), A)
         | Some account \<Rightarrow>
            (let account = account\<lparr>ac_salt_hex := c_salt_hex value,
                                   ac_password_hash_hex := c_password_hash_hex value\<rparr>;
                 (failure, s) = users_update account (at_users A)
             in (Inr failure, A\<lparr>at_users := s\<rparr>))))"

definition change_password ::
  "crypto \<Rightarrow> string \<Rightarrow> string \<Rightarrow> string \<Rightarrow> authenticator
     \<Rightarrow> error option throwing \<times> authenticator" where
  "change_password C uid current new A =
    (case users_find_by_id (at_users A) uid of
       None \<Rightarrow> (Inr (Some (mk_error ''user_not_found'' ''no such account'')), A)
     | Some account \<Rightarrow>
        (case derive_key_hex C current (ac_salt_hex account) of
           Inl e \<Rightarrow> (Inl e, A)
         | Inr key \<Rightarrow>
            (if \<not> constant_time_equals (ac_password_hash_hex account) key
             then (Inr (Some (mk_error ''invalid_password'' ''the current password is not correct'')), A)
             else (case derive_key_hex C new (ac_salt_hex account) of
                 Inl e \<Rightarrow> (Inl e, A)
               | Inr key' \<Rightarrow>
                  (if constant_time_equals (ac_password_hash_hex account) key'
                   then (Inr (Some (mk_error ''invalid_value''
                          ''the new password must be different from the current one'')), A)
                   else set_password C uid new A)))))"

definition revoke_tokens_of :: "string \<Rightarrow> authenticator \<Rightarrow> authenticator" where
  "revoke_tokens_of uid A = A\<lparr>at_tokens := filter (\<lambda>(_, t). \<not> tk_user_id t = uid) (at_tokens A)\<rparr>"

definition expire_tokens :: "time \<Rightarrow> authenticator \<Rightarrow> authenticator" where
  "expire_tokens now A = A\<lparr>at_tokens := filter (\<lambda>(_, t). \<not> now \<ge> tk_expires_at t) (at_tokens A)\<rparr>"

definition active_token_count :: "authenticator \<Rightarrow> nat" where
  "active_token_count A = length (at_tokens A)"

section \<open>Frame lemmas\<close>

lemma random_hex_frame [simp]:
  "at_users (snd (random_hex C n A)) = at_users A"
  "at_tokens (snd (random_hex C n A)) = at_tokens A"
  "at_token_lifetime (snd (random_hex C n A)) = at_token_lifetime A"
  by (simp_all add: random_hex_def Let_def split: option.splits)

lemma random_hexD:
  "random_hex C n A = (r, B) \<Longrightarrow> at_users B = at_users A \<and> at_tokens B = at_tokens A
     \<and> at_token_lifetime B = at_token_lifetime A"
  using random_hex_frame [of C n A] by auto

lemma authenticate_users [simp]: "at_users (snd (authenticate C n p now A)) = at_users A"
  by (auto simp: authenticate_def split: option.splits sum.splits prod.splits dest: random_hexD)

lemma derive_frameD:
  "derive C p A = (r, B) \<Longrightarrow> at_users B = at_users A \<and> at_tokens B = at_tokens A"
  by (auto simp: derive_def split: if_splits sum.splits prod.splits dest: random_hexD)

lemma revoke_users [simp]: "at_users (revoke_tokens_of u A) = at_users A"
  by (simp add: revoke_tokens_of_def)

lemma expire_users [simp]: "at_users (expire_tokens now A) = at_users A"
  by (simp add: expire_tokens_def)

text \<open>What the operations that write may do to the accounts.\<close>

lemma add_user_users:
  "at_users (snd (add_user C w n p d r A)) = at_users A
   \<or> (\<exists>a bytes. at_users (snd (add_user C w n p d r A)) = snd (users_create w a (at_users A))
        \<and> cr_rand C (at_draws A) 16 = Some bytes \<and> ac_id a = to_hex bytes)"
proof (cases "n = [] \<or> p = [] \<or> \<not> is_valid_display_name d")
  case True
  then show ?thesis by (auto simp: add_user_def)
next
  case ok: False
  obtain r1 A1 where 1: "random_hex C 16 A = (r1, A1)" by fastforce
  obtain r2 A2 where 2: "random_hex C 16 A1 = (r2, A2)" by fastforce
  have u: "at_users A1 = at_users A" "at_users A2 = at_users A"
    using random_hexD [OF 1] random_hexD [OF 2] by auto
  show ?thesis
  proof (cases "\<exists>uid salt key. r1 = Inr uid \<and> r2 = Inr salt \<and> derive_key_hex C p salt = Inr key")
    case True
    then obtain uid salt key where t: "r1 = Inr uid" "r2 = Inr salt" "derive_key_hex C p salt = Inr key"
      by blast
    then have "at_users (snd (add_user C w n p d r A))
        = snd (users_create w (new_account n d r uid salt key) (at_users A))"
      using ok 1 2 u by (auto simp: add_user_def Let_def split: prod.split option.split)
    moreover obtain bytes where "cr_rand C (at_draws A) 16 = Some bytes" "uid = to_hex bytes"
      using 1 t(1) by (auto simp: random_hex_def Let_def split: option.splits)
    ultimately show ?thesis by (metis new_account_sel(4))
  next
    case False
    then show ?thesis using ok 1 2 u by (auto simp: add_user_def split: sum.splits)
  qed
qed

lemma set_password_users:
  "at_users (snd (set_password C uid p A)) = at_users A
   \<or> (\<exists>a b. users_find_by_id (at_users A) uid = Some b \<and> ac_user a = ac_user b
        \<and> ac_username a = ac_username b \<and> at_users (snd (set_password C uid p A))
            = snd (users_update a (at_users A)))"
proof -
  obtain r B where d: "derive C p A = (r, B)" by fastforce
  note u = derive_frameD [OF d]
  show ?thesis
  proof (cases "\<exists>v b. r = Inr (Inr v) \<and> users_find_by_id (at_users A) uid = Some b")
    case True
    then obtain v b where vb: "r = Inr (Inr v)" "users_find_by_id (at_users A) uid = Some b" by blast
    let ?a = "b\<lparr>ac_salt_hex := c_salt_hex v, ac_password_hash_hex := c_password_hash_hex v\<rparr>"
    have "at_users (snd (set_password C uid p A)) = snd (users_update ?a (at_users A))"
      using d u vb by (simp add: set_password_def Let_def split: prod.split)
    moreover have "ac_user ?a = ac_user b" "ac_username ?a = ac_username b" by simp_all
    ultimately show ?thesis using vb(2) by blast
  next
    case False
    then show ?thesis using d u by (auto simp: set_password_def split: sum.splits option.splits)
  qed
qed

lemma change_password_users:
  "at_users (snd (change_password C uid c p A)) = at_users A
   \<or> (\<exists>a b. users_find_by_id (at_users A) uid = Some b \<and> ac_user a = ac_user b
        \<and> ac_username a = ac_username b \<and> at_users (snd (change_password C uid c p A))
            = snd (users_update a (at_users A)))"
  using set_password_users [of C uid p A]
  by (auto simp: change_password_def split: sum.splits option.splits)

section \<open>What signing in depends on\<close>

text \<open>Signing in: an unknown name and a wrong password are answered with the very same refusal
  and change nothing, so the reply cannot be used to find out which accounts exist; a banned account
  gets its own refusal only once the password is right, and no token.\<close>

lemma authenticate_refusals:
  "(users_find_by_username (at_users A) n = None \<longrightarrow>
      authenticate C n p now A = (Inr (Inl auth_unauthorized), A))
   \<and> (\<forall>a k. users_find_by_username (at_users A) n = Some a
        \<and> derive_key_hex C p (ac_salt_hex a) = Inr k \<longrightarrow>
        (k \<noteq> ac_password_hash_hex a \<longrightarrow> authenticate C n p now A = (Inr (Inl auth_unauthorized), A))
        \<and> (k = ac_password_hash_hex a \<and> r_banned (u_restrictions (ac_user a)) \<longrightarrow>
            authenticate C n p now A = (Inr (Inl (mk_error ''account_banned''
              ''this account has been suspended by an administrator'')), A)))"
  by (intro conjI allI impI) (simp_all add: authenticate_def)

text \<open>A session is only ever handed to the account of that name, unbanned, whose stored key the
  password derives.\<close>

lemma authenticate_sessionD:
  assumes "authenticate C n p now A = (Inr (Inr s), B)"
  shows "\<exists>a. users_find_by_username (at_users A) n = Some a \<and> s_user s = ac_user a
    \<and> derive_key_hex C p (ac_salt_hex a) = Inr (ac_password_hash_hex a)
    \<and> \<not> r_banned (u_restrictions (ac_user a))
    \<and> at_tokens B = emplace (s_token s) \<lparr>tk_user_id = u_id (ac_user a),
        tk_expires_at = now + at_token_lifetime A\<rparr> (at_tokens A)"
proof -
  obtain a where a: "users_find_by_username (at_users A) n = Some a"
    using assms by (cases "users_find_by_username (at_users A) n") (auto simp: authenticate_def)
  obtain k where k: "derive_key_hex C p (ac_salt_hex a) = Inr k"
    using assms a by (cases "derive_key_hex C p (ac_salt_hex a)") (auto simp: authenticate_def)
  have ok: "k = ac_password_hash_hex a" "\<not> r_banned (u_restrictions (ac_user a))"
    using assms a k by (auto simp: authenticate_def split: if_splits)
  obtain r A' where r: "random_hex C 32 A = (r, A')" by fastforce
  then obtain tok where "r = Inr tok"
    using assms a k ok by (cases r) (auto simp: authenticate_def)
  with random_hexD [OF r] assms a k ok r show ?thesis by (auto simp: authenticate_def)
qed

lemma map_of_emplace:
  "map_of (emplace k v m) = (if map_of m k = None then (map_of m)(k \<mapsto> v) else map_of m)"
  by (auto simp: emplace_def split: option.splits)

text \<open>C37. A token: it resolves to the account as the store holds it now, never past its lifetime,
  never for an account that is gone or banned, and not at all once the account's tokens were
  revoked.\<close>

theorem validate_sound:
  assumes "validate tok now A = (Inr u, B)"
  shows "B = A \<and> (\<exists>t a. map_of (at_tokens A) tok = Some t \<and> now < tk_expires_at t
      \<and> users_find_by_id (at_users A) (tk_user_id t) = Some a \<and> u = ac_user a
      \<and> u_id u = tk_user_id t \<and> \<not> r_banned (u_restrictions u))
    \<and> (\<forall>tok' now' u'. fst (validate tok' now' (revoke_tokens_of (u_id u) A)) = Inr u' \<longrightarrow>
          u_id u' \<noteq> u_id u)"
proof -
  have inv: "\<exists>t a. map_of (at_tokens A) tok = Some t \<and> now < tk_expires_at t
      \<and> users_find_by_id (at_users A) (tk_user_id t) = Some a \<and> u = ac_user a \<and> B = A
      \<and> u_id u = tk_user_id t \<and> \<not> r_banned (u_restrictions u)"
    if "validate tok now A = (Inr u, B)" for tok now A u B
    using that mem_users.by_id_id
    by (auto simp: validate_def Let_def ac_id_def split: option.splits if_splits)
  have "u_id u' \<noteq> u_id u" if v: "fst (validate tok' now' (revoke_tokens_of (u_id u) A)) = Inr u'"
    for tok' now' u'
  proof -
    let ?R = "revoke_tokens_of (u_id u) A"
    have "validate tok' now' ?R = (Inr u', snd (validate tok' now' ?R))"
      using v by (metis prod.collapse)
    from inv [OF this] obtain t where "map_of (at_tokens ?R) tok' = Some t" "u_id u' = tk_user_id t"
      by blast
    then show ?thesis by (auto simp: revoke_tokens_of_def dest!: map_of_SomeD)
  qed
  with inv [OF assms] show ?thesis by blast
qed

text \<open>Taking a successful creation apart.\<close>

lemma add_user_okD:
  assumes "add_user C w n p d r A = (Inr (Inr u), B)"
  shows "\<exists>uid salt key A2. n \<noteq> [] \<and> p \<noteq> [] \<and> is_valid_display_name d
    \<and> derive_key_hex C p salt = Inr key \<and> u = ac_user (new_account n d r uid salt key)
    \<and> at_users A2 = at_users A \<and> at_tokens A2 = at_tokens A
    \<and> users_create w (new_account n d r uid salt key) (at_users A) = (None, at_users B)
    \<and> B = A2\<lparr>at_users := at_users B\<rparr>"
proof -
  have ok: "n \<noteq> []" "p \<noteq> []" "is_valid_display_name d"
    using assms by (auto simp: add_user_def split: if_splits)
  obtain r1 A1 where 1: "random_hex C 16 A = (r1, A1)" by fastforce
  obtain r2 A2 where 2: "random_hex C 16 A1 = (r2, A2)" by fastforce
  obtain uid where uid: "r1 = Inr uid" using assms ok 1 by (cases r1) (auto simp: add_user_def)
  obtain salt where salt: "r2 = Inr salt"
    using assms ok 1 2 uid by (cases r2) (auto simp: add_user_def)
  obtain key where key: "derive_key_hex C p salt = Inr key"
    using assms ok 1 2 uid salt by (cases "derive_key_hex C p salt") (auto simp: add_user_def)
  have u: "at_users A2 = at_users A" "at_tokens A2 = at_tokens A"
    using random_hexD [OF 1] random_hexD [OF 2] by auto
  obtain f s where c: "users_create w (new_account n d r uid salt key) (at_users A) = (f, s)"
    by fastforce
  have "f = None"
    using assms ok 1 2 uid salt key u c by (cases f) (auto simp: add_user_def Let_def)
  with assms ok 1 2 uid salt key u c have "u = ac_user (new_account n d r uid salt key)"
    "B = A2\<lparr>at_users := s\<rparr>"
    by (auto simp: add_user_def Let_def)
  with ok key u c \<open>f = None\<close> show ?thesis by (intro exI conjI) auto
qed

lemma set_password_okD:
  assumes "set_password C uid p A = (Inr None, B)"
  shows "\<exists>a salt key. p \<noteq> [] \<and> users_find_by_id (at_users A) uid = Some a
    \<and> derive_key_hex C p salt = Inr key \<and> at_tokens B = at_tokens A
    \<and> users_update (a\<lparr>ac_salt_hex := salt, ac_password_hash_hex := key\<rparr>) (at_users A)
        = (None, at_users B)"
proof -
  obtain q A' where d: "derive C p A = (q, A')" by fastforce
  obtain v where q: "q = Inr (Inr v)"
    using assms d by (auto simp: set_password_def split: sum.splits option.splits)
  note u = derive_frameD [OF d]
  have p: "p \<noteq> []" using d q by (auto simp: derive_def)
  have key: "derive_key_hex C p (c_salt_hex v) = Inr (c_password_hash_hex v)"
    using d q p by (auto simp: derive_def split: sum.splits prod.splits)
  obtain a where a: "users_find_by_id (at_users A) uid = Some a"
    using assms d q u by (cases "users_find_by_id (at_users A) uid") (auto simp: set_password_def)
  let ?a = "a\<lparr>ac_salt_hex := c_salt_hex v, ac_password_hash_hex := c_password_hash_hex v\<rparr>"
  obtain f s where "users_update ?a (at_users A) = (f, s)" by fastforce
  with assms d q u a have "users_update ?a (at_users A) = (None, at_users B)" "at_tokens B = at_tokens A"
    by (auto simp: set_password_def Let_def)
  with p key a show ?thesis by blast
qed

lemma authenticate_same_key:
  assumes "users_find_by_username (at_users A) n = Some a"
    and "derive_key_hex C p (ac_salt_hex a) = Inr (ac_password_hash_hex a)"
    and "\<not> r_banned (u_restrictions (ac_user a))"
    and "cr_rand C (at_draws A) 32 \<noteq> None"
  shows "\<exists>s D. authenticate C n p now A = (Inr (Inr s), D) \<and> s_user s = ac_user a"
  using assms by (auto simp: authenticate_def random_hex_def Let_def)

text \<open>An account that was just created can be signed in to with its own password, as itself and
  with the role it was given, unrestricted; a password with another derivation is refused; and the
  name is taken from then on, whoever asks for it.\<close>

lemma add_user_then_authenticate:
  assumes "add_user C w n p d r A = (Inr (Inr u), B)"
    and "cr_rand C (at_draws B) 32 \<noteq> None"
  shows "(\<exists>s D. authenticate C n p now B = (Inr (Inr s), D) \<and> s_user s = u)
    \<and> u_role u = r \<and> u_restrictions u = no_restrictions \<and> at_tokens B = at_tokens A
    \<and> (\<exists>a. users_find_by_username (at_users B) n = Some a \<and> ac_user a = u
        \<and> (\<forall>q k. derive_key_hex C q (ac_salt_hex a) = Inr k \<and> k \<noteq> ac_password_hash_hex a \<longrightarrow>
              authenticate C n q now B = (Inr (Inl auth_unauthorized), B)))
    \<and> (\<forall>w' p' d' r' v B'. add_user C w' n p' d' r' B \<noteq> (Inr (Inr v), B'))"
proof -
  obtain uid salt key A2 where c: "derive_key_hex C p salt = Inr key"
      "u = ac_user (new_account n d r uid salt key)" "at_tokens A2 = at_tokens A"
      "users_create w (new_account n d r uid salt key) (at_users A) = (None, at_users B)"
      "B = A2\<lparr>at_users := at_users B\<rparr>"
    using add_user_okD [OF assms(1)] by blast
  let ?a = "new_account n d r uid salt key"
  let ?b = "?a\<lparr>ac_created_at := w\<rparr>"
  have "users_find_by_username (at_users A) n = None"
    using mem_users.create_taken [of "at_users A" ?a _ w] c(4)
    by (cases "users_find_by_username (at_users A) n") auto
  then have b: "users_find_by_username (at_users B) n = Some ?b"
    using mem_users.create_free [of "at_users A" ?a w] c(4) by simp
  have taken: "add_user C w' n p' d' r' B \<noteq> (Inr (Inr v), B')" for w' p' d' r' v B'
  proof
    assume "add_user C w' n p' d' r' B = (Inr (Inr v), B')"
    then obtain a where "users_create w' a (at_users B) = (None, at_users B')" "ac_username a = n"
      using add_user_okD by (metis new_account_sel(1))
    with mem_users.create_taken b show False by (metis Pair_inject option.distinct(1))
  qed
  have right: "\<exists>s D. authenticate C n p now B = (Inr (Inr s), D) \<and> s_user s = u"
    using authenticate_same_key [OF b _ _ assms(2)] c(1,2) by simp
  have wrong: "authenticate C n q now B = (Inr (Inl auth_unauthorized), B)"
    if "derive_key_hex C q (ac_salt_hex ?b) = Inr k" "k \<noteq> ac_password_hash_hex ?b" for q k
    using b that by (simp add: authenticate_def)
  have "u_role u = r" "u_restrictions u = no_restrictions" using c(2) by (simp_all add: new_account_def)
  moreover have "at_tokens B = at_tokens A" using c(3,5) by (metis authenticator.select_convs(3)
      authenticator.surjective authenticator.update_convs(2))
  moreover have "ac_user ?b = u" using c(2) by simp
  ultimately show ?thesis using right wrong b taken by blast
qed

text \<open>Changing a password: it succeeds only if the current password derives the stored key and
  the new one, under the same salt, does not; afterwards the new password derives the stored key
  under a salt of its own. Nothing else of the account changes, no other account does, and the
  tokens are left as they were.\<close>

lemma change_password_sound:
  assumes "change_password C uid current new A = (Inr None, B)"
  shows "\<exists>a b. users_find_by_id (at_users A) uid = Some a \<and> users_find_by_id (at_users B) uid = Some b
    \<and> derive_key_hex C current (ac_salt_hex a) = Inr (ac_password_hash_hex a)
    \<and> derive_key_hex C new (ac_salt_hex a) \<noteq> Inr (ac_password_hash_hex a)
    \<and> new \<noteq> [] \<and> derive_key_hex C new (ac_salt_hex b) = Inr (ac_password_hash_hex b)
    \<and> ac_user b = ac_user a \<and> ac_username b = ac_username a \<and> ac_created_at b = ac_created_at a
    \<and> (\<forall>other. other \<noteq> uid \<longrightarrow> users_find_by_id (at_users B) other = users_find_by_id (at_users A) other)
    \<and> at_tokens B = at_tokens A"
proof -
  obtain a where a: "users_find_by_id (at_users A) uid = Some a"
    using assms by (cases "users_find_by_id (at_users A) uid") (auto simp: change_password_def)
  obtain k where k: "derive_key_hex C current (ac_salt_hex a) = Inr k"
    using assms a by (cases "derive_key_hex C current (ac_salt_hex a)") (auto simp: change_password_def)
  have eq: "k = ac_password_hash_hex a"
    using assms a k by (auto simp: change_password_def split: if_splits)
  obtain k' where k': "derive_key_hex C new (ac_salt_hex a) = Inr k'"
    using assms a k eq by (cases "derive_key_hex C new (ac_salt_hex a)") (auto simp: change_password_def)
  have ne: "k' \<noteq> ac_password_hash_hex a"
    using assms a k eq k' by (auto simp: change_password_def split: if_splits)
  have "set_password C uid new A = (Inr None, B)"
    using assms a k eq k' ne by (simp add: change_password_def)
  from set_password_okD [OF this] a obtain salt key where s: "new \<noteq> []"
      "derive_key_hex C new salt = Inr key" "at_tokens B = at_tokens A"
      "users_update (a\<lparr>ac_salt_hex := salt, ac_password_hash_hex := key\<rparr>) (at_users A)
        = (None, at_users B)"
    by auto
  let ?a = "a\<lparr>ac_salt_hex := salt, ac_password_hash_hex := key\<rparr>"
  have id: "ac_id ?a = uid" "ac_id a = uid" using mem_users.by_id_id [OF a] by (simp_all add: ac_id_def)
  have b: "users_find_by_id (at_users B) uid = Some ?a"
    using mem_users.update_same [of "at_users A" ?a a] a s(4) id by simp
  have o: "users_find_by_id (at_users B) other = users_find_by_id (at_users A) other"
    if "other \<noteq> uid" for other
    using mem_users.update_other [of other ?a "at_users A"] that s(4) id by simp
  show ?thesis
    using a b k eq k' ne s o by (intro exI [of _ a] exI [of _ ?a]) simp
qed

section \<open>The properties at work\<close>

text \<open>A crypto parameter with which everything is evaluated: random bytes that count up, a
  derivation that keeps the bytes of the password and of the salt.\<close>

definition toy_crypto :: crypto where
  "toy_crypto = \<lparr>cr_rand = (\<lambda>k n. Some [word_of_nat k]),
     cr_scrypt = (\<lambda>p s. Some (map (\<lambda>c. word_of_nat (of_char c)) (p @ s)))\<rparr>"

definition fresh_authenticator :: authenticator where
  "fresh_authenticator = \<lparr>at_token_lifetime = default_token_lifetime, at_users = [],
     at_tokens = [], at_draws = 0\<rparr>"

text \<open>The administrator \<open>ada\<close>, password \<open>pw\<close>.\<close>

definition ada :: user where
  "ada = \<lparr>u_id = ''00'', u_display_name = ''ada'', u_avatar = [], u_role = Admin,
     u_restrictions = no_restrictions\<rparr>"

definition ada_authenticator :: authenticator where
  "ada_authenticator = fresh_authenticator\<lparr>at_users := [\<lparr>ac_user = ada, ac_username = ''ada'',
     ac_salt_hex = ''01'', ac_password_hash_hex = ''70773031'', ac_created_at = 7,
     ac_session_end_requested_at = 0\<rparr>], at_draws := 2\<rparr>"

lemmas toy_eval = toy_crypto_def fresh_authenticator_def ada_authenticator_def ada_def random_hex_def
  derive_key_hex_def to_hex_def kDigits_def default_token_lifetime_def seconds_def

lemma toy_add_user:
  "add_user toy_crypto 7 ''ada'' ''pw'' [] Admin fresh_authenticator
     = (Inr (Inr ada), ada_authenticator)"
  by (simp add: toy_eval add_user_def is_valid_display_name_def new_account_def users_create_def)

lemma add_user_then_authenticate_witness:
  "\<exists>s D. authenticate toy_crypto ''ada'' ''pw'' 0 ada_authenticator = (Inr (Inr s), D) \<and> s_user s = ada"
  using add_user_then_authenticate [OF toy_add_user, of 0] by (simp add: toy_crypto_def)

definition ada_session :: session where
  "ada_session = \<lparr>s_user = ada, s_token = ''02'', s_expires_in_seconds = 28800\<rparr>"

definition ada_signed_in :: authenticator where
  "ada_signed_in = ada_authenticator\<lparr>at_draws := 3,
     at_tokens := [(''02'', \<lparr>tk_user_id = ''00'', tk_expires_at = default_token_lifetime\<rparr>)]\<rparr>"

lemma toy_authenticate:
  "authenticate toy_crypto ''ada'' ''pw'' 0 ada_authenticator = (Inr (Inr ada_session), ada_signed_in)"
  by (simp add: toy_eval authenticate_def ada_session_def ada_signed_in_def emplace_def
      users_find_by_username_def trunc_div_def is_int32_def)

lemma toy_validate: "validate ''02'' 5 ada_signed_in = (Inr ada, ada_signed_in)"
  by (simp add: toy_eval validate_def ada_signed_in_def users_find_by_id_def ac_id_def)

lemma authenticate_refusals_witness:
  "authenticate toy_crypto ''bob'' ''pw'' 0 ada_authenticator
     = (Inr (Inl auth_unauthorized), ada_authenticator)"
  by (rule authenticate_refusals [THEN conjunct1, rule_format])
    (simp add: toy_eval users_find_by_username_def)

theorem validate_sound_witness:
  "fst (validate ''02'' 6 (revoke_tokens_of ''00'' ada_signed_in)) \<noteq> Inr ada"
proof
  assume "fst (validate ''02'' 6 (revoke_tokens_of ''00'' ada_signed_in)) = Inr ada"
  moreover have "u_id ada = ''00''" by (simp add: ada_def)
  ultimately show False using validate_sound [OF toy_validate] by simp
qed

lemma toy_change_password:
  "\<exists>B. change_password toy_crypto ''00'' ''pw'' ''px'' ada_signed_in = (Inr None, B)"
  by (simp add: toy_eval change_password_def set_password_def derive_def ada_signed_in_def
      users_find_by_id_def users_update_def ac_id_def)

lemma change_password_sound_witness:
  "\<exists>B b. change_password toy_crypto ''00'' ''pw'' ''px'' ada_signed_in = (Inr None, B)
    \<and> users_find_by_id (at_users B) ''00'' = Some b \<and> ac_user b = ada"
proof -
  obtain B where B: "change_password toy_crypto ''00'' ''pw'' ''px'' ada_signed_in = (Inr None, B)"
    using toy_change_password by blast
  have "users_find_by_id (at_users ada_signed_in) ''00'' = Some a \<Longrightarrow> ac_user a = ada" for a
    by (auto simp: toy_eval ada_signed_in_def users_find_by_id_def ac_id_def)
  with change_password_sound [OF B] B show ?thesis by metis
qed

end
