(* ===== verification/SessionStores.thy ===== *)
theory SessionStores
  imports Stores
begin

text \<open>
  The session rows and the audit log of \<open>server/src/store\<close>, as \<open>memory_store.cpp\<close> keeps them, with
  the contract of \<open>SessionStore\<close> as a locale, and what their capacities may and may not drop.
\<close>

section \<open>Sessions\<close>

record session_record =
  sr_id :: string
  sr_user_id :: string
  sr_ip :: string
  sr_connected_at :: int
  sr_last_seen_at :: int
  sr_ended_at :: int

definition sr_open :: "session_record \<Rightarrow> bool" where
  "sr_open r \<longleftrightarrow> sr_ended_at r = 0"

record session_store =
  se_sessions :: "session_record list"
  se_next_id :: nat

definition empty_session_store :: session_store where
  "empty_session_store = \<lparr>se_sessions = [], se_next_id = 1\<rparr>"

definition kSessionCapacity :: nat where "kSessionCapacity = 2000"

definition sessions_open ::
  "int \<Rightarrow> session_record \<Rightarrow> session_store \<Rightarrow> session_record result \<times> session_store" where
  "sessions_open wall r s =
    (let r = r\<lparr>sr_id := to_string_nat (se_next_id s)\<rparr>;
         r = (if sr_connected_at r = 0 then r\<lparr>sr_connected_at := wall\<rparr> else r);
         r = (if sr_last_seen_at r = 0 then r\<lparr>sr_last_seen_at := sr_connected_at r\<rparr> else r);
         all = se_sessions s @ [r];
         excess = (if length all > kSessionCapacity then length all - kSessionCapacity else 0)
     in (Inr r, \<lparr>se_sessions = fst (erase_surplus (\<lambda>x. \<not> sr_open x) excess all),
                 se_next_id = Suc (se_next_id s)\<rparr>))"

definition sessions_touch ::
  "int \<Rightarrow> string list \<Rightarrow> session_store \<Rightarrow> error option \<times> session_store" where
  "sessions_touch wall ids s =
    (None, s\<lparr>se_sessions := map (\<lambda>r. if \<not> sr_open r then r
                                      else if sr_id r \<in> set ids then r\<lparr>sr_last_seen_at := wall\<rparr>
                                      else r) (se_sessions s)\<rparr>)"

definition sessions_close :: "int \<Rightarrow> string \<Rightarrow> session_store \<Rightarrow> error option \<times> session_store" where
  "sessions_close wall sid s =
    (None, s\<lparr>se_sessions := update_first (\<lambda>r. sr_id r = sid \<and> sr_open r)
                              (\<lambda>r. r\<lparr>sr_ended_at := wall\<rparr>) (se_sessions s)\<rparr>)"

definition sessions_close_open :: "session_store \<Rightarrow> nat \<times> session_store" where
  "sessions_close_open s =
    (length (filter sr_open (se_sessions s)),
     s\<lparr>se_sessions := map (\<lambda>r. if sr_open r then r\<lparr>sr_ended_at := sr_last_seen_at r\<rparr> else r)
                        (se_sessions s)\<rparr>)"

definition sessions_list_open :: "session_store \<Rightarrow> session_record list" where
  "sessions_list_open s = filter sr_open (rev (se_sessions s))"

text \<open>The order of \<open>list\<close>: open rows first, then the ones heard from most recently. The sort of the
  code is stable and so is \<open>sort_key\<close>.\<close>

definition session_rank :: "session_record \<Rightarrow> nat \<times> int" where
  "session_rank r = (if sr_open r then 0 else 1, - sr_last_seen_at r)"

definition sessions_list :: "session_store \<Rightarrow> int \<Rightarrow> session_record list" where
  "sessions_list s limit =
    (let wanted = nat (clamp_session_limit limit);
         sorted = sort_key session_rank (se_sessions s)
     in if length sorted > wanted then take wanted sorted else sorted)"

definition open_rows :: "session_store \<Rightarrow> session_record list" where
  "open_rows s = filter sr_open (se_sessions s)"

text \<open>Rows carry the identifiers already given out, each once.\<close>

definition sessions_wf :: "session_store \<Rightarrow> bool" where
  "sessions_wf s \<longleftrightarrow> distinct (map sr_id (se_sessions s))
     \<and> sr_id ` set (se_sessions s) \<subseteq> to_string_nat ` {..<se_next_id s}"

lemma fresh_session_id:
  "sessions_wf s \<Longrightarrow> to_string_nat (se_next_id s) \<notin> sr_id ` set (se_sessions s)"
  by (auto simp: sessions_wf_def)

lemma distinct_map_erase_surplus:
  "erase_surplus P n xs = (ys, k) \<Longrightarrow> distinct (map f xs) \<Longrightarrow> distinct (map f ys)"
proof (induction xs arbitrary: n ys k)
  case (Cons x xs)
  show ?case
  proof (cases "n = 0 \<or> P x")
    case True
    with Cons show ?thesis by (auto split: if_splits)
  next
    case False
    with Cons.prems obtain zs where zs: "erase_surplus P n xs = (zs, k)" and ys: "ys = x # zs"
      by (auto split: prod.splits)
    have "set zs \<subseteq> set xs" by (rule erase_surplus_subset [OF zs])
    with Cons.IH [OF zs] Cons.prems(2) ys show ?thesis by auto
  qed
qed simp

definition stamp_session :: "int \<Rightarrow> session_record \<Rightarrow> session_store \<Rightarrow> session_record" where
  "stamp_session w r s =
    (let r = r\<lparr>sr_id := to_string_nat (se_next_id s)\<rparr>;
         r = (if sr_connected_at r = 0 then r\<lparr>sr_connected_at := w\<rparr> else r)
     in if sr_last_seen_at r = 0 then r\<lparr>sr_last_seen_at := sr_connected_at r\<rparr> else r)"

lemma stamp_session_simps [simp]:
  "sr_id (stamp_session w r s) = to_string_nat (se_next_id s)"
  "sr_user_id (stamp_session w r s) = sr_user_id r"
  "sr_open (stamp_session w r s) = sr_open r"
  by (simp_all add: stamp_session_def Let_def sr_open_def)

lemma sessions_openE:
  obtains ys k where "sessions_open w r s
      = (Inr (stamp_session w r s), \<lparr>se_sessions = ys, se_next_id = Suc (se_next_id s)\<rparr>)"
    and "erase_surplus (\<lambda>x. \<not> sr_open x) (Suc (length (se_sessions s)) - kSessionCapacity)
      (se_sessions s @ [stamp_session w r s]) = (ys, k)"
proof -
  let ?n = "Suc (length (se_sessions s)) - kSessionCapacity"
  obtain ys k where e: "erase_surplus (\<lambda>x. \<not> sr_open x) ?n
      (se_sessions s @ [stamp_session w r s]) = (ys, k)" by fastforce
  have n: "(if b > c then b - c else 0) = b - c" for b c :: nat by simp
  have "sessions_open w r s
      = (Inr (stamp_session w r s), \<lparr>se_sessions = ys, se_next_id = Suc (se_next_id s)\<rparr>)"
    unfolding sessions_open_def Let_def n stamp_session_def [unfolded Let_def, symmetric]
    using e by simp
  then show ?thesis using e by (rule that)
qed

lemma sessions_wf_empty [inv_intros]: "sessions_wf empty_session_store"
  by (simp add: sessions_wf_def empty_session_store_def)

lemma sessions_wf_open [inv_intros]:
  assumes "sessions_wf s" shows "sessions_wf (snd (sessions_open w r s))"
proof -
  define r' where "r' = stamp_session w r s"
  have id: "sr_id r' = to_string_nat (se_next_id s)" by (simp add: r'_def)
  obtain ys k where so: "sessions_open w r s
      = (Inr r', \<lparr>se_sessions = ys, se_next_id = Suc (se_next_id s)\<rparr>)"
    and e: "erase_surplus (\<lambda>x. \<not> sr_open x) (Suc (length (se_sessions s)) - kSessionCapacity)
      (se_sessions s @ [r']) = (ys, k)"
    unfolding r'_def by (rule sessions_openE)
  from so have "snd (sessions_open w r s) = \<lparr>se_sessions = ys, se_next_id = Suc (se_next_id s)\<rparr>"
    by simp
  moreover have "distinct (map sr_id (se_sessions s @ [r']))"
    using assms fresh_session_id [OF assms] by (simp add: sessions_wf_def id image_iff)
  then have "distinct (map sr_id ys)" by (rule distinct_map_erase_surplus [OF e])
  moreover have "sr_id ` set ys \<subseteq> to_string_nat ` {..<Suc (se_next_id s)}"
  proof -
    have "sr_id ` set ys \<subseteq> sr_id ` set (se_sessions s @ [r'])"
      using erase_surplus_subset [OF e] by blast
    also have "\<dots> \<subseteq> to_string_nat ` {..<Suc (se_next_id s)}"
      using assms by (auto simp: sessions_wf_def id less_Suc_eq)
    finally show ?thesis .
  qed
  ultimately show ?thesis by (simp add: sessions_wf_def)
qed

lemma sessions_wf_cong:
  assumes "sessions_wf s" and "map sr_id (se_sessions t) = map sr_id (se_sessions s)"
    and "se_next_id t = se_next_id s"
  shows "sessions_wf t"
proof -
  have "sr_id ` set (se_sessions t) = sr_id ` set (se_sessions s)"
    using assms(2) by (metis set_map)
  with assms show ?thesis by (simp add: sessions_wf_def)
qed

lemma sessions_wf_touch [inv_intros]: "sessions_wf s \<Longrightarrow> sessions_wf (snd (sessions_touch w ids s))"
  by (erule sessions_wf_cong) (simp_all add: sessions_touch_def)

lemma sessions_wf_close [inv_intros]: "sessions_wf s \<Longrightarrow> sessions_wf (snd (sessions_close w i s))"
  by (erule sessions_wf_cong) (simp_all add: sessions_close_def map_update_first_same)

lemma sessions_wf_close_open [inv_intros]: "sessions_wf s \<Longrightarrow> sessions_wf (snd (sessions_close_open s))"
  by (erule sessions_wf_cong) (simp_all add: sessions_close_open_def)

text \<open>What the contract of \<open>SessionStore\<close> says about the rows that are still open; \<open>is_open s i\<close>
  is "some row with identifier \<open>i\<close> has not ended".\<close>

definition session_is_open :: "session_store \<Rightarrow> string \<Rightarrow> bool" where
  "session_is_open s i \<longleftrightarrow> (\<exists>r \<in> set (se_sessions s). sr_id r = i \<and> sr_open r)"

locale presence_store =
  fixes open_row :: "int \<Rightarrow> session_record \<Rightarrow> 's \<Rightarrow> session_record result \<times> 's"
    and touch :: "int \<Rightarrow> string list \<Rightarrow> 's \<Rightarrow> error option \<times> 's"
    and close :: "int \<Rightarrow> string \<Rightarrow> 's \<Rightarrow> error option \<times> 's"
    and close_all :: "'s \<Rightarrow> nat \<times> 's"
    and is_open :: "'s \<Rightarrow> string \<Rightarrow> bool"
    and wf :: "'s \<Rightarrow> bool"
  assumes open_is_open: "wf s \<Longrightarrow> sr_ended_at r = 0 \<Longrightarrow> fst (open_row w r s) = Inr r' \<Longrightarrow>
      is_open (snd (open_row w r s)) i \<longleftrightarrow> i = sr_id r' \<or> is_open s i"
    and open_fresh: "wf s \<Longrightarrow> fst (open_row w r s) = Inr r' \<Longrightarrow> \<not> is_open s (sr_id r')"
    and touch_open: "is_open (snd (touch w ids s)) i = is_open s i"
    and close_open: "wf s \<Longrightarrow> w \<noteq> 0 \<Longrightarrow> is_open (snd (close w j s)) i \<longleftrightarrow> i \<noteq> j \<and> is_open s i"
    and wf_open: "wf s \<Longrightarrow> wf (snd (open_row w r s))"
    and wf_touch: "wf s \<Longrightarrow> wf (snd (touch w ids s))"
    and wf_close: "wf s \<Longrightarrow> wf (snd (close w j s))"
begin

lemma close_twice:
  assumes "wf s" and "w \<noteq> 0" and "w' \<noteq> 0"
  shows "is_open (snd (close w' j (snd (close w j s)))) i = is_open (snd (close w j s)) i"
  using assms by (simp add: close_open wf_close)

lemma open_then_close:
  assumes "wf s" and "sr_ended_at r = 0" and "fst (open_row w r s) = Inr r'" and "w' \<noteq> 0"
  shows "is_open (snd (close w' (sr_id r') (snd (open_row w r s)))) i = is_open s i"
  using assms open_is_open [OF assms(1-3)] open_fresh [OF assms(1,3)]
  by (auto simp: close_open wf_open)

end

lemma open_of_erase:
  "erase_surplus (\<lambda>x. \<not> sr_open x) n xs = (ys, k) \<Longrightarrow>
     {x \<in> set ys. sr_open x} = {x \<in> set xs. sr_open x}"
proof -
  assume "erase_surplus (\<lambda>x. \<not> sr_open x) n xs = (ys, k)"
  from erase_surplus_keeps [OF this] have "filter sr_open ys = filter sr_open xs" by simp
  then show ?thesis by (metis set_filter)
qed

lemma update_first_unique_key:
  assumes "distinct (map key xs)"
  shows "update_first (\<lambda>r. key r = k \<and> P r) f xs = map (\<lambda>y. if key y = k \<and> P y then f y else y) xs"
  using assms
proof (induction xs)
  case (Cons x xs)
  have "map (\<lambda>y. if key y = k \<and> P y then f y else y) xs = xs" if "key x = k"
    using Cons.prems that by (intro map_idI) (auto simp: image_iff)
  with Cons show ?case by auto
qed simp

interpretation mem_sessions: presence_store sessions_open sessions_touch sessions_close
  sessions_close_open session_is_open sessions_wf
proof
  fix s :: session_store and r r' w i j ids
  obtain ys k where so: "sessions_open w r s
      = (Inr (stamp_session w r s), \<lparr>se_sessions = ys, se_next_id = Suc (se_next_id s)\<rparr>)"
    and e: "erase_surplus (\<lambda>x. \<not> sr_open x) (Suc (length (se_sessions s)) - kSessionCapacity)
      (se_sessions s @ [stamp_session w r s]) = (ys, k)"
    by (rule sessions_openE)
  have mem: "(\<exists>x \<in> set ys. sr_id x = i \<and> sr_open x)
      \<longleftrightarrow> (\<exists>x \<in> insert (stamp_session w r s) (set (se_sessions s)). sr_id x = i \<and> sr_open x)"
  proof -
    have "x \<in> set ys \<and> sr_open x \<longleftrightarrow>
        x \<in> insert (stamp_session w r s) (set (se_sessions s)) \<and> sr_open x" for x
      using open_of_erase [OF e] by (auto simp: set_eq_iff)
    then show ?thesis by blast
  qed
  show "sessions_wf s \<Longrightarrow> sr_ended_at r = 0 \<Longrightarrow> fst (sessions_open w r s) = Inr r' \<Longrightarrow>
      session_is_open (snd (sessions_open w r s)) i \<longleftrightarrow> i = sr_id r' \<or> session_is_open s i"
    unfolding session_is_open_def so using mem by (auto simp: sr_open_def [of r])
  show "sessions_wf s \<Longrightarrow> fst (sessions_open w r s) = Inr r' \<Longrightarrow> \<not> session_is_open s (sr_id r')"
    unfolding so using fresh_session_id by (force simp: session_is_open_def)
  show "session_is_open (snd (sessions_touch w ids s)) i = session_is_open s i"
  proof -
    let ?f = "\<lambda>x. if \<not> sr_open x then x
      else if sr_id x \<in> set ids then x\<lparr>sr_last_seen_at := w\<rparr> else x"
    have "(\<exists>x \<in> set (map ?f (se_sessions s)). sr_id x = i \<and> sr_open x)
        \<longleftrightarrow> (\<exists>x \<in> set (se_sessions s). sr_id x = i \<and> sr_open x)"
      by (rule bex_map_same) (simp add: sr_open_def)
    moreover have "se_sessions (snd (sessions_touch w ids s)) = map ?f (se_sessions s)"
      by (simp add: sessions_touch_def)
    ultimately show ?thesis by (simp only: session_is_open_def)
  qed
  show "sessions_wf s \<Longrightarrow> w \<noteq> 0 \<Longrightarrow>
      session_is_open (snd (sessions_close w j s)) i \<longleftrightarrow> i \<noteq> j \<and> session_is_open s i"
    by (auto simp: session_is_open_def sessions_close_def sessions_wf_def update_first_unique_key
        sr_open_def split: if_splits)
qed (simp_all add: inv_intros)

text \<open>A session row that is still open is never dropped by the capacity of the store: opening
  another session keeps every open row, in order, and adds the new one at the end; closing ends
  exactly the row it names and leaves every other as it was.\<close>

lemma sessions_open_never_drops_open:
  assumes "sessions_wf s" and "sr_ended_at r = 0" and "sessions_open w r s = (Inr r', s')"
  shows "open_rows s' = open_rows s @ [r'] \<and> sr_id r' \<notin> sr_id ` set (se_sessions s)
    \<and> (\<forall>v. v \<noteq> 0 \<longrightarrow> open_rows (snd (sessions_close v (sr_id r') s')) = open_rows s)"
proof -
  obtain ys k where so: "sessions_open w r s
      = (Inr (stamp_session w r s), \<lparr>se_sessions = ys, se_next_id = Suc (se_next_id s)\<rparr>)"
    and e': "erase_surplus (\<lambda>x. \<not> sr_open x) (Suc (length (se_sessions s)) - kSessionCapacity)
      (se_sessions s @ [stamp_session w r s]) = (ys, k)"
    by (rule sessions_openE)
  have r'_eq: "r' = stamp_session w r s" and s': "se_sessions s' = ys"
    using so assms(3) by auto
  have r': "sr_id r' = to_string_nat (se_next_id s)" "sr_open r'"
    using assms(2) by (simp_all add: r'_eq sr_open_def [of r])
  note e = e' [folded r'_eq]
  have rows: "open_rows s' = open_rows s @ [r']"
    using erase_surplus_keeps [OF e] r' by (simp add: open_rows_def s')
  have fresh: "sr_id r' \<notin> sr_id ` set (se_sessions s)"
    using fresh_session_id [OF assms(1)] r' by simp
  have shut: "open_rows (snd (sessions_close v (sr_id r') s')) = open_rows s" if "v \<noteq> 0" for v
  proof -
    have d: "distinct (map sr_id ys)"
      using sessions_wf_open [OF assms(1), of w r] assms(3) s' by (simp add: sessions_wf_def)
    have "open_rows (snd (sessions_close v (sr_id r') s'))
        = filter (\<lambda>x. sr_id x \<noteq> sr_id r') (filter sr_open ys)"
      using that unfolding open_rows_def sessions_close_def s'
      by (simp add: s' update_first_unique_key [OF d]) (induction ys, auto simp: sr_open_def)
    also have "filter sr_open ys = open_rows s @ [r']" using rows by (simp add: open_rows_def s')
    also have "filter (\<lambda>x. sr_id x \<noteq> sr_id r') (open_rows s @ [r']) = open_rows s"
      using fresh by (auto simp: open_rows_def image_iff intro!: filter_cong)
    finally show ?thesis .
  qed
  show ?thesis using rows fresh shut by blast
qed

lemma sessions_open_never_drops_open_witness:
  "\<exists>r' s'. sessions_open 9 \<lparr>sr_id = [], sr_user_id = ''u'', sr_ip = ''::1'', sr_connected_at = 0,
      sr_last_seen_at = 0, sr_ended_at = 0\<rparr> empty_session_store = (Inr r', s') \<and> open_rows s' = [r']"
proof -
  let ?r = "\<lparr>sr_id = [], sr_user_id = ''u'', sr_ip = ''::1'', sr_connected_at = 0,
      sr_last_seen_at = 0, sr_ended_at = 0\<rparr>"
  obtain ys k where "sessions_open 9 ?r empty_session_store = (Inr (stamp_session 9 ?r empty_session_store),
      \<lparr>se_sessions = ys, se_next_id = Suc (se_next_id empty_session_store)\<rparr>)"
    by (rule sessions_openE)
  from sessions_open_never_drops_open [OF sessions_wf_empty _ this] this show ?thesis
    by (simp add: open_rows_def empty_session_store_def)
qed

section \<open>The audit log\<close>

record audit_log =
  au_entries :: "audit_entry list"
  au_next_id :: nat

definition empty_audit_log :: audit_log where
  "empty_audit_log = \<lparr>au_entries = [], au_next_id = 1\<rparr>"

definition kAuditCapacity :: nat where "kAuditCapacity = 2000"

definition audit_append :: "int \<Rightarrow> audit_entry \<Rightarrow> audit_log \<Rightarrow> error option \<times> audit_log" where
  "audit_append wall e s =
    (let e = e\<lparr>ae_id := to_string_nat (au_next_id s)\<rparr>;
         e = (if ae_timestamp_seconds e = 0 then e\<lparr>ae_timestamp_seconds := wall\<rparr> else e);
         all = au_entries s @ [e];
         all = (if length all > kAuditCapacity then drop (length all - kAuditCapacity) all else all)
     in (None, \<lparr>au_entries = all, au_next_id = Suc (au_next_id s)\<rparr>))"

definition audit_list :: "audit_log \<Rightarrow> int \<Rightarrow> string \<Rightarrow> audit_entry list" where
  "audit_list s limit actor_id =
    (let wanted = nat (clamp_audit_limit limit)
     in collect wanted (\<lambda>e. actor_id = [] \<or> ae_actor_id e = actor_id) (rev (au_entries s)))"

lemma audit_append_length: "length (au_entries s) \<le> kAuditCapacity \<Longrightarrow>
    length (au_entries (snd (audit_append w e s))) \<le> kAuditCapacity"
  by (auto simp: audit_append_def Let_def)

lemma audit_append_entry:
  "\<exists>e'. last (au_entries (snd (audit_append w e s))) = e' \<and> au_entries (snd (audit_append w e s)) \<noteq> []
     \<and> ae_action e' = ae_action e \<and> ae_actor_id e' = ae_actor_id e \<and> ae_target_id e' = ae_target_id e
     \<and> ae_room_id e' = ae_room_id e \<and> ae_detail e' = ae_detail e
     \<and> ae_actor_username e' = ae_actor_username e"
  by (simp add: audit_append_def Let_def kAuditCapacity_def)

text \<open>Reading the log back right after an action was recorded: the newest entry comes first, it is
  the one that was appended, whoever's entries were asked for as long as they are its actor's, and a
  page is never longer than five hundred entries.\<close>

lemma audit_append_then_list:
  assumes "actor = [] \<or> actor = ae_actor_id e"
  shows "\<exists>e' rest. audit_list (snd (audit_append w e s)) limit actor = e' # rest
    \<and> ae_action e' = ae_action e \<and> ae_actor_id e' = ae_actor_id e
    \<and> ae_target_id e' = ae_target_id e \<and> ae_detail e' = ae_detail e
    \<and> length (e' # rest) \<le> 500"
proof -
  let ?es = "au_entries (snd (audit_append w e s))"
  obtain e' where e': "last ?es = e'" "?es \<noteq> []" "ae_action e' = ae_action e"
      "ae_actor_id e' = ae_actor_id e" "ae_target_id e' = ae_target_id e" "ae_detail e' = ae_detail e"
    using audit_append_entry [of w e s] by blast
  then obtain xs where xs: "?es = xs @ [e']" by (metis append_butlast_last_id)
  have range: "1 \<le> clamp_audit_limit limit \<and> clamp_audit_limit limit \<le> 500"
    by (rule audit_limit.clamp_range)
  then obtain n where n: "nat (clamp_audit_limit limit) = Suc n" by (metis Suc_nat_eq_nat_zadd1
      add.commute diff_add_cancel int_one_le_iff_zero_less le_diff_eq nat_0_iff not_less not0_implies_Suc
      verit_comp_simplify1(3) zero_less_one)
  have "audit_list (snd (audit_append w e s)) limit actor
      = e' # take n (filter (\<lambda>e. actor = [] \<or> ae_actor_id e = actor) (rev xs))"
    using assms e' by (auto simp: audit_list_def collect_eq xs n)
  moreover have "length (audit_list (snd (audit_append w e s)) limit actor) \<le> 500"
    using range by (simp add: audit_list_def collect_eq min.coboundedI2 nat_le_iff)
  ultimately show ?thesis using e' by auto
qed

lemma audit_append_then_list_witness:
  "\<exists>e' rest. audit_list (snd (audit_append 9 \<lparr>ae_id = [], ae_actor_id = ''a'', ae_actor_username = ''ada'',
      ae_action = ''room.close'', ae_target_id = [], ae_room_id = ''0A1B2C'', ae_detail = [],
      ae_timestamp_seconds = 0\<rparr> empty_audit_log)) 10 ''a'' = e' # rest \<and> ae_action e' = ''room.close''"
  using audit_append_then_list [of "''a''" "\<lparr>ae_id = [], ae_actor_id = ''a'', ae_actor_username = ''ada'',
      ae_action = ''room.close'', ae_target_id = [], ae_room_id = ''0A1B2C'', ae_detail = [],
      ae_timestamp_seconds = 0\<rparr>" 9 empty_audit_log 10]
  by auto

end
