(* ===== verification/RestrictionSource.thy ===== *)
theory RestrictionSource
  imports Stores
begin

text \<open>
  \<open>server/src/signaling/restriction_source.cpp\<close>: what changed in the account store behind the
  server's back, for the accounts somebody is signed in as.
\<close>

record watched_account =
  wa_user_id :: string
  wa_known :: restrictions

record restriction_change =
  rc_user_id :: string
  rc_before :: restrictions
  rc_after :: restrictions

record restriction_poll =
  rp_changed :: "restriction_change list"
  rp_gone :: "string list"
  rp_session_end_requested :: "string list"

definition no_changes :: restriction_poll where
  "no_changes = \<lparr>rp_changed = [], rp_gone = [], rp_session_end_requested = []\<rparr>"

text \<open>The body of the loop over the watched accounts.\<close>

definition poll_account :: "user_store \<Rightarrow> watched_account \<Rightarrow> restriction_poll \<Rightarrow> restriction_poll" where
  "poll_account users w found =
    (case users_find_by_id users (wa_user_id w) of
       None \<Rightarrow> found\<lparr>rp_gone := rp_gone found @ [wa_user_id w]\<rparr>
     | Some stored \<Rightarrow>
        (let found = (if ac_session_end_requested_at stored \<noteq> 0
               then found\<lparr>rp_session_end_requested := rp_session_end_requested found @ [wa_user_id w]\<rparr>
               else found)
         in if u_restrictions (ac_user stored) = wa_known w then found
            else found\<lparr>rp_changed := rp_changed found @ [\<lparr>rc_user_id = wa_user_id w,
                   rc_before = wa_known w, rc_after = u_restrictions (ac_user stored)\<rparr>]\<rparr>))"

definition poll :: "user_store \<Rightarrow> watched_account list \<Rightarrow> restriction_poll" where
  "poll users watched = fold (poll_account users) watched no_changes"

lemma poll_account_gone: "rp_gone (fold (poll_account users) ws f) = rp_gone f
    @ filter (\<lambda>i. users_find_by_id users i = None) (map wa_user_id ws)"
  by (induction ws arbitrary: f) (auto simp: poll_account_def Let_def split: option.split)

lemma poll_account_requested:
  "rp_session_end_requested (fold (poll_account users) ws f) = rp_session_end_requested f
    @ filter (\<lambda>i. case users_find_by_id users i of None \<Rightarrow> False
        | Some a \<Rightarrow> ac_session_end_requested_at a \<noteq> 0) (map wa_user_id ws)"
  by (induction ws arbitrary: f) (auto simp: poll_account_def Let_def split: option.split)

lemma poll_account_changed:
  "rp_changed (fold (poll_account users) ws f) = rp_changed f
    @ concat (map (\<lambda>w. case users_find_by_id users (wa_user_id w) of None \<Rightarrow> []
        | Some a \<Rightarrow> if u_restrictions (ac_user a) = wa_known w then []
            else [\<lparr>rc_user_id = wa_user_id w, rc_before = wa_known w,
                   rc_after = u_restrictions (ac_user a)\<rparr>]) ws)"
  by (induction ws arbitrary: f) (auto simp: poll_account_def Let_def split: option.split)

text \<open>One pass over the accounts somebody is signed in as reports, in order and once for each time
  the account is watched: as gone exactly those the store no longer holds, as asked to end exactly
  those that carry the request, and as changed exactly those whose stored restrictions are not the
  ones the hub knew, with both; and it reports no change when the store agrees with what is
  known.\<close>

lemma poll_exact:
  "rp_gone (poll users ws) = filter (\<lambda>i. users_find_by_id users i = None) (map wa_user_id ws)
    \<and> rp_session_end_requested (poll users ws)
        = filter (\<lambda>i. case users_find_by_id users i of None \<Rightarrow> False
            | Some a \<Rightarrow> ac_session_end_requested_at a \<noteq> 0) (map wa_user_id ws)
    \<and> map (\<lambda>c. (rc_user_id c, rc_before c)) (rp_changed (poll users ws))
        = map (\<lambda>w. (wa_user_id w, wa_known w)) (filter (\<lambda>w. case users_find_by_id users (wa_user_id w) of
              None \<Rightarrow> False | Some a \<Rightarrow> u_restrictions (ac_user a) \<noteq> wa_known w) ws)
    \<and> list_all (\<lambda>c. case users_find_by_id users (rc_user_id c) of None \<Rightarrow> False
        | Some a \<Rightarrow> rc_after c = u_restrictions (ac_user a) \<and> rc_after c \<noteq> rc_before c)
        (rp_changed (poll users ws))"
proof -
  define f :: "watched_account \<Rightarrow> restriction_change list" where "f = (\<lambda>w. case users_find_by_id users (wa_user_id w) of None \<Rightarrow> []
        | Some a \<Rightarrow> if u_restrictions (ac_user a) = wa_known w then []
            else [\<lparr>rc_user_id = wa_user_id w, rc_before = wa_known w,
                   rc_after = u_restrictions (ac_user a)\<rparr>])"
  have ch: "rp_changed (poll users ws) = concat (map f ws)"
    by (simp add: poll_def poll_account_changed no_changes_def f_def)
  have "map (\<lambda>c. (rc_user_id c, rc_before c)) (concat (map f ws))
        = map (\<lambda>w. (wa_user_id w, wa_known w)) (filter (\<lambda>w. case users_find_by_id users (wa_user_id w) of
              None \<Rightarrow> False | Some a \<Rightarrow> u_restrictions (ac_user a) \<noteq> wa_known w) ws)"
    by (induction ws) (auto simp: f_def split: option.split)
  moreover have "list_all (\<lambda>c. case users_find_by_id users (rc_user_id c) of None \<Rightarrow> False
        | Some a \<Rightarrow> rc_after c = u_restrictions (ac_user a) \<and> rc_after c \<noteq> rc_before c)
        (concat (map f ws))"
    by (auto simp: f_def list_all_iff split: option.splits if_splits)
  ultimately show ?thesis
    by (simp add: ch) (simp add: poll_def poll_account_gone poll_account_requested no_changes_def)
qed

end
