(* ===== verification/HubState.thy ===== *)
theory HubState
  imports Protocol RoomManager Authenticator SessionStores RestrictionSource
    "HOL-Library.Char_ord" "HOL-Library.List_Lexorder"
begin

text \<open>
  The state of \<open>server/src/signaling/hub.hpp\<close> and the helpers every handler of \<open>hub.cpp\<close> is made of.
  A handler is a function from hub to hub. The vector \<open>out\<close> it appends to is the field \<open>h_out\<close>,
  the calls it makes on the media layer are appended to \<open>h_media\<close>, and a \<open>Connection &\<close> is the
  identifier of a connection. Log lines are not modelled.

  The parameters of an event are one record: OpenSSL, the digits of the random engine, and the
  answer of \<open>unix_seconds_now()\<close>, which is read once per event. An exception that leaves a handler
  is the field \<open>h_fault\<close>, and so is reading an object that is gone: nothing after the fault runs.
\<close>

section \<open>State\<close>

record connection =
  cn_id :: nat
  cn_user :: "user option"
  cn_username :: string
  cn_room_id :: "string option"
  cn_remote_address :: string
  cn_session_id :: string
  cn_delivered :: "string list"
  cn_last_seen :: time
  cn_last_ping :: time
  cn_last_nudge :: "time option"

record outgoing =
  o_connection :: nat
  o_message :: message

text \<open>The interface \<open>MediaSignals\<close>, as the calls made on it.\<close>

datatype media_call =
    ParticipantJoined string string user string
  | ParticipantLeft string string
  | SharingStarted string string
  | MediaSignal string string message

record hub =
  h_heartbeat_interval :: time
  h_heartbeat_timeout :: time
  h_has_media :: bool
  h_auth :: authenticator
  h_rooms :: room_manager
  h_notices :: notice_store
  h_sessions :: session_store
  h_audit :: audit_log
  h_connections :: "(nat, connection) hash_map"
  h_user_to_connection :: "(string, nat) hash_map"
  h_out :: "outgoing list"
  h_media :: "media_call list"
  h_fault :: "string option"

record environment =
  e_crypto :: crypto
  e_digits :: "nat \<Rightarrow> nat"
  e_wall :: int

definition kNudgeCooldown :: time where "kNudgeCooldown = seconds 5"

definition kRoomClosed :: string where "kRoomClosed = ''the room was closed by an administrator''"

definition unauthorized :: "string \<Rightarrow> error" where
  "unauthorized msg = mk_error ''unauthorized'' msg"

text \<open>The constructor: rooms are read back, sessions a killed run left open are closed.\<close>

definition new_hub :: "int \<Rightarrow> time \<Rightarrow> time \<Rightarrow> user_store \<Rightarrow> room_store \<Rightarrow> chat_store \<Rightarrow> notice_store
    \<Rightarrow> session_store \<Rightarrow> audit_log \<Rightarrow> hub" where
  "new_hub mx interval timeout users rooms chat notices sessions audit =
    \<lparr>h_heartbeat_interval = interval, h_heartbeat_timeout = timeout, h_has_media = False,
     h_auth = \<lparr>at_token_lifetime = default_token_lifetime, at_users = users, at_tokens = [],
               at_draws = 0\<rparr>,
     h_rooms = snd (load_rooms (new_room_manager mx (Some rooms) (Some chat))),
     h_notices = notices, h_sessions = snd (sessions_close_open sessions), h_audit = audit,
     h_connections = [], h_user_to_connection = [], h_out = [], h_media = [], h_fault = None\<rparr>"

definition set_media_signals :: "bool \<Rightarrow> hub \<Rightarrow> hub" where
  "set_media_signals installed h = h\<lparr>h_has_media := installed\<rparr>"

section \<open>Reading\<close>

definition find_connection :: "hub \<Rightarrow> nat \<Rightarrow> connection option" where
  "find_connection h c = map_of (h_connections h) c"

definition connection_of_user :: "hub \<Rightarrow> string \<Rightarrow> nat option" where
  "connection_of_user h uid = map_of (h_user_to_connection h) uid"

definition conn_user :: "hub \<Rightarrow> nat \<Rightarrow> user option" where
  "conn_user h c = (case find_connection h c of None \<Rightarrow> None | Some s \<Rightarrow> cn_user s)"

abbreviation hub_users :: "hub \<Rightarrow> user_store" where
  "hub_users h \<equiv> at_users (h_auth h)"

definition current_role :: "hub \<Rightarrow> string \<Rightarrow> role" where
  "current_role h uid = (case users_find_by_id (hub_users h) uid of
     Some a \<Rightarrow> u_role (ac_user a) | None \<Rightarrow> User)"

definition restrictions_of :: "hub \<Rightarrow> string \<Rightarrow> restrictions" where
  "restrictions_of h uid = (case users_find_by_id (hub_users h) uid of
     Some a \<Rightarrow> u_restrictions (ac_user a) | None \<Rightarrow> no_restrictions)"

definition hub_user_label :: "hub \<Rightarrow> string \<Rightarrow> string" where
  "hub_user_label h uid =
    (let from_store = (case users_find_by_id (hub_users h) uid of
           Some a \<Rightarrow> user_label uid (u_display_name (ac_user a)) (ac_username a)
         | None \<Rightarrow> uid)
     in case connection_of_user h uid of
          None \<Rightarrow> from_store
        | Some c \<Rightarrow> (case find_connection h c of
            None \<Rightarrow> from_store
          | Some s \<Rightarrow> (case cn_user s of
              None \<Rightarrow> from_store
            | Some identity \<Rightarrow> user_label uid (u_display_name identity) (cn_username s))))"

definition is_sharing_screen :: "hub \<Rightarrow> string \<Rightarrow> string \<Rightarrow> bool" where
  "is_sharing_screen h rid uid = (case mgr_find (h_rooms h) rid of
     None \<Rightarrow> False
   | Some r \<Rightarrow> (case room_find r uid of None \<Rightarrow> False | Some p \<Rightarrow> p_sharing_screen p))"

section \<open>Writing\<close>

definition upd_connection :: "nat \<Rightarrow> (connection \<Rightarrow> connection) \<Rightarrow> hub \<Rightarrow> hub" where
  "upd_connection c f h = h\<lparr>h_connections := AList.map_entry c f (h_connections h)\<rparr>"

text \<open>\<open>out.push_back(...)\<close>, \<open>reply_error\<close>, and a call on the media layer when there is one.\<close>

definition send :: "nat \<Rightarrow> message \<Rightarrow> hub \<Rightarrow> hub" where
  "send c m h = h\<lparr>h_out := h_out h @ [\<lparr>o_connection = c, o_message = m\<rparr>]\<rparr>"

definition reply_error :: "nat \<Rightarrow> error \<Rightarrow> hub \<Rightarrow> hub" where
  "reply_error c e h = send c (ErrorMessage (err_code e) (err_message e)) h"

definition tell_media :: "media_call \<Rightarrow> hub \<Rightarrow> hub" where
  "tell_media call h = (if h_has_media h then h\<lparr>h_media := h_media h @ [call]\<rparr> else h)"

definition throw_hub :: "string \<Rightarrow> hub \<Rightarrow> hub" where
  "throw_hub what h = h\<lparr>h_fault := Some what\<rparr>"

definition broadcast :: "string \<Rightarrow> message \<Rightarrow> string option \<Rightarrow> hub \<Rightarrow> hub" where
  "broadcast rid m except_user_id h =
    (case mgr_find (h_rooms h) rid of
       None \<Rightarrow> h
     | Some r \<Rightarrow> fold (\<lambda>p h.
         if except_user_id = Some (p_id p) then h
         else (case connection_of_user h (p_id p) of None \<Rightarrow> h | Some c \<Rightarrow> send c m h))
         (rm_participants r) h)"

definition room_list :: "hub \<Rightarrow> message" where
  "room_list h = RoomList (sort_key rs_id (map (\<lambda>r. \<lparr>rs_id = rm_id r, rs_name = rm_name r,
     rs_owner_id = rm_owner_id r, rs_persistent = rm_persistent r,
     rs_participant_count = to_int32 (int (length (rm_participants r))),
     rs_capacity = rm_capacity r\<rparr>) (mgr_list (h_rooms h))))"

definition user_list :: "hub \<Rightarrow> message" where
  "user_list h = UserList (map (\<lambda>a. \<lparr>us_user = ac_user a, us_username = ac_username a,
     us_created_at = ac_created_at a,
     us_online = (map_of (h_user_to_connection h) (u_id (ac_user a)) \<noteq> None)\<rparr>)
     (users_list (hub_users h)))"

definition session_list :: "hub \<Rightarrow> int \<Rightarrow> message" where
  "session_list h limit = SessionList (map (\<lambda>r. \<lparr>ss_id = sr_id r, ss_user_id = sr_user_id r,
     ss_ip = sr_ip r, ss_connected_at = sr_connected_at r, ss_last_seen_at = sr_last_seen_at r,
     ss_ended_at = sr_ended_at r\<rparr>) (sessions_list (h_sessions h) limit))"

definition broadcast_room_list :: "hub \<Rightarrow> hub" where
  "broadcast_room_list h =
    (let list = room_list h in fold (\<lambda>(_, c). send c list) (h_user_to_connection h) h)"

definition record_entry :: "environment \<Rightarrow> user \<Rightarrow> string \<Rightarrow> string \<Rightarrow> string \<Rightarrow> string \<Rightarrow> hub \<Rightarrow> hub" where
  "record_entry E actor action target_id room_id detail h =
    (let username = (case users_find_by_id (hub_users h) (u_id actor) of
           Some a \<Rightarrow> ac_username a | None \<Rightarrow> u_display_name actor)
     in h\<lparr>h_audit := snd (audit_append (e_wall E) \<lparr>ae_id = [], ae_actor_id = u_id actor,
            ae_actor_username = username, ae_action = action, ae_target_id = target_id,
            ae_room_id = room_id, ae_detail = detail, ae_timestamp_seconds = 0\<rparr> (h_audit h))\<rparr>)"

text \<open>The conversation store: \<open>chat_\<close> of the hub and the pointer of the room manager are one, and
  the constructor never leaves it null.\<close>

definition hub_chat :: "hub \<Rightarrow> chat_store" where
  "hub_chat h = (case mgr_chat (h_rooms h) of Some s \<Rightarrow> s | None \<Rightarrow> empty_chat_store)"

definition set_hub_chat :: "chat_store \<Rightarrow> hub \<Rightarrow> hub" where
  "set_hub_chat s h = h\<lparr>h_rooms := (h_rooms h)\<lparr>mgr_chat := Some s\<rparr>\<rparr>"

definition chat_history :: "hub \<Rightarrow> string \<Rightarrow> int \<Rightarrow> message" where
  "chat_history h rid limit = ChatHistory rid (chat_list (hub_chat h) rid limit)"

definition announce_departure :: "string \<Rightarrow> string \<Rightarrow> bool \<Rightarrow> hub \<Rightarrow> hub" where
  "announce_departure rid uid was_sharing h =
    (let h = (if was_sharing then broadcast rid (ScreenShareStopped rid uid) None h else h);
         h = broadcast rid (UserLeft rid uid) None h
     in tell_media (ParticipantLeft rid uid) h)"

text \<open>\<open>authenticated\<close>: the user of the connection, or the refusal.\<close>

definition with_user :: "nat \<Rightarrow> hub \<Rightarrow> (user \<Rightarrow> hub) \<Rightarrow> hub" where
  "with_user c h k = (case conn_user h c of
     None \<Rightarrow> reply_error c (unauthorized ''authenticate before sending anything else'') h
   | Some u \<Rightarrow> k u)"

end
