(* ===== verification/HubRooms.thy ===== *)
theory HubRooms
  imports HubState
begin

text \<open>
  The handlers of \<open>server/src/signaling/hub.cpp\<close> that anybody signed in may reach: making, joining
  and leaving rooms, the relay of media frames, mutes, screen shares, the conversation, nudges, and
  acknowledging a notice. Each is the function of the same name; \<open>c\<close> is the connection it came on.
\<close>

definition err :: "string \<Rightarrow> string \<Rightarrow> nat \<Rightarrow> hub \<Rightarrow> hub" where
  "err code msg c h = reply_error c (mk_error code msg) h"

definition room_not_found :: "string \<Rightarrow> nat \<Rightarrow> hub \<Rightarrow> hub" where
  "room_not_found rid c h = err ''room_not_found'' (''no room with id '' @ rid) c h"

definition mismatch :: "string \<Rightarrow> nat \<Rightarrow> hub \<Rightarrow> hub" where
  "mismatch field c h = reply_error c (unauthorized (field @ '' does not match this session'')) h"

text \<open>A write through the pointer to the identity a connection carries.\<close>

definition upd_user :: "nat \<Rightarrow> (user \<Rightarrow> user) \<Rightarrow> hub \<Rightarrow> hub" where
  "upd_user c f h = upd_connection c (\<lambda>s. s\<lparr>cn_user := map_option f (cn_user s)\<rparr>) h"

section \<open>Rooms\<close>

definition handle_create_room ::
  "environment \<Rightarrow> nat \<Rightarrow> string \<Rightarrow> string \<Rightarrow> int \<Rightarrow> hub \<Rightarrow> hub" where
  "handle_create_room E c user_id room_name capacity h = with_user c h (\<lambda>user.
    if user_id \<noteq> u_id user then mismatch ''user_id'' c h
    else if \<not> is_valid_room_name room_name
    then err ''invalid_value'' (''a room name is at most '' @ to_string_nat kMaxRoomNameBytes
           @ '' bytes once trimmed, and carries no control characters'') c h
    else (case (if current_role h (u_id user) \<noteq> Admin then room_owned_by (h_rooms h) (u_id user)
                else None) of
       Some existing \<Rightarrow> err ''room_limit_reached'' (''you already have room '' @ existing
           @ ''; an administrator has to close it before you can make another'') c h
     | None \<Rightarrow>
        (case create_room (e_digits E) (e_wall E) room_name (u_id user) capacity (h_rooms h) of
           (Inl e, M) \<Rightarrow> reply_error c e (h\<lparr>h_rooms := M\<rparr>)
         | (Inr rid, M) \<Rightarrow>
            (let h = h\<lparr>h_rooms := M\<rparr>;
                 (name, cap) = (case mgr_find M rid of
                    Some r \<Rightarrow> (rm_name r, rm_capacity r) | None \<Rightarrow> (rid, capacity))
             in broadcast_room_list (send c (RoomCreated rid name cap) h)))))"

text \<open>The name a join goes through under: the one asked for if it is one, else the account's.\<close>

definition joining_name :: "string \<Rightarrow> user \<Rightarrow> user" where
  "joining_name display_name user =
    (if display_name \<noteq> [] \<and> is_valid_display_name display_name
     then user\<lparr>u_display_name := display_name\<rparr> else user)"

text \<open>The first part of \<open>handle_join_room\<close>, up to and including what follows the join: the answer
  is the user who joined, or nothing after a refusal.\<close>

definition enter_room :: "nat \<Rightarrow> string \<Rightarrow> user \<Rightarrow> hub \<Rightarrow> bool \<times> hub" where
  "enter_room c rid user h =
    (let previous_room = room_of (h_rooms h) (u_id user);
         was_sharing = (case previous_room of None \<Rightarrow> False
           | Some p \<Rightarrow> is_sharing_screen h p (u_id user))
     in case join rid user (h_rooms h) of
          (Some failure, M) \<Rightarrow> (False, reply_error c failure (h\<lparr>h_rooms := M\<rparr>))
        | (None, M) \<Rightarrow>
           (let h = h\<lparr>h_rooms := M\<rparr>;
                h = upd_connection c (\<lambda>s. s\<lparr>cn_room_id := Some rid\<rparr>) h;
                h = upd_user c (\<lambda>u. u\<lparr>u_display_name := u_display_name user\<rparr>) h;
                h = (case previous_room of None \<Rightarrow> h
                   | Some p \<Rightarrow> if p \<noteq> rid then announce_departure p (u_id user) was_sharing h else h);
                h = (if r_muted (u_restrictions user)
                     then h\<lparr>h_rooms := snd (set_muted rid (u_id user) True True (h_rooms h))\<rparr>
                     else h)
            in (True, h)))"

text \<open>The second part: who is in the room, the joiner last, the share in progress, what was said,
  then everybody else and the lists.\<close>

definition greet :: "nat \<Rightarrow> string \<Rightarrow> user \<Rightarrow> hub \<Rightarrow> hub" where
  "greet c rid user h =
    (case mgr_find (h_rooms h) rid of
       None \<Rightarrow> throw_hub ''null room'' h
     | Some room \<Rightarrow>
        (let h = fold (\<lambda>p h. if p_id p = u_id user then h else send c (UserJoined rid (p_user p)) h)
                   (rm_participants room) h;
             h = send c (UserJoined rid user) h;
             h = (case screen_sharer room of None \<Rightarrow> h
                | Some sharer \<Rightarrow> send c (ScreenShareStarted rid (p_id sharer) (p_sharing_audio sharer)) h);
             h = send c (chat_history h rid 0) h;
             h = broadcast rid (UserJoined rid user) (Some (u_id user)) h;
             h = broadcast_room_list h;
             username = (case find_connection h c of None \<Rightarrow> [] | Some s \<Rightarrow> cn_username s)
         in tell_media (ParticipantJoined rid (Models.room_label (rm_id room) (rm_name room)) user
              (user_label (u_id user) (u_display_name user) username)) h))"

definition handle_join_room :: "nat \<Rightarrow> string \<Rightarrow> string \<Rightarrow> string \<Rightarrow> hub \<Rightarrow> hub" where
  "handle_join_room c rid user_id display_name h = with_user c h (\<lambda>authenticated_user.
    if user_id \<noteq> u_id authenticated_user then mismatch ''user_id'' c h
    else (let user = joining_name display_name authenticated_user;
              rs = restrictions_of h (u_id user);
              user = user\<lparr>u_restrictions := rs\<rparr>;
              h = upd_user c (\<lambda>u. u\<lparr>u_restrictions := rs\<rparr>) h
          in if r_banned rs
             then err ''account_banned'' ''this account has been suspended by an administrator'' c h
             else (case enter_room c rid user h of
                     (False, h) \<Rightarrow> h
                   | (True, h) \<Rightarrow> greet c rid user h)))"

definition handle_leave_room :: "nat \<Rightarrow> string \<Rightarrow> string \<Rightarrow> hub \<Rightarrow> hub" where
  "handle_leave_room c rid user_id h = with_user c h (\<lambda>user.
    if user_id \<noteq> u_id user then mismatch ''user_id'' c h
    else (let was_sharing = is_sharing_screen h rid user_id
          in case leave rid user_id (h_rooms h) of
               (Some failure, M) \<Rightarrow> reply_error c failure (h\<lparr>h_rooms := M\<rparr>)
             | (None, M) \<Rightarrow>
                (let h = h\<lparr>h_rooms := M\<rparr>;
                     h = upd_connection c (\<lambda>s. s\<lparr>cn_room_id := None\<rparr>) h;
                     h = announce_departure rid user_id was_sharing h
                 in broadcast_room_list h)))"

section \<open>Media frames, mutes and shares\<close>

definition handle_relay :: "nat \<Rightarrow> message \<Rightarrow> string \<Rightarrow> string \<Rightarrow> string \<Rightarrow> hub \<Rightarrow> hub" where
  "handle_relay c m rid from_user_id to_user_id h = with_user c h (\<lambda>user.
    if from_user_id \<noteq> u_id user then mismatch ''from_user_id'' c h
    else (case mgr_find (h_rooms h) rid of
       None \<Rightarrow> room_not_found rid c h
     | Some room \<Rightarrow>
        (if \<not> room_contains room from_user_id
         then err ''not_in_room'' (''sender is not in '' @ rid) c h
         else if to_user_id = kSfuUserId
         then (if \<not> h_has_media h
               then err ''media_unavailable'' ''this server is not routing media'' c h
               else tell_media (MediaSignal rid from_user_id m) h)
         else if \<not> room_contains room to_user_id
         then err ''not_in_room'' (''recipient is not in '' @ rid) c h
         else (case connection_of_user h to_user_id of
             None \<Rightarrow> err ''not_in_room'' ''recipient is not connected'' c h
           | Some target \<Rightarrow> send target m h))))"

definition handle_mute :: "nat \<Rightarrow> string \<Rightarrow> string \<Rightarrow> bool \<Rightarrow> hub \<Rightarrow> hub" where
  "handle_mute c rid user_id muted h = with_user c h (\<lambda>user.
    if user_id \<noteq> u_id user then mismatch ''user_id'' c h
    else (case set_muted rid user_id muted False (h_rooms h) of
       (Some failure, M) \<Rightarrow> reply_error c failure (h\<lparr>h_rooms := M\<rparr>)
     | (None, M) \<Rightarrow> broadcast rid (if muted then Mute rid user_id [] else Unmute rid user_id []) None
                     (h\<lparr>h_rooms := M\<rparr>)))"

definition handle_screen_share :: "nat \<Rightarrow> string \<Rightarrow> string \<Rightarrow> bool \<Rightarrow> bool \<Rightarrow> hub \<Rightarrow> hub" where
  "handle_screen_share c rid user_id sharing with_audio h = with_user c h (\<lambda>user.
    if user_id \<noteq> u_id user then mismatch ''user_id'' c h
    else if sharing \<and> r_screen_share_blocked (restrictions_of h user_id)
    then err ''forbidden'' ''an administrator has blocked screen sharing for this account'' c h
    else (case (if sharing then start_screen_share rid user_id with_audio (h_rooms h)
                else stop_screen_share rid user_id (h_rooms h)) of
       (Some failure, M) \<Rightarrow> reply_error c failure (h\<lparr>h_rooms := M\<rparr>)
     | (None, M) \<Rightarrow>
        (let h = h\<lparr>h_rooms := M\<rparr>
         in if sharing
            then tell_media (SharingStarted rid user_id)
                   (broadcast rid (ScreenShareStarted rid user_id with_audio) None h)
            else broadcast rid (ScreenShareStopped rid user_id) None h)))"

section \<open>The conversation\<close>

definition handle_chat :: "environment \<Rightarrow> nat \<Rightarrow> chat_message \<Rightarrow> hub \<Rightarrow> hub" where
  "handle_chat E c m h = with_user c h (\<lambda>user.
    if cm_user_id m \<noteq> u_id user then mismatch ''user_id'' c h
    else (let rid = cm_room_id m in case mgr_find (h_rooms h) rid of
       None \<Rightarrow> room_not_found rid c h
     | Some room \<Rightarrow> (case room_find room (u_id user) of
         None \<Rightarrow> err ''not_in_room'' (''sender is not in '' @ rid) c h
       | Some participant \<Rightarrow>
          (if r_silenced (restrictions_of h (u_id user))
           then err ''forbidden'' ''an administrator has silenced this account in chat'' c h
           else if \<not> is_valid_chat_text (cm_text m)
           then err ''invalid_value'' (''a message is between 1 and ''
                  @ to_string_nat kMaxChatTextBytes @ '' bytes once trimmed'') c h
           else (let written = \<lparr>cm_id = [], cm_room_id = rid, cm_user_id = u_id user,
                       cm_display_name = u_display_name (p_user participant),
                       cm_text = trim_chat_text (cm_text m), cm_timestamp_seconds = 0\<rparr>
                 in case chat_append (e_wall E) written (hub_chat h) of
                      (Inl e, s) \<Rightarrow> reply_error c e (set_hub_chat s h)
                    | (Inr stored, s) \<Rightarrow>
                        broadcast rid (ChatMessage stored) None (set_hub_chat s h))))))"

definition handle_list_chat :: "nat \<Rightarrow> string \<Rightarrow> int \<Rightarrow> hub \<Rightarrow> hub" where
  "handle_list_chat c rid limit h = with_user c h (\<lambda>user.
    case mgr_find (h_rooms h) rid of
      None \<Rightarrow> room_not_found rid c h
    | Some room \<Rightarrow>
       (if \<not> room_contains room (u_id user)
        then err ''not_in_room'' (''you are not in '' @ rid) c h
        else send c (chat_history h rid limit) h))"

text \<open>\<open>std::chrono::ceil<std::chrono::seconds>\<close>.\<close>

definition ceil_seconds :: "time \<Rightarrow> int" where
  "ceil_seconds t = - ((- t) div seconds 1)"

definition last_nudge :: "hub \<Rightarrow> nat \<Rightarrow> time option" where
  "last_nudge h c = (case find_connection h c of None \<Rightarrow> None | Some s \<Rightarrow> cn_last_nudge s)"

definition too_soon :: "time option \<Rightarrow> time \<Rightarrow> bool" where
  "too_soon previous now = (case previous of None \<Rightarrow> False | Some t \<Rightarrow> now - t < kNudgeCooldown)"

definition handle_nudge :: "nat \<Rightarrow> string \<Rightarrow> string \<Rightarrow> string \<Rightarrow> time \<Rightarrow> hub \<Rightarrow> hub" where
  "handle_nudge c rid from_user_id to_user_id now h = with_user c h (\<lambda>user.
    if from_user_id \<noteq> u_id user then mismatch ''from_user_id'' c h
    else (case mgr_find (h_rooms h) rid of
       None \<Rightarrow> room_not_found rid c h
     | Some room \<Rightarrow>
        (if \<not> room_contains room (u_id user)
         then err ''not_in_room'' (''sender is not in '' @ rid) c h
         else if to_user_id = u_id user
         then err ''invalid_target'' ''you cannot nudge yourself'' c h
         else if room_find room to_user_id = None
         then err ''invalid_target'' (''that participant is not in '' @ rid) c h
         else if r_silenced (restrictions_of h (u_id user))
         then err ''forbidden'' ''an administrator has silenced this account in chat'' c h
         else if too_soon (last_nudge h c) now
         then err ''too_soon'' (''wait '' @ to_string_int (ceil_seconds
                (kNudgeCooldown - (now - the (last_nudge h c)))) @ '' seconds before nudging again'') c h
         else (let h = upd_connection c (\<lambda>s. s\<lparr>cn_last_nudge := Some now\<rparr>) h;
                   relayed = Nudge rid (u_id user) to_user_id;
                   h = (case connection_of_user h to_user_id of None \<Rightarrow> h
                      | Some other \<Rightarrow> send other relayed h)
               in send c relayed h))))"

section \<open>Acknowledging a notice\<close>

definition handle_acknowledge_notice :: "environment \<Rightarrow> nat \<Rightarrow> string \<Rightarrow> hub \<Rightarrow> hub" where
  "handle_acknowledge_notice E c notice_id h = with_user c h (\<lambda>actor.
    case notices_acknowledge (e_wall E) notice_id (u_id actor) (h_notices h) of
      (Inl e, s) \<Rightarrow> reply_error c e (h\<lparr>h_notices := s\<rparr>)
    | (Inr notice, s) \<Rightarrow>
       (let h = h\<lparr>h_notices := s\<rparr>
        in record_entry E actor ''acknowledge_notice'' (u_id actor) []
             (''notice='' @ nt_id notice @ '' from='' @ hub_user_label h (nt_from_user_id notice)) h))"

end
