(* ===== verification/HubAdmin.thy ===== *)
theory HubAdmin
  imports HubRooms
begin

text \<open>
  The rest of \<open>server/src/signaling/hub.cpp\<close>: signing in and out, notices, what is enforced on a call
  in progress, the administrative handlers, and the heartbeat.
\<close>

section \<open>Sessions and identities\<close>

definition set_users :: "user_store \<Rightarrow> hub \<Rightarrow> hub" where
  "set_users s h = h\<lparr>h_auth := (h_auth h)\<lparr>at_users := s\<rparr>\<rparr>"

definition open_session :: "environment \<Rightarrow> nat \<Rightarrow> hub \<Rightarrow> hub" where
  "open_session E c h =
    (case find_connection h c of None \<Rightarrow> h
     | Some s \<Rightarrow> (case cn_user s of None \<Rightarrow> h
       | Some u \<Rightarrow>
          (case sessions_open (e_wall E) \<lparr>sr_id = [], sr_user_id = u_id u, sr_ip = cn_remote_address s,
                  sr_connected_at = 0, sr_last_seen_at = 0, sr_ended_at = 0\<rparr> (h_sessions h) of
             (Inl e, ss) \<Rightarrow> h\<lparr>h_sessions := ss\<rparr>
           | (Inr opened, ss) \<Rightarrow>
               upd_connection c (\<lambda>s. s\<lparr>cn_session_id := sr_id opened\<rparr>) (h\<lparr>h_sessions := ss\<rparr>))))"

definition close_session :: "environment \<Rightarrow> nat \<Rightarrow> hub \<Rightarrow> hub" where
  "close_session E c h =
    (case find_connection h c of None \<Rightarrow> h
     | Some s \<Rightarrow>
        (if cn_session_id s = [] then h
         else (let h = upd_connection c (\<lambda>s. s\<lparr>cn_session_id := []\<rparr>) h
               in h\<lparr>h_sessions := snd (sessions_close (e_wall E) (cn_session_id s) (h_sessions h))\<rparr>)))"

text \<open>The four lines that take the identity off a connection.\<close>

definition drop_identity :: "nat \<Rightarrow> hub \<Rightarrow> hub" where
  "drop_identity c h = upd_connection c (\<lambda>s. s\<lparr>cn_user := None, cn_room_id := None,
     cn_username := [], cn_delivered := []\<rparr>) h"

definition hand_over_notice :: "nat \<Rightarrow> notice \<Rightarrow> hub \<Rightarrow> hub" where
  "hand_over_notice c n h =
    (case find_connection h c of None \<Rightarrow> h
     | Some s \<Rightarrow>
        (if nt_id n \<in> set (cn_delivered s) then h
         else send c (Notice n) (upd_connection c (\<lambda>s. s\<lparr>cn_delivered := nt_id n # cn_delivered s\<rparr>) h)))"

definition deliver_pending_notices :: "nat \<Rightarrow> hub \<Rightarrow> hub" where
  "deliver_pending_notices c h =
    (case conn_user h c of None \<Rightarrow> h
     | Some u \<Rightarrow> fold (hand_over_notice c) (notices_pending_for (h_notices h) (u_id u)) h)"

text \<open>The loop runs the same query the login runs, for every connection that has an identity.\<close>

definition deliver_notices_written_elsewhere :: "hub \<Rightarrow> hub" where
  "deliver_notices_written_elsewhere h =
    fold deliver_pending_notices (map fst (h_connections h)) h"

definition discard_session_end_request :: "string \<Rightarrow> hub \<Rightarrow> hub" where
  "discard_session_end_request uid h =
    (case users_find_by_id (hub_users h) uid of
       None \<Rightarrow> h
     | Some a \<Rightarrow>
        (if ac_session_end_requested_at a = 0 then h
         else set_users (snd (users_update (a\<lparr>ac_session_end_requested_at := 0\<rparr>) (hub_users h))) h))"

text \<open>What a login does to the socket the account was on before.\<close>

definition detach_previous :: "environment \<Rightarrow> nat \<Rightarrow> string \<Rightarrow> hub \<Rightarrow> hub" where
  "detach_previous E c uid h =
    (case connection_of_user h uid of
       None \<Rightarrow> h
     | Some previous \<Rightarrow>
        (if previous = c then h
         else (let h = (case room_of (h_rooms h) uid of
                   None \<Rightarrow> h
                 | Some rid \<Rightarrow>
                    (let was_sharing = is_sharing_screen h rid uid;
                         h = h\<lparr>h_rooms := snd (remove_from_any_room uid (h_rooms h))\<rparr>;
                         h = announce_departure rid uid was_sharing h
                     in broadcast_room_list h))
               in if find_connection h previous = None then h
                  else drop_identity previous (close_session E previous h))))"

definition handle_authenticate :: "environment \<Rightarrow> nat \<Rightarrow> string \<Rightarrow> string \<Rightarrow> time \<Rightarrow> hub \<Rightarrow> hub" where
  "handle_authenticate E c username password now h =
    (case authenticate (e_crypto E) username password now (h_auth h) of
       (Inl what, A) \<Rightarrow> throw_hub what (h\<lparr>h_auth := A\<rparr>)
     | (Inr (Inl e), A) \<Rightarrow> reply_error c e (h\<lparr>h_auth := A\<rparr>)
     | (Inr (Inr v), A) \<Rightarrow>
        (let uid = u_id (s_user v);
             h = h\<lparr>h_auth := A\<rparr>;
             h = detach_previous E c uid h;
             h = upd_connection c (\<lambda>s. s\<lparr>cn_user := Some (s_user v), cn_username := username,
                   cn_delivered := []\<rparr>) h;
             h = h\<lparr>h_user_to_connection := AList.update uid c (h_user_to_connection h)\<rparr>;
             h = send c (Authenticated (s_user v) (s_token v) (s_expires_in_seconds v)) h;
             h = open_session E c h;
             h = deliver_pending_notices c h
         in discard_session_end_request uid h))"

section \<open>Taking people out\<close>

definition evict :: "string \<Rightarrow> string \<Rightarrow> string \<Rightarrow> hub \<Rightarrow> hub" where
  "evict rid uid reason h =
    (let was_sharing = is_sharing_screen h rid uid;
         h = broadcast rid (UserKicked rid uid reason) None h;
         h = h\<lparr>h_rooms := snd (leave rid uid (h_rooms h))\<rparr>;
         h = (if was_sharing then broadcast rid (ScreenShareStopped rid uid) None h else h);
         h = broadcast rid (UserLeft rid uid) None h;
         h = broadcast_room_list h;
         h = tell_media (ParticipantLeft rid uid) h
     in case connection_of_user h uid of None \<Rightarrow> h
        | Some c \<Rightarrow> upd_connection c (\<lambda>s. s\<lparr>cn_room_id := None\<rparr>) h)"

definition end_session_of :: "environment \<Rightarrow> string \<Rightarrow> string \<Rightarrow> hub \<Rightarrow> hub" where
  "end_session_of E uid reason h =
    (let h = (case connection_of_user h uid of None \<Rightarrow> h
            | Some c \<Rightarrow> send c (SessionEnded reason) h);
         h = (case room_of (h_rooms h) uid of None \<Rightarrow> h | Some rid \<Rightarrow> evict rid uid reason h);
         h = h\<lparr>h_auth := revoke_tokens_of uid (h_auth h)\<rparr>
     in case connection_of_user h uid of None \<Rightarrow> h
        | Some c \<Rightarrow>
           (let h = (if find_connection h c = None then h else drop_identity c (close_session E c h))
            in h\<lparr>h_user_to_connection := AList.delete uid (h_user_to_connection h)\<rparr>))"

definition enforce :: "environment \<Rightarrow> user \<Rightarrow> user \<Rightarrow> restrictions \<Rightarrow> string \<Rightarrow> hub \<Rightarrow> hub" where
  "enforce E actor target before reason h =
    (let uid = u_id target;
         after = u_restrictions target;
         room_id = room_of (h_rooms h) uid;
         announcement = UserRestricted uid after (u_id actor) reason
           (case room_id of None \<Rightarrow> [] | Some rid \<Rightarrow> rid);
         h = (case connection_of_user h uid of None \<Rightarrow> h | Some c \<Rightarrow> send c announcement h);
         h = (case room_id of None \<Rightarrow> h | Some rid \<Rightarrow> broadcast rid announcement (Some uid) h);
         h = (case connection_of_user h uid of None \<Rightarrow> h
            | Some c \<Rightarrow> upd_user c (\<lambda>u. u\<lparr>u_restrictions := after\<rparr>) h)
     in if r_banned after \<and> \<not> r_banned before
        then end_session_of E uid (if reason = [] then ''the account was suspended'' else reason) h
        else (case room_id of None \<Rightarrow> h
          | Some rid \<Rightarrow>
             (let h = (if r_muted after \<noteq> r_muted before
                   then (case set_muted rid uid (r_muted after) True (h_rooms h) of
                           (Some failure, M) \<Rightarrow> h\<lparr>h_rooms := M\<rparr>
                         | (None, M) \<Rightarrow> broadcast rid (if r_muted after then Mute rid uid (u_id actor)
                                          else Unmute rid uid (u_id actor)) None (h\<lparr>h_rooms := M\<rparr>))
                   else h)
              in if r_screen_share_blocked after \<and> \<not> r_screen_share_blocked before
                    \<and> is_sharing_screen h rid uid
                 then (case stop_screen_share rid uid (h_rooms h) of
                         (Some failure, M) \<Rightarrow> h\<lparr>h_rooms := M\<rparr>
                       | (None, M) \<Rightarrow> broadcast rid (ScreenShareStopped rid uid) None (h\<lparr>h_rooms := M\<rparr>))
                 else h)))"

section \<open>Administration of people\<close>

definition handle_send_notice :: "environment \<Rightarrow> nat \<Rightarrow> string \<Rightarrow> string \<Rightarrow> hub \<Rightarrow> hub" where
  "handle_send_notice E c user_id text h = with_user c h (\<lambda>actor.
    if \<not> is_valid_notice_text text
    then err ''invalid_value'' (''a notice must not be empty and must fit in ''
           @ to_string_nat kMaxNoticeTextBytes @ '' bytes'') c h
    else (case users_find_by_id (hub_users h) user_id of
       None \<Rightarrow> err ''user_not_found'' ''no account with that identifier'' c h
     | Some target \<Rightarrow>
        (case notices_append (e_wall E) \<lparr>nt_id = [], nt_user_id = u_id (ac_user target),
                nt_from_user_id = u_id actor, nt_from_display_name = u_display_name actor,
                nt_text = trim_notice_text text, nt_created_at = 0, nt_acknowledged_at = 0\<rparr>
                (h_notices h) of
           (Inl e, s) \<Rightarrow> reply_error c e (h\<lparr>h_notices := s\<rparr>)
         | (Inr notice, s) \<Rightarrow>
            (let h = h\<lparr>h_notices := s\<rparr>;
                 target_connection = connection_of_user h (nt_user_id notice);
                 h = (case target_connection of None \<Rightarrow> h
                    | Some t \<Rightarrow> hand_over_notice t notice h);
                 h = (if target_connection \<noteq> Some c then send c (Notice notice) h else h)
             in record_entry E actor ''send_notice'' (nt_user_id notice) []
                  (''notice='' @ nt_id notice @ '' '' @ nt_text notice) h))))"

definition handle_kick :: "environment \<Rightarrow> nat \<Rightarrow> string \<Rightarrow> string \<Rightarrow> string \<Rightarrow> hub \<Rightarrow> hub" where
  "handle_kick E c rid user_id reason h = with_user c h (\<lambda>actor.
    case mgr_find (h_rooms h) rid of
      None \<Rightarrow> room_not_found rid c h
    | Some room \<Rightarrow>
       (if \<not> room_contains room user_id
        then err ''not_in_room'' (user_id @ '' is not in '' @ rid) c h
        else if user_id = u_id actor
        then err ''invalid_target'' ''use leave_room to remove yourself from a room'' c h
        else evict rid user_id reason (record_entry E actor ''kick'' user_id rid reason h)))"

definition handle_force_mute :: "environment \<Rightarrow> nat \<Rightarrow> string \<Rightarrow> string \<Rightarrow> bool \<Rightarrow> hub \<Rightarrow> hub" where
  "handle_force_mute E c rid user_id muted h = with_user c h (\<lambda>actor.
    if \<not> muted \<and> r_muted (restrictions_of h user_id)
    then err ''invalid_target'' ''this account is muted by a restriction, lift that instead'' c h
    else (case set_muted rid user_id muted True (h_rooms h) of
       (Some failure, M) \<Rightarrow> reply_error c failure (h\<lparr>h_rooms := M\<rparr>)
     | (None, M) \<Rightarrow>
        (let h = record_entry E actor (if muted then ''force_mute'' else ''force_unmute'') user_id rid []
                   (h\<lparr>h_rooms := M\<rparr>)
         in broadcast rid (if muted then Mute rid user_id (u_id actor)
                           else Unmute rid user_id (u_id actor)) None h)))"

definition note_change :: "string \<Rightarrow> bool \<Rightarrow> string \<Rightarrow> string" where
  "note_change name v detail = (if detail \<noteq> [] then detail @ '' '' else detail) @ name
     @ (if v then ''=true'' else ''=false'')"

definition restriction_detail :: "restrictions \<Rightarrow> restrictions \<Rightarrow> string \<Rightarrow> string" where
  "restriction_detail before after reason =
    (let d = [];
         d = (if r_banned after \<noteq> r_banned before then note_change ''banned'' (r_banned after) d else d);
         d = (if r_muted after \<noteq> r_muted before then note_change ''muted'' (r_muted after) d else d);
         d = (if r_silenced after \<noteq> r_silenced before
              then note_change ''silenced'' (r_silenced after) d else d);
         d = (if r_screen_share_blocked after \<noteq> r_screen_share_blocked before
              then note_change ''screen_share_blocked'' (r_screen_share_blocked after) d else d)
     in if reason \<noteq> [] then d @ '' reason='' @ reason else d)"

text \<open>Absent means unchanged.\<close>

definition merge_restrictions ::
  "bool option \<Rightarrow> bool option \<Rightarrow> bool option \<Rightarrow> bool option \<Rightarrow> restrictions \<Rightarrow> restrictions" where
  "merge_restrictions banned muted silenced blocked before =
    (let v = (\<lambda>asked now. case asked of Some x \<Rightarrow> x | None \<Rightarrow> now)
     in \<lparr>r_banned = v banned (r_banned before), r_muted = v muted (r_muted before),
         r_silenced = v silenced (r_silenced before),
         r_screen_share_blocked = v blocked (r_screen_share_blocked before)\<rparr>)"

definition handle_restrict_user :: "environment \<Rightarrow> nat \<Rightarrow> string \<Rightarrow> bool option \<Rightarrow> bool option
    \<Rightarrow> bool option \<Rightarrow> bool option \<Rightarrow> string \<Rightarrow> hub \<Rightarrow> hub" where
  "handle_restrict_user E c user_id banned muted silenced blocked reason h = with_user c h (\<lambda>actor.
    case users_find_by_id (hub_users h) user_id of
      None \<Rightarrow> err ''user_not_found'' ''no account with that identifier'' c h
    | Some account \<Rightarrow>
       (if ac_id account = u_id actor
        then err ''invalid_target'' ''an administrator cannot restrict their own account'' c h
        else (let before = u_restrictions (ac_user account);
                  after = merge_restrictions banned muted silenced blocked before
              in if after = before then send c (user_list h) h
                 else if r_banned after \<and> \<not> r_banned before \<and> ac_role account = Admin
                    \<and> users_count_with_role (hub_users h) Admin \<le> 1
                 then err ''last_administrator'' ''the last administrator cannot be banned'' c h
                 else (let account = account\<lparr>ac_user := (ac_user account)\<lparr>u_restrictions := after\<rparr>\<rparr>
                       in case users_update account (hub_users h) of
                            (Some failure, s) \<Rightarrow> reply_error c failure (set_users s h)
                          | (None, s) \<Rightarrow>
                             (let h = set_users s h;
                                  h = record_entry E actor ''restrict_user'' user_id
                                        (case room_of (h_rooms h) user_id of None \<Rightarrow> [] | Some r \<Rightarrow> r)
                                        (restriction_detail before after reason) h;
                                  h = enforce E actor (ac_user account) before reason h
                              in send c (user_list h) h)))))"

definition handle_change_password :: "environment \<Rightarrow> nat \<Rightarrow> string \<Rightarrow> string \<Rightarrow> hub \<Rightarrow> hub" where
  "handle_change_password E c current_password new_password h = with_user c h (\<lambda>account.
    case change_password (e_crypto E) (u_id account) current_password new_password (h_auth h) of
      (Inl what, A) \<Rightarrow> throw_hub what (h\<lparr>h_auth := A\<rparr>)
    | (Inr (Some failure), A) \<Rightarrow> reply_error c failure (h\<lparr>h_auth := A\<rparr>)
    | (Inr None, A) \<Rightarrow>
       (let h = record_entry E account ''change_password'' (u_id account) [] ''password'' (h\<lparr>h_auth := A\<rparr>);
            h = end_session_of E (u_id account) ''the password was changed'' h
        in send c PasswordChanged h))"

definition handle_create_user ::
  "environment \<Rightarrow> nat \<Rightarrow> string \<Rightarrow> string \<Rightarrow> string \<Rightarrow> role \<Rightarrow> hub \<Rightarrow> hub" where
  "handle_create_user E c username password display_name r h = with_user c h (\<lambda>actor.
    case add_user (e_crypto E) (e_wall E) username password display_name r (h_auth h) of
      (Inl what, A) \<Rightarrow> throw_hub what (h\<lparr>h_auth := A\<rparr>)
    | (Inr (Inl failure), A) \<Rightarrow> reply_error c failure (h\<lparr>h_auth := A\<rparr>)
    | (Inr (Inr user), A) \<Rightarrow>
       (let h = record_entry E actor ''create_user'' (u_id user) []
                  (''username='' @ username @ '' role='' @ role_to_string r) (h\<lparr>h_auth := A\<rparr>)
        in send c (user_list h) h))"

text \<open>The part of \<open>handle_update_user\<close> that writes: the password is derived before anything is.\<close>

definition apply_update :: "environment \<Rightarrow> nat \<Rightarrow> user \<Rightarrow> string \<Rightarrow> string option \<Rightarrow> string
    \<Rightarrow> account \<Rightarrow> hub \<Rightarrow> hub" where
  "apply_update E c actor user_id password detail account h =
    (let finish = (\<lambda>account detail h. case users_update account (hub_users h) of
           (Some failure, s) \<Rightarrow> reply_error c failure (set_users s h)
         | (None, s) \<Rightarrow>
            (let h = record_entry E actor ''update_user'' user_id [] detail (set_users s h)
             in send c (user_list h) h))
     in case password of
          None \<Rightarrow> finish account detail h
        | Some p \<Rightarrow>
           (case derive (e_crypto E) p (h_auth h) of
              (Inl what, A) \<Rightarrow> throw_hub what (h\<lparr>h_auth := A\<rparr>)
            | (Inr (Inl e), A) \<Rightarrow> reply_error c e (h\<lparr>h_auth := A\<rparr>)
            | (Inr (Inr v), A) \<Rightarrow>
                finish (account\<lparr>ac_salt_hex := c_salt_hex v,
                                ac_password_hash_hex := c_password_hash_hex v\<rparr>)
                  (detail @ (if detail = [] then ''password'' else '' password'')) (h\<lparr>h_auth := A\<rparr>)))"

definition handle_update_user :: "environment \<Rightarrow> nat \<Rightarrow> string \<Rightarrow> role option \<Rightarrow> string option
    \<Rightarrow> string option \<Rightarrow> hub \<Rightarrow> hub" where
  "handle_update_user E c user_id new_role display_name password h = with_user c h (\<lambda>actor.
    case users_find_by_id (hub_users h) user_id of
      None \<Rightarrow> err ''user_not_found'' ''no account with that identifier'' c h
    | Some account \<Rightarrow>
       (let moves = (new_role \<noteq> None \<and> new_role \<noteq> Some (ac_role account))
        in if moves \<and> ac_id account = u_id actor
           then err ''invalid_target'' ''an administrator cannot change their own role'' c h
           else if moves \<and> ac_role account = Admin \<and> users_count_with_role (hub_users h) Admin \<le> 1
           then err ''last_administrator'' ''the last administrator cannot be demoted'' c h
           else (let role' = (case new_role of Some r \<Rightarrow> r | None \<Rightarrow> ac_role account);
                     name = (case display_name of Some n \<Rightarrow> n | None \<Rightarrow> u_display_name (ac_user account));
                     detail = (if moves then ''role='' @ role_to_string role' else [])
                 in apply_update E c actor user_id password detail
                      (account\<lparr>ac_user := (ac_user account)\<lparr>u_role := role', u_display_name := name\<rparr>\<rparr>)
                      h)))"

text \<open>\<open>actor\<close> points into the connection. When ending the target's session took the identity off
  the very connection that asked, reading \<open>*actor\<close> afterwards is undefined.\<close>

definition handle_delete_user :: "environment \<Rightarrow> nat \<Rightarrow> string \<Rightarrow> hub \<Rightarrow> hub" where
  "handle_delete_user E c user_id h = with_user c h (\<lambda>actor.
    case users_find_by_id (hub_users h) user_id of
      None \<Rightarrow> err ''user_not_found'' ''no account with that identifier'' c h
    | Some account \<Rightarrow>
       (if ac_id account = u_id actor
        then err ''invalid_target'' ''an administrator cannot delete their own account'' c h
        else if ac_role account = Admin \<and> users_count_with_role (hub_users h) Admin \<le> 1
        then err ''last_administrator'' ''the last administrator cannot be deleted'' c h
        else (let h = end_session_of E user_id ''the account was removed'' h
              in case users_remove user_id (hub_users h) of
                   (Some failure, s) \<Rightarrow> reply_error c failure (set_users s h)
                 | (None, s) \<Rightarrow>
                    (let h = set_users s h;
                         h = h\<lparr>h_notices := snd (notices_clear_for user_id (h_notices h))\<rparr>
                     in case conn_user h c of
                          None \<Rightarrow> throw_hub ''undefined behaviour: the actor is gone'' h
                        | Some actor \<Rightarrow>
                           (let h = record_entry E actor ''delete_user'' user_id []
                                      (''username='' @ ac_username account) h
                            in send c (user_list h) h)))))"

definition handle_end_session :: "environment \<Rightarrow> nat \<Rightarrow> string \<Rightarrow> string \<Rightarrow> hub \<Rightarrow> hub" where
  "handle_end_session E c user_id reason h = with_user c h (\<lambda>actor.
    if user_id = u_id actor
    then err ''invalid_target'' ''an administrator cannot end their own session from here'' c h
    else if connection_of_user h user_id = None
    then err ''invalid_target'' ''that account is not signed in'' c h
    else (let room_id = (case room_of (h_rooms h) user_id of None \<Rightarrow> [] | Some r \<Rightarrow> r);
              told = (if reason = [] then ''the session was ended by an administrator'' else reason);
              h = record_entry E actor ''end_session'' user_id room_id reason h;
              h = end_session_of E user_id told h
          in send c (session_list h 0) h))"

section \<open>Administration of rooms, and the listings\<close>

definition handle_delete_room :: "environment \<Rightarrow> nat \<Rightarrow> string \<Rightarrow> hub \<Rightarrow> hub" where
  "handle_delete_room E c rid h = with_user c h (\<lambda>actor.
    let occupants = (case mgr_find (h_rooms h) rid of None \<Rightarrow> []
          | Some room \<Rightarrow> map p_id (rm_participants room));
        h = fold (\<lambda>uid. evict rid uid kRoomClosed) occupants h;
        (removed, M) = remove_room rid (h_rooms h);
        h = h\<lparr>h_rooms := M\<rparr>
    in case (removed, occupants) of
         (Inl e, []) \<Rightarrow> reply_error c e h
       | _ \<Rightarrow> broadcast_room_list (record_entry E actor ''delete_room'' rid rid
                (''participants='' @ to_string_nat (length occupants)) h))"

definition handle_update_room :: "environment \<Rightarrow> nat \<Rightarrow> string \<Rightarrow> int \<Rightarrow> hub \<Rightarrow> hub" where
  "handle_update_room E c rid capacity h = with_user c h (\<lambda>actor.
    case mgr_find (h_rooms h) rid of
      None \<Rightarrow> room_not_found rid c h
    | Some room \<Rightarrow>
       (let before = rm_capacity room
        in if capacity = 0 \<or> capacity = before then send c (room_list h) h
           else (case set_capacity (e_wall E) rid capacity (h_rooms h) of
              (Some failure, M) \<Rightarrow> reply_error c failure (h\<lparr>h_rooms := M\<rparr>)
            | (None, M) \<Rightarrow> broadcast_room_list (record_entry E actor ''update_room'' rid rid
                (''capacity='' @ to_string_int capacity @ '' (was '' @ to_string_int before @ '')'')
                (h\<lparr>h_rooms := M\<rparr>)))))"

definition handle_list_users :: "nat \<Rightarrow> hub \<Rightarrow> hub" where
  "handle_list_users c h = send c (user_list h) h"

definition handle_list_rooms :: "nat \<Rightarrow> hub \<Rightarrow> hub" where
  "handle_list_rooms c h = send c (room_list h) h"

definition handle_list_audit :: "nat \<Rightarrow> int \<Rightarrow> string \<Rightarrow> hub \<Rightarrow> hub" where
  "handle_list_audit c limit actor_id h = send c (AuditList (audit_list (h_audit h) limit actor_id)) h"

definition handle_list_sessions :: "nat \<Rightarrow> int \<Rightarrow> hub \<Rightarrow> hub" where
  "handle_list_sessions c limit h = send c (session_list h limit) h"

end
