(* ===== verification/Hub.thy ===== *)
theory Hub
  imports HubAdmin
begin

text \<open>
  The four entry points of \<open>server/src/signaling/hub.cpp\<close> the transport calls, each under one lock:
  a connection opening, a frame, a connection closing, and the heartbeat.
\<close>

section \<open>Frames\<close>

definition on_connect :: "nat \<Rightarrow> string \<Rightarrow> time \<Rightarrow> hub \<Rightarrow> hub" where
  "on_connect c remote_address now h = h\<lparr>h_connections := AList.update c
     \<lparr>cn_id = c, cn_user = None, cn_username = [], cn_room_id = None,
      cn_remote_address = remote_address, cn_session_id = [], cn_delivered = [],
      cn_last_seen = now, cn_last_ping = now, cn_last_nudge = None\<rparr> (h_connections h)\<rparr>"

text \<open>The visitor.\<close>

fun dispatch :: "environment \<Rightarrow> nat \<Rightarrow> time \<Rightarrow> message \<Rightarrow> hub \<Rightarrow> hub" where
  "dispatch E c now (Authenticate username password) h =
     handle_authenticate E c username password now h"
| "dispatch E c now (CreateRoom uid name persistent capacity) h =
     handle_create_room E c uid name capacity h"
| "dispatch E c now (JoinRoom rid uid name) h = handle_join_room c rid uid name h"
| "dispatch E c now (LeaveRoom rid uid) h = handle_leave_room c rid uid h"
| "dispatch E c now (Offer rid f t sdp) h = handle_relay c (Offer rid f t sdp) rid f t h"
| "dispatch E c now (Answer rid f t sdp) h = handle_relay c (Answer rid f t sdp) rid f t h"
| "dispatch E c now (IceCandidate rid f t cand mid line) h =
     handle_relay c (IceCandidate rid f t cand mid line) rid f t h"
| "dispatch E c now (ChangePassword cur new) h = handle_change_password E c cur new h"
| "dispatch E c now (Mute rid uid by_user) h = handle_mute c rid uid True h"
| "dispatch E c now (Unmute rid uid by_user) h = handle_mute c rid uid False h"
| "dispatch E c now (Nudge rid f t) h = handle_nudge c rid f t now h"
| "dispatch E c now (ScreenShareStarted rid uid audio) h = handle_screen_share c rid uid True audio h"
| "dispatch E c now (ScreenShareStopped rid uid) h = handle_screen_share c rid uid False False h"
| "dispatch E c now (ChatMessage m) h = handle_chat E c m h"
| "dispatch E c now (ListChat rid limit) h = handle_list_chat c rid limit h"
| "dispatch E c now (SendNotice uid text) h = handle_send_notice E c uid text h"
| "dispatch E c now (AcknowledgeNotice nid) h = handle_acknowledge_notice E c nid h"
| "dispatch E c now (Ping nonce) h = send c (Pong nonce) h"
| "dispatch E c now (Pong nonce) h = h"
| "dispatch E c now (KickUser rid uid reason) h = handle_kick E c rid uid reason h"
| "dispatch E c now (ForceMute rid uid muted) h = handle_force_mute E c rid uid muted h"
| "dispatch E c now (RestrictUser uid b m s ss reason) h = handle_restrict_user E c uid b m s ss reason h"
| "dispatch E c now ListUsers h = handle_list_users c h"
| "dispatch E c now (CreateUser name pw display r) h = handle_create_user E c name pw display r h"
| "dispatch E c now (UpdateUser uid r display pw) h = handle_update_user E c uid r display pw h"
| "dispatch E c now (DeleteUser uid) h = handle_delete_user E c uid h"
| "dispatch E c now ListRooms h = handle_list_rooms c h"
| "dispatch E c now (DeleteRoom rid) h = handle_delete_room E c rid h"
| "dispatch E c now (UpdateRoom rid capacity) h = handle_update_room E c rid capacity h"
| "dispatch E c now (ListAudit limit actor_id) h = handle_list_audit c limit actor_id h"
| "dispatch E c now (ListSessions limit) h = handle_list_sessions c limit h"
| "dispatch E c now (EndSession uid reason) h = handle_end_session E c uid reason h"
| "dispatch E c now _ h =
     err ''unknown_message_type'' ''this message is server to client only'' c h"

definition is_heartbeat :: "message \<Rightarrow> bool" where
  "is_heartbeat m = (case m of Ping _ \<Rightarrow> True | Pong _ \<Rightarrow> True | _ \<Rightarrow> False)"

definition is_authenticate :: "message \<Rightarrow> bool" where
  "is_authenticate m = (case m of Authenticate _ _ \<Rightarrow> True | _ \<Rightarrow> False)"

text \<open>The gate: the permission table, with the role the store holds now. \<open>None\<close> refuses.\<close>

definition handle_frame :: "environment \<Rightarrow> nat \<Rightarrow> message \<Rightarrow> time \<Rightarrow> hub \<Rightarrow> hub" where
  "handle_frame E c m now h =
    (if conn_user h c = None \<and> \<not> is_heartbeat m \<and> \<not> is_authenticate m
     then reply_error c (unauthorized ''authenticate before sending anything else'') h
     else (case access_for (type_of m) of
       AccServerToClient \<Rightarrow> err ''unknown_message_type'' ''this message is server to client only'' c h
     | AccAdminOnly \<Rightarrow> (case conn_user h c of
         None \<Rightarrow> reply_error c (unauthorized ''authenticate before sending anything else'') h
       | Some u \<Rightarrow>
          (let r = current_role h (u_id u);
               h = upd_user c (\<lambda>u. u\<lparr>u_role := r\<rparr>) h
           in if \<not> is_allowed r (type_of m)
              then err ''forbidden'' ''this action requires an administrator'' c h
              else dispatch E c now m h))
     | AccAuthenticated \<Rightarrow> dispatch E c now m h))"

text \<open>\<open>on_message\<close>, from what \<open>protocol::parse\<close> answered; a frame starts with an empty \<open>out\<close>.\<close>

definition on_message :: "environment \<Rightarrow> nat \<Rightarrow> message result \<Rightarrow> time \<Rightarrow> hub \<Rightarrow> hub" where
  "on_message E c parsed now h =
    (let h = h\<lparr>h_out := [], h_media := [], h_fault := None\<rparr>
     in if find_connection h c = None then h
        else (let h = upd_connection c (\<lambda>s. s\<lparr>cn_last_seen := now\<rparr>) h
              in case parsed of
                   Inl e \<Rightarrow> reply_error c e h
                 | Inr m \<Rightarrow> handle_frame E c m now h))"

section \<open>Closing and the heartbeat\<close>

definition on_disconnect :: "environment \<Rightarrow> nat \<Rightarrow> hub \<Rightarrow> hub" where
  "on_disconnect E c h =
    (let h = h\<lparr>h_out := [], h_media := [], h_fault := None\<rparr>
     in case find_connection h c of
          None \<Rightarrow> h
        | Some state \<Rightarrow>
           (let h = close_session E c h;
                h = h\<lparr>h_connections := AList.delete c (h_connections h)\<rparr>
            in case cn_user state of
                 None \<Rightarrow> h
               | Some u \<Rightarrow>
                  (let h = (if connection_of_user h (u_id u) = Some c
                        then h\<lparr>h_user_to_connection := AList.delete (u_id u) (h_user_to_connection h)\<rparr>
                        else h)
                   in case room_of (h_rooms h) (u_id u) of
                        None \<Rightarrow> h
                      | Some rid \<Rightarrow>
                         (let was_sharing = is_sharing_screen h rid (u_id u);
                              h = h\<lparr>h_rooms := snd (remove_from_any_room (u_id u) (h_rooms h))\<rparr>;
                              h = announce_departure rid (u_id u) was_sharing h
                          in broadcast_room_list h))))"

text \<open>One turn of the loop of \<open>tick\<close>, with the connections given up on and the open sessions so far.\<close>

definition tick_connection :: "time \<Rightarrow> nat \<Rightarrow> hub \<times> nat list \<times> string list
    \<Rightarrow> hub \<times> nat list \<times> string list" where
  "tick_connection now c = (\<lambda>(h, timed_out, alive).
    case find_connection h c of
      None \<Rightarrow> (h, timed_out, alive)
    | Some s \<Rightarrow>
       (if now - cn_last_seen s \<ge> h_heartbeat_timeout h then (h, timed_out @ [c], alive)
        else (let alive = (if cn_session_id s \<noteq> [] then alive @ [cn_session_id s] else alive)
              in if now - cn_last_ping s \<ge> h_heartbeat_interval h
                 then (send c (Ping []) (upd_connection c (\<lambda>s. s\<lparr>cn_last_ping := now\<rparr>) h),
                       timed_out, alive)
                 else (h, timed_out, alive))))"

definition watched_accounts :: "hub \<Rightarrow> watched_account list" where
  "watched_accounts h = concat (map (\<lambda>(_, s). case cn_user s of None \<Rightarrow> []
     | Some u \<Rightarrow> [\<lparr>wa_user_id = u_id u, wa_known = u_restrictions u\<rparr>]) (h_connections h))"

definition apply_change :: "environment \<Rightarrow> restriction_change \<Rightarrow> hub \<Rightarrow> hub" where
  "apply_change E change h = (case users_find_by_id (hub_users h) (rc_user_id change) of
     None \<Rightarrow> h
   | Some a \<Rightarrow> enforce E default_user (ac_user a) (rc_before change) [] h)"

definition apply_requested :: "environment \<Rightarrow> string \<Rightarrow> hub \<Rightarrow> hub" where
  "apply_requested E uid h =
    (let h = (if connection_of_user h uid \<noteq> None
              then end_session_of E uid ''the session was ended by an administrator'' h else h)
     in discard_session_end_request uid h)"

definition apply_restrictions_written_elsewhere :: "environment \<Rightarrow> hub \<Rightarrow> hub" where
  "apply_restrictions_written_elsewhere E h =
    (let watched = watched_accounts h
     in if watched = [] then h
        else (let found = poll (hub_users h) watched;
                  h = fold (apply_change E) (rp_changed found) h;
                  h = fold (\<lambda>uid. end_session_of E uid ''the account was removed'') (rp_gone found) h
              in fold (apply_requested E) (rp_session_end_requested found) h))"

definition tick :: "environment \<Rightarrow> time \<Rightarrow> hub \<Rightarrow> nat list \<times> hub" where
  "tick E now h =
    (let h = h\<lparr>h_out := [], h_media := [], h_fault := None\<rparr>;
         (h, timed_out, alive) = fold (tick_connection now) (map fst (h_connections h)) (h, [], []);
         h = h\<lparr>h_sessions := snd (sessions_touch (e_wall E) alive (h_sessions h))\<rparr>;
         h = h\<lparr>h_auth := expire_tokens now (h_auth h)\<rparr>;
         h = apply_restrictions_written_elsewhere E h;
         h = deliver_notices_written_elsewhere h
     in (timed_out, h))"

section \<open>The hub as a machine\<close>

text \<open>Everything that can happen to a hub. \<open>WrittenElsewhere\<close> is another program writing the account
  collection, which \<open>tools/dbadmin\<close> does.\<close>

datatype (plugins only: code) event =
    Connected nat string time
  | Frame nat "message result" time
  | Disconnected nat
  | Heartbeat time
  | WrittenElsewhere user_store

fun hub_step :: "environment \<times> event \<Rightarrow> hub \<Rightarrow> hub" where
  "hub_step (E, Connected c addr now) h = on_connect c addr now h"
| "hub_step (E, Frame c parsed now) h = on_message E c parsed now h"
| "hub_step (E, Disconnected c) h = on_disconnect E c h"
| "hub_step (E, Heartbeat now) h = snd (tick E now h)"
| "hub_step (E, WrittenElsewhere s) h = set_users s h"

end
