(* ===== verification/HubFrames.thy ===== *)
theory HubFrames
  imports Hub
begin

text \<open>
  What each helper of the hub may touch. The part of the state the safety of the hub rests on is
  read through five views: who is signed in on a connection, which connection an account is on,
  which room it is in, the accounts, and whom the tokens belong to. An operation that leaves the
  views alone is quiet.
\<close>

section \<open>Sending in closed form\<close>

definition broadcast_out :: "string \<Rightarrow> message \<Rightarrow> string option \<Rightarrow> hub \<Rightarrow> outgoing list" where
  "broadcast_out rid m except_user_id h =
    (case mgr_find (h_rooms h) rid of
       None \<Rightarrow> []
     | Some r \<Rightarrow> concat (map (\<lambda>p. if except_user_id = Some (p_id p) then []
         else (case connection_of_user h (p_id p) of None \<Rightarrow> []
               | Some c \<Rightarrow> [\<lparr>o_connection = c, o_message = m\<rparr>])) (rm_participants r)))"

lemma send_eq: "send c m h = h\<lparr>h_out := h_out h @ [\<lparr>o_connection = c, o_message = m\<rparr>]\<rparr>"
  by (simp add: send_def)

lemma connection_of_user_out [simp]: "connection_of_user (h\<lparr>h_out := x\<rparr>) u = connection_of_user h u"
  by (simp add: connection_of_user_def)

lemma broadcast_eq: "broadcast rid m exc h = h\<lparr>h_out := h_out h @ broadcast_out rid m exc h\<rparr>"
proof -
  have "fold (\<lambda>p g. if exc = Some (p_id p) then g
        else (case connection_of_user g (p_id p) of None \<Rightarrow> g | Some c \<Rightarrow> send c m g)) ps
        (h\<lparr>h_out := out\<rparr>)
      = h\<lparr>h_out := out @ concat (map (\<lambda>p. if exc = Some (p_id p) then []
         else (case connection_of_user h (p_id p) of None \<Rightarrow> []
               | Some c \<Rightarrow> [\<lparr>o_connection = c, o_message = m\<rparr>])) ps)\<rparr>" for ps out
    by (induction ps arbitrary: out) (auto simp: send_eq split: option.split)
  from this [where out = "h_out h"] show ?thesis
    by (simp add: broadcast_def broadcast_out_def split: option.split)
qed

lemma broadcast_room_list_eq: "broadcast_room_list h
    = h\<lparr>h_out := h_out h @ map (\<lambda>(_, c). \<lparr>o_connection = c, o_message = room_list h\<rparr>)
        (h_user_to_connection h)\<rparr>"
proof -
  have "fold (\<lambda>(_, c). send c m) ps (h\<lparr>h_out := out\<rparr>)
      = h\<lparr>h_out := out @ map (\<lambda>(_, c). \<lparr>o_connection = c, o_message = m\<rparr>) ps\<rparr>" for m out and ps :: "('b \<times> nat) list"
    by (induction ps arbitrary: out) (auto simp: send_eq)
  from this [of "room_list h" "h_user_to_connection h" "h_out h"] show ?thesis
    by (simp add: broadcast_room_list_def Let_def)
qed

text \<open>The hub without what it reports: the messages, the calls on the media layer, the log and the
  fault. Two hubs with one blank are the same but for that.\<close>

definition blank :: "hub \<Rightarrow> hub" where
  "blank h = h\<lparr>h_out := [], h_media := [], h_audit := empty_audit_log, h_fault := None\<rparr>"

lemma blankD:
  assumes "blank h' = blank h"
  shows "h_auth h' = h_auth h \<and> h_rooms h' = h_rooms h \<and> h_notices h' = h_notices h
    \<and> h_sessions h' = h_sessions h \<and> h_connections h' = h_connections h
    \<and> h_user_to_connection h' = h_user_to_connection h \<and> h_has_media h' = h_has_media h
    \<and> h_heartbeat_interval h' = h_heartbeat_interval h
    \<and> h_heartbeat_timeout h' = h_heartbeat_timeout h"
  using assms by (cases h; cases h') (simp add: blank_def)

lemma blank_report [simp]:
  "blank (h\<lparr>h_out := a\<rparr>) = blank h" "blank (h\<lparr>h_media := b\<rparr>) = blank h"
  "blank (h\<lparr>h_audit := d\<rparr>) = blank h" "blank (h\<lparr>h_fault := e\<rparr>) = blank h"
  by (simp_all add: blank_def)

lemma blank_reports [simp]:
  "blank (send c m h) = blank h" "blank (reply_error c e h) = blank h"
  "blank (err code msg c h) = blank h" "blank (room_not_found rid c h) = blank h"
  "blank (mismatch field c h) = blank h" "blank (throw_hub what h) = blank h"
  "blank (tell_media call h) = blank h" "blank (broadcast rid m exc h) = blank h"
  "blank (broadcast_room_list h) = blank h" "blank (record_entry E u act t r d h) = blank h"
  "blank (announce_departure rid uid w h) = blank h"
  by (simp_all add: send_eq reply_error_def err_def room_not_found_def mismatch_def throw_hub_def
      tell_media_def broadcast_eq broadcast_room_list_eq record_entry_def announce_departure_def Let_def)

lemmas report_frames [simp] = blank_reports [THEN blankD]

section \<open>The views\<close>

definition conn_uid :: "hub \<Rightarrow> nat \<Rightarrow> string option" where
  "conn_uid h c = map_option u_id (conn_user h c)"

definition seat :: "hub \<Rightarrow> string \<Rightarrow> string option" where
  "seat h uid = room_of (h_rooms h) uid"

definition token_owners :: "hub \<Rightarrow> string set" where
  "token_owners h = (\<lambda>(_, t). tk_user_id t) ` set (at_tokens (h_auth h))"

text \<open>What the views are after a report.\<close>

lemma views_blank:
  assumes "blank h' = blank h"
  shows "conn_user h' = conn_user h \<and> conn_uid h' = conn_uid h
    \<and> find_connection h' = find_connection h
    \<and> connection_of_user h' = connection_of_user h \<and> seat h' = seat h
    \<and> token_owners h' = token_owners h"
  using blankD [OF assms]
  by (simp add: fun_eq_iff conn_uid_def conn_user_def find_connection_def connection_of_user_def
      seat_def token_owners_def)

lemmas report_views [simp] = blank_reports [THEN views_blank]

text \<open>An operation is quiet when the views stay, tokens can only go, and the rooms stay good.\<close>

definition quiet :: "hub \<Rightarrow> hub \<Rightarrow> bool" where
  "quiet h h' \<longleftrightarrow> conn_uid h' = conn_uid h \<and> connection_of_user h' = connection_of_user h
     \<and> seat h' = seat h \<and> hub_users h' = hub_users h \<and> token_owners h' \<subseteq> token_owners h
     \<and> (mgr_good (h_rooms h) \<longrightarrow> mgr_good (h_rooms h'))"

lemma quiet_refl [simp]: "quiet h h"
  by (simp add: quiet_def)

lemma quiet_trans [trans]: "quiet a b \<Longrightarrow> quiet b c \<Longrightarrow> quiet a c"
  unfolding quiet_def by auto

lemma quiet_blank: "blank h' = blank h \<Longrightarrow> quiet h h'"
  using blankD [of h' h] views_blank [of h' h] by (simp add: quiet_def)

lemma quiet_report:
  "quiet g h \<Longrightarrow> blank h' = blank h \<Longrightarrow> quiet g h'"
  using quiet_blank quiet_trans by blast

lemma quiet_blank_iff: "blank h' = blank h \<Longrightarrow> quiet g h' = quiet g h"
  using quiet_report by metis

lemmas quiet_reports [simp] = blank_reports [THEN quiet_blank_iff]

text \<open>Through the branches of a handler.\<close>

lemma quiet_if: "quiet h A \<Longrightarrow> quiet h B \<Longrightarrow> quiet h (if b then A else B)"
  and quiet_option: "quiet h A \<Longrightarrow> (\<And>x. quiet h (F x)) \<Longrightarrow> quiet h (case y of None \<Rightarrow> A | Some x \<Rightarrow> F x)"
  and quiet_sum: "(\<And>x. quiet h (G x)) \<Longrightarrow> (\<And>x. quiet h (F x)) \<Longrightarrow> quiet h (case z of Inl x \<Rightarrow> G x | Inr x \<Rightarrow> F x)"
  by (auto split: option.split sum.split)

lemma quiet_pair: "(\<And>x y. quiet h (F x y)) \<Longrightarrow> quiet h (case p of (x, y) \<Rightarrow> F x y)"
  by (simp split: prod.split)

lemmas quiet_branches = quiet_if quiet_option quiet_sum quiet_pair

lemma find_upd_connection [simp]:
  "find_connection (upd_connection c f h) d
     = (if d = c then map_option f (find_connection h c) else find_connection h d)"
  by (simp add: find_connection_def upd_connection_def)

lemma upd_connection_frame [simp]:
  "h_auth (upd_connection c f h) = h_auth h" "h_rooms (upd_connection c f h) = h_rooms h"
  "h_notices (upd_connection c f h) = h_notices h" "h_sessions (upd_connection c f h) = h_sessions h"
  "h_audit (upd_connection c f h) = h_audit h" "h_out (upd_connection c f h) = h_out h"
  "h_media (upd_connection c f h) = h_media h" "h_fault (upd_connection c f h) = h_fault h"
  "h_has_media (upd_connection c f h) = h_has_media h"
  "h_user_to_connection (upd_connection c f h) = h_user_to_connection h"
  "connection_of_user (upd_connection c f h) = connection_of_user h"
  "seat (upd_connection c f h) = seat h" "token_owners (upd_connection c f h) = token_owners h"
  by (simp_all add: upd_connection_def connection_of_user_def seat_def token_owners_def fun_eq_iff)

lemma quiet_upd_connection:
  assumes "\<And>s. map_option u_id (cn_user (f s)) = map_option u_id (cn_user s)"
  shows "quiet h (upd_connection c f h)"
  using assms
  by (auto simp: quiet_def fun_eq_iff conn_uid_def conn_user_def split: option.split)

lemma quiet_rooms:
  assumes "\<And>i. room_of M i = room_of (h_rooms h) i" and "mgr_good (h_rooms h) \<Longrightarrow> mgr_good M"
  shows "quiet h (h\<lparr>h_rooms := M\<rparr>)"
  using assms by (auto simp: quiet_def fun_eq_iff conn_uid_def conn_user_def find_connection_def
      connection_of_user_def seat_def token_owners_def)

lemma quiet_other_stores [simp]:
  "quiet h (h\<lparr>h_sessions := a\<rparr>)" "quiet h (h\<lparr>h_notices := b\<rparr>)"
  by (auto simp: quiet_def fun_eq_iff conn_uid_def conn_user_def find_connection_def
      connection_of_user_def seat_def token_owners_def)

lemma mgr_good_chat [simp]: "mgr_good (M\<lparr>mgr_chat := x\<rparr>) = mgr_good M"
  by (cases "mgr_store M") (simp_all add: mgr_good_def mgr_wf_def synced_def)

lemma quiet_chat [simp]: "quiet h (set_hub_chat s h)"
  unfolding set_hub_chat_def by (rule quiet_rooms) (simp_all add: room_of_def)

section \<open>The handlers that are quiet\<close>

lemma with_user_quiet:
  "(\<And>u. conn_user h c = Some u \<Longrightarrow> quiet h (k u)) \<Longrightarrow> quiet h (with_user c h k)"
  by (auto simp: with_user_def quiet_blank split: option.split)

lemma quiet_upd_user [simp]: "(\<And>u. u_id (f u) = u_id u) \<Longrightarrow> quiet h (upd_user c f h)"
  unfolding upd_user_def
  by (rule quiet_upd_connection) (simp add: option.map_comp comp_def)

lemma quiet_rooms_op:
  assumes "op (h_rooms h) = (r, M)" and "\<And>N i. room_of (snd (op N)) i = room_of N i"
    and "\<And>N. mgr_good N \<Longrightarrow> mgr_good (snd (op N))"
  shows "quiet h (h\<lparr>h_rooms := M\<rparr>)"
proof -
  have "M = snd (op (h_rooms h))" using assms(1) by simp
  then show ?thesis using assms(2,3) by (auto intro!: quiet_rooms)
qed

lemma room_ops_good:
  "mgr_good N \<Longrightarrow> mgr_good (snd (set_muted rid uid m b N))"
  "mgr_good N \<Longrightarrow> mgr_good (snd (start_screen_share rid uid a N))"
  "mgr_good N \<Longrightarrow> mgr_good (snd (stop_screen_share rid uid N))"
  "mgr_good N \<Longrightarrow> mgr_good (snd (set_capacity w rid c N))"
  "mgr_good N \<Longrightarrow> mgr_good (snd (create_room D w name owner c N))"
  "mgr_good N \<Longrightarrow> mgr_good (snd (join rid u N))"
  "mgr_good N \<Longrightarrow> mgr_good (snd (leave rid uid N))"
  "mgr_good N \<Longrightarrow> mgr_good (snd (remove_from_any_room uid N))"
  "mgr_good N \<Longrightarrow> mgr_good (snd (remove_room rid N))"
  by (simp_all add: mgr_good_def inv_intros)

lemma quiet_handle_create_room: "quiet h (handle_create_room E c uid name cap h)"
  unfolding handle_create_room_def
proof (rule with_user_quiet, goal_cases)
  case (1 u)
  obtain r M where op: "create_room (e_digits E) (e_wall E) name (u_id u) cap (h_rooms h) = (r, M)"
    by fastforce
  note [simp] = quiet_rooms_op [OF op room_of_create_room room_ops_good(5)]
  show ?case unfolding op Let_def prod.case by (intro quiet_branches) simp_all
qed

lemma quiet_handle_mute: "quiet h (handle_mute c rid uid m h)"
  unfolding handle_mute_def
proof (rule with_user_quiet, goal_cases)
  case (1 u)
  obtain r M where op: "set_muted rid uid m False (h_rooms h) = (r, M)" by fastforce
  note [simp] = quiet_rooms_op [OF op participant_ops_room_of(1) room_ops_good(1)]
  show ?case unfolding op Let_def prod.case by (intro quiet_branches) simp_all
qed

lemma quiet_handle_screen_share: "quiet h (handle_screen_share c rid uid sharing a h)"
  unfolding handle_screen_share_def
proof (rule with_user_quiet, goal_cases)
  case (1 u)
  let ?op = "if sharing then start_screen_share rid uid a else stop_screen_share rid uid"
  obtain r M where op: "?op (h_rooms h) = (r, M)" by fastforce
  then have op': "(if sharing then start_screen_share rid uid a (h_rooms h)
                else stop_screen_share rid uid (h_rooms h)) = (r, M)"
    by (simp split: if_splits)
  have [simp]: "quiet h (h\<lparr>h_rooms := M\<rparr>)"
    by (rule quiet_rooms_op [where op = ?op, OF op]) (simp_all add: room_ops_good)
  show ?case unfolding op' Let_def prod.case by (intro quiet_branches) simp_all
qed

lemma quiet_handle_relay: "quiet h (handle_relay c m rid f t h)"
  unfolding handle_relay_def
  by (rule with_user_quiet, intro quiet_branches) simp_all

lemma quiet_handle_chat: "quiet h (handle_chat E c m h)"
  unfolding handle_chat_def Let_def
  by (rule with_user_quiet, intro quiet_branches) simp_all

lemma quiet_handle_list_chat: "quiet h (handle_list_chat c rid n h)"
  unfolding handle_list_chat_def
  by (rule with_user_quiet, intro quiet_branches) simp_all

lemma quiet_handle_nudge: "quiet h (handle_nudge c rid f t now h)"
proof -
  have [simp]: "quiet h (upd_connection c (\<lambda>s. s\<lparr>cn_last_nudge := x\<rparr>) h)" for x
    by (rule quiet_upd_connection) simp
  show ?thesis
    unfolding handle_nudge_def Let_def
    by (rule with_user_quiet, intro quiet_branches) (simp_all split: option.split)
qed

lemma quiet_handle_acknowledge_notice: "quiet h (handle_acknowledge_notice E c nid h)"
  unfolding handle_acknowledge_notice_def Let_def
  by (rule with_user_quiet, intro quiet_branches) simp_all

lemma quiet_hand_over: "quiet h (hand_over_notice c n h)"
proof -
  have [simp]: "quiet h (upd_connection c (\<lambda>s. s\<lparr>cn_delivered := nt_id n # cn_delivered s\<rparr>) h)"
    by (rule quiet_upd_connection) simp
  show ?thesis unfolding hand_over_notice_def by (intro quiet_branches) simp_all
qed

lemma quiet_fold: "(\<And>x g. x \<in> set xs \<Longrightarrow> quiet g (f x g)) \<Longrightarrow> quiet h (fold f xs h)"
proof (induction xs arbitrary: h)
  case (Cons x xs)
  have "quiet h (f x h)" using Cons.prems by simp
  moreover have "quiet (f x h) (fold f xs (f x h))" using Cons by simp
  ultimately show ?case using quiet_trans by simp
qed simp

lemma quiet_deliver_pending: "quiet h (deliver_pending_notices c h)"
  unfolding deliver_pending_notices_def
  by (intro quiet_branches quiet_fold quiet_hand_over) simp

lemma quiet_deliver_elsewhere: "quiet h (deliver_notices_written_elsewhere h)"
  unfolding deliver_notices_written_elsewhere_def by (intro quiet_fold quiet_deliver_pending)

lemma quiet_handle_send_notice: "quiet h (handle_send_notice E c uid text h)"
proof -
  have [simp]: "quiet h (hand_over_notice t n (h\<lparr>h_notices := s\<rparr>))" for t n s
    by (rule quiet_trans [OF quiet_other_stores(2) quiet_hand_over])
  have [simp]: "quiet h (case x of None \<Rightarrow> h\<lparr>h_notices := s\<rparr> | Some t \<Rightarrow> hand_over_notice t n (h\<lparr>h_notices := s\<rparr>))"
    for x n s by (intro quiet_branches) simp_all
  show ?thesis
    unfolding handle_send_notice_def Let_def
    by (rule with_user_quiet, intro quiet_if quiet_option quiet_sum quiet_pair) (simp_all split: if_split)
qed

lemma quiet_handle_force_mute: "quiet h (handle_force_mute E c rid uid m h)"
  unfolding handle_force_mute_def
proof (rule with_user_quiet, goal_cases)
  case (1 u)
  obtain r M where op: "set_muted rid uid m True (h_rooms h) = (r, M)" by fastforce
  note [simp] = quiet_rooms_op [OF op participant_ops_room_of(1) room_ops_good(1)]
  show ?case unfolding op Let_def prod.case by (intro quiet_branches) simp_all
qed

lemma quiet_handle_update_room: "quiet h (handle_update_room E c rid cap h)"
  unfolding handle_update_room_def
proof (rule with_user_quiet, goal_cases)
  case (1 u)
  obtain r M where op: "set_capacity (e_wall E) rid cap (h_rooms h) = (r, M)" by fastforce
  note [simp] = quiet_rooms_op [OF op room_of_set_capacity room_ops_good(4)]
  show ?case unfolding op Let_def prod.case by (intro quiet_branches) simp_all
qed

lemma quiet_open_session: "quiet h (open_session E c h)"
proof -
  have [simp]: "quiet h (upd_connection c (\<lambda>s. s\<lparr>cn_session_id := x\<rparr>) (h\<lparr>h_sessions := y\<rparr>))" for x y
    by (rule quiet_trans [OF quiet_other_stores(1) quiet_upd_connection]) simp
  show ?thesis unfolding open_session_def by (intro quiet_branches) simp_all
qed

lemma quiet_close_session: "quiet h (close_session E c h)"
proof -
  have [simp]: "quiet h ((upd_connection c (\<lambda>s. s\<lparr>cn_session_id := []\<rparr>) h)\<lparr>h_sessions := y\<rparr>)" for y
    by (rule quiet_trans [OF quiet_upd_connection quiet_other_stores(1)]) simp
  show ?thesis unfolding close_session_def Let_def by (intro quiet_branches) simp_all
qed

lemma quiet_tick_connection: "quiet h (fst (tick_connection now c (h, t, a)))"
proof -
  have [simp]: "quiet h (upd_connection c (\<lambda>s. s\<lparr>cn_last_ping := now\<rparr>) h)"
    by (rule quiet_upd_connection) simp
  show ?thesis by (simp add: tick_connection_def Let_def split: option.split)
qed

end
