(* ===== verification/HubSafety.thy ===== *)
theory HubSafety
  imports HubFrames
begin

text \<open>
  The invariant of the hub, and that every entry point keeps it: who is signed in is on the
  connection the index names, who is in a room is signed in, nobody signed in, seated or holding a
  token is banned or deleted, and an administrator who is not banned is always left.
\<close>

section \<open>Accounts in good standing\<close>

definition standing :: "user_store \<Rightarrow> string \<Rightarrow> bool" where
  "standing us uid \<longleftrightarrow> (case users_find_by_id us uid of None \<Rightarrow> False
     | Some a \<Rightarrow> \<not> r_banned (u_restrictions (ac_user a)))"

definition active_admin :: "account \<Rightarrow> bool" where
  "active_admin a \<longleftrightarrow> ac_role a = Admin \<and> \<not> r_banned (u_restrictions (ac_user a))"

definition accounts_ok :: "user_store \<Rightarrow> bool" where
  "accounts_ok us \<longleftrightarrow> users_wf us \<and> list_ex active_admin us"

definition users_keep :: "user_store \<Rightarrow> user_store \<Rightarrow> bool" where
  "users_keep us us' \<longleftrightarrow> (accounts_ok us \<longrightarrow> accounts_ok us')
     \<and> (\<forall>v. standing us v \<longrightarrow> standing us' v)"

lemma users_keep_refl [simp]: "users_keep us us"
  by (simp add: users_keep_def)

lemma users_keep_trans: "users_keep a b \<Longrightarrow> users_keep b c \<Longrightarrow> users_keep a c"
  by (auto simp: users_keep_def)

lemma find_by_id_mem:
  assumes "users_wf us" and "a \<in> set us"
  shows "users_find_by_id us (ac_id a) = Some a"
  unfolding users_find_by_id_def
  by (rule find_distinct_key) (use assms in \<open>auto simp: users_wf_def\<close>)

lemma find_by_id_in: "users_find_by_id us i = Some a \<Longrightarrow> a \<in> set us \<and> ac_id a = i"
  unfolding users_find_by_id_def by (rule find_Some_key)

lemma find_by_username_id:
  assumes "users_wf us" and "users_find_by_username us n = Some a"
  shows "users_find_by_id us (ac_id a) = Some a"
  using assms find_Some_key [of ac_username n us a]
  by (intro find_by_id_mem) (auto simp: users_find_by_username_def)

lemma active_admin_find:
  assumes "users_wf us"
  shows "list_ex active_admin us \<longleftrightarrow> (\<exists>i a. users_find_by_id us i = Some a \<and> active_admin a)"
  using find_by_id_mem [OF assms] find_by_id_in by (fastforce simp: list_ex_iff)

lemma accounts_okI:
  assumes "users_wf us" and "users_find_by_id us i = Some a" and "active_admin a"
  shows "accounts_ok us"
  using assms by (auto simp: accounts_ok_def active_admin_find)

lemma standing_update_other:
  "v \<noteq> ac_id a \<Longrightarrow> standing (snd (users_update a us)) v = standing us v"
  by (simp add: standing_def mem_users.update_other)

lemma standing_update_same:
  "users_find_by_id us (ac_id a) = Some b \<Longrightarrow>
     standing (snd (users_update a us)) (ac_id a) \<longleftrightarrow> \<not> r_banned (u_restrictions (ac_user a))"
  using mem_users.update_same [of us a b] by (simp add: standing_def)

lemma accounts_ok_update:
  assumes ok: "accounts_ok us" and b: "users_find_by_id us (ac_id a) = Some b"
    and n: "ac_username a = ac_username b"
    and adm: "active_admin a \<or> \<not> active_admin b
      \<or> (\<exists>i d. i \<noteq> ac_id a \<and> users_find_by_id us i = Some d \<and> active_admin d)"
  shows "accounts_ok (snd (users_update a us))"
proof -
  let ?us = "snd (users_update a us)"
  have wf: "users_wf us" using ok by (simp add: accounts_ok_def)
  have wf': "users_wf ?us" by (rule users_wf_update [OF wf]) (use b n in simp)
  have a': "users_find_by_id ?us (ac_id a) = Some (a\<lparr>ac_created_at := ac_created_at b\<rparr>)"
    using mem_users.update_same [OF b] by simp
  have other: "users_find_by_id ?us i = users_find_by_id us i" if "i \<noteq> ac_id a" for i
    using mem_users.update_other [OF that] .
  have "\<exists>i d. users_find_by_id ?us i = Some d \<and> active_admin d"
  proof (cases "active_admin a")
    case True
    then have "active_admin (a\<lparr>ac_created_at := ac_created_at b\<rparr>)"
      by (simp add: active_admin_def ac_role_def)
    with a' show ?thesis by blast
  next
    case False
    obtain i d where d: "users_find_by_id us i = Some d" "active_admin d" "i \<noteq> ac_id a"
    proof -
      consider "\<not> active_admin b"
        | "\<exists>i d. i \<noteq> ac_id a \<and> users_find_by_id us i = Some d \<and> active_admin d"
        using adm False by blast
      then show ?thesis
      proof cases
        case 1
        obtain i d where "users_find_by_id us i = Some d" "active_admin d"
          using ok wf active_admin_find by (auto simp: accounts_ok_def)
        with 1 b show ?thesis by (intro that [of i d]) auto
      next
        case 2
        then show ?thesis using that by blast
      qed
    qed
    with other show ?thesis by metis
  qed
  with wf' show ?thesis using accounts_okI by blast
qed

lemma users_keep_update:
  assumes b: "users_find_by_id us (ac_id a) = Some b"
    and n: "ac_username a = ac_username b"
    and r: "\<not> r_banned (u_restrictions (ac_user b)) \<Longrightarrow> \<not> r_banned (u_restrictions (ac_user a))"
    and adm: "active_admin a \<or> \<not> active_admin b
      \<or> (\<exists>i d. i \<noteq> ac_id a \<and> users_find_by_id us i = Some d \<and> active_admin d)"
  shows "users_keep us (snd (users_update a us))"
proof -
  have "standing us v \<Longrightarrow> standing (snd (users_update a us)) v" for v
    using standing_update_other [of v a us] standing_update_same [OF b] b r
    by (cases "v = ac_id a") (auto simp: standing_def)
  with accounts_ok_update [OF _ b n adm] show ?thesis by (simp add: users_keep_def)
qed

lemma users_keep_same:
  assumes "users_find_by_id us uid = Some b" and "ac_user a = ac_user b"
    and "ac_username a = ac_username b"
  shows "users_keep us (snd (users_update a us))"
proof (rule users_keep_update)
  have "ac_id a = uid" using mem_users.by_id_id [OF assms(1)] assms(2) by (simp add: ac_id_def)
  then show "users_find_by_id us (ac_id a) = Some b" using assms(1) by simp
  show "active_admin a \<or> \<not> active_admin b
      \<or> (\<exists>i d. i \<noteq> ac_id a \<and> users_find_by_id us i = Some d \<and> active_admin d)"
    using assms(2) by (simp add: active_admin_def ac_role_def)
qed (use assms in simp_all)

lemma users_keep_create:
  assumes "users_find_by_id us (ac_id a) = None"
  shows "users_keep us (snd (users_create w a us))"
proof -
  have "accounts_ok us \<Longrightarrow> accounts_ok (snd (users_create w a us))"
    using users_wf_create [OF _ assms] by (auto simp: accounts_ok_def users_create_def Let_def)
  moreover have "standing us v \<Longrightarrow> standing (snd (users_create w a us)) v" for v
    using mem_users.create_id_kept [of us v] by (auto simp: standing_def split: option.splits)
  ultimately show ?thesis by (simp add: users_keep_def)
qed

section \<open>The invariant\<close>

definition core_ok :: "user_store \<Rightarrow> (nat \<Rightarrow> string option) \<Rightarrow> (string \<Rightarrow> nat option)
    \<Rightarrow> (string \<Rightarrow> string option) \<Rightarrow> string set \<Rightarrow> bool" where
  "core_ok us cu uc ro tk \<longleftrightarrow>
     (\<forall>c uid. cu c = Some uid \<longrightarrow> uc uid = Some c \<and> standing us uid)
   \<and> (\<forall>uid. ro uid \<noteq> None \<longrightarrow> uc uid \<noteq> None \<and> standing us uid)
   \<and> (\<forall>uid \<in> tk. standing us uid)"

definition hub_safe :: "hub \<Rightarrow> bool" where
  "hub_safe h \<longleftrightarrow> mgr_good (h_rooms h) \<and> accounts_ok (hub_users h)
     \<and> core_ok (hub_users h) (conn_uid h) (connection_of_user h) (seat h) (token_owners h)"

text \<open>An operation is calm when it can only take things away and the accounts keep their standing.\<close>

definition calm :: "hub \<Rightarrow> hub \<Rightarrow> bool" where
  "calm h h' \<longleftrightarrow> (\<forall>c v. conn_uid h' c = Some v \<longrightarrow> conn_uid h c = Some v)
     \<and> connection_of_user h' = connection_of_user h
     \<and> (\<forall>v. seat h' v \<noteq> None \<longrightarrow> seat h v \<noteq> None)
     \<and> users_keep (hub_users h) (hub_users h') \<and> token_owners h' \<subseteq> token_owners h
     \<and> (mgr_good (h_rooms h) \<longrightarrow> mgr_good (h_rooms h'))"

lemma quiet_calm: "quiet h h' \<Longrightarrow> calm h h'"
  by (simp add: quiet_def calm_def)

lemma calm_trans: "calm a b \<Longrightarrow> calm b c \<Longrightarrow> calm a c"
  unfolding calm_def using users_keep_trans by (metis subset_trans)

lemma calm_quiet: "calm a b \<Longrightarrow> quiet b c \<Longrightarrow> calm a c"
  using calm_trans quiet_calm by blast

lemma safe_calm:
  assumes "hub_safe h" and "calm h h'"
  shows "hub_safe h'"
  using assms unfolding hub_safe_def calm_def core_ok_def users_keep_def
  by (intro conjI allI impI ballI) (blast | metis subsetD)+

lemma safe_quiet: "hub_safe h \<Longrightarrow> quiet h h' \<Longrightarrow> hub_safe h'"
  using safe_calm quiet_calm by blast

section \<open>Leaving rooms and losing a session\<close>

lemma rooms_views:
  "conn_uid (h\<lparr>h_rooms := M\<rparr>) = conn_uid h" "connection_of_user (h\<lparr>h_rooms := M\<rparr>) = connection_of_user h"
  "token_owners (h\<lparr>h_rooms := M\<rparr>) = token_owners h" "seat (h\<lparr>h_rooms := M\<rparr>) = room_of M"
  by (simp_all add: fun_eq_iff conn_uid_def conn_user_def find_connection_def connection_of_user_def
      token_owners_def seat_def)

text \<open>The manager after \<open>evict\<close>; the rest of it is quiet.\<close>

lemma quiet_evict: "quiet (h\<lparr>h_rooms := snd (leave rid uid (h_rooms h))\<rparr>) (evict rid uid reason h)"
proof -
  let ?M = "snd (leave rid uid (h_rooms h))"
  let ?b = "broadcast rid (UserKicked rid uid reason) None h"
  have b: "quiet (h\<lparr>h_rooms := ?M\<rparr>) (?b\<lparr>h_rooms := snd (leave rid uid (h_rooms ?b))\<rparr>)"
    by (rule quiet_blank) (simp add: blank_def broadcast_eq)
  have c: "quiet g (upd_connection k (\<lambda>s. s\<lparr>cn_room_id := None\<rparr>) g)" for g k
    by (rule quiet_upd_connection) simp
  have opt: "quiet g (case x of None \<Rightarrow> g | Some k \<Rightarrow> upd_connection k (\<lambda>s. s\<lparr>cn_room_id := None\<rparr>) g)"
    for g x by (cases x) (simp_all add: c)
  have "quiet (h\<lparr>h_rooms := ?M\<rparr>) (tell_media m (broadcast_room_list (broadcast r3 m3 e3
      (if w then broadcast r2 m2 e2 (?b\<lparr>h_rooms := snd (leave rid uid (h_rooms ?b))\<rparr>)
       else ?b\<lparr>h_rooms := snd (leave rid uid (h_rooms ?b))\<rparr>))))" for m r2 m2 e2 r3 m3 e3 w
    using b by (simp split: if_split)
  then show ?thesis unfolding evict_def Let_def by (rule quiet_trans [OF _ opt])
qed

lemma evict_frame:
  assumes "mgr_good (h_rooms h)"
  shows "conn_uid (evict rid uid reason h) = conn_uid h
    \<and> connection_of_user (evict rid uid reason h) = connection_of_user h
    \<and> hub_users (evict rid uid reason h) = hub_users h
    \<and> token_owners (evict rid uid reason h) \<subseteq> token_owners h
    \<and> mgr_good (h_rooms (evict rid uid reason h))
    \<and> (\<forall>i. seat (evict rid uid reason h) i = (if i = uid \<and> seat h uid = Some rid then None else seat h i))"
proof -
  let ?M = "snd (leave rid uid (h_rooms h))"
  have wf: "mgr_wf (h_rooms h)" using assms by (simp add: mgr_good_def)
  have "room_of ?M i = (if i = uid \<and> seat h uid = Some rid then None else seat h i)" for i
  proof (cases "seat h uid = Some rid")
    case True
    then have "fst (leave rid uid (h_rooms h)) = None" using leave_own_room [OF wf] by (simp add: seat_def)
    then show ?thesis using True by (simp add: room_of_leave seat_def)
  next
    case False
    then have "fst (leave rid uid (h_rooms h)) \<noteq> None"
      using wf by (auto simp: seat_def room_of_contains leave_def mgr_find_def room_contains_def
          split: option.splits)
    then show ?thesis using False by (auto simp: room_of_leave seat_def)
  qed
  then show ?thesis
    using quiet_evict [where h = h and rid = rid and uid = uid and reason = reason] room_ops_good(7) [OF assms, of rid uid]
    by (simp add: quiet_def rooms_views)
qed

lemma calm_evict: "mgr_good (h_rooms h) \<Longrightarrow> calm h (evict rid uid reason h)"
  using evict_frame [where h = h and rid = rid and uid = uid and reason = reason] by (simp add: calm_def)

text \<open>What \<open>end_session_of\<close> leaves of an account.\<close>

definition ended :: "string \<Rightarrow> hub \<Rightarrow> hub \<Rightarrow> bool" where
  "ended uid h h' \<longleftrightarrow>
     conn_uid h' = (\<lambda>c. if connection_of_user h uid = Some c then None else conn_uid h c)
   \<and> connection_of_user h' = (connection_of_user h)(uid := None)
   \<and> (\<forall>i. seat h' i = (if i = uid then None else seat h i))
   \<and> hub_users h' = hub_users h \<and> token_owners h' \<subseteq> token_owners h - {uid}
   \<and> mgr_good (h_rooms h')"

lemma conn_uid_drop: "conn_uid (drop_identity c h) d = (if d = c then None else conn_uid h d)"
  by (simp add: drop_identity_def conn_uid_def conn_user_def split: option.split)

lemma drop_identity_frame [simp]:
  "connection_of_user (drop_identity c h) = connection_of_user h" "seat (drop_identity c h) = seat h"
  "h_auth (drop_identity c h) = h_auth h" "h_rooms (drop_identity c h) = h_rooms h"
  "token_owners (drop_identity c h) = token_owners h" "h_user_to_connection (drop_identity c h) = h_user_to_connection h"
  "h_notices (drop_identity c h) = h_notices h"
  by (simp_all add: drop_identity_def)

lemma close_session_frame [simp]:
  "h_auth (close_session E c h) = h_auth h" "h_rooms (close_session E c h) = h_rooms h"
  "h_user_to_connection (close_session E c h) = h_user_to_connection h"
  "h_notices (close_session E c h) = h_notices h" "h_fault (close_session E c h) = h_fault h"
  by (simp_all add: close_session_def Let_def split: option.split)

lemma ended_end_session_of:
  assumes good: "mgr_good (h_rooms h)"
  shows "ended uid h (end_session_of E uid reason h)"
proof -
  define h1 where "h1 = (case connection_of_user h uid of None \<Rightarrow> h | Some c \<Rightarrow> send c (SessionEnded reason) h)"
  define h2 where "h2 = (case room_of (h_rooms h1) uid of None \<Rightarrow> h1 | Some rid \<Rightarrow> evict rid uid reason h1)"
  define h3 where "h3 = h2\<lparr>h_auth := revoke_tokens_of uid (h_auth h2)\<rparr>"
  have 1: "quiet h h1" unfolding h1_def by (intro quiet_branches) simp_all
  then have good1: "mgr_good (h_rooms h1)" using good by (simp add: quiet_def)
  have 2: "conn_uid h2 = conn_uid h1 \<and> connection_of_user h2 = connection_of_user h1
      \<and> hub_users h2 = hub_users h1 \<and> token_owners h2 \<subseteq> token_owners h1 \<and> mgr_good (h_rooms h2)
      \<and> (\<forall>i. seat h2 i = (if i = uid then None else seat h1 i))"
    using evict_frame [OF good1] good1 by (auto simp: h2_def seat_def split: option.split)
  have 3: "conn_uid h3 = conn_uid h2" "connection_of_user h3 = connection_of_user h2" "seat h3 = seat h2"
      "hub_users h3 = hub_users h2" "token_owners h3 \<subseteq> token_owners h2 - {uid}" "h_rooms h3 = h_rooms h2"
      "h_connections h3 = h_connections h2"
    by (auto simp: h3_def fun_eq_iff conn_uid_def conn_user_def find_connection_def
        connection_of_user_def seat_def token_owners_def revoke_tokens_of_def)
  have e: "end_session_of E uid reason h = (case connection_of_user h3 uid of None \<Rightarrow> h3
        | Some c \<Rightarrow> (let g = (if find_connection h3 c = None then h3 else drop_identity c (close_session E c h3))
            in g\<lparr>h_user_to_connection := AList.delete uid (h_user_to_connection g)\<rparr>))"
    by (simp only: end_session_of_def Let_def h1_def h2_def h3_def)
  have same: "conn_uid h3 = conn_uid h" "connection_of_user h3 = connection_of_user h"
      "hub_users h3 = hub_users h" "token_owners h3 \<subseteq> token_owners h - {uid}" "mgr_good (h_rooms h3)"
      "\<And>i. seat h3 i = (if i = uid then None else seat h i)"
    using 1 2 3 by (auto simp: quiet_def)
  show ?thesis
  proof (cases "connection_of_user h uid")
    case None
    then show ?thesis using same by (auto simp: e ended_def fun_eq_iff)
  next
    case (Some c)
    define g where "g = (if find_connection h3 c = None then h3 else drop_identity c (close_session E c h3))"
    have q: "quiet h3 (close_session E c h3)" by (rule quiet_close_session)
    have g: "connection_of_user g = connection_of_user h3" "seat g = seat h3" "hub_users g = hub_users h3"
        "token_owners g \<subseteq> token_owners h3" "mgr_good (h_rooms g)"
      using q same(5) by (auto simp: g_def quiet_def)
    have gc: "conn_uid g d = (if d = c then None else conn_uid h3 d)" for d
    proof (cases "find_connection h3 c")
      case None
      then show ?thesis by (simp add: g_def) (simp add: conn_uid_def conn_user_def)
    next
      case (Some s)
      then have "g = drop_identity c (close_session E c h3)" by (simp add: g_def)
      then show ?thesis using q by (simp add: conn_uid_drop quiet_def)
    qed
    have h': "end_session_of E uid reason h
        = g\<lparr>h_user_to_connection := AList.delete uid (h_user_to_connection g)\<rparr>"
      using Some same(2) by (simp add: e g_def Let_def)
    have "connection_of_user (g\<lparr>h_user_to_connection := AList.delete uid (h_user_to_connection g)\<rparr>)
        = (connection_of_user g)(uid := None)"
      by (simp add: connection_of_user_def fun_eq_iff)
    moreover have "conn_uid (g\<lparr>h_user_to_connection := d\<rparr>) = conn_uid g"
      "seat (g\<lparr>h_user_to_connection := d\<rparr>) = seat g" "token_owners (g\<lparr>h_user_to_connection := d\<rparr>) = token_owners g" for d
      by (simp_all add: fun_eq_iff conn_uid_def conn_user_def find_connection_def seat_def token_owners_def)
    ultimately show ?thesis
      unfolding ended_def h' using g gc same Some by (auto simp: fun_eq_iff)
  qed
qed

text \<open>Ending a session keeps the invariant, even when the account lost its standing just before.\<close>

lemma safe_ended:
  assumes safe: "hub_safe h"
    and g: "conn_uid g = conn_uid h" "connection_of_user g = connection_of_user h" "seat g = seat h"
      "token_owners g \<subseteq> token_owners h"
    and us: "accounts_ok (hub_users g)"
      "\<And>v. v \<noteq> uid \<Longrightarrow> standing (hub_users h) v \<Longrightarrow> standing (hub_users g) v"
    and e: "ended uid g h'"
  shows "hub_safe h'"
proof -
  note c = safe [unfolded hub_safe_def core_ok_def]
  have cu: "connection_of_user h' v = Some d \<and> standing (hub_users h') v" if "conn_uid h' d = Some v" for d v
  proof -
    have "conn_uid h d = Some v" "connection_of_user h uid \<noteq> Some d"
      using that e g by (auto simp: ended_def split: if_splits)
    with c have "connection_of_user h v = Some d" "standing (hub_users h) v" by auto
    moreover from this \<open>connection_of_user h uid \<noteq> Some d\<close> have "v \<noteq> uid" by auto
    ultimately show ?thesis using e g us(2) by (simp add: ended_def)
  qed
  have ro: "connection_of_user h' v \<noteq> None \<and> standing (hub_users h') v" if "seat h' v \<noteq> None" for v
  proof -
    have "v \<noteq> uid" "seat h v \<noteq> None" using that e g by (auto simp: ended_def split: if_splits)
    with c e g us(2) show ?thesis by (auto simp: ended_def)
  qed
  have tk: "standing (hub_users h') v" if "v \<in> token_owners h'" for v
  proof -
    have "v \<in> token_owners h" "v \<noteq> uid" using that e g(4) by (auto simp: ended_def)
    then show ?thesis using c e us(2) by (auto simp: ended_def)
  qed
  show ?thesis
    using cu ro tk us(1) e unfolding hub_safe_def core_ok_def by (auto simp: ended_def)
qed

lemma safe_end_session_of: "hub_safe h \<Longrightarrow> hub_safe (end_session_of E uid reason h)"
  by (rule safe_ended [OF _ _ _ _ _ _ _ ended_end_session_of]) (auto simp: hub_safe_def)

section \<open>Room handlers\<close>

lemma with_user_safe:
  assumes "hub_safe h" and "\<And>u. conn_user h c = Some u \<Longrightarrow> hub_safe (k u)"
  shows "hub_safe (with_user c h k)"
  using assms safe_quiet [OF assms(1) quiet_blank] by (simp add: with_user_def split: option.split)

lemma safe_blank_iff:
  assumes "blank h' = blank h" shows "hub_safe h' = hub_safe h"
  using safe_quiet [OF _ quiet_blank [OF assms]] safe_quiet [OF _ quiet_blank [OF assms [symmetric]]]
  by blast

lemma safe_fresh: "hub_safe (h\<lparr>h_out := a, h_media := b, h_fault := f\<rparr>) = hub_safe h"
  by (rule safe_blank_iff) simp

lemmas safe_reports [simp] = blank_reports [THEN safe_blank_iff]

text \<open>Through the branches of a handler.\<close>

lemma safe_if: "hub_safe A \<Longrightarrow> hub_safe B \<Longrightarrow> hub_safe (if b then A else B)"
  and safe_option: "hub_safe A \<Longrightarrow> (\<And>x. y = Some x \<Longrightarrow> hub_safe (F x)) \<Longrightarrow>
    hub_safe (case y of None \<Rightarrow> A | Some x \<Rightarrow> F x)"
  by (auto split: option.split)

lemma safe_calm_rooms:
  assumes "hub_safe h" and "mgr_good M" and "\<And>v. room_of M v \<noteq> None \<Longrightarrow> seat h v \<noteq> None"
  shows "hub_safe (h\<lparr>h_rooms := M\<rparr>)"
  by (rule safe_calm [OF assms(1)]) (use assms in \<open>auto simp: calm_def rooms_views\<close>)

lemma safe_good: "hub_safe h \<Longrightarrow> mgr_good (h_rooms h)"
  by (simp add: hub_safe_def)

lemma safe_handle_leave_room: "hub_safe h \<Longrightarrow> hub_safe (handle_leave_room c rid uid h)"
  unfolding handle_leave_room_def
proof (rule with_user_safe, goal_cases)
  case (2 u)
  obtain r M where op: "leave rid uid (h_rooms h) = (r, M)" by fastforce
  then have M: "M = snd (leave rid uid (h_rooms h))" by simp
  have s: "hub_safe (h\<lparr>h_rooms := M\<rparr>)"
    unfolding M by (rule safe_calm_rooms [OF 2(1) room_ops_good(7) [OF safe_good [OF 2(1)]]])
      (simp add: room_of_leave seat_def split: if_splits)
  have "quiet g (upd_connection c (\<lambda>s. s\<lparr>cn_room_id := None\<rparr>) g)" for g
    by (rule quiet_upd_connection) simp
  from safe_quiet [OF s this] s 2 show ?case
    unfolding op Let_def prod.case by (auto split: option.split)
qed

lemma safe_evict: "hub_safe h \<Longrightarrow> hub_safe (evict rid uid reason h)"
  by (rule safe_calm [OF _ calm_evict [OF safe_good]])

lemma safe_fold: "(\<And>x g. hub_safe g \<Longrightarrow> hub_safe (f x g)) \<Longrightarrow> hub_safe h \<Longrightarrow> hub_safe (fold f xs h)"
  by (induction xs arbitrary: h) auto

lemma safe_handle_kick: "hub_safe h \<Longrightarrow> hub_safe (handle_kick E c rid uid reason h)"
  unfolding handle_kick_def
  by (rule with_user_safe) (auto intro!: safe_evict split: option.split)

lemma safe_handle_delete_room: "hub_safe h \<Longrightarrow> hub_safe (handle_delete_room E c rid h)"
  unfolding handle_delete_room_def
proof (rule with_user_safe, goal_cases)
  case (2 u)
  define occ where "occ = (case mgr_find (h_rooms h) rid of None \<Rightarrow> []
          | Some room \<Rightarrow> map p_id (rm_participants room))"
  define g where "g = fold (\<lambda>uid. evict rid uid kRoomClosed) occ h"
  have g: "hub_safe g" unfolding g_def using 2(1) by (intro safe_fold safe_evict)
  obtain r M where op: "remove_room rid (h_rooms g) = (r, M)" by fastforce
  then have M: "M = snd (remove_room rid (h_rooms g))" by simp
  have wf: "mgr_wf (h_rooms g)" using safe_good [OF g] by (simp add: mgr_good_def)
  have "hub_safe (g\<lparr>h_rooms := M\<rparr>)"
    unfolding M by (rule safe_calm_rooms [OF g room_ops_good(9) [OF safe_good [OF g]]])
      (simp add: room_of_remove_room [OF wf] seat_def split: if_splits)
  then show ?case
    unfolding Let_def occ_def [symmetric] g_def [symmetric] op prod.case
    by (simp split: sum.split list.split)
qed

lemma safe_seated:
  assumes "hub_safe h" and "mgr_good M" and "connection_of_user h uid \<noteq> None"
    and "standing (hub_users h) uid"
    and "\<And>v. v \<noteq> uid \<Longrightarrow> room_of M v \<noteq> None \<Longrightarrow> seat h v \<noteq> None"
  shows "hub_safe (h\<lparr>h_rooms := M\<rparr>)"
proof -
  note c = assms(1) [unfolded hub_safe_def core_ok_def]
  have "connection_of_user h v \<noteq> None \<and> standing (hub_users h) v" if "room_of M v \<noteq> None" for v
  proof (cases "v = uid")
    case False
    with assms(5) that have "seat h v \<noteq> None" by blast
    with c show ?thesis by blast
  qed (use assms(3,4) in simp)
  with c assms(2) show ?thesis unfolding hub_safe_def core_ok_def by (simp add: rooms_views)
qed

lemma safe_enter_room:
  assumes "hub_safe h" and "connection_of_user h (u_id u) \<noteq> None" and "standing (hub_users h) (u_id u)"
  shows "hub_safe (snd (enter_room c rid u h))"
proof -
  obtain f M where op: "join rid u (h_rooms h) = (f, M)" by fastforce
  then have M: "M = snd (join rid u (h_rooms h))" by simp
  have good: "mgr_good (h_rooms h)" and wf: "mgr_wf (h_rooms h)"
    using safe_good [OF assms(1)] by (simp_all add: mgr_good_def)
  have "room_of M v \<noteq> None \<Longrightarrow> v \<noteq> u_id u \<Longrightarrow> seat h v \<noteq> None" for v
    using room_of_join [OF wf, of rid u v] join_error [of rid u "h_rooms h"] op
    by (cases f) (auto simp: seat_def split: if_splits)
  moreover have "mgr_good M" unfolding M by (rule room_ops_good(6) [OF good])
  ultimately have 1: "hub_safe (h\<lparr>h_rooms := M\<rparr>)"
    using safe_seated [OF assms(1) _ assms(2,3)] by blast
  show ?thesis
  proof (cases f)
    case (Some e)
    with 1 show ?thesis by (simp add: enter_room_def op)
  next
    case None
    have q1: "quiet g (upd_connection c (\<lambda>s. s\<lparr>cn_room_id := Some rid\<rparr>) g)" for g
      by (rule quiet_upd_connection) simp
    let ?n = "\<lambda>u'. u'\<lparr>u_display_name := u_display_name u\<rparr>"
    have q2: "quiet g (upd_user c ?n g)" for g by simp
    let ?h2 = "upd_user c ?n (upd_connection c (\<lambda>s. s\<lparr>cn_room_id := Some rid\<rparr>) (h\<lparr>h_rooms := M\<rparr>))"
    have 2: "hub_safe ?h2" by (rule safe_quiet [OF safe_quiet [OF 1 q1] q2])
    have 3: "hub_safe (g\<lparr>h_rooms := snd (set_muted rid (u_id u) True True (h_rooms g))\<rparr>)" if "hub_safe g" for g
      by (rule safe_calm_rooms [OF that room_ops_good(1) [OF safe_good [OF that]]]) (simp add: seat_def)
    have 4: "hub_safe (case x of None \<Rightarrow> ?h2 | Some p \<Rightarrow> if p \<noteq> rid then announce_departure p i w ?h2 else ?h2)"
      for x i w using 2 by (cases x) simp_all
    show ?thesis
      unfolding enter_room_def op None Let_def prod.case option.case snd_conv by (intro safe_if 3 4)
  qed
qed

lemma quiet_greet: "quiet h (greet c rid u h)"
proof -
  have "quiet g (fold (\<lambda>p h. if p_id p = i then h else send c (UserJoined rid (p_user p)) h) ps g)" for g i ps
    by (rule quiet_fold) simp
  then have "quiet h (case screen_sharer room of None \<Rightarrow> send c (UserJoined rid u)
        (fold (\<lambda>p h. if p_id p = u_id u then h else send c (UserJoined rid (p_user p)) h) (rm_participants room) h)
      | Some x \<Rightarrow> send c (m x) (send c (UserJoined rid u)
        (fold (\<lambda>p h. if p_id p = u_id u then h else send c (UserJoined rid (p_user p)) h) (rm_participants room) h)))"
    for room m
    by (intro quiet_option) simp_all
  then show ?thesis unfolding greet_def Let_def by (intro quiet_option) simp_all
qed

lemma safe_signed_in:
  assumes "hub_safe h" and "conn_user h c = Some u"
  shows "connection_of_user h (u_id u) = Some c \<and> standing (hub_users h) (u_id u)"
  using assms by (auto simp: hub_safe_def core_ok_def conn_uid_def)

lemma joining_name_id [simp]: "u_id (joining_name n u) = u_id u"
  by (simp add: joining_name_def)

lemma safe_handle_join_room: "hub_safe h \<Longrightarrow> hub_safe (handle_join_room c rid uid name h)"
  unfolding handle_join_room_def
proof (rule with_user_safe, goal_cases)
  case (2 u)
  define rs where "rs = restrictions_of h (u_id (joining_name name u))"
  define u' where "u' = (joining_name name u)\<lparr>u_restrictions := rs\<rparr>"
  define g where "g = upd_user c (\<lambda>u. u\<lparr>u_restrictions := rs\<rparr>) h"
  have q: "quiet h g" by (simp add: g_def)
  have g: "hub_safe g" by (rule safe_quiet [OF 2(1) q])
  have "connection_of_user g (u_id u') = Some c \<and> standing (hub_users g) (u_id u')"
    using safe_signed_in [OF 2] q by (simp add: quiet_def u'_def)
  then have e: "hub_safe (snd (enter_room c rid u' g))" using safe_enter_room [OF g] by simp
  show ?case
    unfolding Let_def rs_def [symmetric] u'_def [symmetric] g_def [symmetric]
    using 2 g e safe_quiet [OF e quiet_greet]
    by (auto split: prod.split bool.split)
qed

section \<open>Writing accounts\<close>

lemma auth_views:
  "conn_uid (h\<lparr>h_auth := A\<rparr>) = conn_uid h" "connection_of_user (h\<lparr>h_auth := A\<rparr>) = connection_of_user h"
  "seat (h\<lparr>h_auth := A\<rparr>) = seat h" "conn_user (h\<lparr>h_auth := A\<rparr>) = conn_user h"
  "conn_uid (set_users s h) = conn_uid h" "connection_of_user (set_users s h) = connection_of_user h"
  "seat (set_users s h) = seat h" "token_owners (set_users s h) = token_owners h"
  "hub_users (set_users s h) = s" "h_rooms (set_users s h) = h_rooms h"
  "conn_user (set_users s h) = conn_user h"
  by (simp_all add: set_users_def fun_eq_iff conn_uid_def conn_user_def find_connection_def
      connection_of_user_def token_owners_def seat_def)

lemma safe_auth:
  assumes "hub_safe h" and "users_keep (hub_users h) (at_users A)"
    and "at_tokens A = at_tokens (h_auth h)"
  shows "hub_safe (h\<lparr>h_auth := A\<rparr>)"
  by (rule safe_calm [OF assms(1)])
    (use assms in \<open>simp add: calm_def auth_views token_owners_def\<close>)

lemma safe_set_users:
  "hub_safe h \<Longrightarrow> users_keep (hub_users h) s \<Longrightarrow> hub_safe (set_users s h)"
  unfolding set_users_def by (rule safe_auth) simp_all

lemma safe_discard: "hub_safe h \<Longrightarrow> hub_safe (discard_session_end_request uid h)"
  by (auto simp: discard_session_end_request_def intro!: safe_set_users users_keep_same
      split: option.split)

lemma change_password_tokens: "at_tokens (snd (change_password C uid c p A)) = at_tokens A"
proof -
  obtain r B where d: "derive C p A = (r, B)" by fastforce
  have "at_tokens (snd (set_password C uid p A)) = at_tokens A"
    using derive_frameD [OF d] d
    by (auto simp: set_password_def Let_def split: sum.splits option.splits prod.splits)
  then show ?thesis by (auto simp: change_password_def split: option.split sum.split)
qed

lemma safe_handle_change_password: "hub_safe h \<Longrightarrow> hub_safe (handle_change_password E c cur new h)"
  unfolding handle_change_password_def
proof (rule with_user_safe, goal_cases)
  case (2 u)
  obtain r A where op: "change_password (e_crypto E) (u_id u) cur new (h_auth h) = (r, A)" by fastforce
  have "users_keep (hub_users h) (at_users A)"
    using change_password_users [of "e_crypto E" "u_id u" cur new "h_auth h"] op
    by (auto intro: users_keep_same)
  moreover have "at_tokens A = at_tokens (h_auth h)"
    using change_password_tokens [of "e_crypto E" "u_id u" cur new "h_auth h"] op by simp
  ultimately have "hub_safe (h\<lparr>h_auth := A\<rparr>)" using safe_auth 2(1) by blast
  then show ?case
    unfolding op Let_def prod.case
    by (simp add: safe_end_session_of split: sum.split option.split)
qed

lemma add_user_tokens: "at_tokens (snd (add_user C w n p d r A)) = at_tokens A"
proof -
  obtain r1 A1 where 1: "random_hex C 16 A = (r1, A1)" by fastforce
  obtain r2 A2 where 2: "random_hex C 16 A1 = (r2, A2)" by fastforce
  show ?thesis
    using random_hexD [OF 1] random_hexD [OF 2] 1 2
    by (simp add: add_user_def Let_def split: sum.split option.split prod.split)
qed

text \<open>The identifier the next account would get is nobody's. The code draws 128 random bits and does
  not look.\<close>

definition fresh_draw :: "environment \<Rightarrow> hub \<Rightarrow> bool" where
  "fresh_draw E h \<longleftrightarrow> (case cr_rand (e_crypto E) (at_draws (h_auth h)) 16 of None \<Rightarrow> True
     | Some bytes \<Rightarrow> users_find_by_id (hub_users h) (to_hex bytes) = None)"

lemma safe_handle_create_user:
  assumes "hub_safe h" and "fresh_draw E h"
  shows "hub_safe (handle_create_user E c n p d r h)"
  unfolding handle_create_user_def
proof (rule with_user_safe [OF assms(1)], goal_cases)
  case (1 u)
  obtain q A where op: "add_user (e_crypto E) (e_wall E) n p d r (h_auth h) = (q, A)" by fastforce
  have "users_keep (hub_users h) (at_users A)"
    using add_user_users [of "e_crypto E" "e_wall E" n p d r "h_auth h"]
  proof (elim disjE exE conjE)
    fix a bytes
    assume "at_users (snd (add_user (e_crypto E) (e_wall E) n p d r (h_auth h)))
        = snd (users_create (e_wall E) a (hub_users h))"
      "cr_rand (e_crypto E) (at_draws (h_auth h)) 16 = Some bytes" "ac_id a = to_hex bytes"
    with op assms(2) users_keep_create [of "hub_users h" a "e_wall E"] show ?thesis
      by (simp add: fresh_draw_def)
  qed (use op in simp)
  moreover have "at_tokens A = at_tokens (h_auth h)"
    using add_user_tokens [of "e_crypto E" "e_wall E" n p d r "h_auth h"] op by simp
  ultimately have "hub_safe (h\<lparr>h_auth := A\<rparr>)" using safe_auth assms(1) by blast
  then show ?case
    unfolding op Let_def prod.case by (simp split: sum.split)
qed

text \<open>Who acts: an administrator in good standing, as the gate saw to it.\<close>

definition admin_on :: "hub \<Rightarrow> nat \<Rightarrow> bool" where
  "admin_on h c \<longleftrightarrow> (case conn_user h c of None \<Rightarrow> False | Some u \<Rightarrow> current_role h (u_id u) = Admin)"

lemma admin_onD:
  assumes "hub_safe h" and "admin_on h c" and "conn_user h c = Some u"
  shows "\<exists>d. users_find_by_id (hub_users h) (u_id u) = Some d \<and> active_admin d"
proof -
  have "current_role h (u_id u) = Admin" using assms(2,3) by (simp add: admin_on_def)
  then obtain d where "users_find_by_id (hub_users h) (u_id u) = Some d" "u_role (ac_user d) = Admin"
    by (auto simp: current_role_def split: option.splits)
  with safe_signed_in [OF assms(1,3)] show ?thesis
    by (auto simp: standing_def active_admin_def ac_role_def)
qed

lemma safe_apply_update:
  assumes "hub_safe h" and b: "users_find_by_id (hub_users h) (ac_id a) = Some b"
    and "ac_username a = ac_username b"
    and "u_restrictions (ac_user a) = u_restrictions (ac_user b)"
    and adm: "active_admin a \<or> \<not> active_admin b
      \<or> (\<exists>i d. i \<noteq> ac_id a \<and> users_find_by_id (hub_users h) i = Some d \<and> active_admin d)"
  shows "hub_safe (apply_update E c actor uid pw detail a h)"
proof -
  have fin: "hub_safe (case users_update a' (hub_users g) of
           (Some failure, s) \<Rightarrow> reply_error c failure (set_users s g)
         | (None, s) \<Rightarrow> send c (user_list (record_entry E actor act uid [] dt (set_users s g)))
             (record_entry E actor act uid [] dt (set_users s g)))"
    if "ac_user a' = ac_user a" "ac_username a' = ac_username a" "hub_safe g" "hub_users g = hub_users h"
    for a' g dt act
  proof -
    have id: "ac_id a' = ac_id a" using that(1) by (simp add: ac_id_def)
    have aa: "active_admin a' = active_admin a" using that(1) by (simp add: active_admin_def ac_role_def)
    obtain f s where us: "users_update a' (hub_users g) = (f, s)" by fastforce
    have "users_keep (hub_users g) (snd (users_update a' (hub_users g)))"
      by (rule users_keep_update [of _ _ b]) (use assms that id aa in simp_all)
    then have "hub_safe (set_users s g)" using safe_set_users [OF that(3)] us by simp
    then show ?thesis unfolding us by (simp split: option.split)
  qed
  show ?thesis
  proof (cases pw)
    case None
    then show ?thesis unfolding apply_update_def Let_def using fin [of a h] assms(1) by simp
  next
    case (Some p)
    obtain q A where op: "derive (e_crypto E) p (h_auth h) = (q, A)" by fastforce
    have g: "hub_safe (h\<lparr>h_auth := A\<rparr>)" "hub_users (h\<lparr>h_auth := A\<rparr>) = hub_users h"
      using safe_auth [OF assms(1), of A] derive_frameD [OF op] by simp_all
    have "hub_safe (case users_update (a\<lparr>ac_salt_hex := x, ac_password_hash_hex := y\<rparr>)
             (hub_users (h\<lparr>h_auth := A\<rparr>)) of
           (Some failure, s) \<Rightarrow> reply_error c failure (set_users s (h\<lparr>h_auth := A\<rparr>))
         | (None, s) \<Rightarrow> send c (user_list (record_entry E actor act uid [] dt (set_users s (h\<lparr>h_auth := A\<rparr>))))
             (record_entry E actor act uid [] dt (set_users s (h\<lparr>h_auth := A\<rparr>))))" for x y act dt
      by (rule fin) (use g in simp_all)
    with g(1) show ?thesis
      unfolding apply_update_def Let_def Some op option.case prod.case by (simp split: sum.split)
  qed
qed

lemma safe_handle_update_user:
  assumes "hub_safe h" and "admin_on h c"
  shows "hub_safe (handle_update_user E c uid r n pw h)"
  unfolding handle_update_user_def
proof (rule with_user_safe [OF assms(1)], goal_cases)
  case (1 u)
  note d = admin_onD [OF assms 1]
  show ?case
  proof (cases "users_find_by_id (hub_users h) uid")
    case None
    with assms(1) show ?thesis by simp
  next
    case (Some b)
    have id: "ac_id b = uid" using mem_users.by_id_id [OF Some] .
    define moves where "moves = (r \<noteq> None \<and> r \<noteq> Some (ac_role b))"
    define role' where "role' = (case r of Some r \<Rightarrow> r | None \<Rightarrow> ac_role b)"
    define a where "a = b\<lparr>ac_user := (ac_user b)\<lparr>u_role := role',
      u_display_name := (case n of Some n \<Rightarrow> n | None \<Rightarrow> u_display_name (ac_user b))\<rparr>\<rparr>"
    have a: "ac_id a = uid" "ac_username a = ac_username b"
        "u_restrictions (ac_user a) = u_restrictions (ac_user b)" "ac_role a = role'"
      using id by (simp_all add: a_def ac_id_def ac_role_def)
    have up: "hub_safe (apply_update E c u uid pw dt a h)" if "\<not> (moves \<and> uid = u_id u)" for dt
    proof (rule safe_apply_update [OF assms(1)])
      show "users_find_by_id (hub_users h) (ac_id a) = Some b" using Some a by simp
      show "active_admin a \<or> \<not> active_admin b
        \<or> (\<exists>i d. i \<noteq> ac_id a \<and> users_find_by_id (hub_users h) i = Some d \<and> active_admin d)"
      proof (cases moves)
        case True
        with that d a show ?thesis by metis
      next
        case False
        then have "role' = ac_role b" by (auto simp: moves_def role'_def split: option.splits)
        then show ?thesis using a by (simp add: active_admin_def)
      qed
    qed (use a in simp_all)
    show ?thesis
      unfolding Some option.case Let_def moves_def [symmetric] role'_def [symmetric] a_def [symmetric] id
      using up assms(1) by simp
  qed
qed

section \<open>Enforcement\<close>

text \<open>The first part of \<open>enforce\<close>, which tells people and brings the cached identity into step.\<close>

definition announce_restriction :: "user \<Rightarrow> user \<Rightarrow> string \<Rightarrow> hub \<Rightarrow> hub" where
  "announce_restriction actor target reason h =
    (let uid = u_id target;
         room_id = room_of (h_rooms h) uid;
         announcement = UserRestricted uid (u_restrictions target) (u_id actor) reason
           (case room_id of None \<Rightarrow> [] | Some rid \<Rightarrow> rid);
         h = (case connection_of_user h uid of None \<Rightarrow> h | Some c \<Rightarrow> send c announcement h);
         h = (case room_id of None \<Rightarrow> h | Some rid \<Rightarrow> broadcast rid announcement (Some uid) h)
     in case connection_of_user h uid of None \<Rightarrow> h
        | Some c \<Rightarrow> upd_user c (\<lambda>u. u\<lparr>u_restrictions := u_restrictions target\<rparr>) h)"

lemma quiet_announce_restriction: "quiet h (announce_restriction actor target reason h)"
proof -
  have 1: "quiet g (case x of None \<Rightarrow> g | Some c \<Rightarrow> send c m g)" for g x m by (cases x) simp_all
  have 2: "quiet g (case x of None \<Rightarrow> g | Some rid \<Rightarrow> broadcast rid m e g)" for g x m e by (cases x) simp_all
  have 3: "quiet g (case x of None \<Rightarrow> g | Some c \<Rightarrow> upd_user c (\<lambda>u. u\<lparr>u_restrictions := r\<rparr>) g)" for g x r
    by (cases x) simp_all
  show ?thesis
    unfolding announce_restriction_def Let_def by (rule quiet_trans [OF quiet_trans [OF 1 2] 3])
qed

text \<open>The part that acts on a room.\<close>

definition apply_in_room :: "user \<Rightarrow> user \<Rightarrow> restrictions \<Rightarrow> string option \<Rightarrow> hub \<Rightarrow> hub" where
  "apply_in_room actor target before room_id h =
    (let uid = u_id target; after = u_restrictions target in
     case room_id of None \<Rightarrow> h
     | Some rid \<Rightarrow>
             (let h = (if r_muted after \<noteq> r_muted before
                   then (case set_muted rid uid (r_muted after) True (h_rooms h) of
                           (Some failure, M) \<Rightarrow> h\<lparr>h_rooms := M\<rparr>
                         | (None, M) \<Rightarrow> broadcast rid (if r_muted after then Mute rid uid (u_id actor)
                                          else Unmute rid uid (u_id actor)) None (h\<lparr>h_rooms := M\<rparr>))
                   else h)
              in if r_screen_share_blocked after \<and> \<not> r_screen_share_blocked before
                    \<and> is_sharing_screen h rid uid
                 then (case stop_screen_share rid uid (h_rooms h) of
                         (Some failure, M) \<Rightarrow> h\<lparr>h_rooms := M\<rparr>
                       | (None, M) \<Rightarrow> broadcast rid (ScreenShareStopped rid uid) None (h\<lparr>h_rooms := M\<rparr>))
                 else h))"

lemma quiet_apply_in_room: "quiet h (apply_in_room actor target before room_id h)"
proof (cases room_id)
  case None
  then show ?thesis by (simp add: apply_in_room_def)
next
  case (Some rid)
  have 1: "quiet g (case set_muted rid uid m True (h_rooms g) of
                           (Some failure, M) \<Rightarrow> g\<lparr>h_rooms := M\<rparr>
                         | (None, M) \<Rightarrow> broadcast rid msg None (g\<lparr>h_rooms := M\<rparr>))" for g uid m msg
  proof -
    obtain r M where op: "set_muted rid uid m True (h_rooms g) = (r, M)" by fastforce
    show ?thesis unfolding op
      using quiet_rooms_op [OF op participant_ops_room_of(1) room_ops_good(1)] by (cases r) simp_all
  qed
  have 2: "quiet g (case stop_screen_share rid uid (h_rooms g) of
                         (Some failure, M) \<Rightarrow> g\<lparr>h_rooms := M\<rparr>
                       | (None, M) \<Rightarrow> broadcast rid msg None (g\<lparr>h_rooms := M\<rparr>))" for g uid msg
  proof -
    obtain r M where op: "stop_screen_share rid uid (h_rooms g) = (r, M)" by fastforce
    show ?thesis unfolding op
      using quiet_rooms_op [OF op participant_ops_room_of(3) room_ops_good(3)] by (cases r) simp_all
  qed
  have 3: "quiet g (if b then (case set_muted rid uid m True (h_rooms g) of
                           (Some failure, M) \<Rightarrow> g\<lparr>h_rooms := M\<rparr>
                         | (None, M) \<Rightarrow> broadcast rid msg None (g\<lparr>h_rooms := M\<rparr>)) else g)" for b g uid m msg
    using 1 by (intro quiet_if) simp_all
  have 4: "quiet g (if b then (case stop_screen_share rid uid (h_rooms g) of
                         (Some failure, M) \<Rightarrow> g\<lparr>h_rooms := M\<rparr>
                       | (None, M) \<Rightarrow> broadcast rid msg None (g\<lparr>h_rooms := M\<rparr>)) else g)" for b g uid msg
    using 2 by (intro quiet_if) simp_all
  show ?thesis unfolding apply_in_room_def Let_def Some option.case by (rule quiet_trans [OF 3 4])
qed

lemma enforce_split:
  "enforce E actor target before reason h =
    (let g = announce_restriction actor target reason h
     in if r_banned (u_restrictions target) \<and> \<not> r_banned before
        then end_session_of E (u_id target)
          (if reason = [] then ''the account was suspended'' else reason) g
        else apply_in_room actor target before (room_of (h_rooms h) (u_id target)) g)"
  by (simp only: enforce_def announce_restriction_def apply_in_room_def Let_def)

lemma safe_enforce:
  assumes "hub_safe h" shows "hub_safe (enforce E actor target before reason h)"
proof -
  have g: "hub_safe (announce_restriction actor target reason h)"
    using safe_quiet [OF assms quiet_announce_restriction] .
  show ?thesis
    unfolding enforce_split Let_def
    by (intro safe_if safe_end_session_of [OF g] safe_quiet [OF g quiet_apply_in_room])
qed

lemma safe_handle_restrict_user:
  assumes "hub_safe h" and "admin_on h c"
  shows "hub_safe (handle_restrict_user E c uid bn mt sl ss reason h)"
  unfolding handle_restrict_user_def
proof (rule with_user_safe [OF assms(1)], goal_cases)
  case (1 u)
  note d = admin_onD [OF assms 1]
  show ?case
  proof (cases "users_find_by_id (hub_users h) uid")
    case None
    with assms(1) show ?thesis by simp
  next
    case (Some b)
    have id: "ac_id b = uid" using mem_users.by_id_id [OF Some] .
    define before where "before = u_restrictions (ac_user b)"
    define after where "after = merge_restrictions bn mt sl ss before"
    define a where "a = b\<lparr>ac_user := (ac_user b)\<lparr>u_restrictions := after\<rparr>\<rparr>"
    have a: "ac_id a = uid" "u_id (ac_user a) = uid" "ac_username a = ac_username b"
        "u_restrictions (ac_user a) = after"
      using id by (simp_all add: a_def ac_id_def)
    obtain f s where us: "users_update a (hub_users h) = (f, s)" by fastforce
    then have s: "s = snd (users_update a (hub_users h))" by simp
    have f: "f = None" using mem_users.update_same [of "hub_users h" a b] Some a us by simp
    have ok: "accounts_ok s" if "uid \<noteq> u_id u"
      unfolding s
    proof (rule accounts_ok_update [of _ _ b])
      show "accounts_ok (hub_users h)" using assms(1) by (simp add: hub_safe_def)
      show "active_admin a \<or> \<not> active_admin b
        \<or> (\<exists>i d. i \<noteq> ac_id a \<and> users_find_by_id (hub_users h) i = Some d \<and> active_admin d)"
        using d that a by metis
    qed (use Some a in simp_all)
    have st: "standing s v" if "standing (hub_users h) v" "v \<noteq> uid" for v
      using standing_update_other [of v a "hub_users h"] that a s by simp
    have "hub_safe (enforce E u (ac_user a) before reason (record_entry E u act uid rm dt (set_users s h)))"
      if ne: "uid \<noteq> u_id u" for act rm dt
    proof (cases "r_banned after \<and> \<not> r_banned before")
      case True
      let ?r = "record_entry E u act uid rm dt (set_users s h)"
      let ?g = "announce_restriction u (ac_user a) reason ?r"
      have q: "quiet (set_users s h) ?g"
        by (rule quiet_trans [OF _ quiet_announce_restriction]) simp
      have "ended uid ?g (end_session_of E uid rn ?g)" for rn
      proof (rule ended_end_session_of)
        show "mgr_good (h_rooms ?g)" using q safe_good [OF assms(1)] by (simp add: quiet_def auth_views)
      qed
      then have "hub_safe (end_session_of E uid rn ?g)" for rn
        by (rule safe_ended [OF assms(1), rotated -1])
          (use q ok [OF ne] st in \<open>auto simp: quiet_def auth_views\<close>)
      then show ?thesis unfolding enforce_split Let_def using True a by (auto split: if_split)
    next
      case False
      have "users_keep (hub_users h) s"
      proof -
        have "standing (hub_users h) v \<Longrightarrow> standing s v" for v
          using st [of v] standing_update_same [of "hub_users h" a b] False Some a s
          by (cases "v = uid") (auto simp: standing_def before_def)
        with ok [OF ne] show ?thesis by (simp add: users_keep_def)
      qed
      then have "hub_safe (set_users s h)" using safe_set_users [OF assms(1)] by blast
      then show ?thesis by (intro safe_enforce) simp
    qed
    then show ?thesis
      unfolding Some option.case Let_def before_def [symmetric] after_def [symmetric] a_def [symmetric] id
        us prod.case f
      using assms(1) by (simp add: auth_views)
  qed
qed

lemma safe_handle_end_session: "hub_safe h \<Longrightarrow> hub_safe (handle_end_session E c uid reason h)"
  unfolding handle_end_session_def Let_def
  by (rule with_user_safe) (simp_all add: safe_end_session_of split: option.split)

lemma safe_handle_delete_user:
  assumes "hub_safe h" and "admin_on h c"
  shows "hub_safe (handle_delete_user E c uid h)"
  unfolding handle_delete_user_def
proof (rule with_user_safe [OF assms(1)], goal_cases)
  case (1 u)
  obtain d where d: "users_find_by_id (hub_users h) (u_id u) = Some d" "active_admin d"
    using admin_onD [OF assms 1] by blast
  show ?case
  proof (cases "users_find_by_id (hub_users h) uid")
    case None
    with assms(1) show ?thesis by simp
  next
    case (Some b)
    have id: "ac_id b = uid" using mem_users.by_id_id [OF Some] .
    define g where "g = end_session_of E uid ''the account was removed'' h"
    have e: "ended uid h g" unfolding g_def by (rule ended_end_session_of [OF safe_good [OF assms(1)]])
    have g: "hub_safe g" unfolding g_def by (rule safe_end_session_of [OF assms(1)])
    obtain f s where us: "users_remove uid (hub_users g) = (f, s)" by fastforce
    then have s: "s = snd (users_remove uid (hub_users h))" using e by (simp add: ended_def)
    have f: "f = None" using mem_users.remove_same [OF Some] us e by (simp add: ended_def)
    have "hub_safe (set_users s g)" if ne: "uid \<noteq> u_id u"
    proof -
      have st: "standing s v" if "standing (hub_users h) v" "v \<noteq> uid" for v
        using that by (simp add: s standing_def mem_users.remove_other)
      have "users_find_by_id s (u_id u) = Some d" using d ne by (simp add: s mem_users.remove_other)
      moreover have "users_wf s" using assms(1) by (simp add: s hub_safe_def accounts_ok_def inv_intros)
      ultimately have ok: "accounts_ok s" using accounts_okI d(2) by blast
      let ?g = "set_users s h"
      have "ended uid ?g (set_users s g)"
        using e by (auto simp: ended_def auth_views fun_eq_iff)
      then show ?thesis
        by (rule safe_ended [OF assms(1), rotated -1]) (use ok st in \<open>simp_all add: auth_views\<close>)
    qed
    then have "hub_safe ((set_users s g)\<lparr>h_notices := n\<rparr>)" if "uid \<noteq> u_id u" for n
      using that safe_quiet quiet_other_stores(2) by blast
    then show ?thesis
      unfolding Some option.case Let_def id g_def [symmetric] us prod.case f
      using assms(1) by (simp split: option.split)
  qed
qed

section \<open>Signing in, connecting and leaving\<close>

lemma safe_sign_in:
  assumes safe: "hub_safe h" and st: "standing (hub_users h) uid"
    and us: "hub_users h' = hub_users h" and good: "mgr_good (h_rooms h')"
    and cu: "\<And>x v. conn_uid h' x = Some v \<Longrightarrow>
      x = c \<and> v = uid \<or> conn_uid h x = Some v \<and> connection_of_user h uid \<noteq> Some x"
    and uc: "connection_of_user h' = (connection_of_user h)(uid := Some c)"
    and ro: "\<And>v. seat h' v \<noteq> None \<Longrightarrow> seat h v \<noteq> None"
    and tk: "token_owners h' \<subseteq> insert uid (token_owners h)"
  shows "hub_safe h'"
proof -
  note k = safe [unfolded hub_safe_def core_ok_def]
  have "connection_of_user h' v = Some x \<and> standing (hub_users h') v" if "conn_uid h' x = Some v" for x v
    using cu [OF that]
  proof
    assume "x = c \<and> v = uid"
    then show ?thesis using uc us st by simp
  next
    assume a: "conn_uid h x = Some v \<and> connection_of_user h uid \<noteq> Some x"
    then have "connection_of_user h v = Some x" "standing (hub_users h) v" using k by auto
    with a show ?thesis using uc us by auto
  qed
  moreover have "connection_of_user h' v \<noteq> None \<and> standing (hub_users h') v" if "seat h' v \<noteq> None" for v
    using ro [OF that] k uc us by auto
  moreover have "standing (hub_users h') v" if "v \<in> token_owners h'" for v
    using that tk us st k by auto
  ultimately show ?thesis using k us good unfolding hub_safe_def core_ok_def by simp
qed

lemma detach_previous_views:
  assumes "hub_safe h"
  shows "hub_users (detach_previous E c uid h) = hub_users h
    \<and> mgr_good (h_rooms (detach_previous E c uid h))
    \<and> connection_of_user (detach_previous E c uid h) = connection_of_user h
    \<and> (\<forall>v. seat (detach_previous E c uid h) v \<noteq> None \<longrightarrow> seat h v \<noteq> None)
    \<and> token_owners (detach_previous E c uid h) \<subseteq> token_owners h
    \<and> (\<forall>x v. conn_uid (detach_previous E c uid h) x = Some v \<longrightarrow> conn_uid h x = Some v
          \<and> (x = c \<or> connection_of_user h uid \<noteq> Some x))"
proof (cases "connection_of_user h uid = None \<or> connection_of_user h uid = Some c")
  case True
  then have "detach_previous E c uid h = h" by (auto simp: detach_previous_def)
  with True show ?thesis using safe_good [OF assms] by auto
next
  case False
  then obtain p where p: "connection_of_user h uid = Some p" "p \<noteq> c" by auto
  define g where "g = (case room_of (h_rooms h) uid of
                   None \<Rightarrow> h
                 | Some rid \<Rightarrow>
                    (let was_sharing = is_sharing_screen h rid uid;
                         h = h\<lparr>h_rooms := snd (remove_from_any_room uid (h_rooms h))\<rparr>;
                         h = announce_departure rid uid was_sharing h
                     in broadcast_room_list h))"
  have good: "mgr_good (h_rooms h)" using safe_good [OF assms] .
  have wf: "mgr_wf (h_rooms h)" using good by (simp add: mgr_good_def)
  let ?M = "snd (remove_from_any_room uid (h_rooms h))"
  have v: "conn_uid g = conn_uid h \<and> connection_of_user g = connection_of_user h
      \<and> hub_users g = hub_users h \<and> token_owners g = token_owners h \<and> mgr_good (h_rooms g)
      \<and> (\<forall>v. seat g v \<noteq> None \<longrightarrow> seat h v \<noteq> None)"
    using good room_ops_good(8) [OF good, of uid] room_of_remove_from_any_room [OF wf, of uid]
    by (auto simp: g_def Let_def rooms_views seat_def split: option.split)
  have d: "detach_previous E c uid h = (if find_connection g p = None then g
      else drop_identity p (close_session E p g))"
    using p by (simp add: detach_previous_def g_def Let_def)
  have q: "quiet g (close_session E p g)" by (rule quiet_close_session)
  show ?thesis
  proof (cases "find_connection g p")
    case None
    then have "conn_uid g p = None" by (simp add: conn_uid_def conn_user_def)
    with None v p show ?thesis by (auto simp: d)
  next
    case (Some s)
    with v q p show ?thesis by (auto simp: d conn_uid_drop quiet_def split: if_splits)
  qed
qed

lemma emplace_owners:
  "(\<lambda>(_, t). tk_user_id t) ` set (emplace k v m) \<subseteq> insert (tk_user_id v) ((\<lambda>(_, t). tk_user_id t) ` set m)"
proof (cases "map_of m k")
  case None
  then show ?thesis by (auto simp: emplace_def update_fresh)
qed (auto simp: emplace_def)

lemma safe_handle_authenticate:
  assumes "hub_safe h"
  shows "hub_safe (handle_authenticate E c n p now h)"
proof -
  obtain r A where op: "authenticate (e_crypto E) n p now (h_auth h) = (r, A)" by fastforce
  have us: "at_users A = hub_users h"
    using authenticate_users [of "e_crypto E" n p now "h_auth h"] op by simp
  show ?thesis
  proof (cases "\<exists>v. r = Inr (Inr v)")
    case False
    have "at_tokens A = at_tokens (h_auth h)"
      using op False by (auto simp: authenticate_def split: option.splits sum.splits if_splits prod.splits
          dest: random_hexD)
    then have "hub_safe (h\<lparr>h_auth := A\<rparr>)" using safe_auth [OF assms] us by simp
    then show ?thesis using False by (auto simp: handle_authenticate_def op split: sum.split)
  next
    case True
    then obtain v where v: "r = Inr (Inr v)" by blast
    obtain a where a: "users_find_by_username (hub_users h) n = Some a" "s_user v = ac_user a"
        "\<not> r_banned (u_restrictions (ac_user a))"
        "at_tokens A = emplace (s_token v) \<lparr>tk_user_id = u_id (ac_user a),
            tk_expires_at = now + at_token_lifetime (h_auth h)\<rparr> (at_tokens (h_auth h))"
      using authenticate_sessionD [of "e_crypto E" n p now "h_auth h" v A] op v by auto
    define uid where "uid = u_id (s_user v)"
    have wf: "users_wf (hub_users h)" using assms by (simp add: hub_safe_def accounts_ok_def)
    have st: "standing (hub_users h) uid"
      using find_by_username_id [OF wf a(1)] a(2,3) by (simp add: standing_def uid_def ac_id_def)
    define g where "g = h\<lparr>h_auth := A\<rparr>"
    have tk: "token_owners g \<subseteq> insert uid (token_owners h)"
      using emplace_owners [of "s_token v" "\<lparr>tk_user_id = u_id (ac_user a),
            tk_expires_at = now + at_token_lifetime (h_auth h)\<rparr>" "at_tokens (h_auth h)"]
      by (simp add: g_def token_owners_def uid_def a(2,4))
    have g: "hub_safe g"
    proof -
      have "standing (hub_users g) w" if "w \<in> token_owners g" for w
        using that tk st assms us by (auto simp: g_def hub_safe_def core_ok_def)
      then show ?thesis
        using assms us unfolding hub_safe_def core_ok_def by (simp add: g_def auth_views)
    qed
    define d where "d = detach_previous E c uid g"
    note dv = detach_previous_views [OF g, of E c uid, folded d_def]
    define s1 where "s1 = upd_connection c (\<lambda>s. s\<lparr>cn_user := Some (s_user v), cn_username := n,
                   cn_delivered := []\<rparr>) d"
    define s2 where "s2 = s1\<lparr>h_user_to_connection := AList.update uid c (h_user_to_connection s1)\<rparr>"
    have cu: "conn_uid s2 x = (if x = c \<and> find_connection d c \<noteq> None then Some uid else conn_uid d x)" for x
      by (auto simp: s2_def s1_def conn_uid_def conn_user_def find_connection_def upd_connection_def
          uid_def split: option.split)
    have s2: "connection_of_user s2 = (connection_of_user d)(uid := Some c)" "seat s2 = seat d"
        "hub_users s2 = hub_users d" "token_owners s2 = token_owners d" "h_rooms s2 = h_rooms d"
      by (simp_all add: s2_def s1_def connection_of_user_def fun_eq_iff seat_def token_owners_def)
    have "hub_safe s2"
    proof (rule safe_sign_in [OF g, of uid _ c])
      show "standing (hub_users g) uid" using st us by (simp add: g_def)
      show "hub_users s2 = hub_users g" "mgr_good (h_rooms s2)" using dv s2 by simp_all
      show "connection_of_user s2 = (connection_of_user g)(uid := Some c)" using dv s2 by simp
      show "token_owners s2 \<subseteq> insert uid (token_owners g)" using dv s2 by auto
      show "seat g w \<noteq> None" if "seat s2 w \<noteq> None" for w using dv s2 that by simp
      show "x = c \<and> w = uid \<or> conn_uid g x = Some w \<and> connection_of_user g uid \<noteq> Some x"
        if "conn_uid s2 x = Some w" for x w
      proof (cases "x = c")
        case True
        then show ?thesis using that cu [of x]
          by (cases "find_connection d c = None") (auto simp: conn_uid_def conn_user_def)
      next
        case False
        then have "conn_uid d x = Some w" using that cu by simp
        with dv False show ?thesis by blast
      qed
    qed
    then have "hub_safe (open_session E c (send c (Authenticated (s_user v) (s_token v) (s_expires_in_seconds v)) s2))"
      using safe_quiet [OF _ quiet_open_session] by simp
    then have "hub_safe (discard_session_end_request uid (deliver_pending_notices c (open_session E c
        (send c (Authenticated (s_user v) (s_token v) (s_expires_in_seconds v)) s2))))"
      using safe_discard safe_quiet [OF _ quiet_deliver_pending] by blast
    then show ?thesis
      by (simp only: handle_authenticate_def op v prod.case sum.case Let_def s2_def s1_def d_def g_def uid_def)
  qed
qed

lemma safe_on_connect: "hub_safe h \<Longrightarrow> hub_safe (on_connect c addr now h)"
  by (erule safe_calm)
    (auto simp: calm_def on_connect_def conn_uid_def conn_user_def find_connection_def
      connection_of_user_def fun_eq_iff seat_def token_owners_def split: if_splits)

lemma safe_on_disconnect:
  assumes "hub_safe h" shows "hub_safe (on_disconnect E c h)"
proof -
  define h0 where "h0 = h\<lparr>h_out := [], h_media := [], h_fault := None\<rparr>"
  have h0: "hub_safe h0" using assms by (simp add: h0_def safe_fresh)
  show ?thesis
  proof (cases "find_connection h0 c")
    case None
    then show ?thesis using h0 by (simp add: on_disconnect_def h0_def [symmetric])
  next
    case (Some st)
    define h1 where "h1 = close_session E c h0"
    define h2 where "h2 = h1\<lparr>h_connections := AList.delete c (h_connections h1)\<rparr>"
    have h1: "hub_safe h1" unfolding h1_def by (rule safe_quiet [OF h0 quiet_close_session])
    have v1: "conn_uid h1 = conn_uid h0" "connection_of_user h1 = connection_of_user h0"
      using quiet_close_session [of h0 E c] by (simp_all add: h1_def quiet_def)
    have v2: "conn_uid h2 x = (if x = c then None else conn_uid h1 x)"
        "connection_of_user h2 = connection_of_user h1" "seat h2 = seat h1" "hub_users h2 = hub_users h1"
        "token_owners h2 = token_owners h1" "h_rooms h2 = h_rooms h1" for x
      by (auto simp: h2_def conn_uid_def conn_user_def find_connection_def connection_of_user_def
          seat_def token_owners_def fun_eq_iff)
    have h2: "hub_safe h2"
      by (rule safe_calm [OF h1]) (use v2 safe_good [OF h1] in \<open>auto simp: calm_def\<close>)
    show ?thesis
    proof (cases "cn_user st")
      case None
      then show ?thesis using h2 Some
        by (simp add: on_disconnect_def Let_def h0_def [symmetric] h1_def [symmetric] h2_def [symmetric])
    next
      case (Some u)
      define uid where "uid = u_id u"
      have "conn_uid h0 c = Some uid"
        using Some \<open>find_connection h0 c = Some st\<close> by (simp add: conn_uid_def conn_user_def uid_def)
      then have uc: "connection_of_user h2 uid = Some c"
        using h0 v1 v2 by (simp add: hub_safe_def core_ok_def)
      define h3 where "h3 = h2\<lparr>h_user_to_connection := AList.delete uid (h_user_to_connection h2)\<rparr>"
      have v3: "connection_of_user h3 = (connection_of_user h2)(uid := None)" "conn_uid h3 = conn_uid h2"
          "seat h3 = seat h2" "hub_users h3 = hub_users h2" "token_owners h3 = token_owners h2"
          "h_rooms h3 = h_rooms h2"
        by (simp_all add: h3_def connection_of_user_def conn_uid_def conn_user_def find_connection_def
            seat_def token_owners_def fun_eq_iff)
      define h4 where "h4 = (case room_of (h_rooms h3) uid of None \<Rightarrow> h3
        | Some rid \<Rightarrow> broadcast_room_list (announce_departure rid uid (is_sharing_screen h3 rid uid)
            (h3\<lparr>h_rooms := snd (remove_from_any_room uid (h_rooms h3))\<rparr>)))"
      have good: "mgr_good (h_rooms h3)" using safe_good [OF h2] v3 by simp
      then have wf: "mgr_wf (h_rooms h3)" by (simp add: mgr_good_def)
      have v4: "conn_uid h4 = conn_uid h3 \<and> connection_of_user h4 = connection_of_user h3
          \<and> hub_users h4 = hub_users h3 \<and> token_owners h4 = token_owners h3 \<and> mgr_good (h_rooms h4)
          \<and> (\<forall>i. seat h4 i = (if i = uid then None else seat h3 i))"
        using good room_ops_good(8) [OF good, of uid] room_of_remove_from_any_room [OF wf, of uid]
        by (auto simp: h4_def rooms_views seat_def split: option.split)
      note k2 = h2 [unfolded hub_safe_def core_ok_def]
      have "connection_of_user h4 v = Some x \<and> standing (hub_users h4) v" if "conn_uid h4 x = Some v" for x v
      proof -
        have "conn_uid h2 x = Some v" "x \<noteq> c" using that v3 v4 v2(1) by (auto split: if_splits)
        with k2 have "connection_of_user h2 v = Some x" "standing (hub_users h2) v" by auto
        with uc \<open>x \<noteq> c\<close> v3 v4 show ?thesis by auto
      qed
      then have "core_ok (hub_users h4) (conn_uid h4) (connection_of_user h4) (seat h4) (token_owners h4)"
        using k2 v3 v4 unfolding core_ok_def by auto
      then have "hub_safe h4" using h2 v3 v4 by (simp add: hub_safe_def)
      moreover have "on_disconnect E c h = h4"
        unfolding on_disconnect_def Let_def h0_def [symmetric] \<open>find_connection h0 c = Some st\<close>
          option.case h1_def [symmetric] h2_def [symmetric] Some uid_def [symmetric] uc
          if_P [OF refl] h3_def [symmetric] h4_def ..
      ultimately show ?thesis by simp
    qed
  qed
qed

section \<open>The heartbeat\<close>

lemma safe_tick_connection:
  "hub_safe (fst x) \<Longrightarrow> hub_safe (fst (tick_connection now c x))"
  by (cases x) (use safe_quiet [OF _ quiet_tick_connection] in auto)

lemma safe_tick_connections:
  "hub_safe (fst x) \<Longrightarrow> hub_safe (fst (fold (tick_connection now) cs x))"
proof (induction cs arbitrary: x)
  case (Cons c cs)
  from Cons.IH [OF safe_tick_connection [OF Cons.prems]] show ?case by simp
qed simp

lemma safe_apply_change: "hub_safe h \<Longrightarrow> hub_safe (apply_change E change h)"
  by (simp add: apply_change_def safe_enforce split: option.split)

lemma safe_apply_requested: "hub_safe h \<Longrightarrow> hub_safe (apply_requested E uid h)"
  unfolding apply_requested_def Let_def by (intro safe_discard safe_if safe_end_session_of)

lemma safe_apply_restrictions:
  assumes "hub_safe h" shows "hub_safe (apply_restrictions_written_elsewhere E h)"
proof -
  have "hub_safe (fold (apply_requested E) c (fold (\<lambda>uid. end_session_of E uid reason) b
      (fold (apply_change E) a h)))" for a b c reason
    by (intro safe_fold safe_apply_requested safe_end_session_of safe_apply_change assms)
  then show ?thesis
    unfolding apply_restrictions_written_elsewhere_def Let_def by (intro safe_if assms)
qed

lemma safe_tick:
  assumes "hub_safe h" shows "hub_safe (snd (tick E now h))"
proof -
  let ?h0 = "h\<lparr>h_out := [], h_media := [], h_fault := None\<rparr>"
  obtain h1 t a where f: "fold (tick_connection now) (map fst (h_connections ?h0)) (?h0, [], []) = (h1, t, a)"
    by (metis prod_cases3)
  have "hub_safe ?h0" using assms by (simp add: safe_fresh)
  then have h1: "hub_safe h1" using safe_tick_connections [of "(?h0, [], [])"] f by (metis fst_conv)
  have h2: "hub_safe (h1\<lparr>h_sessions := x\<rparr>)" for x by (rule safe_quiet [OF h1 quiet_other_stores(1)])
  have h3: "hub_safe (g\<lparr>h_auth := expire_tokens now (h_auth g)\<rparr>)" if "hub_safe g" for g
    by (rule safe_quiet [OF that])
      (auto simp: quiet_def auth_views token_owners_def expire_tokens_def)
  have "hub_safe (deliver_notices_written_elsewhere (apply_restrictions_written_elsewhere E
      ((h1\<lparr>h_sessions := x\<rparr>)\<lparr>h_auth := expire_tokens now (h_auth (h1\<lparr>h_sessions := x\<rparr>))\<rparr>)))" for x
    by (rule safe_quiet [OF safe_apply_restrictions [OF h3 [OF h2]] quiet_deliver_elsewhere])
  then show ?thesis unfolding tick_def Let_def f prod.case snd_conv .
qed

section \<open>Frames\<close>

lemma safe_dispatch:
  assumes "hub_safe h" and "fresh_draw E h"
    and "access_for (type_of m) = AccAdminOnly \<Longrightarrow> admin_on h c"
  shows "hub_safe (dispatch E c now m h)"
  using assms
  by (cases m)
    (simp_all add: safe_handle_authenticate safe_quiet [OF _ quiet_handle_create_room]
      safe_handle_join_room safe_handle_leave_room safe_quiet [OF _ quiet_handle_relay]
      safe_handle_change_password safe_quiet [OF _ quiet_handle_mute]
      safe_quiet [OF _ quiet_handle_nudge] safe_quiet [OF _ quiet_handle_screen_share]
      safe_quiet [OF _ quiet_handle_chat] safe_quiet [OF _ quiet_handle_list_chat]
      safe_quiet [OF _ quiet_handle_send_notice] safe_quiet [OF _ quiet_handle_acknowledge_notice]
      safe_handle_kick safe_quiet [OF _ quiet_handle_force_mute] safe_handle_restrict_user
      safe_handle_create_user safe_handle_update_user safe_handle_delete_user
      safe_handle_delete_room safe_quiet [OF _ quiet_handle_update_room] safe_handle_end_session
      handle_list_users_def handle_list_rooms_def handle_list_audit_def handle_list_sessions_def)

lemma fresh_draw_views:
  "h_auth h' = h_auth h \<Longrightarrow> fresh_draw E h' = fresh_draw E h"
  by (simp add: fresh_draw_def split: option.split)

lemma upd_user_frame [simp]:
  "h_auth (upd_user c f h) = h_auth h" "h_rooms (upd_user c f h) = h_rooms h"
  by (simp_all add: upd_user_def)

lemma conn_user_upd_user: "conn_user (upd_user c f h) c = map_option f (conn_user h c)"
  by (simp add: upd_user_def conn_user_def split: option.split)

lemma safe_handle_frame:
  assumes "hub_safe h" and "fresh_draw E h"
  shows "hub_safe (handle_frame E c m now h)"
proof (cases "conn_user h c = None \<and> \<not> is_heartbeat m \<and> \<not> is_authenticate m")
  case True
  then show ?thesis using assms(1) by (simp add: handle_frame_def)
next
  case False
  show ?thesis
  proof (cases "access_for (type_of m)")
    case AccAuthenticated
    then have "hub_safe (dispatch E c now m h)" by (intro safe_dispatch [OF assms]) simp
    with AccAuthenticated assms(1) show ?thesis by (simp add: handle_frame_def)
  next
    case AccServerToClient
    with False assms show ?thesis by (simp add: handle_frame_def)
  next
    case AccAdminOnly
    show ?thesis
    proof (cases "conn_user h c")
      case None
      with False AccAdminOnly assms show ?thesis by (simp add: handle_frame_def)
    next
      case (Some u)
      define r where "r = current_role h (u_id u)"
      define g where "g = upd_user c (\<lambda>u. u\<lparr>u_role := r\<rparr>) h"
      have g: "hub_safe g" unfolding g_def by (rule safe_quiet [OF assms(1)]) simp
      have fr: "fresh_draw E g" using assms(2) fresh_draw_views [of g h E] by (simp add: g_def)
      have "admin_on g c" if "is_allowed r (type_of m)"
        using that AccAdminOnly Some
        by (simp add: admin_on_def g_def conn_user_upd_user is_allowed_def current_role_def r_def)
      with g fr have "hub_safe (dispatch E c now m g)" if "is_allowed r (type_of m)"
        using that safe_dispatch by blast
      with g False AccAdminOnly Some show ?thesis
        by (simp add: handle_frame_def Let_def r_def [symmetric] g_def [symmetric])
    qed
  qed
qed

lemma safe_on_message:
  assumes "hub_safe h" and "fresh_draw E h"
  shows "hub_safe (on_message E c parsed now h)"
proof -
  let ?h0 = "h\<lparr>h_out := [], h_media := [], h_fault := None\<rparr>"
  let ?h1 = "upd_connection c (\<lambda>s. s\<lparr>cn_last_seen := now\<rparr>) ?h0"
  have h0: "hub_safe ?h0" using assms(1) by (simp add: safe_fresh)
  have h1: "hub_safe ?h1" by (rule safe_quiet [OF h0 quiet_upd_connection]) simp
  have fr: "fresh_draw E ?h1" using assms(2) fresh_draw_views [of ?h1 h E] by simp
  show ?thesis
    unfolding on_message_def Let_def
    by (intro safe_if h0) (simp add: h1 safe_handle_frame [OF h1 fr] split: sum.split)
qed

end
