(* ===== verification/HubScenarios.thy ===== *)
theory HubScenarios
  imports Hub
begin

text \<open>
  Short runs of a server on concrete stores, evaluated: the hub the properties are applied to, and
  what a client sees step by step.
\<close>

section \<open>A server with two accounts\<close>

text \<open>The draws start past the identifiers that are taken; the digits of a room count up.\<close>

definition toy_env :: environment where
  "toy_env = \<lparr>e_crypto = toy_crypto\<lparr>cr_rand := (\<lambda>k n. Some [word_of_nat (16 + k)])\<rparr>,
     e_digits = (\<lambda>k. k mod 10), e_wall = 100\<rparr>"

text \<open>\<open>ada\<close> administers, \<open>bob\<close> does not; their passwords are \<open>pw\<close> and \<open>qx\<close>.\<close>

definition bob :: user where
  "bob = \<lparr>u_id = ''02'', u_display_name = ''bob'', u_avatar = [], u_role = User,
     u_restrictions = no_restrictions\<rparr>"

definition toy_users :: user_store where
  "toy_users = at_users ada_authenticator @ [\<lparr>ac_user = bob, ac_username = ''bob'',
     ac_salt_hex = ''03'', ac_password_hash_hex = ''71783033'', ac_created_at = 8,
     ac_session_end_requested_at = 0\<rparr>]"

definition toy_hub :: hub where
  "toy_hub = new_hub 8 (seconds 5) (seconds 15) toy_users [] empty_chat_store empty_notice_store
     empty_session_store empty_audit_log"

definition run :: "event list \<Rightarrow> hub \<Rightarrow> hub" where
  "run es h = fold (\<lambda>e. hub_step (toy_env, e)) es h"

text \<open>What went out to a connection after the last event.\<close>

definition sent_to :: "nat \<Rightarrow> hub \<Rightarrow> message list" where
  "sent_to c h = map o_message (filter (\<lambda>o'. o_connection o' = c) (h_out h))"

definition client :: "nat \<Rightarrow> message \<Rightarrow> event" where
  "client c m = Frame c (Inr m) 0"

section \<open>Runs\<close>

definition both_in :: "event list" where
  "both_in = [Connected 1 ''::1'' 0, Connected 2 ''::2'' 0,
     client 1 (Authenticate ''ada'' ''pw''), client 2 (Authenticate ''bob'' ''qx'')]"

definition both_seated :: "event list" where
  "both_seated = both_in @ [client 1 (CreateRoom ''00'' ''sala'' False 0),
     client 1 (JoinRoom ''012345'' ''00'' []), client 2 (JoinRoom ''012345'' ''02'' [])]"

lemma both_in_identities:
  "conn_user (run both_in toy_hub) 1 = Some ada \<and> conn_user (run both_in toy_hub) 2 = Some bob"
  by code_simp

lemma both_seated_seats:
  "room_of (h_rooms (run both_seated toy_hub)) ''00'' = Some ''012345''
    \<and> room_of (h_rooms (run both_seated toy_hub)) ''02'' = Some ''012345''"
  by code_simp

end
