(* ===== verification/HubProperties.thy ===== *)
theory HubProperties
  imports HubSafety HubScenarios
begin

text \<open>
  What the hub guarantees: the runs it can go through and their invariants, the gate every frame
  passes, and what the handlers that matter most do to the state and say to whom.
\<close>

section \<open>Runs\<close>

text \<open>\<open>served\<close>: an event of the server itself. Another program writing the accounts is not.\<close>

definition served :: "event \<Rightarrow> bool" where
  "served e \<longleftrightarrow> (case e of WrittenElsewhere _ \<Rightarrow> False | _ \<Rightarrow> True)"

inductive reachable :: "hub \<Rightarrow> hub \<Rightarrow> bool" for h0 :: hub where
  start: "reachable h0 h0"
| step: "reachable h0 h \<Longrightarrow> served e \<Longrightarrow> fresh_draw E h \<Longrightarrow> reachable h0 (hub_step (E, e) h)"

lemma safe_step:
  assumes "hub_safe h" and "served e" and "fresh_draw E h"
  shows "hub_safe (hub_step (E, e) h)"
  using assms
  by (cases e) (simp_all add: safe_on_connect safe_on_message safe_on_disconnect safe_tick served_def)

text \<open>The same as a machine: an event that is not served, or a draw that is not fresh, is skipped.\<close>

definition guarded_step :: "environment \<times> event \<Rightarrow> hub \<Rightarrow> hub" where
  "guarded_step x h = (if served (snd x) \<and> fresh_draw (fst x) h then hub_step x h else h)"

interpretation hub_machine: invariant_machine guarded_step hub_safe
  by unfold_locales (use safe_step in \<open>auto simp: guarded_step_def\<close>)

lemma reachable_run: "reachable h0 h \<Longrightarrow> \<exists>es. h = fold guarded_step es h0"
proof (induction rule: reachable.induct)
  case start
  show ?case by (rule exI [of _ "[]"]) simp
next
  case (step h e E)
  then obtain es where "h = fold guarded_step es h0" by blast
  moreover have "hub_step (E, e) h = guarded_step (E, e) h" using step by (simp add: guarded_step_def)
  ultimately have "hub_step (E, e) h = fold guarded_step (es @ [(E, e)]) h0" by simp
  then show ?case by blast
qed

lemma reachable_safe: "reachable h0 h \<Longrightarrow> hub_safe h0 \<Longrightarrow> hub_safe h"
  using reachable_run hub_machine.run_good by metis

text \<open>A server just started on stores that hold an administrator.\<close>

lemma new_hub_safe:
  assumes "accounts_ok users" and "list_all (\<lambda>r. is_int32 (rr_capacity r)) rooms"
  shows "hub_safe (new_hub mx i t users rooms chat notices sessions audit)"
proof -
  let ?N = "new_room_manager mx (Some rooms) (Some chat)"
  obtain M n where f: "fold load_record (rooms_list rooms) (?N, 0) = (M, n)" by fastforce
  then have l: "snd (load_rooms ?N) = M" by (simp add: load_rooms_def new_room_manager_def)
  have "mgr_wf ?N" by (simp add: new_room_manager_def mgr_wf_def seating_ok_def)
  then have "mgr_wf M"
    using load_record_fold_wf [of ?N "rooms_list rooms" 0] assms(2) f
    by (simp add: rooms_list_def list_all_iff)
  moreover have "synced M"
    using load_record_fold [OF f]
    by (auto simp: synced_def new_room_manager_def rooms_list_def rooms_find_def)
  moreover have "room_of M v = None" for v
    using load_record_fold [OF f] by (simp add: room_of_def new_room_manager_def)
  ultimately show ?thesis
    using assms(1) by (auto simp: new_hub_def l hub_safe_def mgr_good_def core_ok_def conn_uid_def
        conn_user_def find_connection_def seat_def token_owners_def)
qed

text \<open>C1. Who is signed in, in every state a server can reach however its clients behave: a connection
  that carries an identity is the only one that carries it and the one the server sends that account's
  messages to, and the account exists and is not banned. Banning or deleting an account signs it
  out on the spot, and nothing lets it back in.\<close>

theorem signed_in_in_good_standing:
  assumes "accounts_ok users" and "list_all (\<lambda>r. is_int32 (rr_capacity r)) rooms"
    and "reachable (new_hub mx i t users rooms chat notices sessions audit) h"
    and "conn_user h c = Some u"
  shows "connection_of_user h (u_id u) = Some c
    \<and> (\<forall>d v. conn_user h d = Some v \<and> u_id v = u_id u \<longrightarrow> d = c)
    \<and> (\<exists>a. users_find_by_id (hub_users h) (u_id u) = Some a \<and> \<not> r_banned (u_restrictions (ac_user a)))"
proof -
  have safe: "hub_safe h" using reachable_safe [OF assms(3) new_hub_safe [OF assms(1,2)]] .
  have "d = c" if "conn_user h d = Some v" "u_id v = u_id u" for d v
    using safe_signed_in [OF safe that(1)] safe_signed_in [OF safe assms(4)] that(2) by simp
  then show ?thesis
    using safe_signed_in [OF safe assms(4)] by (auto simp: standing_def split: option.splits)
qed


text \<open>C5. A server that starts with an administrator who is not banned always has one: no sequence of
  frames, whoever sends them, demotes, bans or deletes the last.\<close>

theorem administrator_remains:
  assumes "accounts_ok users" and "list_all (\<lambda>r. is_int32 (rr_capacity r)) rooms"
    and "reachable (new_hub mx i t users rooms chat notices sessions audit) h"
  shows "\<exists>a \<in> set (hub_users h). ac_role a = Admin \<and> \<not> r_banned (u_restrictions (ac_user a))
    \<and> users_find_by_id (hub_users h) (ac_id a) = Some a"
proof -
  have "hub_safe h" using reachable_safe [OF assms(3) new_hub_safe [OF assms(1,2)]] .
  then have "users_wf (hub_users h)" "list_ex active_admin (hub_users h)"
    by (simp_all add: hub_safe_def accounts_ok_def)
  then show ?thesis using find_by_id_mem by (auto simp: list_ex_iff active_admin_def)
qed

section \<open>The properties at work\<close>

fun fresh_run :: "event list \<Rightarrow> hub \<Rightarrow> bool" where
  "fresh_run [] h = True"
| "fresh_run (e # es) h = (served e \<and> fresh_draw toy_env h \<and> fresh_run es (hub_step (toy_env, e) h))"

lemma reachable_events: "reachable h0 h \<Longrightarrow> fresh_run es h \<Longrightarrow> reachable h0 (run es h)"
  by (induction es arbitrary: h) (auto simp: run_def intro: reachable.step)

lemma toy_accounts: "accounts_ok toy_users"
  by code_simp

lemma toy_safe: "fresh_run es toy_hub \<Longrightarrow> hub_safe (run es toy_hub)"
proof -
  assume "fresh_run es toy_hub"
  then have "reachable toy_hub (run es toy_hub)" by (rule reachable_events [OF reachable.start])
  moreover have "hub_safe toy_hub"
    unfolding toy_hub_def by (rule new_hub_safe [OF toy_accounts]) simp
  ultimately show ?thesis by (rule reachable_safe)
qed

definition toy_seated :: hub where
  "toy_seated = run both_seated toy_hub"

lemma toy_reached: "reachable (new_hub 8 (seconds 5) (seconds 15) toy_users [] empty_chat_store
    empty_notice_store empty_session_store empty_audit_log) toy_seated"
proof -
  have "fresh_run both_seated toy_hub" by code_simp
  then show ?thesis
    using reachable_events [OF reachable.start] by (simp only: toy_seated_def toy_hub_def)
qed

lemma toy_bob: "\<exists>u. conn_user toy_seated 2 = Some u \<and> u_id u = ''02''"
proof -
  have "map_option u_id (conn_user toy_seated 2) = Some ''02''" by code_simp
  then show ?thesis by (cases "conn_user toy_seated 2") simp_all
qed

lemma toy_sala: "\<exists>r. mgr_find (h_rooms toy_seated) ''012345'' = Some r
    \<and> map p_id (rm_participants r) = [''00'', ''02'']"
proof -
  have "map_option (\<lambda>r. map p_id (rm_participants r))
      (mgr_find (h_rooms toy_seated) ''012345'') = Some [''00'', ''02'']"
    by code_simp
  then show ?thesis by auto
qed

theorem signed_in_in_good_standing_witness:
  "connection_of_user toy_seated ''02'' = Some 2"
proof -
  obtain u where u: "conn_user toy_seated 2 = Some u" "u_id u = ''02''"
    using toy_bob by blast
  show ?thesis
    using signed_in_in_good_standing [OF toy_accounts _ toy_reached u(1)] u(2)
    by simp
qed


theorem administrator_remains_witness:
  "\<exists>a \<in> set (hub_users toy_seated). ac_role a = Admin"
  using administrator_remains [OF toy_accounts _ toy_reached]
  by auto

end
