(* ===== verification/HubGate.thy ===== *)
theory HubGate
  imports HubProperties
begin

text \<open>
  The refusals of the hub: what never reaches a handler, whose name a message may carry, and that a
  refusal is one error on the connection that asked and nothing else.
\<close>

section \<open>Refusals\<close>

text \<open>One error to the connection that asked, and everything else as it was, but for when that
  connection was last heard from and what it has cached of its account.\<close>

definition refusal :: "nat \<Rightarrow> string \<Rightarrow> hub \<Rightarrow> hub \<Rightarrow> bool" where
  "refusal c code h h' \<longleftrightarrow>
     (\<exists>text. h_out h' = [\<lparr>o_connection = c, o_message = ErrorMessage code text\<rparr>])
   \<and> h_media h' = [] \<and> h_fault h' = None \<and> h_audit h' = h_audit h
   \<and> h_auth h' = h_auth h \<and> h_rooms h' = h_rooms h \<and> h_notices h' = h_notices h
   \<and> h_sessions h' = h_sessions h \<and> h_user_to_connection h' = h_user_to_connection h
   \<and> conn_uid h' = conn_uid h \<and> (\<forall>d. d \<noteq> c \<longrightarrow> find_connection h' d = find_connection h d)"

text \<open>The hub a frame of a known connection is handled in.\<close>

definition heard :: "nat \<Rightarrow> time \<Rightarrow> hub \<Rightarrow> hub" where
  "heard c now h = upd_connection c (\<lambda>s. s\<lparr>cn_last_seen := now\<rparr>)
     (h\<lparr>h_out := [], h_media := [], h_fault := None\<rparr>)"

lemma on_message_heard:
  "find_connection h c \<noteq> None \<Longrightarrow> on_message E c (Inr m) now h = handle_frame E c m now (heard c now h)"
  by (auto simp: on_message_def heard_def Let_def find_connection_def)

lemma heard_frame [simp]:
  "h_auth (heard c now h) = h_auth h" "h_rooms (heard c now h) = h_rooms h"
  "h_notices (heard c now h) = h_notices h" "h_sessions (heard c now h) = h_sessions h"
  "h_audit (heard c now h) = h_audit h" "h_user_to_connection (heard c now h) = h_user_to_connection h"
  "h_out (heard c now h) = []" "h_media (heard c now h) = []" "h_fault (heard c now h) = None"
  "h_has_media (heard c now h) = h_has_media h"
  "connection_of_user (heard c now h) = connection_of_user h"
  by (simp_all add: heard_def connection_of_user_def fun_eq_iff)

lemma heard_connection:
  "find_connection (heard c now h) d = (if d = c then map_option (\<lambda>s. s\<lparr>cn_last_seen := now\<rparr>)
     (find_connection h c) else find_connection h d)"
  by (simp add: heard_def) (simp add: find_connection_def)

lemma heard_user [simp]: "conn_user (heard c now h) d = conn_user h d"
  by (simp add: conn_user_def heard_connection split: option.split)

lemma heard_uid [simp]: "conn_uid (heard c now h) = conn_uid h"
  by (simp add: fun_eq_iff conn_uid_def)

lemma heard_role [simp]:
  "current_role (heard c now h) i = current_role h i"
  "restrictions_of (heard c now h) i = restrictions_of h i"
  by (simp_all add: current_role_def restrictions_of_def)

lemma conn_uid_update_user:
  "(\<And>u. u_id (f u) = u_id u) \<Longrightarrow> conn_uid (upd_user c f h) = conn_uid h"
  using quiet_upd_user [of f h c] by (simp add: quiet_def)

lemma refusal_report:
  assumes "blank g = blank (heard c now h)" and "h_audit g = h_audit h"
    and "h_out g = [\<lparr>o_connection = c, o_message = ErrorMessage code text\<rparr>]" and "h_media g = []"
    and "h_fault g = None"
  shows "refusal c code h g"
  using assms(2-) blankD [OF assms(1)] views_blank [OF assms(1)]
  by (simp add: refusal_def heard_connection)

lemma refusal_err [simp]: "refusal c code h (err code msg c (heard c now h))"
  by (rule refusal_report) (simp_all add: err_def reply_error_def mk_error_def send_def blank_def)

lemma refusal_unauthorized [simp]:
  "refusal c ''unauthorized'' h (reply_error c (unauthorized msg) (heard c now h))"
  using refusal_err [of c "''unauthorized''" h msg now] by (simp add: err_def unauthorized_def)

lemma refusal_upd_user:
  "refusal c code h g \<Longrightarrow> (\<And>u. u_id (f u) = u_id u) \<Longrightarrow> refusal c code h (upd_user c f g)"
  by (simp add: refusal_def conn_uid_update_user) (simp add: upd_user_def)

lemma err_upd_user: "err code msg c (upd_user c f k) = upd_user c f (err code msg c k)"
  by (cases k) (simp add: err_def reply_error_def send_def upd_user_def upd_connection_def)

lemma refusal_cached [simp]:
  "(\<And>u. u_id (f u) = u_id u) \<Longrightarrow> refusal c code h (err code msg c (upd_user c f (heard c now h)))"
  using refusal_upd_user [OF refusal_err [of c code h msg now], of f]
  by (simp add: err_upd_user)

section \<open>The gate\<close>

text \<open>C23. The gate: before signing in nothing is answered but a login and the heartbeat; nobody may send
  what only the server sends; and an administrative message of an account whose role in the store is
  not administrator now, whatever it was at login, is refused. Each refusal is one error to the
  connection that asked, and it changes no account, room, conversation, notice, session, log or
  identity.\<close>

theorem gate_refuses:
  assumes "find_connection h c \<noteq> None"
    and "conn_user h c = None \<and> \<not> is_heartbeat m \<and> \<not> is_authenticate m
      \<or> access_for (type_of m) = AccServerToClient
      \<or> access_for (type_of m) = AccAdminOnly \<and> (\<exists>u. conn_user h c = Some u \<and> current_role h (u_id u) \<noteq> Admin)"
  shows "\<exists>code \<in> {''unauthorized'', ''unknown_message_type'', ''forbidden''}.
    refusal c code h (on_message E c (Inr m) now h)"
proof -
  have not_admin: "r \<noteq> Admin \<Longrightarrow> access_for t = AccAdminOnly \<Longrightarrow> \<not> is_allowed r t" for r t
    by (cases r) (simp_all add: is_allowed_def)
  show ?thesis
    unfolding on_message_heard [OF assms(1)]
    using assms(2) not_admin
    by (cases "conn_user h c"; cases "access_for (type_of m)") (auto simp: handle_frame_def Let_def)
qed

text \<open>The user a message says it is from.\<close>

fun claimed_sender :: "message \<Rightarrow> string option" where
  "claimed_sender (CreateRoom uid name persistent capacity) = Some uid"
| "claimed_sender (JoinRoom rid uid name) = Some uid"
| "claimed_sender (LeaveRoom rid uid) = Some uid"
| "claimed_sender (Offer rid f t sdp) = Some f"
| "claimed_sender (Answer rid f t sdp) = Some f"
| "claimed_sender (IceCandidate rid f t cand mid line) = Some f"
| "claimed_sender (Mute rid uid by_user) = Some uid"
| "claimed_sender (Unmute rid uid by_user) = Some uid"
| "claimed_sender (Nudge rid f t) = Some f"
| "claimed_sender (ScreenShareStarted rid uid audio) = Some uid"
| "claimed_sender (ScreenShareStopped rid uid) = Some uid"
| "claimed_sender (ChatMessage m) = Some (cm_user_id m)"
| "claimed_sender _ = None"

text \<open>C24. Nobody speaks for somebody else: a message that says it is from an account other than the one
  its connection signed in as is refused, and changes nothing.\<close>

theorem impersonation_refused:
  assumes "find_connection h c \<noteq> None" and "conn_user h c = Some u"
    and "claimed_sender m = Some x" and "x \<noteq> u_id u"
  shows "refusal c ''unauthorized'' h (on_message E c (Inr m) now h)"
proof -
  have [simp]: "refusal c ''unauthorized'' h (mismatch field c (heard c now h))" for field
    by (simp add: mismatch_def)
  show ?thesis
    unfolding on_message_heard [OF assms(1)]
    using assms(2-)
    by (cases m) (simp_all add: handle_frame_def with_user_def handle_create_room_def
        handle_join_room_def handle_leave_room_def handle_relay_def handle_mute_def handle_nudge_def
        handle_screen_share_def handle_chat_def)
qed

section \<open>The refusals at work\<close>

theorem gate_refuses_witness:
  "\<exists>code \<in> {''unauthorized'', ''unknown_message_type'', ''forbidden''}.
    refusal 2 code (run both_in toy_hub) (on_message toy_env 2 (Inr ListUsers) 9 (run both_in toy_hub))"
proof (rule gate_refuses)
  show "find_connection (run both_in toy_hub) 2 \<noteq> None" by code_simp
  have "current_role (run both_in toy_hub) ''02'' \<noteq> Admin" by code_simp
  then show "conn_user (run both_in toy_hub) 2 = None \<and> \<not> is_heartbeat ListUsers \<and> \<not> is_authenticate ListUsers
      \<or> access_for (type_of ListUsers) = AccServerToClient
      \<or> access_for (type_of ListUsers) = AccAdminOnly
        \<and> (\<exists>u. conn_user (run both_in toy_hub) 2 = Some u \<and> current_role (run both_in toy_hub) (u_id u) \<noteq> Admin)"
    using both_in_identities by (simp add: bob_def)
qed

theorem impersonation_refused_witness:
  "refusal 2 ''unauthorized'' (run both_in toy_hub)
     (on_message toy_env 2 (Inr (Mute ''012345'' ''00'' [])) 9 (run both_in toy_hub))"
proof (rule impersonation_refused)
  show "find_connection (run both_in toy_hub) 2 \<noteq> None" by code_simp
  show "conn_user (run both_in toy_hub) 2 = Some bob" using both_in_identities by simp
next
  show "''00'' \<noteq> u_id bob" by (simp add: bob_def)
qed simp

end
