(* ===== verification/HubRoomEffects.thy ===== *)
theory HubRoomEffects
  imports HubGate
begin

text \<open>
  What the handlers of a room do when they do not refuse: who hears what, in which order, and what
  stays behind in the state.
\<close>

section \<open>Who hears a broadcast\<close>

definition audience :: "hub \<Rightarrow> string \<Rightarrow> string option \<Rightarrow> nat list" where
  "audience h rid exc = (case mgr_find (h_rooms h) rid of None \<Rightarrow> []
     | Some r \<Rightarrow> List.map_filter (\<lambda>p. if exc = Some (p_id p) then None
          else connection_of_user h (p_id p)) (rm_participants r))"

definition telling :: "message \<Rightarrow> nat list \<Rightarrow> outgoing list" where
  "telling m cs = map (\<lambda>c. \<lparr>o_connection = c, o_message = m\<rparr>) cs"

lemma broadcast_out_audience: "broadcast_out rid m exc h = telling m (audience h rid exc)"
proof -
  have "concat (map (\<lambda>p. if exc = Some (p_id p) then []
         else (case connection_of_user h (p_id p) of None \<Rightarrow> []
               | Some c \<Rightarrow> [\<lparr>o_connection = c, o_message = m\<rparr>])) ps)
      = map (\<lambda>c. \<lparr>o_connection = c, o_message = m\<rparr>) (List.map_filter (\<lambda>p. if exc = Some (p_id p)
          then None else connection_of_user h (p_id p)) ps)" for ps
    by (induction ps) (auto simp: List.map_filter_simps split: option.split)
  then show ?thesis
    by (simp add: broadcast_out_def audience_def telling_def List.map_filter_simps split: option.split)
qed

lemma broadcast_telling:
  "broadcast rid m exc h = h\<lparr>h_out := h_out h @ telling m (audience h rid exc)\<rparr>"
  by (simp add: broadcast_eq broadcast_out_audience)

lemma audience_cong:
  "mgr_find (h_rooms g) rid = mgr_find (h_rooms h) rid \<Longrightarrow> connection_of_user g = connection_of_user h
    \<Longrightarrow> audience g rid exc = audience h rid exc"
  by (simp add: audience_def cong: if_cong option.case_cong)

lemma with_signed_in: "conn_user h c = Some u \<Longrightarrow> with_user c h k = k u"
  by (simp add: with_user_def)

lemma handle_frame_open:
  "conn_user h c = Some u \<Longrightarrow> access_for (type_of m) = AccAuthenticated \<Longrightarrow>
     handle_frame E c m now h = dispatch E c now m h"
  by (simp add: handle_frame_def)

lemma refused_forms:
  "\<exists>code. refusal c code h (err x y c (heard c now h))"
  "\<exists>code. refusal c code h (mismatch z c (heard c now h))"
  "\<exists>code. refusal c code h (room_not_found rid c (heard c now h))"
  unfolding mismatch_def room_not_found_def by (blast intro: refusal_err refusal_unauthorized)+

section \<open>The conversation\<close>

text \<open>A chat message of somebody in the room who is not silenced, with a text that is valid: what is
  stored carries the identity and the display name the room knows them by, never what the frame says,
  the text trimmed, and the server's clock; it is the last of the conversation, no other conversation
  changes, and exactly the people in the room, the author included, are sent that very message.\<close>

lemma chat_stored_and_sent:
  assumes "find_connection h c \<noteq> None" and "conn_user h c = Some u"
    and "cm_user_id m = u_id u" and "mgr_find (h_rooms h) (cm_room_id m) = Some r"
    and "room_find r (u_id u) = Some p" and "\<not> r_silenced (restrictions_of h (u_id u))"
    and "is_valid_chat_text (cm_text m)"
  shows "\<exists>stored. let h' = on_message E c (Inr (ChatMessage m)) now h; rid = cm_room_id m in
      cm_user_id stored = u_id u \<and> cm_display_name stored = u_display_name (p_user p)
    \<and> cm_text stored = trim_chat_text (cm_text m) \<and> cm_room_id stored = rid
    \<and> cm_timestamp_seconds stored = e_wall E
    \<and> chat_list (hub_chat h') rid n \<noteq> [] \<and> last (chat_list (hub_chat h') rid n) = stored
    \<and> (\<forall>other. other \<noteq> rid \<longrightarrow> chat_list (hub_chat h') other n = chat_list (hub_chat h) other n)
    \<and> h_out h' = telling (ChatMessage stored) (audience h rid None)"
proof -
  let ?rid = "cm_room_id m" and ?g = "heard c now h"
  define written where "written = \<lparr>cm_id = [], cm_room_id = ?rid, cm_user_id = u_id u,
      cm_display_name = u_display_name (p_user p), cm_text = trim_chat_text (cm_text m),
      cm_timestamp_seconds = 0\<rparr>"
  obtain stored s where ap: "chat_append (e_wall E) written (hub_chat h) = (Inr stored, s)"
    by (simp add: chat_append_def Let_def)
  have chat: "hub_chat ?g = hub_chat h" by (simp add: hub_chat_def)
  have h': "on_message E c (Inr (ChatMessage m)) now h
      = broadcast ?rid (ChatMessage stored) None (set_hub_chat s ?g)"
    unfolding on_message_heard [OF assms(1)]
    using assms(2-) ap
    by (simp add: handle_frame_open handle_chat_def with_signed_in written_def chat)
  have st: "cm_room_id stored = ?rid \<and> cm_user_id stored = u_id u
      \<and> cm_display_name stored = u_display_name (p_user p) \<and> cm_text stored = trim_chat_text (cm_text m)"
    using mem_chat.append_content [of "e_wall E" written "hub_chat h" stored] ap by (simp add: written_def)
  have ts: "cm_timestamp_seconds stored = e_wall E"
    using ap by (auto simp: chat_append_def Let_def written_def)
  have sn: "hub_chat (on_message E c (Inr (ChatMessage m)) now h) = s"
    by (simp add: h' broadcast_eq hub_chat_def set_hub_chat_def)
  have hist: "chat_list s ?rid n \<noteq> [] \<and> last (chat_list s ?rid n) = stored"
    using mem_chat.append_last [of "e_wall E" written "hub_chat h" stored n] ap by (simp add: written_def)
  have other: "chat_list s r n = chat_list (hub_chat h) r n" if "r \<noteq> ?rid" for r
    using mem_chat.append_other [of r written "e_wall E" "hub_chat h" n] that ap
    by (simp add: written_def)
  have "audience (set_hub_chat s ?g) ?rid None = audience h ?rid None"
    by (rule audience_cong) (simp_all add: set_hub_chat_def mgr_find_def fun_eq_iff connection_of_user_def)
  then have "h_out (on_message E c (Inr (ChatMessage m)) now h)
      = telling (ChatMessage stored) (audience h ?rid None)"
    by (simp add: h' broadcast_telling set_hub_chat_def)
  with st ts sn hist other show ?thesis by (auto simp: Let_def)
qed

text \<open>An account silenced in the store writes nothing and nudges nobody, from the moment the store
  says so: the frame is refused and nothing is stored or sent on.\<close>

lemma silenced_is_refused:
  assumes "find_connection h c \<noteq> None" and "conn_user h c = Some u"
    and "r_silenced (restrictions_of h (u_id u))"
    and "m = ChatMessage msg \<and> cm_user_id msg = u_id u \<and> cm_room_id msg = rid
      \<or> m = Nudge rid (u_id u) other \<and> other \<noteq> u_id u \<and> room_find r other \<noteq> None"
    and "mgr_find (h_rooms h) rid = Some r" and "room_contains r (u_id u)"
  shows "refusal c ''forbidden'' h (on_message E c (Inr m) now h)"
proof -
  obtain p where p: "room_find r (u_id u) = Some p"
    using assms(6) by (auto simp: room_contains_def)
  show ?thesis
    unfolding on_message_heard [OF assms(1)]
    using assms(2-) p
    by (auto simp: handle_frame_open handle_chat_def handle_nudge_def with_signed_in)
qed

section \<open>Nudges\<close>

lemma heard_last_nudge [simp]: "last_nudge (heard c now h) c = last_nudge h c"
  by (simp add: last_nudge_def heard_connection split: option.split)

lemma last_nudge_send: "last_nudge (send d m h) c = last_nudge h c"
  by (simp add: last_nudge_def)

text \<open>A nudge is refused, or it was from the account of its connection to somebody else in the same
  room, the sender not silenced and five seconds past the last one that went through on that
  connection; then it goes to the other person and back to the sender and to nobody else, and the
  clock of the connection starts again.\<close>

lemma nudge_effect:
  assumes "find_connection h c \<noteq> None" and "conn_user h c = Some u"
  shows "let h' = on_message E c (Inr (Nudge rid from to)) now h in
      (\<exists>code. refusal c code h h')
    \<or> (from = u_id u \<and> to \<noteq> u_id u
       \<and> (\<exists>r. mgr_find (h_rooms h) rid = Some r \<and> room_contains r from \<and> room_contains r to)
       \<and> \<not> r_silenced (restrictions_of h from)
       \<and> (last_nudge h c = None \<or> (\<exists>t. last_nudge h c = Some t \<and> seconds 5 \<le> now - t))
       \<and> last_nudge h' c = Some now
       \<and> h_out h' = telling (Nudge rid from to)
           ((case connection_of_user h to of None \<Rightarrow> [] | Some d \<Rightarrow> [d]) @ [c]))"
proof -
  let ?g = "heard c now h"
  have user: "conn_user ?g c = Some u" using assms(2) by simp
  have m: "on_message E c (Inr (Nudge rid from to)) now h = handle_nudge c rid from to now ?g"
    unfolding on_message_heard [OF assms(1)] using user by (simp add: handle_frame_open)
  have bad: "\<exists>code. refusal c code h (err x y c ?g)" "\<exists>code. refusal c code h (mismatch z c ?g)"
    "\<exists>code. refusal c code h (room_not_found rid c ?g)" for x y z
    by (rule refused_forms)+
  let ?ok = "\<lambda>r. from = u_id u \<and> mgr_find (h_rooms h) rid = Some r \<and> room_contains r from \<and> to \<noteq> u_id u
    \<and> room_find r to \<noteq> None \<and> \<not> r_silenced (restrictions_of h from) \<and> \<not> too_soon (last_nudge h c) now"
  show ?thesis
  proof (cases "\<exists>r. ?ok r")
    case False
    then have "\<exists>code. refusal c code h (handle_nudge c rid from to now ?g)"
      using user bad
      by (cases "mgr_find (h_rooms h) rid") (auto simp: handle_nudge_def with_signed_in)
    then show ?thesis by (simp add: m Let_def)
  next
    case True
    then obtain r where ok: "from = u_id u" "mgr_find (h_rooms h) rid = Some r" "room_contains r from"
      "to \<noteq> u_id u" "room_find r to \<noteq> None" "\<not> r_silenced (restrictions_of h from)"
      "\<not> too_soon (last_nudge h c) now" by (elim exE conjE)
    then obtain p where p: "room_find r to = Some p" by blast
    let ?w = "upd_connection c (\<lambda>s. s\<lparr>cn_last_nudge := Some now\<rparr>) ?g"
    have h': "handle_nudge c rid from to now ?g = send c (Nudge rid from to)
        (case connection_of_user h to of None \<Rightarrow> ?w | Some d \<Rightarrow> send d (Nudge rid from to) ?w)"
      unfolding ok(1) using user ok p by (simp add: handle_nudge_def with_signed_in Let_def)
    have ln: "last_nudge ?w c = Some now"
      using assms(1) by (auto simp: last_nudge_def heard_connection)
    have "last_nudge (handle_nudge c rid from to now ?g) c = Some now"
      unfolding h' last_nudge_send using ln by (cases "connection_of_user h to") (simp_all add: last_nudge_send)
    moreover have "h_out (handle_nudge c rid from to now ?g) = telling (Nudge rid from to)
        ((case connection_of_user h to of None \<Rightarrow> [] | Some d \<Rightarrow> [d]) @ [c])"
      unfolding h' by (simp add: send_eq telling_def split: option.split)
    moreover have "last_nudge h c = None \<or> (\<exists>t. last_nudge h c = Some t \<and> seconds 5 \<le> now - t)"
      using ok by (auto simp: too_soon_def kNudgeCooldown_def split: option.splits)
    ultimately show ?thesis
      unfolding m Let_def using ok by (simp add: room_contains_def)
  qed
qed

section \<open>The media relay\<close>

fun relay_parts :: "message \<Rightarrow> (string \<times> string \<times> string) option" where
  "relay_parts (Offer rid f t sdp) = Some (rid, f, t)"
| "relay_parts (Answer rid f t sdp) = Some (rid, f, t)"
| "relay_parts (IceCandidate rid f t cand mid line) = Some (rid, f, t)"
| "relay_parts _ = None"

lemma dispatch_relay:
  "relay_parts m = Some (rid, f, t) \<Longrightarrow>
     dispatch E c now m h = handle_relay c m rid f t h \<and> access_for (type_of m) = AccAuthenticated"
  by (cases m) simp_all

text \<open>An offer, an answer or a candidate is refused, or it is handed on unread, as it came, to the
  one it is addressed to: the connection of somebody in the same room, or the media layer when there
  is one. The hub keeps nothing of it.\<close>

lemma relay_effect:
  assumes "find_connection h c \<noteq> None" and "conn_user h c = Some u"
    and "relay_parts m = Some (rid, from, to)"
  shows "let h' = on_message E c (Inr m) now h in
      (\<exists>code. refusal c code h h')
    \<or> (from = u_id u \<and> blank h' = blank (heard c now h)
       \<and> (\<exists>r. mgr_find (h_rooms h) rid = Some r \<and> room_contains r from
          \<and> (if to = kSfuUserId then h_has_media h \<and> h_out h' = [] \<and> h_media h' = [MediaSignal rid from m]
             else room_contains r to \<and> h_media h' = []
               \<and> (\<exists>d. connection_of_user h to = Some d \<and> h_out h' = telling m [d]))))"
proof -
  let ?g = "heard c now h"
  have user: "conn_user ?g c = Some u" using assms(2) by simp
  have m: "on_message E c (Inr m) now h = handle_relay c m rid from to ?g"
    unfolding on_message_heard [OF assms(1)]
    using user dispatch_relay [OF assms(3)] by (simp add: handle_frame_open)
  have bad: "\<exists>code. refusal c code h (err x y c ?g)" "\<exists>code. refusal c code h (mismatch z c ?g)"
    "\<exists>code. refusal c code h (room_not_found rid c ?g)" for x y z
    by (rule refused_forms)+
  show ?thesis
    unfolding m Let_def
    using bad user
    by (cases "mgr_find (h_rooms h) rid"; cases "connection_of_user h to")
      (simp_all add: handle_relay_def with_signed_in send_eq telling_def tell_media_def blank_def)
qed

section \<open>Joining\<close>

definition telling_all :: "nat \<Rightarrow> message list \<Rightarrow> outgoing list" where
  "telling_all c ms = map (\<lambda>m. \<lparr>o_connection = c, o_message = m\<rparr>) ms"

definition share_notice :: "string \<Rightarrow> room \<Rightarrow> message list" where
  "share_notice rid r = (case screen_sharer r of None \<Rightarrow> []
     | Some s \<Rightarrow> [ScreenShareStarted rid (p_id s) (p_sharing_audio s)])"

lemma fold_greet:
  "fold (\<lambda>p h. if p_id p = uid then h else send c (f p) h) ps h
     = h\<lparr>h_out := h_out h @ telling_all c (map f (filter (\<lambda>p. p_id p \<noteq> uid) ps))\<rparr>"
  by (induction ps arbitrary: h) (simp_all add: send_eq telling_all_def)

lemma broadcast_room_list_telling:
  "broadcast_room_list h
     = h\<lparr>h_out := h_out h @ telling (room_list h) (map snd (h_user_to_connection h))\<rparr>"
  by (simp add: broadcast_room_list_eq telling_def split_def comp_def)

lemma audience_out [simp]: "audience (h\<lparr>h_out := x\<rparr>) rid exc = audience h rid exc"
  by (rule audience_cong) (simp_all add: fun_eq_iff)

lemma lists_out [simp]:
  "room_list (h\<lparr>h_out := x\<rparr>) = room_list h" "chat_history (h\<lparr>h_out := x\<rparr>) rid n = chat_history h rid n"
  by (simp_all add: room_list_def chat_history_def hub_chat_def)

lemma greet_out:
  assumes "mgr_find (h_rooms h) rid = Some room"
  shows "h_out (greet c rid user h) = h_out h
      @ telling_all c (map (\<lambda>p. UserJoined rid (p_user p))
            (filter (\<lambda>p. p_id p \<noteq> u_id user) (rm_participants room))
          @ [UserJoined rid user] @ share_notice rid room @ [chat_history h rid 0])
      @ telling (UserJoined rid user) (audience h rid (Some (u_id user)))
      @ telling (room_list h) (map snd (h_user_to_connection h))"
  using assms
  by (simp add: greet_def Let_def fold_greet send_eq broadcast_telling broadcast_room_list_telling
      telling_all_def share_notice_def tell_media_def split: option.split)

lemma greet_rooms [simp]:
  "h_rooms (greet c rid user h) = h_rooms h"
  by (simp add: greet_def Let_def fold_greet send_eq broadcast_telling broadcast_room_list_telling
      tell_media_def throw_hub_def split: option.split)

lemma join_unseated:
  assumes wf: "mgr_wf M" and r: "mgr_find M rid = Some r" "\<not> room_is_full r" "room_of M (u_id u) = None"
  shows "\<exists>M'. join rid u M = (None, M') \<and> mgr_chat M' = mgr_chat M
    \<and> mgr_find M' rid = Some (set_participants (\<lambda>ps. ps @ [new_participant u]) r)
    \<and> room_of M' (u_id u) = Some rid"
proof -
  have "\<not> room_contains r (u_id u)" using r room_of_contains [OF wf, of "u_id u" rid] by simp
  then show ?thesis
    using r by (simp add: join_def mgr_find_def room_of_def)
qed

lemma joined_room_facts:
  assumes "room_find r uid = None" and "p_id np = uid" and "\<not> p_sharing_screen np"
  shows "filter (\<lambda>p. p_id p \<noteq> uid) (rm_participants (set_participants (\<lambda>ps. ps @ [np]) r))
      = rm_participants r
    \<and> share_notice rid (set_participants (\<lambda>ps. ps @ [np]) r) = share_notice rid r"
proof -
  have "\<forall>p \<in> set (rm_participants r). p_id p \<noteq> uid"
    using assms(1) by (simp add: room_find_def find_None_iff)
  moreover have "List.find p_sharing_screen (ps @ [np]) = List.find p_sharing_screen ps" for ps
    using assms(3) by (induction ps) simp_all
  ultimately show ?thesis
    using assms(2) by (simp add: set_participants_def share_notice_def screen_sharer_def filter_id_conv)
qed

lemma set_muted_newcomer:
  assumes "mgr_find M rid = Some (set_participants (\<lambda>ps. ps @ [np]) r)"
    and "room_find r uid = None" and "p_id np = uid"
  shows "mgr_find (snd (set_muted rid uid True True M)) rid
      = Some (set_participants (\<lambda>ps. ps @ [np\<lparr>p_muted := True, p_muted_by_admin := True\<rparr>]) r)
    \<and> mgr_chat (snd (set_muted rid uid True True M)) = mgr_chat M"
proof -
  have no: "\<forall>p \<in> set ps. p_id p \<noteq> uid \<Longrightarrow> update_first (\<lambda>p. p_id p = uid) f (ps @ [np]) = ps @ [f np]
      \<and> List.find (\<lambda>p. p_id p = uid) (ps @ [np]) = Some np" for ps f
    using assms(3) by (induction ps) auto
  have "\<forall>p \<in> set (rm_participants r). p_id p \<noteq> uid"
    using assms(2) by (simp add: room_find_def find_None_iff)
  from no [OF this] show ?thesis
    using assms(1) by (simp add: set_muted_def mgr_find_def room_find_def set_participants_def
        update_participant_def)
qed

lemma enter_unseated:
  assumes wf: "mgr_wf (h_rooms g)" and r: "mgr_find (h_rooms g) rid = Some r" "\<not> room_is_full r"
    "room_of (h_rooms g) (u_id u) = None"
  shows "\<exists>g' np. enter_room c rid u g = (True, g') \<and> h_out g' = h_out g
    \<and> h_user_to_connection g' = h_user_to_connection g
    \<and> hub_chat g' = hub_chat g \<and> room_of (h_rooms g') (u_id u) = Some rid
    \<and> mgr_find (h_rooms g') rid = Some (set_participants (\<lambda>ps. ps @ [np]) r)
    \<and> p_user np = u \<and> \<not> p_sharing_screen np \<and> p_muted np = r_muted (u_restrictions u)
    \<and> participant_wf np"
proof -
  obtain M' where j: "join rid u (h_rooms g) = (None, M')" "mgr_chat M' = mgr_chat (h_rooms g)"
      "mgr_find M' rid = Some (set_participants (\<lambda>ps. ps @ [new_participant u]) r)"
      "room_of M' (u_id u) = Some rid"
    using join_unseated [OF wf r] by blast
  have none: "room_find r (u_id u) = None"
    using r room_of_contains [OF wf, of "u_id u" rid] by (simp add: room_contains_def)
  have id: "p_id (new_participant u) = u_id u" by (simp add: new_participant_def p_id_def)
  let ?N = "if r_muted (u_restrictions u) then snd (set_muted rid (u_id u) True True M') else M'"
  let ?np = "if r_muted (u_restrictions u) then (new_participant u)\<lparr>p_muted := True, p_muted_by_admin := True\<rparr>
      else new_participant u"
  obtain g' where g': "enter_room c rid u g = (True, g')" "h_rooms g' = ?N" "h_out g' = h_out g"
      "h_user_to_connection g' = h_user_to_connection g"
    using j(1) r(3) by (auto simp: enter_room_def Let_def upd_user_def split: if_split)
  have "mgr_find ?N rid = Some (set_participants (\<lambda>ps. ps @ [?np]) r) \<and> mgr_chat ?N = mgr_chat M'
      \<and> room_of ?N (u_id u) = Some rid"
    using set_muted_newcomer [OF j(3) none id] j by simp
  then have "mgr_find (h_rooms g') rid = Some (set_participants (\<lambda>ps. ps @ [?np]) r)"
    "hub_chat g' = hub_chat g" "room_of (h_rooms g') (u_id u) = Some rid"
    using g' j(2) by (simp_all add: hub_chat_def)
  moreover have "p_user ?np = u \<and> \<not> p_sharing_screen ?np \<and> p_muted ?np = r_muted (u_restrictions u)
      \<and> participant_wf ?np"
    by (simp add: new_participant_def participant_wf_def)
  ultimately show ?thesis using g' by blast
qed

lemma joined_room:
  assumes safe: "hub_safe h" and c: "find_connection h c \<noteq> None" "conn_user h c = Some u"
    and r: "room_of (h_rooms h) (u_id u) = None" "mgr_find (h_rooms h) rid = Some r" "\<not> room_is_full r"
    and user: "user = (joining_name name u)\<lparr>u_restrictions := restrictions_of h (u_id u)\<rparr>"
  shows "let h' = on_message E c (Inr (JoinRoom rid (u_id u) name)) now h in
      room_of (h_rooms h') (u_id u) = Some rid
    \<and> (\<exists>np. mgr_find (h_rooms h') rid = Some (set_participants (\<lambda>ps. ps @ [np]) r)
          \<and> p_user np = user \<and> \<not> p_sharing_screen np \<and> p_muted np = r_muted (u_restrictions user)
          \<and> participant_wf np)
    \<and> h_out h' = telling_all c (map (\<lambda>p. UserJoined rid (p_user p)) (rm_participants r)
          @ [UserJoined rid user] @ share_notice rid r @ [chat_history h rid 0])
        @ telling (UserJoined rid user) (audience h rid None)
        @ telling (room_list h') (map snd (h_user_to_connection h))"
proof -
  let ?rs = "restrictions_of h (u_id u)"
  define g where "g = upd_user c (\<lambda>u. u\<lparr>u_restrictions := ?rs\<rparr>) (heard c now h)"
  have frame: "h_rooms g = h_rooms h" "h_out g = []" "h_user_to_connection g = h_user_to_connection h"
    by (simp_all add: g_def upd_user_def)
  have id: "u_id user = u_id u" by (simp add: user)
  have "standing (hub_users h) (u_id u)"
    using safe_signed_in [OF safe c(2)] by simp
  then have ok: "\<not> r_banned ?rs"
    by (auto simp: standing_def restrictions_of_def split: option.splits)
  have wf: "mgr_wf (h_rooms g)" using safe by (simp add: frame hub_safe_def mgr_good_def)
  obtain g' np where g': "enter_room c rid user g = (True, g')" "h_out g' = []"
      "h_user_to_connection g' = h_user_to_connection h" "hub_chat g' = hub_chat g"
      "room_of (h_rooms g') (u_id u) = Some rid"
      "mgr_find (h_rooms g') rid = Some (set_participants (\<lambda>ps. ps @ [np]) r)"
      "p_user np = user" "\<not> p_sharing_screen np" "p_muted np = r_muted (u_restrictions user)" "participant_wf np"
    using enter_unseated [OF wf, of rid r user c] r frame id by auto
  have np: "p_id np = u_id u" using g'(7) id by (simp add: p_id_def)
  have h': "on_message E c (Inr (JoinRoom rid (u_id u) name)) now h = greet c rid user g'"
    unfolding on_message_heard [OF c(1)]
    using c(2) g'(1) ok
    by (simp add: handle_frame_open handle_join_room_def with_signed_in Let_def user g_def)
  have none: "room_find r (u_id u) = None"
    using r room_of_contains [OF wf, of "u_id u" rid] by (simp add: frame room_contains_def)
  have hist: "chat_history g' rid 0 = chat_history h rid 0"
    using g'(4) by (simp add: chat_history_def) (simp add: hub_chat_def frame)
  have aud: "audience g' rid (Some (u_id u)) = audience h rid None"
  proof -
    have "\<forall>p \<in> set (rm_participants r). p_id p \<noteq> u_id u"
      using none by (simp add: room_find_def find_None_iff)
    moreover have "connection_of_user g' = connection_of_user h"
      using g'(3) by (simp add: connection_of_user_def fun_eq_iff)
    moreover have "\<forall>p \<in> set ps. p_id p \<noteq> u_id u \<Longrightarrow> List.map_filter (\<lambda>p. if u_id u = p_id p then None
        else f (p_id p)) (ps @ [np]) = List.map_filter (\<lambda>p. f (p_id p)) ps" for ps f
      using np by (induction ps) (auto simp: List.map_filter_simps split: option.split)
    ultimately show ?thesis
      using g'(6) r(2) by (simp add: audience_def set_participants_def cong: if_cong)
  qed
  have "room_list (greet c rid user g') = room_list g'" by (simp add: room_list_def)
  then have "h_out (greet c rid user g') = telling_all c (map (\<lambda>p. UserJoined rid (p_user p)) (rm_participants r)
        @ [UserJoined rid user] @ share_notice rid r @ [chat_history h rid 0])
      @ telling (UserJoined rid user) (audience h rid None)
      @ telling (room_list (greet c rid user g')) (map snd (h_user_to_connection h))"
    unfolding greet_out [OF g'(6)]
    using joined_room_facts [OF none np g'(8)] g' id hist aud by simp
  moreover have "\<exists>np. mgr_find (h_rooms (greet c rid user g')) rid = Some (set_participants (\<lambda>ps. ps @ [np]) r)
      \<and> p_user np = user \<and> \<not> p_sharing_screen np \<and> p_muted np = r_muted (u_restrictions user)
      \<and> participant_wf np"
    by (rule exI [of _ np]) (use g' in simp)
  ultimately show ?thesis unfolding h' Let_def using g'(5) by simp
qed

text \<open>Walking into a room from outside any room: the newcomer is told of everybody there in the
  order of the room, then of themselves, then of the share in progress if there is one, then what was
  said; only then everybody who was there is told of the newcomer, under the same identity, and the
  list of rooms goes to every account signed in. The newcomer is told of themselves exactly once.\<close>

lemma join_greets:
  assumes safe: "hub_safe h" and c: "find_connection h c \<noteq> None" "conn_user h c = Some u"
    and r: "room_of (h_rooms h) (u_id u) = None" "mgr_find (h_rooms h) rid = Some r" "\<not> room_is_full r"
    and user: "user = (joining_name name u)\<lparr>u_restrictions := restrictions_of h (u_id u)\<rparr>"
  shows "let h' = on_message E c (Inr (JoinRoom rid (u_id u) name)) now h in
      room_of (h_rooms h') (u_id u) = Some rid
    \<and> h_out h' = telling_all c (map (\<lambda>p. UserJoined rid (p_user p)) (rm_participants r)
          @ [UserJoined rid user] @ share_notice rid r @ [chat_history h rid 0])
        @ telling (UserJoined rid user) (audience h rid None)
        @ telling (room_list h') (map snd (h_user_to_connection h))"
  using joined_room [OF assms] by (simp add: Let_def)

section \<open>The effects at work\<close>

definition hello :: chat_message where
  "hello = \<lparr>cm_id = ''9'', cm_room_id = ''012345'', cm_user_id = ''02'', cm_display_name = ''root'',
     cm_text = '' hi '', cm_timestamp_seconds = 5\<rparr>"

definition seated :: hub where
  "seated = run both_seated toy_hub"

definition sala :: room where
  "sala = the (mgr_find (h_rooms seated) ''012345'')"

lemma seated_facts:
  "find_connection seated 2 \<noteq> None \<and> conn_user seated 2 = Some bob
    \<and> mgr_find (h_rooms seated) ''012345'' = Some sala
    \<and> room_find sala ''02'' = Some (new_participant bob) \<and> room_contains sala ''00''
    \<and> \<not> r_silenced (restrictions_of seated ''02'')"
proof -
  have "mgr_find (h_rooms seated) ''012345'' \<noteq> None" by code_simp
  then have "mgr_find (h_rooms seated) ''012345'' = Some sala" by (auto simp: sala_def)
  moreover have "find_connection seated 2 \<noteq> None" by code_simp
  moreover have "conn_user seated 2 = Some bob" by code_simp
  moreover have "room_find sala ''02'' = Some (new_participant bob)" by code_simp
  moreover have "room_contains sala ''00''" by code_simp
  moreover have "\<not> r_silenced (restrictions_of seated ''02'')" by code_simp
  ultimately show ?thesis by blast
qed

lemma chat_stored_and_sent_witness:
  "\<exists>stored. cm_text stored = ''hi'' \<and> cm_display_name stored = ''bob''
    \<and> h_out (on_message toy_env 2 (Inr (ChatMessage hello)) 9 seated) = telling (ChatMessage stored) [1, 2]"
proof -
  have "is_valid_chat_text (cm_text hello)" by code_simp
  moreover have "audience seated ''012345'' None = [1, 2]" by code_simp
  moreover have "trim_chat_text '' hi '' = ''hi''" by code_simp
  ultimately show ?thesis
    using chat_stored_and_sent [of seated 2 bob hello sala "new_participant bob" toy_env 9 0] seated_facts
    by (auto simp: hello_def bob_def new_participant_def Let_def)
qed

lemma nudge_effect_witness:
  "h_out (on_message toy_env 2 (Inr (Nudge ''012345'' ''02'' ''00'')) 9 seated)
      = telling (Nudge ''012345'' ''02'' ''00'') [1, 2]
    \<or> (\<exists>code. refusal 2 code seated (on_message toy_env 2 (Inr (Nudge ''012345'' ''02'' ''00'')) 9 seated))"
proof -
  have "connection_of_user seated ''00'' = Some 1" by code_simp
  then show ?thesis
    using nudge_effect [of seated 2 bob toy_env "''012345''" "''02''" "''00''" 9] seated_facts
    by (auto simp: Let_def)
qed

lemma relay_effect_witness:
  "let h' = on_message toy_env 2 (Inr (Offer ''012345'' ''02'' ''00'' ''v=0'')) 9 seated in
     (\<exists>code. refusal 2 code seated h')
   \<or> h_out h' = telling (Offer ''012345'' ''02'' ''00'' ''v=0'') [1]"
proof -
  have "connection_of_user seated ''00'' = Some 1" by code_simp
  moreover have "''00'' \<noteq> kSfuUserId" by (simp add: kSfuUserId_def)
  ultimately show ?thesis
    using relay_effect [of seated 2 bob "Offer ''012345'' ''02'' ''00'' ''v=0''" "''012345''" "''02''" "''00''"
        toy_env 9] seated_facts
    by (auto simp: Let_def)
qed

definition silenced :: hub where
  "silenced = run (both_seated @ [client 1 (RestrictUser ''02'' None None (Some True) None [])]) toy_hub"

lemma silenced_is_refused_witness:
  "refusal 2 ''forbidden'' silenced (on_message toy_env 2 (Inr (ChatMessage hello)) 9 silenced)"
proof -
  have f: "find_connection silenced 2 \<noteq> None" by code_simp
  have u: "map_option u_id (conn_user silenced 2) = Some ''02''" by code_simp
  then obtain u where u: "conn_user silenced 2 = Some u" "u_id u = ''02''" by auto
  have s: "r_silenced (restrictions_of silenced ''02'')" by code_simp
  have "\<exists>r. mgr_find (h_rooms silenced) ''012345'' = Some r \<and> room_contains r ''02''"
  proof -
    have "map_option (\<lambda>r. room_contains r ''02'') (mgr_find (h_rooms silenced) ''012345'') = Some True"
      by code_simp
    then show ?thesis by auto
  qed
  then obtain r where r: "mgr_find (h_rooms silenced) ''012345'' = Some r" "room_contains r ''02''"
    by (elim exE conjE)
  show ?thesis
    by (rule silenced_is_refused [where msg = hello, OF f u(1) _ _ r(1)])
      (use s r u in \<open>simp_all add: hello_def\<close>)
qed

definition lobby :: hub where
  "lobby = run (both_in @ [client 1 (CreateRoom ''00'' ''sala'' False 0),
     client 1 (JoinRoom ''012345'' ''00'' [])]) toy_hub"

lemma join_greets_witness:
  "room_of (h_rooms (on_message toy_env 2 (Inr (JoinRoom ''012345'' ''02'' ''Bob B'')) 9 lobby)) ''02''
     = Some ''012345''"
proof -
  have safe: "hub_safe lobby" unfolding lobby_def by (rule toy_safe) code_simp
  have c: "find_connection lobby 2 \<noteq> None" "conn_user lobby 2 = Some bob" by code_simp+
  have "map_option room_is_full (mgr_find (h_rooms lobby) ''012345'') = Some False" by code_simp
  then obtain r where r: "mgr_find (h_rooms lobby) ''012345'' = Some r" "\<not> room_is_full r" by auto
  have none: "room_of (h_rooms lobby) (u_id bob) = None" by code_simp
  have id: "u_id bob = ''02''" by (simp add: bob_def)
  show ?thesis
    using join_greets [OF safe c none r refl, of toy_env "''Bob B''" 9] by (simp add: Let_def id)
qed

end
