(* ===== verification/HubAdminEffects.thy ===== *)
theory HubAdminEffects
  imports HubRoomEffects
begin

text \<open>
  What an administrator's orders do: an ended session, a ban, a deleted account, somebody put out of
  a room.
\<close>

section \<open>Outputs only grow\<close>

definition grows :: "hub \<Rightarrow> hub \<Rightarrow> bool" where
  "grows h h' \<longleftrightarrow> (\<exists>more. h_out h' = h_out h @ more)"

lemma grows_refl [simp]: "grows h h"
  by (simp add: grows_def)

lemma grows_trans: "grows a b \<Longrightarrow> grows b c \<Longrightarrow> grows a c"
  by (auto simp: grows_def)

lemma grows_reports:
  "grows g h \<Longrightarrow> grows g (send c m h)" "grows g h \<Longrightarrow> grows g (broadcast rid m exc h)"
  "grows g h \<Longrightarrow> grows g (broadcast_room_list h)" "grows g h \<Longrightarrow> grows g (tell_media call h)"
  "grows g h \<Longrightarrow> grows g (upd_connection c f h)" "grows g h \<Longrightarrow> grows g (h\<lparr>h_rooms := M\<rparr>)"
  "grows g h \<Longrightarrow> grows g (h\<lparr>h_auth := A\<rparr>)" "grows g h \<Longrightarrow> grows g (h\<lparr>h_user_to_connection := U\<rparr>)"
  "grows g h \<Longrightarrow> grows g (h\<lparr>h_sessions := S\<rparr>)"
  by (auto simp: grows_def send_eq broadcast_eq broadcast_room_list_eq tell_media_def)

lemma grows_evict: "grows h (evict rid uid reason h)"
  by (simp add: evict_def Let_def grows_reports split: option.split)

lemma grows_close: "grows g h \<Longrightarrow> grows g (drop_identity c (close_session E c h))"
  by (simp add: drop_identity_def close_session_def Let_def grows_reports split: option.split)

lemma end_session_tells:
  assumes "connection_of_user h uid = Some c"
  shows "\<exists>more. h_out (end_session_of E uid reason h)
    = h_out h @ \<lparr>o_connection = c, o_message = SessionEnded reason\<rparr> # more"
proof -
  let ?s = "send c (SessionEnded reason) h"
  let ?e = "case room_of (h_rooms ?s) uid of None \<Rightarrow> ?s | Some rid \<Rightarrow> evict rid uid reason ?s"
  let ?r = "?e\<lparr>h_auth := revoke_tokens_of uid (h_auth ?e)\<rparr>"
  have "grows ?s ?r"
    by (cases "room_of (h_rooms ?s) uid") (simp_all add: grows_reports grows_evict)
  then have "grows ?s (end_session_of E uid reason h)"
    using assms by (simp add: end_session_of_def Let_def grows_reports grows_close split: option.split)
  then show ?thesis by (auto simp: grows_def send_eq)
qed

section \<open>An ended session\<close>

lemma validate_owner:
  assumes "fst (validate tok now A) = Inr u"
  shows "u_id u \<in> (\<lambda>(_, t). tk_user_id t) ` set (at_tokens A)"
proof -
  obtain t where t: "map_of (at_tokens A) tok = Some t"
    using assms by (cases "map_of (at_tokens A) tok") (simp_all add: validate_def Let_def)
  moreover obtain a where a: "users_find_by_id (at_users A) (tk_user_id t) = Some a" "u = ac_user a"
    using assms t by (auto simp: validate_def Let_def split: if_splits option.splits)
  moreover have "u_id u = tk_user_id t"
    using mem_users.by_id_id [OF a(1)] a(2) by (simp add: ac_id_def)
  ultimately show ?thesis by (force dest: map_of_SomeD)
qed

text \<open>Ending the session of an account, which a ban, a deletion, a change of password and an
  administrator do: its own connection is told first, and then nothing of it is left. No connection
  carries the identity, the server has no connection on record for it, it is in no room and none of
  its tokens resolves. No other connection loses its identity, no other account its connection or its
  seat, and the accounts are as they were.\<close>

lemma session_ends_at_once:
  assumes "hub_safe h"
  shows "let h' = end_session_of E uid reason h in
      connection_of_user h' = (connection_of_user h)(uid := None)
    \<and> (\<forall>c. conn_uid h' c \<noteq> Some uid)
    \<and> (\<forall>c. conn_uid h' c = (if connection_of_user h uid = Some c then None else conn_uid h c))
    \<and> (\<forall>v. room_of (h_rooms h') v = (if v = uid then None else room_of (h_rooms h) v))
    \<and> (\<forall>tok now u. fst (validate tok now (h_auth h')) = Inr u \<longrightarrow> u_id u \<noteq> uid)
    \<and> hub_users h' = hub_users h
    \<and> (\<forall>c. connection_of_user h uid = Some c \<longrightarrow>
         (\<exists>more. h_out h' = h_out h @ \<lparr>o_connection = c, o_message = SessionEnded reason\<rparr> # more))"
proof -
  let ?h = "end_session_of E uid reason h"
  have e: "ended uid h ?h" by (rule ended_end_session_of [OF safe_good [OF assms]])
  have "fst (validate tok now (h_auth ?h)) = Inr u \<Longrightarrow> u_id u \<noteq> uid" for tok now u
    using validate_owner [of tok now "h_auth ?h" u] e by (auto simp: ended_def token_owners_def)
  moreover have "conn_uid ?h c \<noteq> Some uid" for c
    using e assms by (auto simp: ended_def hub_safe_def core_ok_def)
  ultimately show ?thesis
    using e end_session_tells [of h uid _ E reason] by (simp add: ended_def seat_def Let_def)
qed

section \<open>A ban\<close>

lemma admin_dispatch:
  assumes "conn_user h c = Some u" and "current_role h (u_id u) = Admin"
    and "access_for (type_of m) = AccAdminOnly"
  shows "handle_frame E c m now h = dispatch E c now m (upd_user c (\<lambda>u. u\<lparr>u_role := Admin\<rparr>) h)"
  using assms by (simp add: handle_frame_def is_allowed_def)

lemma enforce_users:
  assumes "mgr_good (h_rooms h)"
  shows "hub_users (enforce E actor target before reason h) = hub_users h"
proof -
  let ?g = "announce_restriction actor target reason h"
  have q: "quiet h ?g" by (rule quiet_announce_restriction)
  then have "mgr_good (h_rooms ?g)" using assms by (simp add: quiet_def)
  then have "hub_users (end_session_of E uid r ?g) = hub_users ?g" for uid r
    using ended_end_session_of by (simp add: ended_def)
  moreover have "hub_users (apply_in_room actor target before rid ?g) = hub_users ?g" for rid
    using quiet_apply_in_room [of ?g] by (simp add: quiet_def)
  ultimately show ?thesis using q by (simp add: enforce_split Let_def quiet_def)
qed

text \<open>The hub in which an administrative frame is handled.\<close>

lemma safe_heard_admin:
  assumes "hub_safe h" and "conn_user h c = Some u" and "current_role h (u_id u) = Admin"
  shows "hub_safe (upd_user c (\<lambda>u. u\<lparr>u_role := Admin\<rparr>) (heard c now h))
    \<and> conn_user (upd_user c (\<lambda>u. u\<lparr>u_role := Admin\<rparr>) (heard c now h)) c = Some (u\<lparr>u_role := Admin\<rparr>)
    \<and> hub_users (upd_user c (\<lambda>u. u\<lparr>u_role := Admin\<rparr>) (heard c now h)) = hub_users h"
proof -
  have "quiet (h\<lparr>h_out := [], h_media := [], h_fault := None\<rparr>) (heard c now h)"
    unfolding heard_def by (rule quiet_upd_connection) simp
  then have "hub_safe (heard c now h)" using safe_quiet safe_fresh assms(1) by blast
  then have "hub_safe (upd_user c (\<lambda>u. u\<lparr>u_role := Admin\<rparr>) (heard c now h))"
    by (rule safe_quiet) simp
  then show ?thesis using assms(2) by (simp add: conn_user_upd_user)
qed

text \<open>An account the server has nothing live for: no connection carries it, it sits nowhere, none of
  its tokens resolves and no login succeeds as it.\<close>

definition shut_out :: "string \<Rightarrow> hub \<Rightarrow> bool" where
  "shut_out uid h \<longleftrightarrow> (\<forall>c. conn_uid h c \<noteq> Some uid) \<and> room_of (h_rooms h) uid = None
     \<and> (\<forall>tok now u. fst (validate tok now (h_auth h)) = Inr u \<longrightarrow> u_id u \<noteq> uid)
     \<and> (\<forall>C n pw now s A. authenticate C n pw now (h_auth h) = (Inr (Inr s), A) \<longrightarrow> u_id (s_user s) \<noteq> uid)"

lemma shut_outI:
  assumes "hub_safe h" and "\<not> standing (hub_users h) uid"
  shows "shut_out uid h"
proof -
  have "u_id u \<noteq> uid" if v: "fst (validate tok now (h_auth h)) = Inr u" for tok now u
    using validate_owner [OF v] assms by (auto simp: hub_safe_def core_ok_def token_owners_def)
  moreover have "u_id (s_user s) \<noteq> uid" if au: "authenticate C n pw now (h_auth h) = (Inr (Inr s), A)"
    for C n pw now s A
  proof -
    obtain a where a: "users_find_by_username (hub_users h) n = Some a" "s_user s = ac_user a"
        "\<not> r_banned (u_restrictions (ac_user a))"
      using authenticate_sessionD [OF au] by blast
    have "users_find_by_id (hub_users h) (ac_id a) = Some a"
      using find_by_username_id [OF _ a(1)] assms(1) by (simp add: hub_safe_def accounts_ok_def)
    with a show ?thesis using assms(2) by (auto simp: standing_def ac_id_def)
  qed
  ultimately show ?thesis
    using assms by (auto simp: shut_out_def hub_safe_def core_ok_def seat_def)
qed

lemma two_administrators:
  assumes "users_find_by_id us i = Some a" and "users_find_by_id us j = Some b" and "i \<noteq> j"
    and "ac_role a = r" and "ac_role b = r"
  shows "\<not> users_count_with_role us r \<le> 1"
proof -
  let ?f = "filter (\<lambda>a. ac_role a = r) us"
  have "{a, b} \<subseteq> set ?f" "a \<noteq> b"
    using find_by_id_in [OF assms(1)] find_by_id_in [OF assms(2)] assms(3-) by auto
  then have "2 \<le> card (set ?f)" using card_mono [of "set ?f" "{a, b}"] by simp
  then show ?thesis unfolding users_count_with_role_def using card_length [of ?f] by linarith
qed

lemma grows_enforce: "grows h (announce_restriction actor target reason h)"
  by (simp add: announce_restriction_def Let_def upd_user_def grows_reports split: option.split)

text \<open>C25. A ban takes effect with the frame that orders it. When an administrator bans somebody else's
  account, the store says so, the account's connection is told that its session ended, and nothing of
  the account is live any more: it is signed in nowhere, sits in no room, holds no token that
  resolves, and cannot sign in again with any password. The refusal that protects the last
  administrator never comes, since the one who asks is another.\<close>

theorem ban_takes_effect:
  assumes safe: "hub_safe h" and c: "find_connection h c \<noteq> None" "conn_user h c = Some u"
    and adm: "current_role h (u_id u) = Admin"
    and a: "users_find_by_id (hub_users h) uid = Some a" "uid \<noteq> u_id u"
      "\<not> r_banned (u_restrictions (ac_user a))"
    and fresh: "fresh_draw E h"
  shows "let h' = on_message E c (Inr (RestrictUser uid (Some True) mt sl ss reason)) now h in
      (\<exists>b. users_find_by_id (hub_users h') uid = Some b \<and> r_banned (u_restrictions (ac_user b)))
    \<and> shut_out uid h'
    \<and> (\<forall>d. connection_of_user h uid = Some d \<longrightarrow> \<lparr>o_connection = d,
         o_message = SessionEnded (if reason = [] then ''the account was suspended'' else reason)\<rparr> \<in> set (h_out h'))"
proof -
  define g where "g = upd_user c (\<lambda>u. u\<lparr>u_role := Admin\<rparr>) (heard c now h)"
  note heard = safe_heard_admin [OF safe c(2) adm, of now, folded g_def]
  let ?m = "RestrictUser uid (Some True) mt sl ss reason"
  define before where "before = u_restrictions (ac_user a)"
  define after where "after = merge_restrictions (Some True) mt sl ss before"
  have bans: "r_banned after" "\<not> r_banned before"
    using a(3) by (simp_all add: after_def before_def merge_restrictions_def Let_def)
  then have after: "r_banned after" "\<not> r_banned before" "after \<noteq> before" by auto
  define b where "b = a\<lparr>ac_user := (ac_user a)\<lparr>u_restrictions := after\<rparr>\<rparr>"
  have id: "ac_id a = uid" "ac_id b = uid" "u_id (ac_user b) = uid"
    using mem_users.by_id_id [OF a(1)] by (simp_all add: b_def ac_id_def)
  obtain d where d: "users_find_by_id (hub_users h) (u_id u) = Some d" "ac_role d = Admin"
    using adm by (auto simp: current_role_def ac_role_def split: option.splits)
  have count: "\<not> users_count_with_role (hub_users h) Admin \<le> 1" if "ac_role a = Admin"
    using two_administrators [OF a(1) d(1) a(2) that d(2)] .
  obtain s where us: "users_update b (hub_users h) = (None, s)"
    and s: "users_find_by_id s uid = Some (b\<lparr>ac_created_at := ac_created_at a\<rparr>)"
    using mem_users.update_same [of "hub_users h" b a] a(1) id
    by (cases "users_update b (hub_users h)") simp
  let ?r = "\<lambda>dt. record_entry E (u\<lparr>u_role := Admin\<rparr>) ''restrict_user'' uid
    (case room_of (h_rooms (set_users s g)) uid of None \<Rightarrow> [] | Some r \<Rightarrow> r) dt (set_users s g)"
  let ?e = "enforce E (u\<lparr>u_role := Admin\<rparr>) (ac_user b) before reason
    (?r (restriction_detail before after reason))"
  have last: "(ac_role a = Admin \<and> users_count_with_role (hub_users g) Admin \<le> 1) = False"
    using count heard by auto
  have u': "conn_user g c = Some (u\<lparr>u_role := Admin\<rparr>)" using heard by simp
  have a': "users_find_by_id (hub_users g) uid = Some a" "(uid = u_id (u\<lparr>u_role := Admin\<rparr>)) = False"
    "users_update b (hub_users g) = (None, s)" "(after = before) = False"
    using heard a us after by simp_all
  have plain: "handle_restrict_user E c uid (Some True) mt sl ss reason g = send c (user_list ?e) ?e"
    unfolding handle_restrict_user_def with_signed_in [OF u'] a' option.case id Let_def
      before_def [symmetric] after_def [symmetric] b_def [symmetric] last if_False simp_thms prod.case
    by (rule TrueI)
  have adm': "current_role (heard c now h) (u_id u) = Admin" using adm by simp
  have h': "on_message E c (Inr ?m) now h = send c (user_list ?e) ?e"
    unfolding on_message_heard [OF c(1)]
    unfolding admin_dispatch [OF heard_user(1) [THEN trans, OF c(2)] adm', of ?m E now, simplified]
    using plain by (simp add: g_def [symmetric])
  have good: "mgr_good (h_rooms (?r dt))" for dt
    using safe_good [of g] heard by (simp add: set_users_def)
  have users: "hub_users (on_message E c (Inr ?m) now h) = s"
    using enforce_users [OF good] by (simp add: h' set_users_def record_entry_def Let_def)
  then have banned: "users_find_by_id (hub_users (on_message E c (Inr ?m) now h)) uid
      = Some (b\<lparr>ac_created_at := ac_created_at a\<rparr>)" using s by simp
  then have "\<not> standing (hub_users (on_message E c (Inr ?m) now h)) uid"
    using after by (simp add: standing_def b_def)
  then have out: "shut_out uid (on_message E c (Inr ?m) now h)"
    using shut_outI [OF safe_on_message [OF safe fresh]] by blast
  let ?told = "if reason = [] then ''the account was suspended'' else reason"
  have "\<lparr>o_connection = d, o_message = SessionEnded ?told\<rparr> \<in> set (h_out ?e)"
    if d: "connection_of_user h uid = Some d" for d
  proof -
    let ?n = "announce_restriction (u\<lparr>u_role := Admin\<rparr>) (ac_user b) reason
      (?r (restriction_detail before after reason))"
    have "connection_of_user ?n = connection_of_user h"
      using quiet_announce_restriction [of "?r (restriction_detail before after reason)"]
      by (simp add: quiet_def) (simp add: g_def upd_user_def fun_eq_iff set_users_def connection_of_user_def)
    then show ?thesis
      using end_session_tells [of ?n uid d E ?told] d after id
      by (auto simp: enforce_split Let_def b_def)
  qed
  then have told: "\<lparr>o_connection = d, o_message = SessionEnded ?told\<rparr>
      \<in> set (h_out (on_message E c (Inr ?m) now h))" if "connection_of_user h uid = Some d" for d
    using that by (simp add: h' send_eq)
  show ?thesis
    unfolding Let_def using banned out told after by (simp add: b_def)
qed

section \<open>A deleted account\<close>

lemma report_faults [simp]:
  "h_fault (send c m h) = h_fault h" "h_fault (broadcast rid m exc h) = h_fault h"
  "h_fault (broadcast_room_list h) = h_fault h" "h_fault (tell_media call h) = h_fault h"
  "h_fault (record_entry E u act t r d h) = h_fault h" "h_fault (drop_identity c h) = h_fault h"
  by (simp_all add: send_eq broadcast_eq broadcast_room_list_eq tell_media_def record_entry_def Let_def
      drop_identity_def)

lemma evict_fault [simp]: "h_fault (evict rid uid reason h) = h_fault h"
  by (simp add: evict_def Let_def split: option.split)

lemma end_session_fault [simp]: "h_fault (end_session_of E uid reason h) = h_fault h"
  by (simp add: end_session_of_def Let_def split: option.split)

lemma end_session_notices [simp]: "h_notices (end_session_of E uid reason h) = h_notices h"
proof -
  have "h_notices (evict rid uid reason g) = h_notices g" for rid g
    by (simp add: evict_def Let_def split: option.split)
  then show ?thesis by (simp add: end_session_of_def Let_def split: option.split)
qed

text \<open>Deleting somebody else's account: it is gone from the store with whatever was still to be read
  to it, nobody else's account changes, and nothing of it is live. The handler then reads the
  identity of the administrator through a pointer into the connection; ending the session has taken
  that identity away exactly when the connection on record for the deleted account is the
  administrator's own, and then what it reads is gone.\<close>

lemma delete_user_effect:
  assumes safe: "hub_safe h" and c: "find_connection h c \<noteq> None" "conn_user h c = Some u"
    and adm: "current_role h (u_id u) = Admin"
    and a: "users_find_by_id (hub_users h) uid = Some a" "uid \<noteq> u_id u"
    and fresh: "fresh_draw E h"
  shows "let h' = on_message E c (Inr (DeleteUser uid)) now h in
      (\<forall>i. users_find_by_id (hub_users h') i = (if i = uid then None else users_find_by_id (hub_users h) i))
    \<and> shut_out uid h' \<and> notices_pending_for (h_notices h') uid = []
    \<and> (h_fault h' = None \<longleftrightarrow> connection_of_user h uid \<noteq> Some c)"
proof -
  define g where "g = upd_user c (\<lambda>u. u\<lparr>u_role := Admin\<rparr>) (heard c now h)"
  note heard = safe_heard_admin [OF safe c(2) adm, of now, folded g_def]
  let ?h = "on_message E c (Inr (DeleteUser uid)) now h"
  have id: "ac_id a = uid" using mem_users.by_id_id [OF a(1)] .
  obtain d where d: "users_find_by_id (hub_users h) (u_id u) = Some d" "ac_role d = Admin"
    using adm by (auto simp: current_role_def ac_role_def split: option.splits)
  have last: "(ac_role a = Admin \<and> users_count_with_role (hub_users g) Admin \<le> 1) = False"
    using two_administrators [OF a(1) d(1) a(2) _ d(2)] heard by auto
  have u': "conn_user g c = Some (u\<lparr>u_role := Admin\<rparr>)" using heard by simp
  define e where "e = end_session_of E uid ''the account was removed'' g"
  have ended: "ended uid g e"
    unfolding e_def by (rule ended_end_session_of [OF safe_good]) (use heard in blast)
  obtain s where us: "users_remove uid (hub_users e) = (None, s)" and s: "s = snd (users_remove uid (hub_users h))"
    using mem_users.remove_same [of "hub_users e" uid] a(1) ended heard
    by (cases "users_remove uid (hub_users e)") (auto simp: ended_def)
  define k where "k = (set_users s e)\<lparr>h_notices := snd (notices_clear_for uid (h_notices e))\<rparr>"
  let ?done = "\<lambda>actor. let g = record_entry E actor ''delete_user'' uid [] (''username='' @ ac_username a) k
    in send c (user_list g) g"
  have a': "users_find_by_id (hub_users g) uid = Some a" "(uid = u_id (u\<lparr>u_role := Admin\<rparr>)) = False"
    using heard a by simp_all
  have k_eq: "set_users s e\<lparr>h_notices := snd (notices_clear_for uid (h_notices (set_users s e)))\<rparr> = k"
    by (simp add: k_def set_users_def)
  have plain: "handle_delete_user E c uid g = (case conn_user k c of
      None \<Rightarrow> throw_hub ''undefined behaviour: the actor is gone'' k | Some actor \<Rightarrow> ?done actor)"
    unfolding handle_delete_user_def with_signed_in [OF u'] a' option.case id last if_False Let_def
      e_def [symmetric] us prod.case k_eq by (rule refl)
  have adm': "current_role (heard c now h) (u_id u) = Admin" using adm by simp
  have h': "?h = (case conn_user k c of
      None \<Rightarrow> throw_hub ''undefined behaviour: the actor is gone'' k | Some actor \<Rightarrow> ?done actor)"
    unfolding on_message_heard [OF c(1)]
      admin_dispatch [OF heard_user(1) [THEN trans, OF c(2)] adm', of "DeleteUser uid" E now, simplified]
    using plain by (simp add: g_def [symmetric])
  have out: "hub_users ?h = s \<and> h_notices ?h = h_notices k"
    by (simp add: h' Let_def throw_hub_def k_def set_users_def split: option.split)
  have users: "users_find_by_id s i = (if i = uid then None else users_find_by_id (hub_users h) i)" for i
    using mem_users.remove_gone [of uid "hub_users h"] mem_users.remove_other [of i uid "hub_users h"] s by simp
  have "\<not> standing (hub_users ?h) uid" using users [of uid] out by (simp add: standing_def)
  then have "shut_out uid ?h" using shut_outI [OF safe_on_message [OF safe fresh]] by blast
  moreover have "notices_pending_for (h_notices ?h) uid = []"
    using out mem_notices.clear_for_gone by (simp add: k_def)
  moreover have "h_fault ?h = None \<longleftrightarrow> connection_of_user h uid \<noteq> Some c"
  proof -
    have same: "connection_of_user g = connection_of_user h"
      by (simp add: g_def upd_user_def)
    have "conn_user k c = conn_user e c" by (simp add: k_def conn_user_def find_connection_def set_users_def)
    then have "map_option u_id (conn_user k c) = (if connection_of_user h uid = Some c then None else Some (u_id u))"
      using ended u' same by (simp add: ended_def conn_uid_def fun_eq_iff)
    moreover have "h_fault k = None"
      by (simp add: k_def e_def g_def upd_user_def set_users_def)
    ultimately show ?thesis
      by (cases "conn_user k c") (auto simp: h' Let_def throw_hub_def split: if_splits)
  qed
  ultimately show ?thesis unfolding Let_def using users out by simp
qed

section \<open>Out of a room\<close>

definition evicted_out :: "string \<Rightarrow> string \<Rightarrow> string \<Rightarrow> hub \<Rightarrow> hub \<Rightarrow> outgoing list" where
  "evicted_out rid uid reason h h' = telling (UserKicked rid uid reason) (audience h rid None)
     @ (if is_sharing_screen h rid uid then telling (ScreenShareStopped rid uid) (audience h' rid None) else [])
     @ telling (UserLeft rid uid) (audience h' rid None)
     @ telling (room_list h') (map snd (h_user_to_connection h'))"

lemma evict_out:
  "h_out (evict rid uid reason h)
      = h_out h @ evicted_out rid uid reason h (h\<lparr>h_rooms := snd (leave rid uid (h_rooms h))\<rparr>)"
proof -
  let ?M = "snd (leave rid uid (h_rooms h))"
  have aud: "audience (h\<lparr>h_out := x, h_rooms := ?M\<rparr>) rid e = audience (h\<lparr>h_rooms := ?M\<rparr>) rid e" for x e
    by (rule audience_cong) (simp_all add: fun_eq_iff connection_of_user_def)
  have list: "room_list (h\<lparr>h_out := x, h_rooms := ?M\<rparr>) = room_list (h\<lparr>h_rooms := ?M\<rparr>)" for x
    by (simp add: room_list_def)
  have out: "h_out (case x of None \<Rightarrow> g | Some c \<Rightarrow> upd_connection c f g) = h_out g" for x g f
    by (cases x) simp_all
  have media: "h_out (tell_media m g) = h_out g" for m g by (simp add: tell_media_def)
  show ?thesis
    unfolding evict_def Let_def out media evicted_out_def
    by (cases "is_sharing_screen h rid uid")
      (simp_all add: broadcast_telling broadcast_room_list_telling aud list)
qed

lemma evict_rooms: "h_rooms (evict rid uid reason h) = snd (leave rid uid (h_rooms h))"
  by (simp add: evict_def Let_def split: option.split)

lemma evict_index: "h_user_to_connection (evict rid uid reason h) = h_user_to_connection h"
  by (simp add: evict_def Let_def split: option.split)

lemma evicted_out_cong:
  assumes "h_rooms g = h_rooms h" and "h_user_to_connection g = h_user_to_connection h"
    and "h_rooms g' = h_rooms h'" and "h_user_to_connection g' = h_user_to_connection h'"
  shows "evicted_out rid uid reason g g' = evicted_out rid uid reason h h'"
proof -
  have aud: "audience a rid None = audience b rid None"
    if "h_rooms a = h_rooms b" "h_user_to_connection a = h_user_to_connection b" for a b
    by (rule audience_cong) (use that in \<open>simp_all add: connection_of_user_def fun_eq_iff\<close>)
  have "audience g rid None = audience h rid None" "audience g' rid None = audience h' rid None"
    using aud assms by blast+
  then show ?thesis
    using assms by (simp add: evicted_out_def is_sharing_screen_def room_list_def)
qed

lemma evict_audit [simp]: "h_audit (evict rid uid reason h) = h_audit h"
proof -
  have b: "h_audit (broadcast r m e g) = h_audit g" "h_audit (broadcast_room_list g) = h_audit g"
    "h_audit (tell_media x g) = h_audit g" for r m e g x
    by (simp_all add: broadcast_eq broadcast_room_list_eq tell_media_def)
  show ?thesis by (simp add: evict_def Let_def b split: option.split)
qed

text \<open>A kick: the log gains one entry, of that administrator about that account, with the reason;
  everybody in the room, the one kicked included, is told so before anything else; the one kicked is
  in no room, everybody else is where they were; those who stay are told that the share stopped if
  there was one and who left, and every account signed in gets the list of rooms. The account stays
  signed in.\<close>

lemma kick_effect:
  assumes safe: "hub_safe h" and c: "find_connection h c \<noteq> None" "conn_user h c = Some u"
    and adm: "current_role h (u_id u) = Admin"
    and r: "mgr_find (h_rooms h) rid = Some r" "room_contains r uid" "uid \<noteq> u_id u"
  shows "let h' = on_message E c (Inr (KickUser rid uid reason)) now h in
      (\<forall>v. room_of (h_rooms h') v = (if v = uid then None else room_of (h_rooms h) v))
    \<and> conn_uid h' = conn_uid h
    \<and> h_out h' = evicted_out rid uid reason h h'
    \<and> au_entries (h_audit h') \<noteq> [] \<and> (let e = last (au_entries (h_audit h')) in
         ae_action e = ''kick'' \<and> ae_actor_id e = u_id u \<and> ae_target_id e = uid
       \<and> ae_room_id e = rid \<and> ae_detail e = reason)"
proof -
  define g where "g = upd_user c (\<lambda>u. u\<lparr>u_role := Admin\<rparr>) (heard c now h)"
  note heard = safe_heard_admin [OF safe c(2) adm, of now, folded g_def]
  define k where "k = record_entry E (u\<lparr>u_role := Admin\<rparr>) ''kick'' uid rid reason g"
  have adm': "current_role (heard c now h) (u_id u) = Admin" using adm by simp
  have u': "conn_user g c = Some (u\<lparr>u_role := Admin\<rparr>)" using heard by simp
  have "handle_kick E c rid uid reason g = evict rid uid reason k"
    unfolding handle_kick_def with_signed_in [OF u'] using r by (simp add: k_def g_def upd_user_def)
  then have h': "on_message E c (Inr (KickUser rid uid reason)) now h = evict rid uid reason k"
    unfolding on_message_heard [OF c(1)]
      admin_dispatch [OF heard_user(1) [THEN trans, OF c(2)] adm', of "KickUser rid uid reason" E now, simplified]
    by (simp add: g_def [symmetric])
  have frame: "h_rooms k = h_rooms h" "h_out k = []" "conn_uid k = conn_uid h"
      "h_user_to_connection k = h_user_to_connection h"
    using conn_uid_update_user [of "\<lambda>u. u\<lparr>u_role := Admin\<rparr>" c "heard c now h"]
    by (simp_all add: k_def g_def) (simp_all add: record_entry_def Let_def upd_user_def)
  have good: "mgr_good (h_rooms k)" using safe_good [OF safe] frame by simp
  have seat: "seat k uid = Some rid"
    using room_of_contains [of "h_rooms h" uid rid] good r frame by (auto simp: seat_def mgr_good_def)
  note e = evict_frame [OF good, of rid uid reason]
  have rooms: "\<forall>v. room_of (h_rooms (evict rid uid reason k)) v = (if v = uid then None else room_of (h_rooms h) v)"
    using e seat frame by (auto simp: seat_def)
  have "evicted_out rid uid reason k (k\<lparr>h_rooms := snd (leave rid uid (h_rooms k))\<rparr>)
      = evicted_out rid uid reason h (evict rid uid reason k)"
    by (rule evicted_out_cong)
      (use frame e in \<open>simp_all add: evict_rooms evict_index\<close>)
  then have out: "h_out (evict rid uid reason k) = evicted_out rid uid reason h (evict rid uid reason k)"
    using evict_out [of rid uid reason k] frame by simp
  have log: "au_entries (h_audit k) \<noteq> [] \<and> (let e = last (au_entries (h_audit k)) in
      ae_action e = ''kick'' \<and> ae_actor_id e = u_id u \<and> ae_target_id e = uid
      \<and> ae_room_id e = rid \<and> ae_detail e = reason)"
    unfolding k_def record_entry_def Let_def
    by (simp add: audit_append_def Let_def kAuditCapacity_def)
  have uids: "conn_uid (evict rid uid reason k) = conn_uid h" using e frame(3) by simp
  show ?thesis
    unfolding h' Let_def evict_audit using rooms uids out log [unfolded Let_def] by blast
qed

section \<open>The orders at work\<close>

lemma seated_safe: "hub_safe seated"
  unfolding seated_def by (rule toy_safe) code_simp

lemma seated_admin:
  "find_connection seated 1 \<noteq> None \<and> conn_user seated 1 = Some ada
    \<and> current_role seated (u_id ada) = Admin \<and> fresh_draw toy_env seated"
proof -
  have "find_connection seated 1 \<noteq> None" by code_simp
  moreover have "conn_user seated 1 = Some ada" by code_simp
  moreover have "current_role seated (u_id ada) = Admin" by code_simp
  moreover have "fresh_draw toy_env seated" by code_simp
  ultimately show ?thesis by blast
qed

lemma seated_bob:
  "\<exists>a. users_find_by_id (hub_users seated) ''02'' = Some a \<and> \<not> r_banned (u_restrictions (ac_user a))"
proof -
  have "map_option (\<lambda>a. r_banned (u_restrictions (ac_user a))) (users_find_by_id (hub_users seated) ''02'')
      = Some False" by code_simp
  then show ?thesis by auto
qed

lemma bob_not_ada: "''02'' \<noteq> u_id ada"
  by (simp add: ada_def)

lemma session_ends_at_once_witness:
  "room_of (h_rooms (end_session_of toy_env ''02'' ''bye'' seated)) ''02'' = None"
  using session_ends_at_once [OF seated_safe, of toy_env "''02''" "''bye''"] by (simp add: Let_def)

theorem ban_takes_effect_witness:
  "shut_out ''02'' (on_message toy_env 1
     (Inr (RestrictUser ''02'' (Some True) None None None [])) 9 seated)"
proof -
  obtain a where a: "users_find_by_id (hub_users seated) ''02'' = Some a"
      "\<not> r_banned (u_restrictions (ac_user a))"
    using seated_bob by (elim exE conjE)
  show ?thesis
    using ban_takes_effect [OF seated_safe _ _ _ a(1) bob_not_ada a(2), of 1 toy_env None None None "[]" 9]
      seated_admin by (simp add: Let_def)
qed

lemma delete_user_effect_witness:
  "shut_out ''02'' (on_message toy_env 1 (Inr (DeleteUser ''02'')) 9 seated)
    \<and> h_fault (on_message toy_env 1 (Inr (DeleteUser ''02'')) 9 seated) = None"
proof -
  obtain a where a: "users_find_by_id (hub_users seated) ''02'' = Some a"
    using seated_bob by (elim exE conjE)
  have "connection_of_user seated ''02'' \<noteq> Some 1" by code_simp
  then show ?thesis
    using delete_user_effect [OF seated_safe _ _ _ a bob_not_ada, of 1 toy_env 9] seated_admin
    by (simp add: Let_def)
qed

lemma kick_effect_witness:
  "room_of (h_rooms (on_message toy_env 1 (Inr (KickUser ''012345'' ''02'' ''noise'')) 9 seated)) ''02'' = None
    \<and> room_of (h_rooms (on_message toy_env 1 (Inr (KickUser ''012345'' ''02'' ''noise'')) 9 seated)) ''00''
        = Some ''012345''"
proof -
  have "room_contains sala ''02''" using seated_facts by (simp add: room_contains_def)
  moreover have "room_of (h_rooms seated) ''00'' = Some ''012345''" by code_simp
  moreover have "''00'' \<noteq> ''02''" by simp
  ultimately show ?thesis
    using kick_effect [OF seated_safe _ _ _ _ _ bob_not_ada, of 1 "''012345''" sala toy_env "''noise''" 9]
      seated_admin seated_facts by (simp add: Let_def)
qed

end
