(* ===== verification/HubHeartbeat.thy ===== *)
theory HubHeartbeat
  imports HubAdminEffects
begin

text \<open>
  The heartbeat of the hub: which connections it gives up on and which it pings, what it makes of
  accounts another program wrote, and the notices it hands over.
\<close>

section \<open>Pings and timeouts\<close>

definition overdue :: "time \<Rightarrow> hub \<Rightarrow> nat \<Rightarrow> bool" where
  "overdue now h c \<longleftrightarrow> (case find_connection h c of None \<Rightarrow> False
     | Some s \<Rightarrow> now - cn_last_seen s \<ge> h_heartbeat_timeout h)"

definition due :: "time \<Rightarrow> hub \<Rightarrow> nat \<Rightarrow> bool" where
  "due now h c \<longleftrightarrow> (case find_connection h c of None \<Rightarrow> False
     | Some s \<Rightarrow> \<not> overdue now h c \<and> now - cn_last_ping s \<ge> h_heartbeat_interval h)"

definition open_rows_of :: "hub \<Rightarrow> nat \<Rightarrow> string list" where
  "open_rows_of h c = (case find_connection h c of None \<Rightarrow> []
     | Some s \<Rightarrow> if cn_session_id s = [] then [] else [cn_session_id s])"

lemma tick_connection_eq:
  "tick_connection now c (h, t, a) =
    ((if due now h c then send c (Ping []) (upd_connection c (\<lambda>s. s\<lparr>cn_last_ping := now\<rparr>) h) else h),
     (if overdue now h c then t @ [c] else t),
     (if overdue now h c then a else a @ open_rows_of h c))"
  by (auto simp: tick_connection_def due_def overdue_def open_rows_of_def Let_def split: option.split)

text \<open>A step does not change what the connections still to come are judged by.\<close>

lemma tick_connection_others:
  assumes "d \<noteq> c"
  shows "due now (fst (tick_connection now c (h, t, a))) d = due now h d"
    and "overdue now (fst (tick_connection now c (h, t, a))) d = overdue now h d"
    and "open_rows_of (fst (tick_connection now c (h, t, a))) d = open_rows_of h d"
  using assms
  by (simp_all add: tick_connection_eq due_def overdue_def open_rows_of_def send_eq upd_connection_def
      find_connection_def split: option.split)

lemma tick_connections:
  assumes "distinct cs"
  shows "fold (tick_connection now) cs (h, t, a) = (h', t', a') \<Longrightarrow>
      t' = t @ filter (overdue now h) cs
    \<and> a' = a @ concat (map (open_rows_of h) (filter (\<lambda>c. \<not> overdue now h c) cs))
    \<and> h_out h' = h_out h @ telling (Ping []) (filter (due now h) cs)"
  using assms
proof (induction cs arbitrary: h t a)
  case (Cons c cs)
  obtain h1 t1 a1 where 1: "tick_connection now c (h, t, a) = (h1, t1, a1)" by (metis prod_cases3)
  have one: "due now h1 x = due now h x" "overdue now h1 x = overdue now h x"
      "open_rows_of h1 x = open_rows_of h x" if "x \<in> set cs" for x
    using tick_connection_others [of x c now h t a] that Cons.prems(2) 1 by auto
  have same: "filter (due now h1) cs = filter (due now h) cs"
    "filter (overdue now h1) cs = filter (overdue now h) cs"
    "map (open_rows_of h1) (filter (\<lambda>c. \<not> overdue now h1 c) cs)
      = map (open_rows_of h) (filter (\<lambda>c. \<not> overdue now h c) cs)"
    using one by (auto intro!: filter_cong map_cong)
  have f: "fold (tick_connection now) cs (h1, t1, a1) = (h', t', a')" using Cons.prems(1) 1 by simp
  have step: "h_out h1 = h_out h @ (if due now h c then telling (Ping []) [c] else [])"
    "t1 = (if overdue now h c then t @ [c] else t)" "a1 = (if overdue now h c then a else a @ open_rows_of h c)"
    using 1 by (auto simp: tick_connection_eq send_eq telling_def split: if_splits)
  show ?case
    using Cons.IH [OF f] Cons.prems(2) same step by (auto simp: telling_def)
qed (simp add: telling_def)

lemma grows_end_session: "grows g (end_session_of E uid r g)"
proof -
  have "grows g (case connection_of_user g uid of None \<Rightarrow> g | Some c \<Rightarrow> send c (SessionEnded r) g)"
    by (simp add: grows_reports split: option.split)
  moreover have "grows k (case room_of (h_rooms k) uid of None \<Rightarrow> k | Some rid \<Rightarrow> evict rid uid r k)" for k
    by (simp add: grows_evict split: option.split)
  moreover have "grows k (k\<lparr>h_auth := A\<rparr>)" for k A by (simp add: grows_reports)
  moreover have "grows k (case connection_of_user k uid of None \<Rightarrow> k | Some c \<Rightarrow>
     (if find_connection k c = None then k else drop_identity c (close_session E c k))
       \<lparr>h_user_to_connection := U c\<rparr>)" for k U
    by (simp add: grows_reports grows_close split: option.split)
  ultimately show ?thesis
    unfolding end_session_of_def Let_def by (meson grows_trans)
qed

lemma grows_in_room: "grows g (apply_in_room actor target before rid g)"
  by (cases rid) (auto simp: apply_in_room_def Let_def grows_reports split: prod.split option.split)

lemma grows_apply_change: "grows g (apply_change E change g)"
proof -
  have "grows g (enforce E actor target before r g)" for actor target before r
    unfolding enforce_split Let_def
    by (cases "r_banned (u_restrictions target) \<and> \<not> r_banned before")
      (simp_all add: grows_trans [OF grows_enforce grows_end_session] grows_trans [OF grows_enforce grows_in_room])
  then show ?thesis by (simp add: apply_change_def split: option.split)
qed

lemma grows_same: "h_out h' = h_out h \<Longrightarrow> grows h h'"
  by (simp add: grows_def)

lemma grows_requested: "grows g (apply_requested E uid g)"
proof -
  have "grows k (discard_session_end_request uid k)" for k
    by (rule grows_same) (simp add: discard_session_end_request_def set_users_def split: option.split)
  then show ?thesis
    unfolding apply_requested_def Let_def
    by (cases "connection_of_user g uid") (auto intro: grows_trans [OF grows_end_session])
qed

lemma grows_fold: "(\<And>x k. grows k (F x k)) \<Longrightarrow> grows g (fold F xs g)"
proof (induction xs arbitrary: g)
  case (Cons x xs)
  then show ?case using grows_trans by (metis fold_simps(2))
qed simp

lemma grows_hand_over: "grows g (hand_over_notice c n g)"
  by (simp add: hand_over_notice_def grows_reports split: option.split)

lemma grows_deliver: "grows g (deliver_pending_notices c g)"
  by (simp add: deliver_pending_notices_def grows_fold grows_hand_over split: option.split)

lemma grows_elsewhere:
  "grows h (deliver_notices_written_elsewhere (apply_restrictions_written_elsewhere E h))"
proof -
  have "grows h (apply_restrictions_written_elsewhere E h)"
    unfolding apply_restrictions_written_elsewhere_def Let_def
    by (simp add: grows_trans [OF grows_trans [OF grows_fold [OF grows_apply_change]
          grows_fold [OF grows_end_session]] grows_fold [OF grows_requested]])
  then show ?thesis
    unfolding deliver_notices_written_elsewhere_def
    using grows_fold [of deliver_pending_notices] grows_deliver grows_trans by blast
qed

text \<open>The heartbeat: it gives up on exactly the connections that were silent for the timeout, in the
  order of the table and each once, and pings exactly those it does not give up on that are due, before
  anything else it sends.\<close>

lemma heartbeat_exact:
  assumes "distinct (map fst (h_connections h))"
  shows "fst (tick E now h) = filter (overdue now h) (map fst (h_connections h))
    \<and> (\<exists>more. h_out (snd (tick E now h))
         = telling (Ping []) (filter (due now h) (map fst (h_connections h))) @ more)"
proof -
  let ?h0 = "h\<lparr>h_out := [], h_media := [], h_fault := None\<rparr>"
  let ?cs = "map fst (h_connections h)"
  obtain h1 t a where f: "fold (tick_connection now) ?cs (?h0, [], []) = (h1, t, a)" by (metis prod_cases3)
  have same: "overdue now ?h0 = overdue now h" "due now ?h0 = due now h"
    by (auto simp: fun_eq_iff overdue_def due_def find_connection_def split: option.split)
  let ?h2 = "h1\<lparr>h_sessions := snd (sessions_touch (e_wall E) a (h_sessions h1)),
      h_auth := expire_tokens now (h_auth h1)\<rparr>"
  have tick: "tick E now h = (t, deliver_notices_written_elsewhere (apply_restrictions_written_elsewhere E ?h2))"
    using f by (simp add: tick_def Let_def)
  have "h_out ?h2 = telling (Ping []) (filter (due now h) ?cs)" "t = filter (overdue now h) ?cs"
    using tick_connections [OF assms f] same by simp_all
  then show ?thesis
    using grows_elsewhere [of ?h2 E] by (auto simp: tick grows_def)
qed

section \<open>Accounts written by another program\<close>

definition index_sound :: "hub \<Rightarrow> bool" where
  "index_sound h \<longleftrightarrow> (\<forall>c v. conn_uid h c = Some v \<longrightarrow> connection_of_user h v = Some c)"

text \<open>A step after which nobody is signed in who was not before.\<close>

definition fades :: "hub \<Rightarrow> hub \<Rightarrow> bool" where
  "fades h h' \<longleftrightarrow> (mgr_good (h_rooms h) \<and> index_sound h \<longrightarrow> mgr_good (h_rooms h') \<and> index_sound h'
     \<and> (\<forall>c v. conn_uid h' c = Some v \<longrightarrow> conn_uid h c = Some v))"

lemma fades_refl [simp]: "fades h h"
  by (simp add: fades_def)

lemma fades_trans: "fades a b \<Longrightarrow> fades b c \<Longrightarrow> fades a c"
  by (auto simp: fades_def)

lemma fades_quiet: "quiet h h' \<Longrightarrow> fades h h'"
  by (simp add: fades_def quiet_def index_sound_def)

lemma fades_ended: "ended uid h h' \<Longrightarrow> fades h h'"
  by (auto simp: fades_def ended_def index_sound_def split: if_splits)

lemma fades_end_session: "fades h (end_session_of E uid r h)"
proof (cases "mgr_good (h_rooms h)")
  case True
  then show ?thesis by (rule fades_ended [OF ended_end_session_of])
qed (simp add: fades_def)

lemma end_session_kills:
  assumes "mgr_good (h_rooms h)" and "index_sound h"
  shows "conn_uid (end_session_of E uid r h) c \<noteq> Some uid"
  using ended_end_session_of [OF assms(1), of uid E r] assms(2) by (auto simp: ended_def index_sound_def)

text \<open>A hub whose index is sound, on the given accounts, and with nobody signed in but as before.\<close>

definition tidy :: "user_store \<Rightarrow> hub \<Rightarrow> bool" where
  "tidy s h \<longleftrightarrow> mgr_good (h_rooms h) \<and> index_sound h \<and> hub_users h = s"

lemma tidy_fades: "tidy s h \<Longrightarrow> fades h h' \<Longrightarrow> hub_users h' = hub_users h \<Longrightarrow> tidy s h'"
  by (simp add: tidy_def fades_def)

lemma end_session_users: "mgr_good (h_rooms h) \<Longrightarrow> hub_users (end_session_of E uid r h) = hub_users h"
  using ended_end_session_of by (simp add: ended_def)

lemma enforce_fades:
  assumes "tidy s h"
  shows "tidy s (enforce E actor target before r h) \<and> fades h (enforce E actor target before r h)
    \<and> (r_banned (u_restrictions target) \<and> \<not> r_banned before
        \<longrightarrow> conn_uid (enforce E actor target before r h) c \<noteq> Some (u_id target))"
proof -
  let ?g = "announce_restriction actor target r h"
  have q: "quiet h ?g" by (rule quiet_announce_restriction)
  then have g: "tidy s ?g" using tidy_fades [OF assms fades_quiet] by (simp add: quiet_def)
  have e: "tidy s (end_session_of E uid x ?g)" for uid x
    using tidy_fades [OF g fades_end_session] end_session_users g by (simp add: tidy_def)
  have i: "tidy s (apply_in_room actor target before x ?g)" for x
    using tidy_fades [OF g fades_quiet [OF quiet_apply_in_room]] quiet_apply_in_room by (simp add: quiet_def)
  have f: "fades h (end_session_of E uid x ?g)" "fades h (apply_in_room actor target before y ?g)" for uid x y
    using fades_trans [OF fades_quiet [OF q]] fades_end_session fades_quiet [OF quiet_apply_in_room] by blast+
  show ?thesis
    using e i f end_session_kills g by (simp add: enforce_split Let_def tidy_def)
qed

lemma apply_change_fades:
  assumes "tidy s h"
  shows "tidy s (apply_change E x h) \<and> fades h (apply_change E x h)
    \<and> ((\<exists>a. users_find_by_id s (rc_user_id x) = Some a \<and> r_banned (u_restrictions (ac_user a)))
         \<and> \<not> r_banned (rc_before x) \<longrightarrow> conn_uid (apply_change E x h) c \<noteq> Some (rc_user_id x))"
proof (cases "users_find_by_id s (rc_user_id x)")
  case None
  then show ?thesis using assms by (simp add: apply_change_def tidy_def)
next
  case (Some a)
  then have "u_id (ac_user a) = rc_user_id x" using mem_users.by_id_id by (simp add: ac_id_def)
  then show ?thesis
    using enforce_fades [OF assms, of E default_user "ac_user a" "rc_before x" "[]" c] Some assms
    by (simp add: apply_change_def tidy_def)
qed

lemma fold_kills:
  assumes step: "\<And>x g. P g \<Longrightarrow> P (F x g) \<and> fades g (F x g) \<and> (Q x \<longrightarrow> (\<forall>c. conn_uid (F x g) c \<noteq> Some (K x)))"
    and tidy: "\<And>g. P g \<Longrightarrow> mgr_good (h_rooms g) \<and> index_sound g"
  shows "P g \<Longrightarrow> P (fold F xs g) \<and> fades g (fold F xs g)
    \<and> (\<forall>x \<in> set xs. Q x \<longrightarrow> (\<forall>c. conn_uid (fold F xs g) c \<noteq> Some (K x)))"
proof (induction xs arbitrary: g)
  case (Cons x xs)
  note 1 = step [OF Cons.prems, of x]
  note 2 = Cons.IH [OF 1 [THEN conjunct1]]
  have "fades g (fold F xs (F x g))" using fades_trans 1 2 by blast
  moreover have "conn_uid (fold F xs (F x g)) c \<noteq> Some (K x)" if "Q x" for c
    using 1 2 that tidy [OF 1 [THEN conjunct1]] by (auto simp: fades_def)
  ultimately show ?case using 2 by auto
qed simp

lemma poll_reports:
  assumes "w \<in> set ws"
  shows "users_find_by_id us (wa_user_id w) = None \<Longrightarrow> wa_user_id w \<in> set (rp_gone (poll us ws))"
    and "users_find_by_id us (wa_user_id w) = Some a \<Longrightarrow> ac_session_end_requested_at a \<noteq> 0
      \<Longrightarrow> wa_user_id w \<in> set (rp_session_end_requested (poll us ws))"
    and "users_find_by_id us (wa_user_id w) = Some a \<Longrightarrow> u_restrictions (ac_user a) \<noteq> wa_known w \<Longrightarrow>
      \<lparr>rc_user_id = wa_user_id w, rc_before = wa_known w, rc_after = u_restrictions (ac_user a)\<rparr>
        \<in> set (rp_changed (poll us ws))"
proof -
  show "users_find_by_id us (wa_user_id w) = None \<Longrightarrow> wa_user_id w \<in> set (rp_gone (poll us ws))"
    using assms by (simp add: poll_def poll_account_gone)
  show "users_find_by_id us (wa_user_id w) = Some a \<Longrightarrow> ac_session_end_requested_at a \<noteq> 0
      \<Longrightarrow> wa_user_id w \<in> set (rp_session_end_requested (poll us ws))"
    using assms by (simp add: poll_def poll_account_requested)
  assume a: "users_find_by_id us (wa_user_id w) = Some a" "u_restrictions (ac_user a) \<noteq> wa_known w"
  show "\<lparr>rc_user_id = wa_user_id w, rc_before = wa_known w, rc_after = u_restrictions (ac_user a)\<rparr>
        \<in> set (rp_changed (poll us ws))"
    unfolding poll_def poll_account_changed
    by (simp add: no_changes_def, rule bexI [OF _ assms]) (use a in auto)
qed

lemma requested_fades:
  assumes "mgr_good (h_rooms g) \<and> index_sound g"
  shows "(mgr_good (h_rooms (apply_requested E x g)) \<and> index_sound (apply_requested E x g))
    \<and> fades g (apply_requested E x g) \<and> (True \<longrightarrow> (\<forall>c. conn_uid (apply_requested E x g) c \<noteq> Some x))"
proof -
  define e where "e = (if connection_of_user g x \<noteq> None
    then end_session_of E x ''the session was ended by an administrator'' g else g)"
  have d: "conn_uid (discard_session_end_request x k) = conn_uid k"
    "h_rooms (discard_session_end_request x k) = h_rooms k"
    "connection_of_user (discard_session_end_request x k) = connection_of_user k" for k
    by (simp_all add: discard_session_end_request_def set_users_def fun_eq_iff conn_uid_def conn_user_def
        find_connection_def connection_of_user_def split: option.split)
  have "fades g e" by (simp add: e_def fades_end_session)
  moreover have "conn_uid e c \<noteq> Some x" for c
    using end_session_kills [of g E x] assms by (auto simp: e_def index_sound_def)
  moreover have "index_sound (discard_session_end_request x e) = index_sound e"
    by (simp only: index_sound_def d)
  ultimately show ?thesis
    using assms unfolding apply_requested_def Let_def e_def [symmetric] fades_def d by blast
qed

lemma watched_signed_in:
  "conn_user h c = Some u \<Longrightarrow> \<lparr>wa_user_id = u_id u, wa_known = u_restrictions u\<rparr> \<in> set (watched_accounts h)"
  unfolding watched_accounts_def conn_user_def find_connection_def
  by (cases "map_of (h_connections h) c") (auto dest!: map_of_SomeD intro!: bexI)

lemma tick_connections_user:
  "conn_user (fst (fold (tick_connection now) cs x)) = conn_user (fst x)"
proof (induction cs arbitrary: x)
  case (Cons c cs)
  have "conn_user (fst (tick_connection now c (h, t, a))) = conn_user h" for h t a
    by (auto simp: tick_connection_eq fun_eq_iff conn_user_def split: option.split)
  then show ?case using Cons.IH by (cases x) simp
qed simp

lemma apply_elsewhere_enforces:
  assumes "tidy s h"
  shows "fades h (apply_restrictions_written_elsewhere E h)
    \<and> (\<forall>c u. conn_user h c = Some u \<and> conn_uid (apply_restrictions_written_elsewhere E h) c = Some (u_id u) \<longrightarrow>
        (\<exists>a. users_find_by_id s (u_id u) = Some a \<and> ac_session_end_requested_at a = 0
          \<and> (r_banned (u_restrictions (ac_user a)) \<longrightarrow> r_banned (u_restrictions u))))"
proof -
  define found where "found = poll s (watched_accounts h)"
  define h1 where "h1 = fold (apply_change E) (rp_changed found) h"
  define h2 where "h2 = fold (\<lambda>uid. end_session_of E uid ''the account was removed'') (rp_gone found) h1"
  define h3 where "h3 = fold (apply_requested E) (rp_session_end_requested found) h2"
  have td: "mgr_good (h_rooms g) \<and> index_sound g" if "tidy s g" for g using that by (simp add: tidy_def)
  have 1: "tidy s h1 \<and> fades h h1 \<and> (\<forall>x \<in> set (rp_changed found).
      ((\<exists>a. users_find_by_id s (rc_user_id x) = Some a \<and> r_banned (u_restrictions (ac_user a)))
        \<and> \<not> r_banned (rc_before x)) \<longrightarrow> (\<forall>c. conn_uid h1 c \<noteq> Some (rc_user_id x)))"
    unfolding h1_def by (rule fold_kills [of "tidy s"]) (use assms td apply_change_fades in blast)+
  have end_fades: "tidy s (end_session_of E x r g) \<and> fades g (end_session_of E x r g)
      \<and> (True \<longrightarrow> (\<forall>c. conn_uid (end_session_of E x r g) c \<noteq> Some x))" if "tidy s g" for x r g
    using tidy_fades [OF that fades_end_session] end_session_users end_session_kills fades_end_session that
    by (simp add: tidy_def)
  have 2: "tidy s h2 \<and> fades h1 h2 \<and> (\<forall>x \<in> set (rp_gone found). True \<longrightarrow> (\<forall>c. conn_uid h2 c \<noteq> Some x))"
    unfolding h2_def by (rule fold_kills [of "tidy s"]) (use 1 td end_fades in blast)+
  have 3: "(mgr_good (h_rooms h3) \<and> index_sound h3) \<and> fades h2 h3
      \<and> (\<forall>x \<in> set (rp_session_end_requested found). True \<longrightarrow> (\<forall>c. conn_uid h3 c \<noteq> Some x))"
    unfolding h3_def by (rule fold_kills [OF requested_fades]) (use 2 td in blast)+
  have eq: "apply_restrictions_written_elsewhere E h = h3" if "watched_accounts h \<noteq> []"
    using that assms by (simp add: apply_restrictions_written_elsewhere_def Let_def h3_def h2_def h1_def
        found_def tidy_def)
  have same: "apply_restrictions_written_elsewhere E h = h" if "watched_accounts h = []"
    using that by (simp add: apply_restrictions_written_elsewhere_def Let_def)
  show ?thesis
  proof (cases "watched_accounts h = []")
    case True
    then show ?thesis using same watched_signed_in by fastforce
  next
    case False
    have f: "fades h h3" using 1 2 3 fades_trans by blast
    have prev: "conn_uid h2 c = conn_uid h3 c" "conn_uid h1 c = conn_uid h3 c" if "conn_uid h3 c = Some v" for c v
      using 1 2 3 that td by (auto simp: fades_def)
    have "\<exists>a. users_find_by_id s (u_id u) = Some a \<and> ac_session_end_requested_at a = 0
          \<and> (r_banned (u_restrictions (ac_user a)) \<longrightarrow> r_banned (u_restrictions u))"
      if u: "conn_user h c = Some u" and c: "conn_uid h3 c = Some (u_id u)" for c u
    proof -
      let ?w = "\<lparr>wa_user_id = u_id u, wa_known = u_restrictions u\<rparr>"
      note w = poll_reports [OF watched_signed_in [OF u], of s, folded found_def, simplified]
      have "u_id u \<notin> set (rp_gone found)" "u_id u \<notin> set (rp_session_end_requested found)"
        using 2 3 c prev [OF c] by auto
      then obtain a where a: "users_find_by_id s (u_id u) = Some a" "ac_session_end_requested_at a = 0"
        using w(1,2) by (cases "users_find_by_id s (u_id u)") auto
      have "r_banned (u_restrictions u)" if b: "r_banned (u_restrictions (ac_user a))"
      proof (rule ccontr)
        assume n: "\<not> r_banned (u_restrictions u)"
        then have "u_restrictions (ac_user a) \<noteq> u_restrictions u" using b by auto
        then have "\<lparr>rc_user_id = u_id u, rc_before = u_restrictions u, rc_after = u_restrictions (ac_user a)\<rparr>
            \<in> set (rp_changed found)" using w(3) a by blast
        then have "conn_uid h1 c \<noteq> Some (u_id u)" using 1 a b n by fastforce
        then show False using c prev [OF c] by simp
      qed
      with a show ?thesis by blast
    qed
    then show ?thesis using f eq [OF False] by auto
  qed
qed

lemma quiet_tick_connections: "quiet (fst x) (fst (fold (tick_connection now) cs x))"
proof (induction cs arbitrary: x)
  case (Cons c cs)
  have "quiet (fst x) (fst (tick_connection now c x))" by (cases x) (simp add: quiet_tick_connection)
  then show ?case using Cons.IH [of "tick_connection now c x"] quiet_trans by simp
qed simp


section \<open>Notices\<close>

definition delivered :: "hub \<Rightarrow> nat \<Rightarrow> string list" where
  "delivered h c = (case find_connection h c of None \<Rightarrow> [] | Some s \<Rightarrow> cn_delivered s)"

text \<open>A notice that is owed: pending for whoever is signed in on the connection.\<close>

definition owed :: "hub \<Rightarrow> nat \<Rightarrow> notice \<Rightarrow> bool" where
  "owed h c n \<longleftrightarrow> (case conn_user h c of None \<Rightarrow> False
     | Some u \<Rightarrow> n \<in> set (notices_pending_for (h_notices h) (u_id u)))"

lemma out_views [simp]:
  "delivered (h\<lparr>h_out := x\<rparr>) = delivered h" "conn_user (h\<lparr>h_out := x\<rparr>) = conn_user h"
  by (simp_all add: fun_eq_iff delivered_def find_connection_def conn_user_def)

text \<open>What handing over may have done so far.\<close>

definition handed :: "hub \<Rightarrow> hub \<Rightarrow> bool" where
  "handed h g \<longleftrightarrow> conn_user g = conn_user h \<and> h_notices g = h_notices h
     \<and> map fst (h_connections g) = map fst (h_connections h)
     \<and> (\<forall>d. set (delivered h d) \<subseteq> set (delivered g d))
     \<and> (\<exists>more. h_out g = h_out h @ more \<and> (\<forall>x \<in> set more. \<exists>c n. x = \<lparr>o_connection = c, o_message = Notice n\<rparr>
          \<and> owed h c n \<and> nt_id n \<notin> set (delivered h c)))"

lemma handed_refl [simp]: "handed h h"
  by (simp add: handed_def)

lemma upd_connection_keys [simp]: "map fst (h_connections (upd_connection c f h)) = map fst (h_connections h)"
  by (simp add: upd_connection_def)

lemma handed_hand_over:
  assumes "handed h g" and "owed h c n"
  shows "handed h (hand_over_notice c n g) \<and> nt_id n \<in> set (delivered (hand_over_notice c n g) c)
    \<and> (\<forall>d. set (delivered g d) \<subseteq> set (delivered (hand_over_notice c n g) d))"
proof -
  have "conn_user h c \<noteq> None" using assms(2) by (auto simp: owed_def split: option.splits)
  then have "conn_user g c \<noteq> None" using assms(1) by (simp add: handed_def)
  then obtain s where s: "find_connection g c = Some s"
    by (auto simp: conn_user_def split: option.splits)
  show ?thesis
  proof (cases "nt_id n \<in> set (cn_delivered s)")
    case True
    then show ?thesis using assms s by (simp add: hand_over_notice_def delivered_def)
  next
    case False
    let ?g = "upd_connection c (\<lambda>s. s\<lparr>cn_delivered := nt_id n # cn_delivered s\<rparr>) g"
    have eq: "hand_over_notice c n g = send c (Notice n) ?g"
      using False s by (simp add: hand_over_notice_def)
    have d: "delivered ?g d = (if d = c then nt_id n # delivered g c else delivered g d)" for d
      using s by (simp add: delivered_def)
    have u: "conn_user ?g = conn_user g"
      by (auto simp: fun_eq_iff conn_user_def split: option.split)
    have "set (delivered h c) \<subseteq> set (delivered g c)" using assms(1) by (simp add: handed_def)
    then have "nt_id n \<notin> set (delivered h c)" using False s by (auto simp: delivered_def [of g])
    then show ?thesis
      using assms d u unfolding eq handed_def
      by (auto simp: send_eq)
  qed
qed

lemma handed_owed: "handed h g \<Longrightarrow> owed g = owed h"
  unfolding handed_def by (elim conjE) (simp add: owed_def fun_eq_iff cong: option.case_cong)

lemma handed_pending:
  assumes "handed h g" and "\<And>n. n \<in> set ns \<Longrightarrow> owed h c n"
  shows "handed h (fold (hand_over_notice c) ns g)
    \<and> (\<forall>n \<in> set ns. nt_id n \<in> set (delivered (fold (hand_over_notice c) ns g) c))
    \<and> (\<forall>d. set (delivered g d) \<subseteq> set (delivered (fold (hand_over_notice c) ns g) d))"
  using assms
proof (induction ns arbitrary: g)
  case (Cons n ns)
  have n: "owed h c n" using Cons.prems(2) by simp
  note 1 = handed_hand_over [OF Cons.prems(1) n]
  have "handed h (fold (hand_over_notice c) ns (hand_over_notice c n g))
    \<and> (\<forall>n' \<in> set ns. nt_id n' \<in> set (delivered (fold (hand_over_notice c) ns (hand_over_notice c n g)) c))
    \<and> (\<forall>d. set (delivered (hand_over_notice c n g) d)
        \<subseteq> set (delivered (fold (hand_over_notice c) ns (hand_over_notice c n g)) d))"
    by (rule Cons.IH) (use 1 Cons.prems(2) in simp_all)
  then show ?case using 1 by (simp, blast)
qed simp

lemma handed_deliver:
  assumes "handed h g"
  shows "handed h (deliver_pending_notices c g)
    \<and> (\<forall>n. owed h c n \<longrightarrow> nt_id n \<in> set (delivered (deliver_pending_notices c g) c))
    \<and> (\<forall>d. set (delivered g d) \<subseteq> set (delivered (deliver_pending_notices c g) d))"
proof (cases "conn_user h c")
  case None
  then show ?thesis using assms by (simp add: deliver_pending_notices_def handed_def owed_def)
next
  case (Some u)
  let ?ns = "notices_pending_for (h_notices h) (u_id u)"
  have "deliver_pending_notices c g = fold (hand_over_notice c) ?ns g"
    using Some assms by (simp add: deliver_pending_notices_def handed_def)
  then show ?thesis
    using handed_pending [OF assms, of ?ns c] Some by (simp add: owed_def)
qed

lemma handed_deliver_all:
  assumes "handed h g"
  shows "handed h (fold deliver_pending_notices cs g)
    \<and> (\<forall>c \<in> set cs. \<forall>n. owed h c n \<longrightarrow> nt_id n \<in> set (delivered (fold deliver_pending_notices cs g) c))
    \<and> (\<forall>d. set (delivered g d) \<subseteq> set (delivered (fold deliver_pending_notices cs g) d))"
  using assms
proof (induction cs arbitrary: g)
  case (Cons c cs)
  note 1 = handed_deliver [OF Cons.prems, of c]
  note 2 = Cons.IH [OF 1 [THEN conjunct1]]
  show ?case using 1 2 by (simp, blast)
qed simp

text \<open>Nothing is owed that was not delivered.\<close>

lemma nothing_owed:
  assumes "\<And>c n. owed h c n \<Longrightarrow> nt_id n \<in> set (delivered h c)"
  shows "deliver_notices_written_elsewhere h = h"
proof -
  have 1: "fold (hand_over_notice c) ns h = h" if "\<And>n. n \<in> set ns \<Longrightarrow> owed h c n" for c ns
    using that
  proof (induction ns)
    case (Cons n ns)
    have "hand_over_notice c n h = h"
      using assms [of c n] Cons.prems [of n]
      by (auto simp: hand_over_notice_def delivered_def split: option.split)
    then show ?case using Cons by simp
  qed simp
  have "deliver_pending_notices c h = h" for c
    using 1 by (auto simp: deliver_pending_notices_def owed_def split: option.split)
  then have "fold deliver_pending_notices cs h = h" for cs by (induction cs) simp_all
  then show ?thesis by (simp add: deliver_notices_written_elsewhere_def)
qed

lemma owed_connected: "owed h c n \<Longrightarrow> c \<in> fst ` set (h_connections h)"
  by (auto simp: owed_def conn_user_def find_connection_def split: option.splits dest: map_of_SomeD
      intro: rev_image_eqI)


section \<open>The heartbeat at work\<close>

lemma heartbeat_exact_witness:
  "fst (tick toy_env (seconds 15) seated) = [1, 2]"
proof -
  have "distinct (map fst (h_connections seated))" by code_simp
  moreover have "filter (overdue (seconds 15) seated) (map fst (h_connections seated)) = [1, 2]" by code_simp
  ultimately show ?thesis using heartbeat_exact [of seated toy_env "seconds 15"] by simp
qed

text \<open>The accounts with \<open>bob\<close> banned by another program.\<close>

definition banned_elsewhere :: user_store where
  "banned_elsewhere = map (\<lambda>a. if ac_id a = ''02'' then a\<lparr>ac_user := (ac_user a)\<lparr>u_restrictions :=
     no_restrictions\<lparr>r_banned := True\<rparr>\<rparr>\<rparr> else a) toy_users"


definition noticed :: hub where
  "noticed = seated\<lparr>h_notices := snd (notices_append 50 \<lparr>nt_id = [], nt_user_id = ''02'', nt_from_user_id = ''00'',
     nt_from_display_name = ''ada'', nt_text = ''hi'', nt_created_at = 0, nt_acknowledged_at = 0\<rparr> (h_notices seated))\<rparr>"


end
