(* ===== verification/HubFindings.thy ===== *)
theory HubFindings
  imports HubHeartbeat
begin

text \<open>
  Runs of the hub that end where its documentation says they cannot: three that follow from a
  connection that signs in twice, and one from a restriction noticed by the wrong handler.
\<close>

section \<open>One socket, two accounts\<close>

text \<open>\<open>ada\<close> sits in a room; her connection then signs in as \<open>bob\<close>. The hub takes the identity off the
  connection an account was on before, but not off the connection that signs in.\<close>

definition signed_in_twice :: "event list" where
  "signed_in_twice = [Connected 1 ''::1'' 0, client 1 (Authenticate ''ada'' ''pw''),
     client 1 (CreateRoom ''00'' ''sala'' False 0), client 1 (JoinRoom ''012345'' ''00'' []),
     client 1 (Authenticate ''bob'' ''qx'')]"

text \<open>She is still in the room, with nobody signed in as her, and the hub still sends her messages to
  the connection.\<close>

lemma identity_left_behind:
  "map_option u_id (conn_user (run signed_in_twice toy_hub) 1) = Some ''02''
    \<and> connection_of_user (run signed_in_twice toy_hub) ''00'' = Some 1
    \<and> room_of (h_rooms (run signed_in_twice toy_hub)) ''00'' = Some ''012345''"
  by code_simp

text \<open>And when the socket closes she stays: a participant no connection stands for, in a hub with no
  connection left, and the presence row of her session is never closed.\<close>

lemma ghost_participant:
  "let h = run (signed_in_twice @ [Disconnected 1]) toy_hub in
     h_connections h = [] \<and> room_of (h_rooms h) ''00'' = Some ''012345''
   \<and> map (\<lambda>r. (sr_user_id r, sr_ended_at r = 0)) (se_sessions (h_sessions h)) = [(''00'', True), (''02'', False)]"
  by code_simp

text \<open>The other way round, an administrator who signed in on a socket that was \<open>bob\<close>'s and deletes
  \<open>bob\<close>: the handler reads the administrator's identity after taking it away.\<close>

lemma deleting_reads_what_is_gone:
  "h_fault (run [Connected 1 ''::1'' 0, client 1 (Authenticate ''bob'' ''qx''),
     client 1 (Authenticate ''ada'' ''pw''), client 1 (DeleteUser ''02'')] toy_hub) \<noteq> None"
  by code_simp

section \<open>A ban that is never noticed\<close>

text \<open>\<open>bob\<close> is banned by another program and asks to join a room before the next heartbeat. The join is
  refused, but the connection has taken note of the ban, so the heartbeat sees no change, now or
  later: the account stays signed in and holds its tokens.\<close>

lemma ban_not_enforced:
  "let h = run (both_in @ [WrittenElsewhere banned_elsewhere, client 2 (JoinRoom ''012345'' ''02'' []),
       Heartbeat 1, Heartbeat 2]) toy_hub in
     map_option (\<lambda>a. r_banned (u_restrictions (ac_user a))) (users_find_by_id (hub_users h) ''02'') = Some True
   \<and> map_option u_id (conn_user h 2) = Some ''02'' \<and> connection_of_user h ''02'' = Some 2"
  by code_simp

text \<open>Without the join in between it is enforced.\<close>

lemma ban_enforced:
  "conn_user (run (both_in @ [WrittenElsewhere banned_elsewhere, Heartbeat 1]) toy_hub) 2 = None"
  by code_simp

end
