(* ===== verification/Codec.thy ===== *)
theory Codec
  imports Protocol "HOL-Library.State_Monad"
begin

text \<open>
  The codec of \<open>shared/src/protocol/message.cpp\<close>: how every message is written to a JSON object
  and read back from one. A JSON value is what \<open>nlohmann::json\<close> holds: an object is a finite map
  from keys to values (it has no order and no repeated key), an integer is any value
  \<open>is_number_integer()\<close> accepts, a number with a fraction is carried as its text because nothing
  here reads it. \<open>FieldReader\<close> is the state of a state monad: the object it reads from and the
  first failure it met. The text of a JSON document is the library's business:
  \<open>json::parse\<close> and \<open>dump\<close> are arguments of \<open>parse\<close> and \<open>serialize\<close>.
\<close>

section \<open>JSON values\<close>

datatype json =
    JNull
  | JBool bool
  | JInt int
  | JFloat string
  | JString string
  | JArray "json list"
  | JObject "string \<rightharpoonup> json"

type_synonym json_fields = "(string \<times> json) list"

text \<open>\<open>json{{k, v}, \<dots>}\<close>, and \<open>root[k] = v\<close> in the order of the assignments.\<close>

definition fields_of :: "json_fields \<Rightarrow> (string \<rightharpoonup> json)" where
  "fields_of fs = foldl (\<lambda>m (k, v). m(k \<mapsto> v)) Map.empty fs"

section \<open>The field reader\<close>

record field_reader =
  fr_object :: "string \<rightharpoonup> json"
  fr_error :: "error option"

type_synonym 'a reader = "(field_reader, 'a) state"

definition new_reader :: "(string \<rightharpoonup> json) \<Rightarrow> field_reader" where
  "new_reader members = \<lparr>fr_object = members, fr_error = None\<rparr>"

definition fr_fail :: "string \<Rightarrow> string \<Rightarrow> string \<Rightarrow> unit reader" where
  "fr_fail code key reason = State (\<lambda>r. ((), case fr_error r of
     Some _ \<Rightarrow> r
   | None \<Rightarrow> r\<lparr>fr_error := Some (mk_error code (key @ '' '' @ reason))\<rparr>))"

definition fr_find :: "string \<Rightarrow> json option reader" where
  "fr_find key = State (\<lambda>r. (fr_object r key, r))"

definition is_absent :: "json option \<Rightarrow> bool" where
  "is_absent field = (case field of None \<Rightarrow> True | Some JNull \<Rightarrow> True | Some _ \<Rightarrow> False)"

definition fr_require :: "string \<Rightarrow> json option reader" where
  "fr_require key = do {
     field \<leftarrow> fr_find key;
     if is_absent field
     then do { fr_fail ''missing_field'' key ''is required''; State_Monad.return None }
     else State_Monad.return field }"

text \<open>The three shapes every accessor has: what a wrong type answers after the failure is noted,
  a field that has to be there, and one that may be absent or null.\<close>

definition fr_wrong :: "string \<Rightarrow> string \<Rightarrow> 'a \<Rightarrow> 'a reader" where
  "fr_wrong key expected fallback =
     do { fr_fail ''invalid_type'' key expected; State_Monad.return fallback }"

definition read_string :: "string \<Rightarrow> string reader" where
  "read_string key = do {
     field \<leftarrow> fr_require key;
     case field of
       None \<Rightarrow> State_Monad.return []
     | Some (JString s) \<Rightarrow> State_Monad.return s
     | Some _ \<Rightarrow> fr_wrong key ''expected a string'' [] }"

definition read_optional_string :: "string \<Rightarrow> string reader" where
  "read_optional_string key = do {
     field \<leftarrow> fr_find key;
     if is_absent field then State_Monad.return []
     else case field of
       Some (JString s) \<Rightarrow> State_Monad.return s
     | _ \<Rightarrow> fr_wrong key ''expected a string'' [] }"

definition read_maybe_string :: "string \<Rightarrow> string option reader" where
  "read_maybe_string key = do {
     field \<leftarrow> fr_find key;
     if is_absent field then State_Monad.return None
     else case field of
       Some (JString s) \<Rightarrow> State_Monad.return (Some s)
     | _ \<Rightarrow> fr_wrong key ''expected a string'' None }"

definition read_require_boolean :: "string \<Rightarrow> bool reader" where
  "read_require_boolean key = do {
     field \<leftarrow> fr_require key;
     case field of
       None \<Rightarrow> State_Monad.return False
     | Some (JBool b) \<Rightarrow> State_Monad.return b
     | Some _ \<Rightarrow> fr_wrong key ''expected a boolean'' False }"

definition read_boolean :: "string \<Rightarrow> bool \<Rightarrow> bool reader" where
  "read_boolean key fallback = do {
     field \<leftarrow> fr_find key;
     if is_absent field then State_Monad.return fallback
     else case field of
       Some (JBool b) \<Rightarrow> State_Monad.return b
     | _ \<Rightarrow> fr_wrong key ''expected a boolean'' fallback }"

definition read_maybe_boolean :: "string \<Rightarrow> bool option reader" where
  "read_maybe_boolean key = do {
     field \<leftarrow> fr_find key;
     if is_absent field then State_Monad.return None
     else case field of
       Some (JBool b) \<Rightarrow> State_Monad.return (Some b)
     | _ \<Rightarrow> fr_wrong key ''expected a boolean'' None }"

text \<open>\<open>get<std::int64_t>\<close> and \<open>get<int>\<close> cast whatever integer the document holds.\<close>

definition read_optional_integer :: "string \<Rightarrow> int reader" where
  "read_optional_integer key = do {
     field \<leftarrow> fr_find key;
     if is_absent field then State_Monad.return 0
     else case field of
       Some (JInt i) \<Rightarrow> State_Monad.return (to_int64 i)
     | _ \<Rightarrow> fr_wrong key ''expected an integer'' 0 }"

definition read_integer :: "string \<Rightarrow> int reader" where
  "read_integer key = do {
     field \<leftarrow> fr_require key;
     case field of
       None \<Rightarrow> State_Monad.return 0
     | Some (JInt i) \<Rightarrow> State_Monad.return (to_int32 i)
     | Some _ \<Rightarrow> fr_wrong key ''expected an integer'' 0 }"

text \<open>\<open>static_cast<int>(reader.optional_integer(key))\<close>.\<close>

definition read_cast_integer :: "string \<Rightarrow> int reader" where
  "read_cast_integer key = do {
     i \<leftarrow> read_optional_integer key;
     State_Monad.return (to_int32 i) }"

text \<open>A reader of its own over a nested object; a failure inside is reported against the key of
  the object, and \<open>salvage\<close> says what the accessor answers then.\<close>

definition read_nested :: "string \<Rightarrow> 'a reader \<Rightarrow> ('a \<Rightarrow> 'a) \<Rightarrow> (string \<rightharpoonup> json) \<Rightarrow> 'a reader" where
  "read_nested key inner salvage members =
     (let (value, nested) = run_state inner (new_reader members) in
      case fr_error nested of
        None \<Rightarrow> State_Monad.return value
      | Some e \<Rightarrow> do {
          fr_fail (err_code e) key (err_message e);
          State_Monad.return (salvage value) })"

definition restrictions_fields :: "restrictions reader" where
  "restrictions_fields = do {
     banned \<leftarrow> read_boolean ''banned'' False;
     muted \<leftarrow> read_boolean ''muted'' False;
     silenced \<leftarrow> read_boolean ''silenced'' False;
     blocked \<leftarrow> read_boolean ''screen_share_blocked'' False;
     State_Monad.return \<lparr>r_banned = banned, r_muted = muted, r_silenced = silenced,
       r_screen_share_blocked = blocked\<rparr> }"

definition read_restrictions :: "string \<Rightarrow> restrictions reader" where
  "read_restrictions key = do {
     field \<leftarrow> fr_find key;
     if is_absent field then State_Monad.return no_restrictions
     else case field of
       Some (JObject members) \<Rightarrow> read_nested key restrictions_fields id members
     | _ \<Rightarrow> fr_wrong key ''expected an object'' no_restrictions }"

definition user_fields :: "user reader" where
  "user_fields = do {
     uid \<leftarrow> read_string ''id'';
     display_name \<leftarrow> read_string ''display_name'';
     avatar \<leftarrow> read_optional_string ''avatar'';
     role \<leftarrow> read_optional_string ''role'';
     restrictions \<leftarrow> read_restrictions ''restrictions'';
     State_Monad.return \<lparr>u_id = uid, u_display_name = display_name, u_avatar = avatar,
       u_role = role_from_string role, u_restrictions = restrictions\<rparr> }"

definition read_user :: "string \<Rightarrow> user reader" where
  "read_user key = do {
     field \<leftarrow> fr_require key;
     case field of
       None \<Rightarrow> State_Monad.return default_user
     | Some (JObject members) \<Rightarrow> read_nested key user_fields id members
     | Some _ \<Rightarrow> fr_wrong key ''expected an object'' default_user }"

text \<open>\<open>object<T>\<close>, where \<open>initial\<close> is \<open>T{}\<close>, and \<open>array<T>\<close>.\<close>

definition read_object :: "'a \<Rightarrow> string \<Rightarrow> 'a reader \<Rightarrow> 'a reader" where
  "read_object initial key inner = do {
     field \<leftarrow> fr_require key;
     case field of
       None \<Rightarrow> State_Monad.return initial
     | Some (JObject members) \<Rightarrow> read_nested key inner (\<lambda>_. initial) members
     | Some _ \<Rightarrow> fr_wrong key ''expected an object'' initial }"

fun read_elements :: "string \<Rightarrow> 'a reader \<Rightarrow> 'a list \<Rightarrow> json list \<Rightarrow> 'a list reader" where
  "read_elements key inner values [] = State_Monad.return values"
| "read_elements key inner values (JObject members # elements) =
     (let (value, nested) = run_state inner (new_reader members) in
      case fr_error nested of
        None \<Rightarrow> read_elements key inner (values @ [value]) elements
      | Some e \<Rightarrow> do {
          fr_fail (err_code e) key (err_message e);
          State_Monad.return values })"
| "read_elements key inner values (_ # elements) =
     fr_wrong key ''expected an array of objects'' values"

definition read_array :: "string \<Rightarrow> 'a reader \<Rightarrow> 'a list reader" where
  "read_array key inner = do {
     field \<leftarrow> fr_require key;
     case field of
       None \<Rightarrow> State_Monad.return []
     | Some (JArray elements) \<Rightarrow> read_elements key inner [] elements
     | Some _ \<Rightarrow> fr_wrong key ''expected an array'' [] }"

section \<open>Structures to and from JSON\<close>

definition restrictions_to_json :: "restrictions \<Rightarrow> json" where
  "restrictions_to_json r = JObject (fields_of
     [(''banned'', JBool (r_banned r)),
      (''muted'', JBool (r_muted r)),
      (''silenced'', JBool (r_silenced r)),
      (''screen_share_blocked'', JBool (r_screen_share_blocked r))])"

definition user_to_json :: "user \<Rightarrow> json" where
  "user_to_json u = JObject (fields_of
     [(''id'', JString (u_id u)),
      (''display_name'', JString (u_display_name u)),
      (''avatar'', JString (u_avatar u)),
      (''role'', JString (role_to_string (u_role u))),
      (''restrictions'', restrictions_to_json (u_restrictions u))])"

definition user_summary_to_json :: "user_summary \<Rightarrow> json" where
  "user_summary_to_json s = JObject (fields_of
     [(''user'', user_to_json (us_user s)),
      (''username'', JString (us_username s)),
      (''created_at'', JInt (us_created_at s)),
      (''online'', JBool (us_online s))])"

definition user_summary_from :: "user_summary reader" where
  "user_summary_from = do {
     user \<leftarrow> read_user ''user'';
     username \<leftarrow> read_string ''username'';
     created_at \<leftarrow> read_optional_integer ''created_at'';
     online \<leftarrow> read_boolean ''online'' False;
     State_Monad.return \<lparr>us_user = user, us_username = username, us_created_at = created_at,
       us_online = online\<rparr> }"

definition room_summary_to_json :: "room_summary \<Rightarrow> json" where
  "room_summary_to_json s = JObject (fields_of
     [(''id'', JString (rs_id s)),
      (''name'', JString (rs_name s)),
      (''owner_id'', JString (rs_owner_id s)),
      (''persistent'', JBool (rs_persistent s)),
      (''participant_count'', JInt (rs_participant_count s)),
      (''capacity'', JInt (rs_capacity s))])"

definition room_summary_from :: "room_summary reader" where
  "room_summary_from = do {
     rid \<leftarrow> read_string ''id'';
     name \<leftarrow> read_optional_string ''name'';
     owner_id \<leftarrow> read_optional_string ''owner_id'';
     persistent \<leftarrow> read_boolean ''persistent'' False;
     participant_count \<leftarrow> read_cast_integer ''participant_count'';
     capacity \<leftarrow> read_cast_integer ''capacity'';
     State_Monad.return \<lparr>rs_id = rid, rs_name = name, rs_owner_id = owner_id,
       rs_persistent = persistent, rs_participant_count = participant_count,
       rs_capacity = capacity\<rparr> }"

definition chat_message_to_json :: "chat_message \<Rightarrow> json" where
  "chat_message_to_json m = JObject (fields_of
     [(''id'', JString (cm_id m)),
      (''room_id'', JString (cm_room_id m)),
      (''user_id'', JString (cm_user_id m)),
      (''display_name'', JString (cm_display_name m)),
      (''text'', JString (cm_text m)),
      (''timestamp_seconds'', JInt (cm_timestamp_seconds m))])"

definition default_chat_message :: chat_message where
  "default_chat_message = \<lparr>cm_id = [], cm_room_id = [], cm_user_id = [], cm_display_name = [],
     cm_text = [], cm_timestamp_seconds = 0\<rparr>"

definition chat_message_from :: "chat_message reader" where
  "chat_message_from = do {
     mid \<leftarrow> read_optional_string ''id'';
     room_id \<leftarrow> read_string ''room_id'';
     user_id \<leftarrow> read_string ''user_id'';
     display_name \<leftarrow> read_optional_string ''display_name'';
     txt \<leftarrow> read_string ''text'';
     timestamp_seconds \<leftarrow> read_optional_integer ''timestamp_seconds'';
     State_Monad.return \<lparr>cm_id = mid, cm_room_id = room_id, cm_user_id = user_id,
       cm_display_name = display_name, cm_text = txt, cm_timestamp_seconds = timestamp_seconds\<rparr> }"

definition notice_to_json :: "notice \<Rightarrow> json" where
  "notice_to_json n = JObject (fields_of
     [(''id'', JString (nt_id n)),
      (''user_id'', JString (nt_user_id n)),
      (''from_user_id'', JString (nt_from_user_id n)),
      (''from_display_name'', JString (nt_from_display_name n)),
      (''text'', JString (nt_text n)),
      (''created_at'', JInt (nt_created_at n)),
      (''acknowledged_at'', JInt (nt_acknowledged_at n))])"

definition default_notice :: notice where
  "default_notice = \<lparr>nt_id = [], nt_user_id = [], nt_from_user_id = [], nt_from_display_name = [],
     nt_text = [], nt_created_at = 0, nt_acknowledged_at = 0\<rparr>"

definition notice_from :: "notice reader" where
  "notice_from = do {
     nid \<leftarrow> read_optional_string ''id'';
     user_id \<leftarrow> read_optional_string ''user_id'';
     from_user_id \<leftarrow> read_optional_string ''from_user_id'';
     from_display_name \<leftarrow> read_optional_string ''from_display_name'';
     txt \<leftarrow> read_string ''text'';
     created_at \<leftarrow> read_optional_integer ''created_at'';
     acknowledged_at \<leftarrow> read_optional_integer ''acknowledged_at'';
     State_Monad.return \<lparr>nt_id = nid, nt_user_id = user_id, nt_from_user_id = from_user_id,
       nt_from_display_name = from_display_name, nt_text = txt, nt_created_at = created_at,
       nt_acknowledged_at = acknowledged_at\<rparr> }"

definition audit_entry_to_json :: "audit_entry \<Rightarrow> json" where
  "audit_entry_to_json e = JObject (fields_of
     [(''id'', JString (ae_id e)),
      (''actor_id'', JString (ae_actor_id e)),
      (''actor_username'', JString (ae_actor_username e)),
      (''action'', JString (ae_action e)),
      (''target_id'', JString (ae_target_id e)),
      (''room_id'', JString (ae_room_id e)),
      (''detail'', JString (ae_detail e)),
      (''timestamp_seconds'', JInt (ae_timestamp_seconds e))])"

definition audit_entry_from :: "audit_entry reader" where
  "audit_entry_from = do {
     eid \<leftarrow> read_optional_string ''id'';
     actor_id \<leftarrow> read_optional_string ''actor_id'';
     actor_username \<leftarrow> read_optional_string ''actor_username'';
     action \<leftarrow> read_string ''action'';
     target_id \<leftarrow> read_optional_string ''target_id'';
     room_id \<leftarrow> read_optional_string ''room_id'';
     detail \<leftarrow> read_optional_string ''detail'';
     timestamp_seconds \<leftarrow> read_optional_integer ''timestamp_seconds'';
     State_Monad.return \<lparr>ae_id = eid, ae_actor_id = actor_id, ae_actor_username = actor_username,
       ae_action = action, ae_target_id = target_id, ae_room_id = room_id, ae_detail = detail,
       ae_timestamp_seconds = timestamp_seconds\<rparr> }"

definition session_summary_to_json :: "session_summary \<Rightarrow> json" where
  "session_summary_to_json s = JObject (fields_of
     [(''id'', JString (ss_id s)),
      (''user_id'', JString (ss_user_id s)),
      (''ip'', JString (ss_ip s)),
      (''connected_at'', JInt (ss_connected_at s)),
      (''last_seen_at'', JInt (ss_last_seen_at s)),
      (''ended_at'', JInt (ss_ended_at s))])"

definition session_summary_from :: "session_summary reader" where
  "session_summary_from = do {
     sid \<leftarrow> read_optional_string ''id'';
     user_id \<leftarrow> read_string ''user_id'';
     ip \<leftarrow> read_optional_string ''ip'';
     connected_at \<leftarrow> read_optional_integer ''connected_at'';
     last_seen_at \<leftarrow> read_optional_integer ''last_seen_at'';
     ended_at \<leftarrow> read_optional_integer ''ended_at'';
     State_Monad.return \<lparr>ss_id = sid, ss_user_id = user_id, ss_ip = ip,
       ss_connected_at = connected_at, ss_last_seen_at = last_seen_at, ss_ended_at = ended_at\<rparr> }"

section \<open>Writing a message\<close>

definition written_if :: "bool \<Rightarrow> string \<Rightarrow> json \<Rightarrow> json_fields" where
  "written_if asked key value = (if asked then [(key, value)] else [])"

definition write_flag :: "string \<Rightarrow> bool option \<Rightarrow> json_fields" where
  "write_flag key flag = (case flag of Some b \<Rightarrow> [(key, JBool b)] | None \<Rightarrow> [])"

definition write_string :: "string \<Rightarrow> string option \<Rightarrow> json_fields" where
  "write_string key text = (case text of Some s \<Rightarrow> [(key, JString s)] | None \<Rightarrow> [])"

fun payload :: "message \<Rightarrow> json_fields" where
  "payload (Authenticate username password) =
     [(''username'', JString username), (''password'', JString password)]"
| "payload (Authenticated usr token expires_in_seconds) =
     [(''user'', user_to_json usr), (''token'', JString token),
      (''expires_in_seconds'', JInt expires_in_seconds)]"
| "payload (CreateRoom user_id room_name persistent capacity) =
     [(''user_id'', JString user_id), (''room_name'', JString room_name),
      (''persistent'', JBool persistent)] @ written_if (capacity \<noteq> 0) ''capacity'' (JInt capacity)"
| "payload (RoomCreated room_id room_name capacity) =
     [(''room_id'', JString room_id), (''room_name'', JString room_name),
      (''capacity'', JInt capacity)]"
| "payload (JoinRoom room_id user_id display_name) =
     [(''room_id'', JString room_id), (''user_id'', JString user_id),
      (''display_name'', JString display_name)]"
| "payload (UserJoined room_id usr) =
     [(''room_id'', JString room_id), (''user'', user_to_json usr)]"
| "payload (Offer room_id from_user_id to_user_id sdp) =
     [(''room_id'', JString room_id), (''from_user_id'', JString from_user_id),
      (''to_user_id'', JString to_user_id), (''sdp'', JString sdp)]"
| "payload (Answer room_id from_user_id to_user_id sdp) =
     [(''room_id'', JString room_id), (''from_user_id'', JString from_user_id),
      (''to_user_id'', JString to_user_id), (''sdp'', JString sdp)]"
| "payload (IceCandidate room_id from_user_id to_user_id candidate sdp_mid sdp_mline_index) =
     [(''room_id'', JString room_id), (''from_user_id'', JString from_user_id),
      (''to_user_id'', JString to_user_id), (''candidate'', JString candidate),
      (''sdp_mid'', JString sdp_mid), (''sdp_mline_index'', JInt sdp_mline_index)]"
| "payload (ScreenShareStarted room_id user_id has_audio) =
     [(''room_id'', JString room_id), (''user_id'', JString user_id),
      (''has_audio'', JBool has_audio)]"
| "payload (LeaveRoom room_id user_id) =
     [(''room_id'', JString room_id), (''user_id'', JString user_id)]"
| "payload (UserLeft room_id user_id) =
     [(''room_id'', JString room_id), (''user_id'', JString user_id)]"
| "payload (ScreenShareStopped room_id user_id) =
     [(''room_id'', JString room_id), (''user_id'', JString user_id)]"
| "payload (Mute room_id user_id by_user_id) =
     [(''room_id'', JString room_id), (''user_id'', JString user_id),
      (''by_user_id'', JString by_user_id)]"
| "payload (Unmute room_id user_id by_user_id) =
     [(''room_id'', JString room_id), (''user_id'', JString user_id),
      (''by_user_id'', JString by_user_id)]"
| "payload (Nudge room_id from_user_id to_user_id) =
     [(''room_id'', JString room_id), (''from_user_id'', JString from_user_id),
      (''to_user_id'', JString to_user_id)]"
| "payload (ChangePassword current_password new_password) =
     [(''current_password'', JString current_password), (''new_password'', JString new_password)]"
| "payload PasswordChanged = []"
| "payload (SessionEnded reason) = [(''reason'', JString reason)]"
| "payload (ChatMessage msg) = [(''message'', chat_message_to_json msg)]"
| "payload (ListChat room_id limit) = [(''room_id'', JString room_id), (''limit'', JInt limit)]"
| "payload (ChatHistory room_id messages) =
     [(''room_id'', JString room_id),
      (''messages'', JArray (map chat_message_to_json messages))]"
| "payload (SendNotice user_id txt) = [(''user_id'', JString user_id), (''text'', JString txt)]"
| "payload (Notice n) = [(''notice'', notice_to_json n)]"
| "payload (AcknowledgeNotice notice_id) = [(''notice_id'', JString notice_id)]"
| "payload (ErrorMessage code msg) = [(''code'', JString code), (''message'', JString msg)]"
| "payload (Ping nonce) = [(''nonce'', JString nonce)]"
| "payload (Pong nonce) = [(''nonce'', JString nonce)]"
| "payload (KickUser room_id user_id reason) =
     [(''room_id'', JString room_id), (''user_id'', JString user_id), (''reason'', JString reason)]"
| "payload (UserKicked room_id user_id reason) =
     [(''room_id'', JString room_id), (''user_id'', JString user_id), (''reason'', JString reason)]"
| "payload (ForceMute room_id user_id muted) =
     [(''room_id'', JString room_id), (''user_id'', JString user_id), (''muted'', JBool muted)]"
| "payload (RestrictUser user_id banned muted silenced screen_share_blocked reason) =
     [(''user_id'', JString user_id), (''reason'', JString reason)]
      @ write_flag ''banned'' banned @ write_flag ''muted'' muted
      @ write_flag ''silenced'' silenced @ write_flag ''screen_share_blocked'' screen_share_blocked"
| "payload (UserRestricted user_id restrictions by_user_id reason room_id) =
     [(''user_id'', JString user_id), (''restrictions'', restrictions_to_json restrictions),
      (''by_user_id'', JString by_user_id), (''reason'', JString reason),
      (''room_id'', JString room_id)]"
| "payload ListUsers = []"
| "payload (UserList users) = [(''users'', JArray (map user_summary_to_json users))]"
| "payload (CreateUser username password display_name role) =
     [(''username'', JString username), (''password'', JString password),
      (''display_name'', JString display_name), (''role'', JString (role_to_string role))]"
| "payload (UpdateUser user_id role display_name password) =
     [(''user_id'', JString user_id)]
      @ write_string ''role'' (map_option role_to_string role)
      @ write_string ''display_name'' display_name @ write_string ''password'' password"
| "payload (DeleteUser user_id) = [(''user_id'', JString user_id)]"
| "payload ListRooms = []"
| "payload (RoomList rooms) = [(''rooms'', JArray (map room_summary_to_json rooms))]"
| "payload (DeleteRoom room_id) = [(''room_id'', JString room_id)]"
| "payload (UpdateRoom room_id capacity) =
     [(''room_id'', JString room_id)] @ written_if (capacity \<noteq> 0) ''capacity'' (JInt capacity)"
| "payload (ListAudit limit actor_id) = [(''limit'', JInt limit), (''actor_id'', JString actor_id)]"
| "payload (AuditList entries) = [(''entries'', JArray (map audit_entry_to_json entries))]"
| "payload (ListSessions limit) = [(''limit'', JInt limit)]"
| "payload (SessionList sessions) =
     [(''sessions'', JArray (map session_summary_to_json sessions))]"
| "payload (EndSession user_id reason) =
     [(''user_id'', JString user_id), (''reason'', JString reason)]"

definition message_to_json :: "message \<Rightarrow> json" where
  "message_to_json m = JObject (fields_of ((''type'', JString (type_name (type_of m))) # payload m))"

definition serialize :: "(json \<Rightarrow> string) \<Rightarrow> message \<Rightarrow> string" where
  "serialize dump m = dump (message_to_json m)"

section \<open>Reading a message\<close>

fun read_payload :: "message_type \<Rightarrow> message reader" where
  "read_payload MT_Authenticate = do {
     username \<leftarrow> read_string ''username'';
     password \<leftarrow> read_string ''password'';
     State_Monad.return (Authenticate username password) }"
| "read_payload MT_Authenticated = do {
     usr \<leftarrow> read_user ''user'';
     token \<leftarrow> read_string ''token'';
     expires_in_seconds \<leftarrow> read_integer ''expires_in_seconds'';
     State_Monad.return (Authenticated usr token expires_in_seconds) }"
| "read_payload MT_CreateRoom = do {
     user_id \<leftarrow> read_string ''user_id'';
     room_name \<leftarrow> read_optional_string ''room_name'';
     persistent \<leftarrow> read_boolean ''persistent'' False;
     capacity \<leftarrow> read_cast_integer ''capacity'';
     State_Monad.return (CreateRoom user_id room_name persistent capacity) }"
| "read_payload MT_RoomCreated = do {
     room_id \<leftarrow> read_string ''room_id'';
     room_name \<leftarrow> read_optional_string ''room_name'';
     capacity \<leftarrow> read_cast_integer ''capacity'';
     State_Monad.return (RoomCreated room_id room_name capacity) }"
| "read_payload MT_JoinRoom = do {
     room_id \<leftarrow> read_string ''room_id'';
     user_id \<leftarrow> read_string ''user_id'';
     display_name \<leftarrow> read_optional_string ''display_name'';
     State_Monad.return (JoinRoom room_id user_id display_name) }"
| "read_payload MT_LeaveRoom = do {
     room_id \<leftarrow> read_string ''room_id'';
     user_id \<leftarrow> read_string ''user_id'';
     State_Monad.return (LeaveRoom room_id user_id) }"
| "read_payload MT_UserJoined = do {
     room_id \<leftarrow> read_string ''room_id'';
     usr \<leftarrow> read_user ''user'';
     State_Monad.return (UserJoined room_id usr) }"
| "read_payload MT_UserLeft = do {
     room_id \<leftarrow> read_string ''room_id'';
     user_id \<leftarrow> read_string ''user_id'';
     State_Monad.return (UserLeft room_id user_id) }"
| "read_payload MT_Offer = do {
     room_id \<leftarrow> read_string ''room_id'';
     from_user_id \<leftarrow> read_string ''from_user_id'';
     to_user_id \<leftarrow> read_string ''to_user_id'';
     sdp \<leftarrow> read_string ''sdp'';
     State_Monad.return (Offer room_id from_user_id to_user_id sdp) }"
| "read_payload MT_Answer = do {
     room_id \<leftarrow> read_string ''room_id'';
     from_user_id \<leftarrow> read_string ''from_user_id'';
     to_user_id \<leftarrow> read_string ''to_user_id'';
     sdp \<leftarrow> read_string ''sdp'';
     State_Monad.return (Answer room_id from_user_id to_user_id sdp) }"
| "read_payload MT_IceCandidate = do {
     room_id \<leftarrow> read_string ''room_id'';
     from_user_id \<leftarrow> read_string ''from_user_id'';
     to_user_id \<leftarrow> read_string ''to_user_id'';
     candidate \<leftarrow> read_string ''candidate'';
     sdp_mid \<leftarrow> read_string ''sdp_mid'';
     sdp_mline_index \<leftarrow> read_integer ''sdp_mline_index'';
     State_Monad.return
       (IceCandidate room_id from_user_id to_user_id candidate sdp_mid sdp_mline_index) }"
| "read_payload MT_ScreenShareStarted = do {
     room_id \<leftarrow> read_string ''room_id'';
     user_id \<leftarrow> read_string ''user_id'';
     has_audio \<leftarrow> read_boolean ''has_audio'' False;
     State_Monad.return (ScreenShareStarted room_id user_id has_audio) }"
| "read_payload MT_ScreenShareStopped = do {
     room_id \<leftarrow> read_string ''room_id'';
     user_id \<leftarrow> read_string ''user_id'';
     State_Monad.return (ScreenShareStopped room_id user_id) }"
| "read_payload MT_Mute = do {
     room_id \<leftarrow> read_string ''room_id'';
     user_id \<leftarrow> read_string ''user_id'';
     by_user_id \<leftarrow> read_optional_string ''by_user_id'';
     State_Monad.return (Mute room_id user_id by_user_id) }"
| "read_payload MT_ChangePassword = do {
     current_password \<leftarrow> read_string ''current_password'';
     new_password \<leftarrow> read_string ''new_password'';
     State_Monad.return (ChangePassword current_password new_password) }"
| "read_payload MT_PasswordChanged = State_Monad.return PasswordChanged"
| "read_payload MT_SessionEnded = do {
     reason \<leftarrow> read_optional_string ''reason'';
     State_Monad.return (SessionEnded reason) }"
| "read_payload MT_Unmute = do {
     room_id \<leftarrow> read_string ''room_id'';
     user_id \<leftarrow> read_string ''user_id'';
     by_user_id \<leftarrow> read_optional_string ''by_user_id'';
     State_Monad.return (Unmute room_id user_id by_user_id) }"
| "read_payload MT_Nudge = do {
     room_id \<leftarrow> read_string ''room_id'';
     from_user_id \<leftarrow> read_string ''from_user_id'';
     to_user_id \<leftarrow> read_string ''to_user_id'';
     State_Monad.return (Nudge room_id from_user_id to_user_id) }"
| "read_payload MT_ChatMessage = do {
     msg \<leftarrow> read_object default_chat_message ''message'' chat_message_from;
     State_Monad.return (ChatMessage msg) }"
| "read_payload MT_ListChat = do {
     room_id \<leftarrow> read_string ''room_id'';
     limit \<leftarrow> read_cast_integer ''limit'';
     State_Monad.return (ListChat room_id limit) }"
| "read_payload MT_ChatHistory = do {
     room_id \<leftarrow> read_string ''room_id'';
     messages \<leftarrow> read_array ''messages'' chat_message_from;
     State_Monad.return (ChatHistory room_id messages) }"
| "read_payload MT_SendNotice = do {
     user_id \<leftarrow> read_string ''user_id'';
     txt \<leftarrow> read_string ''text'';
     State_Monad.return (SendNotice user_id txt) }"
| "read_payload MT_Notice = do {
     n \<leftarrow> read_object default_notice ''notice'' notice_from;
     State_Monad.return (Notice n) }"
| "read_payload MT_AcknowledgeNotice = do {
     notice_id \<leftarrow> read_string ''notice_id'';
     State_Monad.return (AcknowledgeNotice notice_id) }"
| "read_payload MT_Error = do {
     code \<leftarrow> read_string ''code'';
     msg \<leftarrow> read_optional_string ''message'';
     State_Monad.return (ErrorMessage code msg) }"
| "read_payload MT_Ping = do {
     nonce \<leftarrow> read_optional_string ''nonce'';
     State_Monad.return (Ping nonce) }"
| "read_payload MT_Pong = do {
     nonce \<leftarrow> read_optional_string ''nonce'';
     State_Monad.return (Pong nonce) }"
| "read_payload MT_KickUser = do {
     room_id \<leftarrow> read_string ''room_id'';
     user_id \<leftarrow> read_string ''user_id'';
     reason \<leftarrow> read_optional_string ''reason'';
     State_Monad.return (KickUser room_id user_id reason) }"
| "read_payload MT_UserKicked = do {
     room_id \<leftarrow> read_string ''room_id'';
     user_id \<leftarrow> read_string ''user_id'';
     reason \<leftarrow> read_optional_string ''reason'';
     State_Monad.return (UserKicked room_id user_id reason) }"
| "read_payload MT_ForceMute = do {
     room_id \<leftarrow> read_string ''room_id'';
     user_id \<leftarrow> read_string ''user_id'';
     muted \<leftarrow> read_require_boolean ''muted'';
     State_Monad.return (ForceMute room_id user_id muted) }"
| "read_payload MT_RestrictUser = do {
     user_id \<leftarrow> read_string ''user_id'';
     banned \<leftarrow> read_maybe_boolean ''banned'';
     muted \<leftarrow> read_maybe_boolean ''muted'';
     silenced \<leftarrow> read_maybe_boolean ''silenced'';
     screen_share_blocked \<leftarrow> read_maybe_boolean ''screen_share_blocked'';
     reason \<leftarrow> read_optional_string ''reason'';
     State_Monad.return (RestrictUser user_id banned muted silenced screen_share_blocked reason) }"
| "read_payload MT_UserRestricted = do {
     user_id \<leftarrow> read_string ''user_id'';
     restrictions \<leftarrow> read_restrictions ''restrictions'';
     by_user_id \<leftarrow> read_optional_string ''by_user_id'';
     reason \<leftarrow> read_optional_string ''reason'';
     room_id \<leftarrow> read_optional_string ''room_id'';
     State_Monad.return (UserRestricted user_id restrictions by_user_id reason room_id) }"
| "read_payload MT_ListUsers = State_Monad.return ListUsers"
| "read_payload MT_UserList = do {
     users \<leftarrow> read_array ''users'' user_summary_from;
     State_Monad.return (UserList users) }"
| "read_payload MT_CreateUser = do {
     username \<leftarrow> read_string ''username'';
     password \<leftarrow> read_string ''password'';
     display_name \<leftarrow> read_optional_string ''display_name'';
     role \<leftarrow> read_optional_string ''role'';
     State_Monad.return (CreateUser username password display_name (role_from_string role)) }"
| "read_payload MT_UpdateUser = do {
     user_id \<leftarrow> read_string ''user_id'';
     role \<leftarrow> read_maybe_string ''role'';
     display_name \<leftarrow> read_maybe_string ''display_name'';
     password \<leftarrow> read_maybe_string ''password'';
     State_Monad.return
       (UpdateUser user_id (map_option role_from_string role) display_name password) }"
| "read_payload MT_DeleteUser = do {
     user_id \<leftarrow> read_string ''user_id'';
     State_Monad.return (DeleteUser user_id) }"
| "read_payload MT_ListRooms = State_Monad.return ListRooms"
| "read_payload MT_RoomList = do {
     rooms \<leftarrow> read_array ''rooms'' room_summary_from;
     State_Monad.return (RoomList rooms) }"
| "read_payload MT_DeleteRoom = do {
     room_id \<leftarrow> read_string ''room_id'';
     State_Monad.return (DeleteRoom room_id) }"
| "read_payload MT_UpdateRoom = do {
     room_id \<leftarrow> read_string ''room_id'';
     capacity \<leftarrow> read_cast_integer ''capacity'';
     State_Monad.return (UpdateRoom room_id capacity) }"
| "read_payload MT_ListAudit = do {
     limit \<leftarrow> read_cast_integer ''limit'';
     actor_id \<leftarrow> read_optional_string ''actor_id'';
     State_Monad.return (ListAudit limit actor_id) }"
| "read_payload MT_AuditList = do {
     entries \<leftarrow> read_array ''entries'' audit_entry_from;
     State_Monad.return (AuditList entries) }"
| "read_payload MT_ListSessions = do {
     limit \<leftarrow> read_cast_integer ''limit'';
     State_Monad.return (ListSessions limit) }"
| "read_payload MT_SessionList = do {
     sessions \<leftarrow> read_array ''sessions'' session_summary_from;
     State_Monad.return (SessionList sessions) }"
| "read_payload MT_EndSession = do {
     user_id \<leftarrow> read_string ''user_id'';
     reason \<leftarrow> read_optional_string ''reason'';
     State_Monad.return (EndSession user_id reason) }"

definition finish :: "field_reader \<Rightarrow> message \<Rightarrow> message result" where
  "finish reader m = (case fr_error reader of Some e \<Rightarrow> Inl e | None \<Rightarrow> Inr m)"

definition parse_root :: "json \<Rightarrow> message result" where
  "parse_root root = (case root of
     JObject members \<Rightarrow>
       (case members ''type'' of
          None \<Rightarrow> Inl (mk_error ''missing_field'' ''type is required'')
        | Some (JString name) \<Rightarrow>
            (case type_from_name name of
               None \<Rightarrow> Inl (mk_error ''unknown_message_type'' (''unknown type: '' @ name))
             | Some t \<Rightarrow>
                 (let (m, reader) = run_state (read_payload t) (new_reader members)
                  in finish reader m))
        | Some _ \<Rightarrow> Inl (mk_error ''invalid_type'' ''type expected a string''))
   | _ \<Rightarrow> Inl (mk_error ''invalid_json'' ''payload must be a JSON object''))"

text \<open>\<open>json_parse\<close> is \<open>json::parse(text, nullptr, false)\<close>: \<open>None\<close> is its discarded value.\<close>

definition parse :: "(string \<Rightarrow> json option) \<Rightarrow> string \<Rightarrow> message result" where
  "parse json_parse text = (case json_parse text of
     None \<Rightarrow> Inl (mk_error ''invalid_json'' ''payload is not valid JSON'')
   | Some root \<Rightarrow> parse_root root)"

end
