(* ===== verification/CodecRoundtrip.thy ===== *)
theory CodecRoundtrip
  imports Codec
begin

text \<open>
  A message survives being written and read: each accessor answers what was written at its key,
  each structure is read back from the object written of it, and so is each of the 47 messages.
\<close>

section \<open>Running the readers\<close>

named_theorems reading \<open>what an accessor answers on a field that is there\<close>

lemma fr_object_new_reader [simp]: "fr_object (new_reader ms) = ms"
  by (simp add: new_reader_def)

lemma fr_error_new_reader [simp]: "fr_error (new_reader ms) = None"
  by (simp add: new_reader_def)

lemma is_absent_simps [simp]:
  "is_absent None" "is_absent (Some JNull)"
  "\<not> is_absent (Some (JBool b))" "\<not> is_absent (Some (JInt i))" "\<not> is_absent (Some (JFloat f))"
  "\<not> is_absent (Some (JString s))" "\<not> is_absent (Some (JArray es))" "\<not> is_absent (Some (JObject ms))"
  by (simp_all add: is_absent_def)

lemma run_find [simp]: "run_state (fr_find k) r = (fr_object r k, r)"
  by (simp add: fr_find_def)

lemma run_require [simp]:
  "\<not> is_absent (fr_object r k) \<Longrightarrow> run_state (fr_require k) r = (fr_object r k, r)"
  by (simp add: fr_require_def)

text \<open>\<open>reads m ms v\<close>: over the object \<open>ms\<close> the reader answers \<open>v\<close> and notes no failure.\<close>

definition reads :: "'a reader \<Rightarrow> (string \<rightharpoonup> json) \<Rightarrow> 'a \<Rightarrow> bool" where
  "reads m ms v \<longleftrightarrow> run_state m (new_reader ms) = (v, new_reader ms)"

lemma reads_return [reading]: "v = w \<Longrightarrow> reads (State_Monad.return v) ms w"
  by (simp add: reads_def)

lemma reads_bind [reading]: "reads m ms a \<Longrightarrow> reads (f a) ms b \<Longrightarrow> reads (m \<bind> f) ms b"
  by (simp add: reads_def)

lemma reads_string [reading]: "ms k = Some (JString s) \<Longrightarrow> reads (read_string k) ms s"
  by (simp add: reads_def read_string_def)

lemma reads_optional_string [reading]:
  "ms k = Some (JString s) \<Longrightarrow> reads (read_optional_string k) ms s"
  by (simp add: reads_def read_optional_string_def)

lemma reads_maybe_string [reading]:
  "ms k = map_option JString s \<Longrightarrow> reads (read_maybe_string k) ms s"
  by (cases s) (simp_all add: reads_def read_maybe_string_def)

lemma reads_require_boolean [reading]:
  "ms k = Some (JBool b) \<Longrightarrow> reads (read_require_boolean k) ms b"
  by (simp add: reads_def read_require_boolean_def)

lemma reads_boolean [reading]: "ms k = Some (JBool b) \<Longrightarrow> reads (read_boolean k d) ms b"
  by (simp add: reads_def read_boolean_def)

lemma reads_maybe_boolean [reading]:
  "ms k = map_option JBool b \<Longrightarrow> reads (read_maybe_boolean k) ms b"
  by (cases b) (simp_all add: reads_def read_maybe_boolean_def)

lemma reads_optional_integer [reading]:
  "ms k = Some (JInt i) \<Longrightarrow> is_int64 i \<Longrightarrow> reads (read_optional_integer k) ms i"
  by (simp add: reads_def read_optional_integer_def)

lemma reads_integer [reading]:
  "ms k = Some (JInt i) \<Longrightarrow> is_int32 i \<Longrightarrow> reads (read_integer k) ms i"
  by (simp add: reads_def read_integer_def)

lemma reads_cast_integer [reading]:
  "ms k = Some (JInt i) \<Longrightarrow> is_int32 i \<Longrightarrow> reads (read_cast_integer k) ms i"
  by (simp add: reads_def read_cast_integer_def read_optional_integer_def is_int32_64)

text \<open>A size of zero is left off the wire.\<close>

lemma reads_capacity:
  "ms k = map_of (written_if (i \<noteq> 0) k (JInt i)) k \<Longrightarrow> is_int32 i
    \<Longrightarrow> reads (read_cast_integer k) ms i"
  by (auto simp: reads_def read_cast_integer_def read_optional_integer_def is_int32_64 written_if_def)

lemma reads_nested: "reads inner members v \<Longrightarrow> reads (read_nested k inner salvage members) ms v"
  by (simp add: reads_def read_nested_def)

lemma reads_object:
  "ms k = Some (JObject members) \<Longrightarrow> reads inner members v \<Longrightarrow> reads (read_object d k inner) ms v"
  using reads_nested [of inner members v] by (simp add: reads_def read_object_def)

text \<open>An array written element by element is read back element by element.\<close>

lemma reads_elements:
  assumes "\<forall>x \<in> set xs. \<exists>members. write x = JObject members \<and> reads inner members x"
  shows "reads (read_elements k inner done (map write xs)) ms (done @ xs)"
  using assms
proof (induction xs arbitrary: "done")
  case Nil
  then show ?case by (simp add: reads_return)
next
  case (Cons x xs)
  then obtain members where "write x = JObject members" "reads inner members x" by auto
  then have "reads (read_elements k inner done (map write (x # xs))) ms
      = reads (read_elements k inner (done @ [x]) (map write xs)) ms"
    by (simp add: reads_def)
  then show ?case using Cons.IH [of "done @ [x]"] Cons.prems by simp
qed

lemma reads_array:
  assumes "ms k = Some (JArray (map write xs))"
    "\<forall>x \<in> set xs. \<exists>members. write x = JObject members \<and> reads inner members x"
  shows "reads (read_array k inner) ms xs"
  using reads_elements [OF assms(2), of k "[]" ms] assms(1)
  by (simp add: reads_def read_array_def)

section \<open>Structures survive\<close>

lemma fields_of_Nil: "fields_of [] = Map.empty"
  by (simp add: fields_of_def)

lemma fields_of_snoc: "fields_of (fs @ [(k, v)]) = (fields_of fs)(k \<mapsto> v)"
  by (simp add: fields_of_def)

text \<open>No key is written twice, so what is read at a key is what was written there.\<close>

lemma fields_of_map: "distinct (map fst fs) \<Longrightarrow> fields_of fs = map_of fs"
proof (induction fs rule: rev_induct)
  case Nil
  then show ?case by (simp add: fields_of_Nil)
next
  case (snoc f fs)
  obtain k v where [simp]: "f = (k, v)" by fastforce
  have "map_of fs k = None" using snoc.prems by (simp add: map_of_eq_None_iff)
  then have "map_of (fs @ [(k, v)]) = (map_of fs)(k \<mapsto> v)"
    by (auto simp: map_add_def split: option.splits)
  then show ?case using snoc by (simp add: fields_of_snoc)
qed

lemma reads_restrictions [reading]:
  assumes "ms k = Some (restrictions_to_json r)"
  shows "reads (read_restrictions k) ms r"
proof -
  have "reads restrictions_fields (fields_of
     [(''banned'', JBool (r_banned r)), (''muted'', JBool (r_muted r)),
      (''silenced'', JBool (r_silenced r)),
      (''screen_share_blocked'', JBool (r_screen_share_blocked r))]) r"
    unfolding restrictions_fields_def
    by (rule reading | simp add: fields_of_map)+
  then show ?thesis
    using assms reads_nested [of restrictions_fields _ r k id ms]
    by (simp add: reads_def read_restrictions_def restrictions_to_json_def)
qed

lemma reads_user [reading]:
  assumes "ms k = Some (user_to_json u)"
  shows "reads (read_user k) ms u"
proof -
  have "reads user_fields (fields_of
     [(''id'', JString (u_id u)), (''display_name'', JString (u_display_name u)),
      (''avatar'', JString (u_avatar u)), (''role'', JString (role_to_string (u_role u))),
      (''restrictions'', restrictions_to_json (u_restrictions u))]) u"
    unfolding user_fields_def
    by (rule reading | simp add: fields_of_map)+
  then show ?thesis
    using assms reads_nested [of user_fields _ u k id ms]
    by (simp add: reads_def read_user_def user_to_json_def)
qed

text \<open>\<open>written to_json inner x\<close>: what \<open>to_json\<close> writes of \<open>x\<close> is an object \<open>inner\<close> reads back.\<close>

definition written :: "('a \<Rightarrow> json) \<Rightarrow> 'a reader \<Rightarrow> 'a \<Rightarrow> bool" where
  "written to_json inner x \<longleftrightarrow> (\<exists>ms. to_json x = JObject ms \<and> reads inner ms x)"

lemma writtenI: "to_json x = JObject ms \<Longrightarrow> reads inner ms x \<Longrightarrow> written to_json inner x"
  by (auto simp: written_def)

lemma reads_written_object:
  "written to_json inner x \<Longrightarrow> ms k = Some (to_json x) \<Longrightarrow> reads (read_object d k inner) ms x"
  by (auto simp: written_def intro: reads_object)

lemma reads_written_array:
  "\<forall>x \<in> set xs. written to_json inner x \<Longrightarrow> ms k = Some (JArray (map to_json xs))
    \<Longrightarrow> reads (read_array k inner) ms xs"
  using reads_array [of ms k to_json xs inner] by (auto simp: written_def)

lemma user_summary_written:
  "is_int64 (us_created_at s) \<Longrightarrow> written user_summary_to_json user_summary_from s"
  unfolding user_summary_to_json_def user_summary_from_def
  by (rule writtenI, rule refl) (rule reading | simp add: fields_of_map)+

lemma room_summary_written:
  "is_int32 (rs_participant_count s) \<Longrightarrow> is_int32 (rs_capacity s)
    \<Longrightarrow> written room_summary_to_json room_summary_from s"
  unfolding room_summary_to_json_def room_summary_from_def
  by (rule writtenI, rule refl) (rule reading | simp add: fields_of_map)+

lemma chat_message_written:
  "is_int64 (cm_timestamp_seconds m) \<Longrightarrow> written chat_message_to_json chat_message_from m"
  unfolding chat_message_to_json_def chat_message_from_def
  by (rule writtenI, rule refl) (rule reading | simp add: fields_of_map)+

lemma notice_written:
  "is_int64 (nt_created_at n) \<Longrightarrow> is_int64 (nt_acknowledged_at n)
    \<Longrightarrow> written notice_to_json notice_from n"
  unfolding notice_to_json_def notice_from_def
  by (rule writtenI, rule refl) (rule reading | simp add: fields_of_map)+

lemma audit_entry_written:
  "is_int64 (ae_timestamp_seconds e) \<Longrightarrow> written audit_entry_to_json audit_entry_from e"
  unfolding audit_entry_to_json_def audit_entry_from_def
  by (rule writtenI, rule refl) (rule reading | simp add: fields_of_map)+

lemma session_summary_written:
  "is_int64 (ss_connected_at s) \<Longrightarrow> is_int64 (ss_last_seen_at s) \<Longrightarrow> is_int64 (ss_ended_at s)
    \<Longrightarrow> written session_summary_to_json session_summary_from s"
  unfolding session_summary_to_json_def session_summary_from_def
  by (rule writtenI, rule refl) (rule reading | simp add: fields_of_map)+

section \<open>Messages survive\<close>

text \<open>The integers of a message fit the C++ types of its fields.\<close>

definition summary_fits :: "user_summary \<Rightarrow> bool" where
  "summary_fits s \<longleftrightarrow> is_int64 (us_created_at s)"

definition room_fits :: "room_summary \<Rightarrow> bool" where
  "room_fits s \<longleftrightarrow> is_int32 (rs_participant_count s) \<and> is_int32 (rs_capacity s)"

definition chat_fits :: "chat_message \<Rightarrow> bool" where
  "chat_fits m \<longleftrightarrow> is_int64 (cm_timestamp_seconds m)"

definition notice_fits :: "notice \<Rightarrow> bool" where
  "notice_fits n \<longleftrightarrow> is_int64 (nt_created_at n) \<and> is_int64 (nt_acknowledged_at n)"

definition audit_fits :: "audit_entry \<Rightarrow> bool" where
  "audit_fits e \<longleftrightarrow> is_int64 (ae_timestamp_seconds e)"

definition session_fits :: "session_summary \<Rightarrow> bool" where
  "session_fits s \<longleftrightarrow>
     is_int64 (ss_connected_at s) \<and> is_int64 (ss_last_seen_at s) \<and> is_int64 (ss_ended_at s)"

definition message_fits :: "message \<Rightarrow> bool" where
  "message_fits m = (case m of
     Authenticated _ _ n \<Rightarrow> is_int32 n
   | CreateRoom _ _ _ n \<Rightarrow> is_int32 n
   | RoomCreated _ _ n \<Rightarrow> is_int32 n
   | IceCandidate _ _ _ _ _ n \<Rightarrow> is_int32 n
   | ChatMessage c \<Rightarrow> chat_fits c
   | ListChat _ n \<Rightarrow> is_int32 n
   | ChatHistory _ cs \<Rightarrow> list_all chat_fits cs
   | Notice n \<Rightarrow> notice_fits n
   | UserList us \<Rightarrow> list_all summary_fits us
   | RoomList rs \<Rightarrow> list_all room_fits rs
   | UpdateRoom _ n \<Rightarrow> is_int32 n
   | ListAudit n _ \<Rightarrow> is_int32 n
   | AuditList es \<Rightarrow> list_all audit_fits es
   | ListSessions n \<Rightarrow> is_int32 n
   | SessionList ss \<Rightarrow> list_all session_fits ss
   | _ \<Rightarrow> True)"

lemmas fits_defs = summary_fits_def room_fits_def chat_fits_def notice_fits_def audit_fits_def
  session_fits_def

lemma lists_written:
  "list_all summary_fits us \<Longrightarrow> \<forall>x \<in> set us. written user_summary_to_json user_summary_from x"
  "list_all room_fits rs \<Longrightarrow> \<forall>x \<in> set rs. written room_summary_to_json room_summary_from x"
  "list_all chat_fits cs \<Longrightarrow> \<forall>x \<in> set cs. written chat_message_to_json chat_message_from x"
  "list_all audit_fits es \<Longrightarrow> \<forall>x \<in> set es. written audit_entry_to_json audit_entry_from x"
  "list_all session_fits ss \<Longrightarrow> \<forall>x \<in> set ss. written session_summary_to_json session_summary_from x"
  by (auto simp: list_all_iff fits_defs user_summary_written room_summary_written
      chat_message_written audit_entry_written session_summary_written)

lemma objects_written:
  "chat_fits m \<Longrightarrow> written chat_message_to_json chat_message_from m"
  "notice_fits n \<Longrightarrow> written notice_to_json notice_from n"
  by (simp_all add: fits_defs chat_message_written notice_written)

lemma type_name_of_type_from_name: "type_from_name s = Some t \<Longrightarrow> type_name t = s"
  by (auto simp: type_from_name_def type_name_def kTypeMappings_def split: if_splits)

lemma type_from_name_type_name [simp]: "type_from_name (type_name t) = Some t"
  by (cases t) (simp_all add: type_from_name_def type_name_def kTypeMappings_def)

lemma reads_restrict_user:
  "reads (read_payload MT_RestrictUser)
     (fields_of ((''type'', tag) # payload (RestrictUser a b c d e f))) (RestrictUser a b c d e f)"
  by (cases b; cases c; cases d; cases e)
    (simp_all add: fields_of_map write_flag_def reads_def read_string_def read_maybe_boolean_def
      read_optional_string_def)

lemma reads_update_user:
  "reads (read_payload MT_UpdateUser)
     (fields_of ((''type'', tag) # payload (UpdateUser a b c d))) (UpdateUser a b c d)"
  by (cases b; cases c; cases d)
    (simp_all add: fields_of_map write_string_def reads_def read_string_def read_maybe_string_def)

lemma reads_create_room:
  assumes "is_int32 d"
  shows "reads (read_payload MT_CreateRoom)
     (fields_of ((''type'', tag) # payload (CreateRoom a b c d))) (CreateRoom a b c d)"
proof -
  have "reads (read_cast_integer ''capacity'')
      (fields_of ((''type'', tag) # payload (CreateRoom a b c d))) d"
    using assms by (intro reads_capacity) (simp_all add: fields_of_map written_if_def)
  then show ?thesis
    by (simp add: fields_of_map written_if_def reads_def read_string_def read_optional_string_def
        read_boolean_def)
qed

lemma reads_update_room:
  assumes "is_int32 b"
  shows "reads (read_payload MT_UpdateRoom)
     (fields_of ((''type'', tag) # payload (UpdateRoom a b))) (UpdateRoom a b)"
proof -
  have "reads (read_cast_integer ''capacity'')
      (fields_of ((''type'', tag) # payload (UpdateRoom a b))) b"
    using assms by (intro reads_capacity) (simp_all add: fields_of_map written_if_def)
  then show ?thesis by (simp add: fields_of_map written_if_def reads_def read_string_def)
qed

lemma reads_payload:
  assumes "message_fits m"
  shows "reads (read_payload (type_of m)) (fields_of ((''type'', tag) # payload m)) m"
proof (cases m)
  case (RestrictUser a b c d e f)
  then show ?thesis using reads_restrict_user by simp
next
  case (UpdateUser a b c d)
  then show ?thesis using reads_update_user by simp
next
  case (CreateRoom a b c d)
  then show ?thesis using assms reads_create_room by (simp add: message_fits_def)
next
  case (UpdateRoom a b)
  then show ?thesis using assms reads_update_room by (simp add: message_fits_def)
qed (insert assms, simp_all only: message_fits_def message.case type_of.simps read_payload.simps
    payload.simps append.simps,
    (rule reading reads_written_object reads_written_array lists_written objects_written
      | assumption | simp add: fields_of_map)+)

lemma parse_root_written:
  assumes "message_fits m"
  shows "parse_root (message_to_json m) = Inr m"
proof -
  have "reads (read_payload (type_of m)) (fields_of ((''type'', JString (type_name (type_of m)))
      # payload m)) m"
    using assms by (rule reads_payload)
  moreover have "distinct (map fst ((''type'', tag) # payload m))" for tag :: json
    by (cases m) (auto simp: written_if_def write_flag_def write_string_def split: option.split)
  ultimately show ?thesis
    by (simp add: parse_root_def message_to_json_def reads_def finish_def fields_of_map)
qed

text \<open>C38. Every message whose integers fit their C++ types survives the wire: parsing what
  serialize wrote gives the same message back, all 47 kinds alike, the absent fields of
  restrict_user and update_user included. Of the JSON library it is used that parsing the text
  of the document written gives that document.\<close>

theorem message_roundtrip:
  assumes "message_fits m"
    and "json_parse (dump (message_to_json m)) = Some (message_to_json m)"
  shows "parse json_parse (serialize dump m) = Inr m"
  using assms parse_root_written by (simp add: parse_def serialize_def)

lemma message_roundtrip_witness:
  "parse (\<lambda>s. if s = ''{}{lift}'' then Some (message_to_json (RestrictUser ''u1'' (Some True) None
      (Some False) None ''spam'')) else None)
    (serialize (\<lambda>j. ''{}{lift}'') (RestrictUser ''u1'' (Some True) None (Some False) None ''spam''))
    = Inr (RestrictUser ''u1'' (Some True) None (Some False) None ''spam'')"
  by (rule message_roundtrip) (simp_all add: message_fits_def)

end
