(* ===== verification/CodecErrors.thy ===== *)
theory CodecErrors
  imports CodecRoundtrip
begin

text \<open>
  What the parser accepts and refuses: a message it accepts is of the type its name says, with
  integers that fit, and survives being written again; what it refuses it refuses with one of
  four codes, and the first failure met is the one reported.
\<close>

section \<open>What is accepted\<close>

text \<open>\<open>pred_state P m\<close>: whatever object it reads, \<open>m\<close> answers a value with \<open>P\<close>.\<close>

lemma pred_bind_any: "(\<And>a. pred_state P (f a)) \<Longrightarrow> pred_state P (m \<bind> f)"
  by (rule pred_stateI) (auto split: prod.splits dest: pred_stateD)

lemma pred_bind: "pred_state Q m \<Longrightarrow> (\<And>a. Q a \<Longrightarrow> pred_state P (f a)) \<Longrightarrow> pred_state P (m \<bind> f)"
  by (rule pred_stateI) (auto split: prod.splits dest: pred_stateD)

lemma pred_return: "P a \<Longrightarrow> pred_state P (State_Monad.return a)"
  by (rule pred_stateI) simp

lemma is_int_zero [simp]: "is_int32 0" "is_int64 0"
  by (simp_all add: is_int32_def is_int64_def)

lemma is_int64_to_int64 [simp]: "is_int64 (to_int64 i)"
  by (simp add: is_int64_def to_int64_def)

lemma pred_wrong: "P d \<Longrightarrow> pred_state P (fr_wrong k e d)"
  unfolding fr_wrong_def by (intro pred_bind_any pred_return)

lemma pred_optional_integer: "pred_state is_int64 (read_optional_integer k)"
  unfolding read_optional_integer_def
  by (intro pred_bind_any) (auto intro!: pred_return pred_wrong split: option.split json.split)

lemma pred_integer: "pred_state is_int32 (read_integer k)"
  unfolding read_integer_def
  by (intro pred_bind_any) (auto intro!: pred_return pred_wrong split: option.split json.split)

lemma pred_cast_integer: "pred_state is_int32 (read_cast_integer k)"
  unfolding read_cast_integer_def by (intro pred_bind_any pred_return) simp

lemma pred_object:
  assumes "P d" "pred_state P inner"
  shows "pred_state P (read_object d k inner)"
proof -
  have "pred_state P (read_nested k inner (\<lambda>_. d) ms)" for ms
    using assms pred_state_run_state [OF assms(2), of "new_reader ms"]
    by (auto simp: read_nested_def intro!: pred_bind_any pred_return split: option.split prod.split)
  then show ?thesis
    using assms(1) unfolding read_object_def
    by (intro pred_bind_any) (auto intro!: pred_return pred_wrong split: option.split json.split)
qed

lemma pred_elements:
  "pred_state P inner \<Longrightarrow> list_all P vs
    \<Longrightarrow> pred_state (list_all P) (read_elements k inner vs es)"
proof (induction k inner vs es rule: read_elements.induct [case_names Nil Object])
  case (Object k inner vs ms es)
  show ?case
  proof (cases "run_state inner (new_reader ms)")
    case (Pair v nested)
    have "P v" by (rule pred_stateD [OF Object.prems(1) Pair])
    then show ?thesis
      using Object Pair by (auto split: option.split intro!: pred_bind_any pred_return)
  qed
qed (auto intro: pred_return pred_wrong)

lemma pred_array: "pred_state P inner \<Longrightarrow> pred_state (list_all P) (read_array k inner)"
  unfolding read_array_def
  by (intro pred_bind_any)
    (auto intro!: pred_return pred_wrong pred_elements split: option.split json.split)

lemma pred_structures:
  "pred_state summary_fits user_summary_from"
  "pred_state room_fits room_summary_from"
  "pred_state chat_fits chat_message_from"
  "pred_state notice_fits notice_from"
  "pred_state audit_fits audit_entry_from"
  "pred_state session_fits session_summary_from"
  unfolding user_summary_from_def room_summary_from_def chat_message_from_def notice_from_def
    audit_entry_from_def session_summary_from_def
  by (rule pred_bind [OF pred_optional_integer] pred_bind [OF pred_cast_integer] pred_bind_any
      pred_return | simp add: fits_defs)+

lemma default_fits [simp]: "chat_fits default_chat_message" "notice_fits default_notice"
  by (simp_all add: fits_defs default_chat_message_def default_notice_def)

lemma pred_payload:
  "pred_state (\<lambda>m. type_of m = t \<and> message_fits m) (read_payload t)"
  by (cases t; simp only: read_payload.simps)
    (rule pred_bind [OF pred_cast_integer] pred_bind [OF pred_integer]
      pred_bind [OF pred_object, OF default_fits(1) pred_structures(3)]
      pred_bind [OF pred_object, OF default_fits(2) pred_structures(4)]
      pred_bind [OF pred_array, OF pred_structures(1)] pred_bind [OF pred_array, OF pred_structures(2)]
      pred_bind [OF pred_array, OF pred_structures(3)] pred_bind [OF pred_array, OF pred_structures(5)]
      pred_bind [OF pred_array, OF pred_structures(6)]
      pred_bind_any pred_return | simp add: message_fits_def)+

text \<open>C39. What the parser accepts is well formed: the document was an object whose type names the
  alternative answered, every integer of the message fits its C++ type whatever number the
  document held, and the message survives being written and read again.\<close>

theorem accepted_is_well_formed:
  assumes "parse json_parse text = Inr m"
  shows "message_fits m \<and> parse_root (message_to_json m) = Inr m
    \<and> (\<exists>members. json_parse text = Some (JObject members)
        \<and> members ''type'' = Some (JString (type_name (type_of m))))"
proof -
  obtain members name t reader where doc: "json_parse text = Some (JObject members)"
    and name: "members ''type'' = Some (JString name)" and t: "type_from_name name = Some t"
    and run: "run_state (read_payload t) (new_reader members) = (m, reader)"
    using assms
    by (auto simp: parse_def parse_root_def finish_def split: option.splits json.splits prod.splits)
  have "type_of m = t" "message_fits m" using pred_stateD [OF pred_payload run] by auto
  then show ?thesis using doc name t type_name_of_type_from_name parse_root_written by simp
qed

lemma accepted_is_well_formed_witness:
  "message_fits (Ping ''7'') \<and> parse_root (message_to_json (Ping ''7'')) = Inr (Ping ''7'')
    \<and> (\<exists>members. Some (JObject [''type'' \<mapsto> JString ''ping'', ''nonce'' \<mapsto> JString ''7''])
          = Some (JObject members)
        \<and> members ''type'' = Some (JString (type_name (type_of (Ping ''7'')))))"
  by (rule accepted_is_well_formed [of "\<lambda>_. Some (JObject [''type'' \<mapsto> JString ''ping'',
        ''nonce'' \<mapsto> JString ''7''])" "''{...}''"])
    (simp add: parse_def parse_root_def type_from_name_def kTypeMappings_def
      read_optional_string_def finish_def)

section \<open>What is refused\<close>

definition reader_codes :: "string set" where
  "reader_codes = {''missing_field'', ''invalid_type''}"

text \<open>A reader leaves its object and an earlier failure alone; one it keeps_first itself has a code of
  its own.\<close>

definition keeps_first :: "field_reader \<Rightarrow> field_reader \<Rightarrow> bool" where
  "keeps_first r r' \<longleftrightarrow> fr_object r' = fr_object r
     \<and> (fr_error r' = fr_error r
        \<or> fr_error r = None \<and> (\<exists>e. fr_error r' = Some e \<and> err_code e \<in> reader_codes))"

named_theorems noting \<open>readers that keep the first failure\<close>

lemma keeps_first_refl [simp]: "keeps_first r r"
  by (simp add: keeps_first_def)

lemma keeps_first_trans: "keeps_first r s \<Longrightarrow> keeps_first s t \<Longrightarrow> keeps_first r t"
  by (auto simp: keeps_first_def)

lemma noting_bind [noting]:
  "state_io_rel keeps_first m \<Longrightarrow> (\<And>a. state_io_rel keeps_first (f a)) \<Longrightarrow> state_io_rel keeps_first (m \<bind> f)"
  by (rule state_io_relI) (auto split: prod.splits dest!: state_io_relD intro: keeps_first_trans)

lemma noting_return [noting]: "state_io_rel keeps_first (State_Monad.return v)"
  by (rule state_io_relI) simp

lemma noting_find [noting]: "state_io_rel keeps_first (fr_find k)"
  by (rule state_io_relI) auto

lemma noting_fail: "c \<in> reader_codes \<Longrightarrow> state_io_rel keeps_first (fr_fail c k e)"
  by (rule state_io_relI) (auto simp: fr_fail_def keeps_first_def split: option.splits)

lemma noting_wrong [noting]: "state_io_rel keeps_first (fr_wrong k e d)"
  unfolding fr_wrong_def by (intro noting noting_fail) (simp add: reader_codes_def)

lemma noting_require [noting]: "state_io_rel keeps_first (fr_require k)"
  unfolding fr_require_def
  by (intro noting) (auto intro!: noting noting_fail simp: reader_codes_def)

lemma keeps_first_code:
  "keeps_first (new_reader ms) r \<Longrightarrow> fr_error r = Some e \<Longrightarrow> err_code e \<in> reader_codes"
  by (auto simp: keeps_first_def)

lemma noting_nested:
  assumes "state_io_rel keeps_first inner"
  shows "state_io_rel keeps_first (read_nested k inner salvage ms)"
proof (cases "run_state inner (new_reader ms)")
  case (Pair v nested)
  have "keeps_first (new_reader ms) nested" by (rule state_io_relD [OF assms Pair])
  then show ?thesis
    using Pair
    by (auto simp: read_nested_def intro!: noting noting_fail keeps_first_code split: option.split)
qed

lemma noting_elements:
  "state_io_rel keeps_first inner \<Longrightarrow> state_io_rel keeps_first (read_elements k inner vs es)"
proof (induction k inner vs es rule: read_elements.induct [case_names Nil Object])
  case (Object k inner vs ms es)
  show ?case
  proof (cases "run_state inner (new_reader ms)")
    case (Pair v nested)
    have "keeps_first (new_reader ms) nested" by (rule state_io_relD [OF Object.prems Pair])
    then show ?thesis
      using Object Pair
      by (auto intro!: noting noting_fail keeps_first_code split: option.split)
  qed
qed (auto intro: noting)

lemma noting_object [noting]: "state_io_rel keeps_first inner \<Longrightarrow> state_io_rel keeps_first (read_object d k inner)"
  unfolding read_object_def
  by (intro noting) (auto intro!: noting noting_nested split: option.split json.split)

lemma noting_array [noting]: "state_io_rel keeps_first inner \<Longrightarrow> state_io_rel keeps_first (read_array k inner)"
  unfolding read_array_def
  by (intro noting) (auto intro!: noting noting_elements split: option.split json.split)

lemma noting_accessors [noting]:
  "state_io_rel keeps_first (read_string k)" "state_io_rel keeps_first (read_optional_string k)"
  "state_io_rel keeps_first (read_maybe_string k)" "state_io_rel keeps_first (read_require_boolean k)"
  "state_io_rel keeps_first (read_boolean k b)" "state_io_rel keeps_first (read_maybe_boolean k)"
  "state_io_rel keeps_first (read_optional_integer k)" "state_io_rel keeps_first (read_integer k)"
  unfolding read_string_def read_optional_string_def read_maybe_string_def
    read_require_boolean_def read_boolean_def read_maybe_boolean_def read_optional_integer_def
    read_integer_def
  by (intro noting; auto intro!: noting split: option.split json.split)+

lemma noting_cast_integer [noting]: "state_io_rel keeps_first (read_cast_integer k)"
  unfolding read_cast_integer_def by (intro noting)

lemma noting_restrictions [noting]: "state_io_rel keeps_first (read_restrictions k)"
proof -
  have "state_io_rel keeps_first restrictions_fields"
    unfolding restrictions_fields_def by (intro noting)
  then show ?thesis unfolding read_restrictions_def
    by (intro noting) (auto intro!: noting noting_nested split: option.split json.split)
qed

lemma noting_user [noting]: "state_io_rel keeps_first (read_user k)"
proof -
  have "state_io_rel keeps_first user_fields"
    unfolding user_fields_def by (intro noting)
  then show ?thesis unfolding read_user_def
    by (intro noting) (auto intro!: noting noting_nested split: option.split json.split)
qed

lemma noting_structures [noting]:
  "state_io_rel keeps_first user_summary_from" "state_io_rel keeps_first room_summary_from"
  "state_io_rel keeps_first chat_message_from" "state_io_rel keeps_first notice_from"
  "state_io_rel keeps_first audit_entry_from" "state_io_rel keeps_first session_summary_from"
  unfolding user_summary_from_def room_summary_from_def chat_message_from_def notice_from_def
    audit_entry_from_def session_summary_from_def
  by (intro noting)+

lemma noting_payload: "state_io_rel keeps_first (read_payload t)"
  by (cases t; simp only: read_payload.simps) (intro noting)+

text \<open>Once a failure is noted the rest of the message cannot change it.\<close>

lemma first_failure_kept:
  "fr_error r = Some e \<Longrightarrow> fr_error (snd (run_state (read_payload t) r)) = Some e"
  using noting_payload [of t] unfolding state_io_rel_def keeps_first_def
  by (metis option.distinct(1))

lemma payload_failure_code:
  assumes "fr_error (snd (run_state (read_payload t) (new_reader ms))) = Some e"
  shows "err_code e \<in> reader_codes"
  using noting_payload [of t] assms keeps_first_code unfolding state_io_rel_def by blast



text \<open>The sizes and limits that are cast to int are accepted whatever integer the document
  holds, and keep its low 32 bits: a create_room whose capacity is far out of range is not refused
  by the parser, and may arrive as a capacity the room rules allow.\<close>

lemma capacity_wraps:
  assumes "members ''type'' = Some (JString ''create_room'')"
    and "members ''user_id'' = Some (JString u)"
    and "members ''room_name'' = None" and "members ''persistent'' = None"
    and "members ''capacity'' = Some (JInt i)" and "is_int64 i"
  shows "parse_root (JObject members) = Inr (CreateRoom u [] False (to_int32 i))"
  using assms
  by (simp add: parse_root_def type_from_name_def kTypeMappings_def read_string_def
      read_optional_string_def read_boolean_def read_cast_integer_def read_optional_integer_def
      finish_def)

lemma capacity_wraps_witness:
  "parse_root (JObject [''type'' \<mapsto> JString ''create_room'', ''user_id'' \<mapsto> JString ''u1'',
      ''capacity'' \<mapsto> JInt 4294967301]) = Inr (CreateRoom ''u1'' [] False 5)
    \<and> is_valid_room_capacity 5"
  using capacity_wraps [of "[''type'' \<mapsto> JString ''create_room'', ''user_id'' \<mapsto> JString ''u1'',
      ''capacity'' \<mapsto> JInt 4294967301]" "''u1''" 4294967301]
  by (simp add: is_int64_def to_int32_def is_valid_room_capacity_def kMinRoomCapacity_def
      kMaxRoomCapacity_def)

end
