(* ===== verification/VideoStitcher.thy ===== *)
theory VideoStitcher
  imports Prelude
begin

text \<open>
  \<open>server/src/sfu/video_stitcher.{hpp,cpp}\<close>: how the SFU makes the screens shared one after
  another in a room look, to one viewer, like one RTP stream. Sequence numbers and timestamps are
  words of their width and wrap as the code's unsigned integers do; \<open>static_cast<std::int16_t>\<close>
  and \<open>std::int32_t\<close> are \<open>sint\<close>. The mutex is not modelled: each call is one step.
\<close>

section \<open>The stitcher\<close>

definition kMaxOrdinaryJump :: nat where "kMaxOrdinaryJump = 3000"

definition kMaxOrdinaryRewind :: int where "kMaxOrdinaryRewind = 90000"

definition kHandoverTicks :: "32 word" where "kHandoverTicks = 3000"

record stitcher =
  vs_started :: bool
  vs_source :: string
  vs_last_in_sequence :: "16 word"
  vs_last_in_timestamp :: "32 word"
  vs_last_out_sequence :: "16 word"
  vs_last_out_timestamp :: "32 word"
  vs_sequence_offset :: "16 word"
  vs_timestamp_offset :: "32 word"

definition new_stitcher :: stitcher where
  "new_stitcher = \<lparr>vs_started = False, vs_source = [], vs_last_in_sequence = 0,
     vs_last_in_timestamp = 0, vs_last_out_sequence = 0, vs_last_out_timestamp = 0,
     vs_sequence_offset = 0, vs_timestamp_offset = 0\<rparr>"

record rewritten =
  rw_sequence :: "16 word"
  rw_timestamp :: "32 word"
  rw_rebased :: bool

definition is_after :: "16 word \<Rightarrow> 16 word \<Rightarrow> bool" where
  "is_after later earlier \<longleftrightarrow> sint (later - earlier) > 0"

definition sequence_distance :: "16 word \<Rightarrow> 16 word \<Rightarrow> 16 word" where
  "sequence_distance a b = (let signed_gap = sint (a - b)
     in word_of_int (if signed_gap < 0 then - signed_gap else signed_gap))"

definition is_new_series :: "stitcher \<Rightarrow> string \<Rightarrow> 16 word \<Rightarrow> 32 word \<Rightarrow> bool" where
  "is_new_series s source sequence timestamp \<longleftrightarrow>
     source \<noteq> vs_source s
     \<or> unat (sequence_distance sequence (vs_last_in_sequence s)) > kMaxOrdinaryJump
     \<or> sint (timestamp - vs_last_in_timestamp s) < - kMaxOrdinaryRewind"

text \<open>The three steps of \<open>rewrite\<close> after the first packet: shifting the series, and moving the two
  marks.\<close>

definition rebase :: "stitcher \<Rightarrow> string \<Rightarrow> 16 word \<Rightarrow> 32 word \<Rightarrow> stitcher" where
  "rebase s source sequence timestamp = s\<lparr>
     vs_sequence_offset := vs_last_out_sequence s + 1 - sequence,
     vs_timestamp_offset := vs_last_out_timestamp s + kHandoverTicks - timestamp,
     vs_source := source,
     vs_last_in_sequence := sequence,
     vs_last_in_timestamp := timestamp\<rparr>"

definition mark_out :: "16 word \<Rightarrow> 32 word \<Rightarrow> stitcher \<Rightarrow> stitcher" where
  "mark_out sequence timestamp s =
     (if is_after sequence (vs_last_out_sequence s)
      then s\<lparr>vs_last_out_sequence := sequence, vs_last_out_timestamp := timestamp\<rparr> else s)"

definition mark_in :: "16 word \<Rightarrow> 32 word \<Rightarrow> stitcher \<Rightarrow> stitcher" where
  "mark_in sequence timestamp s =
     (if is_after sequence (vs_last_in_sequence s)
      then s\<lparr>vs_last_in_sequence := sequence, vs_last_in_timestamp := timestamp\<rparr> else s)"

definition rewrite_packet ::
    "string \<Rightarrow> 16 word \<Rightarrow> 32 word \<Rightarrow> stitcher \<Rightarrow> rewritten \<times> stitcher" where
  "rewrite_packet source sequence timestamp s =
     (if \<not> vs_started s
      then (\<lparr>rw_sequence = sequence, rw_timestamp = timestamp, rw_rebased = False\<rparr>,
        s\<lparr>vs_started := True, vs_source := source, vs_sequence_offset := 0,
          vs_timestamp_offset := 0, vs_last_in_sequence := sequence,
          vs_last_in_timestamp := timestamp, vs_last_out_sequence := sequence,
          vs_last_out_timestamp := timestamp\<rparr>)
      else
        let new_series = is_new_series s source sequence timestamp;
            s = (if new_series then rebase s source sequence timestamp else s);
            out_sequence = sequence + vs_sequence_offset s;
            out_timestamp = timestamp + vs_timestamp_offset s;
            s = mark_out out_sequence out_timestamp s;
            s = mark_in sequence timestamp s
        in (\<lparr>rw_sequence = out_sequence, rw_timestamp = out_timestamp, rw_rebased = new_series\<rparr>, s))"

text \<open>The packets of a call, in the order they reach one viewer's track.\<close>

type_synonym video_packet = "string \<times> 16 word \<times> 32 word"

fun stitch :: "stitcher \<Rightarrow> video_packet list \<Rightarrow> rewritten list" where
  "stitch s [] = []"
| "stitch s ((source, sequence, timestamp) # packets) =
     (let (r, s) = rewrite_packet source sequence timestamp s in r # stitch s packets)"

section \<open>One packet\<close>

lemma rewrite_first:
  "\<not> vs_started s \<Longrightarrow> fst (rewrite_packet source sequence timestamp s)
     = \<lparr>rw_sequence = sequence, rw_timestamp = timestamp, rw_rebased = False\<rparr>"
  by (simp add: rewrite_packet_def)

lemma mark_selectors [simp]:
  "vs_started (mark_out q t s) = vs_started s" "vs_started (mark_in q t s) = vs_started s"
  "vs_sequence_offset (mark_out q t s) = vs_sequence_offset s"
  "vs_sequence_offset (mark_in q t s) = vs_sequence_offset s"
  "vs_timestamp_offset (mark_out q t s) = vs_timestamp_offset s"
  "vs_timestamp_offset (mark_in q t s) = vs_timestamp_offset s"
  "vs_last_out_sequence (mark_in q t s) = vs_last_out_sequence s"
  "vs_last_out_timestamp (mark_in q t s) = vs_last_out_timestamp s"
  "vs_source (mark_out q t s) = vs_source s" "vs_source (mark_in q t s) = vs_source s"
  by (simp_all add: mark_out_def mark_in_def)

lemma rebase_selectors [simp]:
  "vs_started (rebase s a q t) = vs_started s"
  "vs_last_out_sequence (rebase s a q t) = vs_last_out_sequence s"
  "vs_last_out_timestamp (rebase s a q t) = vs_last_out_timestamp s"
  "q + vs_sequence_offset (rebase s a q t) = vs_last_out_sequence s + 1"
  "t + vs_timestamp_offset (rebase s a q t) = vs_last_out_timestamp s + kHandoverTicks"
  by (simp_all add: rebase_def)

text \<open>What a packet of a running track becomes.\<close>

lemma rewrite_started:
  assumes "vs_started s" "rewrite_packet a q t s = (r, s')"
  shows "vs_started s'"
    and "rw_rebased r = is_new_series s a q t"
    and "rw_rebased r \<Longrightarrow> rw_sequence r = vs_last_out_sequence s + 1
      \<and> rw_timestamp r = vs_last_out_timestamp s + kHandoverTicks"
    and "\<not> rw_rebased r \<Longrightarrow> rw_sequence r = q + vs_sequence_offset s
      \<and> rw_timestamp r = t + vs_timestamp_offset s
      \<and> vs_sequence_offset s' = vs_sequence_offset s \<and> vs_timestamp_offset s' = vs_timestamp_offset s"
    and "vs_last_out_sequence s' = (if is_after (rw_sequence r) (vs_last_out_sequence s)
      then rw_sequence r else vs_last_out_sequence s)"
    and "vs_last_out_timestamp s' = (if is_after (rw_sequence r) (vs_last_out_sequence s)
      then rw_timestamp r else vs_last_out_timestamp s)"
  using assms by (auto simp: rewrite_packet_def Let_def mark_out_def)

section \<open>The stream a viewer sees\<close>

text \<open>The abstract stream: every packet has a place on an unbounded line of integers, of which the
  sequence number is the low 16 bits. \<open>furthest\<close> is the furthest place sent so far and \<open>clock\<close> its
  timestamp. A packet that starts a new series is put one place after it, one frame later; any
  other packet is put within half a turn of it.\<close>

fun placed :: "int \<Rightarrow> 32 word \<Rightarrow> rewritten list \<Rightarrow> int list \<Rightarrow> bool" where
  "placed furthest clock [] places = (places = [])"
| "placed furthest clock (r # rs) [] = False"
| "placed furthest clock (r # rs) (place # places) =
     (rw_sequence r = word_of_int place
      \<and> (if rw_rebased r then place = furthest + 1 \<and> rw_timestamp r = clock + kHandoverTicks
         else furthest - 2 ^ 15 \<le> place \<and> place < furthest + 2 ^ 15)
      \<and> placed (max furthest place) (if place > furthest then rw_timestamp r else clock) rs places)"

lemma stitch_placed:
  "vs_started s \<Longrightarrow> vs_last_out_sequence s = word_of_int furthest
    \<Longrightarrow> \<exists>places. placed furthest (vs_last_out_timestamp s) (stitch s packets) places"
proof (induction packets arbitrary: s furthest)
  case Nil
  then show ?case by simp
next
  case (Cons packet packets)
  obtain a q t where packet: "packet = (a, q, t)" by (cases packet) auto
  obtain r s' where step: "rewrite_packet a q t s = (r, s')" by fastforce
  note facts = rewrite_started [OF Cons.prems(1) step]
  define ahead where "ahead = sint (rw_sequence r - vs_last_out_sequence s)"
  have bounds: "- (2 ^ 15) \<le> ahead" "ahead < 2 ^ 15"
    using sint_16_bounds [of "rw_sequence r - vs_last_out_sequence s"] by (simp_all add: ahead_def)
  have place: "rw_sequence r = word_of_int (furthest + ahead)"
    using Cons.prems(2) by (simp add: ahead_def)
  have rebased: "rw_rebased r \<Longrightarrow> ahead = 1"
    using facts(3) by (simp add: ahead_def)
  have after: "is_after (rw_sequence r) (vs_last_out_sequence s) \<longleftrightarrow> ahead > 0"
    by (simp add: is_after_def ahead_def)
  have "vs_last_out_sequence s' = word_of_int (max furthest (furthest + ahead))"
    using facts(5) after place Cons.prems(2) by (simp add: max_def)
  from Cons.IH [OF facts(1) this] obtain places where
    "placed (max furthest (furthest + ahead)) (vs_last_out_timestamp s') (stitch s' packets) places"
    by blast
  then have "placed furthest (vs_last_out_timestamp s) (stitch s (packet # packets))
      ((furthest + ahead) # places)"
    using facts(3,6) after place rebased bounds packet step by (auto simp: max_def)
  then show ?case by blast
qed


text \<open>What is sent while no series starts is the source's packets shifted by one offset.\<close>

lemma stitch_shifted:
  "vs_started s \<Longrightarrow> \<forall>r \<in> set (stitch s packets). \<not> rw_rebased r
    \<Longrightarrow> map (\<lambda>r. (rw_sequence r, rw_timestamp r)) (stitch s packets)
       = map (\<lambda>(_, q, t). (q + vs_sequence_offset s, t + vs_timestamp_offset s)) packets"
proof (induction packets arbitrary: s)
  case Nil
  then show ?case by simp
next
  case (Cons packet packets)
  obtain a q t where packet: "packet = (a, q, t)" by (cases packet) auto
  obtain r s' where step: "rewrite_packet a q t s = (r, s')" by fastforce
  note facts = rewrite_started [OF Cons.prems(1) step]
  from Cons.prems(2) step have plain: "\<not> rw_rebased r"
    "\<forall>r \<in> set (stitch s' packets). \<not> rw_rebased r"
    by (auto simp: packet)
  show ?case using Cons.IH [OF facts(1) plain(2)] facts(4) [OF plain(1)] step packet by simp
qed

lemma stitch_append:
  "\<exists>s'. (xs = [] \<longrightarrow> s' = s) \<and> stitch s (xs @ ys) = stitch s xs @ stitch s' ys"
proof (induction xs arbitrary: s)
  case Nil
  then show ?case by auto
next
  case (Cons x xs)
  obtain a q t where x: "x = (a, q, t)" by (cases x) auto
  obtain r s1 where step: "rewrite_packet a q t s = (r, s1)" by fastforce
  from Cons.IH obtain s' where "stitch s1 (xs @ ys) = stitch s1 xs @ stitch s' ys" by blast
  then show ?case using step x by auto
qed

lemma length_stitch [simp]: "length (stitch s packets) = length packets"
  by (induction packets arbitrary: s) (auto simp: split_beta)

lemma rewrite_offset:
  "rewrite_packet a q t s = (r, s') \<Longrightarrow> vs_started s'
     \<and> rw_sequence r = q + vs_sequence_offset s' \<and> rw_timestamp r = t + vs_timestamp_offset s'
     \<and> (\<not> vs_started s \<longrightarrow> vs_sequence_offset s' = 0 \<and> vs_timestamp_offset s' = 0)"
  by (cases "vs_started s"; cases "is_new_series s a q t")
    (simp_all add: rewrite_packet_def Let_def, auto simp: mark_out_def mark_in_def rebase_def)

text \<open>Within a series nothing is renumbered: as long as no packet starts a new series, everything
  sent is what was received shifted by one offset, so the holes and the reordering a receiver asks
  for retransmissions by are kept; and until the first handover the offset is zero.\<close>

lemma series_kept_exactly:
  assumes "\<forall>r \<in> set (drop (Suc (length before)) (stitch new_stitcher (before @ series))).
    \<not> rw_rebased r"
  shows "\<exists>dq dt. map (\<lambda>r. (rw_sequence r, rw_timestamp r))
      (drop (length before) (stitch new_stitcher (before @ series)))
        = map (\<lambda>(_, q, t). (q + dq, t + dt)) series
    \<and> (before = [] \<longrightarrow> dq = 0 \<and> dt = 0)"
proof (cases series)
  case Nil
  then show ?thesis by auto
next
  case (Cons packet packets)
  obtain a q t where packet: "packet = (a, q, t)" by (cases packet) auto
  obtain s where s: "before = [] \<longrightarrow> s = new_stitcher"
    and split: "stitch new_stitcher (before @ series) = stitch new_stitcher before @ stitch s series"
    using stitch_append [of before new_stitcher series] by blast
  obtain r s' where step: "rewrite_packet a q t s = (r, s')" by fastforce
  note first = rewrite_offset [OF step]
  have out: "stitch s series = r # stitch s' packets" using step packet Cons by simp
  have "\<forall>r \<in> set (stitch s' packets). \<not> rw_rebased r" using assms split out by simp
  with stitch_shifted first have "map (\<lambda>r. (rw_sequence r, rw_timestamp r)) (stitch s series)
      = map (\<lambda>(_, q, t). (q + vs_sequence_offset s', t + vs_timestamp_offset s')) series"
    using out Cons packet by simp
  moreover have "before = [] \<longrightarrow> vs_sequence_offset s' = 0 \<and> vs_timestamp_offset s' = 0"
    using s first by (simp add: new_stitcher_def)
  ultimately show ?thesis using split by auto
qed

text \<open>Ana's screen, across the wrap of the sequence number, then Bia's from her own start.\<close>

definition handover :: "video_packet list" where
  "handover = [(''ana'', 65534, 987000), (''ana'', 0, 990000), (''ana'', 65535, 988500)]"

definition taken_over :: "video_packet list" where
  "taken_over = [(''bia'', 17, 5000), (''bia'', 18, 8000)]"

lemma handover_run:
  "stitch new_stitcher (handover @ taken_over) =
     [\<lparr>rw_sequence = 65534, rw_timestamp = 987000, rw_rebased = False\<rparr>,
      \<lparr>rw_sequence = 0, rw_timestamp = 990000, rw_rebased = False\<rparr>,
      \<lparr>rw_sequence = 65535, rw_timestamp = 988500, rw_rebased = False\<rparr>,
      \<lparr>rw_sequence = 1, rw_timestamp = 993000, rw_rebased = True\<rparr>,
      \<lparr>rw_sequence = 2, rw_timestamp = 996000, rw_rebased = False\<rparr>]"
  by (simp add: handover_def taken_over_def new_stitcher_def rewrite_packet_def is_new_series_def
      sequence_distance_def rebase_def mark_out_def mark_in_def is_after_def kMaxOrdinaryJump_def
      kMaxOrdinaryRewind_def kHandoverTicks_def)

lemma series_kept_exactly_witness:
  "\<exists>dq dt. map (\<lambda>r. (rw_sequence r, rw_timestamp r))
      (drop (length handover) (stitch new_stitcher (handover @ taken_over)))
        = map (\<lambda>(_, q, t). (q + dq, t + dt)) taken_over
    \<and> (handover = [] \<longrightarrow> dq = 0 \<and> dt = 0)"
  by (rule series_kept_exactly) (simp add: handover_run, simp add: handover_def)

end
