(* ===== verification/LossRepair.thy ===== *)
theory LossRepair
  imports Prelude
begin

text \<open>
  \<open>server/src/sfu/loss_repair.{hpp,cpp}\<close>: noticing the holes in the sequence numbers of a stream
  arriving at the SFU and asking its sender for them. Sequence numbers are 16 bit words. The
  pending set is a \<open>std::map\<close>: an association list in ascending order of the unsigned key. What
  reads an RTP or RTCP header out of a buffer and packs a NACK is libdatachannel's, and a parameter;
  the counters, of 64 bits, are natural numbers; a mutex makes each call one step.
\<close>

section \<open>State\<close>

record repair_options =
  ro_max_gap :: "16 word"
  ro_max_requests :: int
  ro_retry_after :: time
  ro_give_up_after :: time

definition default_repair_options :: repair_options where
  "default_repair_options = \<lparr>ro_max_gap = 256, ro_max_requests = 3,
     ro_retry_after = milliseconds 40, ro_give_up_after = milliseconds 500\<rparr>"

record missing =
  ms_first_seen :: time
  ms_last_requested :: time
  ms_requests :: int

type_synonym pending = "(16 word \<times> missing) list"

record loss_repair =
  lr_missing :: pending
  lr_expected :: "16 word"
  lr_started :: bool
  lr_ssrc :: "32 word"
  lr_packets_seen :: nat
  lr_requests_sent :: nat
  lr_packets_missing :: nat
  lr_packets_repaired :: nat

definition new_loss_repair :: loss_repair where
  "new_loss_repair = \<lparr>lr_missing = [], lr_expected = 0, lr_started = False, lr_ssrc = 0,
     lr_packets_seen = 0, lr_requests_sent = 0, lr_packets_missing = 0, lr_packets_repaired = 0\<rparr>"

section \<open>Noticing\<close>

text \<open>\<open>try_emplace\<close>: nothing changes where the key is already there.\<close>

fun try_emplace :: "16 word \<Rightarrow> missing \<Rightarrow> pending \<Rightarrow> pending \<times> bool" where
  "try_emplace k v [] = ([(k, v)], True)"
| "try_emplace k v ((k', v') # rest) =
     (if k < k' then ((k, v) # (k', v') # rest, True)
      else if k = k' then ((k', v') # rest, False)
      else (let (rest, inserted) = try_emplace k v rest in ((k', v') # rest, inserted)))"

definition note_one :: "16 word \<Rightarrow> time \<Rightarrow> loss_repair \<Rightarrow> loss_repair" where
  "note_one lost now r =
     (let (pending, inserted) = try_emplace lost
            \<lparr>ms_first_seen = now, ms_last_requested = 0, ms_requests = 0\<rparr> (lr_missing r)
      in r\<lparr>lr_missing := pending,
           lr_packets_missing := lr_packets_missing r + (if inserted then 1 else 0)\<rparr>)"

text \<open>\<open>for (lost = expected_; lost != sequence_number; ++lost)\<close>.\<close>

function note_missing :: "16 word \<Rightarrow> 16 word \<Rightarrow> time \<Rightarrow> loss_repair \<Rightarrow> loss_repair" where
  "note_missing lost sequence now r =
     (if lost = sequence then r else note_missing (lost + 1) sequence now (note_one lost now r))"
  by auto
termination
proof (relation "measure (\<lambda>(lost, sequence, _, _). unat (sequence - lost))")
  fix lost sequence :: "16 word" and now :: time and r :: loss_repair
  assume "lost \<noteq> sequence"
  then have "unat (sequence - lost - 1) < unat (sequence - lost)" by (intro measure_unat) simp
  then show "((lost + 1, sequence, now, note_one lost now r), lost, sequence, now, r)
      \<in> measure (\<lambda>(lost, sequence, _, _). unat (sequence - lost))"
    by (simp add: diff_diff_eq)
qed simp

declare note_missing.simps [simp del]

definition change_source :: "32 word \<Rightarrow> loss_repair \<Rightarrow> loss_repair" where
  "change_source ssrc r =
     (if ssrc \<noteq> lr_ssrc r then r\<lparr>lr_ssrc := ssrc, lr_started := False, lr_missing := []\<rparr> else r)"

definition observe ::
    "repair_options \<Rightarrow> 32 word \<Rightarrow> 16 word \<Rightarrow> time \<Rightarrow> loss_repair \<Rightarrow> loss_repair" where
  "observe opts ssrc sequence now r =
     (let r = change_source ssrc r;
          r = r\<lparr>lr_packets_seen := lr_packets_seen r + 1\<rparr>
      in if \<not> lr_started r then r\<lparr>lr_started := True, lr_expected := sequence + 1\<rparr>
         else (let ahead = sint (sequence - lr_expected r)
               in if ahead = 0 then r\<lparr>lr_expected := sequence + 1\<rparr>
                  else if ahead < 0 then
                    (if map_of (lr_missing r) sequence = None then r
                     else r\<lparr>lr_missing := AList.delete sequence (lr_missing r),
                            lr_packets_repaired := lr_packets_repaired r + 1\<rparr>)
                  else if (word_of_int ahead :: 16 word) > ro_max_gap opts then
                    r\<lparr>lr_missing := [], lr_expected := sequence + 1\<rparr>
                  else (note_missing (lr_expected r) sequence now r)\<lparr>lr_expected := sequence + 1\<rparr>))"

section \<open>Asking\<close>

definition written_off :: "repair_options \<Rightarrow> time \<Rightarrow> missing \<Rightarrow> bool" where
  "written_off opts now e \<longleftrightarrow>
     ms_requests e \<ge> ro_max_requests opts \<or> now - ms_first_seen e \<ge> ro_give_up_after opts"

definition too_early :: "repair_options \<Rightarrow> time \<Rightarrow> missing \<Rightarrow> bool" where
  "too_early opts now e \<longleftrightarrow> ms_requests e > 0 \<and> now - ms_last_requested e < ro_retry_after opts"

fun scan_pending :: "repair_options \<Rightarrow> time \<Rightarrow> pending \<Rightarrow> pending \<times> 16 word list" where
  "scan_pending opts now [] = ([], [])"
| "scan_pending opts now ((k, e) # rest) =
     (let (kept, wanted) = scan_pending opts now rest
      in if written_off opts now e then (kept, wanted)
         else if too_early opts now e then ((k, e) # kept, wanted)
         else ((k, e\<lparr>ms_last_requested := now, ms_requests := ms_requests e + 1\<rparr>) # kept, k # wanted))"

text \<open>\<open>pack\<close> is \<open>addMissingPacket\<close> of libdatachannel over the whole list: the entries of the NACK.
  \<open>send\<close> says whether there is a callback; what is answered is the NACK sent, if any.\<close>

type_synonym 'e nack = "(32 word \<times> 'e list) option"

definition request ::
    "(16 word list \<Rightarrow> 'e list) \<Rightarrow> repair_options \<Rightarrow> bool \<Rightarrow> time \<Rightarrow> loss_repair \<Rightarrow> 'e nack \<times> loss_repair" where
  "request pack opts send now r =
     (let (kept, wanted) = scan_pending opts now (lr_missing r);
          r = r\<lparr>lr_missing := kept\<rparr>
      in if wanted = [] \<or> \<not> send then (None, r)
         else if pack wanted = [] then (None, r)
         else (Some (lr_ssrc r, pack wanted), r\<lparr>lr_requests_sent := lr_requests_sent r + 1\<rparr>))"

text \<open>What libdatachannel reads out of a buffer.\<close>

record 'm rtp_library =
  rl_size :: "'m \<Rightarrow> nat"
  rl_rtp_header_size :: nat
  rl_rtcp_header_size :: nat
  rl_is_rtcp :: "'m \<Rightarrow> bool"
  rl_version :: "'m \<Rightarrow> nat"
  rl_ssrc :: "'m \<Rightarrow> 32 word"
  rl_sequence :: "'m \<Rightarrow> 16 word"
  rl_report_length :: "'m \<Rightarrow> nat \<Rightarrow> 16 word"
  rl_report_type :: "'m \<Rightarrow> nat \<Rightarrow> nat"
  rl_report_count :: "'m \<Rightarrow> nat \<Rightarrow> nat"

definition observe_message :: "'m rtp_library \<Rightarrow> repair_options \<Rightarrow> time \<Rightarrow> 'm option \<Rightarrow> loss_repair \<Rightarrow> loss_repair" where
  "observe_message lib opts now msg r = (case msg of
     None \<Rightarrow> r
   | Some m \<Rightarrow>
       if rl_size lib m < rl_rtp_header_size lib \<or> rl_is_rtcp lib m then r
       else if rl_version lib m \<noteq> 2 then r
       else observe opts (rl_ssrc lib m) (rl_sequence lib m) now r)"

definition incoming ::
    "'m rtp_library \<Rightarrow> (16 word list \<Rightarrow> 'e list) \<Rightarrow> repair_options \<Rightarrow> bool \<Rightarrow> time \<Rightarrow> 'm option list
      \<Rightarrow> loss_repair \<Rightarrow> 'e nack \<times> loss_repair" where
  "incoming lib pack opts send now messages r =
     request pack opts send now (fold (observe_message lib opts now) messages r)"

section \<open>Counting the requests of a receiver\<close>

text \<open>\<open>NackObserver\<close>: the walk over a compound packet, and how many times \<open>on_nack\<close> is called. The
  length of a report is in words of four bytes, less one.\<close>

definition kTransportFeedback :: nat where "kTransportFeedback = 205"

definition kGenericNack :: nat where "kGenericNack = 1"

function nacks_from :: "'m rtp_library \<Rightarrow> 'm \<Rightarrow> nat \<Rightarrow> nat" where
  "nacks_from lib m offset =
     (if offset + rl_rtcp_header_size lib \<le> rl_size lib m
      then (if rl_report_type lib m offset = kTransportFeedback
              \<and> rl_report_count lib m offset = kGenericNack then 1 else 0)
           + nacks_from lib m (offset + (unat (rl_report_length lib m offset) + 1) * 4)
      else 0)"
  by auto
termination
  by (relation "measure (\<lambda>(lib, m, offset). rl_size lib m + 1 - offset)") auto

declare nacks_from.simps [simp del]

definition nacks_counted :: "'m rtp_library \<Rightarrow> 'm option list \<Rightarrow> nat" where
  "nacks_counted lib messages = (\<Sum>msg \<leftarrow> messages. case msg of
     None \<Rightarrow> 0 | Some m \<Rightarrow> if rl_is_rtcp lib m then nacks_from lib m 0 else 0)"

end
