(* ===== verification/LossRepairProofs.thy ===== *)
theory LossRepairProofs
  imports LossRepair
begin

text \<open>
  What the repair of a stream guarantees: exactly the hole is noticed, no packet is asked for more
  often or sooner than allowed, whatever is asked for is given up in the end, and the counters never
  claim more than was lost. A stream that restarts behind the sequence number expected is not
  noticed at all until it has caught up.
\<close>

section \<open>The pending set\<close>

definition ascending :: "pending \<Rightarrow> bool" where
  "ascending p \<longleftrightarrow> sorted_wrt (<) (map fst p)"

lemma ascending_Nil [simp]: "ascending []"
  by (simp add: ascending_def)

lemma ascending_Cons: "ascending ((k, e) # p) \<longleftrightarrow> (\<forall>k' \<in> fst ` set p. k < k') \<and> ascending p"
  by (auto simp: ascending_def)

lemma ascending_distinct: "ascending p \<Longrightarrow> distinct (map fst p)"
  by (simp add: ascending_def strict_sorted_iff)

lemma fst_try_emplace [simp]: "fst ` set (fst (try_emplace k v p)) = insert k (fst ` set p)"
  by (induction p rule: try_emplace.induct) (auto simp: split_beta)

lemma ascending_try_emplace: "ascending p \<Longrightarrow> ascending (fst (try_emplace k v p))"
  by (induction k v p rule: try_emplace.induct) (fastforce simp: ascending_Cons split_beta)+

lemma map_of_try_emplace:
  "ascending p \<Longrightarrow> map_of (fst (try_emplace k v p)) =
     (if map_of p k = None then (map_of p)(k \<mapsto> v) else map_of p)"
  by (induction k v p rule: try_emplace.induct)
    (auto simp: ascending_Cons split_beta fun_eq_iff map_of_eq_None_iff, (force dest: map_of_SomeD)+)

lemma inserted_try_emplace:
  "ascending p \<Longrightarrow> snd (try_emplace k v p) \<longleftrightarrow> map_of p k = None"
  by (induction k v p rule: try_emplace.induct)
    (auto simp: ascending_Cons split_beta map_of_eq_None_iff)

lemma length_try_emplace:
  "length (fst (try_emplace k v p)) = length p + (if snd (try_emplace k v p) then 1 else 0)"
  by (induction k v p rule: try_emplace.induct) (auto simp: split_beta)

section \<open>What is noticed\<close>

text \<open>The sequence numbers from \<open>a\<close> up to but not including \<open>b\<close>, around the wrap.\<close>

definition between :: "16 word \<Rightarrow> 16 word \<Rightarrow> 16 word set" where
  "between a b = {x. unat (x - a) < unat (b - a)}"

lemma unat_pred: "x \<noteq> 0 \<Longrightarrow> unat (x - 1 :: 16 word) = unat x - 1"
  using unat_gt_0 [of x] by (simp add: unat_sub_if' word_le_nat_alt)

lemma between_step: "a \<noteq> b \<Longrightarrow> between a b = insert a (between (a + 1) b)"
proof -
  assume "a \<noteq> b"
  then have b: "unat (b - (a + 1)) = unat (b - a) - 1" "0 < unat (b - a)"
    using unat_pred [of "b - a"] by (simp_all add: diff_diff_eq unat_gt_0)
  have "unat (x - a) < unat (b - a) \<longleftrightarrow> x = a \<or> unat (x - (a + 1)) < unat (b - a) - 1" for x
  proof (cases "x = a")
    case True
    then show ?thesis using b(2) by simp
  next
    case False
    then have "unat (x - (a + 1)) = unat (x - a) - 1" "0 < unat (x - a)"
      using unat_pred [of "x - a"] by (simp_all add: diff_diff_eq unat_gt_0)
    then show ?thesis using False by auto
  qed
  then show ?thesis using b(1) by (auto simp: between_def)
qed

lemma between_empty [simp]: "between a a = {}"
  by (simp add: between_def)

definition fresh :: "time \<Rightarrow> missing" where
  "fresh now = \<lparr>ms_first_seen = now, ms_last_requested = 0, ms_requests = 0\<rparr>"

lemma note_one_fields [simp]:
  "lr_expected (note_one lost now r) = lr_expected r" "lr_started (note_one lost now r) = lr_started r"
  "lr_ssrc (note_one lost now r) = lr_ssrc r" "lr_packets_repaired (note_one lost now r) = lr_packets_repaired r"
  "lr_packets_seen (note_one lost now r) = lr_packets_seen r"
  "lr_requests_sent (note_one lost now r) = lr_requests_sent r"
  by (simp_all add: note_one_def split_beta)

lemma note_missing_fields [simp]:
  "lr_expected (note_missing lost sequence now r) = lr_expected r"
  "lr_started (note_missing lost sequence now r) = lr_started r"
  "lr_ssrc (note_missing lost sequence now r) = lr_ssrc r"
  "lr_packets_repaired (note_missing lost sequence now r) = lr_packets_repaired r"
  "lr_packets_seen (note_missing lost sequence now r) = lr_packets_seen r"
  "lr_requests_sent (note_missing lost sequence now r) = lr_requests_sent r"
  by (induction lost sequence now r rule: note_missing.induct; subst note_missing.simps; simp)+

lemma note_one_pending:
  assumes "ascending (lr_missing r)"
  shows "ascending (lr_missing (note_one lost now r))"
    and "map_of (lr_missing (note_one lost now r)) = (\<lambda>x. case map_of (lr_missing r) x of
      Some e \<Rightarrow> Some e | None \<Rightarrow> if x = lost then Some (fresh now) else None)"
    and "lr_packets_missing (note_one lost now r) + length (lr_missing r)
      = lr_packets_missing r + length (lr_missing (note_one lost now r))"
  using assms ascending_try_emplace map_of_try_emplace length_try_emplace
  by (auto simp: note_one_def split_beta fresh_def fun_eq_iff split: option.splits)

lemma note_missing_pending:
  "ascending (lr_missing r) \<Longrightarrow> ascending (lr_missing (note_missing lost sequence now r))
    \<and> map_of (lr_missing (note_missing lost sequence now r)) = (\<lambda>x. case map_of (lr_missing r) x of
        Some e \<Rightarrow> Some e | None \<Rightarrow> if x \<in> between lost sequence then Some (fresh now) else None)
    \<and> lr_packets_missing (note_missing lost sequence now r) + length (lr_missing r)
        = lr_packets_missing r + length (lr_missing (note_missing lost sequence now r))"
proof (induction lost sequence now r rule: note_missing.induct)
  case (1 lost sequence now r)
  show ?case
  proof (cases "lost = sequence")
    case True
    then show ?thesis using 1 by (subst (1 2 3 4) note_missing.simps) (auto simp: fun_eq_iff split: option.split)
  next
    case False
    note one = note_one_pending [OF 1(2), of lost now]
    note rest = 1(1) [OF False one(1)]
    have "note_missing lost sequence now r = note_missing (lost + 1) sequence now (note_one lost now r)"
      using False by (subst note_missing.simps) simp
    then show ?thesis
      using rest one(2,3) between_step [OF False] by (auto simp: fun_eq_iff split: option.split)
  qed
qed

lemma card_between: "card (between a b) = unat (b - a)"
proof -
  let ?n = "unat (b - a)"
  have n: "?n < 2 ^ 16" using unsigned_less [where ?'a = nat and w = "b - a"] by simp
  have "between a b = (\<lambda>i. a + of_nat i) ` {..<?n}"
  proof (intro equalityI subsetI)
    fix x assume "x \<in> between a b"
    then have "x = a + of_nat (unat (x - a))" "unat (x - a) < ?n" by (simp_all add: between_def)
    then show "x \<in> (\<lambda>i. a + of_nat i) ` {..<?n}" by blast
  next
    fix x assume "x \<in> (\<lambda>i. a + of_nat i) ` {..<?n}"
    then show "x \<in> between a b" using n by (auto simp: between_def unat_of_nat)
  qed
  moreover have "inj_on (\<lambda>i. a + of_nat i) {..<?n}"
  proof (rule inj_onI)
    fix i j assume ij: "i \<in> {..<?n}" "j \<in> {..<?n}" "a + of_nat i = a + of_nat j"
    then have "unat (of_nat i :: 16 word) = unat (of_nat j :: 16 word)" by simp
    then show "i = j" using ij n by (simp add: unat_of_nat)
  qed
  ultimately show ?thesis by (simp add: card_image)
qed

text \<open>C27. When a packet arrives ahead of the one expected by no more than \<open>max_gap\<close>, the pending set
  gains exactly the sequence numbers skipped, as many as the packet is ahead, around the wrap of the
  16 bits too; what was pending already keeps its times and its count, every newcomer is counted
  once, and the next packet is expected. The loop that walks them always ends.\<close>

theorem hole_noticed_exactly:
  assumes "ascending (lr_missing r)" "lr_started r" "lr_ssrc r = ssrc"
    and "sint (sequence - lr_expected r) > 0" "sequence - lr_expected r \<le> ro_max_gap opts"
  shows "lr_expected (observe opts ssrc sequence now r) = sequence + 1
    \<and> map_of (lr_missing (observe opts ssrc sequence now r)) = (\<lambda>x. case map_of (lr_missing r) x of
        Some e \<Rightarrow> Some e
      | None \<Rightarrow> if x \<in> between (lr_expected r) sequence then Some (fresh now) else None)
    \<and> card (between (lr_expected r) sequence) = nat (sint (sequence - lr_expected r))
    \<and> lr_packets_missing (observe opts ssrc sequence now r) + length (lr_missing r)
        = lr_packets_missing r + length (lr_missing (observe opts ssrc sequence now r))"
proof -
  let ?r = "r\<lparr>lr_packets_seen := lr_packets_seen r + 1\<rparr>"
  have ahead: "nat (sint (sequence - lr_expected r)) = unat (sequence - lr_expected r)"
    using nat_sint_16 [OF assms(4)] .
  have "observe opts ssrc sequence now r
      = (note_missing (lr_expected r) sequence now ?r)\<lparr>lr_expected := sequence + 1\<rparr>"
    using assms by (simp add: observe_def change_source_def Let_def)
  then show ?thesis
    using note_missing_pending [of ?r "lr_expected r" sequence now] assms(1) ahead card_between
    by simp
qed

text \<open>65534 came, 65535 and 0 did not, 1 did.\<close>

definition at_the_wrap :: loss_repair where
  "at_the_wrap = observe default_repair_options 7 65534 0 new_loss_repair"

lemma at_the_wrap: "lr_missing at_the_wrap = []" "lr_started at_the_wrap"
  "lr_ssrc at_the_wrap = 7" "lr_expected at_the_wrap = 65535"
  by (simp_all add: at_the_wrap_def observe_def new_loss_repair_def change_source_def)

lemma hole_noticed_exactly_witness:
  "map_of (lr_missing (observe default_repair_options 7 1 5 at_the_wrap)) 0 = Some (fresh 5)
    \<and> map_of (lr_missing (observe default_repair_options 7 1 5 at_the_wrap)) 65535 = Some (fresh 5)
    \<and> map_of (lr_missing (observe default_repair_options 7 1 5 at_the_wrap)) 1 = None"
  using hole_noticed_exactly [of at_the_wrap 7 1 default_repair_options 5]
  by (simp add: at_the_wrap between_def default_repair_options_def)

section \<open>What goes unnoticed\<close>

lemma observe_behind:
  assumes "lr_started r" "lr_ssrc r = ssrc" "sint (sequence - lr_expected r) < 0"
  shows "lr_started (observe opts ssrc sequence now r) \<and> lr_ssrc (observe opts ssrc sequence now r) = ssrc
    \<and> lr_expected (observe opts ssrc sequence now r) = lr_expected r
    \<and> lr_packets_missing (observe opts ssrc sequence now r) = lr_packets_missing r
    \<and> set (lr_missing (observe opts ssrc sequence now r)) \<subseteq> set (lr_missing r)"
  using assms by (auto simp: observe_def change_source_def Let_def AList.delete_eq)

text \<open>A jump forward of more than \<open>max_gap\<close> is taken for a stream that restarted, but a jump
  backward is taken for reordering however large it is: after a restart up to half the sequence
  space behind the number expected, and for as long as the packets stay behind it, the expectation
  does not move, and no packet lost in that time is noticed or asked for.\<close>

lemma restart_behind_unnoticed:
  assumes "lr_started r" "lr_ssrc r = ssrc"
    and "\<forall>(sequence, now) \<in> set packets. sint (sequence - lr_expected r) < 0"
  shows "lr_expected (fold (\<lambda>(sequence, now). observe opts ssrc sequence now) packets r) = lr_expected r
    \<and> lr_packets_missing (fold (\<lambda>(sequence, now). observe opts ssrc sequence now) packets r)
        = lr_packets_missing r
    \<and> set (lr_missing (fold (\<lambda>(sequence, now). observe opts ssrc sequence now) packets r))
        \<subseteq> set (lr_missing r)"
  using assms
proof (induction packets arbitrary: r)
  case Nil
  then show ?case by simp
next
  case (Cons packet packets)
  obtain sequence now where packet: "packet = (sequence, now)" by fastforce
  have "sint (sequence - lr_expected r) < 0" using Cons.prems(3) packet by simp
  note behind = observe_behind [OF Cons.prems(1,2) this, of opts now]
  show ?case
    using Cons.IH [of "observe opts ssrc sequence now r"] behind Cons.prems(3) packet by auto
qed

lemma restart_behind_unnoticed_witness:
  "lr_packets_missing (fold (\<lambda>(sequence, now). observe default_repair_options 7 sequence now)
      [(40000, 1), (40002, 2), (40004, 3)] at_the_wrap) = 0
    \<and> lr_missing (fold (\<lambda>(sequence, now). observe default_repair_options 7 sequence now)
      [(40000, 1), (40002, 2), (40004, 3)] at_the_wrap) = []"
  using restart_behind_unnoticed [of at_the_wrap 7 "[(40000, 1), (40002, 2), (40004, 3)]"
      default_repair_options]
  by (simp add: at_the_wrap, simp add: at_the_wrap_def observe_def new_loss_repair_def
      change_source_def)

section \<open>What is asked for\<close>

lemma fst_scan_subset: "fst ` set (fst (scan_pending opts now p)) \<subseteq> fst ` set p"
  by (induction opts now p rule: scan_pending.induct) (auto simp: split_beta)

lemma scan_after:
  assumes "ascending ((k, e) # p)"
  shows "\<forall>k' \<in> fst ` set (fst (scan_pending opts now p)). k < k'"
  using assms fst_scan_subset [of opts now p] unfolding ascending_Cons by blast

lemma ascending_scan: "ascending p \<Longrightarrow> ascending (fst (scan_pending opts now p))"
proof (induction opts now p rule: scan_pending.induct)
  case (2 opts now k e rest)
  have "ascending (fst (scan_pending opts now rest))" using 2 by (simp add: ascending_Cons)
  with scan_after [OF 2(2), of opts now] show ?case by (simp add: split_beta ascending_Cons)
qed simp

definition asked :: "time \<Rightarrow> missing \<Rightarrow> missing" where
  "asked now e = e\<lparr>ms_last_requested := now, ms_requests := ms_requests e + 1\<rparr>"

text \<open>What one pass over the pending set keeps of each sequence number, and which it asks for.\<close>

lemma map_of_scan:
  "ascending p \<Longrightarrow> map_of (fst (scan_pending opts now p)) k = (case map_of p k of
     None \<Rightarrow> None
   | Some e \<Rightarrow> if written_off opts now e then None
               else if too_early opts now e then Some e else Some (asked now e))"
proof (induction opts now p rule: scan_pending.induct)
  case (2 opts now k' e rest)
  have "k' \<notin> fst ` set (fst (scan_pending opts now rest))"
    using scan_after [OF 2(2), of opts now] by blast
  then have "map_of (fst (scan_pending opts now rest)) k' = None" by (simp add: map_of_eq_None_iff)
  then show ?case using 2 by (auto simp: split_beta ascending_Cons asked_def)
qed simp

lemma wanted_scan:
  "ascending p \<Longrightarrow> k \<in> set (snd (scan_pending opts now p)) \<longleftrightarrow>
     (\<exists>e. map_of p k = Some e \<and> \<not> written_off opts now e \<and> \<not> too_early opts now e)"
proof (induction opts now p rule: scan_pending.induct)
  case (2 opts now k' e rest)
  have "map_of rest k' = None" using 2(2) by (auto simp: ascending_Cons map_of_eq_None_iff)
  then show ?case using 2 by (auto simp: split_beta ascending_Cons)
qed simp

lemma distinct_wanted: "ascending p \<Longrightarrow> distinct (snd (scan_pending opts now p))"
proof (induction opts now p rule: scan_pending.induct)
  case (2 opts now k' e rest)
  have "map_of rest k' = None" using 2(2) by (auto simp: ascending_Cons map_of_eq_None_iff)
  then have "k' \<notin> set (snd (scan_pending opts now rest))"
    using 2(2) by (simp add: wanted_scan ascending_Cons)
  then show ?case using 2 by (auto simp: split_beta ascending_Cons)
qed simp

section \<open>The invariant of the repair\<close>

definition entry_ok :: "repair_options \<Rightarrow> missing \<Rightarrow> bool" where
  "entry_ok opts e \<longleftrightarrow> 0 \<le> ms_requests e \<and> ms_requests e \<le> ro_max_requests opts"

definition repair_ok :: "repair_options \<Rightarrow> loss_repair \<Rightarrow> bool" where
  "repair_ok opts r \<longleftrightarrow> ascending (lr_missing r) \<and> (\<not> lr_started r \<longrightarrow> lr_missing r = [])
     \<and> (\<forall>k e. map_of (lr_missing r) k = Some e \<longrightarrow> entry_ok opts e)
     \<and> lr_packets_repaired r + length (lr_missing r) \<le> lr_packets_missing r"

lemma ascending_delete: "ascending p \<Longrightarrow> ascending (AList.delete k p)"
  by (induction p) (auto simp: ascending_Cons AList.delete_eq)

lemma length_delete: "map_of p k \<noteq> None \<Longrightarrow> length (AList.delete k p) < length p"
proof (induction p)
  case (Cons a p)
  then show ?case
    using length_filter_le [of "\<lambda>(k', _). k \<noteq> k'" p]
    by (auto simp: AList.delete_eq less_Suc_eq_le split: if_splits)
qed simp

lemma length_scan: "length (fst (scan_pending opts now p)) \<le> length p"
  by (induction opts now p rule: scan_pending.induct) (auto simp: split_beta)

lemma repair_ok_empty:
  "lr_packets_repaired r \<le> lr_packets_missing r \<Longrightarrow> lr_missing r = [] \<Longrightarrow> repair_ok opts r"
  by (simp add: repair_ok_def)

lemma observe_keeps:
  assumes "repair_ok opts r" "0 \<le> ro_max_requests opts"
  shows "repair_ok opts (observe opts ssrc sequence now r)"
proof -
  define r0 where "r0 = (change_source ssrc r)\<lparr>lr_packets_seen := lr_packets_seen (change_source ssrc r) + 1\<rparr>"
  have ok: "repair_ok opts r0"
    using assms(1) by (auto simp: r0_def change_source_def repair_ok_def)
  have observe: "observe opts ssrc sequence now r =
     (if \<not> lr_started r0 then r0\<lparr>lr_started := True, lr_expected := sequence + 1\<rparr>
      else if sint (sequence - lr_expected r0) = 0 then r0\<lparr>lr_expected := sequence + 1\<rparr>
      else if sint (sequence - lr_expected r0) < 0 then
        (if map_of (lr_missing r0) sequence = None then r0
         else r0\<lparr>lr_missing := AList.delete sequence (lr_missing r0),
                 lr_packets_repaired := lr_packets_repaired r0 + 1\<rparr>)
      else if (word_of_int (sint (sequence - lr_expected r0)) :: 16 word) > ro_max_gap opts
      then r0\<lparr>lr_missing := [], lr_expected := sequence + 1\<rparr>
      else (note_missing (lr_expected r0) sequence now r0)\<lparr>lr_expected := sequence + 1\<rparr>)"
    by (simp only: observe_def Let_def r0_def)
  have repaired: "repair_ok opts (r0\<lparr>lr_missing := AList.delete sequence (lr_missing r0),
      lr_packets_repaired := lr_packets_repaired r0 + 1\<rparr>)"
    if "map_of (lr_missing r0) sequence \<noteq> None" "lr_started r0"
    using ok length_delete [OF that(1)] that(2)
    by (auto simp: repair_ok_def ascending_delete delete_conv' split: if_splits)
  have noted: "repair_ok opts ((note_missing (lr_expected r0) sequence now r0)\<lparr>lr_expected := sequence + 1\<rparr>)"
    if "lr_started r0"
    using ok note_missing_pending [of r0 "lr_expected r0" sequence now] assms(2) that
    by (auto simp: repair_ok_def fresh_def entry_ok_def split: option.splits if_splits)
  show ?thesis
    using ok repaired noted unfolding observe by (auto simp: repair_ok_def)
qed

lemma request_fields [simp]:
  "lr_missing (snd (request pack opts send now r)) = fst (scan_pending opts now (lr_missing r))"
  "lr_started (snd (request pack opts send now r)) = lr_started r"
  "lr_packets_missing (snd (request pack opts send now r)) = lr_packets_missing r"
  "lr_packets_repaired (snd (request pack opts send now r)) = lr_packets_repaired r"
  by (simp_all add: request_def split_beta Let_def)

lemma request_keeps:
  assumes "repair_ok opts r"
  shows "repair_ok opts (snd (request pack opts send now r))"
  using assms length_scan [of opts now "lr_missing r"]
  by (auto simp: repair_ok_def ascending_scan map_of_scan entry_ok_def asked_def written_off_def
      split: option.splits if_splits)

lemma observe_message_keeps:
  "repair_ok opts r \<Longrightarrow> 0 \<le> ro_max_requests opts
    \<Longrightarrow> repair_ok opts (observe_message lib opts now msg r)"
  by (simp add: observe_message_def observe_keeps split: option.split)

lemma observe_messages_keep:
  "repair_ok opts r \<Longrightarrow> 0 \<le> ro_max_requests opts
    \<Longrightarrow> repair_ok opts (fold (observe_message lib opts now) messages r)"
  by (induction messages arbitrary: r) (simp_all add: observe_message_keeps)

text \<open>The calls of a stream's life: batches of messages, each at its time.\<close>

definition incoming_all ::
    "'m rtp_library \<Rightarrow> (16 word list \<Rightarrow> 'e list) \<Rightarrow> repair_options \<Rightarrow> bool \<Rightarrow> (time \<times> 'm option list) list
      \<Rightarrow> loss_repair \<Rightarrow> loss_repair" where
  "incoming_all lib pack opts send = fold (\<lambda>(now, messages) r. snd (incoming lib pack opts send now messages r))"

text \<open>Whatever arrives on a track and whenever, from the first packet on: the pending set has no
  sequence number twice and is empty before a stream starts, nothing pending has been asked for more
  often than allowed, and the packets counted as repaired together with those still pending are
  never more than those counted as missing.\<close>

lemma repair_invariant:
  assumes "0 \<le> ro_max_requests opts"
  shows "repair_ok opts (incoming_all lib pack opts send batches new_loss_repair)"
proof -
  have "repair_ok opts r \<Longrightarrow> repair_ok opts (incoming_all lib pack opts send batches r)" for r
  proof (induction batches arbitrary: r)
    case Nil
    then show ?case by (simp add: incoming_all_def)
  next
    case (Cons batch batches)
    have "repair_ok opts (snd (incoming lib pack opts send (fst batch) (snd batch) r))"
      unfolding incoming_def by (intro request_keeps observe_messages_keep Cons.prems assms)
    from Cons.IH [OF this] show ?case by (simp add: incoming_all_def split_beta)
  qed
  then show ?thesis by (simp add: repair_ok_empty new_loss_repair_def)
qed

lemma repair_invariant_witness:
  "repair_ok default_repair_options (incoming_all
     \<lparr>rl_size = \<lambda>_. 20, rl_rtp_header_size = 12, rl_rtcp_header_size = 4, rl_is_rtcp = \<lambda>_. False,
      rl_version = \<lambda>_. 2, rl_ssrc = \<lambda>_. 7, rl_sequence = \<lambda>m. m, rl_report_length = \<lambda>_ _. 0,
      rl_report_type = \<lambda>_ _. 0, rl_report_count = \<lambda>_ _. 0\<rparr>
     (\<lambda>ws. ws) default_repair_options True [(0, [Some 3, None, Some 6]), (9, [Some 4])] new_loss_repair)"
  by (rule repair_invariant) (simp add: default_repair_options_def)

section \<open>How often, how soon, how long\<close>

text \<open>The times at which \<open>k\<close> is asked for, over requests at the times \<open>ts\<close>, and the state after them.
  Packing is the identity here, so that the entries of a NACK are the numbers it asks for.\<close>

fun asked_at :: "16 word \<Rightarrow> repair_options \<Rightarrow> time list \<Rightarrow> loss_repair \<Rightarrow> time list" where
  "asked_at k opts [] r = []"
| "asked_at k opts (now # ts) r =
     (let (nack, r) = request (\<lambda>ws. ws) opts True now r
      in (case nack of Some (_, ws) \<Rightarrow> if k \<in> set ws then [now] else [] | None \<Rightarrow> [])
         @ asked_at k opts ts r)"

definition after_requests :: "repair_options \<Rightarrow> time list \<Rightarrow> loss_repair \<Rightarrow> loss_repair" where
  "after_requests opts = fold (\<lambda>now r. snd (request (\<lambda>ws. ws) opts True now r))"

lemma asked_now:
  "(case fst (request (\<lambda>ws. ws) opts True now r) of
      Some (_, ws) \<Rightarrow> if k \<in> set ws then [now] else [] | None \<Rightarrow> [])
    = (if k \<in> set (snd (scan_pending opts now (lr_missing r))) then [now] else [])"
  by (auto simp: request_def split_beta Let_def)

lemma asked_at_Cons:
  "asked_at k opts (now # ts) r =
     (if k \<in> set (snd (scan_pending opts now (lr_missing r))) then [now] else [])
     @ asked_at k opts ts (snd (request (\<lambda>ws. ws) opts True now r))"
  by (simp only: asked_at.simps split_beta Let_def asked_now)

lemma not_pending_not_asked:
  "ascending (lr_missing r) \<Longrightarrow> map_of (lr_missing r) k = None
    \<Longrightarrow> asked_at k opts ts r = [] \<and> map_of (lr_missing (after_requests opts ts r)) k = None"
proof (induction ts arbitrary: r)
  case Nil
  then show ?case by (simp add: after_requests_def)
next
  case (Cons now ts)
  then show ?case
    using Cons.IH [of "snd (request (\<lambda>ws. ws) opts True now r)"]
    by (simp add: asked_at_Cons wanted_scan map_of_scan ascending_scan after_requests_def
        del: asked_at.simps)
qed

definition due_span :: "repair_options \<Rightarrow> missing \<Rightarrow> time \<Rightarrow> bool" where
  "due_span opts e t \<longleftrightarrow> t < ms_first_seen e + ro_give_up_after opts
     \<and> (0 < ms_requests e \<longrightarrow> ms_last_requested e + ro_retry_after opts \<le> t)"

lemma asked_at_pending:
  assumes "0 \<le> ro_retry_after opts"
  shows "ascending (lr_missing r) \<Longrightarrow> map_of (lr_missing r) k = Some e \<Longrightarrow> entry_ok opts e
    \<Longrightarrow> int (length (asked_at k opts ts r)) \<le> ro_max_requests opts - ms_requests e
      \<and> sorted_wrt (\<lambda>t t'. t + ro_retry_after opts \<le> t') (asked_at k opts ts r)
      \<and> (\<forall>t \<in> set (asked_at k opts ts r). due_span opts e t)
      \<and> ((\<exists>t \<in> set ts. ms_first_seen e + ro_give_up_after opts \<le> t) \<longrightarrow>
          map_of (lr_missing (after_requests opts ts r)) k = None)"
proof (induction ts arbitrary: r e)
  case Nil
  then show ?case by (simp add: entry_ok_def)
next
  case (Cons now ts)
  let ?r = "snd (request (\<lambda>ws. ws) opts True now r)"
  have asc: "ascending (lr_missing ?r)" using Cons.prems(1) by (simp add: ascending_scan)
  have kept: "map_of (lr_missing ?r) k = (if written_off opts now e then None
      else if too_early opts now e then Some e else Some (asked now e))"
    using Cons.prems(1,2) by (simp add: map_of_scan)
  have wanted: "k \<in> set (snd (scan_pending opts now (lr_missing r)))
      \<longleftrightarrow> \<not> written_off opts now e \<and> \<not> too_early opts now e"
    using Cons.prems(1,2) by (simp add: wanted_scan)
  have after: "after_requests opts (now # ts) r = after_requests opts ts ?r"
    by (simp add: after_requests_def)
  consider (off) "written_off opts now e" | (early) "\<not> written_off opts now e" "too_early opts now e"
    | (due) "\<not> written_off opts now e" "\<not> too_early opts now e" by blast
  then show ?case
  proof cases
    case off
    then show ?thesis
      using not_pending_not_asked [OF asc] kept wanted Cons.prems(3) unfolding asked_at_Cons after
      by (simp add: entry_ok_def)
  next
    case early
    then show ?thesis
      using Cons.IH [OF asc _ Cons.prems(3)] kept wanted unfolding asked_at_Cons after
      by (auto simp: written_off_def)
  next
    case due
    have ok: "entry_ok opts (asked now e)"
      using due Cons.prems(3) by (simp add: entry_ok_def asked_def written_off_def)
    have "map_of (lr_missing ?r) k = Some (asked now e)" using kept due by simp
    note rest = Cons.IH [OF asc this ok]
    have later: "now + ro_retry_after opts \<le> t" "t < ms_first_seen e + ro_give_up_after opts"
      if "t \<in> set (asked_at k opts ts ?r)" for t
      using rest that Cons.prems(3) by (auto simp: due_span_def asked_def entry_ok_def)
    have now_due: "due_span opts e now"
      using due by (auto simp: due_span_def written_off_def too_early_def)
    have span: "due_span opts e t" if "t \<in> set (asked_at k opts ts ?r)" for t
      using later [OF that] now_due assms by (auto simp: due_span_def)
    show ?thesis
      using rest due wanted later now_due span unfolding asked_at_Cons after
      by (auto simp: asked_def written_off_def)
  qed
qed

text \<open>C28. A packet that is missing is asked for at most \<open>max_requests\<close> times, never twice within
  \<open>retry_after\<close>, and never from \<open>give_up_after\<close> on; and the first request made at or after that
  time takes it off the pending set for good, so that no packet is asked for, or remembered, for
  ever.\<close>

theorem requests_bounded_and_given_up:
  assumes "repair_ok opts r" "0 \<le> ro_retry_after opts" "map_of (lr_missing r) k = Some e"
  shows "int (length (asked_at k opts ts r)) \<le> ro_max_requests opts - ms_requests e
    \<and> sorted_wrt (\<lambda>t t'. t + ro_retry_after opts \<le> t') (asked_at k opts ts r)
    \<and> (\<forall>t \<in> set (asked_at k opts ts r). t < ms_first_seen e + ro_give_up_after opts)
    \<and> ((\<exists>t \<in> set ts. ms_first_seen e + ro_give_up_after opts \<le> t) \<longrightarrow>
        map_of (lr_missing (after_requests opts ts r)) k = None)"
proof -
  have "ascending (lr_missing r)" "entry_ok opts e" using assms(1,3) by (auto simp: repair_ok_def)
  from asked_at_pending [OF assms(2) this(1) assms(3) this(2), of ts] show ?thesis
    by (auto simp: due_span_def)
qed

definition with_a_hole :: loss_repair where
  "with_a_hole = observe default_repair_options 7 1 0 at_the_wrap"

lemma with_a_hole:
  "lr_missing with_a_hole = [(0, fresh 0), (65535, fresh 0)]" "lr_packets_missing with_a_hole = 2"
  "lr_packets_repaired with_a_hole = 0" "lr_started with_a_hole"
  by (simp_all add: with_a_hole_def at_the_wrap_def observe_def new_loss_repair_def change_source_def
      default_repair_options_def note_missing.simps note_one_def fresh_def)

lemma requests_bounded_and_given_up_witness:
  "length (asked_at 65535 default_repair_options (map milliseconds [0, 20, 50, 600]) with_a_hole) \<le> 3
    \<and> map_of (lr_missing (after_requests default_repair_options
        (map milliseconds [0, 20, 50, 600]) with_a_hole)) 65535 = None"
proof -
  have "repair_ok default_repair_options with_a_hole"
    by (simp add: repair_ok_def with_a_hole ascending_def entry_ok_def fresh_def
        default_repair_options_def)
  from requests_bounded_and_given_up [OF this, of 65535 "fresh 0"
      "map milliseconds [0, 20, 50, 600]"] show ?thesis
    by (simp add: with_a_hole default_repair_options_def fresh_def milliseconds_def)
qed

end
