(* ===== verification/VideoFeedback.thy ===== *)
theory VideoFeedback
  imports Complex_Main LossRepairProofs
begin

text \<open>
  What the SFU asks of the sender of a stream, and what it offers for audio:
  \<open>server/src/sfu/bandwidth_estimator.hpp\<close>, \<open>video_feedback.{hpp,cpp}\<close> and
  \<open>audio_description.{hpp,cpp}\<close>. A \<open>double\<close> is the real number it stands for, and every operation
  on doubles is the exact one followed by a rounding \<open>fl\<close>, a parameter of which only what IEEE
  arithmetic promises is used: it is monotone and exact on the integers up to 2^53.
\<close>

section \<open>Doubles\<close>

definition rounding :: "(real \<Rightarrow> real) \<Rightarrow> bool" where
  "rounding fl \<longleftrightarrow> mono fl \<and> (\<forall>n :: int. \<bar>n\<bar> \<le> 2 ^ 53 \<longrightarrow> fl (of_int n) = of_int n)"

text \<open>\<open>static_cast<int>\<close> of a double truncates towards zero; \<open>std::clamp\<close>.\<close>

definition int_of_double :: "real \<Rightarrow> int" where
  "int_of_double x = (if x < 0 then - \<lfloor>- x\<rfloor> else \<lfloor>x\<rfloor>)"

definition clamp :: "int \<Rightarrow> int \<Rightarrow> int \<Rightarrow> int" where
  "clamp v lo hi = (if v < lo then lo else if hi < v then hi else v)"

lemma int_of_double_mono: "x \<le> y \<Longrightarrow> int_of_double x \<le> int_of_double y"
proof -
  assume "x \<le> y"
  then have "\<lfloor>- y\<rfloor> \<le> \<lfloor>- x\<rfloor>" "\<lfloor>x\<rfloor> \<le> \<lfloor>y\<rfloor>" by (simp_all add: floor_mono)
  moreover have "- \<lfloor>- x\<rfloor> \<le> \<lfloor>y\<rfloor>" if "x < 0" "\<not> y < 0"
  proof -
    have "0 \<le> \<lfloor>- x\<rfloor>" "0 \<le> \<lfloor>y\<rfloor>" using that by simp_all
    then show ?thesis by linarith
  qed
  ultimately show ?thesis using \<open>x \<le> y\<close> unfolding int_of_double_def by auto
qed

lemma int_of_double_of_int [simp]: "int_of_double (of_int n) = n"
  unfolding int_of_double_def by (simp flip: of_int_minus)

section \<open>The bandwidth estimate\<close>

record bandwidth_options =
  bo_start_kbps :: int
  bo_min_kbps :: int
  bo_max_kbps :: int
  bo_back_off_above :: real
  bo_grow_below :: real
  bo_growth :: real

definition default_bandwidth_options :: "(real \<Rightarrow> real) \<Rightarrow> bandwidth_options" where
  "default_bandwidth_options fl = \<lparr>bo_start_kbps = 1500, bo_min_kbps = 300, bo_max_kbps = 3000,
     bo_back_off_above = fl (10 / 100), bo_grow_below = fl (2 / 100), bo_growth = fl (108 / 100)\<rparr>"

record bandwidth_estimator =
  be_options :: bandwidth_options
  be_target_kbps :: int
  be_ceiling_kbps :: int

definition new_estimator :: "bandwidth_options \<Rightarrow> bandwidth_estimator" where
  "new_estimator opts = \<lparr>be_options = opts,
     be_target_kbps = clamp (bo_start_kbps opts) (bo_min_kbps opts) (bo_max_kbps opts),
     be_ceiling_kbps = 0\<rparr>"

definition loss_fraction :: "(real \<Rightarrow> real) \<Rightarrow> nat \<Rightarrow> nat \<Rightarrow> real" where
  "loss_fraction fl received lost = fl (fl (of_nat lost) / fl (of_nat (received + lost)))"

definition be_update :: "(real \<Rightarrow> real) \<Rightarrow> nat \<Rightarrow> nat \<Rightarrow> bandwidth_estimator \<Rightarrow> bandwidth_estimator" where
  "be_update fl received lost b =
     (if received + lost = 0 then b
      else let fraction = loss_fraction fl received lost;
               target = fl (of_int (be_target_kbps b));
               target =
                 (if fraction > bo_back_off_above (be_options b)
                  then fl (target * fl (1 - fl (1 / 2 * fraction)))
                  else if fraction < bo_grow_below (be_options b)
                  then fl (target * bo_growth (be_options b))
                  else target)
           in b\<lparr>be_target_kbps := clamp (int_of_double target) (bo_min_kbps (be_options b))
                  (bo_max_kbps (be_options b))\<rparr>)"

definition set_ceiling :: "int \<Rightarrow> bandwidth_estimator \<Rightarrow> bandwidth_estimator" where
  "set_ceiling kbps b = b\<lparr>be_ceiling_kbps := kbps\<rparr>"

definition target_kbps :: "bandwidth_estimator \<Rightarrow> int" where
  "target_kbps b = (if be_ceiling_kbps b \<le> 0 then be_target_kbps b
     else max (bo_min_kbps (be_options b)) (min (be_target_kbps b) (be_ceiling_kbps b)))"

section \<open>Feedback to the sender\<close>

record feedback_options =
  fo_repair :: repair_options
  fo_bandwidth_interval :: time

record video_feedback =
  vf_options :: feedback_options
  vf_repair :: loss_repair
  vf_bandwidth :: bandwidth_estimator
  vf_last_bandwidth_report :: time
  vf_packets_seen_at_report :: nat
  vf_packets_missing_at_report :: nat
  vf_bandwidth_reports_sent :: nat
  vf_target_kbps :: int

definition new_video_feedback :: "feedback_options \<Rightarrow> bandwidth_options \<Rightarrow> video_feedback" where
  "new_video_feedback opts bandwidth = \<lparr>vf_options = opts, vf_repair = new_loss_repair,
     vf_bandwidth = new_estimator bandwidth, vf_last_bandwidth_report = 0,
     vf_packets_seen_at_report = 0, vf_packets_missing_at_report = 0,
     vf_bandwidth_reports_sent = 0, vf_target_kbps = 0\<rparr>"

definition set_bandwidth_ceiling :: "int \<Rightarrow> video_feedback \<Rightarrow> video_feedback" where
  "set_bandwidth_ceiling kbps v = v\<lparr>vf_bandwidth := set_ceiling kbps (vf_bandwidth v)\<rparr>"

text \<open>The REMB sent, if any: the source and the bits per second handed to \<open>preparePacket\<close>. The time
  point zero is the default one, which marks that no interval has started. The counters only grow,
  so the subtractions do not go below zero.\<close>

type_synonym remb = "(32 word \<times> 32 word) option"

definition start_interval :: "time \<Rightarrow> video_feedback \<Rightarrow> video_feedback" where
  "start_interval now v = v\<lparr>vf_last_bandwidth_report := now,
     vf_packets_seen_at_report := lr_packets_seen (vf_repair v),
     vf_packets_missing_at_report := lr_packets_missing (vf_repair v)\<rparr>"

definition report_bandwidth ::
    "(real \<Rightarrow> real) \<Rightarrow> bool \<Rightarrow> time \<Rightarrow> video_feedback \<Rightarrow> remb \<times> video_feedback" where
  "report_bandwidth fl send now v =
     (if lr_packets_seen (vf_repair v) = 0 \<or> \<not> send then (None, v)
      else if vf_last_bandwidth_report v = 0 then (None, start_interval now v)
      else if now - vf_last_bandwidth_report v < fo_bandwidth_interval (vf_options v) then (None, v)
      else
        let received = lr_packets_seen (vf_repair v) - vf_packets_seen_at_report v;
            lost = lr_packets_missing (vf_repair v) - vf_packets_missing_at_report v;
            v = start_interval now v;
            v = v\<lparr>vf_bandwidth := be_update fl received lost (vf_bandwidth v)\<rparr>;
            target = target_kbps (vf_bandwidth v);
            ssrc = lr_ssrc (vf_repair v)
        in if ssrc = 0 then (None, v)
           else (Some (ssrc, word_of_int target * 1000),
             v\<lparr>vf_target_kbps := target,
               vf_bandwidth_reports_sent := vf_bandwidth_reports_sent v + 1\<rparr>))"

definition feedback_incoming ::
    "(real \<Rightarrow> real) \<Rightarrow> 'm rtp_library \<Rightarrow> (16 word list \<Rightarrow> 'e list) \<Rightarrow> bool \<Rightarrow> time \<Rightarrow> 'm option list
      \<Rightarrow> video_feedback \<Rightarrow> ('e nack \<times> remb) \<times> video_feedback" where
  "feedback_incoming fl lib pack send now messages v =
     (let (nack, repair) = incoming lib pack (fo_repair (vf_options v)) send now messages (vf_repair v);
          (report, v) = report_bandwidth fl send now (v\<lparr>vf_repair := repair\<rparr>)
      in ((nack, report), v))"

section \<open>What is offered for audio\<close>

record audio_codecs =
  ac_opus_payload_type :: int
  ac_opus_max_bitrate_kbps :: int
  ac_red_payload_type :: "int option"
  ac_nack :: bool

definition default_audio_codecs :: audio_codecs where
  "default_audio_codecs = \<lparr>ac_opus_payload_type = 111, ac_opus_max_bitrate_kbps = 128,
     ac_red_payload_type = Some 63, ac_nack = True\<rparr>"

record rtp_map =
  rtp_payload_type :: int
  rtp_format :: string
  rtp_clock_rate :: int
  rtp_enc_params :: string
  rtp_fmtps :: "string list"

text \<open>The calls made on the media description of libdatachannel.\<close>

datatype description_call =
    AddRtpMap rtp_map
  | AddOpusCodec int string
  | AddFeedback int string

definition opus_profile :: "int \<Rightarrow> bool \<Rightarrow> string" where
  "opus_profile max_bitrate_kbps in_band_fec =
     ''minptime=10;maxaveragebitrate='' @ to_string_int (max_bitrate_kbps * 1000)
       @ '';stereo=1;sprop-stereo=1'' @ (if in_band_fec then '';useinbandfec=1'' else [])"

text \<open>\<open>found\<close> is whether \<open>media.rtpMap(opus)\<close> answers the codec just added.\<close>

definition add_audio_codecs :: "bool \<Rightarrow> audio_codecs \<Rightarrow> description_call list" where
  "add_audio_codecs found codecs =
     (case ac_red_payload_type codecs of
        None \<Rightarrow> []
      | Some red \<Rightarrow>
          (let opus = to_string_int (ac_opus_payload_type codecs)
           in [AddRtpMap \<lparr>rtp_payload_type = red, rtp_format = ''red'', rtp_clock_rate = 48000,
                 rtp_enc_params = ''2'', rtp_fmtps = [opus @ ''/'' @ opus]\<rparr>]))
     @ [AddOpusCodec (ac_opus_payload_type codecs)
          (opus_profile (ac_opus_max_bitrate_kbps codecs) (ac_red_payload_type codecs = None))]
     @ (if ac_nack codecs \<and> found then [AddFeedback (ac_opus_payload_type codecs) ''nack''] else [])"

section \<open>The estimate stays within its limits\<close>

lemma clamp_within: "lo \<le> hi \<Longrightarrow> lo \<le> clamp v lo hi \<and> clamp v lo hi \<le> hi"
  by (simp add: clamp_def)

definition estimate_ok :: "bandwidth_estimator \<Rightarrow> bool" where
  "estimate_ok b \<longleftrightarrow> 0 \<le> bo_min_kbps (be_options b) \<and> bo_min_kbps (be_options b) \<le> be_target_kbps b
     \<and> be_target_kbps b \<le> bo_max_kbps (be_options b) \<and> bo_max_kbps (be_options b) \<le> 2 ^ 31"

lemma loss_fraction_nonneg:
  assumes "rounding fl"
  shows "0 \<le> loss_fraction fl received lost"
proof -
  have zero: "fl 0 = 0" using assms unfolding rounding_def by (metis abs_zero of_int_0 zero_le_numeral zero_le_power)
  have mono: "mono fl" using assms by (simp add: rounding_def)
  have pos: "0 \<le> fl (of_nat n)" for n using monoD [OF mono, of 0 "of_nat n"] zero by simp
  have "0 \<le> fl (of_nat lost) / fl (of_nat (received + lost))" by (rule divide_nonneg_nonneg [OF pos pos])
  from monoD [OF mono this] show ?thesis using zero by (simp add: loss_fraction_def)
qed


lemma be_update_options [simp]:
  "be_options (be_update fl received lost b) = be_options b"
  "be_ceiling_kbps (be_update fl received lost b) = be_ceiling_kbps b"
  by (simp_all add: be_update_def Let_def)


lemma rounding_exact: "rounding (\<lambda>x. x)"
  by (simp add: rounding_def mono_def)


section \<open>What is reported\<close>

lemma target_within:
  "estimate_ok b \<Longrightarrow> bo_min_kbps (be_options b) \<le> target_kbps b
    \<and> target_kbps b \<le> bo_max_kbps (be_options b)
    \<and> (0 < be_ceiling_kbps b \<longrightarrow> target_kbps b \<le> max (bo_min_kbps (be_options b)) (be_ceiling_kbps b))"
  by (auto simp: estimate_ok_def target_kbps_def)

text \<open>A REMB goes to the sender at most once an interval, for the stream that is arriving, and
  what it asks for is within the limits of the estimate, and under the ceiling the slowest viewer
  set unless that is below the lowest rate asked for; whatever happens the estimate keeps its
  limits.\<close>

lemma feedback_reports_paced:
  assumes "estimate_ok (vf_bandwidth v)"
    and "report_bandwidth fl send now v = (report, v')"
  shows "estimate_ok (vf_bandwidth v')
    \<and> (case report of
         None \<Rightarrow> vf_bandwidth_reports_sent v' = vf_bandwidth_reports_sent v
       | Some (ssrc, bitrate) \<Rightarrow>
           vf_last_bandwidth_report v \<noteq> 0
           \<and> vf_last_bandwidth_report v + fo_bandwidth_interval (vf_options v) \<le> now
           \<and> vf_last_bandwidth_report v' = now
           \<and> ssrc = lr_ssrc (vf_repair v) \<and> ssrc \<noteq> 0 \<and> bitrate = word_of_int (vf_target_kbps v') * 1000
           \<and> bo_min_kbps (be_options (vf_bandwidth v)) \<le> vf_target_kbps v'
           \<and> vf_target_kbps v' \<le> bo_max_kbps (be_options (vf_bandwidth v))
           \<and> (0 < be_ceiling_kbps (vf_bandwidth v) \<longrightarrow> vf_target_kbps v'
               \<le> max (bo_min_kbps (be_options (vf_bandwidth v))) (be_ceiling_kbps (vf_bandwidth v))))"
proof -
  have kept: "estimate_ok (be_update fl received lost (vf_bandwidth v))" for received lost
    using assms(1) clamp_within [of "bo_min_kbps (be_options (vf_bandwidth v))"
        "bo_max_kbps (be_options (vf_bandwidth v))"]
    by (auto simp: estimate_ok_def be_update_def Let_def)
  show ?thesis
    using assms kept target_within [OF kept]
    by (auto simp: report_bandwidth_def start_interval_def Let_def split: if_splits)
qed

text \<open>A hundred packets in the second since the last report, none of them lost.\<close>

definition quiet_link :: video_feedback where
  "quiet_link = (new_video_feedback \<lparr>fo_repair = default_repair_options,
       fo_bandwidth_interval = seconds 1\<rparr> (default_bandwidth_options (\<lambda>x. x)))
     \<lparr>vf_repair := new_loss_repair\<lparr>lr_ssrc := 7, lr_started := True, lr_packets_seen := 100\<rparr>,
      vf_last_bandwidth_report := seconds 1\<rparr>"

lemma quiet_link_report:
  "fst (report_bandwidth (\<lambda>x. x) True (seconds 2) quiet_link) = Some (7, 1620000)"
  by (simp add: quiet_link_def report_bandwidth_def new_video_feedback_def start_interval_def
      new_loss_repair_def default_bandwidth_options_def new_estimator_def be_update_def
      loss_fraction_def clamp_def int_of_double_def target_kbps_def seconds_def Let_def)

lemma feedback_reports_paced_witness:
  "fst (report_bandwidth (\<lambda>x. x) True (seconds 2) quiet_link) = Some (7, 1620000)
    \<and> vf_target_kbps (snd (report_bandwidth (\<lambda>x. x) True (seconds 2) quiet_link)) \<le> 3000
    \<and> vf_last_bandwidth_report (snd (report_bandwidth (\<lambda>x. x) True (seconds 2) quiet_link)) = seconds 2"
proof -
  have "estimate_ok (vf_bandwidth quiet_link)"
    by (simp add: quiet_link_def new_video_feedback_def new_estimator_def estimate_ok_def clamp_def
        default_bandwidth_options_def)
  moreover have "bo_max_kbps (be_options (vf_bandwidth quiet_link)) = 3000"
    by (simp add: quiet_link_def new_video_feedback_def new_estimator_def
        default_bandwidth_options_def)
  moreover have "report_bandwidth (\<lambda>x. x) True (seconds 2) quiet_link
      = (Some (7, 1620000), snd (report_bandwidth (\<lambda>x. x) True (seconds 2) quiet_link))"
    using quiet_link_report by (simp add: prod_eq_iff)
  ultimately show ?thesis
    using feedback_reports_paced [of quiet_link "\<lambda>x. x" True "seconds 2"] quiet_link_report
    by fastforce
qed

section \<open>The order of the audio codecs\<close>

text \<open>RED comes before the codec it names, and in-band FEC is asked of Opus only without it.\<close>

lemma red_before_opus:
  "ac_red_payload_type codecs = Some red
    \<Longrightarrow> \<exists>m profile rest. add_audio_codecs found codecs
          = AddRtpMap m # AddOpusCodec (ac_opus_payload_type codecs) profile # rest
        \<and> rtp_payload_type m = red \<and> profile = opus_profile (ac_opus_max_bitrate_kbps codecs) False"
  by (simp add: add_audio_codecs_def Let_def)

text \<open>A walk counts no more requests than the packet has room for.\<close>

lemma nacks_bounded:
  "4 \<le> rl_rtcp_header_size lib \<Longrightarrow> 4 * nacks_from lib m offset \<le> rl_size lib m - offset"
proof (induction lib m offset rule: nacks_from.induct)
  case (1 lib m offset)
  then show ?case by (subst nacks_from.simps) auto
qed

end
