(* ===== verification/ScreenQuality.thy ===== *)
theory ScreenQuality
  imports Prelude
begin

text \<open>
  The arithmetic of a screen share, of \<open>client/src/video/frame_size.hpp\<close> and \<open>screen_quality.hpp\<close>:
  the size a monitor is sent at inside a ceiling, and the bitrate range automatic mode picks. Both
  are integer arithmetic; the products are taken in 64 bits, where the values of two \<open>int\<close>s fit.
\<close>

section \<open>Sizes\<close>

record frame_size =
  fs_width :: int
  fs_height :: int

definition size_empty :: "frame_size \<Rightarrow> bool" where
  "size_empty s \<longleftrightarrow> fs_width s \<le> 0 \<or> fs_height s \<le> 0"

definition is_size :: "frame_size \<Rightarrow> bool" where
  "is_size s \<longleftrightarrow> is_int32 (fs_width s) \<and> is_int32 (fs_height s)"

text \<open>\<open>/\<close> and \<open>%\<close> truncate; on the numbers met here, which are not negative, they are \<open>div\<close> and
  \<open>mod\<close>. The two casts to \<open>int\<close> are of numbers that have only become smaller.\<close>

definition fit_within :: "frame_size \<Rightarrow> frame_size \<Rightarrow> frame_size" where
  "fit_within source bounds =
    (if size_empty source then \<lparr>fs_width = 0, fs_height = 0\<rparr>
     else let bounds = (if size_empty bounds then source else bounds);
              width = fs_width source; height = fs_height source;
              (width, height) =
                (if width > fs_width bounds
                 then (fs_width bounds, to_int32 (to_int64 (height * fs_width bounds) div width))
                 else (width, height));
              (width, height) =
                (if height > fs_height bounds
                 then (to_int32 (to_int64 (width * fs_height bounds) div height), fs_height bounds)
                 else (width, height))
          in \<lparr>fs_width = max 2 (width - width mod 2), fs_height = max 2 (height - height mod 2)\<rparr>)"

section \<open>Bitrates\<close>

definition kBaseMaxBitrateKbps :: int where "kBaseMaxBitrateKbps = 3000"
definition kMaxRecommendedBitrateKbps :: int where "kMaxRecommendedBitrateKbps = 8000"
definition kMinRecommendedBitrateKbps :: int where "kMinRecommendedBitrateKbps = 500"

definition recommended_max_bitrate_kbps :: "frame_size \<Rightarrow> int \<Rightarrow> int" where
  "recommended_max_bitrate_kbps s fps =
    (if size_empty s \<or> fps \<le> 0 then kBaseMaxBitrateKbps
     else let pixels = to_int64 (fs_width s * fs_height s);
              kbps = to_int64 (kBaseMaxBitrateKbps * pixels) div (1280 * 720);
              kbps = to_int64 (kbps * (60 + max 0 (fps - 30))) div 60
          in max kMinRecommendedBitrateKbps (min kbps kMaxRecommendedBitrateKbps))"

record bitrate_range =
  br_min_kbps :: int
  br_max_kbps :: int

definition recommended_bitrate_kbps :: "frame_size \<Rightarrow> int \<Rightarrow> int \<Rightarrow> bitrate_range" where
  "recommended_bitrate_kbps s fps floor_kbps =
    (let lowest = max 1 floor_kbps;
         maximum = max (recommended_max_bitrate_kbps s fps) lowest;
         minimum = max lowest (min (maximum div 2) maximum)
     in \<lparr>br_min_kbps = minimum, br_max_kbps = maximum\<rparr>)"

section \<open>What they promise\<close>

lemma recommended_range:
  "let r = recommended_bitrate_kbps s fps floor_kbps
   in 1 \<le> br_min_kbps r \<and> floor_kbps \<le> br_min_kbps r \<and> br_min_kbps r \<le> br_max_kbps r"
  by (auto simp: recommended_bitrate_kbps_def Let_def)

text \<open>In the ordinary case the range lies between the two limits, and a larger or faster picture never
  gets less.\<close>

lemma recommended_max_bounds:
  "500 \<le> recommended_max_bitrate_kbps s fps \<and> recommended_max_bitrate_kbps s fps \<le> 8000"
  by (simp add: recommended_max_bitrate_kbps_def kBaseMaxBitrateKbps_def
      kMaxRecommendedBitrateKbps_def kMinRecommendedBitrateKbps_def Let_def)

lemma product_int64:
  fixes a b :: int
  assumes "0 \<le> a" "a < 2 ^ 31" "0 \<le> b" "b < 2 ^ 31"
  shows "to_int64 (a * b) = a * b"
proof (rule to_int64_id)
  have "0 \<le> a * b" using assms by simp
  moreover have "a * b \<le> 2 ^ 31 * 2 ^ 31" using assms by (intro mult_mono) auto
  ultimately show "is_int64 (a * b)" by (auto simp: is_int64_def)
qed

text \<open>One side scaled down by a fraction not above one.\<close>

lemma scaled_down:
  fixes x num den :: int
  assumes "0 \<le> x" "x < 2 ^ 31" "0 \<le> num" "num < den" "den < 2 ^ 31"
  shows "to_int32 (to_int64 (x * num) div den) = x * num div den"
    and "0 \<le> x * num div den" "x * num div den \<le> x"
proof -
  show nonneg: "0 \<le> x * num div den" using assms by (simp add: pos_imp_zdiv_nonneg_iff)
  have "x * num \<le> x * den" using assms by (intro mult_left_mono) auto
  then have "x * num div den \<le> x * den div den" using assms by (intro zdiv_mono1) auto
  then show below: "x * num div den \<le> x" using assms by simp
  have "to_int64 (x * num) = x * num" using assms by (intro product_int64) auto
  moreover have "is_int32 (x * num div den)" using nonneg below assms by (simp add: is_int32_def)
  ultimately show "to_int32 (to_int64 (x * num) div den) = x * num div den" by simp
qed

text \<open>The reference: the sides of the picture before they are made even.\<close>

definition fitted :: "frame_size \<Rightarrow> frame_size \<Rightarrow> int \<times> int" where
  "fitted source bounds =
    (let w = fs_width source; h = fs_height source;
         (w, h) = (if w > fs_width bounds then (fs_width bounds, h * fs_width bounds div w) else (w, h))
     in if h > fs_height bounds then (w * fs_height bounds div h, fs_height bounds) else (w, h))"

definition even_side :: "int \<Rightarrow> int" where
  "even_side n = max 2 (n - n mod 2)"

lemma fit_within_fitted:
  assumes "is_size source" "is_size bounds" "\<not> size_empty source" "\<not> size_empty bounds"
  shows "fit_within source bounds
    = \<lparr>fs_width = even_side (fst (fitted source bounds)), fs_height = even_side (snd (fitted source bounds))\<rparr>"
  using assms
  by (auto simp: fit_within_def fitted_def even_side_def size_empty_def is_size_def is_int32_def
      Let_def scaled_down(1) scaled_down(1)[OF _ _ _ _ order.strict_trans1[OF scaled_down(3)]])


lemma fitted_inside:
  assumes "is_size source" "is_size bounds" "\<not> size_empty source" "\<not> size_empty bounds"
  shows "0 \<le> fst (fitted source bounds)" "fst (fitted source bounds) \<le> min (fs_width source) (fs_width bounds)"
    and "0 \<le> snd (fitted source bounds)" "snd (fitted source bounds) \<le> min (fs_height source) (fs_height bounds)"
proof -
  let ?w = "fs_width source" and ?h = "fs_height source"
  let ?bw = "fs_width bounds" and ?bh = "fs_height bounds"
  have pos: "0 < ?w" "0 < ?h" "0 < ?bw" "0 < ?bh" and small: "?w < 2 ^ 31" "?h < 2 ^ 31"
    using assms by (auto simp: size_empty_def is_size_def is_int32_def)
  have step: "0 \<le> x * num div den \<and> x * num div den \<le> x"
    if "0 \<le> x" "x < 2 ^ 31" "0 \<le> num" "num < den" "den < 2 ^ 31" for x num den :: int
    using scaled_down(2,3) that by blast
  define w1 where "w1 = min ?w ?bw"
  define h1 where "h1 = (if ?w > ?bw then ?h * ?bw div ?w else ?h)"
  have h1: "0 \<le> h1" "h1 \<le> ?h" using step [of ?h ?bw ?w] pos small by (auto simp: h1_def)
  have w1: "0 \<le> w1" "w1 \<le> ?w" "w1 \<le> ?bw" "w1 < 2 ^ 31" using pos small by (auto simp: w1_def)
  have "fitted source bounds = (if h1 > ?bh then (w1 * ?bh div h1, ?bh) else (w1, h1))"
    by (auto simp: fitted_def w1_def h1_def Let_def)
  then show "0 \<le> fst (fitted source bounds)" "fst (fitted source bounds) \<le> min ?w ?bw"
    "0 \<le> snd (fitted source bounds)" "snd (fitted source bounds) \<le> min ?h ?bh"
    using step [of w1 ?bh h1] w1 h1 pos small by (auto split: if_splits)
qed

lemma even_side: "even (even_side n)" "2 \<le> even_side n" "n \<le> m \<Longrightarrow> even_side n \<le> max 2 m"
  by (auto simp: even_side_def max_def even_iff_mod_2_eq_zero)

lemma even_side_id: "even n \<Longrightarrow> 0 < n \<Longrightarrow> even_side n = n"
  by (auto simp: even_side_def even_iff_mod_2_eq_zero) presburger?

text \<open>A screen is fitted inside the ceiling. Whatever the monitor and the box, the size sent has two
  even sides, so that every two by two block has its chroma sample, is inside the box and never larger
  than the monitor - but for a side of one pixel, which becomes two - and a monitor of even sides that
  fits the box is sent as it is.\<close>

lemma fit_within_inside:
  assumes "is_size source" "is_size bounds" "\<not> size_empty source" "\<not> size_empty bounds"
  shows "let s = fit_within source bounds
    in even (fs_width s) \<and> even (fs_height s) \<and> 2 \<le> fs_width s \<and> 2 \<le> fs_height s
      \<and> fs_width s \<le> max 2 (min (fs_width source) (fs_width bounds))
      \<and> fs_height s \<le> max 2 (min (fs_height source) (fs_height bounds))
      \<and> (even (fs_width source) \<and> even (fs_height source) \<and> fs_width source \<le> fs_width bounds
          \<and> fs_height source \<le> fs_height bounds \<longrightarrow> s = source)"
proof -
  have "fitted source bounds = (fs_width source, fs_height source)"
    if "fs_width source \<le> fs_width bounds" "fs_height source \<le> fs_height bounds"
    using that by (simp add: fitted_def)
  then show ?thesis
    using fitted_inside [OF assms] assms(3)
    by (simp add: fit_within_fitted [OF assms] Let_def even_side even_side_id size_empty_def)
qed

lemma fit_within_inside_witness:
  "fit_within \<lparr>fs_width = 1366, fs_height = 768\<rparr> \<lparr>fs_width = 1280, fs_height = 720\<rparr>
     = \<lparr>fs_width = 1280, fs_height = 718\<rparr>
   \<and> even (fs_width (fit_within \<lparr>fs_width = 1366, fs_height = 768\<rparr> \<lparr>fs_width = 1280, fs_height = 720\<rparr>))"
  using fit_within_inside [of "\<lparr>fs_width = 1366, fs_height = 768\<rparr>" "\<lparr>fs_width = 1280, fs_height = 720\<rparr>"]
  by (simp add: is_size_def is_int32_def size_empty_def Let_def)
    (simp add: fit_within_def size_empty_def to_int64_def to_int32_def)

end
