(* ===== verification/SignalingClient.thy ===== *)
theory SignalingClient
  imports Protocol
begin

text \<open>
  The client's end of the signaling connection, \<open>client/src/network/signaling_client.{hpp,cpp}\<close>: one
  socket at a time, retried with a growing delay when it drops, heartbeats answered, round trips
  measured.

  The socket is libdatachannel's \<open>rtc::WebSocket\<close>, which is not part of the repository: sockets are
  numbered as they are made, whether one is open when a frame is sent is an argument, and what arrives
  on one arrives through the callbacks attached to it until they are reset. Handlers run inside the
  call that reaches them, always as its last act, so an operation returns what it told them in order,
  beside the state. The thread that retries works in two steps, because it lets go of its lock between
  deciding that a retry is due and making it; every other call is one step.
\<close>

section \<open>State\<close>

datatype signaling_state = Sg_Disconnected | Sg_Connecting | Sg_Connected | Sg_Failed | Sg_Reconnecting

record signaling_options =
  go_url :: string
  go_auto_reconnect :: bool
  go_initial_delay :: int
  go_max_delay :: int
  go_max_attempts :: int

definition default_signaling_options :: "string \<Rightarrow> signaling_options" where
  "default_signaling_options url = \<lparr>go_url = url, go_auto_reconnect = True, go_initial_delay = 500,
     go_max_delay = 30000, go_max_attempts = 0\<rparr>"

record signaling_client =
  sg_options :: signaling_options
  sg_url :: string
  sg_next_url :: string
  sg_probe_nonce :: string
  sg_probe_sent_at :: time
  sg_round_trip :: "int option"
  sg_probes_sent :: nat
  sg_socket :: "nat option"
  sg_state :: signaling_state
  sg_pings_answered :: nat
  sg_reconnects :: nat
  sg_retry_thread :: bool
  sg_wanted :: bool
  sg_attempts :: int
  sg_retry_at :: "time option"
  sg_retry_under_way :: bool
  sg_sockets :: nat
  sg_attached :: "(nat \<times> string) list"

text \<open>The last three say where the retry thread is, how many sockets were made and which of them
  still have callbacks, each with the address its callbacks captured.\<close>

definition new_signaling_client :: "signaling_options \<Rightarrow> signaling_client" where
  "new_signaling_client options = \<lparr>sg_options = options, sg_url = go_url options,
     sg_next_url = go_url options, sg_probe_nonce = [], sg_probe_sent_at = 0, sg_round_trip = None,
     sg_probes_sent = 0, sg_socket = None, sg_state = Sg_Disconnected, sg_pings_answered = 0,
     sg_reconnects = 0, sg_retry_thread = False, sg_wanted = False, sg_attempts = 0,
     sg_retry_at = None, sg_retry_under_way = False, sg_sockets = 0, sg_attached = []\<rparr>"

text \<open>What a call does to the world: sockets opened and closed, frames sent, handlers run.\<close>

datatype signaling_output =
    SocketOpens nat string
  | SocketCloses nat
  | FrameSent nat message
  | StateTold signaling_state string
  | MessageTold message
  | RoundTripTold int

section \<open>Helpers\<close>

fun find_slash_after_scheme :: "string \<Rightarrow> bool option" where
  "find_slash_after_scheme s =
     (if s = [] then None
      else if take 3 s = ''://'' then Some (CHR ''/'' \<in> set (drop 3 s))
      else find_slash_after_scheme (tl s))"

declare find_slash_after_scheme.simps [simp del]

text \<open>\<open>find("://")\<close>, then \<open>find('/')\<close> from behind it.\<close>

definition normalize_url :: "string \<Rightarrow> string" where
  "normalize_url url = (case find_slash_after_scheme url of
     None \<Rightarrow> url | Some slash \<Rightarrow> if slash then url else url @ ''/'')"

text \<open>The loop of \<open>reconnect_delay\<close>, which doubles \<open>n\<close> times or stops at the ceiling.\<close>

fun double_delay :: "nat \<Rightarrow> int \<Rightarrow> int \<Rightarrow> int" where
  "double_delay 0 ceiling delay = min delay ceiling"
| "double_delay (Suc n) ceiling delay =
     (if delay \<ge> trunc_div ceiling 2 then ceiling else double_delay n ceiling (delay * 2))"

definition reconnect_delay :: "int \<Rightarrow> signaling_options \<Rightarrow> int" where
  "reconnect_delay attempt options =
     (if attempt \<le> 1 then go_initial_delay options
      else double_delay (nat (attempt - 1)) (go_max_delay options) (go_initial_delay options))"

type_synonym signaling_effect = "signaling_client \<times> signaling_output list"

definition sg_set_state :: "signaling_state \<Rightarrow> string \<Rightarrow> signaling_client \<Rightarrow> signaling_effect" where
  "sg_set_state st detail g =
     (if sg_state g = st then (g, []) else (g\<lparr>sg_state := st\<rparr>, [StateTold st detail]))"

definition forget_round_trip :: "signaling_client \<Rightarrow> signaling_client" where
  "forget_round_trip g = g\<lparr>sg_probe_nonce := [], sg_round_trip := None\<rparr>"

definition sg_is_connected :: "signaling_client \<Rightarrow> bool" where
  "sg_is_connected g \<longleftrightarrow> sg_state g = Sg_Connected"

definition is_attempting :: "signaling_client \<Rightarrow> bool" where
  "is_attempting g \<longleftrightarrow> sg_state g = Sg_Connecting \<and> sg_attempts g = 0"

definition set_url :: "string \<Rightarrow> signaling_client \<Rightarrow> signaling_client" where
  "set_url url g = g\<lparr>sg_next_url := url\<rparr>"

text \<open>\<open>resetCallbacks\<close>: nothing arrives from this socket any more.\<close>

definition detach :: "nat \<Rightarrow> signaling_client \<Rightarrow> signaling_client" where
  "detach n g = g\<lparr>sg_attached := filter (\<lambda>k. fst k \<noteq> n) (sg_attached g)\<rparr>"

section \<open>Sending\<close>

text \<open>\<open>open\<close> is what \<open>isOpen\<close> answers of the socket in hand.\<close>

definition sg_send :: "bool \<Rightarrow> message \<Rightarrow> signaling_client \<Rightarrow> unit result \<times> signaling_output list" where
  "sg_send is_open m g = (case sg_socket g of
     Some n \<Rightarrow>
       if is_open then (Inr (), [FrameSent n m])
       else (Inl (mk_error ''not_connected'' (''cannot send '' @ type_name (type_of m)
              @ '': the signaling connection is not open'')), [])
   | None \<Rightarrow> (Inl (mk_error ''not_connected'' (''cannot send '' @ type_name (type_of m)
              @ '': the signaling connection is not open'')), []))"

definition probe :: "bool \<Rightarrow> time \<Rightarrow> signaling_client \<Rightarrow> unit result \<times> signaling_effect" where
  "probe is_open now g =
     (if sg_socket g = None
      then (Inl (mk_error ''not_connected'' ''there is no signaling connection''), g, [])
      else let nonce = ''probe-'' @ to_string_nat (sg_probes_sent g + 1);
               g = g\<lparr>sg_probes_sent := sg_probes_sent g + 1, sg_probe_nonce := nonce,
                     sg_probe_sent_at := now\<rparr>;
               (result, out) = sg_send is_open (Ping nonce) g
           in (result, g, out))"

section \<open>Connecting\<close>

definition open_socket :: "signaling_client \<Rightarrow> signaling_effect" where
  "open_socket g =
     (let n = sg_sockets g;
          g = g\<lparr>sg_sockets := n + 1, sg_socket := Some n, sg_attached := (n, sg_url g) # sg_attached g,
                sg_probe_nonce := [], sg_round_trip := None\<rparr>;
          (g, told) = sg_set_state Sg_Connecting (sg_url g) g
      in (g, told @ [SocketOpens n (normalize_url (sg_url g))]))"

definition starts_with_ws :: "string \<Rightarrow> bool" where
  "starts_with_ws url \<longleftrightarrow> take 5 url = ''ws://'' \<or> take 6 url = ''wss://''"

definition sg_connect :: "signaling_client \<Rightarrow> unit result \<times> signaling_effect" where
  "sg_connect g =
     (if sg_socket g \<noteq> None
      then (Inl (mk_error ''already_connected'' ''disconnect() before connecting again''), g, [])
      else if sg_next_url g = []
      then (Inl (mk_error ''invalid_value'' ''the signaling URL is empty''), g, [])
      else if \<not> starts_with_ws (sg_next_url g)
      then (Inl (mk_error ''invalid_value''
              (''the signaling URL must start with ws:// or wss://: '' @ sg_next_url g)), g, [])
      else let g = g\<lparr>sg_url := sg_next_url g, sg_wanted := True, sg_attempts := 0,
                     sg_retry_thread := sg_retry_thread g \<or> go_auto_reconnect (sg_options g)\<rparr>
           in (Inr (), open_socket g))"

definition sg_disconnect :: "signaling_client \<Rightarrow> signaling_effect" where
  "sg_disconnect g =
     (let g = g\<lparr>sg_wanted := False, sg_retry_at := None\<rparr>;
          socket = sg_socket g;
          g = g\<lparr>sg_socket := None, sg_probe_nonce := [], sg_round_trip := None\<rparr>;
          (g, told) = sg_set_state Sg_Disconnected ''closed by the client'' g
      in case socket of
           None \<Rightarrow> (g, told)
         | Some n \<Rightarrow> (detach n g, told @ [SocketCloses n]))"

section \<open>What arrives\<close>

definition on_open :: "string \<Rightarrow> signaling_client \<Rightarrow> signaling_effect" where
  "on_open url g = sg_set_state Sg_Connected url
     (g\<lparr>sg_reconnects := sg_reconnects g + (if sg_attempts g > 0 then 1 else 0), sg_attempts := 0\<rparr>)"

definition handle_drop :: "string \<Rightarrow> time \<Rightarrow> signaling_client \<Rightarrow> signaling_effect" where
  "handle_drop detail now g =
     (if sg_state g = Sg_Disconnected then (g, [])
      else let g = forget_round_trip g
           in if sg_wanted g \<and> go_auto_reconnect (sg_options g)
                 \<and> (go_max_attempts (sg_options g) \<le> 0 \<or> sg_attempts g < go_max_attempts (sg_options g))
              then let wait = reconnect_delay (sg_attempts g + 1) (sg_options g)
                   in sg_set_state Sg_Reconnecting
                        (detail @ '', retrying in '' @ to_string_int wait @ '' ms'')
                        (g\<lparr>sg_attempts := sg_attempts g + 1, sg_retry_at := Some (now + milliseconds wait)\<rparr>)
              else sg_set_state Sg_Failed detail g)"

text \<open>\<open>std::get_if\<close> on the two messages of the heartbeat.\<close>

definition get_if_ping :: "message \<Rightarrow> string option" where
  "get_if_ping m = (case m of Ping nonce \<Rightarrow> Some nonce | _ \<Rightarrow> None)"

definition get_if_pong :: "message \<Rightarrow> string option" where
  "get_if_pong m = (case m of Pong nonce \<Rightarrow> Some nonce | _ \<Rightarrow> None)"

text \<open>From what \<open>protocol::parse\<close> answered of the payload.\<close>

definition handle_payload ::
    "bool \<Rightarrow> time \<Rightarrow> message result \<Rightarrow> signaling_client \<Rightarrow> signaling_effect" where
  "handle_payload is_open now parsed g = (case parsed of
     Inl _ \<Rightarrow> (g, [])
   | Inr m \<Rightarrow> (case get_if_ping m of
       Some nonce \<Rightarrow>
         (case sg_send is_open (Pong nonce) g of
            (Inl _, out) \<Rightarrow> (g, out)
          | (Inr _, out) \<Rightarrow> (g\<lparr>sg_pings_answered := sg_pings_answered g + 1\<rparr>, out))
     | None \<Rightarrow>
         if sg_probe_nonce g \<noteq> [] \<and> get_if_pong m = Some (sg_probe_nonce g)
         then let measured = trunc_div (now - sg_probe_sent_at g) 1000000
              in (g\<lparr>sg_round_trip := Some measured, sg_probe_nonce := []\<rparr>, [RoundTripTold measured])
         else (g, [MessageTold m])))"

section \<open>The retry thread\<close>

text \<open>The first half of a turn of \<open>reconnect_loop\<close>, under its lock: the wait timed out, nobody changed
  the schedule, and the retry is taken off it.\<close>

definition retry_due :: "time \<Rightarrow> signaling_client \<Rightarrow> signaling_client" where
  "retry_due now g = (case sg_retry_at g of
     Some due \<Rightarrow>
       if sg_retry_thread g \<and> \<not> sg_retry_under_way g \<and> due \<le> now \<and> sg_wanted g
       then g\<lparr>sg_retry_at := None, sg_retry_under_way := True\<rparr> else g
   | None \<Rightarrow> g)"

text \<open>The second half, with the lock let go: the old socket is dropped and a new one opened.\<close>

definition retry_run :: "signaling_client \<Rightarrow> signaling_effect" where
  "retry_run g =
     (if \<not> sg_retry_under_way g then (g, [])
      else let old = sg_socket g;
               g = g\<lparr>sg_retry_under_way := False, sg_socket := None\<rparr>;
               g = (case old of None \<Rightarrow> g | Some n \<Rightarrow> detach n g)
           in open_socket g)"

section \<open>Runs\<close>

datatype signaling_event =
    SocketOpen nat
  | SocketClosed nat time
  | SocketError nat string time
  | SocketBinary nat
  | SocketText nat bool time "message result"
  | RetryDue time
  | RetryRun

text \<open>A callback runs only while it is attached.\<close>

fun signaling_step :: "signaling_event \<Rightarrow> signaling_client \<Rightarrow> signaling_effect" where
  "signaling_step (SocketOpen n) g = (case map_of (sg_attached g) n of
     Some url \<Rightarrow> on_open url g | None \<Rightarrow> (g, []))"
| "signaling_step (SocketClosed n now) g = (case map_of (sg_attached g) n of
     Some _ \<Rightarrow> handle_drop ''the connection was closed by the peer'' now g | None \<Rightarrow> (g, []))"
| "signaling_step (SocketError n what now) g = (case map_of (sg_attached g) n of
     Some _ \<Rightarrow> handle_drop what now g | None \<Rightarrow> (g, []))"
| "signaling_step (SocketBinary n) g = (g, [])"
| "signaling_step (SocketText n is_open now parsed) g = (case map_of (sg_attached g) n of
     Some _ \<Rightarrow> handle_payload is_open now parsed g | None \<Rightarrow> (g, []))"
| "signaling_step (RetryDue now) g = (retry_due now g, [])"
| "signaling_step RetryRun g = retry_run g"

text \<open>The calls the layer above makes, beside what happens around them.\<close>

datatype signaling_call =
    SgConnect
  | SgDisconnect
  | SgSend bool message
  | SgProbe bool time
  | SgSetUrl string
  | SgEvent signaling_event

fun signaling_call_step :: "signaling_call \<Rightarrow> signaling_client \<Rightarrow> signaling_effect" where
  "signaling_call_step SgConnect g = snd (sg_connect g)"
| "signaling_call_step SgDisconnect g = sg_disconnect g"
| "signaling_call_step (SgSend is_open m) g = (g, snd (sg_send is_open m g))"
| "signaling_call_step (SgProbe is_open now) g = snd (probe is_open now g)"
| "signaling_call_step (SgSetUrl url) g = (set_url url g, [])"
| "signaling_call_step (SgEvent ev) g = signaling_step ev g"

fun signaling_run :: "signaling_call list \<Rightarrow> signaling_client \<Rightarrow> signaling_effect" where
  "signaling_run [] g = (g, [])"
| "signaling_run (c # cs) g =
     (let (g, out) = signaling_call_step c g; (g, more) = signaling_run cs g in (g, out @ more))"

end
