(* ===== verification/CallSession.thy ===== *)
theory CallSession
  imports ScreenQuality SignalingClient
    "HOL-Library.Char_ord" "HOL-Library.List_Lexorder" "HOL-Library.Product_Lexorder" Complex_Main
begin

text \<open>
  One call of the desktop client, \<open>client/src/app/call_session.{hpp,cpp}\<close>: the state, the helpers every
  operation is made of, and the requests the interface makes. What arrives is in \<open>CallSignals\<close>.

  The media layer is reached through the interface \<open>media::MediaSession\<close>, whose implementation is
  libwebrtc and not modelled: sessions are numbered as they are created, every call on one is written to
  the log, and what a call answers is asked of the environment, which may answer from everything that
  happened before. The log is what the session does, in order: frames sent and refused, sockets, media
  calls, and what the interface is told, whether or not a handler is installed to hear it. A request or an
  event is one step: the lock is let go between its parts, but what they share with other threads they
  copied under it.
\<close>

section \<open>The media layer\<close>

datatype noise_suppression_level = NS_Low | NS_Moderate | NS_High | NS_VeryHigh
datatype voice_gate_level = VG_Low | VG_Moderate | VG_High | VG_VeryHigh

definition noise_suppression_name :: "noise_suppression_level \<Rightarrow> string" where
  "noise_suppression_name level = (case level of
     NS_Low \<Rightarrow> ''low'' | NS_Moderate \<Rightarrow> ''moderate'' | NS_High \<Rightarrow> ''high'' | NS_VeryHigh \<Rightarrow> ''very_high'')"

definition parse_noise_suppression_level :: "string \<Rightarrow> noise_suppression_level option" where
  "parse_noise_suppression_level t =
     List.find (\<lambda>level. t = noise_suppression_name level) [NS_Low, NS_Moderate, NS_High, NS_VeryHigh]"

definition voice_gate_name :: "voice_gate_level \<Rightarrow> string" where
  "voice_gate_name level = (case level of
     VG_Low \<Rightarrow> ''low'' | VG_Moderate \<Rightarrow> ''moderate'' | VG_High \<Rightarrow> ''high'' | VG_VeryHigh \<Rightarrow> ''very_high'')"

definition parse_voice_gate_level :: "string \<Rightarrow> voice_gate_level option" where
  "parse_voice_gate_level t =
     List.find (\<lambda>level. t = voice_gate_name level) [VG_Low, VG_Moderate, VG_High, VG_VeryHigh]"

lemma level_names:
  "parse_noise_suppression_level (noise_suppression_name l) = Some l"
  "parse_voice_gate_level (voice_gate_name v) = Some v"
  by (cases l; simp add: parse_noise_suppression_level_def noise_suppression_name_def)
    (cases v; simp add: parse_voice_gate_level_def voice_gate_name_def)

record capture_options =
  ca_max_size :: frame_size
  ca_max_fps :: int

definition default_capture :: capture_options where
  "default_capture = \<lparr>ca_max_size = \<lparr>fs_width = 1280, fs_height = 720\<rparr>, ca_max_fps = 30\<rparr>"

record media_options =
  mo_ice_servers :: "string list"
  mo_turn_username :: string
  mo_turn_password :: string
  mo_sample_rate_hz :: int
  mo_channels :: int
  mo_frame_duration_ms :: int
  mo_echo_cancellation :: bool
  mo_noise_suppression :: bool
  mo_noise_suppression_level :: noise_suppression_level
  mo_automatic_gain_control :: bool
  mo_voice_gate :: bool
  mo_voice_gate_level :: voice_gate_level
  mo_screen_audio_volume_percent :: int
  mo_screen_audio_limiter :: bool
  mo_capture :: capture_options
  mo_video_min_bitrate_kbps :: int
  mo_video_max_bitrate_kbps :: int
  mo_video_floor_bitrate_kbps :: int
  mo_input_device :: string
  mo_output_device :: string

definition default_media_options :: media_options where
  "default_media_options = \<lparr>mo_ice_servers = [], mo_turn_username = [], mo_turn_password = [],
     mo_sample_rate_hz = 48000, mo_channels = 1, mo_frame_duration_ms = 20,
     mo_echo_cancellation = True, mo_noise_suppression = True, mo_noise_suppression_level = NS_High,
     mo_automatic_gain_control = True, mo_voice_gate = True, mo_voice_gate_level = VG_Moderate,
     mo_screen_audio_volume_percent = 100, mo_screen_audio_limiter = True,
     mo_capture = default_capture, mo_video_min_bitrate_kbps = 1500, mo_video_max_bitrate_kbps = 3000,
     mo_video_floor_bitrate_kbps = 300, mo_input_device = [], mo_output_device = []\<rparr>"

datatype loopback_mode = LoopbackSystem | LoopbackProcess

datatype media_state =
  MediaNew | MediaConnecting | MediaConnected | MediaDisconnected | MediaFailed | MediaClosed

record audio_level =
  al_user_id :: string
  al_level :: real
  al_speaking :: bool

record video_frame =
  vf_size :: frame_size
  vf_pixels :: "8 word list"

datatype media_request =
    ApplyRemoteOffer string
  | AddRemoteCandidate string string int
  | SetMicrophoneMuted bool
  | SetParticipantVolume string real
  | SetInputDevice string
  | SetOutputDevice string
  | StartScreenShare string
  | StopScreenShare
  | StartScreenAudio loopback_mode nat
  | StopScreenAudio
  | SetScreenAudioVolume int
  | SetAudioProcessing bool bool bool noise_suppression_level
  | SetVoiceGate bool voice_gate_level
  | SetVideoBitrate int int
  | SetCaptureOptions capture_options
  | CloseMedia

section \<open>State\<close>

datatype screen_audio_mode = AudioNone | AudioSystem | AudioApplication

definition screen_audio_mode_name :: "screen_audio_mode \<Rightarrow> string" where
  "screen_audio_mode_name mode = (case mode of
     AudioNone \<Rightarrow> ''none'' | AudioSystem \<Rightarrow> ''system'' | AudioApplication \<Rightarrow> ''process'')"

definition screen_audio_mode_from :: "string \<Rightarrow> screen_audio_mode" where
  "screen_audio_mode_from name =
     (if name = ''system'' then AudioSystem else if name = ''process'' then AudioApplication else AudioNone)"

lemma screen_audio_mode_from_name [simp]: "screen_audio_mode_from (screen_audio_mode_name m) = m"
  by (cases m) (simp_all add: screen_audio_mode_from_def screen_audio_mode_name_def)

record screen_audio =
  san_mode :: screen_audio_mode
  san_source_id :: nat

record call_participant =
  cp_user :: user
  cp_muted :: bool
  cp_sharing_screen :: bool
  cp_sharing_audio :: bool
  cp_audio_active :: bool
  cp_level :: real
  cp_speaking :: bool

definition new_call_participant :: call_participant where
  "new_call_participant = \<lparr>cp_user = default_user, cp_muted = False, cp_sharing_screen = False,
     cp_sharing_audio = False, cp_audio_active = False, cp_level = 0, cp_speaking = False\<rparr>"

datatype call_state = CallIdle | CallConnecting | CallAuthenticated | InCall | CallFailed

record call_options =
  co_media :: media_options
  co_auto_bitrate :: bool
  co_screen_audio_mode :: screen_audio_mode

text \<open>What the interface is told.\<close>

datatype told =
    TellState call_state string
  | TellLink "int option" bool bool
  | TellParticipants "call_participant list"
  | TellMetrics nat
  | TellLocalLevel real bool
  | TellError error
  | TellRemoteVideo video_frame
  | TellScreenShare string
  | TellChatMessage chat_message
  | TellChatHistory "chat_message list"
  | TellNudge string string
  | TellPasswordChanged
  | TellSessionEnded string
  | TellNotice notice
  | TellNoticeSent notice
  | TellUserList "user_summary list"
  | TellRoomList "room_summary list"
  | TellAuditList "audit_entry list"
  | TellSessionList "session_summary list"
  | TellKicked string
  | TellForcedMute string string bool
  | TellRestrictions string restrictions string string
  | TellRoomCreated string

datatype call_output =
    Wire signaling_output
  | Unsent message
  | MediaCreated nat media_options
  | Media nat media_request
  | Told told

record call_session =
  cs_options :: call_options
  cs_signaling :: signaling_client
  cs_audio :: "nat option"
  cs_state :: call_state
  cs_user :: user
  cs_room :: string
  cs_muted :: bool
  cs_screen_sharer :: string
  cs_screen_audio_failure :: error
  cs_participants :: "(string, call_participant) hash_map"
  cs_volumes :: "(string, real) hash_map"
  cs_pending_username :: string
  cs_pending_password :: string
  cs_display_name :: string
  cs_running :: bool
  cs_sessions :: nat
  cs_log :: "call_output list"

text \<open>The last two are how many media sessions were created and the log.\<close>

definition new_call_session :: "call_options \<Rightarrow> string \<Rightarrow> call_session" where
  "new_call_session options url = \<lparr>cs_options = options,
     cs_signaling = new_signaling_client (default_signaling_options url), cs_audio = None,
     cs_state = CallIdle, cs_user = default_user, cs_room = [], cs_muted = False,
     cs_screen_sharer = [], cs_screen_audio_failure = mk_error [] [], cs_participants = [],
     cs_volumes = [], cs_pending_username = [], cs_pending_password = [], cs_display_name = [],
     cs_running = False, cs_sessions = 0, cs_log = []\<rparr>"

record call_environment =
  ce_is_open :: "call_output list \<Rightarrow> bool"
  ce_now :: "call_output list \<Rightarrow> time"
  ce_answer :: "call_output list \<Rightarrow> nat \<Rightarrow> media_request \<Rightarrow> error option"
  ce_factory :: "call_output list \<Rightarrow> media_options \<Rightarrow> error option"

section \<open>Helpers\<close>

definition jot :: "call_output list \<Rightarrow> call_session \<Rightarrow> call_session" where
  "jot out S = S\<lparr>cs_log := cs_log S @ out\<rparr>"

definition tell :: "told \<Rightarrow> call_session \<Rightarrow> call_session" where
  "tell t S = jot [Told t] S"

definition in_media :: "(media_options \<Rightarrow> media_options) \<Rightarrow> call_session \<Rightarrow> call_session" where
  "in_media f S = S\<lparr>cs_options := (cs_options S)\<lparr>co_media := f (co_media (cs_options S))\<rparr>\<rparr>"

definition cs_send :: "call_environment \<Rightarrow> message \<Rightarrow> call_session \<Rightarrow> unit result \<times> call_session" where
  "cs_send E m S =
     (let (r, out) = sg_send (ce_is_open E (cs_log S)) m (cs_signaling S)
      in (r, jot (if result_ok r then map Wire out else [Unsent m]) S))"

text \<open>A call on the media session; those that return nothing answer nothing.\<close>

definition media :: "call_environment \<Rightarrow> nat \<Rightarrow> media_request \<Rightarrow> call_session \<Rightarrow> unit result \<times> call_session" where
  "media E i call S =
     (case ce_answer E (cs_log S) i call of
        Some e \<Rightarrow> (Inl e, jot [Media i call] S)
      | None \<Rightarrow> (Inr (), jot [Media i call] S))"

definition media_void :: "nat \<Rightarrow> media_request \<Rightarrow> call_session \<Rightarrow> call_session" where
  "media_void i call S = jot [Media i call] S"

definition media_void_if :: "nat option \<Rightarrow> media_request \<Rightarrow> call_session \<Rightarrow> call_session" where
  "media_void_if session call S = (case session of None \<Rightarrow> S | Some i \<Rightarrow> media_void i call S)"

definition media_if ::
    "call_environment \<Rightarrow> nat option \<Rightarrow> media_request \<Rightarrow> call_session \<Rightarrow> unit result \<times> call_session" where
  "media_if E session call S = (case session of None \<Rightarrow> (Inr (), S) | Some i \<Rightarrow> media E i call S)"

definition sorted_participants :: "(string, call_participant) hash_map \<Rightarrow> call_participant list" where
  "sorted_participants ps =
     sort_key (\<lambda>p. (u_display_name (cp_user p), u_id (cp_user p))) (map snd ps)"

definition cs_set_state :: "call_state \<Rightarrow> string \<Rightarrow> call_session \<Rightarrow> call_session" where
  "cs_set_state st detail S =
     (if cs_state S = st then S else tell (TellState st detail) (S\<lparr>cs_state := st\<rparr>))"

definition publish_participants :: "call_session \<Rightarrow> call_session" where
  "publish_participants S = tell (TellParticipants (sorted_participants (cs_participants S))) S"

definition report :: "error \<Rightarrow> call_session \<Rightarrow> call_session" where
  "report e S = tell (TellError e) S"

definition report_failure :: "unit result \<times> call_session \<Rightarrow> call_session" where
  "report_failure rS = (case rS of (Inl e, S) \<Rightarrow> report e S | (Inr _, S) \<Rightarrow> S)"

definition report_link :: "call_session \<Rightarrow> call_session" where
  "report_link S = tell (TellLink (sg_round_trip (cs_signaling S)) (sg_is_connected (cs_signaling S))
     (is_attempting (cs_signaling S))) S"

type_synonym outcome = "unit result \<times> call_session"

definition refuse :: "string \<Rightarrow> string \<Rightarrow> call_session \<Rightarrow> outcome" where
  "refuse code reason S = (Inl (mk_error code reason), S)"

definition cs_not_in_room :: "call_session \<Rightarrow> outcome" where
  "cs_not_in_room S = refuse ''not_in_room'' ''this session is not in a room'' S"

section \<open>Rooms\<close>

definition cs_create_room :: "call_environment \<Rightarrow> string \<Rightarrow> bool \<Rightarrow> int \<Rightarrow> call_session \<Rightarrow> outcome" where
  "cs_create_room E room_name persistent capacity S =
     (if u_id (cs_user S) = [] then refuse ''unauthorized'' ''authenticate before creating a room'' S
      else cs_send E (CreateRoom (u_id (cs_user S)) room_name persistent capacity) S)"

definition cs_change_password :: "call_environment \<Rightarrow> string \<Rightarrow> string \<Rightarrow> call_session \<Rightarrow> outcome" where
  "cs_change_password E current_password new_password S =
     (if u_id (cs_user S) = [] then refuse ''unauthorized'' ''authenticate before changing a password'' S
      else cs_send E (ChangePassword current_password new_password) S)"

definition cs_join :: "call_environment \<Rightarrow> string \<Rightarrow> string \<Rightarrow> call_session \<Rightarrow> outcome" where
  "cs_join E room display_name S =
     (let S = S\<lparr>cs_room := room, cs_display_name := display_name\<rparr>
      in if u_id (cs_user S) = [] then refuse ''unauthorized'' ''authenticate before joining a room'' S
         else cs_send E (JoinRoom room (u_id (cs_user S)) display_name) S)"

definition cs_leave :: "call_environment \<Rightarrow> call_session \<Rightarrow> outcome" where
  "cs_leave E S =
     (let user_id = u_id (cs_user S); room = cs_room S; session = cs_audio S;
          S = S\<lparr>cs_room := [], cs_participants := [], cs_muted := False, cs_audio := None\<rparr>
      in if room = [] then cs_not_in_room S
         else cs_send E (LeaveRoom room user_id)
                (cs_set_state CallAuthenticated ''left the room''
                  (publish_participants (media_void_if session CloseMedia S))))"

text \<open>\<open>set_muted\<close> in its two halves, so that what another thread does between them can be stated: what
  it copies and writes under the lock, and what it does once the lock is let go.\<close>

definition set_muted_locked ::
    "bool \<Rightarrow> call_session \<Rightarrow> (string \<times> string \<times> nat option \<times> call_session) option" where
  "set_muted_locked muted S =
     (if cs_room S = [] then None
      else Some (u_id (cs_user S), cs_room S, cs_audio S, S\<lparr>cs_muted := muted\<rparr>))"

definition set_muted_rest ::
    "call_environment \<Rightarrow> bool \<Rightarrow> string \<Rightarrow> string \<Rightarrow> nat option \<Rightarrow> call_session \<Rightarrow> outcome" where
  "set_muted_rest E muted user_id room session S =
     (let S = media_void_if session (SetMicrophoneMuted muted) S
      in if muted then cs_send E (Mute room user_id []) S else cs_send E (Unmute room user_id []) S)"

definition cs_set_muted :: "call_environment \<Rightarrow> bool \<Rightarrow> call_session \<Rightarrow> outcome" where
  "cs_set_muted E muted S = (case set_muted_locked muted S of
     None \<Rightarrow> refuse ''not_in_room'' ''there is no room to be muted in'' S
   | Some (user_id, room, session, S) \<Rightarrow> set_muted_rest E muted user_id room session S)"

definition cs_send_chat :: "call_environment \<Rightarrow> string \<Rightarrow> call_session \<Rightarrow> outcome" where
  "cs_send_chat E chat_text S =
     (if cs_room S = [] then cs_not_in_room S
      else if \<not> is_valid_chat_text chat_text
      then refuse ''invalid_value'' (''a message is between 1 and '' @ to_string_nat kMaxChatTextBytes
        @ '' bytes once trimmed'') S
      else cs_send E (ChatMessage \<lparr>cm_id = [], cm_room_id = cs_room S, cm_user_id = u_id (cs_user S),
             cm_display_name = [], cm_text = chat_text, cm_timestamp_seconds = 0\<rparr>) S)"

definition cs_nudge :: "call_environment \<Rightarrow> string \<Rightarrow> call_session \<Rightarrow> outcome" where
  "cs_nudge E user_id S =
     (if cs_room S = [] then cs_not_in_room S
      else if user_id = u_id (cs_user S) then refuse ''invalid_target'' ''you cannot nudge yourself'' S
      else cs_send E (Nudge (cs_room S) (u_id (cs_user S)) user_id) S)"

definition cs_list_chat :: "call_environment \<Rightarrow> int \<Rightarrow> call_session \<Rightarrow> outcome" where
  "cs_list_chat E limit S =
     (if cs_room S = [] then cs_not_in_room S else cs_send E (ListChat (cs_room S) limit) S)"

end
