(* ===== verification/CallControls.thy ===== *)
theory CallControls
  imports CallSession
begin

text \<open>
  The rest of what the interface asks of a call, of \<open>client/src/app/call_session.cpp\<close>: the screen share and
  its sound, the picture's size and bitrate, devices and processing, and what an administrator may send.
\<close>

section \<open>The screen share\<close>

definition start_screen_audio ::
    "call_environment \<Rightarrow> nat \<Rightarrow> screen_audio \<Rightarrow> call_session \<Rightarrow> bool \<times> call_session" where
  "start_screen_audio E i audio S =
     (let S = S\<lparr>cs_screen_audio_failure := mk_error [] []\<rparr>
      in if san_mode audio = AudioNone then (False, S)
         else let mode = (if san_mode audio = AudioApplication then LoopbackProcess else LoopbackSystem)
              in case media E i (StartScreenAudio mode (san_source_id audio)) S of
                   (Inl e, S) \<Rightarrow> (False, S\<lparr>cs_screen_audio_failure := e\<rparr>)
                 | (Inr _, S) \<Rightarrow> (True, S))"

definition cs_start_screen_share ::
    "call_environment \<Rightarrow> string \<Rightarrow> screen_audio \<Rightarrow> call_session \<Rightarrow> outcome" where
  "cs_start_screen_share E source_id audio S =
     (let user_id = u_id (cs_user S); room = cs_room S
      in if cs_screen_sharer S \<noteq> [] \<and> cs_screen_sharer S \<noteq> user_id
         then refuse ''screen_share_busy'' (cs_screen_sharer S @ '' is already sharing a screen in this room'') S
         else if room = [] then refuse ''not_in_room'' ''there is no room to share a screen with'' S
         else case cs_audio S of
           None \<Rightarrow> refuse ''media_unavailable'' ''there is no media session to send a screen on'' S
         | Some i \<Rightarrow> (case media E i (StartScreenShare source_id) S of
             (Inl e, S) \<Rightarrow> (Inl e, S)
           | (Inr _, S) \<Rightarrow>
               (let (with_audio, S) = start_screen_audio E i audio S
                in case cs_send E (ScreenShareStarted room user_id with_audio) S of
                     (Inl e, S) \<Rightarrow> (Inl e, media_void i StopScreenShare (media_void i StopScreenAudio S))
                   | (Inr _, S) \<Rightarrow> (Inr (), S))))"

definition cs_stop_screen_share :: "call_environment \<Rightarrow> call_session \<Rightarrow> outcome" where
  "cs_stop_screen_share E S =
     (let user_id = u_id (cs_user S); room = cs_room S; session = cs_audio S;
          S = media_void_if session StopScreenShare (media_void_if session StopScreenAudio S)
      in if room = [] then (Inr (), S) else cs_send E (ScreenShareStopped room user_id) S)"

section \<open>The picture\<close>

definition cs_set_video_bitrate :: "call_environment \<Rightarrow> int \<Rightarrow> int \<Rightarrow> call_session \<Rightarrow> outcome" where
  "cs_set_video_bitrate E min_kbps max_kbps S =
     (if min_kbps \<le> 0 \<or> max_kbps < min_kbps
      then refuse ''invalid_value''
        ''the bitrate range has to be positive and the maximum at least the minimum'' S
      else if co_auto_bitrate (cs_options S)
      then refuse ''automatic_bitrate''
        ''the bitrate range follows the resolution and frame rate while automatic mode is on'' S
      else let S = in_media (\<lambda>m. m\<lparr>mo_video_min_bitrate_kbps := min_kbps,
                                   mo_video_max_bitrate_kbps := max_kbps\<rparr>) S
           in media_if E (cs_audio S) (SetVideoBitrate min_kbps max_kbps) S)"

text \<open>The range automatic mode works out, written to the options.\<close>

definition use_recommended :: "frame_size \<Rightarrow> int \<Rightarrow> call_session \<Rightarrow> bitrate_range \<times> call_session" where
  "use_recommended s fps S =
     (let range = recommended_bitrate_kbps s fps (mo_video_floor_bitrate_kbps (co_media (cs_options S)))
      in (range, in_media (\<lambda>m. m\<lparr>mo_video_min_bitrate_kbps := br_min_kbps range,
                                 mo_video_max_bitrate_kbps := br_max_kbps range\<rparr>) S))"

definition cs_set_auto_bitrate :: "call_environment \<Rightarrow> bool \<Rightarrow> call_session \<Rightarrow> outcome" where
  "cs_set_auto_bitrate E automatic S =
     (let S = S\<lparr>cs_options := (cs_options S)\<lparr>co_auto_bitrate := automatic\<rparr>\<rparr>
      in if \<not> automatic then (Inr (), S)
         else let capture = mo_capture (co_media (cs_options S));
                  (range, S) = use_recommended (ca_max_size capture) (ca_max_fps capture) S
              in media_if E (cs_audio S) (SetVideoBitrate (br_min_kbps range) (br_max_kbps range)) S)"

definition cs_set_video_quality ::
    "call_environment \<Rightarrow> frame_size \<Rightarrow> int \<Rightarrow> call_session \<Rightarrow> outcome" where
  "cs_set_video_quality E s fps S =
     (if size_empty s \<or> fps < 1
      then refuse ''invalid_value''
        ''a capture size has to be positive and the frame rate at least one'' S
      else let wanted = \<lparr>ca_max_size = s, ca_max_fps = fps\<rparr>; session = cs_audio S
           in case media_if E session (SetCaptureOptions wanted) S of
                (Inl e, S) \<Rightarrow> (Inl e, S)
              | (Inr _, S) \<Rightarrow>
                  (let S = in_media (\<lambda>m. m\<lparr>mo_capture := wanted\<rparr>) S
                   in if \<not> co_auto_bitrate (cs_options S) then (Inr (), S)
                      else let (range, S) = use_recommended s fps S
                           in (Inr (), snd (media_if E session
                                 (SetVideoBitrate (br_min_kbps range) (br_max_kbps range)) S))))"

section \<open>Devices and processing\<close>

definition cs_set_participant_volume ::
    "call_environment \<Rightarrow> string \<Rightarrow> real \<Rightarrow> call_session \<Rightarrow> outcome" where
  "cs_set_participant_volume E user_id volume S =
     (let S = S\<lparr>cs_volumes := AList.update user_id volume (cs_volumes S)\<rparr>
      in media_if E (cs_audio S) (SetParticipantVolume user_id volume) S)"

definition cs_set_input_device :: "call_environment \<Rightarrow> string \<Rightarrow> call_session \<Rightarrow> outcome" where
  "cs_set_input_device E device_id S =
     (let S = in_media (\<lambda>m. m\<lparr>mo_input_device := device_id\<rparr>) S
      in media_if E (cs_audio S) (SetInputDevice device_id) S)"

definition cs_set_output_device :: "call_environment \<Rightarrow> string \<Rightarrow> call_session \<Rightarrow> outcome" where
  "cs_set_output_device E device_id S =
     (let S = in_media (\<lambda>m. m\<lparr>mo_output_device := device_id\<rparr>) S
      in media_if E (cs_audio S) (SetOutputDevice device_id) S)"

definition kMaxScreenVolumePercent :: int where "kMaxScreenVolumePercent = 200"

definition cs_set_screen_audio_volume :: "int \<Rightarrow> call_session \<Rightarrow> outcome" where
  "cs_set_screen_audio_volume percent S =
     (let asked = max 0 (min percent kMaxScreenVolumePercent);
          S = in_media (\<lambda>m. m\<lparr>mo_screen_audio_volume_percent := asked\<rparr>) S
      in (Inr (), media_void_if (cs_audio S) (SetScreenAudioVolume asked) S))"

definition cs_set_audio_processing ::
    "bool \<Rightarrow> bool \<Rightarrow> bool \<Rightarrow> noise_suppression_level \<Rightarrow> call_session \<Rightarrow> outcome" where
  "cs_set_audio_processing echo noise gain level S =
     (let S = in_media (\<lambda>m. m\<lparr>mo_echo_cancellation := echo, mo_noise_suppression := noise,
                              mo_noise_suppression_level := level, mo_automatic_gain_control := gain\<rparr>) S
      in (Inr (), media_void_if (cs_audio S) (SetAudioProcessing echo noise gain level) S))"

definition cs_set_voice_gate :: "bool \<Rightarrow> voice_gate_level \<Rightarrow> call_session \<Rightarrow> outcome" where
  "cs_set_voice_gate on level S =
     (let S = in_media (\<lambda>m. m\<lparr>mo_voice_gate := on, mo_voice_gate_level := level\<rparr>) S
      in (Inr (), media_void_if (cs_audio S) (SetVoiceGate on level) S))"

section \<open>Administration\<close>

definition cs_kick :: "call_environment \<Rightarrow> string \<Rightarrow> string \<Rightarrow> call_session \<Rightarrow> outcome" where
  "cs_kick E user_id reason S =
     (if cs_room S = [] then cs_not_in_room S else cs_send E (KickUser (cs_room S) user_id reason) S)"

definition cs_force_mute :: "call_environment \<Rightarrow> string \<Rightarrow> bool \<Rightarrow> call_session \<Rightarrow> outcome" where
  "cs_force_mute E user_id muted S =
     (if cs_room S = [] then cs_not_in_room S else cs_send E (ForceMute (cs_room S) user_id muted) S)"

definition cs_restrict_user ::
    "call_environment \<Rightarrow> string \<Rightarrow> bool option \<Rightarrow> bool option \<Rightarrow> bool option \<Rightarrow> bool option \<Rightarrow> string \<Rightarrow>
     call_session \<Rightarrow> outcome" where
  "cs_restrict_user E user_id banned muted silenced blocked reason S =
     cs_send E (RestrictUser user_id banned muted silenced blocked reason) S"

definition cs_send_notice :: "call_environment \<Rightarrow> string \<Rightarrow> string \<Rightarrow> call_session \<Rightarrow> outcome" where
  "cs_send_notice E user_id notice_text S =
     (if user_id = [] then refuse ''invalid_value'' ''a notice needs somebody to go to'' S
      else if \<not> is_valid_notice_text notice_text
      then refuse ''invalid_value'' (''a notice must not be empty and must fit in ''
        @ to_string_nat kMaxNoticeTextBytes @ '' bytes'') S
      else cs_send E (SendNotice user_id notice_text) S)"

definition cs_acknowledge_notice :: "call_environment \<Rightarrow> string \<Rightarrow> call_session \<Rightarrow> outcome" where
  "cs_acknowledge_notice E notice_id S =
     (if notice_id = [] then refuse ''invalid_value'' ''a notice has to be named'' S
      else cs_send E (AcknowledgeNotice notice_id) S)"

definition cs_list_users :: "call_environment \<Rightarrow> call_session \<Rightarrow> outcome" where
  "cs_list_users E S = cs_send E ListUsers S"

definition cs_create_user ::
    "call_environment \<Rightarrow> string \<Rightarrow> string \<Rightarrow> string \<Rightarrow> role \<Rightarrow> call_session \<Rightarrow> outcome" where
  "cs_create_user E username password display_name r S =
     cs_send E (CreateUser username password display_name r) S"

definition cs_update_user ::
    "call_environment \<Rightarrow> string \<Rightarrow> role option \<Rightarrow> string option \<Rightarrow> string option \<Rightarrow> call_session \<Rightarrow> outcome" where
  "cs_update_user E user_id r display_name password S =
     cs_send E (UpdateUser user_id r display_name password) S"

definition cs_delete_user :: "call_environment \<Rightarrow> string \<Rightarrow> call_session \<Rightarrow> outcome" where
  "cs_delete_user E user_id S = cs_send E (DeleteUser user_id) S"

definition cs_list_rooms :: "call_environment \<Rightarrow> call_session \<Rightarrow> outcome" where
  "cs_list_rooms E S = cs_send E ListRooms S"

definition cs_delete_room :: "call_environment \<Rightarrow> string \<Rightarrow> call_session \<Rightarrow> outcome" where
  "cs_delete_room E room_id S = cs_send E (DeleteRoom room_id) S"

definition cs_update_room :: "call_environment \<Rightarrow> string \<Rightarrow> int \<Rightarrow> call_session \<Rightarrow> outcome" where
  "cs_update_room E room_id capacity S =
     (if \<not> is_valid_room_capacity capacity
      then refuse ''invalid_value'' (''a room holds between '' @ to_string_int kMinRoomCapacity
        @ '' and '' @ to_string_int kMaxRoomCapacity @ '' people'') S
      else cs_send E (UpdateRoom room_id capacity) S)"

definition cs_list_audit :: "call_environment \<Rightarrow> int \<Rightarrow> string \<Rightarrow> call_session \<Rightarrow> outcome" where
  "cs_list_audit E limit actor_id S = cs_send E (ListAudit limit actor_id) S"

definition cs_list_sessions :: "call_environment \<Rightarrow> int \<Rightarrow> call_session \<Rightarrow> outcome" where
  "cs_list_sessions E limit S = cs_send E (ListSessions limit) S"

definition cs_end_session :: "call_environment \<Rightarrow> string \<Rightarrow> string \<Rightarrow> call_session \<Rightarrow> outcome" where
  "cs_end_session E user_id reason S =
     (if user_id = [] then refuse ''invalid_value'' ''an account has to be named'' S
      else cs_send E (EndSession user_id reason) S)"

definition cs_is_admin :: "call_session \<Rightarrow> bool" where
  "cs_is_admin S \<longleftrightarrow> u_role (cs_user S) = Admin"

end
