(* ===== verification/CallSignals.thy ===== *)
theory CallSignals
  imports CallControls
begin

text \<open>
  What arrives at a call, of \<open>client/src/app/call_session.cpp\<close>: the messages of the server, the callbacks of
  the media layer, the state of the signaling socket, and the requests that open and close that socket;
  and the step of the whole session.
\<close>

section \<open>The media session\<close>

text \<open>The loop over the volumes chosen before the session existed, in the order of the map. What the
  calls answer is dropped.\<close>

fun apply_volumes :: "call_environment \<Rightarrow> nat \<Rightarrow> (string \<times> real) list \<Rightarrow> call_session \<Rightarrow> call_session" where
  "apply_volumes E i [] S = S"
| "apply_volumes E i ((user_id, volume) # rest) S =
     apply_volumes E i rest (snd (media E i (SetParticipantVolume user_id volume) S))"

definition ensure_media_session :: "call_environment \<Rightarrow> call_session \<Rightarrow> outcome" where
  "ensure_media_session E S =
     (if cs_audio S \<noteq> None then (Inr (), S)
      else let options = co_media (cs_options S)
           in case ce_factory E (cs_log S) options of
                Some e \<Rightarrow> (Inl e, S)
              | None \<Rightarrow>
                  (let i = cs_sessions S;
                       S = jot [MediaCreated i options] (S\<lparr>cs_sessions := i + 1, cs_audio := Some i\<rparr>);
                       S = media_void i (SetMicrophoneMuted (cs_muted S)) S;
                       S = apply_volumes E i (cs_volumes S) S;
                       input = mo_input_device (co_media (cs_options S));
                       output = mo_output_device (co_media (cs_options S));
                       S = (if input = [] then S else report_failure (media E i (SetInputDevice input) S));
                       S = (if output = [] then S else report_failure (media E i (SetOutputDevice output) S))
                   in (Inr (), S)))"

definition handle_offer :: "call_environment \<Rightarrow> string \<Rightarrow> string \<Rightarrow> call_session \<Rightarrow> call_session" where
  "handle_offer E from_user_id sdp S =
     (if from_user_id \<noteq> kSfuUserId then S
      else case ensure_media_session E S of
             (Inl e, S) \<Rightarrow> report e S
           | (Inr _, S) \<Rightarrow> (case cs_audio S of
                None \<Rightarrow> S
              | Some i \<Rightarrow> report_failure (media E i (ApplyRemoteOffer sdp) S)))"

definition handle_ice_candidate ::
    "call_environment \<Rightarrow> string \<Rightarrow> string \<Rightarrow> string \<Rightarrow> int \<Rightarrow> call_session \<Rightarrow> call_session" where
  "handle_ice_candidate E from_user_id candidate mid mline S =
     (if from_user_id \<noteq> kSfuUserId then S
      else case cs_audio S of
             None \<Rightarrow> S
           | Some i \<Rightarrow> report_failure (media E i (AddRemoteCandidate candidate mid mline) S))"

section \<open>The messages of the server\<close>

definition upd_call_participant ::
    "string \<Rightarrow> (call_participant \<Rightarrow> call_participant) \<Rightarrow> call_session \<Rightarrow> call_session" where
  "upd_call_participant user_id f S = S\<lparr>cs_participants := AList.map_entry user_id f (cs_participants S)\<rparr>"

definition handle_authenticated :: "call_environment \<Rightarrow> user \<Rightarrow> call_session \<Rightarrow> call_session" where
  "handle_authenticated E u S =
     (let rejoin_muted = cs_muted S; rejoin_room = cs_room S; rejoin_name = cs_display_name S;
          stale = cs_audio S;
          S = S\<lparr>cs_user := u, cs_participants := [], cs_screen_sharer := [], cs_audio := None\<rparr>;
          S = media_void_if stale CloseMedia S;
          S = tell (TellScreenShare []) S;
          S = cs_set_state CallAuthenticated (u_id u) S
      in if rejoin_room = [] then S
         else case cs_send E (JoinRoom rejoin_room (u_id u) rejoin_name) S of
                (Inl e, S) \<Rightarrow> report e S
              | (Inr _, S) \<Rightarrow>
                  if rejoin_muted then report_failure (cs_send E (Mute rejoin_room (u_id u) []) S) else S)"

definition handle_user_joined :: "user \<Rightarrow> call_session \<Rightarrow> call_session" where
  "handle_user_joined u S =
     (let known = (case map_of (cs_participants S) (u_id u) of
            Some p \<Rightarrow> p | None \<Rightarrow> new_call_participant)
      in publish_participants (S\<lparr>cs_participants :=
           AList.update (u_id u) (known\<lparr>cp_user := u\<rparr>) (cs_participants S)\<rparr>))"

definition handle_user_left :: "string \<Rightarrow> call_session \<Rightarrow> call_session" where
  "handle_user_left user_id S =
     (let S = S\<lparr>cs_participants := AList.delete user_id (cs_participants S)\<rparr>;
          floor_freed = (user_id = cs_screen_sharer S);
          S = (if floor_freed then S\<lparr>cs_screen_sharer := []\<rparr> else S);
          S = (if floor_freed then tell (TellScreenShare []) S else S)
      in publish_participants S)"

text \<open>\<open>Mute\<close> and \<open>Unmute\<close> have the same body but for the flag.\<close>

definition cs_handle_mute :: "bool \<Rightarrow> string \<Rightarrow> string \<Rightarrow> call_session \<Rightarrow> call_session" where
  "cs_handle_mute muted user_id by_user_id S =
     (let S = upd_call_participant user_id (\<lambda>p. p\<lparr>cp_muted := muted\<rparr>) S;
          is_us = (user_id = u_id (cs_user S));
          session = (if is_us then cs_audio S else None);
          S = (if is_us then S\<lparr>cs_muted := muted\<rparr> else S);
          S = media_void_if session (SetMicrophoneMuted muted) S;
          S = (if by_user_id \<noteq> [] then tell (TellForcedMute user_id by_user_id muted) S else S)
      in publish_participants S)"

definition handle_user_restricted ::
    "string \<Rightarrow> restrictions \<Rightarrow> string \<Rightarrow> string \<Rightarrow> call_session \<Rightarrow> call_session" where
  "handle_user_restricted user_id r by_user_id reason S =
     (let S = upd_call_participant user_id (\<lambda>p. p\<lparr>cp_user := (cp_user p)\<lparr>u_restrictions := r\<rparr>\<rparr>) S;
          S = (if user_id = u_id (cs_user S)
               then S\<lparr>cs_user := (cs_user S)\<lparr>u_restrictions := r\<rparr>\<rparr> else S)
      in publish_participants (tell (TellRestrictions user_id r by_user_id reason) S))"

definition handle_notice :: "notice \<Rightarrow> call_session \<Rightarrow> call_session" where
  "handle_notice n S =
     (if nt_user_id n = u_id (cs_user S) then tell (TellNotice n) S else tell (TellNoticeSent n) S)"

definition handle_user_kicked :: "string \<Rightarrow> string \<Rightarrow> call_session \<Rightarrow> call_session" where
  "handle_user_kicked user_id reason S =
     (let is_us = (user_id = u_id (cs_user S));
          floor_freed = (user_id = cs_screen_sharer S);
          session = (if is_us then cs_audio S else None);
          S = S\<lparr>cs_participants := AList.delete user_id (cs_participants S)\<rparr>;
          S = (if floor_freed then S\<lparr>cs_screen_sharer := []\<rparr> else S);
          S = (if is_us
               then S\<lparr>cs_room := [], cs_display_name := [], cs_participants := [], cs_screen_sharer := [],
                      cs_muted := False, cs_audio := None\<rparr>
               else S);
          S = media_void_if session CloseMedia S;
          S = (if floor_freed then tell (TellScreenShare []) S else S);
          S = (if is_us then tell (TellKicked reason)
                 (cs_set_state CallAuthenticated ''removed from the room'' S) else S)
      in publish_participants S)"

definition handle_session_ended :: "string \<Rightarrow> call_session \<Rightarrow> call_session" where
  "handle_session_ended reason S =
     (let session = cs_audio S;
          S = S\<lparr>cs_audio := None, cs_participants := [], cs_room := [], cs_display_name := [],
                cs_screen_sharer := [], cs_muted := False, cs_user := default_user,
                cs_pending_username := [], cs_pending_password := []\<rparr>;
          S = publish_participants (media_void_if session CloseMedia S)
      in tell (TellSessionEnded reason) (cs_set_state CallIdle reason S))"

definition handle_screen_share_started :: "string \<Rightarrow> bool \<Rightarrow> call_session \<Rightarrow> call_session" where
  "handle_screen_share_started user_id has_audio S =
     (let S = upd_call_participant user_id (\<lambda>p. p\<lparr>cp_sharing_screen := True, cp_sharing_audio := has_audio\<rparr>) S;
          S = S\<lparr>cs_screen_sharer := user_id\<rparr>
      in publish_participants (tell (TellScreenShare user_id) S))"

definition handle_screen_share_stopped :: "string \<Rightarrow> call_session \<Rightarrow> call_session" where
  "handle_screen_share_stopped user_id S =
     (let S = upd_call_participant user_id (\<lambda>p. p\<lparr>cp_sharing_screen := False, cp_sharing_audio := False\<rparr>) S;
          S = (if cs_screen_sharer S = user_id then S\<lparr>cs_screen_sharer := []\<rparr> else S)
      in publish_participants (tell (TellScreenShare []) S))"

text \<open>The chain of \<open>std::get_if\<close>: a message of another type is nobody's.\<close>

fun handle_signal :: "call_environment \<Rightarrow> message \<Rightarrow> call_session \<Rightarrow> call_session" where
  "handle_signal E (Authenticated u token expires) S = handle_authenticated E u S"
| "handle_signal E (RoomCreated room_id room_name capacity) S = tell (TellRoomCreated room_id) S"
| "handle_signal E (UserJoined room u) S = handle_user_joined u S"
| "handle_signal E (UserLeft room user_id) S = handle_user_left user_id S"
| "handle_signal E (Mute room user_id by_user_id) S = cs_handle_mute True user_id by_user_id S"
| "handle_signal E (Unmute room user_id by_user_id) S = cs_handle_mute False user_id by_user_id S"
| "handle_signal E (UserRestricted user_id r by_user_id reason room) S =
     handle_user_restricted user_id r by_user_id reason S"
| "handle_signal E (Notice n) S = handle_notice n S"
| "handle_signal E (UserKicked room user_id reason) S = handle_user_kicked user_id reason S"
| "handle_signal E (SessionEnded reason) S = handle_session_ended reason S"
| "handle_signal E PasswordChanged S = tell TellPasswordChanged S"
| "handle_signal E (UserList users) S = tell (TellUserList users) S"
| "handle_signal E (RoomList rooms) S = tell (TellRoomList rooms) S"
| "handle_signal E (AuditList entries) S = tell (TellAuditList entries) S"
| "handle_signal E (SessionList sessions) S = tell (TellSessionList sessions) S"
| "handle_signal E (ScreenShareStarted room user_id has_audio) S =
     handle_screen_share_started user_id has_audio S"
| "handle_signal E (ScreenShareStopped room user_id) S = handle_screen_share_stopped user_id S"
| "handle_signal E (ChatMessage m) S = tell (TellChatMessage m) S"
| "handle_signal E (Nudge room from_user_id to_user_id) S = tell (TellNudge from_user_id to_user_id) S"
| "handle_signal E (ChatHistory room messages) S = tell (TellChatHistory messages) S"
| "handle_signal E (Offer room from_user_id to_user_id sdp) S = handle_offer E from_user_id sdp S"
| "handle_signal E (IceCandidate room from_user_id to_user_id candidate mid mline) S =
     handle_ice_candidate E from_user_id candidate mid mline S"
| "handle_signal E (ErrorMessage code message) S = report (mk_error code message) S"
| "handle_signal E _ S = S"

section \<open>The signaling socket\<close>

definition cs_probe :: "call_environment \<Rightarrow> call_session \<Rightarrow> call_session" where
  "cs_probe E S =
     (let (r, g, out) = probe (ce_is_open E (cs_log S)) (ce_now E (cs_log S)) (cs_signaling S)
      in jot (map Wire out) (S\<lparr>cs_signaling := g\<rparr>))"

definition handle_signaling_state ::
    "call_environment \<Rightarrow> signaling_state \<Rightarrow> string \<Rightarrow> call_session \<Rightarrow> call_session" where
  "handle_signaling_state E st detail S = (case st of
     Sg_Connected \<Rightarrow>
       (let S = (if cs_pending_username S = [] then S
                 else report_failure
                   (cs_send E (Authenticate (cs_pending_username S) (cs_pending_password S)) S))
        in report_link (cs_probe E S))
   | Sg_Failed \<Rightarrow>
       (let S = report_link S
        in if cs_pending_username S = [] \<and> u_id (cs_user S) = [] then S
           else cs_set_state CallFailed detail S)
   | Sg_Reconnecting \<Rightarrow>
       (let S = report_link S
        in if cs_pending_username S = [] \<and> u_id (cs_user S) = [] then S
           else cs_set_state CallConnecting detail S)
   | Sg_Disconnected \<Rightarrow> S
   | Sg_Connecting \<Rightarrow> S)"

text \<open>What the signaling client tells, in order, with the handlers the constructor installed.\<close>

fun deliver :: "call_environment \<Rightarrow> signaling_output list \<Rightarrow> call_session \<Rightarrow> call_session" where
  "deliver E [] S = S"
| "deliver E (StateTold st detail # out) S = deliver E out (handle_signaling_state E st detail S)"
| "deliver E (MessageTold m # out) S = deliver E out (handle_signal E m S)"
| "deliver E (RoundTripTold ms # out) S = deliver E out (report_link S)"
| "deliver E (other # out) S = deliver E out (jot [Wire other] S)"

definition on_wire :: "call_environment \<Rightarrow> signaling_effect \<Rightarrow> call_session \<Rightarrow> call_session" where
  "on_wire E effect S = deliver E (snd effect) (S\<lparr>cs_signaling := fst effect\<rparr>)"

definition open_signaling :: "call_environment \<Rightarrow> call_session \<Rightarrow> outcome" where
  "open_signaling E S = (case sg_connect (cs_signaling S) of
     (Inl e, effect) \<Rightarrow> (Inl e, on_wire E effect S)
   | (Inr _, effect) \<Rightarrow> (Inr (), (on_wire E effect S)\<lparr>cs_running := True\<rparr>))"

definition cs_connect_and_authenticate ::
    "call_environment \<Rightarrow> string \<Rightarrow> string \<Rightarrow> call_session \<Rightarrow> outcome" where
  "cs_connect_and_authenticate E username password S =
     (if username = [] \<or> password = []
      then refuse ''invalid_value'' ''username and password are both required'' S
      else
       (let S = S\<lparr>cs_pending_username := username, cs_pending_password := password\<rparr>;
            S = cs_set_state CallConnecting (sg_next_url (cs_signaling S)) S;
            connecting = (\<lambda>S. case open_signaling E S of
               (Inl e, S) \<Rightarrow> (Inl e, cs_set_state CallFailed (err_message e) S)
             | (Inr _, S) \<Rightarrow> (Inr (), S))
        in case sg_state (cs_signaling S) of
             Sg_Connected \<Rightarrow>
               (case cs_send E (Authenticate username password) S of
                  (Inl e, S) \<Rightarrow> (Inl e, cs_set_state CallFailed (err_message e) S)
                | (Inr _, S) \<Rightarrow> (Inr (), S))
           | Sg_Connecting \<Rightarrow> (Inr (), S)
           | Sg_Reconnecting \<Rightarrow> (Inr (), S)
           | Sg_Failed \<Rightarrow> connecting (on_wire E (sg_disconnect (cs_signaling S)) S)
           | Sg_Disconnected \<Rightarrow> connecting S))"

definition probe_server :: "call_environment \<Rightarrow> call_session \<Rightarrow> outcome" where
  "probe_server E S = (case sg_state (cs_signaling S) of
     Sg_Connected \<Rightarrow> (Inr (), S)
   | Sg_Connecting \<Rightarrow> (Inr (), S)
   | Sg_Reconnecting \<Rightarrow> (Inr (), S)
   | Sg_Failed \<Rightarrow> open_signaling E (on_wire E (sg_disconnect (cs_signaling S)) S)
   | Sg_Disconnected \<Rightarrow> open_signaling E S)"

definition retest_server :: "call_environment \<Rightarrow> call_session \<Rightarrow> outcome" where
  "retest_server E S =
     (if u_id (cs_user S) \<noteq> [] \<or> cs_pending_username S \<noteq> []
      then refuse ''already_connected''
        ''the server is tested from the sign-in screen, not from a session'' S
      else probe_server E (on_wire E (sg_disconnect (cs_signaling S)) S))"

definition cs_set_signaling_url :: "call_environment \<Rightarrow> string \<Rightarrow> call_session \<Rightarrow> call_session" where
  "cs_set_signaling_url E url S =
     snd (retest_server E (S\<lparr>cs_signaling := set_url url (cs_signaling S)\<rparr>))"

definition cs_disconnect :: "call_environment \<Rightarrow> call_session \<Rightarrow> call_session" where
  "cs_disconnect E S =
     (let session = cs_audio S;
          S = S\<lparr>cs_running := False, cs_audio := None, cs_participants := [], cs_room := [],
                cs_user := default_user, cs_pending_username := [], cs_pending_password := []\<rparr>;
          S = media_void_if session CloseMedia S;
          S = on_wire E (sg_disconnect (cs_signaling S)) S
      in cs_set_state CallIdle ''disconnected'' S)"

text \<open>One turn of \<open>metrics_loop\<close> whose time has come.\<close>

definition metrics_tick :: "call_environment \<Rightarrow> call_session \<Rightarrow> call_session" where
  "metrics_tick E S =
     (if \<not> cs_running S then S
      else let S = cs_probe E (report_link S)
           in case cs_audio S of None \<Rightarrow> S | Some i \<Rightarrow> tell (TellMetrics i) S)"

section \<open>The callbacks of the media session\<close>

definition on_local_answer :: "call_environment \<Rightarrow> string \<Rightarrow> call_session \<Rightarrow> call_session" where
  "on_local_answer E sdp S =
     report_failure (cs_send E (Answer (cs_room S) (u_id (cs_user S)) kSfuUserId sdp) S)"

definition on_local_candidate ::
    "call_environment \<Rightarrow> string \<Rightarrow> string \<Rightarrow> int \<Rightarrow> call_session \<Rightarrow> call_session" where
  "on_local_candidate E candidate mid mline S =
     report_failure (cs_send E
       (IceCandidate (cs_room S) (u_id (cs_user S)) kSfuUserId candidate mid mline) S)"

definition on_remote_audio :: "string \<Rightarrow> bool \<Rightarrow> call_session \<Rightarrow> call_session" where
  "on_remote_audio user_id active S =
     publish_participants (upd_call_participant user_id (\<lambda>p. p\<lparr>cp_audio_active := active\<rparr>) S)"

definition level_of :: "audio_level \<Rightarrow> call_session \<Rightarrow> call_session" where
  "level_of l S =
     upd_call_participant (if al_user_id l = [] then u_id (cs_user S) else al_user_id l)
       (\<lambda>p. p\<lparr>cp_level := al_level l, cp_speaking := al_speaking l\<rparr>) S"

definition on_levels :: "audio_level list \<Rightarrow> call_session \<Rightarrow> call_session" where
  "on_levels levels S =
     publish_participants
       (fold (\<lambda>l S. if al_user_id l = [] then tell (TellLocalLevel (al_level l) (al_speaking l)) S else S)
         levels (fold level_of levels S))"

definition on_remote_video :: "video_frame \<Rightarrow> call_session \<Rightarrow> call_session" where
  "on_remote_video frame S = (if cs_screen_sharer S = [] then S else tell (TellRemoteVideo frame) S)"

definition on_screen_share_ended :: "call_environment \<Rightarrow> error \<Rightarrow> call_session \<Rightarrow> call_session" where
  "on_screen_share_ended E reason S = tell (TellError reason) (snd (cs_stop_screen_share E S))"

definition on_media_state :: "media_state \<Rightarrow> call_session \<Rightarrow> call_session" where
  "on_media_state st S = (case st of
     MediaConnected \<Rightarrow> cs_set_state InCall ''media connected'' S
   | MediaFailed \<Rightarrow> cs_set_state CallFailed ''the media connection failed'' S
   | _ \<Rightarrow> S)"

section \<open>The step of a call\<close>

datatype call_event =
    DoConnectAndAuthenticate string string
  | DoProbeServer
  | DoRetestServer
  | DoSetSignalingUrl string
  | DoDisconnect
  | DoCreateRoom string bool int
  | DoChangePassword string string
  | DoJoin string string
  | DoLeave
  | DoSetMuted bool
  | DoSendChat string
  | DoNudge string
  | DoListChat int
  | DoStartScreenShare string screen_audio
  | DoStopScreenShare
  | DoSetVideoBitrate int int
  | DoSetAutoBitrate bool
  | DoSetVideoQuality frame_size int
  | DoSetParticipantVolume string real
  | DoSetInputDevice string
  | DoSetOutputDevice string
  | DoSetScreenAudioVolume int
  | DoSetAudioProcessing bool bool bool noise_suppression_level
  | DoSetVoiceGate bool voice_gate_level
  | DoAdminister message
  | OnSignaling signaling_event
  | OnLocalAnswer string
  | OnLocalCandidate string string int
  | OnRemoteAudio string bool
  | OnLevels "audio_level list"
  | OnRemoteVideo video_frame
  | OnScreenShareEnded error
  | OnMediaState media_state
  | OnMetricsTick

text \<open>An administrator's request, by the message it sends, and \<open>acknowledge_notice\<close>.\<close>

fun administer :: "call_environment \<Rightarrow> message \<Rightarrow> call_session \<Rightarrow> outcome" where
  "administer E (KickUser room user_id reason) S = cs_kick E user_id reason S"
| "administer E (ForceMute room user_id muted) S = cs_force_mute E user_id muted S"
| "administer E (RestrictUser user_id b m s c reason) S = cs_restrict_user E user_id b m s c reason S"
| "administer E (SendNotice user_id notice_text) S = cs_send_notice E user_id notice_text S"
| "administer E (AcknowledgeNotice notice_id) S = cs_acknowledge_notice E notice_id S"
| "administer E ListUsers S = cs_list_users E S"
| "administer E (CreateUser u p d r) S = cs_create_user E u p d r S"
| "administer E (UpdateUser u r d p) S = cs_update_user E u r d p S"
| "administer E (DeleteUser u) S = cs_delete_user E u S"
| "administer E ListRooms S = cs_list_rooms E S"
| "administer E (DeleteRoom room) S = cs_delete_room E room S"
| "administer E (UpdateRoom room capacity) S = cs_update_room E room capacity S"
| "administer E (ListAudit limit actor) S = cs_list_audit E limit actor S"
| "administer E (ListSessions limit) S = cs_list_sessions E limit S"
| "administer E (EndSession u reason) S = cs_end_session E u reason S"
| "administer E _ S = (Inr (), S)"

fun call_step :: "call_environment \<Rightarrow> call_event \<Rightarrow> call_session \<Rightarrow> call_session" where
  "call_step E (DoConnectAndAuthenticate u p) S = snd (cs_connect_and_authenticate E u p S)"
| "call_step E DoProbeServer S = snd (probe_server E S)"
| "call_step E DoRetestServer S = snd (retest_server E S)"
| "call_step E (DoSetSignalingUrl url) S = cs_set_signaling_url E url S"
| "call_step E DoDisconnect S = cs_disconnect E S"
| "call_step E (DoCreateRoom n p c) S = snd (cs_create_room E n p c S)"
| "call_step E (DoChangePassword c n) S = snd (cs_change_password E c n S)"
| "call_step E (DoJoin room display_name) S = snd (cs_join E room display_name S)"
| "call_step E DoLeave S = snd (cs_leave E S)"
| "call_step E (DoSetMuted muted) S = snd (cs_set_muted E muted S)"
| "call_step E (DoSendChat t) S = snd (cs_send_chat E t S)"
| "call_step E (DoNudge u) S = snd (cs_nudge E u S)"
| "call_step E (DoListChat limit) S = snd (cs_list_chat E limit S)"
| "call_step E (DoStartScreenShare src audio) S = snd (cs_start_screen_share E src audio S)"
| "call_step E DoStopScreenShare S = snd (cs_stop_screen_share E S)"
| "call_step E (DoSetVideoBitrate lo hi) S = snd (cs_set_video_bitrate E lo hi S)"
| "call_step E (DoSetAutoBitrate on) S = snd (cs_set_auto_bitrate E on S)"
| "call_step E (DoSetVideoQuality s fps) S = snd (cs_set_video_quality E s fps S)"
| "call_step E (DoSetParticipantVolume u v) S = snd (cs_set_participant_volume E u v S)"
| "call_step E (DoSetInputDevice d) S = snd (cs_set_input_device E d S)"
| "call_step E (DoSetOutputDevice d) S = snd (cs_set_output_device E d S)"
| "call_step E (DoSetScreenAudioVolume v) S = snd (cs_set_screen_audio_volume v S)"
| "call_step E (DoSetAudioProcessing e n g l) S = snd (cs_set_audio_processing e n g l S)"
| "call_step E (DoSetVoiceGate on l) S = snd (cs_set_voice_gate on l S)"
| "call_step E (DoAdminister m) S = snd (administer E m S)"
| "call_step E (OnSignaling ev) S = on_wire E (signaling_step ev (cs_signaling S)) S"
| "call_step E (OnLocalAnswer sdp) S = on_local_answer E sdp S"
| "call_step E (OnLocalCandidate c mid mline) S = on_local_candidate E c mid mline S"
| "call_step E (OnRemoteAudio u active) S = on_remote_audio u active S"
| "call_step E (OnLevels levels) S = on_levels levels S"
| "call_step E (OnRemoteVideo frame) S = on_remote_video frame S"
| "call_step E (OnScreenShareEnded reason) S = on_screen_share_ended E reason S"
| "call_step E (OnMediaState st) S = on_media_state st S"
| "call_step E OnMetricsTick S = metrics_tick E S"

definition call_run :: "call_environment \<Rightarrow> call_event list \<Rightarrow> call_session \<Rightarrow> call_session" where
  "call_run E evs S = fold (call_step E) evs S"

end
