(* ===== verification/CallProofs.thy ===== *)
theory CallProofs
  imports CallSignals
begin

text \<open>
  What a call guarantees, whatever the interface asks, the server sends and the media layer answers: the
  microphone is where the mute says, no media session is used after it was closed, nobody is signed in
  unasked, and the bitrate range is one the encoder can be given.
\<close>

section \<open>What an operation leaves alone\<close>

text \<open>The part of the state the invariants rest on, and the entries of the log that do not touch them:
  calls on the session in hand other than its microphone and its end, and frames that sign nobody in.\<close>

definition call_view ::
    "call_session \<Rightarrow> nat option \<times> bool \<times> nat \<times> string \<times> string \<times> string \<times> string" where
  "call_view S = (cs_audio S, cs_muted S, cs_sessions S, u_id (cs_user S), cs_room S,
     cs_pending_username S, cs_pending_password S)"

definition signs_in :: "call_output \<Rightarrow> bool" where
  "signs_in x = (case x of Wire w \<Rightarrow> (case w of FrameSent n m \<Rightarrow> type_of m = MT_Authenticate | _ \<Rightarrow> False) | _ \<Rightarrow> False)"

definition harmless :: "nat option \<Rightarrow> call_output \<Rightarrow> bool" where
  "harmless audio x = (case x of
     Media i c \<Rightarrow> audio = Some i \<and> c \<noteq> CloseMedia \<and> (\<forall>b. c \<noteq> SetMicrophoneMuted b)
   | MediaCreated i opts \<Rightarrow> False
   | _ \<Rightarrow> \<not> signs_in x)"

definition gentle :: "call_session \<Rightarrow> call_session \<Rightarrow> bool" where
  "gentle S S' \<longleftrightarrow> call_view S' = call_view S
     \<and> (\<exists>out. cs_log S' = cs_log S @ out \<and> list_all (harmless (cs_audio S)) out)"

lemma gentle_refl [simp, intro]: "gentle S S"
  by (simp add: gentle_def)

lemma gentle_trans [trans]: "gentle S T \<Longrightarrow> gentle T U \<Longrightarrow> gentle S U"
  by (fastforce simp: gentle_def call_view_def)

lemma gentle_audio: "gentle S T \<Longrightarrow> cs_audio T = cs_audio S"
  by (simp add: gentle_def call_view_def)

lemma gentle_jot: "list_all (harmless (cs_audio S)) out \<Longrightarrow> gentle S (jot out S)"
  by (simp add: gentle_def jot_def call_view_def)

lemma gentle_same_view:
  "call_view S' = call_view S \<Longrightarrow> cs_log S' = cs_log S \<Longrightarrow> gentle S S'"
  by (simp add: gentle_def)

lemma gentle_tell [simp, intro]: "gentle S (tell t S)"
  by (auto simp: tell_def harmless_def signs_in_def intro!: gentle_jot)

lemma gentle_told: "gentle S T \<Longrightarrow> gentle S (tell t T)"
  by (rule gentle_trans [OF _ gentle_tell])

lemma gentle_helpers [intro]:
  "gentle S T \<Longrightarrow> gentle S (cs_set_state st detail T)"
  "gentle S T \<Longrightarrow> gentle S (publish_participants T)"
  "gentle S T \<Longrightarrow> gentle S (report e T)"
  "gentle S T \<Longrightarrow> gentle S (report_link T)"
proof -
  assume T: "gentle S T"
  have "gentle T (T\<lparr>cs_state := st\<rparr>)" by (rule gentle_same_view) (simp_all add: call_view_def)
  then show "gentle S (cs_set_state st detail T)"
    using T by (auto simp: cs_set_state_def intro: gentle_told gentle_trans)
qed (auto simp: publish_participants_def report_def report_link_def intro: gentle_told)

lemma gentle_report_failure [intro]:
  "gentle S (snd rT) \<Longrightarrow> gentle S (report_failure rT)"
  by (auto simp: report_failure_def split: prod.split sum.split)

lemma gentle_cs_send:
  assumes "type_of m \<noteq> MT_Authenticate" "gentle S T"
  shows "gentle S (snd (cs_send E m T))"
proof -
  have "list_all (harmless (cs_audio T))
      (if result_ok (fst (sg_send b m g)) then map Wire (snd (sg_send b m g)) else [Unsent m])" for b g
    using assms(1) by (auto simp: sg_send_def harmless_def signs_in_def result_ok_def split: option.split)
  then have "gentle T (snd (cs_send E m T))"
    unfolding cs_send_def Let_def split_beta snd_conv by (rule gentle_jot)
  with assms(2) show ?thesis by (rule gentle_trans)
qed

definition ordinary :: "media_request \<Rightarrow> bool" where
  "ordinary c \<longleftrightarrow> c \<noteq> CloseMedia \<and> (\<forall>b. c \<noteq> SetMicrophoneMuted b)"

lemma gentle_media:
  assumes "ordinary c" "gentle S T" "cs_audio T = Some i"
  shows "gentle S (snd (media E i c T))" "gentle S (media_void i c T)"
proof -
  have "gentle T (jot [Media i c] T)"
    using assms by (intro gentle_jot) (simp add: harmless_def ordinary_def)
  then have "gentle S (jot [Media i c] T)" using assms(2) by (rule gentle_trans [rotated])
  then show "gentle S (snd (media E i c T))" "gentle S (media_void i c T)"
    by (simp_all add: media_def media_void_def split: option.split)
qed

lemma gentle_media_if:
  assumes "ordinary c" "gentle S T" "session = cs_audio T"
  shows "gentle S (snd (media_if E session c T))" "gentle S (media_void_if session c T)"
  using gentle_media [OF assms(1,2)] assms by (auto simp: media_if_def media_void_if_def split: option.split)

lemma view_simps [simp]:
  "cs_audio (jot out S) = cs_audio S" "cs_audio (tell t S) = cs_audio S"
  "cs_audio (cs_set_state st d S) = cs_audio S" "cs_audio (publish_participants S) = cs_audio S"
  "cs_audio (report e S) = cs_audio S" "cs_audio (report_link S) = cs_audio S"
  "cs_audio (media_void i c S) = cs_audio S" "cs_audio (media_void_if session c S) = cs_audio S"
  "cs_audio (in_media f S) = cs_audio S" "cs_audio (upd_call_participant u g S) = cs_audio S"
  "cs_audio (snd (media E i c S)) = cs_audio S" "cs_audio (snd (media_if E session c S)) = cs_audio S"
  "cs_audio (snd (cs_send E m S)) = cs_audio S"
  by (simp_all add: jot_def tell_def cs_set_state_def publish_participants_def report_def report_link_def
      media_void_def media_void_if_def in_media_def upd_call_participant_def media_def media_if_def
      cs_send_def Let_def split_beta split: option.split)

lemma jot_simps [simp]:
  "cs_muted (jot out S) = cs_muted S" "cs_sessions (jot out S) = cs_sessions S"
  "cs_options (jot out S) = cs_options S" "cs_volumes (jot out S) = cs_volumes S"
  "cs_room (jot out S) = cs_room S" "cs_user (jot out S) = cs_user S"
  by (simp_all add: jot_def)

lemma gentle_state [intro]:
  "gentle S T \<Longrightarrow> gentle S (in_media f T)"
  "gentle S T \<Longrightarrow> gentle S (upd_call_participant u g T)"
  "gentle S T \<Longrightarrow> gentle S (T\<lparr>cs_participants := ps\<rparr>)"
  "gentle S T \<Longrightarrow> gentle S (T\<lparr>cs_screen_sharer := x\<rparr>)"
  "gentle S T \<Longrightarrow> gentle S (T\<lparr>cs_volumes := vs\<rparr>)"
  "gentle S T \<Longrightarrow> gentle S (T\<lparr>cs_options := opts\<rparr>)"
  "gentle S T \<Longrightarrow> gentle S (T\<lparr>cs_signaling := g'\<rparr>)"
  "gentle S T \<Longrightarrow> gentle S (T\<lparr>cs_running := b\<rparr>)"
  "gentle S T \<Longrightarrow> gentle S (T\<lparr>cs_screen_audio_failure := e\<rparr>)"
  by (auto simp: gentle_def call_view_def in_media_def upd_call_participant_def)

lemmas gentle_intros = gentle_told gentle_helpers gentle_report_failure gentle_cs_send gentle_media
  gentle_media_if gentle_state

section \<open>The gentle operations\<close>

lemma gentle_refuse [simp]: "snd (refuse code reason S) = S" "snd (cs_not_in_room S) = S"
  by (simp_all add: refuse_def cs_not_in_room_def)

lemma gentle_requests:
  "gentle S (snd (cs_create_room E n p c S))" "gentle S (snd (cs_change_password E o1 o2 S))"
  "gentle S (snd (cs_send_chat E t S))" "gentle S (snd (cs_nudge E u S))" "gentle S (snd (cs_list_chat E l S))"
  by (simp_all add: cs_create_room_def cs_change_password_def cs_send_chat_def cs_nudge_def cs_list_chat_def
      gentle_cs_send)

lemma gentle_administer: "gentle S (snd (administer E m S))"
  by (cases m) (simp_all add: cs_kick_def cs_force_mute_def cs_restrict_user_def cs_send_notice_def
      cs_acknowledge_notice_def cs_list_users_def cs_create_user_def cs_update_user_def cs_delete_user_def
      cs_list_rooms_def cs_delete_room_def cs_update_room_def cs_list_audit_def cs_list_sessions_def
      cs_end_session_def gentle_cs_send)

lemma ordinary_calls [simp]:
  "ordinary (ApplyRemoteOffer s)" "ordinary (AddRemoteCandidate a b l)" "ordinary (SetParticipantVolume u v)"
  "ordinary (SetInputDevice d)" "ordinary (SetOutputDevice d)" "ordinary (StartScreenShare d)"
  "ordinary StopScreenShare" "ordinary (StartScreenAudio md k)" "ordinary StopScreenAudio"
  "ordinary (SetScreenAudioVolume p)" "ordinary (SetAudioProcessing e n g lv)" "ordinary (SetVoiceGate w vl)"
  "ordinary (SetVideoBitrate lo hi)" "ordinary (SetCaptureOptions opts)"
  by (simp_all add: ordinary_def)

lemma gentle_settings:
  "gentle S (snd (cs_set_participant_volume E u v S))" "gentle S (snd (cs_set_input_device E d S))"
  "gentle S (snd (cs_set_output_device E d S))" "gentle S (snd (cs_set_screen_audio_volume p S))"
  "gentle S (snd (cs_set_audio_processing e n g lv S))" "gentle S (snd (cs_set_voice_gate w vl S))"
  "gentle S (snd (cs_set_video_bitrate E lo hi S))" "gentle S (snd (cs_set_auto_bitrate E w S))"
  by (auto simp: cs_set_participant_volume_def cs_set_input_device_def cs_set_output_device_def
      cs_set_screen_audio_volume_def cs_set_audio_processing_def cs_set_voice_gate_def
      cs_set_video_bitrate_def cs_set_auto_bitrate_def use_recommended_def Let_def
      intro!: gentle_media_if gentle_state)


lemma gentle_volumes: "cs_audio S = Some i \<Longrightarrow> gentle S (apply_volumes E i vs S)"
proof (induction vs arbitrary: S)
  case (Cons x vs)
  obtain u v where x: "x = (u, v)" by (cases x)
  have "gentle S (snd (media E i (SetParticipantVolume u v) S))" using Cons.prems by (intro gentle_media) auto
  also have "gentle (snd (media E i (SetParticipantVolume u v) S)) (apply_volumes E i (x # vs) S)"
    using Cons by (simp add: x)
  finally show ?case .
qed simp

lemma start_screen_audio_quiet:
  assumes "cs_audio S = Some i"
  shows "gentle S (snd (start_screen_audio E i audio S))"
    and "cs_audio (snd (start_screen_audio E i audio S)) = Some i"
proof -
  let ?S = "S\<lparr>cs_screen_audio_failure := mk_error [] []\<rparr>"
  let ?call = "StartScreenAudio (if san_mode audio = AudioApplication then LoopbackProcess else LoopbackSystem)
      (san_source_id audio)"
  have "gentle S (snd (media E i ?call ?S))" using assms by (intro gentle_media gentle_state) auto
  then show "gentle S (snd (start_screen_audio E i audio S))"
    by (auto simp: start_screen_audio_def Let_def intro: gentle_state split: prod.split sum.split)
  then show "cs_audio (snd (start_screen_audio E i audio S)) = Some i"
    using assms by (simp add: gentle_audio)
qed

lemma gentle_share:
  "gentle S (snd (cs_start_screen_share E src audio S))" "gentle S (snd (cs_stop_screen_share E S))"
proof -
  show "gentle S (snd (cs_stop_screen_share E S))"
    by (auto simp: cs_stop_screen_share_def Let_def intro!: gentle_media_if gentle_cs_send)
  show "gentle S (snd (cs_start_screen_share E src audio S))"
  proof (cases "cs_audio S")
    case (Some i)
    let ?S1 = "snd (media E i (StartScreenShare src) S)"
    let ?S2 = "snd (start_screen_audio E i audio ?S1)"
    let ?S3 = "\<lambda>b. snd (cs_send E (ScreenShareStarted (cs_room S) (u_id (cs_user S)) b) ?S2)"
    have 1: "gentle S ?S1" "cs_audio ?S1 = Some i" using Some by (auto intro: gentle_media)
    have 2: "gentle S ?S2" "cs_audio ?S2 = Some i"
      using start_screen_audio_quiet [OF 1(2)] 1(1) gentle_trans by blast+
    have 3: "gentle S (?S3 b)" "cs_audio (?S3 b) = Some i" for b using 2 by (auto intro: gentle_cs_send)
    have "gentle S (media_void i StopScreenShare (media_void i StopScreenAudio (?S3 b)))" for b
      using 3 by (intro gentle_media) auto
    then show ?thesis using 1 2 3 Some
      by (auto simp: cs_start_screen_share_def Let_def split_beta split: prod.split sum.split)
  qed (simp add: cs_start_screen_share_def Let_def)
qed

lemma gentle_quality: "gentle S (snd (cs_set_video_quality E s fps S))"
proof -
  let ?S1 = "snd (media_if E (cs_audio S) (SetCaptureOptions \<lparr>ca_max_size = s, ca_max_fps = fps\<rparr>) S)"
  have 1: "gentle S ?S1" "cs_audio ?S1 = cs_audio S" by (auto intro: gentle_media_if)
  show ?thesis
    using 1 by (auto simp: cs_set_video_quality_def use_recommended_def Let_def split_beta
        intro!: gentle_media_if gentle_state split: prod.split sum.split)
qed

lemma gentle_media_callbacks:
  "gentle S (on_local_answer E sdp S)" "gentle S (on_local_candidate E cand mid mline S)"
  "gentle S (on_remote_audio u active S)" "gentle S (on_remote_video frame S)"
  "gentle S (on_screen_share_ended E reason S)" "gentle S (on_media_state st S)"
  by (auto simp: on_local_answer_def on_local_candidate_def on_remote_audio_def on_remote_video_def
      on_screen_share_ended_def on_media_state_def gentle_share
      intro!: gentle_intros split: media_state.split)

lemma gentle_levels: "gentle S (on_levels levels S)"
proof -
  have fold_quiet: "(\<And>l T. gentle T (f l T)) \<Longrightarrow> gentle S (fold f ls S)" for f :: "audio_level \<Rightarrow> _" and ls S
    by (induction ls arbitrary: S) (auto intro: gentle_trans)
  have "gentle S (fold level_of levels S)" by (rule fold_quiet) (auto simp: level_of_def)
  moreover have "gentle (fold level_of levels S) (fold (\<lambda>l S. if al_user_id l = []
      then tell (TellLocalLevel (al_level l) (al_speaking l)) S else S) levels (fold level_of levels S))"
    by (rule fold_quiet) auto
  ultimately show ?thesis by (auto simp: on_levels_def intro: gentle_trans)
qed

lemma gentle_probe: "gentle S (cs_probe E S)"
proof -
  have "list_all (harmless audio) (map Wire (snd (snd (probe b now g))))" for audio b now g
    by (auto simp: probe_def sg_send_def harmless_def signs_in_def Let_def split: option.split)
  then have "gentle (S\<lparr>cs_signaling := g\<rparr>)
      (jot (map Wire (snd (snd (probe b now g')))) (S\<lparr>cs_signaling := g\<rparr>))" for b now g g'
    by (rule gentle_jot)
  then show ?thesis
    unfolding cs_probe_def Let_def split_beta by (rule gentle_trans [rotated]) auto
qed

lemma gentle_tick: "gentle S (metrics_tick E S)"
proof -
  have "gentle S (cs_probe E (report_link S))"
    by (rule gentle_trans [OF _ gentle_probe]) (auto intro: gentle_helpers)
  then show ?thesis by (auto simp: metrics_tick_def Let_def intro: gentle_told split: option.split)
qed

lemma gentle_signals:
  "gentle S (handle_user_joined u S)" "gentle S (handle_user_left uid S)" "gentle S (handle_notice n S)"
  "gentle S (handle_screen_share_started uid w S)" "gentle S (handle_screen_share_stopped uid S)"
  "gentle S (handle_ice_candidate E from cand mid mline S)"
  by (auto simp: handle_user_joined_def handle_user_left_def handle_notice_def
      handle_screen_share_started_def handle_screen_share_stopped_def handle_ice_candidate_def Let_def
      intro!: gentle_intros split: option.split)

section \<open>The invariant\<close>

text \<open>What the log says of the media sessions: the last word on a microphone, which sessions were closed,
  and that nothing is asked of one after that.\<close>

fun last_mic :: "nat \<Rightarrow> call_output list \<Rightarrow> bool option" where
  "last_mic i [] = None"
| "last_mic i (Media j (SetMicrophoneMuted b) # xs) =
     (case last_mic i xs of None \<Rightarrow> if j = i then Some b else None | Some c \<Rightarrow> Some c)"
| "last_mic i (x # xs) = last_mic i xs"

definition closed_sessions :: "call_output list \<Rightarrow> nat set" where
  "closed_sessions xs = {i. Media i CloseMedia \<in> set xs}"

definition known_sessions :: "call_output list \<Rightarrow> nat set" where
  "known_sessions xs = {i. \<exists>c. Media i c \<in> set xs}"

fun never_after_close :: "nat set \<Rightarrow> call_output list \<Rightarrow> bool" where
  "never_after_close C [] = True"
| "never_after_close C (Media i c # xs) =
     (i \<notin> C \<and> never_after_close (if c = CloseMedia then insert i C else C) xs)"
| "never_after_close C (x # xs) = never_after_close C xs"

lemma last_mic_append:
  "last_mic i (xs @ ys) = (case last_mic i ys of None \<Rightarrow> last_mic i xs | Some b \<Rightarrow> Some b)"
  by (induction i xs rule: last_mic.induct) (auto split: option.splits)

lemma closed_simps [simp]:
  "closed_sessions [] = {}" "closed_sessions (xs @ ys) = closed_sessions xs \<union> closed_sessions ys"
  "closed_sessions (Media i c # xs) = (if c = CloseMedia then insert i (closed_sessions xs) else closed_sessions xs)"
  "known_sessions [] = {}" "known_sessions (xs @ ys) = known_sessions xs \<union> known_sessions ys"
  "known_sessions (Media i c # xs) = insert i (known_sessions xs)"
  by (auto simp: closed_sessions_def known_sessions_def)

lemma never_after_close_append:
  "never_after_close C (xs @ ys) \<longleftrightarrow> never_after_close C xs \<and> never_after_close (C \<union> closed_sessions xs) ys"
proof (induction C xs rule: never_after_close.induct)
  case (2 C i c xs)
  have "(if c = CloseMedia then insert i C else C) \<union> closed_sessions xs
      = C \<union> closed_sessions (Media i c # xs)" by auto
  then show ?case using 2 by simp
qed (simp_all add: closed_sessions_def)

lemma harmless_log:
  assumes "list_all (harmless audio) out"
  shows "last_mic i out = None" "closed_sessions out = {}"
    "known_sessions out \<subseteq> set_option audio"
    "(\<And>i. audio = Some i \<Longrightarrow> i \<notin> C) \<Longrightarrow> never_after_close C out"
proof -
  have "last_mic i out = None \<and> closed_sessions out = {} \<and> known_sessions out \<subseteq> set_option audio
    \<and> ((\<forall>i. audio = Some i \<longrightarrow> i \<notin> C) \<longrightarrow> never_after_close C out)" using assms
  proof (induction out)
    case (Cons x xs)
    show ?case
    proof (cases x)
      case (Media k c)
      have ih: "last_mic i xs = None" "closed_sessions xs = {}" "known_sessions xs \<subseteq> set_option audio"
        "(\<forall>i. audio = Some i \<longrightarrow> i \<notin> C) \<longrightarrow> never_after_close C xs"
        and c: "audio = Some k" "c \<noteq> CloseMedia" "\<And>b. c \<noteq> SetMicrophoneMuted b"
        using Cons Media by (auto simp: harmless_def)
      have "last_mic i (x # xs) = last_mic i xs" using c(3) by (cases c) (auto simp: Media)
      then show ?thesis using ih c by (simp add: Media)
    qed (use Cons in \<open>simp_all add: harmless_def closed_sessions_def known_sessions_def\<close>)
  qed simp
  then show "last_mic i out = None" "closed_sessions out = {}" "known_sessions out \<subseteq> set_option audio"
    "(\<And>i. audio = Some i \<Longrightarrow> i \<notin> C) \<Longrightarrow> never_after_close C out" by auto
qed

definition call_ok :: "call_session \<Rightarrow> bool" where
  "call_ok S \<longleftrightarrow>
     (\<forall>i. cs_audio S = Some i \<longrightarrow>
        last_mic i (cs_log S) = Some (cs_muted S) \<and> i \<notin> closed_sessions (cs_log S) \<and> i < cs_sessions S)
   \<and> (\<forall>i \<in> known_sessions (cs_log S). i < cs_sessions S)
   \<and> never_after_close {} (cs_log S)"

text \<open>What a step may do: keep the invariant, and sign nobody in when nobody asked to be.\<close>

definition proceeds :: "call_session \<Rightarrow> call_session \<Rightarrow> bool" where
  "proceeds S T \<longleftrightarrow> (call_ok S \<longrightarrow> call_ok T)
     \<and> (cs_pending_username S = [] \<longrightarrow> cs_pending_username T = []
         \<and> (\<exists>out. cs_log T = cs_log S @ out \<and> list_all (\<lambda>x. \<not> signs_in x) out))"

lemma proceeds_refl [simp, intro]: "proceeds S S"
  by (simp add: proceeds_def)

lemma proceeds_trans: "proceeds S T \<Longrightarrow> proceeds T U \<Longrightarrow> proceeds S U"
  by (fastforce simp: proceeds_def)

lemma call_ok_jot:
  assumes "call_ok S" "list_all (harmless (cs_audio S)) out"
    "cs_log T = cs_log S @ out" "cs_audio T = cs_audio S" "cs_muted T = cs_muted S" "cs_sessions T = cs_sessions S"
  shows "call_ok T"
  using assms(1) harmless_log [OF assms(2)] unfolding call_ok_def assms(3-6)
  by (auto simp: last_mic_append never_after_close_append)

lemma gentle_proceeds:
  assumes "gentle S T"
  shows "proceeds S T"
proof -
  obtain out where out: "cs_log T = cs_log S @ out" "list_all (harmless (cs_audio S)) out"
    and view: "call_view T = call_view S" using assms by (auto simp: gentle_def)
  have "harmless audio x \<Longrightarrow> \<not> signs_in x" for audio x
    by (cases x) (simp_all add: harmless_def signs_in_def)
  then have "list_all (\<lambda>x. \<not> signs_in x) out" using out(2) by (auto simp: list_all_iff)
  moreover have "call_ok S \<longrightarrow> call_ok T"
    using call_ok_jot [OF _ out(2,1)] view by (simp add: call_view_def)
  ultimately show ?thesis using out(1) view by (auto simp: proceeds_def call_view_def)
qed

lemma proceeds_quiet: "proceeds S T \<Longrightarrow> gentle T U \<Longrightarrow> proceeds S U"
  using gentle_proceeds proceeds_trans by blast

lemma proceeds_rename:
  "cs_audio T = cs_audio S \<Longrightarrow> cs_muted T = cs_muted S \<Longrightarrow> cs_sessions T = cs_sessions S \<Longrightarrow>
   cs_log T = cs_log S \<Longrightarrow> cs_pending_username T \<in> {[], cs_pending_username S} \<Longrightarrow> proceeds S T"
  by (auto simp: proceeds_def call_ok_def)

text \<open>The session in hand is let go and closed; whatever else changes with it.\<close>

lemma proceeds_close:
  assumes "cs_audio T = None" "cs_sessions T = cs_sessions S" "cs_log T = cs_log S"
    "cs_pending_username T \<in> {[], cs_pending_username S}"
  shows "proceeds S (media_void_if (cs_audio S) CloseMedia T)"
  using assms by (auto simp: proceeds_def call_ok_def media_void_if_def media_void_def jot_def
      last_mic_append never_after_close_append signs_in_def split: option.split)

lemma proceeds_dropped:
  assumes "cs_audio T = None" "cs_sessions T = cs_sessions S" "cs_log T = cs_log S"
    "cs_pending_username T \<in> {[], cs_pending_username S}"
  shows "proceeds S T"
  using assms by (auto simp: proceeds_def call_ok_def)

lemma proceeds_mute:
  "proceeds S (media_void_if (cs_audio S) (SetMicrophoneMuted b) (S\<lparr>cs_muted := b\<rparr>))"
  by (auto simp: proceeds_def call_ok_def media_void_if_def media_void_def jot_def
      last_mic_append never_after_close_append signs_in_def split: option.split)

lemma proceeds_created:
  assumes "cs_audio S = None"
  shows "proceeds S (media_void (cs_sessions S) (SetMicrophoneMuted (cs_muted S))
    (jot [MediaCreated (cs_sessions S) opts] (S\<lparr>cs_sessions := cs_sessions S + 1, cs_audio := Some (cs_sessions S)\<rparr>)))"
proof -
  have "cs_sessions S \<notin> closed_sessions xs" if "\<forall>i\<in>known_sessions xs. i < cs_sessions S" for xs
    using that by (auto simp: known_sessions_def closed_sessions_def)
  moreover have "closed_sessions [MediaCreated j opts] = {}" "known_sessions [MediaCreated j opts] = {}" for j
    by (simp_all add: closed_sessions_def known_sessions_def)
  ultimately show ?thesis
    by (auto simp: proceeds_def call_ok_def media_void_def jot_def
      last_mic_append never_after_close_append signs_in_def closed_sessions_def known_sessions_def)
qed

section \<open>Every operation\<close>

lemma gentle_device:
  assumes "gentle S T" "cs_audio T = Some i" "\<And>d. ordinary (f d)"
  shows "gentle S (if d = [] then T else report_failure (media E i (f d) T))"
  using assms by (auto intro!: gentle_report_failure gentle_media)

lemma proceeds_ensure: "proceeds S (snd (ensure_media_session E S))"
proof (cases "cs_audio S = None \<and> ce_factory E (cs_log S) (co_media (cs_options S)) = None")
  case True
  let ?i = "cs_sessions S" and ?options = "co_media (cs_options S)"
  let ?S1 = "media_void ?i (SetMicrophoneMuted (cs_muted S)) (jot [MediaCreated ?i ?options]
      (S\<lparr>cs_sessions := ?i + 1, cs_audio := Some ?i\<rparr>))"
  let ?S2 = "apply_volumes E ?i (cs_volumes ?S1) ?S1"
  let ?in = "mo_input_device (co_media (cs_options ?S2))"
  let ?out = "mo_output_device (co_media (cs_options ?S2))"
  let ?S3 = "if ?in = [] then ?S2 else report_failure (media E ?i (SetInputDevice ?in) ?S2)"
  let ?S4 = "if ?out = [] then ?S3 else report_failure (media E ?i (SetOutputDevice ?out) ?S3)"
  have 1: "proceeds S ?S1" using True by (intro proceeds_created) simp
  have a1: "cs_audio ?S1 = Some ?i" by simp
  have 2: "gentle ?S1 ?S2" using gentle_volumes [OF a1] by simp
  have a2: "cs_audio ?S2 = Some ?i" using gentle_audio [OF 2] a1 by simp
  have 3: "gentle ?S1 ?S3" by (rule gentle_device [where f = SetInputDevice, OF 2 a2 ordinary_calls(4)])
  have a3: "cs_audio ?S3 = Some ?i" using gentle_audio [OF 3] a1 by simp
  have 4: "gentle ?S1 ?S4" by (rule gentle_device [where f = SetOutputDevice, OF 3 a3 ordinary_calls(5)])
  have "snd (ensure_media_session E S) = ?S4"
    using True by (simp add: ensure_media_session_def Let_def)
  then show ?thesis using proceeds_quiet [OF 1 4] by simp
qed (auto simp: ensure_media_session_def split: option.split)

lemma proceeds_offer: "proceeds S (handle_offer E from sdp S)"
proof (cases "from = kSfuUserId")
  case True
  obtain r T where e: "ensure_media_session E S = (r, T)" by force
  have T: "proceeds S T" using proceeds_ensure [of S E] e by simp
  have "gentle T (handle_offer E from sdp S)" if "r = Inr x" for x
    using that True e by (auto simp: handle_offer_def intro!: gentle_report_failure gentle_media split: option.split)
  moreover have "gentle T (handle_offer E from sdp S)" if "r = Inl x" for x
    using that True e by (auto simp: handle_offer_def intro: gentle_helpers)
  ultimately show ?thesis using proceeds_quiet [OF T] by (cases r) auto
qed (simp add: handle_offer_def)

lemma proceeds_send:
  "type_of m \<noteq> MT_Authenticate \<Longrightarrow> proceeds S T \<Longrightarrow> proceeds S (snd (cs_send E m T))"
  by (rule proceeds_quiet [OF _ gentle_cs_send [OF _ gentle_refl]])

lemma proceeds_helpers:
  "proceeds S T \<Longrightarrow> proceeds S (tell t T)"
  "proceeds S T \<Longrightarrow> proceeds S (cs_set_state st detail T)"
  "proceeds S T \<Longrightarrow> proceeds S (publish_participants T)"
  "proceeds S T \<Longrightarrow> proceeds S (report e T)"
  "proceeds S T \<Longrightarrow> proceeds S (report_link T)"
  "proceeds S T \<Longrightarrow> proceeds S (cs_probe E T)"
  "proceeds S T \<Longrightarrow> proceeds S (upd_call_participant u f T)"
  by (auto intro: proceeds_quiet gentle_helpers gentle_probe gentle_state)

lemma proceeds_report_failure: "proceeds S (snd rT) \<Longrightarrow> proceeds S (report_failure rT)"
  by (rule proceeds_quiet [OF _ gentle_report_failure [OF gentle_refl]]) 

lemma proceeds_authenticated: "proceeds S (handle_authenticated E u S)"
proof -
  let ?T = "S\<lparr>cs_user := u, cs_participants := [], cs_screen_sharer := [], cs_audio := None\<rparr>"
  let ?T1 = "cs_set_state CallAuthenticated (u_id u) (tell (TellScreenShare [])
      (media_void_if (cs_audio S) CloseMedia ?T))"
  have 1: "proceeds S ?T1" by (intro proceeds_helpers proceeds_close) simp_all
  show ?thesis
  proof (cases "cs_room S = []")
    case True
    then show ?thesis using 1 by (simp add: handle_authenticated_def Let_def)
  next
    case False
    obtain r T2 where sent: "cs_send E (JoinRoom (cs_room S) (u_id u) (cs_display_name S)) ?T1 = (r, T2)" by force
    have "proceeds S (snd (cs_send E (JoinRoom (cs_room S) (u_id u) (cs_display_name S)) ?T1))"
      by (rule proceeds_send [OF _ 1]) simp
    then have 2: "proceeds S T2" using sent by simp
    show ?thesis
    proof (cases r)
      case (Inl e)
      then show ?thesis using False sent 2
        by (simp add: handle_authenticated_def Let_def proceeds_helpers)
    next
      case (Inr x)
      then show ?thesis using False sent 2
        by (auto simp: handle_authenticated_def Let_def intro!: proceeds_report_failure proceeds_send)
    qed
  qed
qed

lemma proceeds_muted: "proceeds S (cs_handle_mute b uid by_uid S)"
proof -
  let ?S = "upd_call_participant uid (\<lambda>p. p\<lparr>cp_muted := b\<rparr>) S"
  have "proceeds S (media_void_if (cs_audio ?S) (SetMicrophoneMuted b) (?S\<lparr>cs_muted := b\<rparr>))"
    by (rule proceeds_trans [OF gentle_proceeds proceeds_mute]) (auto intro: gentle_state)
  moreover have "proceeds S ?S" by (intro proceeds_helpers proceeds_refl)
  ultimately show ?thesis
    by (auto simp: cs_handle_mute_def Let_def media_void_if_def upd_call_participant_def
        intro!: proceeds_helpers)
qed

lemma proceeds_restricted: "proceeds S (handle_user_restricted uid r by_uid reason S)"
  by (auto simp: handle_user_restricted_def Let_def upd_call_participant_def
      intro!: proceeds_helpers proceeds_rename)

lemma proceeds_kicked: "proceeds S (handle_user_kicked uid reason S)"
proof (cases "uid = u_id (cs_user S)")
  case True
  let ?T = "S\<lparr>cs_room := [], cs_display_name := [], cs_participants := [], cs_screen_sharer := [],
              cs_muted := False, cs_audio := None\<rparr>"
  have "proceeds S (media_void_if (cs_audio S) CloseMedia ?T)" by (rule proceeds_close) simp_all
  then show ?thesis using True
    by (auto simp: handle_user_kicked_def Let_def intro!: proceeds_helpers)
next
  case False
  then show ?thesis
    by (auto simp: handle_user_kicked_def Let_def media_void_if_def
        intro!: proceeds_helpers proceeds_rename)
qed

lemma proceeds_ended: "proceeds S (handle_session_ended reason S)"
  by (auto simp: handle_session_ended_def Let_def intro!: proceeds_helpers proceeds_close)

lemma proceeds_signal: "proceeds S (handle_signal E m S)"
  by (cases m) (simp_all add: proceeds_authenticated proceeds_muted proceeds_restricted proceeds_kicked
      proceeds_ended proceeds_offer gentle_proceeds gentle_signals gentle_helpers)

lemma proceeds_sign_in:
  assumes "cs_pending_username S \<noteq> []"
  shows "proceeds S (snd (cs_send E m S))"
proof -
  have "\<exists>out. cs_log (snd (cs_send E m S)) = cs_log S @ out \<and> closed_sessions out = {}
      \<and> known_sessions out = {} \<and> (\<forall>i. last_mic i out = None) \<and> (\<forall>C. never_after_close C out)"
    by (auto simp: cs_send_def sg_send_def jot_def Let_def split_beta closed_sessions_def known_sessions_def
        split: option.split)
  moreover have "cs_audio (snd (cs_send E m S)) = cs_audio S" "cs_muted (snd (cs_send E m S)) = cs_muted S"
    "cs_sessions (snd (cs_send E m S)) = cs_sessions S"
    by (simp_all add: cs_send_def Let_def split_beta)
  ultimately show ?thesis
    using assms by (auto simp: proceeds_def call_ok_def last_mic_append never_after_close_append)
qed

lemma proceeds_link_down:
  "proceeds S (let S = report_link S
     in if cs_pending_username S = [] \<and> u_id (cs_user S) = [] then S else cs_set_state st detail S)"
  unfolding Let_def by (simp add: proceeds_helpers)

lemma proceeds_signaling_state: "proceeds S (handle_signaling_state E st detail S)"
proof (cases st)
  case Sg_Connected
  let ?T = "if cs_pending_username S = [] then S
    else report_failure (cs_send E (Authenticate (cs_pending_username S) (cs_pending_password S)) S)"
  have "proceeds S ?T" by (simp add: proceeds_report_failure proceeds_sign_in)
  then have "proceeds S (report_link (cs_probe E ?T))" by (intro proceeds_helpers)
  then show ?thesis using Sg_Connected by (simp add: handle_signaling_state_def Let_def)
qed (simp_all add: handle_signaling_state_def proceeds_link_down)

lemma proceeds_wire:
  assumes "\<not> signs_in (Wire w)"
  shows "proceeds S (jot [Wire w] S)"
  by (rule gentle_proceeds, rule gentle_jot) (use assms in \<open>simp add: harmless_def\<close>)

lemma proceeds_deliver:
  "list_all (\<lambda>w. \<not> signs_in (Wire w)) out \<Longrightarrow> proceeds S (deliver E out S)"
proof (induction out arbitrary: S)
  case (Cons w out)
  have out: "proceeds T (deliver E out T)" for T using Cons by simp
  have "proceeds S (deliver E (w # out) S)" if "deliver E (w # out) S = deliver E out T" "proceeds S T" for T
    using that out proceeds_trans by metis
  moreover have "\<exists>T. deliver E (w # out) S = deliver E out T \<and> proceeds S T"
  proof (cases w)
    case (StateTold st detail)
    then show ?thesis using proceeds_signaling_state by auto
  next
    case (MessageTold m)
    then show ?thesis using proceeds_signal by auto
  next
    case (RoundTripTold ms)
    then show ?thesis using proceeds_helpers(5) [OF proceeds_refl] by auto
  qed (use Cons.prems proceeds_wire in auto)
  ultimately show ?case by auto
qed simp

text \<open>The signaling client itself signs nobody in.\<close>

lemma unsigned_outputs [simp]:
  "\<not> signs_in (Wire (StateTold st d))" "\<not> signs_in (Wire (SocketOpens n u))"
  "\<not> signs_in (Wire (SocketCloses n))" "\<not> signs_in (Wire (MessageTold m))"
  "\<not> signs_in (Wire (RoundTripTold ms))"
  by (simp_all add: signs_in_def)

definition signs_nobody_in :: "signaling_effect \<Rightarrow> bool" where
  "signs_nobody_in effect \<longleftrightarrow> list_all (\<lambda>w. \<not> signs_in (Wire w)) (snd effect)"

lemma signaling_signs_nobody_in:
  "signs_nobody_in (sg_set_state st detail g)" "signs_nobody_in (open_socket g)"
  "signs_nobody_in (snd (sg_connect g))" "signs_nobody_in (sg_disconnect g)"
  "signs_nobody_in (on_open url g)" "signs_nobody_in (handle_drop detail now g)"
  "signs_nobody_in (handle_payload b now parsed g)" "signs_nobody_in (retry_run g)"
proof -
  have set_state: "signs_nobody_in (sg_set_state st detail g)" for st detail g
    by (simp add: signs_nobody_in_def sg_set_state_def)
  have "list_all (\<lambda>w. \<not> signs_in (Wire w)) (snd (sg_send b (Pong nonce) g))" for nonce
    by (simp add: sg_send_def signs_in_def split: option.split)
  then show "signs_nobody_in (handle_payload b now parsed g)"
    by (auto simp: handle_payload_def signs_nobody_in_def Let_def split: sum.split option.split prod.split)
      (metis snd_conv)+
  have opens: "signs_nobody_in (open_socket g)" for g
    using set_state by (simp add: open_socket_def signs_nobody_in_def Let_def split_beta)
  then show "signs_nobody_in (open_socket g)" .
  show "signs_nobody_in (snd (sg_connect g))"
    using opens by (auto simp: sg_connect_def Let_def signs_nobody_in_def)
  show "signs_nobody_in (sg_disconnect g)"
    using set_state by (simp add: sg_disconnect_def signs_nobody_in_def Let_def split_beta split: option.split)
  show "signs_nobody_in (handle_drop detail now g)"
    using set_state by (auto simp: handle_drop_def Let_def signs_nobody_in_def)
  show "signs_nobody_in (retry_run g)"
    using opens by (simp add: retry_run_def Let_def signs_nobody_in_def)
  show "signs_nobody_in (on_open url g)" using set_state by (simp add: on_open_def)
  show "signs_nobody_in (sg_set_state st detail g)" by (rule set_state)
qed

lemma signaling_step_signs_nobody_in: "signs_nobody_in (signaling_step ev g)"
  by (cases ev) (simp_all add: signaling_signs_nobody_in split: option.split, simp_all add: signs_nobody_in_def)

lemma proceeds_on_wire:
  assumes "signs_nobody_in effect"
  shows "proceeds S (on_wire E effect S)"
proof -
  have "proceeds S (S\<lparr>cs_signaling := fst effect\<rparr>)" by (rule proceeds_rename) simp_all
  then show ?thesis unfolding on_wire_def
    by (rule proceeds_trans) (rule proceeds_deliver, use assms in \<open>simp add: signs_nobody_in_def\<close>)
qed

lemma proceeds_open: "proceeds S (snd (open_signaling E S))"
proof -
  obtain r effect where c: "sg_connect (cs_signaling S) = (r, effect)" by (rule prod.exhaust)
  then have "proceeds S (on_wire E effect S)"
    using proceeds_on_wire signaling_signs_nobody_in(3) [of "cs_signaling S"] by simp
  moreover have "proceeds T (T\<lparr>cs_running := True\<rparr>)" for T by (rule proceeds_rename) simp_all
  ultimately show ?thesis using c
    by (auto simp: open_signaling_def intro: proceeds_trans split: sum.split)
qed

lemma proceeds_hang_up: "proceeds S (on_wire E (sg_disconnect (cs_signaling S)) S)"
  by (rule proceeds_on_wire, rule signaling_signs_nobody_in)

lemma proceeds_probe_server: "proceeds S (snd (probe_server E S))"
  by (auto simp: probe_server_def intro: proceeds_open proceeds_trans [OF proceeds_hang_up]
      split: signaling_state.split)

lemma proceeds_retest: "proceeds S (snd (retest_server E S))"
  by (auto simp: retest_server_def refuse_def intro: proceeds_trans [OF proceeds_hang_up proceeds_probe_server])

lemma proceeds_set_url: "proceeds S (cs_set_signaling_url E url S)"
  unfolding cs_set_signaling_url_def by (rule proceeds_trans [OF _ proceeds_retest]) (rule proceeds_rename, simp_all)

lemma proceeds_disconnect: "proceeds S (cs_disconnect E S)"
proof -
  let ?T = "S\<lparr>cs_running := False, cs_audio := None, cs_participants := [], cs_room := [],
    cs_user := default_user, cs_pending_username := [], cs_pending_password := []\<rparr>"
  let ?S1 = "media_void_if (cs_audio S) CloseMedia ?T"
  have "proceeds S ?S1" by (rule proceeds_close) simp_all
  then have "proceeds S (on_wire E (sg_disconnect (cs_signaling ?S1)) ?S1)"
    by (rule proceeds_trans) (rule proceeds_hang_up)
  then show ?thesis unfolding cs_disconnect_def Let_def by (rule proceeds_helpers)
qed

lemma proceeds_join: "proceeds S (snd (cs_join E room d S))"
proof -
  have "proceeds S (S\<lparr>cs_room := room, cs_display_name := d\<rparr>)" by (rule proceeds_rename) simp_all
  then show ?thesis by (auto simp: cs_join_def Let_def intro: proceeds_send)
qed

lemma proceeds_leave: "proceeds S (snd (cs_leave E S))"
proof -
  let ?T = "S\<lparr>cs_room := [], cs_participants := [], cs_muted := False, cs_audio := None\<rparr>"
  have "proceeds S ?T" by (rule proceeds_dropped) simp_all
  moreover have "proceeds S (snd (cs_send E (LeaveRoom room uid) (cs_set_state CallAuthenticated d
      (publish_participants (media_void_if (cs_audio S) CloseMedia ?T)))))" for room uid d
    by (rule proceeds_send, simp, intro proceeds_helpers, rule proceeds_close) simp_all
  ultimately show ?thesis by (simp add: cs_leave_def Let_def)
qed

lemma proceeds_set_muted: "proceeds S (snd (cs_set_muted E b S))"
  by (auto simp: cs_set_muted_def set_muted_locked_def set_muted_rest_def refuse_def Let_def
      intro!: proceeds_send proceeds_mute)

lemma proceeds_step:
  assumes "\<And>u p. e \<noteq> DoConnectAndAuthenticate u p"
  shows "proceeds S (call_step E e S)"
proof (cases e)
  case (OnSignaling ev)
  then show ?thesis by (simp add: proceeds_on_wire signaling_step_signs_nobody_in)
qed (use assms in \<open>auto intro: gentle_proceeds gentle_requests gentle_settings gentle_share gentle_quality
  gentle_administer gentle_media_callbacks gentle_levels gentle_tick proceeds_probe_server proceeds_retest
  proceeds_set_url proceeds_disconnect proceeds_join proceeds_leave proceeds_set_muted\<close>)

lemma connect_keeps_call_ok:
  assumes "call_ok S"
  shows "call_ok (snd (cs_connect_and_authenticate E username password S))"
proof (cases "username = [] \<or> password = []")
  case False
  let ?S1 = "S\<lparr>cs_pending_username := username, cs_pending_password := password\<rparr>"
  let ?S2 = "cs_set_state CallConnecting (sg_next_url (cs_signaling ?S1)) ?S1"
  let ?c = "\<lambda>S. case open_signaling E S of
      (Inl e, S) \<Rightarrow> (Inl e, cs_set_state CallFailed (err_message e) S) | (Inr _, S) \<Rightarrow> (Inr (), S)"
  have "call_ok ?S1" using assms by (simp add: call_ok_def)
  then have 2: "call_ok ?S2" using proceeds_helpers(2) [OF proceeds_refl] by (auto simp: proceeds_def)
  have keeps: "call_ok U" if "call_ok T" "proceeds T U" for T U using that by (simp add: proceeds_def)
  have state: "call_ok (cs_set_state st d T)" if "call_ok T" for st d T
    using keeps [OF that proceeds_helpers(2) [OF proceeds_refl]] .
  have opens: "call_ok (snd (?c T))" if "call_ok T" for T
  proof (cases "open_signaling E T")
    case (Pair r U)
    then have "call_ok U" using keeps [OF that proceeds_open, of E] by simp
    then show ?thesis using state Pair by (simp split: sum.split)
  qed
  have "cs_pending_username ?S2 \<noteq> []" using False by (simp add: cs_set_state_def tell_def jot_def)
  then have sends: "call_ok (snd (cs_send E (Authenticate username password) ?S2))"
    using keeps [OF 2 proceeds_sign_in] by simp
  have sent: "call_ok U" if "cs_send E (Authenticate username password) ?S2 = (r, U)" for r U
    using that sends by simp
  show ?thesis
    using False 2 sent state opens [OF 2] opens [OF keeps [OF 2 proceeds_hang_up]]
    by (auto simp: cs_connect_and_authenticate_def Let_def split: signaling_state.split prod.split sum.split)
qed (use assms in \<open>simp add: cs_connect_and_authenticate_def refuse_def\<close>)

lemma call_step_ok: "call_ok S \<Longrightarrow> call_ok (call_step E e S)"
proof (cases "\<exists>u p. e = DoConnectAndAuthenticate u p")
  case False
  then show "call_ok S \<Longrightarrow> call_ok (call_step E e S)" using proceeds_step [of e S E] by (simp add: proceeds_def)
qed (auto intro: connect_keeps_call_ok)

interpretation call_machine: invariant_machine "call_step E" call_ok for E
  by unfold_locales (rule call_step_ok)

lemma new_call_ok: "call_ok (new_call_session options url)"
  by (simp add: new_call_session_def call_ok_def known_sessions_def)

end
