(* ===== verification/CallProperties.thy ===== *)
theory CallProperties
  imports CallProofs
begin

text \<open>
  The properties of a call: over every run of requests and events from a new session for the invariants,
  and the exact log for the operations whose order matters.
\<close>

section \<open>Over every run\<close>



definition asks_to_sign_in :: "call_event \<Rightarrow> bool" where
  "asks_to_sign_in e = (case e of DoConnectAndAuthenticate u p \<Rightarrow> True | _ \<Rightarrow> False)"

lemma proceeds_run:
  "list_all (\<lambda>e. \<not> asks_to_sign_in e) evs \<Longrightarrow> proceeds S (call_run E evs S)"
proof (induction evs arbitrary: S)
  case (Cons e evs)
  have "e \<noteq> DoConnectAndAuthenticate u p" for u p using Cons.prems by (auto simp: asks_to_sign_in_def)
  then have "proceeds S (call_step E e S)" by (rule proceeds_step)
  moreover have "proceeds (call_step E e S) (call_run E evs (call_step E e S))" using Cons by simp
  ultimately show ?case unfolding call_run_def fold_Cons comp_apply by (rule proceeds_trans)
qed (simp add: call_run_def)

lemma disconnect_forgets: "cs_pending_username (cs_disconnect E S) = []"
proof -
  let ?T = "S\<lparr>cs_running := False, cs_audio := None, cs_participants := [], cs_room := [],
    cs_user := default_user, cs_pending_username := [], cs_pending_password := []\<rparr>"
  let ?S1 = "media_void_if (cs_audio S) CloseMedia ?T"
  have "cs_pending_username ?S1 = []" by (simp add: media_void_if_def media_void_def jot_def split: option.split)
  moreover have "proceeds ?S1 (on_wire E (sg_disconnect (cs_signaling ?S1)) ?S1)" by (rule proceeds_hang_up)
  ultimately have "cs_pending_username (on_wire E (sg_disconnect (cs_signaling ?S1)) ?S1) = []"
    unfolding proceeds_def by blast
  then show ?thesis by (simp add: cs_disconnect_def Let_def cs_set_state_def tell_def jot_def)
qed

text \<open>C17. Nobody is signed in unasked. After \<open>disconnect()\<close>, and before the first sign-in, no run of
  requests and events in which \<open>connect_and_authenticate\<close> is not asked sends an authenticate frame:
  sockets that reopen, reconnections, server tests and whatever the server sends included. The
  credentials a reconnection uses are gone.\<close>

theorem signed_out_stays_signed_out:
  assumes "list_all (\<lambda>e. \<not> asks_to_sign_in e) evs"
    "S \<in> {new_call_session options url, cs_disconnect E T}"
  shows "\<exists>out. cs_log (call_run E evs S) = cs_log S @ out \<and> list_all (\<lambda>x. \<not> signs_in x) out
    \<and> cs_pending_username (call_run E evs S) = []"
proof -
  have "cs_pending_username S = []" using assms(2) disconnect_forgets by (auto simp: new_call_session_def)
  then show ?thesis using proceeds_run [OF assms(1), of S E] unfolding proceeds_def by blast
qed

section \<open>Concrete calls\<close>

text \<open>An environment for the runs below: the socket is open, nothing fails.\<close>

definition fine :: call_environment where
  "fine = \<lparr>ce_is_open = (\<lambda>log. True), ce_now = (\<lambda>log. 0), ce_answer = (\<lambda>log i c. None),
     ce_factory = (\<lambda>log opts. None)\<rparr>"

definition ana :: user where
  "ana = default_user\<lparr>u_id := ''u1'', u_display_name := ''Ana''\<rparr>"

definition desk_options :: call_options where
  "desk_options = \<lparr>co_media = default_media_options, co_auto_bitrate = True,
     co_screen_audio_mode = AudioSystem\<rparr>"

definition from_server :: "message \<Rightarrow> call_event" where
  "from_server m = OnSignaling (SocketText 0 True 0 (Inr m))"

text \<open>Ana connected, signed in and in the room \<open>PARTY\<close>, with media.\<close>

definition in_the_room :: "call_event list" where
  "in_the_room = [DoConnectAndAuthenticate ''ana'' ''secret'', OnSignaling (SocketOpen 0),
     from_server (Authenticated ana ''t'' 0), DoJoin ''PARTY'' ''Ana'', from_server (UserJoined ''PARTY'' ana),
     from_server (Offer ''PARTY'' kSfuUserId ''u1'' ''sdp'')]"

definition party :: call_session where
  "party = call_run fine in_the_room (new_call_session desk_options ''ws://party/'')"

lemmas run_defs = party_def call_run_def in_the_room_def from_server_def fine_def ana_def desk_options_def

lemma party_exact:
  "cs_room party = ''PARTY''" "cs_audio party = Some 0" "u_id (cs_user party) = ''u1''"
  "cs_muted party = False" "cs_screen_sharer party = []" "cs_sessions party = 1"
  "map fst (cs_participants party) = [''u1'']"
  by code_simp+

text \<open>Ana signs out; the server is tested from the sign-in screen and its socket opens.\<close>

theorem signed_out_stays_signed_out_witness:
  "let S = cs_disconnect fine party; T = call_run fine [DoProbeServer, OnSignaling (SocketOpen 1)] S
   in list_all (\<lambda>x. \<not> signs_in x) (drop (length (cs_log S)) (cs_log T))
    \<and> cs_state T = CallIdle"
proof -
  let ?evs = "[DoProbeServer, OnSignaling (SocketOpen 1)]" and ?S = "cs_disconnect fine party"
  have "cs_state (call_run fine ?evs ?S) = CallIdle" by code_simp
  moreover have "list_all (\<lambda>e. \<not> asks_to_sign_in e) ?evs" by (simp add: asks_to_sign_in_def)
  ultimately show ?thesis
    using signed_out_stays_signed_out [of ?evs ?S desk_options "''ws://party/''" fine party] by (auto simp: Let_def)
qed

section \<open>The order of what a call does\<close>

text \<open>A frame through an open socket, or the entry for one that was refused.\<close>

definition frame_or_refusal :: "call_environment \<Rightarrow> call_session \<Rightarrow> message \<Rightarrow> bool \<Rightarrow> call_output" where
  "frame_or_refusal E S m is_open = (case sg_socket (cs_signaling S) of
     Some n \<Rightarrow> if is_open then Wire (FrameSent n m) else Unsent m | None \<Rightarrow> Unsent m)"

lemma cs_send_exact:
  "snd (cs_send E m S) = jot [frame_or_refusal E S m (ce_is_open E (cs_log S))] S"
  "result_ok (fst (cs_send E m S)) \<longleftrightarrow> ce_is_open E (cs_log S) \<and> sg_socket (cs_signaling S) \<noteq> None"
  by (auto simp: cs_send_def sg_send_def frame_or_refusal_def result_ok_def Let_def split: option.split)

lemma cs_send_reply:
  "cs_send E m S = (if ce_is_open E (cs_log S) \<and> sg_socket (cs_signaling S) \<noteq> None then Inr ()
     else Inl (mk_error ''not_connected'' (''cannot send '' @ type_name (type_of m)
       @ '': the signaling connection is not open'')),
     jot [frame_or_refusal E S m (ce_is_open E (cs_log S))] S)"
  by (auto simp: cs_send_def sg_send_def frame_or_refusal_def result_ok_def Let_def split: option.split)

definition close_if :: "nat option \<Rightarrow> call_output list" where
  "close_if session = (case session of None \<Rightarrow> [] | Some i \<Rightarrow> [Media i CloseMedia])"

definition state_if_new :: "call_session \<Rightarrow> call_state \<Rightarrow> string \<Rightarrow> call_output list" where
  "state_if_new S st detail = (if cs_state S = st then [] else [Told (TellState st detail)])"

lemmas log_defs = jot_def tell_def media_void_if_def media_void_def cs_set_state_def close_if_def
  state_if_new_def report_failure_def report_def publish_participants_def

text \<open>A reconnection walks back in. When a sign-in is accepted, the media session of the old connection
  is closed first, the share on the screen is taken down, the people are forgotten, and then - if the
  call was in a room and the socket takes frames - the join is sent with the room and name of before,
  and behind it, never before it, the mute again when the microphone was muted. The room, the name and
  the mute are kept; outside a room nothing is sent.\<close>

lemma reconnection_walks_back_in:
  assumes "\<And>log. ce_is_open E log" "sg_socket (cs_signaling S) = Some n"
  shows "cs_log (handle_authenticated E u S) = cs_log S @ close_if (cs_audio S) @ [Told (TellScreenShare [])]
      @ state_if_new S CallAuthenticated (u_id u)
      @ (if cs_room S = [] then []
         else Wire (FrameSent n (JoinRoom (cs_room S) (u_id u) (cs_display_name S)))
           # (if cs_muted S then [Wire (FrameSent n (Mute (cs_room S) (u_id u) []))] else []))
    \<and> cs_audio (handle_authenticated E u S) = None \<and> cs_participants (handle_authenticated E u S) = []
    \<and> cs_user (handle_authenticated E u S) = u \<and> cs_state (handle_authenticated E u S) = CallAuthenticated
    \<and> cs_screen_sharer (handle_authenticated E u S) = []
    \<and> cs_room (handle_authenticated E u S) = cs_room S
    \<and> cs_display_name (handle_authenticated E u S) = cs_display_name S
    \<and> cs_muted (handle_authenticated E u S) = cs_muted S"
  using assms
  by (cases "cs_audio S"; cases "cs_muted S")
    (simp_all add: handle_authenticated_def Let_def cs_send_reply frame_or_refusal_def log_defs)

lemma reconnection_walks_back_in_witness:
  "last (cs_log (handle_authenticated fine ana (snd (cs_set_muted fine True party))))
     = Wire (FrameSent 0 (Mute ''PARTY'' ''u1'' []))"
proof -
  let ?S = "snd (cs_set_muted fine True party)"
  have "sg_socket (cs_signaling ?S) = Some 0" "cs_room ?S = ''PARTY''" "cs_muted ?S" "u_id ana = ''u1''"
    by code_simp+
  moreover have "ce_is_open fine log" for log by (simp add: fine_def)
  ultimately show ?thesis using reconnection_walks_back_in [of fine ?S 0 ana] by simp
qed

text \<open>A session the server ended is let go of. The media session is closed, the room, the people, the
  share, the mute and the credentials are forgotten, the list on the screen is emptied and the interface
  is told last; a second message about the same removal, the kick from the room, then closes nothing and
  reports nothing but the empty list.\<close>

lemma ended_session_is_let_go:
  "let T = handle_session_ended reason S
   in cs_log T = cs_log S @ close_if (cs_audio S) @ [Told (TellParticipants [])]
        @ state_if_new S CallIdle reason @ [Told (TellSessionEnded reason)]
    \<and> cs_audio T = None \<and> cs_participants T = [] \<and> cs_room T = [] \<and> cs_screen_sharer T = []
    \<and> \<not> cs_muted T \<and> cs_user T = default_user \<and> cs_state T = CallIdle
    \<and> cs_pending_username T = [] \<and> cs_pending_password T = []
    \<and> (if user_id = [] then True else handle_user_kicked user_id why T = publish_participants T)"
proof -
  have sorted: "sorted_participants [] = []" by (simp add: sorted_participants_def)
  show ?thesis
    by (cases "cs_audio S"; cases "cs_state S = CallIdle")
      (auto simp: handle_session_ended_def handle_user_kicked_def Let_def log_defs sorted default_user_def)
qed

text \<open>The sound of a share: what is asked for it, and whether it came.\<close>

definition sound_request :: "screen_audio \<Rightarrow> media_request" where
  "sound_request audio =
     StartScreenAudio (if san_mode audio = AudioApplication then LoopbackProcess else LoopbackSystem)
       (san_source_id audio)"

lemma start_screen_audio_exact:
  "fst (start_screen_audio E i audio S) \<longleftrightarrow>
     san_mode audio \<noteq> AudioNone \<and> ce_answer E (cs_log S) i (sound_request audio) = None"
  "cs_log (snd (start_screen_audio E i audio S)) =
     cs_log S @ (if san_mode audio = AudioNone then [] else [Media i (sound_request audio)])"
  "cs_signaling (snd (start_screen_audio E i audio S)) = cs_signaling S"
  by (auto simp: start_screen_audio_def media_def sound_request_def Let_def jot_def
      split: option.split if_split)

text \<open>A share is announced as what it is. On a free floor, the screen is captured before it is
  announced; a capture that fails announces nothing and its error is the answer; a sound that was asked
  for and fails does not stop the share, which is announced without it, and nothing is announced with
  sound that has none. If the announcement cannot be sent, the sound and the picture are stopped again,
  in that order, and the failure is the answer.\<close>

lemma share_announced_as_it_is:
  assumes "cs_room S \<noteq> []" "cs_audio S = Some i" "cs_screen_sharer S \<in> {[], u_id (cs_user S)}"
    and socket: "\<And>log. ce_is_open E log = is_open" "sg_socket (cs_signaling S) = Some n"
  shows "let (r, T) = cs_start_screen_share E src audio S;
      capture = cs_log S @ [Media i (StartScreenShare src)];
      sound = (if san_mode audio = AudioNone then [] else [Media i (sound_request audio)]);
      with_sound = (san_mode audio \<noteq> AudioNone \<and> ce_answer E capture i (sound_request audio) = None);
      announcement = ScreenShareStarted (cs_room S) (u_id (cs_user S)) with_sound
    in case ce_answer E (cs_log S) i (StartScreenShare src) of
         Some e \<Rightarrow> r = Inl e \<and> cs_log T = capture
       | None \<Rightarrow> if is_open
           then r = Inr () \<and> cs_log T = capture @ sound @ [Wire (FrameSent n announcement)]
           else \<not> result_ok r \<and> cs_log T = capture @ sound
             @ [Unsent announcement, Media i StopScreenAudio, Media i StopScreenShare]"
proof (cases "ce_answer E (cs_log S) i (StartScreenShare src)")
  case (Some e)
  then show ?thesis using assms by (auto simp: cs_start_screen_share_def media_def Let_def jot_def)
next
  case None
  let ?S1 = "jot [Media i (StartScreenShare src)] S"
  have log1: "cs_log ?S1 = cs_log S @ [Media i (StartScreenShare src)]" by (simp add: jot_def)
  obtain b T where sound: "start_screen_audio E i audio ?S1 = (b, T)" by force
  have "sg_socket (cs_signaling T) = Some n"
    using start_screen_audio_exact(3) [of E i audio ?S1] socket(2) sound by (simp add: jot_def)
  moreover have "b \<longleftrightarrow> san_mode audio \<noteq> AudioNone
      \<and> ce_answer E (cs_log S @ [Media i (StartScreenShare src)]) i (sound_request audio) = None"
    using start_screen_audio_exact(1) [of E i audio ?S1] sound log1 by simp
  moreover have "cs_log T = cs_log S @ [Media i (StartScreenShare src)]
      @ (if san_mode audio = AudioNone then [] else [Media i (sound_request audio)])"
    using start_screen_audio_exact(2) [of E i audio ?S1] sound log1 by simp
  ultimately show ?thesis using None sound assms
    by (auto simp: cs_start_screen_share_def media_def cs_send_reply frame_or_refusal_def log_defs
        result_ok_def Let_def)
qed

text \<open>Ana shares with the sound of an application that cannot be captured.\<close>

definition no_sound :: call_environment where
  "no_sound = fine\<lparr>ce_answer := \<lambda>log i c. case c of
     StartScreenAudio md k \<Rightarrow> Some (mk_error ''unsupported'' []) | _ \<Rightarrow> None\<rparr>"

lemma share_announced_as_it_is_witness:
  "last (cs_log (snd (cs_start_screen_share no_sound ''monitor''
      \<lparr>san_mode = AudioApplication, san_source_id = 7\<rparr> party)))
    = Wire (FrameSent 0 (ScreenShareStarted ''PARTY'' ''u1'' False))"
proof -
  have "sg_socket (cs_signaling party) = Some 0" by code_simp
  moreover have "ce_is_open no_sound log = True" for log by (simp add: no_sound_def fine_def)
  ultimately show ?thesis
    using share_announced_as_it_is [of party 0 no_sound True 0 "''monitor''"
      "\<lparr>san_mode = AudioApplication, san_source_id = 7\<rparr>"] party_exact
    by (auto simp: Let_def sound_request_def no_sound_def split: prod.split_asm)
qed

end
