(* ===== verification/CallFindings.thy ===== *)
theory CallFindings
  imports CallProperties
begin

text \<open>
  Where a call does not do what its comments promise, each shown by a run of the model from a new session:
  what \<open>leave()\<close> and \<open>disconnect()\<close> forget to forget, an offer that arrives outside a room, a join that
  was refused, and two threads on one microphone.
\<close>

section \<open>What leaving forgets\<close>

text \<open>\<open>leave()\<close> keeps the name of whoever was sharing a screen. Ana leaves a room where Bob shares, joins
  another where nobody does, and may not share hers there: the floor is Bob's, who is not in the room.\<close>

definition ana_leaves_bobs_share :: "call_event list" where
  "ana_leaves_bobs_share = in_the_room @
    [from_server (ScreenShareStarted ''PARTY'' ''u2'' False), DoLeave, from_server (UserLeft ''PARTY'' ''u1''),
     DoJoin ''OTHER'' ''Ana'', from_server (UserJoined ''OTHER'' ana),
     from_server (Offer ''OTHER'' kSfuUserId ''u1'' ''sdp'')]"

lemma share_refused_in_the_next_room:
  "let S = call_run fine ana_leaves_bobs_share (new_call_session desk_options ''ws://party/'')
   in cs_room S = ''OTHER'' \<and> map fst (cs_participants S) = [''u1''] \<and> cs_screen_sharer S = ''u2''
    \<and> fst (cs_start_screen_share fine ''monitor'' \<lparr>san_mode = AudioNone, san_source_id = 0\<rparr> S)
      = Inl (mk_error ''screen_share_busy'' ''u2 is already sharing a screen in this room'')"
  by code_simp

text \<open>\<open>disconnect()\<close> keeps the mute. Ana mutes herself, signs out, signs in again and joins a room: her
  microphone is closed there, and nothing she sent since says so to the room, which shows it open.\<close>

definition ana_comes_back :: "call_event list" where
  "ana_comes_back = [DoDisconnect, DoConnectAndAuthenticate ''ana'' ''secret'', OnSignaling (SocketOpen 1),
     OnSignaling (SocketText 1 True 0 (Inr (Authenticated ana ''t'' 0))), DoJoin ''PARTY'' ''Ana'',
     OnSignaling (SocketText 1 True 0 (Inr (UserJoined ''PARTY'' ana))),
     OnSignaling (SocketText 1 True 0 (Inr (Offer ''PARTY'' kSfuUserId ''u1'' ''sdp'')))]"

definition says_muted :: "call_output \<Rightarrow> bool" where
  "says_muted x = (case x of Wire w \<Rightarrow> (case w of FrameSent n m \<Rightarrow> type_of m = MT_Mute | _ \<Rightarrow> False) | _ \<Rightarrow> False)"

lemma mute_survives_signing_out:
  "let S = call_run fine (in_the_room @ [DoSetMuted True]) (new_call_session desk_options ''ws://party/'');
       T = call_run fine ana_comes_back S
   in cs_room T = ''PARTY'' \<and> cs_audio T = Some 1 \<and> cs_muted T \<and> last_mic 1 (cs_log T) = Some True
    \<and> list_all (\<lambda>x. \<not> says_muted x) (drop (length (cs_log S)) (cs_log T))
    \<and> map (cp_muted \<circ> snd) (cs_participants T) = [False]"
  by code_simp

section \<open>Media outside a room\<close>

text \<open>An offer of the SFU that was on its way when Ana left builds a media session with an open microphone
  outside any room; the next join keeps it, and answers the next room's first offer with it.\<close>

definition late_offer :: "call_event list" where
  "late_offer = in_the_room @ [DoLeave, from_server (Offer ''PARTY'' kSfuUserId ''u1'' ''late'')]"

definition next_room :: "call_event list" where
  "next_room = [DoJoin ''OTHER'' ''Ana'', from_server (UserJoined ''OTHER'' ana),
     from_server (Offer ''OTHER'' kSfuUserId ''u1'' ''first'')]"

lemma offer_after_leaving_opens_media:
  "let S = call_run fine late_offer (new_call_session desk_options ''ws://party/'');
       T = call_run fine next_room S
   in cs_room S = [] \<and> cs_audio S = Some 1 \<and> last_mic 1 (cs_log S) = Some False
    \<and> cs_audio T = Some 1 \<and> last (cs_log T) = Media 1 (ApplyRemoteOffer ''first'')
    \<and> Media 1 (ApplyRemoteOffer ''late'') \<in> set (cs_log T)"
  by code_simp

text \<open>And \<open>leave()\<close> outside a room drops the session without closing it.\<close>

lemma leaving_nowhere_drops_media_open:
  "let S = call_run fine (late_offer @ [DoLeave]) (new_call_session desk_options ''ws://party/'')
   in cs_audio S = None \<and> 1 \<notin> closed_sessions (cs_log S)"
proof -
  let ?S = "call_run fine (late_offer @ [DoLeave]) (new_call_session desk_options ''ws://party/'')"
  have "cs_audio ?S = None" "list_all (\<lambda>x. x \<noteq> Media 1 CloseMedia) (cs_log ?S)" by code_simp+
  then show ?thesis by (auto simp: Let_def closed_sessions_def list_all_iff)
qed

section \<open>A join that was refused\<close>

text \<open>\<open>join()\<close> writes the room down before anybody let her in, and an error of the server takes nothing
  back: the session goes on as if it were there, and a reconnection knocks again.\<close>

lemma refused_join_is_remembered:
  "let S = call_run fine [DoConnectAndAuthenticate ''ana'' ''secret'', OnSignaling (SocketOpen 0),
       from_server (Authenticated ana ''t'' 0), DoJoin ''FULL'' ''Ana'',
       from_server (ErrorMessage ''room_full'' ''the room is full'')]
       (new_call_session desk_options ''ws://party/'')
   in cs_room S = ''FULL'' \<and> cs_participants S = []
    \<and> result_ok (fst (cs_send_chat fine ''hello'' S))
    \<and> last (cs_log (call_step fine (from_server (Authenticated ana ''t'' 0)) S))
      = Wire (FrameSent 0 (JoinRoom ''FULL'' ''u1'' ''Ana''))"
  by code_simp

section \<open>Two threads and one microphone\<close>

text \<open>\<open>set_muted\<close> writes the mute under the lock and moves the microphone after letting go of it. An
  administrator's mute that arrives between the two is undone at the device: Ana clicks unmute, the
  administrator mutes her, and the call ends with the mute written down and the microphone open.\<close>

lemma unmuting_races_a_forced_mute:
  "let S = snd (cs_set_muted fine True party)
   in case set_muted_locked False S of
        None \<Rightarrow> False
      | Some (user_id, room, session, S1) \<Rightarrow>
         (let S2 = call_step fine (from_server (Mute ''PARTY'' ''u1'' ''admin'')) S1;
              S3 = snd (set_muted_rest fine False user_id room session S2)
          in cs_muted S3 \<and> last_mic 0 (cs_log S3) = Some False)"
  by code_simp

text \<open>In the order of the locks nothing of the kind happens.\<close>

lemma unmuting_before_a_forced_mute:
  "let S = snd (cs_set_muted fine False (snd (cs_set_muted fine True party)));
       T = call_step fine (from_server (Mute ''PARTY'' ''u1'' ''admin'')) S
   in cs_muted T \<and> last_mic 0 (cs_log T) = Some True"
  by code_simp

end
