(* ===== verification/Together.thy ===== *)
theory Together
  imports HubRoomEffects CallFindings
begin

text \<open>
  The server and the client on one wire: what a client shows of a room it walks into, after the messages
  the hub sends it have arrived in order, beside what the room manager holds.
\<close>

section \<open>What a connection is sent\<close>

definition receive :: "call_environment \<Rightarrow> message list \<Rightarrow> call_session \<Rightarrow> call_session" where
  "receive E ms S = fold (handle_signal E) ms S"

lemma receive_append [simp]: "receive E (ms @ ms') S = receive E ms' (receive E ms S)"
  by (simp add: receive_def)

lemma receive_simps [simp]:
  "receive E [] S = S" "receive E (m # ms) S = receive E ms (handle_signal E m S)"
  by (simp_all add: receive_def)

definition to_connection :: "nat \<Rightarrow> outgoing list \<Rightarrow> message list" where
  "to_connection c out = map o_message (filter (\<lambda>m. o_connection m = c) out)"

lemma sent_to_conv: "sent_to c h = to_connection c (h_out h)"
  by (simp add: sent_to_def to_connection_def)

lemma to_connection_append [simp]:
  "to_connection c (out @ out') = to_connection c out @ to_connection c out'"
  by (simp add: to_connection_def)

lemma to_connection_telling_all [simp]: "to_connection c (telling_all c ms) = ms"
  by (simp add: to_connection_def telling_all_def filter_map comp_def)

lemma to_connection_telling: "set (to_connection c (telling m cs)) \<subseteq> {m}"
  by (auto simp: to_connection_def telling_def)

section \<open>The list of people\<close>

text \<open>A participant of the room, as a client that has only been told who is there shows them.\<close>

definition shown :: "participant \<Rightarrow> call_participant" where
  "shown p = new_call_participant\<lparr>cp_user := p_user p, cp_sharing_screen := p_sharing_screen p,
     cp_sharing_audio := p_sharing_audio p\<rparr>"

definition shown_list :: "participant list \<Rightarrow> (string, call_participant) hash_map" where
  "shown_list ps = map (\<lambda>p. (p_id p, shown p)) ps"

definition named_list :: "participant list \<Rightarrow> (string, call_participant) hash_map" where
  "named_list ps = map (\<lambda>p. (p_id p, new_call_participant\<lparr>cp_user := p_user p\<rparr>)) ps"

lemma signal_fields [simp]:
  "cs_participants (tell t S) = cs_participants S" "cs_screen_sharer (tell t S) = cs_screen_sharer S"
  "cs_participants (publish_participants S) = cs_participants S"
  "cs_screen_sharer (publish_participants S) = cs_screen_sharer S"
  by (simp_all add: tell_def jot_def publish_participants_def)

lemma update_new: "k \<notin> fst ` set al \<Longrightarrow> AList.update k v al = al @ [(k, v)]"
  by (induction al) auto

lemma update_same: "distinct (map fst al) \<Longrightarrow> map_of al k = Some v \<Longrightarrow> AList.update k v al = al"
  by (induction al) (auto split: if_splits)

lemma joined_people:
  assumes "distinct (map p_id ps)" "\<And>p. p \<in> set ps \<Longrightarrow> p_id p \<notin> fst ` set (cs_participants S)"
  shows "cs_participants (receive E (map (\<lambda>p. UserJoined rid (p_user p)) ps) S)
        = cs_participants S @ named_list ps
      \<and> cs_screen_sharer (receive E (map (\<lambda>p. UserJoined rid (p_user p)) ps) S) = cs_screen_sharer S"
  using assms
proof (induction ps arbitrary: S)
  case (Cons p ps)
  let ?S = "handle_user_joined (p_user p) S"
  have new: "p_id p \<notin> fst ` set (cs_participants S)" using Cons.prems(2) by simp
  then have "map_of (cs_participants S) (p_id p) = None" by (simp add: map_of_eq_None_iff)
  then have S: "cs_participants ?S = cs_participants S @ named_list [p]" "cs_screen_sharer ?S = cs_screen_sharer S"
    using new by (simp_all add: handle_user_joined_def Let_def p_id_def [symmetric] update_new named_list_def)
  have "q \<in> set ps \<Longrightarrow> p_id q \<notin> fst ` set (cs_participants ?S)" for q
    using Cons.prems S(1) by (auto simp: named_list_def) (metis image_eqI)
  then show ?case using Cons.IH [of ?S] Cons.prems(1) S by (simp add: receive_def named_list_def)
qed (simp add: named_list_def)

lemma joined_again:
  assumes "set ms \<subseteq> {UserJoined rid u}" "distinct (map fst (cs_participants S))"
    "map_of (cs_participants S) (u_id u) = Some p" "cp_user p = u"
  shows "cs_participants (receive E ms S) = cs_participants S
      \<and> cs_screen_sharer (receive E ms S) = cs_screen_sharer S"
  using assms
proof (induction ms arbitrary: S)
  case (Cons m ms)
  have same: "p\<lparr>cp_user := u\<rparr> = p" using Cons.prems(4) by simp
  have "cs_participants (handle_signal E m S) = cs_participants S"
    "cs_screen_sharer (handle_signal E m S) = cs_screen_sharer S"
    using Cons.prems update_same [of "cs_participants S" "u_id u" p]
    by (simp_all add: handle_user_joined_def Let_def same)
  then show ?case using Cons by (simp add: receive_def)
qed simp

lemma listed_rooms:
  assumes "set ms \<subseteq> {room_list h}"
  shows "cs_participants (receive E ms S) = cs_participants S
      \<and> cs_screen_sharer (receive E ms S) = cs_screen_sharer S"
  using assms by (induction ms arbitrary: S) (simp_all add: room_list_def)

text \<open>The notice of the share turns the list of names into the list of who is shown sharing.\<close>

lemma shown_without_share:
  "List.find p_sharing_screen ps = None \<Longrightarrow> list_all participant_wf ps \<Longrightarrow> named_list ps = shown_list ps"
  by (auto simp: named_list_def shown_list_def shown_def find_None_iff list_all_iff participant_wf_def
      new_call_participant_def)

lemma named_nobody_shares:
  "\<forall>p \<in> set ps. \<not> p_sharing_screen p \<Longrightarrow> list_all participant_wf ps \<Longrightarrow> named_list ps = shown_list ps"
  by (rule shown_without_share) (auto simp: find_None_iff)

lemma shown_with_share:
  assumes "List.find p_sharing_screen ps = Some s" "distinct (map p_id ps)" "list_all participant_wf ps"
    "length (filter p_sharing_screen ps) \<le> 1"
  shows "AList.map_entry (p_id s) (\<lambda>p. p\<lparr>cp_sharing_screen := True, cp_sharing_audio := p_sharing_audio s\<rparr>)
      (named_list ps) = shown_list ps"
  using assms
proof (induction ps)
  case (Cons p ps)
  show ?case
  proof (cases "p_sharing_screen p")
    case True
    then have "\<forall>q \<in> set ps. \<not> p_sharing_screen q" using Cons.prems(4) by (auto simp: filter_empty_conv)
    then have "named_list ps = shown_list ps" using Cons.prems(3) by (intro named_nobody_shares) auto
    then show ?thesis using True Cons.prems by (simp add: named_list_def shown_list_def shown_def)
  next
    case False
    then have s: "List.find p_sharing_screen ps = Some s" using Cons.prems(1) by simp
    then have "s \<in> set ps" by (auto simp: find_Some_iff)
    then have "p_id p \<noteq> p_id s" using Cons.prems(2) by auto
    then show ?thesis using False s Cons
      by (simp add: named_list_def shown_list_def shown_def participant_wf_def new_call_participant_def)
  qed
qed simp

section \<open>Walking in\<close>

definition floor_of :: "room \<Rightarrow> string" where
  "floor_of r = (case screen_sharer r of None \<Rightarrow> [] | Some p \<Rightarrow> p_id p)"

lemma find_snoc_not: "\<not> P x \<Longrightarrow> List.find P (xs @ [x]) = List.find P xs"
  by (induction xs) simp_all

lemma welcome_received:
  assumes wf: "room_wf r" and new: "room_find r (u_id u) = None" "p_user np = u" "\<not> p_sharing_screen np"
    "participant_wf np" and client: "cs_participants S = []" "cs_screen_sharer S = []"
  shows "cs_participants (receive E (map (\<lambda>p. UserJoined rid (p_user p)) (rm_participants r)
          @ [UserJoined rid u] @ share_notice rid r @ [ChatHistory rid msgs]) S)
        = shown_list (rm_participants r @ [np])
      \<and> cs_screen_sharer (receive E (map (\<lambda>p. UserJoined rid (p_user p)) (rm_participants r)
          @ [UserJoined rid u] @ share_notice rid r @ [ChatHistory rid msgs]) S) = floor_of r"
proof -
  let ?ps = "rm_participants r @ [np]"
  let ?S1 = "receive E (map (\<lambda>p. UserJoined rid (p_user p)) ?ps) S"
  have "p_id np \<notin> set (map p_id (rm_participants r))"
    using new(1,2) by (auto simp: room_find_def find_None_iff p_id_def)
  then have ps: "distinct (map p_id ?ps)" "list_all participant_wf ?ps"
    "length (filter p_sharing_screen ?ps) \<le> 1"
    using wf new by (auto simp: room_wf_def)
  have S1: "cs_participants ?S1 = named_list ?ps" "cs_screen_sharer ?S1 = []"
    using joined_people [OF ps(1), of S E rid] client by simp_all
  have find: "List.find p_sharing_screen ?ps = screen_sharer r"
    using find_snoc_not [where P = p_sharing_screen, OF new(3)] by (simp add: screen_sharer_def)
  have "cs_participants (receive E (share_notice rid r @ [ChatHistory rid msgs]) ?S1) = shown_list ?ps
      \<and> cs_screen_sharer (receive E (share_notice rid r @ [ChatHistory rid msgs]) ?S1) = floor_of r"
  proof (cases "screen_sharer r")
    case None
    then show ?thesis using find S1 shown_without_share [OF _ ps(2)]
      by (simp add: share_notice_def receive_def floor_of_def)
  next
    case (Some s)
    then have s: "List.find p_sharing_screen ?ps = Some s" using find by simp
    show ?thesis using Some S1 shown_with_share [OF s ps]
      by (simp add: share_notice_def receive_def floor_of_def handle_screen_share_started_def Let_def
          upd_call_participant_def)
  qed
  then show ?thesis using new(2) by simp
qed


section \<open>Runs of the two\<close>

text \<open>Bob's client, signed in on connection 2 of the server of \<open>HubScenarios\<close> and in no room.\<close>

definition bobs_client :: call_session where
  "bobs_client = call_run fine [DoConnectAndAuthenticate ''bob'' ''qx'', OnSignaling (SocketOpen 0),
     from_server (Authenticated bob ''t'' 0), DoJoin ''012345'' ''Bob B''] (new_call_session desk_options ''ws://party/'')"

lemma bobs_client_outside: "cs_participants bobs_client = []" "cs_screen_sharer bobs_client = []"
  by code_simp+


text \<open>What the greeting leaves out: ada sits in the room with her microphone muted, and bob, who walks in, is
  shown it open.\<close>

definition muted_lobby :: hub where
  "muted_lobby = run (both_in @ [client 1 (CreateRoom ''00'' ''sala'' False 0),
     client 1 (JoinRoom ''012345'' ''00'' []), client 1 (Mute ''012345'' ''00'' [])]) toy_hub"

lemma newcomer_not_told_of_mutes:
  "let h' = on_message toy_env 2 (Inr (JoinRoom ''012345'' ''02'' ''Bob B'')) 9 muted_lobby;
       S' = receive fine (sent_to 2 h') bobs_client
   in map_option (\<lambda>r. map (\<lambda>p. (p_id p, p_muted p)) (rm_participants r)) (mgr_find (h_rooms h') ''012345'')
        = Some [(''00'', True), (''02'', False)]
    \<and> map (\<lambda>(k, p). (k, cp_muted p)) (cs_participants S') = [(''00'', False), (''02'', False)]"
  by code_simp

text \<open>And an account that may not speak is seated muted by an administrator, is never told, and its client
  opens the microphone: the mute is on the server's list only, which no client has seen.\<close>

definition bob_restricted :: hub where
  "bob_restricted = run (both_in @ [client 1 (CreateRoom ''00'' ''sala'' False 0),
     client 1 (JoinRoom ''012345'' ''00'' []),
     client 1 (RestrictUser ''02'' None (Some True) None None [])]) toy_hub"

lemma restricted_account_joins_unmuted:
  "let h' = on_message toy_env 2 (Inr (JoinRoom ''012345'' ''02'' ''Bob B'')) 9 bob_restricted;
       S' = receive fine (sent_to 2 h') (receive fine (sent_to 2 bob_restricted) bobs_client);
       T = handle_signal fine (Offer ''012345'' kSfuUserId ''02'' ''sdp'') S'
   in map_option (\<lambda>r. map (\<lambda>p. (p_id p, p_muted p, p_muted_by_admin p)) (rm_participants r))
        (mgr_find (h_rooms h') ''012345'') = Some [(''00'', False, False), (''02'', True, True)]
    \<and> list_all (\<lambda>m. type_of m \<noteq> MT_Mute) (map o_message (h_out h'))
    \<and> cs_audio T = Some 0 \<and> \<not> cs_muted T \<and> last_mic 0 (cs_log T) = Some False"
  by code_simp

text \<open>In general: no message of a join moves a microphone.\<close>

definition harmless_to_mic :: "message \<Rightarrow> bool" where
  "harmless_to_mic m \<longleftrightarrow> type_of m \<in> {MT_UserJoined, MT_ScreenShareStarted, MT_ChatHistory, MT_RoomList}"

lemma mic_fields [simp]:
  "cs_muted (tell t S) = cs_muted S" "cs_audio (handle_user_joined v S) = cs_audio S"
  "cs_muted (handle_user_joined v S) = cs_muted S"
  "cs_muted (handle_screen_share_started uid w S) = cs_muted S"
  "cs_audio (handle_screen_share_started uid w S) = cs_audio S"
  by (simp_all add: tell_def handle_user_joined_def handle_screen_share_started_def upd_call_participant_def
      publish_participants_def Let_def)

lemma mic_untouched:
  "list_all harmless_to_mic ms \<Longrightarrow>
   cs_muted (receive E ms S) = cs_muted S \<and> cs_audio (receive E ms S) = cs_audio S"
proof (induction ms arbitrary: S)
  case (Cons m ms)
  have "cs_muted (handle_signal E m S) = cs_muted S \<and> cs_audio (handle_signal E m S) = cs_audio S"
    using Cons.prems by (cases m) (simp_all add: harmless_to_mic_def)
  then show ?case using Cons by simp
qed simp

lemma offer_opens_media:
  assumes "cs_audio S = None" "ce_factory E = (\<lambda>log opts. None)"
  shows "cs_muted (handle_signal E (Offer rid kSfuUserId uid sdp) S) = cs_muted S
    \<and> cs_audio (handle_signal E (Offer rid kSfuUserId uid sdp) S) \<noteq> None"
proof -
  have failure: "cs_muted (report_failure rT) = cs_muted (snd rT) \<and> cs_audio (report_failure rT) = cs_audio (snd rT)"
    for rT by (auto simp: report_failure_def report_def split: prod.split sum.split)
  have media: "cs_muted (snd (media F i c T)) = cs_muted T" for F i c T
    by (simp add: media_def split: option.split)
  have volumes: "cs_muted (apply_volumes E i vs T) = cs_muted T \<and> cs_audio (apply_volumes E i vs T) = cs_audio T"
    for i vs T by (induction E i vs T rule: apply_volumes.induct) (simp_all add: media)
  have "cs_muted (snd (ensure_media_session E S)) = cs_muted S \<and> cs_audio (snd (ensure_media_session E S)) \<noteq> None
      \<and> fst (ensure_media_session E S) = Inr ()"
    using assms by (simp add: ensure_media_session_def Let_def failure media volumes media_void_def)
  then show ?thesis
    by (cases "ensure_media_session E S") (auto simp: handle_offer_def failure media split: option.split)
qed

lemma welcome_harmless:
  "list_all (\<lambda>m. harmless_to_mic (o_message m))
    (telling_all c (map (\<lambda>p. UserJoined rid (p_user p)) ps @ [UserJoined rid v] @ share_notice rid r
        @ [chat_history h rid 0])
      @ telling (UserJoined rid v) cs @ telling (room_list h') ds)"
  by (auto simp: telling_all_def telling_def list_all_iff harmless_to_mic_def share_notice_def
      chat_history_def room_list_def split: option.split)


lemma bobs_client_ok: "call_ok bobs_client"
proof -
  have "call_ok (call_run fine evs (new_call_session o1 url))" for evs o1 url
    unfolding call_run_def by (rule call_machine.run_good [OF new_call_ok])
  then show ?thesis by (simp add: bobs_client_def)
qed


end
