(* ===== verification/Config.thy ===== *)
theory Config
  imports Models
begin

text \<open>
  The settings of \<open>shared/include/dv/config/config.hpp\<close> and their rules: the structures with their
  defaults, the readers of single values, what an INI file, the environment and the command line may
  say, and \<open>validate\<close>, all of \<open>shared/src/config/config.cpp\<close>. A \<open>std::uint16_t\<close> is an integer kept
  in its range by the checks the code makes. The address compiled in as the default server
  (\<open>DV_DEFAULT_SIGNALING_URL\<close>) is the one of the header.
\<close>

section \<open>Settings\<close>

record video_config =
  vc_width :: int
  vc_height :: int
  vc_fps :: int
  vc_auto_bitrate :: bool
  vc_min_bitrate_kbps :: int
  vc_max_bitrate_kbps :: int
  vc_floor_bitrate_kbps :: int
  vc_codec :: string

record audio_config =
  au_sample_rate_hz :: int
  au_channels :: int
  au_bitrate_kbps :: int
  au_redundancy :: bool
  au_retransmission :: bool
  au_adaptive :: bool
  au_frame_duration_ms :: int
  au_echo_cancellation :: bool
  au_noise_suppression :: bool
  au_noise_suppression_level :: string
  au_automatic_gain_control :: bool
  au_voice_gate :: bool
  au_voice_gate_level :: string
  au_input_device :: string
  au_output_device :: string

record screen_audio_config =
  sa_mode :: string
  sa_volume_percent :: int
  sa_limiter :: bool

record network_config =
  nc_signaling_url :: string
  nc_stun_servers :: "string list"
  nc_turn_url :: string
  nc_turn_username :: string
  nc_turn_password :: string
  nc_ice_port_range_begin :: int
  nc_ice_port_range_end :: int
  nc_reconnect_initial_delay_ms :: int
  nc_reconnect_max_delay_ms :: int

record logging_config =
  lc_level :: string
  lc_file_path :: string
  lc_log_to_console :: bool
  lc_crash_directory :: string
  lc_crash_reports :: bool

record server_config =
  sc_bind_address :: string
  sc_port :: int
  sc_max_participants_per_room :: int
  sc_heartbeat_interval_ms :: int
  sc_heartbeat_timeout_ms :: int
  sc_users_file :: string
  sc_create_admin :: string

record database_config =
  dc_enabled :: bool
  dc_uri :: string
  dc_name :: string
  dc_timeout_ms :: int

record ui_config =
  ui_room_sounds :: bool
  ui_check_for_updates :: bool

record config =
  cf_video :: video_config
  cf_audio :: audio_config
  cf_screen_audio :: screen_audio_config
  cf_network :: network_config
  cf_logging :: logging_config
  cf_ui :: ui_config
  cf_server :: server_config
  cf_database :: database_config

definition default_video :: video_config where
  "default_video = \<lparr>vc_width = 1280, vc_height = 720, vc_fps = 30, vc_auto_bitrate = False,
     vc_min_bitrate_kbps = 1500, vc_max_bitrate_kbps = 3000, vc_floor_bitrate_kbps = 300,
     vc_codec = ''H264''\<rparr>"

definition default_audio :: audio_config where
  "default_audio = \<lparr>au_sample_rate_hz = 48000, au_channels = 1, au_bitrate_kbps = 128,
     au_redundancy = True, au_retransmission = True, au_adaptive = False,
     au_frame_duration_ms = 20, au_echo_cancellation = True, au_noise_suppression = True,
     au_noise_suppression_level = ''high'', au_automatic_gain_control = True,
     au_voice_gate = True, au_voice_gate_level = ''moderate'', au_input_device = [],
     au_output_device = []\<rparr>"

definition default_screen_audio :: screen_audio_config where
  "default_screen_audio = \<lparr>sa_mode = ''system'', sa_volume_percent = 100, sa_limiter = True\<rparr>"

definition default_network :: network_config where
  "default_network = \<lparr>nc_signaling_url = ''ws://127.0.0.1:8080'',
     nc_stun_servers = [''stun:stun.l.google.com:19302''], nc_turn_url = [], nc_turn_username = [],
     nc_turn_password = [], nc_ice_port_range_begin = 0, nc_ice_port_range_end = 0,
     nc_reconnect_initial_delay_ms = 500, nc_reconnect_max_delay_ms = 30000\<rparr>"

definition default_logging :: logging_config where
  "default_logging = \<lparr>lc_level = ''info'', lc_file_path = [], lc_log_to_console = True,
     lc_crash_directory = [], lc_crash_reports = True\<rparr>"

definition default_server :: server_config where
  "default_server = \<lparr>sc_bind_address = ''0.0.0.0'', sc_port = 8080,
     sc_max_participants_per_room = 20, sc_heartbeat_interval_ms = 5000,
     sc_heartbeat_timeout_ms = 15000, sc_users_file = [], sc_create_admin = []\<rparr>"

definition default_database :: database_config where
  "default_database = \<lparr>dc_enabled = False, dc_uri = ''mongodb://127.0.0.1:27017'',
     dc_name = ''partyshare'', dc_timeout_ms = 2000\<rparr>"

definition default_ui :: ui_config where
  "default_ui = \<lparr>ui_room_sounds = True, ui_check_for_updates = True\<rparr>"

definition default_config :: config where
  "default_config = \<lparr>cf_video = default_video, cf_audio = default_audio,
     cf_screen_audio = default_screen_audio, cf_network = default_network,
     cf_logging = default_logging, cf_ui = default_ui, cf_server = default_server,
     cf_database = default_database\<rparr>"

text \<open>Assignments to the members of a section.\<close>

definition in_video :: "(video_config \<Rightarrow> video_config) \<Rightarrow> config \<Rightarrow> config" where
  "in_video f c = c\<lparr>cf_video := f (cf_video c)\<rparr>"

definition in_audio :: "(audio_config \<Rightarrow> audio_config) \<Rightarrow> config \<Rightarrow> config" where
  "in_audio f c = c\<lparr>cf_audio := f (cf_audio c)\<rparr>"

definition in_screen_audio :: "(screen_audio_config \<Rightarrow> screen_audio_config) \<Rightarrow> config \<Rightarrow> config" where
  "in_screen_audio f c = c\<lparr>cf_screen_audio := f (cf_screen_audio c)\<rparr>"

definition in_network :: "(network_config \<Rightarrow> network_config) \<Rightarrow> config \<Rightarrow> config" where
  "in_network f c = c\<lparr>cf_network := f (cf_network c)\<rparr>"

definition in_logging :: "(logging_config \<Rightarrow> logging_config) \<Rightarrow> config \<Rightarrow> config" where
  "in_logging f c = c\<lparr>cf_logging := f (cf_logging c)\<rparr>"

definition in_ui :: "(ui_config \<Rightarrow> ui_config) \<Rightarrow> config \<Rightarrow> config" where
  "in_ui f c = c\<lparr>cf_ui := f (cf_ui c)\<rparr>"

definition in_server :: "(server_config \<Rightarrow> server_config) \<Rightarrow> config \<Rightarrow> config" where
  "in_server f c = c\<lparr>cf_server := f (cf_server c)\<rparr>"

definition in_database :: "(database_config \<Rightarrow> database_config) \<Rightarrow> config \<Rightarrow> config" where
  "in_database f c = c\<lparr>cf_database := f (cf_database c)\<rparr>"

section \<open>Reading one value\<close>

definition invalid_value :: "string \<Rightarrow> string \<Rightarrow> error" where
  "invalid_value member reason = mk_error ''invalid_value'' (member @ '': '' @ reason)"

definition parse_bool_strict :: "string \<Rightarrow> bool option" where
  "parse_bool_strict s =
     (if s = ''1'' \<or> s = ''true'' \<or> s = ''TRUE'' \<or> s = ''yes'' \<or> s = ''on'' then Some True
      else if s = ''0'' \<or> s = ''false'' \<or> s = ''FALSE'' \<or> s = ''no'' \<or> s = ''off'' then Some False
      else None)"

definition parse_bool :: "string \<Rightarrow> bool \<Rightarrow> bool" where
  "parse_bool s fallback = (case parse_bool_strict s of Some b \<Rightarrow> b | None \<Rightarrow> fallback)"

text \<open>\<open>std::stoi\<close>: white space in front, a sign, digits, up to the first character that is none; it
  throws where there is no digit or the value is no \<open>int\<close>. \<open>parse_int\<close> wants the whole text read.\<close>

definition is_digit :: "char \<Rightarrow> bool" where
  "is_digit c \<longleftrightarrow> (48 :: nat) \<le> of_char c \<and> of_char c \<le> (57 :: nat)"

definition stoi :: "string \<Rightarrow> (int \<times> string) option" where
  "stoi s =
     (let s = dropWhile is_space s;
          negative = (s \<noteq> [] \<and> hd s = CHR ''-'');
          s = (if s \<noteq> [] \<and> (hd s = CHR ''-'' \<or> hd s = CHR ''+'') then tl s else s);
          digits = takeWhile is_digit s;
          value = (if negative then - int (parse_nat digits) else int (parse_nat digits))
      in if digits = [] \<or> \<not> is_int32 value then None else Some (value, dropWhile is_digit s))"

definition parse_int :: "string \<Rightarrow> int option" where
  "parse_int s = (case stoi s of Some (value, []) \<Rightarrow> Some value | _ \<Rightarrow> None)"

definition is_noise_suppression_level :: "string \<Rightarrow> bool" where
  "is_noise_suppression_level s \<longleftrightarrow>
     s = ''low'' \<or> s = ''moderate'' \<or> s = ''high'' \<or> s = ''very_high''"

text \<open>Everything from the first place a character is found: \<open>find\<close>, \<open>substr(0, i)\<close> and
  \<open>substr(i + 1)\<close>. \<open>None\<close> is \<open>npos\<close>.\<close>

definition split_at :: "char \<Rightarrow> string \<Rightarrow> (string \<times> string) option" where
  "split_at c s = (case dropWhile (\<lambda>x. x \<noteq> c) s of
     [] \<Rightarrow> None | _ # rest \<Rightarrow> Some (takeWhile (\<lambda>x. x \<noteq> c) s, rest))"

definition starts_with :: "string \<Rightarrow> string \<Rightarrow> bool" where
  "starts_with prefix s \<longleftrightarrow> take (length prefix) s = prefix"

text \<open>\<open>--key=value\<close>.\<close>

definition split_argument :: "string \<Rightarrow> (string \<times> string) option" where
  "split_argument argument =
     (if \<not> starts_with ''--'' argument then None else split_at (CHR ''='') (drop 2 argument))"

section \<open>Text of an INI file\<close>

fun trim_front :: "string \<Rightarrow> string" where
  "trim_front [] = []"
| "trim_front (c # s) = (if is_space c then trim_front s else c # s)"

function trim_back :: "string \<Rightarrow> string" where
  "trim_back s = (if s \<noteq> [] \<and> is_space (last s) then trim_back (butlast s) else s)"
  by auto
termination
  by (relation "measure length") auto

declare trim_back.simps [simp del]

definition trim :: "string \<Rightarrow> string" where
  "trim s = trim_back (trim_front s)"

definition unquote :: "string \<Rightarrow> string" where
  "unquote s = (if length s \<ge> 2 \<and> hd s = CHR ''\"'' \<and> last s = CHR ''\"'' then butlast (tl s) else s)"

definition read_value :: "string \<Rightarrow> string" where
  "read_value s =
     (let trimmed = trim s; unquoted = unquote trimmed
      in if length unquoted = length trimmed then trimmed else unquoted)"

function split_list :: "string \<Rightarrow> string list" where
  "split_list s =
     (if s = [] then []
      else let piece = takeWhile (\<lambda>c. c \<noteq> CHR '','') s;
               item = trim (unquote (trim piece));
               items = (if item = [] then [] else [item])
           in case dropWhile (\<lambda>c. c \<noteq> CHR '','') s of
                [] \<Rightarrow> items
              | _ # rest \<Rightarrow> items @ split_list rest)"
  by auto
termination
proof (relation "measure length")
  fix s piece item :: string and items :: "string list" and c rest
  assume "dropWhile (\<lambda>c. c \<noteq> CHR '','') s = c # rest"
  then have "Suc (length rest) \<le> length s"
    by (metis length_Cons length_dropWhile_le)
  then show "(rest, s) \<in> measure length" by simp
qed simp

declare split_list.simps [simp del]

section \<open>Settings of an INI file\<close>

datatype ini_outcome = Applied config | UnknownKey | NotUnderstood

definition as_text :: "(string \<Rightarrow> config \<Rightarrow> config) \<Rightarrow> string \<Rightarrow> config \<Rightarrow> ini_outcome" where
  "as_text assign value c = Applied (assign value c)"

definition as_int :: "(int \<Rightarrow> config \<Rightarrow> config) \<Rightarrow> string \<Rightarrow> config \<Rightarrow> ini_outcome" where
  "as_int assign value c =
     (case parse_int value of None \<Rightarrow> NotUnderstood | Some n \<Rightarrow> Applied (assign n c))"

definition as_port :: "(int \<Rightarrow> config \<Rightarrow> config) \<Rightarrow> string \<Rightarrow> config \<Rightarrow> ini_outcome" where
  "as_port assign value c =
     (case parse_int value of
        None \<Rightarrow> NotUnderstood
      | Some n \<Rightarrow> if n < 0 \<or> n > 65535 then NotUnderstood else Applied (assign n c))"

definition as_bool :: "(bool \<Rightarrow> config \<Rightarrow> config) \<Rightarrow> string \<Rightarrow> config \<Rightarrow> ini_outcome" where
  "as_bool assign value c =
     (case parse_bool_strict value of None \<Rightarrow> NotUnderstood | Some b \<Rightarrow> Applied (assign b c))"

definition apply_ini_video :: "string \<Rightarrow> string \<Rightarrow> config \<Rightarrow> ini_outcome" where
  "apply_ini_video key value c =
    (if key = ''width'' then as_int (\<lambda>x. in_video (\<lambda>v. v\<lparr>vc_width := x\<rparr>)) value c
     else if key = ''height'' then as_int (\<lambda>x. in_video (\<lambda>v. v\<lparr>vc_height := x\<rparr>)) value c
     else if key = ''fps'' then as_int (\<lambda>x. in_video (\<lambda>v. v\<lparr>vc_fps := x\<rparr>)) value c
     else if key = ''auto_bitrate'' then as_bool (\<lambda>x. in_video (\<lambda>v. v\<lparr>vc_auto_bitrate := x\<rparr>)) value c
     else if key = ''min_bitrate_kbps'' then as_int (\<lambda>x. in_video (\<lambda>v. v\<lparr>vc_min_bitrate_kbps := x\<rparr>)) value c
     else if key = ''max_bitrate_kbps'' then as_int (\<lambda>x. in_video (\<lambda>v. v\<lparr>vc_max_bitrate_kbps := x\<rparr>)) value c
     else if key = ''floor_bitrate_kbps'' then as_int (\<lambda>x. in_video (\<lambda>v. v\<lparr>vc_floor_bitrate_kbps := x\<rparr>)) value c
     else if key = ''codec'' then as_text (\<lambda>x. in_video (\<lambda>v. v\<lparr>vc_codec := x\<rparr>)) value c
     else UnknownKey)"

definition apply_ini_screen_audio :: "string \<Rightarrow> string \<Rightarrow> config \<Rightarrow> ini_outcome" where
  "apply_ini_screen_audio key value c =
    (if key = ''mode'' then as_text (\<lambda>x. in_screen_audio (\<lambda>v. v\<lparr>sa_mode := x\<rparr>)) value c
     else if key = ''volume_percent'' then as_int (\<lambda>x. in_screen_audio (\<lambda>v. v\<lparr>sa_volume_percent := x\<rparr>)) value c
     else if key = ''limiter'' then as_bool (\<lambda>x. in_screen_audio (\<lambda>v. v\<lparr>sa_limiter := x\<rparr>)) value c
     else UnknownKey)"

definition apply_ini_audio :: "string \<Rightarrow> string \<Rightarrow> config \<Rightarrow> ini_outcome" where
  "apply_ini_audio key value c =
    (if key = ''sample_rate_hz'' then as_int (\<lambda>x. in_audio (\<lambda>v. v\<lparr>au_sample_rate_hz := x\<rparr>)) value c
     else if key = ''channels'' then as_int (\<lambda>x. in_audio (\<lambda>v. v\<lparr>au_channels := x\<rparr>)) value c
     else if key = ''bitrate_kbps'' then as_int (\<lambda>x. in_audio (\<lambda>v. v\<lparr>au_bitrate_kbps := x\<rparr>)) value c
     else if key = ''redundancy'' then as_bool (\<lambda>x. in_audio (\<lambda>v. v\<lparr>au_redundancy := x\<rparr>)) value c
     else if key = ''retransmission'' then as_bool (\<lambda>x. in_audio (\<lambda>v. v\<lparr>au_retransmission := x\<rparr>)) value c
     else if key = ''adaptive'' then as_bool (\<lambda>x. in_audio (\<lambda>v. v\<lparr>au_adaptive := x\<rparr>)) value c
     else if key = ''frame_duration_ms'' then as_int (\<lambda>x. in_audio (\<lambda>v. v\<lparr>au_frame_duration_ms := x\<rparr>)) value c
     else if key = ''echo_cancellation'' then as_bool (\<lambda>x. in_audio (\<lambda>v. v\<lparr>au_echo_cancellation := x\<rparr>)) value c
     else if key = ''noise_suppression'' then as_bool (\<lambda>x. in_audio (\<lambda>v. v\<lparr>au_noise_suppression := x\<rparr>)) value c
     else if key = ''noise_suppression_level'' then (if is_noise_suppression_level value
       then as_text (\<lambda>x. in_audio (\<lambda>v. v\<lparr>au_noise_suppression_level := x\<rparr>)) value c else NotUnderstood)
     else if key = ''automatic_gain_control'' then as_bool (\<lambda>x. in_audio (\<lambda>v. v\<lparr>au_automatic_gain_control := x\<rparr>)) value c
     else if key = ''voice_gate'' then as_bool (\<lambda>x. in_audio (\<lambda>v. v\<lparr>au_voice_gate := x\<rparr>)) value c
     else if key = ''voice_gate_level'' then (if is_noise_suppression_level value
       then as_text (\<lambda>x. in_audio (\<lambda>v. v\<lparr>au_voice_gate_level := x\<rparr>)) value c else NotUnderstood)
     else if key = ''input_device'' then as_text (\<lambda>x. in_audio (\<lambda>v. v\<lparr>au_input_device := x\<rparr>)) value c
     else if key = ''output_device'' then as_text (\<lambda>x. in_audio (\<lambda>v. v\<lparr>au_output_device := x\<rparr>)) value c
     else UnknownKey)"

definition apply_ini_network :: "string \<Rightarrow> string \<Rightarrow> config \<Rightarrow> ini_outcome" where
  "apply_ini_network key value c =
    (if key = ''signaling_url'' then as_text (\<lambda>x. in_network (\<lambda>v. v\<lparr>nc_signaling_url := x\<rparr>)) value c
     else if key = ''stun_servers'' then Applied (in_network (\<lambda>v. v\<lparr>nc_stun_servers := split_list value\<rparr>) c)
     else if key = ''turn_url'' then as_text (\<lambda>x. in_network (\<lambda>v. v\<lparr>nc_turn_url := x\<rparr>)) value c
     else if key = ''turn_username'' then as_text (\<lambda>x. in_network (\<lambda>v. v\<lparr>nc_turn_username := x\<rparr>)) value c
     else if key = ''turn_password'' then as_text (\<lambda>x. in_network (\<lambda>v. v\<lparr>nc_turn_password := x\<rparr>)) value c
     else if key = ''ice_port_range_begin'' then as_port (\<lambda>x. in_network (\<lambda>v. v\<lparr>nc_ice_port_range_begin := x\<rparr>)) value c
     else if key = ''ice_port_range_end'' then as_port (\<lambda>x. in_network (\<lambda>v. v\<lparr>nc_ice_port_range_end := x\<rparr>)) value c
     else if key = ''reconnect_initial_delay_ms'' then as_int (\<lambda>x. in_network (\<lambda>v. v\<lparr>nc_reconnect_initial_delay_ms := x\<rparr>)) value c
     else if key = ''reconnect_max_delay_ms'' then as_int (\<lambda>x. in_network (\<lambda>v. v\<lparr>nc_reconnect_max_delay_ms := x\<rparr>)) value c
     else UnknownKey)"

definition apply_ini_logging :: "string \<Rightarrow> string \<Rightarrow> config \<Rightarrow> ini_outcome" where
  "apply_ini_logging key value c =
    (if key = ''level'' then as_text (\<lambda>x. in_logging (\<lambda>v. v\<lparr>lc_level := x\<rparr>)) value c
     else if key = ''file_path'' then as_text (\<lambda>x. in_logging (\<lambda>v. v\<lparr>lc_file_path := x\<rparr>)) value c
     else if key = ''log_to_console'' then as_bool (\<lambda>x. in_logging (\<lambda>v. v\<lparr>lc_log_to_console := x\<rparr>)) value c
     else if key = ''crash_directory'' then as_text (\<lambda>x. in_logging (\<lambda>v. v\<lparr>lc_crash_directory := x\<rparr>)) value c
     else if key = ''crash_reports'' then as_bool (\<lambda>x. in_logging (\<lambda>v. v\<lparr>lc_crash_reports := x\<rparr>)) value c
     else UnknownKey)"

definition apply_ini_ui :: "string \<Rightarrow> string \<Rightarrow> config \<Rightarrow> ini_outcome" where
  "apply_ini_ui key value c =
    (if key = ''room_sounds'' then as_bool (\<lambda>x. in_ui (\<lambda>v. v\<lparr>ui_room_sounds := x\<rparr>)) value c
     else if key = ''check_for_updates'' then as_bool (\<lambda>x. in_ui (\<lambda>v. v\<lparr>ui_check_for_updates := x\<rparr>)) value c
     else UnknownKey)"

definition apply_ini_server :: "string \<Rightarrow> string \<Rightarrow> config \<Rightarrow> ini_outcome" where
  "apply_ini_server key value c =
    (if key = ''bind_address'' then as_text (\<lambda>x. in_server (\<lambda>v. v\<lparr>sc_bind_address := x\<rparr>)) value c
     else if key = ''port'' then as_port (\<lambda>x. in_server (\<lambda>v. v\<lparr>sc_port := x\<rparr>)) value c
     else if key = ''max_participants_per_room'' then as_int (\<lambda>x. in_server (\<lambda>v. v\<lparr>sc_max_participants_per_room := x\<rparr>)) value c
     else if key = ''heartbeat_interval_ms'' then as_int (\<lambda>x. in_server (\<lambda>v. v\<lparr>sc_heartbeat_interval_ms := x\<rparr>)) value c
     else if key = ''heartbeat_timeout_ms'' then as_int (\<lambda>x. in_server (\<lambda>v. v\<lparr>sc_heartbeat_timeout_ms := x\<rparr>)) value c
     else if key = ''users_file'' then as_text (\<lambda>x. in_server (\<lambda>v. v\<lparr>sc_users_file := x\<rparr>)) value c
     else UnknownKey)"

definition apply_ini_database :: "string \<Rightarrow> string \<Rightarrow> config \<Rightarrow> ini_outcome" where
  "apply_ini_database key value c =
    (if key = ''enabled'' then as_bool (\<lambda>x. in_database (\<lambda>v. v\<lparr>dc_enabled := x\<rparr>)) value c
     else if key = ''uri'' then as_text (\<lambda>x. in_database (\<lambda>v. v\<lparr>dc_uri := x\<rparr>)) value c
     else if key = ''name'' then as_text (\<lambda>x. in_database (\<lambda>v. v\<lparr>dc_name := x\<rparr>)) value c
     else if key = ''timeout_ms'' then as_int (\<lambda>x. in_database (\<lambda>v. v\<lparr>dc_timeout_ms := x\<rparr>)) value c
     else UnknownKey)"

definition apply_ini_section :: "string \<Rightarrow> string \<Rightarrow> string \<Rightarrow> config \<Rightarrow> ini_outcome" where
  "apply_ini_section section key value c =
    (if section = ''video'' then apply_ini_video key value c
     else if section = ''screen_audio'' then apply_ini_screen_audio key value c
     else if section = ''audio'' then apply_ini_audio key value c
     else if section = ''network'' then apply_ini_network key value c
     else if section = ''logging'' then apply_ini_logging key value c
     else if section = ''ui'' then apply_ini_ui key value c
     else if section = ''server'' then apply_ini_server key value c
     else if section = ''database'' then apply_ini_database key value c
     else UnknownKey)"

text \<open>The reason of a refusal on the left.\<close>

definition apply_ini_field :: "config \<Rightarrow> string \<Rightarrow> string \<Rightarrow> string \<Rightarrow> string + config" where
  "apply_ini_field c section key value = (case apply_ini_section section key value c of
     UnknownKey \<Rightarrow> Inl (''no such setting as ['' @ section @ ''] '' @ key)
   | NotUnderstood \<Rightarrow> Inl (CHR 0x27 # value @ CHR 0x27 # '' is not a value '' @ key @ '' can take'')
   | Applied c \<Rightarrow> Inr c)"

definition ini_error :: "int \<Rightarrow> string \<Rightarrow> error" where
  "ini_error number reason = mk_error ''invalid_ini'' (''line '' @ to_string_int number @ '': '' @ reason)"

text \<open>One line: the section it is read in and the settings so far, to the next ones.\<close>

definition parse_ini_line :: "int \<Rightarrow> string \<Rightarrow> string \<times> config \<Rightarrow> (string \<times> config) result" where
  "parse_ini_line number raw = (\<lambda>(section, c).
     (let line = trim raw
      in if line = [] \<or> hd line = CHR '';'' \<or> hd line = CHR ''#'' then Inr (section, c)
         else if hd line = CHR ''['' then
           (if last line \<noteq> CHR '']'' then Inl (ini_error number ''a section header ends with ]'')
            else (let section = trim (take (length line - 2) (tl line))
                  in if section = [] then Inl (ini_error number ''a section needs a name'')
                     else Inr (section, c)))
         else (case split_at (CHR ''='') line of
             None \<Rightarrow> Inl (ini_error number ''expected [section], or key = value'')
           | Some (left, right) \<Rightarrow>
               if section = [] then Inl (ini_error number ''this setting is under no [section]'')
               else (let key = trim left
                     in if key = [] then Inl (ini_error number ''a setting needs a name'')
                        else (case apply_ini_field c section key (read_value right) of
                            Inl reason \<Rightarrow> Inl (ini_error number reason)
                          | Inr c \<Rightarrow> Inr (section, c))))))"

fun parse_ini_lines :: "int \<Rightarrow> string list \<Rightarrow> string \<times> config \<Rightarrow> (string \<times> config) result" where
  "parse_ini_lines number [] s = Inr s"
| "parse_ini_lines number (raw # rest) s =
     (case parse_ini_line (number + 1) raw s of
        Inl e \<Rightarrow> Inl e
      | Inr s \<Rightarrow> parse_ini_lines (number + 1) rest s)"

text \<open>What \<open>std::getline\<close> reads one by one: a last line needs no terminator, and the empty piece after
  a last terminator is no line.\<close>

function getlines :: "string \<Rightarrow> string list" where
  "getlines s =
     (if s = [] then []
      else case dropWhile (\<lambda>c. c \<noteq> CHR 0x0A) s of
          [] \<Rightarrow> [s]
        | _ # rest \<Rightarrow> takeWhile (\<lambda>c. c \<noteq> CHR 0x0A) s # getlines rest)"
  by auto
termination
proof (relation "measure length")
  fix s :: string and c rest
  assume "dropWhile (\<lambda>c. c \<noteq> CHR 0x0A) s = c # rest"
  then have "Suc (length rest) \<le> length s" by (metis length_Cons length_dropWhile_le)
  then show "(rest, s) \<in> measure length" by simp
qed simp

declare getlines.simps [simp del]

definition parse_ini :: "string \<Rightarrow> config \<Rightarrow> config result" where
  "parse_ini ini_text base = (case parse_ini_lines 0 (getlines ini_text) ([], base) of
     Inl e \<Rightarrow> Inl e | Inr (_, c) \<Rightarrow> Inr c)"

section \<open>Rules\<close>

definition kOpusSampleRates :: "int list" where
  "kOpusSampleRates = [8000, 12000, 16000, 24000, 48000]"

definition kOpusFrameDurations :: "int list" where
  "kOpusFrameDurations = [5, 10, 20, 40, 60]"

text \<open>\<open>%\<close> truncates, so an odd negative number leaves -1: only whether the rest is zero is asked.\<close>

definition validate_video :: "video_config \<Rightarrow> error option" where
  "validate_video v =
    (if vc_width v \<le> 0 \<or> vc_height v \<le> 0
     then Some (invalid_value ''video.width/height'' ''must be positive'')
     else if vc_width v mod 2 \<noteq> 0 \<or> vc_height v mod 2 \<noteq> 0
     then Some (invalid_value ''video.width/height'' ''must be even for H.264 chroma subsampling'')
     else if vc_fps v < 1 \<or> vc_fps v > 120
     then Some (invalid_value ''video.fps'' ''must be between 1 and 120'')
     else if vc_min_bitrate_kbps v \<le> 0
     then Some (invalid_value ''video.min_bitrate_kbps'' ''must be positive'')
     else if vc_max_bitrate_kbps v < vc_min_bitrate_kbps v
     then Some (invalid_value ''video.max_bitrate_kbps'' ''must be at least min_bitrate_kbps'')
     else if vc_floor_bitrate_kbps v \<le> 0
     then Some (invalid_value ''video.floor_bitrate_kbps'' ''must be positive'')
     else if vc_floor_bitrate_kbps v > vc_min_bitrate_kbps v
     then Some (invalid_value ''video.floor_bitrate_kbps''
       ''must not be above min_bitrate_kbps, which is where the encoder starts'')
     else None)"

definition validate_audio :: "audio_config \<Rightarrow> screen_audio_config \<Rightarrow> error option" where
  "validate_audio a s =
    (if au_sample_rate_hz a \<notin> set kOpusSampleRates
     then Some (invalid_value ''audio.sample_rate_hz'' ''must be a rate supported by Opus'')
     else if au_channels a < 1 \<or> au_channels a > 2
     then Some (invalid_value ''audio.channels'' ''must be 1 or 2'')
     else if au_frame_duration_ms a \<notin> set kOpusFrameDurations
     then Some (invalid_value ''audio.frame_duration_ms'' ''must be 5, 10, 20, 40 or 60'')
     else if au_bitrate_kbps a < 6 \<or> au_bitrate_kbps a > 510
     then Some (invalid_value ''audio.bitrate_kbps'' ''must be between 6 and 510'')
     else if \<not> is_noise_suppression_level (au_noise_suppression_level a)
     then Some (invalid_value ''audio.noise_suppression_level''
       ''must be low, moderate, high or very_high'')
     else if \<not> is_noise_suppression_level (au_voice_gate_level a)
     then Some (invalid_value ''audio.voice_gate_level'' ''must be low, moderate, high or very_high'')
     else if sa_mode s \<noteq> ''none'' \<and> sa_mode s \<noteq> ''system'' \<and> sa_mode s \<noteq> ''process''
     then Some (invalid_value ''screen_audio.mode'' ''must be none, system or process'')
     else if sa_volume_percent s < 0 \<or> sa_volume_percent s > 200
     then Some (invalid_value ''screen_audio.volume_percent'' ''must be between 0 and 200'')
     else None)"

definition validate_database :: "database_config \<Rightarrow> error option" where
  "validate_database d =
    (if \<not> dc_enabled d then None
     else if dc_uri d = []
     then Some (invalid_value ''database.uri'' ''must not be empty when the database is enabled'')
     else if dc_name d = []
     then Some (invalid_value ''database.name'' ''must not be empty when the database is enabled'')
     else if dc_timeout_ms d \<le> 0
     then Some (invalid_value ''database.timeout_ms'' ''must be positive'')
     else None)"

definition validate_network :: "network_config \<Rightarrow> error option" where
  "validate_network n =
    (let range_begins = nc_ice_port_range_begin n \<noteq> 0; range_ends = nc_ice_port_range_end n \<noteq> 0
     in if nc_signaling_url n = []
     then Some (invalid_value ''network.signaling_url'' ''must not be empty'')
     else if \<not> starts_with ''ws://'' (nc_signaling_url n) \<and> \<not> starts_with ''wss://'' (nc_signaling_url n)
     then Some (invalid_value ''network.signaling_url'' ''must start with ws:// or wss://'')
     else if nc_reconnect_initial_delay_ms n \<le> 0
       \<or> nc_reconnect_max_delay_ms n < nc_reconnect_initial_delay_ms n
     then Some (invalid_value ''network.reconnect delays'' ''max must be at least the initial delay'')
     else if range_begins \<noteq> range_ends
     then Some (invalid_value ''network.ice_port_range_begin/end''
       ''must both be set, or both left at zero for the ephemeral range'')
     else if range_begins \<and> nc_ice_port_range_begin n > nc_ice_port_range_end n
     then Some (invalid_value ''network.ice_port_range_begin'' ''must not be above ice_port_range_end'')
     else None)"

definition validate_server :: "server_config \<Rightarrow> error option" where
  "validate_server s =
    (if sc_port s = 0 then Some (invalid_value ''server.port'' ''must not be zero'')
     else if sc_max_participants_per_room s < kMinRoomCapacity
     then Some (invalid_value ''server.max_participants_per_room''
       (''must be at least '' @ to_string_int kMinRoomCapacity))
     else if sc_max_participants_per_room s > kMaxRoomCapacity
     then Some (invalid_value ''server.max_participants_per_room''
       (''must be at most '' @ to_string_int kMaxRoomCapacity))
     else if sc_heartbeat_timeout_ms s \<le> sc_heartbeat_interval_ms s
     then Some (invalid_value ''server.heartbeat_timeout_ms'' ''must exceed heartbeat_interval_ms'')
     else None)"

text \<open>The first of them, in the order of the code.\<close>

fun first_error :: "error option list \<Rightarrow> error option" where
  "first_error [] = None"
| "first_error (Some e # rest) = Some e"
| "first_error (None # rest) = first_error rest"

definition validate_config :: "config \<Rightarrow> error option" where
  "validate_config c = first_error
    [validate_video (cf_video c), validate_audio (cf_audio c) (cf_screen_audio c),
     validate_database (cf_database c), validate_network (cf_network c),
     validate_server (cf_server c)]"

end
