(* ===== verification/CallOptions.thy ===== *)
theory CallOptions
  imports CallProofs Config
begin

text \<open>
  The picture's bitrate over a whole call: the range kept in the options is one the encoder can be given,
  and in automatic mode it is always the one worked out from the size and the frame rate.
\<close>

section \<open>Who touches the options\<close>

text \<open>Only the settings do. Every other operation hands them on.\<close>

lemma options_helpers [simp]:
  "cs_options (tell t S) = cs_options S" "cs_options (cs_set_state st d S) = cs_options S"
  "cs_options (publish_participants S) = cs_options S" "cs_options (report e S) = cs_options S"
  "cs_options (report_link S) = cs_options S" "cs_options (media_void i c S) = cs_options S"
  "cs_options (media_void_if session c S) = cs_options S"
  "cs_options (snd (media E i c S)) = cs_options S" "cs_options (snd (media_if E session c S)) = cs_options S"
  "cs_options (snd (cs_send E m S)) = cs_options S" "cs_options (upd_call_participant u f S) = cs_options S"
  "cs_options (cs_probe E S) = cs_options S" "cs_options (report_failure rT) = cs_options (snd rT)"
  by (simp_all add: tell_def cs_set_state_def publish_participants_def report_def report_link_def
      media_void_def media_void_if_def media_def media_if_def cs_send_def upd_call_participant_def
      cs_probe_def report_failure_def Let_def split_beta split: option.split prod.split sum.split)

lemma options_send: "cs_send E m S = (r, T) \<Longrightarrow> cs_options T = cs_options S"
  by (metis options_helpers(10) snd_conv)

lemma options_media: "media E i c S = (r, T) \<Longrightarrow> cs_options T = cs_options S"
  by (metis options_helpers(8) snd_conv)

lemma options_volumes [simp]: "cs_options (apply_volumes E i vs S) = cs_options S"
  by (induction E i vs S rule: apply_volumes.induct) simp_all

lemma options_ensure [simp]: "cs_options (snd (ensure_media_session E S)) = cs_options S"
  by (simp add: ensure_media_session_def Let_def split: option.split)

lemma options_signals [simp]:
  "cs_options (handle_user_joined u S) = cs_options S" "cs_options (handle_user_left uid S) = cs_options S"
  "cs_options (cs_handle_mute b uid by_uid S) = cs_options S" "cs_options (handle_notice n S) = cs_options S"
  "cs_options (handle_user_restricted uid r by_uid reason S) = cs_options S"
  "cs_options (handle_user_kicked uid reason S) = cs_options S"
  "cs_options (handle_session_ended reason S) = cs_options S"
  "cs_options (handle_screen_share_started uid w S) = cs_options S"
  "cs_options (handle_screen_share_stopped uid S) = cs_options S"
  "cs_options (handle_ice_candidate E from cand mid mline S) = cs_options S"
  by (simp_all add: handle_user_joined_def handle_user_left_def cs_handle_mute_def handle_notice_def
      handle_user_restricted_def handle_user_kicked_def handle_session_ended_def
      handle_screen_share_started_def handle_screen_share_stopped_def handle_ice_candidate_def Let_def
      split: option.split)

lemma options_authenticated [simp]: "cs_options (handle_authenticated E u S) = cs_options S"
  by (auto simp: handle_authenticated_def Let_def dest: options_send split: prod.split sum.split)

lemma options_offer [simp]: "cs_options (handle_offer E from sdp S) = cs_options S"
proof -
  obtain r T where e: "ensure_media_session E S = (r, T)" by force
  then have "cs_options T = cs_options S" using options_ensure [of E S] by simp
  then show ?thesis using e by (auto simp: handle_offer_def split: sum.split option.split)
qed

lemma options_signal [simp]: "cs_options (handle_signal E m S) = cs_options S"
  by (cases m) simp_all

lemma options_deliver [simp]: "cs_options (deliver E out S) = cs_options S"
proof (induction out arbitrary: S)
  case (Cons w out)
  then show ?case
    by (cases w) (simp_all add: handle_signaling_state_def Let_def split: signaling_state.split)
qed simp

lemma options_wire [simp]: "cs_options (on_wire E effect S) = cs_options S"
  by (simp add: on_wire_def)

lemma options_open [simp]: "cs_options (snd (open_signaling E S)) = cs_options S"
  by (simp add: open_signaling_def split: prod.split sum.split)

lemma options_opened: "open_signaling E S = (r, T) \<Longrightarrow> cs_options T = cs_options S"
  by (metis options_open snd_conv)

lemma options_connections [simp]:
  "cs_options (snd (cs_connect_and_authenticate E u p S)) = cs_options S"
  "cs_options (snd (probe_server E S)) = cs_options S" "cs_options (snd (retest_server E S)) = cs_options S"
  "cs_options (cs_set_signaling_url E url S) = cs_options S" "cs_options (cs_disconnect E S) = cs_options S"
  "cs_options (metrics_tick E S) = cs_options S"
proof -
  show probe: "cs_options (snd (probe_server E S)) = cs_options S" for S
    by (simp add: probe_server_def split: signaling_state.split)
  show retest: "cs_options (snd (retest_server E S)) = cs_options S" for S
    by (simp add: retest_server_def refuse_def probe)
  show "cs_options (cs_set_signaling_url E url S) = cs_options S"
    by (simp add: cs_set_signaling_url_def retest)
  show "cs_options (snd (cs_connect_and_authenticate E u p S)) = cs_options S"
    by (auto simp: cs_connect_and_authenticate_def refuse_def Let_def dest: options_send options_opened
        split: signaling_state.split prod.split sum.split)
  show "cs_options (cs_disconnect E S) = cs_options S" by (simp add: cs_disconnect_def Let_def)
  show "cs_options (metrics_tick E S) = cs_options S" by (simp add: metrics_tick_def Let_def split: option.split)
qed

lemma options_requests [simp]:
  "cs_options (snd (cs_create_room E n p c S)) = cs_options S"
  "cs_options (snd (cs_change_password E o1 o2 S)) = cs_options S"
  "cs_options (snd (cs_send_chat E t S)) = cs_options S" "cs_options (snd (cs_nudge E u S)) = cs_options S"
  "cs_options (snd (cs_list_chat E l S)) = cs_options S" "cs_options (snd (cs_join E room d S)) = cs_options S"
  "cs_options (snd (cs_leave E S)) = cs_options S" "cs_options (snd (cs_set_muted E b S)) = cs_options S"
  "cs_options (snd (cs_stop_screen_share E S)) = cs_options S"
  by (simp_all add: cs_create_room_def cs_change_password_def cs_send_chat_def cs_nudge_def cs_list_chat_def
      cs_join_def cs_leave_def cs_set_muted_def set_muted_locked_def set_muted_rest_def
      cs_stop_screen_share_def Let_def)

lemma options_administer [simp]: "cs_options (snd (administer E m S)) = cs_options S"
  by (cases m) (simp_all add: cs_kick_def cs_force_mute_def cs_restrict_user_def cs_send_notice_def
      cs_acknowledge_notice_def cs_list_users_def cs_create_user_def cs_update_user_def cs_delete_user_def
      cs_list_rooms_def cs_delete_room_def cs_update_room_def cs_list_audit_def cs_list_sessions_def
      cs_end_session_def)

lemma options_share [simp]: "cs_options (snd (cs_start_screen_share E src audio S)) = cs_options S"
proof -
  have "cs_options (snd (start_screen_audio E i audio S)) = cs_options S" for i S
    by (auto simp: start_screen_audio_def Let_def dest: options_media split: prod.split sum.split)
  then have sound: "cs_options T = cs_options S" if "start_screen_audio E i audio S = (b, T)" for i S b T
    using that by (metis snd_conv)
  show ?thesis
    by (auto simp: cs_start_screen_share_def Let_def dest!: options_media options_send sound
        split: option.split prod.split sum.split)
qed

lemma options_fold: "(\<And>l T. cs_options (f l T) = cs_options T) \<Longrightarrow> cs_options (fold f ls S) = cs_options S"
  by (induction ls arbitrary: S) simp_all

lemma options_callbacks [simp]:
  "cs_options (on_local_answer E sdp S) = cs_options S"
  "cs_options (on_local_candidate E cand mid mline S) = cs_options S"
  "cs_options (on_remote_audio u active S) = cs_options S" "cs_options (on_remote_video frame S) = cs_options S"
  "cs_options (on_screen_share_ended E reason S) = cs_options S" "cs_options (on_media_state st S) = cs_options S"
  "cs_options (on_levels levels S) = cs_options S"
  by (simp_all add: on_local_answer_def on_local_candidate_def on_remote_audio_def on_remote_video_def
      on_screen_share_ended_def on_media_state_def on_levels_def level_of_def options_fold
      split: media_state.split)

section \<open>The range\<close>

definition range_ok :: "call_session \<Rightarrow> bool" where
  "range_ok S \<longleftrightarrow>
     (let m = co_media (cs_options S); capture = mo_capture m;
          range = \<lparr>br_min_kbps = mo_video_min_bitrate_kbps m, br_max_kbps = mo_video_max_bitrate_kbps m\<rparr>
      in 1 \<le> br_min_kbps range \<and> br_min_kbps range \<le> br_max_kbps range
       \<and> (if co_auto_bitrate (cs_options S)
          then range = recommended_bitrate_kbps (ca_max_size capture) (ca_max_fps capture)
                 (mo_video_floor_bitrate_kbps m)
          else True))"

lemma range_ok_kept: "cs_options T = cs_options S \<Longrightarrow> range_ok S \<Longrightarrow> range_ok T"
  by (simp add: range_ok_def)

lemma options_in_media [simp]:
  "cs_options (in_media f S) = (cs_options S)\<lparr>co_media := f (co_media (cs_options S))\<rparr>"
  by (simp add: in_media_def)

lemma range_ok_settings:
  assumes "range_ok S"
  shows "range_ok (snd (cs_set_participant_volume E u v S))" "range_ok (snd (cs_set_input_device E d S))"
    "range_ok (snd (cs_set_output_device E d S))" "range_ok (snd (cs_set_screen_audio_volume p S))"
    "range_ok (snd (cs_set_audio_processing e n g lv S))" "range_ok (snd (cs_set_voice_gate w vl S))"
    "range_ok (snd (cs_set_video_bitrate E lo hi S))"
  using assms
  by (auto simp: range_ok_def cs_set_participant_volume_def cs_set_input_device_def cs_set_output_device_def
      cs_set_screen_audio_volume_def cs_set_audio_processing_def cs_set_voice_gate_def
      cs_set_video_bitrate_def refuse_def Let_def)

lemma range_ok_automatic:
  assumes "range_ok S"
  shows "range_ok (snd (cs_set_auto_bitrate E b S))"
  using assms recommended_range
  by (auto simp: range_ok_def cs_set_auto_bitrate_def use_recommended_def Let_def)

lemma range_ok_quality:
  assumes "range_ok S"
  shows "range_ok (snd (cs_set_video_quality E s fps S))"
proof -
  obtain r T where "media_if E (cs_audio S) (SetCaptureOptions \<lparr>ca_max_size = s, ca_max_fps = fps\<rparr>) S = (r, T)"
    by force
  moreover from this have "cs_options T = cs_options S" by (metis options_helpers(9) snd_conv)
  ultimately show ?thesis using assms recommended_range
    by (auto simp: range_ok_def cs_set_video_quality_def use_recommended_def refuse_def Let_def
        split: sum.split)
qed

lemma range_ok_step: "range_ok S \<Longrightarrow> range_ok (call_step E e S)"
  by (cases e) (auto simp: range_ok_settings range_ok_automatic range_ok_quality intro: range_ok_kept)

interpretation range_machine: invariant_machine "call_step E" range_ok for E
  by unfold_locales (rule range_ok_step)

end
