(* ===== verification/ConfigLoad.thy ===== *)
theory ConfigLoad
  imports Config Codec
begin

text \<open>
  How the settings are put together: the JSON form of a file, the files looked for, the environment
  and the command line, and \<open>load\<close>, of \<open>shared/src/config/config.cpp\<close>. What the program asks of the
  system around it is the record \<open>config_world\<close>: the environment variables, the files that can be
  read, the directory of the executable (asked of the operating system), and the JSON library. The
  paths are those of Linux.
\<close>

section \<open>The world\<close>

record config_world =
  cw_env :: "string \<rightharpoonup> string"
  cw_files :: "string \<rightharpoonup> string"
  cw_executable_directory :: string
  cw_json :: "string \<Rightarrow> json option"
  cw_float_to_int :: "string \<Rightarrow> int"
  cw_type_error :: "json \<Rightarrow> string"

text \<open>An empty variable reads as an absent one.\<close>

definition env :: "config_world \<Rightarrow> string \<Rightarrow> string option" where
  "env w name = (case cw_env w name of None \<Rightarrow> None | Some raw \<Rightarrow> if raw = [] then None else Some raw)"

section \<open>The JSON form\<close>

type_synonym field_readers = "(string \<times> (json \<Rightarrow> config \<Rightarrow> string + config)) list"

text \<open>\<open>get<T>\<close> of the JSON library for the types of the settings: a number of another kind and a
  boolean are cast to an integer, any other kind throws.\<close>

definition to_uint16 :: "int \<Rightarrow> int" where
  "to_uint16 i = i mod 2 ^ 16"

definition json_number :: "config_world \<Rightarrow> json \<Rightarrow> string + int" where
  "json_number w j = (case j of
     JInt i \<Rightarrow> Inr i | JFloat t \<Rightarrow> Inr (cw_float_to_int w t) | JBool b \<Rightarrow> Inr (if b then 1 else 0)
   | _ \<Rightarrow> Inl (cw_type_error w j))"

definition json_int :: "config_world \<Rightarrow> (int \<Rightarrow> config \<Rightarrow> config) \<Rightarrow> json \<Rightarrow> config \<Rightarrow> string + config" where
  "json_int w assign j c = (case json_number w j of Inl e \<Rightarrow> Inl e | Inr i \<Rightarrow> Inr (assign (to_int32 i) c))"

definition json_port :: "config_world \<Rightarrow> (int \<Rightarrow> config \<Rightarrow> config) \<Rightarrow> json \<Rightarrow> config \<Rightarrow> string + config" where
  "json_port w assign j c = (case json_number w j of Inl e \<Rightarrow> Inl e | Inr i \<Rightarrow> Inr (assign (to_uint16 i) c))"

definition json_bool :: "config_world \<Rightarrow> (bool \<Rightarrow> config \<Rightarrow> config) \<Rightarrow> json \<Rightarrow> config \<Rightarrow> string + config" where
  "json_bool w assign j c = (case j of JBool b \<Rightarrow> Inr (assign b c) | _ \<Rightarrow> Inl (cw_type_error w j))"

definition json_string :: "config_world \<Rightarrow> (string \<Rightarrow> config \<Rightarrow> config) \<Rightarrow> json \<Rightarrow> config \<Rightarrow> string + config" where
  "json_string w assign j c = (case j of JString s \<Rightarrow> Inr (assign s c) | _ \<Rightarrow> Inl (cw_type_error w j))"

fun json_texts :: "json list \<Rightarrow> string list + json" where
  "json_texts [] = Inl []"
| "json_texts (JString s # rest) = (case json_texts rest of Inl ss \<Rightarrow> Inl (s # ss) | Inr j \<Rightarrow> Inr j)"
| "json_texts (j # rest) = Inr j"

definition json_strings :: "config_world \<Rightarrow> (string list \<Rightarrow> config \<Rightarrow> config) \<Rightarrow> json \<Rightarrow> config \<Rightarrow> string + config" where
  "json_strings w assign j c = (case j of
     JArray js \<Rightarrow> (case json_texts js of Inl ss \<Rightarrow> Inr (assign ss c) | Inr bad \<Rightarrow> Inl (cw_type_error w bad))
   | _ \<Rightarrow> Inl (cw_type_error w j))"

text \<open>\<open>contains\<close> is false of everything that is no object, and \<open>read_field\<close> leaves a null alone.\<close>

definition json_members :: "json \<Rightarrow> (string \<rightharpoonup> json)" where
  "json_members j = (case j of JObject members \<Rightarrow> members | _ \<Rightarrow> Map.empty)"

fun read_fields :: "(string \<rightharpoonup> json) \<Rightarrow> field_readers \<Rightarrow> config \<Rightarrow> string + config" where
  "read_fields object [] c = Inr c"
| "read_fields object ((key, read) # rest) c =
     (if is_absent (object key) then read_fields object rest c
      else case read (the (object key)) c of
        Inl e \<Rightarrow> Inl e
      | Inr c \<Rightarrow> read_fields object rest c)"

definition json_video_fields :: "config_world \<Rightarrow> field_readers" where
  "json_video_fields w =
    [(''width'', json_int w (\<lambda>x. in_video (\<lambda>v. v\<lparr>vc_width := x\<rparr>))),
     (''height'', json_int w (\<lambda>x. in_video (\<lambda>v. v\<lparr>vc_height := x\<rparr>))),
     (''fps'', json_int w (\<lambda>x. in_video (\<lambda>v. v\<lparr>vc_fps := x\<rparr>))),
     (''auto_bitrate'', json_bool w (\<lambda>x. in_video (\<lambda>v. v\<lparr>vc_auto_bitrate := x\<rparr>))),
     (''min_bitrate_kbps'', json_int w (\<lambda>x. in_video (\<lambda>v. v\<lparr>vc_min_bitrate_kbps := x\<rparr>))),
     (''max_bitrate_kbps'', json_int w (\<lambda>x. in_video (\<lambda>v. v\<lparr>vc_max_bitrate_kbps := x\<rparr>))),
     (''floor_bitrate_kbps'', json_int w (\<lambda>x. in_video (\<lambda>v. v\<lparr>vc_floor_bitrate_kbps := x\<rparr>))),
     (''codec'', json_string w (\<lambda>x. in_video (\<lambda>v. v\<lparr>vc_codec := x\<rparr>)))]"

definition json_audio_fields :: "config_world \<Rightarrow> field_readers" where
  "json_audio_fields w =
    [(''sample_rate_hz'', json_int w (\<lambda>x. in_audio (\<lambda>v. v\<lparr>au_sample_rate_hz := x\<rparr>))),
     (''channels'', json_int w (\<lambda>x. in_audio (\<lambda>v. v\<lparr>au_channels := x\<rparr>))),
     (''bitrate_kbps'', json_int w (\<lambda>x. in_audio (\<lambda>v. v\<lparr>au_bitrate_kbps := x\<rparr>))),
     (''redundancy'', json_bool w (\<lambda>x. in_audio (\<lambda>v. v\<lparr>au_redundancy := x\<rparr>))),
     (''retransmission'', json_bool w (\<lambda>x. in_audio (\<lambda>v. v\<lparr>au_retransmission := x\<rparr>))),
     (''adaptive'', json_bool w (\<lambda>x. in_audio (\<lambda>v. v\<lparr>au_adaptive := x\<rparr>))),
     (''frame_duration_ms'', json_int w (\<lambda>x. in_audio (\<lambda>v. v\<lparr>au_frame_duration_ms := x\<rparr>))),
     (''echo_cancellation'', json_bool w (\<lambda>x. in_audio (\<lambda>v. v\<lparr>au_echo_cancellation := x\<rparr>))),
     (''noise_suppression'', json_bool w (\<lambda>x. in_audio (\<lambda>v. v\<lparr>au_noise_suppression := x\<rparr>))),
     (''noise_suppression_level'', json_string w (\<lambda>x. in_audio (\<lambda>v. v\<lparr>au_noise_suppression_level := x\<rparr>))),
     (''automatic_gain_control'', json_bool w (\<lambda>x. in_audio (\<lambda>v. v\<lparr>au_automatic_gain_control := x\<rparr>))),
     (''voice_gate'', json_bool w (\<lambda>x. in_audio (\<lambda>v. v\<lparr>au_voice_gate := x\<rparr>))),
     (''voice_gate_level'', json_string w (\<lambda>x. in_audio (\<lambda>v. v\<lparr>au_voice_gate_level := x\<rparr>))),
     (''input_device'', json_string w (\<lambda>x. in_audio (\<lambda>v. v\<lparr>au_input_device := x\<rparr>))),
     (''output_device'', json_string w (\<lambda>x. in_audio (\<lambda>v. v\<lparr>au_output_device := x\<rparr>)))]"

definition json_screen_audio_fields :: "config_world \<Rightarrow> field_readers" where
  "json_screen_audio_fields w =
    [(''mode'', json_string w (\<lambda>x. in_screen_audio (\<lambda>v. v\<lparr>sa_mode := x\<rparr>))),
     (''volume_percent'', json_int w (\<lambda>x. in_screen_audio (\<lambda>v. v\<lparr>sa_volume_percent := x\<rparr>))),
     (''limiter'', json_bool w (\<lambda>x. in_screen_audio (\<lambda>v. v\<lparr>sa_limiter := x\<rparr>)))]"

definition json_network_fields :: "config_world \<Rightarrow> field_readers" where
  "json_network_fields w =
    [(''signaling_url'', json_string w (\<lambda>x. in_network (\<lambda>v. v\<lparr>nc_signaling_url := x\<rparr>))),
     (''stun_servers'', json_strings w (\<lambda>x. in_network (\<lambda>v. v\<lparr>nc_stun_servers := x\<rparr>))),
     (''turn_url'', json_string w (\<lambda>x. in_network (\<lambda>v. v\<lparr>nc_turn_url := x\<rparr>))),
     (''turn_username'', json_string w (\<lambda>x. in_network (\<lambda>v. v\<lparr>nc_turn_username := x\<rparr>))),
     (''turn_password'', json_string w (\<lambda>x. in_network (\<lambda>v. v\<lparr>nc_turn_password := x\<rparr>))),
     (''ice_port_range_begin'', json_port w (\<lambda>x. in_network (\<lambda>v. v\<lparr>nc_ice_port_range_begin := x\<rparr>))),
     (''ice_port_range_end'', json_port w (\<lambda>x. in_network (\<lambda>v. v\<lparr>nc_ice_port_range_end := x\<rparr>))),
     (''reconnect_initial_delay_ms'', json_int w (\<lambda>x. in_network (\<lambda>v. v\<lparr>nc_reconnect_initial_delay_ms := x\<rparr>))),
     (''reconnect_max_delay_ms'', json_int w (\<lambda>x. in_network (\<lambda>v. v\<lparr>nc_reconnect_max_delay_ms := x\<rparr>)))]"

definition json_logging_fields :: "config_world \<Rightarrow> field_readers" where
  "json_logging_fields w =
    [(''level'', json_string w (\<lambda>x. in_logging (\<lambda>v. v\<lparr>lc_level := x\<rparr>))),
     (''file_path'', json_string w (\<lambda>x. in_logging (\<lambda>v. v\<lparr>lc_file_path := x\<rparr>))),
     (''log_to_console'', json_bool w (\<lambda>x. in_logging (\<lambda>v. v\<lparr>lc_log_to_console := x\<rparr>))),
     (''crash_directory'', json_string w (\<lambda>x. in_logging (\<lambda>v. v\<lparr>lc_crash_directory := x\<rparr>))),
     (''crash_reports'', json_bool w (\<lambda>x. in_logging (\<lambda>v. v\<lparr>lc_crash_reports := x\<rparr>)))]"

definition json_ui_fields :: "config_world \<Rightarrow> field_readers" where
  "json_ui_fields w =
    [(''room_sounds'', json_bool w (\<lambda>x. in_ui (\<lambda>v. v\<lparr>ui_room_sounds := x\<rparr>))),
     (''check_for_updates'', json_bool w (\<lambda>x. in_ui (\<lambda>v. v\<lparr>ui_check_for_updates := x\<rparr>)))]"

definition json_database_fields :: "config_world \<Rightarrow> field_readers" where
  "json_database_fields w =
    [(''enabled'', json_bool w (\<lambda>x. in_database (\<lambda>v. v\<lparr>dc_enabled := x\<rparr>))),
     (''uri'', json_string w (\<lambda>x. in_database (\<lambda>v. v\<lparr>dc_uri := x\<rparr>))),
     (''name'', json_string w (\<lambda>x. in_database (\<lambda>v. v\<lparr>dc_name := x\<rparr>))),
     (''timeout_ms'', json_int w (\<lambda>x. in_database (\<lambda>v. v\<lparr>dc_timeout_ms := x\<rparr>)))]"

definition json_server_fields :: "config_world \<Rightarrow> field_readers" where
  "json_server_fields w =
    [(''bind_address'', json_string w (\<lambda>x. in_server (\<lambda>v. v\<lparr>sc_bind_address := x\<rparr>))),
     (''port'', json_port w (\<lambda>x. in_server (\<lambda>v. v\<lparr>sc_port := x\<rparr>))),
     (''max_participants_per_room'', json_int w (\<lambda>x. in_server (\<lambda>v. v\<lparr>sc_max_participants_per_room := x\<rparr>))),
     (''heartbeat_interval_ms'', json_int w (\<lambda>x. in_server (\<lambda>v. v\<lparr>sc_heartbeat_interval_ms := x\<rparr>))),
     (''heartbeat_timeout_ms'', json_int w (\<lambda>x. in_server (\<lambda>v. v\<lparr>sc_heartbeat_timeout_ms := x\<rparr>))),
     (''users_file'', json_string w (\<lambda>x. in_server (\<lambda>v. v\<lparr>sc_users_file := x\<rparr>)))]"

fun read_sections :: "(string \<rightharpoonup> json) \<Rightarrow> (string \<times> field_readers) list \<Rightarrow> config \<Rightarrow> string + config" where
  "read_sections root [] c = Inr c"
| "read_sections root ((name, readers) # rest) c =
     (case root name of
        None \<Rightarrow> read_sections root rest c
      | Some section \<Rightarrow> (case read_fields (json_members section) readers c of
            Inl e \<Rightarrow> Inl e
          | Inr c \<Rightarrow> read_sections root rest c))"

definition parse_json :: "config_world \<Rightarrow> string \<Rightarrow> config \<Rightarrow> config result" where
  "parse_json w json_text base = (case cw_json w json_text of
     None \<Rightarrow> Inl (mk_error ''invalid_json'' ''configuration is not valid JSON'')
   | Some (JObject root) \<Rightarrow>
       (case read_sections root
          [(''video'', json_video_fields w),
           (''audio'', json_audio_fields w),
           (''screen_audio'', json_screen_audio_fields w),
           (''network'', json_network_fields w),
           (''logging'', json_logging_fields w),
           (''ui'', json_ui_fields w),
           (''database'', json_database_fields w),
           (''server'', json_server_fields w)] base of
          Inl what \<Rightarrow> Inl (mk_error ''invalid_type'' what)
        | Inr c \<Rightarrow> Inr c)
   | Some _ \<Rightarrow> Inl (mk_error ''invalid_json'' ''configuration root must be an object''))"

section \<open>The environment\<close>

definition apply_env_int :: "config_world \<Rightarrow> string \<Rightarrow> (int \<Rightarrow> config \<Rightarrow> config) \<Rightarrow> config \<Rightarrow> config" where
  "apply_env_int w name assign c = (case env w name of
     None \<Rightarrow> c
   | Some raw \<Rightarrow> (case parse_int raw of None \<Rightarrow> c | Some n \<Rightarrow> assign n c))"

definition apply_env_string :: "config_world \<Rightarrow> string \<Rightarrow> (string \<Rightarrow> config \<Rightarrow> config) \<Rightarrow> config \<Rightarrow> config" where
  "apply_env_string w name assign c = (case env w name of None \<Rightarrow> c | Some raw \<Rightarrow> assign raw c)"

definition apply_env_bool ::
    "config_world \<Rightarrow> string \<Rightarrow> (config \<Rightarrow> bool) \<Rightarrow> (bool \<Rightarrow> config \<Rightarrow> config) \<Rightarrow> config \<Rightarrow> config" where
  "apply_env_bool w name target assign c = (case env w name of
     None \<Rightarrow> c | Some raw \<Rightarrow> assign (parse_bool raw (target c)) c)"

definition apply_env_port :: "config_world \<Rightarrow> string \<Rightarrow> (int \<Rightarrow> config \<Rightarrow> config) \<Rightarrow> config \<Rightarrow> config" where
  "apply_env_port w name assign c = (case env w name of
     None \<Rightarrow> c
   | Some raw \<Rightarrow> (case parse_int raw of
        None \<Rightarrow> c | Some n \<Rightarrow> if 0 \<le> n \<and> n \<le> 65535 then assign n c else c))"

definition apply_env_server_port :: "config_world \<Rightarrow> config \<Rightarrow> config" where
  "apply_env_server_port w c = (case env w ''DV_SERVER_PORT'' of
     None \<Rightarrow> c
   | Some raw \<Rightarrow> (case parse_int raw of
        None \<Rightarrow> c
      | Some n \<Rightarrow> if 0 < n \<and> n \<le> 65535 then in_server (\<lambda>v. v\<lparr>sc_port := n\<rparr>) c else c))"

definition environment_settings :: "config_world \<Rightarrow> (config \<Rightarrow> config) list" where
  "environment_settings w =
    [apply_env_int w ''DV_VIDEO_WIDTH'' (\<lambda>x. in_video (\<lambda>v. v\<lparr>vc_width := x\<rparr>)),
     apply_env_int w ''DV_VIDEO_HEIGHT'' (\<lambda>x. in_video (\<lambda>v. v\<lparr>vc_height := x\<rparr>)),
     apply_env_int w ''DV_VIDEO_FPS'' (\<lambda>x. in_video (\<lambda>v. v\<lparr>vc_fps := x\<rparr>)),
     apply_env_bool w ''DV_VIDEO_AUTO_BITRATE'' (\<lambda>c. vc_auto_bitrate (cf_video c)) (\<lambda>x. in_video (\<lambda>v. v\<lparr>vc_auto_bitrate := x\<rparr>)),
     apply_env_int w ''DV_VIDEO_MIN_BITRATE_KBPS'' (\<lambda>x. in_video (\<lambda>v. v\<lparr>vc_min_bitrate_kbps := x\<rparr>)),
     apply_env_int w ''DV_VIDEO_MAX_BITRATE_KBPS'' (\<lambda>x. in_video (\<lambda>v. v\<lparr>vc_max_bitrate_kbps := x\<rparr>)),
     apply_env_int w ''DV_VIDEO_FLOOR_BITRATE_KBPS'' (\<lambda>x. in_video (\<lambda>v. v\<lparr>vc_floor_bitrate_kbps := x\<rparr>)),
     apply_env_string w ''DV_VIDEO_CODEC'' (\<lambda>x. in_video (\<lambda>v. v\<lparr>vc_codec := x\<rparr>)),
     apply_env_int w ''DV_AUDIO_SAMPLE_RATE_HZ'' (\<lambda>x. in_audio (\<lambda>v. v\<lparr>au_sample_rate_hz := x\<rparr>)),
     apply_env_int w ''DV_AUDIO_CHANNELS'' (\<lambda>x. in_audio (\<lambda>v. v\<lparr>au_channels := x\<rparr>)),
     apply_env_int w ''DV_AUDIO_BITRATE_KBPS'' (\<lambda>x. in_audio (\<lambda>v. v\<lparr>au_bitrate_kbps := x\<rparr>)),
     apply_env_bool w ''DV_AUDIO_REDUNDANCY'' (\<lambda>c. au_redundancy (cf_audio c)) (\<lambda>x. in_audio (\<lambda>v. v\<lparr>au_redundancy := x\<rparr>)),
     apply_env_bool w ''DV_AUDIO_RETRANSMISSION'' (\<lambda>c. au_retransmission (cf_audio c)) (\<lambda>x. in_audio (\<lambda>v. v\<lparr>au_retransmission := x\<rparr>)),
     apply_env_bool w ''DV_AUDIO_ADAPTIVE_SFU'' (\<lambda>c. au_adaptive (cf_audio c)) (\<lambda>x. in_audio (\<lambda>v. v\<lparr>au_adaptive := x\<rparr>)),
     apply_env_int w ''DV_AUDIO_FRAME_DURATION_MS'' (\<lambda>x. in_audio (\<lambda>v. v\<lparr>au_frame_duration_ms := x\<rparr>)),
     apply_env_bool w ''DV_AUDIO_ECHO_CANCELLATION'' (\<lambda>c. au_echo_cancellation (cf_audio c)) (\<lambda>x. in_audio (\<lambda>v. v\<lparr>au_echo_cancellation := x\<rparr>)),
     apply_env_bool w ''DV_AUDIO_NOISE_SUPPRESSION'' (\<lambda>c. au_noise_suppression (cf_audio c)) (\<lambda>x. in_audio (\<lambda>v. v\<lparr>au_noise_suppression := x\<rparr>)),
     apply_env_string w ''DV_AUDIO_NOISE_SUPPRESSION_LEVEL'' (\<lambda>x. in_audio (\<lambda>v. v\<lparr>au_noise_suppression_level := x\<rparr>)),
     apply_env_bool w ''DV_AUDIO_AUTOMATIC_GAIN_CONTROL'' (\<lambda>c. au_automatic_gain_control (cf_audio c)) (\<lambda>x. in_audio (\<lambda>v. v\<lparr>au_automatic_gain_control := x\<rparr>)),
     apply_env_bool w ''DV_AUDIO_VOICE_GATE'' (\<lambda>c. au_voice_gate (cf_audio c)) (\<lambda>x. in_audio (\<lambda>v. v\<lparr>au_voice_gate := x\<rparr>)),
     apply_env_string w ''DV_AUDIO_VOICE_GATE_LEVEL'' (\<lambda>x. in_audio (\<lambda>v. v\<lparr>au_voice_gate_level := x\<rparr>)),
     apply_env_string w ''DV_AUDIO_INPUT_DEVICE'' (\<lambda>x. in_audio (\<lambda>v. v\<lparr>au_input_device := x\<rparr>)),
     apply_env_string w ''DV_AUDIO_OUTPUT_DEVICE'' (\<lambda>x. in_audio (\<lambda>v. v\<lparr>au_output_device := x\<rparr>)),
     apply_env_string w ''DV_SIGNALING_URL'' (\<lambda>x. in_network (\<lambda>v. v\<lparr>nc_signaling_url := x\<rparr>)),
     apply_env_string w ''DV_TURN_URL'' (\<lambda>x. in_network (\<lambda>v. v\<lparr>nc_turn_url := x\<rparr>)),
     apply_env_string w ''DV_TURN_USERNAME'' (\<lambda>x. in_network (\<lambda>v. v\<lparr>nc_turn_username := x\<rparr>)),
     apply_env_string w ''DV_TURN_PASSWORD'' (\<lambda>x. in_network (\<lambda>v. v\<lparr>nc_turn_password := x\<rparr>)),
     apply_env_port w ''DV_ICE_PORT_RANGE_BEGIN'' (\<lambda>x. in_network (\<lambda>v. v\<lparr>nc_ice_port_range_begin := x\<rparr>)),
     apply_env_port w ''DV_ICE_PORT_RANGE_END'' (\<lambda>x. in_network (\<lambda>v. v\<lparr>nc_ice_port_range_end := x\<rparr>)),
     apply_env_string w ''DV_LOG_LEVEL'' (\<lambda>x. in_logging (\<lambda>v. v\<lparr>lc_level := x\<rparr>)),
     apply_env_string w ''DV_LOG_FILE'' (\<lambda>x. in_logging (\<lambda>v. v\<lparr>lc_file_path := x\<rparr>)),
     apply_env_string w ''DV_CRASH_DIRECTORY'' (\<lambda>x. in_logging (\<lambda>v. v\<lparr>lc_crash_directory := x\<rparr>)),
     apply_env_bool w ''DV_CRASH_REPORTS'' (\<lambda>c. lc_crash_reports (cf_logging c)) (\<lambda>x. in_logging (\<lambda>v. v\<lparr>lc_crash_reports := x\<rparr>)),
     apply_env_string w ''DV_SERVER_BIND_ADDRESS'' (\<lambda>x. in_server (\<lambda>v. v\<lparr>sc_bind_address := x\<rparr>)),
     apply_env_server_port w,
     apply_env_int w ''DV_SERVER_MAX_PARTICIPANTS'' (\<lambda>x. in_server (\<lambda>v. v\<lparr>sc_max_participants_per_room := x\<rparr>)),
     apply_env_string w ''DV_SERVER_USERS_FILE'' (\<lambda>x. in_server (\<lambda>v. v\<lparr>sc_users_file := x\<rparr>)),
     apply_env_bool w ''DV_DATABASE_ENABLED'' (\<lambda>c. dc_enabled (cf_database c)) (\<lambda>x. in_database (\<lambda>v. v\<lparr>dc_enabled := x\<rparr>)),
     apply_env_string w ''DV_DATABASE_URI'' (\<lambda>x. in_database (\<lambda>v. v\<lparr>dc_uri := x\<rparr>)),
     apply_env_string w ''DV_DATABASE_NAME'' (\<lambda>x. in_database (\<lambda>v. v\<lparr>dc_name := x\<rparr>)),
     apply_env_int w ''DV_DATABASE_TIMEOUT_MS'' (\<lambda>x. in_database (\<lambda>v. v\<lparr>dc_timeout_ms := x\<rparr>))]"

definition apply_environment :: "config_world \<Rightarrow> config \<Rightarrow> config" where
  "apply_environment w c = fold (\<lambda>apply_one. apply_one) (environment_settings w) c"

section \<open>Files\<close>

definition path_append :: "string \<Rightarrow> string \<Rightarrow> string" where
  "path_append base name =
     (if base = [] then name else if last base = CHR ''/'' then base @ name else base @ ''/'' @ name)"

definition user_config_directory :: "config_world \<Rightarrow> string" where
  "user_config_directory w = (case env w ''XDG_CONFIG_HOME'' of
     Some base \<Rightarrow> path_append base ''partyshare''
   | None \<Rightarrow> (case env w ''HOME'' of
        None \<Rightarrow> []
      | Some home \<Rightarrow> path_append (path_append home ''.config'') ''partyshare''))"

definition default_config_paths :: "config_world \<Rightarrow> string list" where
  "default_config_paths w =
     (if cw_executable_directory w \<noteq> [] then [path_append (cw_executable_directory w) ''config.ini''] else [])
     @ (if user_config_directory w \<noteq> [] then [path_append (user_config_directory w) ''config.ini''] else [])"

definition user_config_file :: "config_world \<Rightarrow> string" where
  "user_config_file w =
     (if user_config_directory w = [] then [] else path_append (user_config_directory w) ''config.ini'')"

definition named_config_path :: "config_world \<Rightarrow> string list \<Rightarrow> string" where
  "named_config_path w argv = fold (\<lambda>argument path. case split_argument argument of
       Some (key, value) \<Rightarrow> if key = ''config'' then value else path | None \<Rightarrow> path)
     (tl argv) (case env w ''DV_CONFIG_FILE'' of Some path \<Rightarrow> path | None \<Rightarrow> [])"

definition config_files :: "config_world \<Rightarrow> string list \<Rightarrow> string list" where
  "config_files w argv = (let named = named_config_path w argv
     in if named \<noteq> [] then [named] else default_config_paths w)"

text \<open>\<open>path::extension\<close>: from the last dot of the last component, unless that is its first character
  or the component is \<open>..\<close>.\<close>

definition path_extension :: "string \<Rightarrow> string" where
  "path_extension path =
     (let filename = rev (takeWhile (\<lambda>c. c \<noteq> CHR ''/'') (rev path));
          suffix = rev (takeWhile (\<lambda>c. c \<noteq> CHR ''.'') (rev filename))
      in if filename = ''..'' \<or> length suffix + 1 \<ge> length filename then [] else CHR ''.'' # suffix)"

definition read_config_file :: "config_world \<Rightarrow> string \<Rightarrow> config \<Rightarrow> bool \<Rightarrow> config result" where
  "read_config_file w path base required = (case cw_files w path of
     None \<Rightarrow> if required
       then Inl (mk_error ''config_file_not_found'' (''cannot open configuration file: '' @ path))
       else Inr base
   | Some content \<Rightarrow>
       if map fold_ascii (path_extension path) = ''.ini'' then parse_ini content base
       else parse_json w content base)"

definition load_from_file :: "config_world \<Rightarrow> string \<Rightarrow> config result" where
  "load_from_file w path = (case read_config_file w path default_config False of
     Inl e \<Rightarrow> Inl e
   | Inr loaded \<Rightarrow> (let c = apply_environment w loaded
        in case validate_config c of Some violation \<Rightarrow> Inl violation | None \<Rightarrow> Inr c))"

fun read_config_files :: "config_world \<Rightarrow> string list \<Rightarrow> config \<Rightarrow> config result" where
  "read_config_files w [] c = Inr c"
| "read_config_files w (path # paths) c = (case read_config_file w path c False of
     Inl e \<Rightarrow> Inl e | Inr c \<Rightarrow> read_config_files w paths c)"

section \<open>The command line\<close>

datatype unknown_options = IgnoreUnknown | RejectUnknown

definition apply_ice_port_range :: "string \<Rightarrow> config \<Rightarrow> config result" where
  "apply_ice_port_range value c =
     (let ends = (case split_at (CHR ''-'') value of
            None \<Rightarrow> (None, None) | Some (left, right) \<Rightarrow> (parse_int left, parse_int right))
      in case ends of
           (Some b, Some e) \<Rightarrow>
             if b < 1 \<or> b > 65535 \<or> e < 1 \<or> e > 65535
             then Inl (invalid_value ''--ice-port-range''
               ''must be BEGIN-END, both between 1 and 65535, as in 50000-50100'')
             else Inr (in_network (\<lambda>v. v\<lparr>nc_ice_port_range_begin := b, nc_ice_port_range_end := e\<rparr>) c)
         | _ \<Rightarrow> Inl (invalid_value ''--ice-port-range''
               ''must be BEGIN-END, both between 1 and 65535, as in 50000-50100''))"

definition apply_option :: "unknown_options \<Rightarrow> string \<Rightarrow> string \<Rightarrow> config \<Rightarrow> config result" where
  "apply_option unknown key value c =
    (if key = ''config'' then Inr c
     else if key = ''log-level'' then Inr (in_logging (\<lambda>v. v\<lparr>lc_level := value\<rparr>) c)
     else if key = ''log-file'' then Inr (in_logging (\<lambda>v. v\<lparr>lc_file_path := value\<rparr>) c)
     else if key = ''signaling-url'' then Inr (in_network (\<lambda>v. v\<lparr>nc_signaling_url := value\<rparr>) c)
     else if key = ''bind-address'' then Inr (in_server (\<lambda>v. v\<lparr>sc_bind_address := value\<rparr>) c)
     else if key = ''users-file'' then Inr (in_server (\<lambda>v. v\<lparr>sc_users_file := value\<rparr>) c)
     else if key = ''database-uri'' then Inr (in_database (\<lambda>v. v\<lparr>dc_uri := value, dc_enabled := True\<rparr>) c)
     else if key = ''database-name'' then Inr (in_database (\<lambda>v. v\<lparr>dc_name := value\<rparr>) c)
     else if key = ''database-enabled'' then Inr (in_database (\<lambda>v. v\<lparr>dc_enabled := parse_bool value True\<rparr>) c)
     else if key = ''create-admin'' then Inr (in_server (\<lambda>v. v\<lparr>sc_create_admin := value\<rparr>) c)
     else if key = ''input-device'' then Inr (in_audio (\<lambda>v. v\<lparr>au_input_device := value\<rparr>) c)
     else if key = ''output-device'' then Inr (in_audio (\<lambda>v. v\<lparr>au_output_device := value\<rparr>) c)
     else if key = ''codec'' then Inr (in_video (\<lambda>v. v\<lparr>vc_codec := value\<rparr>) c)
     else if key = ''port'' then
       (case parse_int value of
          Some n \<Rightarrow> if 0 < n \<and> n \<le> 65535 then Inr (in_server (\<lambda>v. v\<lparr>sc_port := n\<rparr>) c)
                    else Inl (invalid_value ''--port'' ''must be between 1 and 65535'')
        | None \<Rightarrow> Inl (invalid_value ''--port'' ''must be between 1 and 65535''))
     else if key = ''ice-port-range'' then apply_ice_port_range value c
     else if key = ''fps'' then
       (case parse_int value of
          Some n \<Rightarrow> Inr (in_video (\<lambda>v. v\<lparr>vc_fps := n\<rparr>) c)
        | None \<Rightarrow> Inl (invalid_value ''--fps'' ''must be an integer''))
     else if key = ''max-participants'' then
       (case parse_int value of
          Some n \<Rightarrow> Inr (in_server (\<lambda>v. v\<lparr>sc_max_participants_per_room := n\<rparr>) c)
        | None \<Rightarrow> Inl (invalid_value ''--max-participants'' ''must be an integer''))
     else if unknown = RejectUnknown
     then Inl (mk_error ''unknown_option'' (''--'' @ key @ '' is not an option''))
     else Inr c)"

definition apply_argument :: "unknown_options \<Rightarrow> string \<Rightarrow> config \<Rightarrow> config result" where
  "apply_argument unknown argument c = (case split_argument argument of
     None \<Rightarrow>
       if unknown = RejectUnknown \<and> starts_with ''-'' argument \<and> argument \<noteq> ''--help'' \<and> argument \<noteq> ''-h''
       then Inl (mk_error ''invalid_argument''
         (argument @ '': options take the --key=value form, with the value attached''))
       else Inr c
   | Some (key, value) \<Rightarrow> apply_option unknown key value c)"

fun apply_arguments :: "unknown_options \<Rightarrow> string list \<Rightarrow> config \<Rightarrow> config result" where
  "apply_arguments unknown [] c = Inr c"
| "apply_arguments unknown (argument # rest) c = (case apply_argument unknown argument c of
     Inl e \<Rightarrow> Inl e | Inr c \<Rightarrow> apply_arguments unknown rest c)"

definition load_config :: "config_world \<Rightarrow> string list \<Rightarrow> unknown_options \<Rightarrow> config result" where
  "load_config w argv unknown =
     (let config_path = named_config_path w argv;
          loaded = (if config_path = [] then read_config_files w (default_config_paths w) default_config
                    else read_config_file w config_path default_config True)
      in case loaded of
           Inl e \<Rightarrow> Inl e
         | Inr c \<Rightarrow> (case apply_arguments unknown (tl argv) (apply_environment w c) of
               Inl e \<Rightarrow> Inl e
             | Inr c \<Rightarrow> (case validate_config c of Some violation \<Rightarrow> Inl violation | None \<Rightarrow> Inr c)))"

end
