(* ===== verification/ConfigSave.thy ===== *)
theory ConfigSave
  imports ConfigLoad
begin

text \<open>
  Writing settings out, of \<open>shared/src/config/config.cpp\<close>: \<open>to_json\<close>, which leaves the credentials
  out, and \<open>save_ini_settings\<close>, which edits the user's file in place. The files are a map from paths
  to contents; what the system may refuse on the way (a directory, a file, a rename) is the record
  \<open>write_outcome\<close>.
\<close>

section \<open>Credentials\<close>

text \<open>\<open>find\<close> of a text: what stands before its first occurrence and after it.\<close>

fun split_text :: "string \<Rightarrow> string \<Rightarrow> (string \<times> string) option" where
  "split_text needle [] = (if needle = [] then Some ([], []) else None)"
| "split_text needle (c # s) =
     (if starts_with needle (c # s) then Some ([], drop (length needle) (c # s))
      else map_option (\<lambda>(before, after). (c # before, after)) (split_text needle s))"

definition redact_uri :: "string \<Rightarrow> string" where
  "redact_uri uri = (case split_text ''://'' uri of
     None \<Rightarrow> uri
   | Some (scheme, rest) \<Rightarrow> (case split_at (CHR ''@'') rest of
        None \<Rightarrow> uri
      | Some (_, host) \<Rightarrow> scheme @ ''://'' @ ''***'' @ CHR ''@'' # host))"

definition config_to_json :: "config \<Rightarrow> json" where
  "config_to_json c = JObject (fields_of
    [(''video'', JObject (fields_of
        [(''width'', JInt (vc_width (cf_video c))),
         (''height'', JInt (vc_height (cf_video c))),
         (''fps'', JInt (vc_fps (cf_video c))),
         (''auto_bitrate'', JBool (vc_auto_bitrate (cf_video c))),
         (''min_bitrate_kbps'', JInt (vc_min_bitrate_kbps (cf_video c))),
         (''max_bitrate_kbps'', JInt (vc_max_bitrate_kbps (cf_video c))),
         (''codec'', JString (vc_codec (cf_video c)))])),
     (''audio'', JObject (fields_of
        [(''sample_rate_hz'', JInt (au_sample_rate_hz (cf_audio c))),
         (''channels'', JInt (au_channels (cf_audio c))),
         (''bitrate_kbps'', JInt (au_bitrate_kbps (cf_audio c))),
         (''redundancy'', JBool (au_redundancy (cf_audio c))),
         (''retransmission'', JBool (au_retransmission (cf_audio c))),
         (''adaptive'', JBool (au_adaptive (cf_audio c))),
         (''frame_duration_ms'', JInt (au_frame_duration_ms (cf_audio c))),
         (''echo_cancellation'', JBool (au_echo_cancellation (cf_audio c))),
         (''noise_suppression'', JBool (au_noise_suppression (cf_audio c))),
         (''noise_suppression_level'', JString (au_noise_suppression_level (cf_audio c))),
         (''automatic_gain_control'', JBool (au_automatic_gain_control (cf_audio c))),
         (''voice_gate'', JBool (au_voice_gate (cf_audio c))),
         (''voice_gate_level'', JString (au_voice_gate_level (cf_audio c))),
         (''input_device'', JString (au_input_device (cf_audio c))),
         (''output_device'', JString (au_output_device (cf_audio c)))])),
     (''screen_audio'', JObject (fields_of
        [(''mode'', JString (sa_mode (cf_screen_audio c))),
         (''volume_percent'', JInt (sa_volume_percent (cf_screen_audio c))),
         (''limiter'', JBool (sa_limiter (cf_screen_audio c)))])),
     (''network'', JObject (fields_of
        [(''signaling_url'', JString (nc_signaling_url (cf_network c))),
         (''stun_servers'', JArray (map JString (nc_stun_servers (cf_network c)))),
         (''turn_url'', JString (nc_turn_url (cf_network c))),
         (''turn_username'', JString (nc_turn_username (cf_network c))),
         (''ice_port_range_begin'', JInt (nc_ice_port_range_begin (cf_network c))),
         (''ice_port_range_end'', JInt (nc_ice_port_range_end (cf_network c))),
         (''reconnect_initial_delay_ms'', JInt (nc_reconnect_initial_delay_ms (cf_network c))),
         (''reconnect_max_delay_ms'', JInt (nc_reconnect_max_delay_ms (cf_network c)))])),
     (''logging'', JObject (fields_of
        [(''level'', JString (lc_level (cf_logging c))),
         (''file_path'', JString (lc_file_path (cf_logging c))),
         (''log_to_console'', JBool (lc_log_to_console (cf_logging c)))])),
     (''ui'', JObject (fields_of
        [(''room_sounds'', JBool (ui_room_sounds (cf_ui c)))])),
     (''server'', JObject (fields_of
        [(''bind_address'', JString (sc_bind_address (cf_server c))),
         (''port'', JInt (sc_port (cf_server c))),
         (''max_participants_per_room'', JInt (sc_max_participants_per_room (cf_server c))),
         (''heartbeat_interval_ms'', JInt (sc_heartbeat_interval_ms (cf_server c))),
         (''heartbeat_timeout_ms'', JInt (sc_heartbeat_timeout_ms (cf_server c))),
         (''users_file'', JString (sc_users_file (cf_server c)))])),
     (''database'', JObject (fields_of
        [(''enabled'', JBool (dc_enabled (cf_database c))),
         (''uri'', JString (redact_uri (dc_uri (cf_database c)))),
         (''name'', JString (dc_name (cf_database c))),
         (''timeout_ms'', JInt (dc_timeout_ms (cf_database c)))]))])"

section \<open>Lines\<close>

record ini_setting =
  is_section :: string
  is_key :: string
  is_value :: string

definition without_cr :: "string \<Rightarrow> string" where
  "without_cr line = (if line \<noteq> [] \<and> last line = CHR 0x0D then butlast line else line)"

function split_lines :: "string \<Rightarrow> string list" where
  "split_lines s =
     (if s = [] then []
      else case dropWhile (\<lambda>c. c \<noteq> CHR 0x0A) s of
          [] \<Rightarrow> [without_cr s]
        | _ # rest \<Rightarrow> without_cr (takeWhile (\<lambda>c. c \<noteq> CHR 0x0A) s) # split_lines rest)"
  by auto
termination
proof (relation "measure length")
  fix s :: string and c rest
  assume "dropWhile (\<lambda>c. c \<noteq> CHR 0x0A) s = c # rest"
  then have "Suc (length rest) \<le> length s" by (metis length_Cons length_dropWhile_le)
  then show "(rest, s) \<in> measure length" by simp
qed simp

declare split_lines.simps [simp del]

definition section_header :: "string \<Rightarrow> string option" where
  "section_header line =
     (let trimmed = trim line
      in if length trimmed < 2 \<or> hd trimmed \<noteq> CHR ''['' \<or> last trimmed \<noteq> CHR '']'' then None
         else Some (trim (take (length trimmed - 2) (tl trimmed))))"

definition setting_key :: "string \<Rightarrow> string option" where
  "setting_key line =
     (let trimmed = trim line
      in if trimmed = [] \<or> hd trimmed = CHR '';'' \<or> hd trimmed = CHR ''#'' \<or> hd trimmed = CHR ''[''
         then None
         else (case split_at (CHR ''='') trimmed of
             None \<Rightarrow> None
           | Some (left, _) \<Rightarrow> if trim left = [] then None else Some (trim left)))"

definition format_ini_value :: "string \<Rightarrow> string" where
  "format_ini_value value =
     (let trimmed_away = (trim value \<noteq> value);
          looks_quoted = (length value \<ge> 2 \<and> hd value = CHR ''\"'' \<and> last value = CHR ''\"'')
      in if value = [] \<or> trimmed_away \<or> looks_quoted then CHR ''\"'' # value @ ''\"'' else value)"

definition spell :: "ini_setting \<Rightarrow> string" where
  "spell s = is_key s @ '' = '' @ format_ini_value (is_value s)"

section \<open>Editing\<close>

definition check_setting :: "ini_setting \<Rightarrow> error option" where
  "check_setting s =
     (if is_section s = [] \<or> is_key s = []
      then Some (mk_error ''invalid_value'' ''a setting needs both a section and a key'')
      else if CHR 0x0A \<in> set (is_value s) \<or> CHR 0x0D \<in> set (is_value s)
      then Some (mk_error ''invalid_value'' (is_section s @ ''.'' @ is_key s @ '' cannot hold a line break''))
      else None)"

definition line_ending :: "string \<Rightarrow> string" where
  "line_ending original =
     (if split_text [CHR 0x0D, CHR 0x0A] original = None then [CHR 0x0A] else [CHR 0x0D, CHR 0x0A])"

text \<open>The inner loop of the first pass, over the settings and whether they were found.\<close>

fun rewrite_line :: "string \<Rightarrow> string \<Rightarrow> ini_setting list \<Rightarrow> string \<Rightarrow> bool list \<Rightarrow> string \<times> bool list" where
  "rewrite_line section key (s # settings) line (f # found) =
     (let hit = (is_section s = section \<and> is_key s = key);
          (line, found) = rewrite_line section key settings (if hit then spell s else line) found
      in (line, (f \<or> hit) # found))"
| "rewrite_line section key _ line found = (line, found)"

fun first_pass :: "ini_setting list \<Rightarrow> string \<Rightarrow> string list \<Rightarrow> bool list \<Rightarrow> string list \<times> bool list" where
  "first_pass settings section [] found = ([], found)"
| "first_pass settings section (line # lines) found =
     (case section_header line of
        Some header \<Rightarrow>
          (let (lines, found) = first_pass settings header lines found in (line # lines, found))
      | None \<Rightarrow> (case setting_key line of
          None \<Rightarrow>
            (let (lines, found) = first_pass settings section lines found in (line # lines, found))
        | Some key \<Rightarrow>
            (let (line, found) = rewrite_line section key settings line found;
                 (lines, found) = first_pass settings section lines found
             in (line # lines, found))))"

fun section_end :: "string \<Rightarrow> string \<Rightarrow> nat \<Rightarrow> nat option \<Rightarrow> string list \<Rightarrow> nat option" where
  "section_end wanted section index last_one [] = last_one"
| "section_end wanted section index last_one (line # lines) =
     (case section_header line of
        Some header \<Rightarrow>
          section_end wanted header (index + 1) (if header = wanted then Some index else last_one) lines
      | None \<Rightarrow>
          section_end wanted section (index + 1)
            (if section = wanted \<and> trim line \<noteq> [] then Some index else last_one) lines)"

definition end_of_section :: "string list \<Rightarrow> string \<Rightarrow> nat option" where
  "end_of_section lines wanted = section_end wanted [] 0 None lines"

definition add_setting :: "ini_setting \<Rightarrow> string list \<Rightarrow> string list" where
  "add_setting s lines = (case end_of_section lines (is_section s) of
     Some after \<Rightarrow> take (after + 1) lines @ spell s # drop (after + 1) lines
   | None \<Rightarrow>
       lines @ (if lines \<noteq> [] \<and> trim (last lines) \<noteq> [] then [[]] else [])
         @ [''['' @ is_section s @ '']'', spell s])"

fun second_pass :: "ini_setting list \<Rightarrow> bool list \<Rightarrow> string list \<Rightarrow> string list" where
  "second_pass (s # settings) (f # found) lines =
     second_pass settings found (if f then lines else add_setting s lines)"
| "second_pass _ _ lines = lines"

definition rebuild :: "string \<Rightarrow> ini_setting list \<Rightarrow> string" where
  "rebuild original settings =
     (let (lines, found) = first_pass settings [] (split_lines original) (replicate (length settings) False);
          lines = second_pass settings found lines
      in concat (map (\<lambda>line. line @ line_ending original) lines))"

section \<open>Writing the file\<close>

record write_outcome =
  wo_directory_error :: "string option"
  wo_opened :: bool
  wo_written :: bool
  wo_rename_error :: "string option"
  wo_left_behind :: "string option"

definition parent_path :: "string \<Rightarrow> string" where
  "parent_path path =
     (let above = dropWhile (\<lambda>c. c \<noteq> CHR ''/'') (rev path);
          trimmed = dropWhile (\<lambda>c. c = CHR ''/'') above
      in if above = [] then [] else if trimmed = [] then ''/'' else rev trimmed)"

definition write_failed :: "string \<Rightarrow> error option" where
  "write_failed what = Some (mk_error ''config_write_failed'' what)"

text \<open>The error, if any, and the files after it. After a failure the temporary file is removed, and
  \<open>wo_left_behind\<close> is what stays of it when that fails too.\<close>

definition replace_file ::
    "write_outcome \<Rightarrow> string \<Rightarrow> string \<Rightarrow> (string \<rightharpoonup> string) \<Rightarrow> error option \<times> (string \<rightharpoonup> string)" where
  "replace_file out path content files =
     (let temporary = path @ ''.tmp''
      in if parent_path path \<noteq> [] \<and> wo_directory_error out \<noteq> None
         then (write_failed (''cannot create '' @ parent_path path @ '': '' @ the (wo_directory_error out)), files)
         else if \<not> wo_opened out then (write_failed (''cannot write '' @ temporary), files)
         else if \<not> wo_written out then (write_failed (''cannot write '' @ temporary), files(temporary := wo_left_behind out))
         else (case wo_rename_error out of
             Some what \<Rightarrow> (write_failed (''cannot replace '' @ path @ '': '' @ what), files(temporary := wo_left_behind out))
           | None \<Rightarrow> (None, files(temporary := None, path \<mapsto> content))))"

definition save_ini_settings ::
    "write_outcome \<Rightarrow> string \<Rightarrow> ini_setting list \<Rightarrow> (string \<rightharpoonup> string) \<Rightarrow> error option \<times> (string \<rightharpoonup> string)" where
  "save_ini_settings out path settings files =
     (if path = []
      then (write_failed ''this system does not say where a user's configuration belongs'', files)
      else case first_error (map check_setting settings) of
        Some e \<Rightarrow> (Some e, files)
      | None \<Rightarrow>
         (let original = (case files path of None \<Rightarrow> [] | Some content \<Rightarrow> content);
              rebuilt = rebuild original settings
          in case parse_ini rebuilt default_config of
               Inl e \<Rightarrow> (write_failed (''refusing to write a configuration that cannot be read back: ''
                  @ err_message e), files)
             | Inr reparsed \<Rightarrow> (case validate_config reparsed of
                  Some violation \<Rightarrow> (write_failed (''refusing to write a configuration the client would reject: ''
                     @ err_message violation), files)
                | None \<Rightarrow> replace_file out path rebuilt files)))"

end
