(* ===== verification/ConfigSaveProofs.thy ===== *)
theory ConfigSaveProofs
  imports ConfigSave
begin

text \<open>
  What saving settings does to the user's file: the settings asked for read back as they were given,
  every other setting of the file stays as it was and in its order, what is written parses and
  passes the rules, and a save that fails leaves the file alone.
\<close>

section \<open>Trimming\<close>

lemma trim_front_dropWhile: "trim_front s = dropWhile is_space s"
  by (induction s) auto

lemma trim_back_rev: "trim_back s = rev (dropWhile is_space (rev s))"
proof (induction s rule: trim_back.induct)
  case (1 s)
  show ?case
  proof (cases "s \<noteq> [] \<and> is_space (last s)")
    case True
    then have "s = butlast s @ [last s]" by simp
    then have "dropWhile is_space (rev s) = dropWhile is_space (rev (butlast s))"
      using True by (metis dropWhile.simps(2) rev.simps(2) rev_rev_ident rev_append append_Cons append_Nil)
    then show ?thesis using 1 True by (subst trim_back.simps) simp
  next
    case False
    then have "dropWhile is_space (rev s) = rev s"
      by (cases s rule: rev_cases) auto
    then show ?thesis using False by (subst trim_back.simps) auto
  qed
qed

lemma trim_strip: "trim s = strip s"
  by (simp add: trim_def trim_front_dropWhile trim_back_rev strip_def)

lemma trim_snoc_space: "is_space c \<Longrightarrow> trim (s @ [c]) = trim s"
  by (auto simp: trim_strip strip_def dropWhile_append) (metis dropWhile.simps(1) dropWhile_eq_Nil_conv rev.simps(1))

lemma trim_Cons_space: "is_space c \<Longrightarrow> trim (c # s) = trim s"
  by (simp add: trim_strip strip_def)

lemma trim_id: "s \<noteq> [] \<Longrightarrow> \<not> is_space (hd s) \<Longrightarrow> \<not> is_space (last s) \<Longrightarrow> trim s = s"
  by (simp add: trim_strip strip_id)

lemma trim_Nil [simp]: "trim [] = []"
  by (simp add: trim_strip strip_def)

lemma trim_ends: "trim s = s \<Longrightarrow> s \<noteq> [] \<Longrightarrow> \<not> is_space (hd s) \<and> \<not> is_space (last s)"
  using strip_ends [of s] by (simp add: trim_strip)

lemma is_space_simps [simp]:
  "is_space (CHR '' '')" "is_space (CHR 0x0A)" "is_space (CHR 0x0D)" "\<not> is_space (CHR ''\"'')"
  "\<not> is_space (CHR ''['')" "\<not> is_space (CHR '']'')"
  by (simp_all add: is_space_def)

section \<open>A value is read back as it was written\<close>

lemma unquote_quoted: "unquote (CHR ''\"'' # v @ ''\"'') = v"
  by (simp add: unquote_def)

lemma formatted_ends:
  "format_ini_value v \<noteq> [] \<and> \<not> is_space (hd (format_ini_value v))
    \<and> \<not> is_space (last (format_ini_value v))"
  using trim_ends [of v] by (auto simp: format_ini_value_def Let_def)

lemma read_formatted: "read_value ('' '' @ format_ini_value v) = v"
proof -
  have "trim ('' '' @ format_ini_value v) = format_ini_value v"
    using formatted_ends [of v] by (simp add: trim_Cons_space trim_id)
  then show ?thesis
    by (auto simp: read_value_def format_ini_value_def Let_def unquote_quoted, auto simp: unquote_def)
qed

section \<open>What a file sets\<close>

definition setting_of :: "string \<Rightarrow> (string \<times> string) option" where
  "setting_of line = (case setting_key line of
     None \<Rightarrow> None
   | Some k \<Rightarrow> (case split_at (CHR ''='') (trim line) of
        None \<Rightarrow> None | Some (_, right) \<Rightarrow> Some (k, read_value right)))"

text \<open>The settings of a file in the order they stand: section, key and value.\<close>

fun assignments :: "string \<Rightarrow> string list \<Rightarrow> (string \<times> string \<times> string) list" where
  "assignments sect [] = []"
| "assignments sect (line # lines) =
     (case section_header line of
        Some header \<Rightarrow> assignments header lines
      | None \<Rightarrow> (case setting_of line of
          None \<Rightarrow> assignments sect lines
        | Some (k, v) \<Rightarrow> (sect, k, v) # assignments sect lines))"

fun section_after :: "string \<Rightarrow> string list \<Rightarrow> string" where
  "section_after sect [] = sect"
| "section_after sect (line # lines) =
     section_after (case section_header line of Some header \<Rightarrow> header | None \<Rightarrow> sect) lines"

definition file_assignments :: "string \<Rightarrow> (string \<times> string \<times> string) list" where
  "file_assignments content = assignments [] (getlines content)"

lemma assignments_append:
  "assignments sect (xs @ ys) = assignments sect xs @ assignments (section_after sect xs) ys"
  by (induction xs arbitrary: sect) (auto split: option.split)

lemma section_after_append:
  "section_after sect (xs @ ys) = section_after (section_after sect xs) ys"
  by (induction xs arbitrary: sect) auto

lemma section_header_trim: "trim l = trim l' \<Longrightarrow> section_header l = section_header l'"
  by (simp add: section_header_def)

lemma setting_of_trim: "trim l = trim l' \<Longrightarrow> setting_of l = setting_of l'"
  unfolding setting_of_def setting_key_def by (simp cong: option.case_cong)

lemma assignments_trim: "map trim xs = map trim ys \<Longrightarrow> assignments sect xs = assignments sect ys"
proof (induction xs arbitrary: ys sect)
  case Nil
  then show ?case by simp
next
  case (Cons x xs)
  then obtain y ys' where ys: "ys = y # ys'" "trim x = trim y" "map trim xs = map trim ys'" by auto
  show ?case
    using Cons.IH [OF ys(3)] section_header_trim [OF ys(2)] setting_of_trim [OF ys(2)] ys(1)
    by (simp cong: option.case_cong)
qed

text \<open>What the parser makes of a file it accepts is its settings applied in order.\<close>

definition apply_assignment :: "string \<times> string \<times> string \<Rightarrow> config \<Rightarrow> config" where
  "apply_assignment a c = (case a of (sect, k, v) \<Rightarrow>
     (case apply_ini_field c sect k v of Inl _ \<Rightarrow> c | Inr c' \<Rightarrow> c'))"

lemma parse_line_assigns:
  assumes "parse_ini_line n raw (sect, c) = Inr (sect', c')"
  shows "c' = fold apply_assignment (assignments sect [raw]) c \<and> sect' = section_after sect [raw]"
proof -
  let ?l = "trim raw"
  consider (skip) "?l = [] \<or> hd ?l = CHR '';'' \<or> hd ?l = CHR ''#''"
    | (header) "?l \<noteq> []" "hd ?l = CHR ''[''"
    | (setting) "?l \<noteq> []" "hd ?l \<noteq> CHR ''[''" "hd ?l \<noteq> CHR '';''" "hd ?l \<noteq> CHR ''#''"
    by blast
  then show ?thesis
  proof cases
    case skip
    then have "section_header raw = None" "setting_of raw = None"
      by (auto simp: section_header_def setting_of_def setting_key_def Let_def)
    then show ?thesis using assms skip by (auto simp: parse_ini_line_def Let_def)
  next
    case header
    then have last: "last ?l = CHR '']''"
      using assms by (auto simp: parse_ini_line_def Let_def split: if_splits)
    have "2 \<le> length ?l"
    proof (rule ccontr)
      assume "\<not> 2 \<le> length ?l"
      then obtain x where "?l = [x]" using header(1) by (cases "?l") (auto simp: Suc_le_eq)
      then show False using header(2) last by simp
    qed
    then have "section_header raw = Some (trim (take (length ?l - 2) (tl ?l)))"
      using header last by (simp add: section_header_def Let_def)
    then show ?thesis
      using assms header last by (auto simp: parse_ini_line_def Let_def split: if_splits)
  next
    case setting
    then obtain left right where split: "split_at (CHR ''='') ?l = Some (left, right)"
      and key: "trim left \<noteq> []"
      and field: "apply_ini_field c sect (trim left) (read_value right) = Inr c'" and "sect' = sect"
      using assms by (auto simp: parse_ini_line_def Let_def split: if_splits option.splits sum.splits)
    moreover have "section_header raw = None"
      using setting by (simp add: section_header_def Let_def)
    moreover have "setting_of raw = Some (trim left, read_value right)"
      using setting split key by (simp add: setting_of_def setting_key_def Let_def)
    ultimately show ?thesis by (simp add: apply_assignment_def)
  qed
qed

lemma parse_lines_assigns:
  "parse_ini_lines n lines (sect, c) = Inr (sect', c')
    \<Longrightarrow> c' = fold apply_assignment (assignments sect lines) c"
proof (induction n lines "(sect, c)" arbitrary: sect c rule: parse_ini_lines.induct)
  case (2 n raw rest)
  then obtain sect1 c1 where line: "parse_ini_line (n + 1) raw (sect, c) = Inr (sect1, c1)"
    and rest: "parse_ini_lines (n + 1) rest (sect1, c1) = Inr (sect', c')"
    by (auto split: sum.splits)
  have "c' = fold apply_assignment (assignments sect1 rest) c1"
    by (rule 2(1) [OF line rest])
  then show ?case
    using parse_line_assigns [OF line] assignments_append [of sect "[raw]" rest] by simp
qed simp

lemma parse_ini_assigns:
  "parse_ini content base = Inr c \<Longrightarrow> c = fold apply_assignment (file_assignments content) base"
  using parse_lines_assigns [of 0 "getlines content" "[]" base]
  by (auto simp: parse_ini_def file_assignments_def split: sum.splits)

section \<open>The line of a setting\<close>

definition tidy :: "ini_setting \<Rightarrow> bool" where
  "tidy s \<longleftrightarrow> is_section s \<noteq> [] \<and> trim (is_section s) = is_section s \<and> CHR 0x0A \<notin> set (is_section s)
     \<and> is_key s \<noteq> [] \<and> trim (is_key s) = is_key s \<and> CHR 0x0A \<notin> set (is_key s)
     \<and> CHR ''='' \<notin> set (is_key s) \<and> hd (is_key s) \<notin> {CHR '';'', CHR ''#'', CHR ''[''}
     \<and> CHR 0x0A \<notin> set (is_value s)"

lemma trim_spell: "tidy s \<Longrightarrow> trim (spell s) = spell s"
proof -
  assume "tidy s"
  then have "is_key s \<noteq> []" "\<not> is_space (hd (is_key s))" using trim_ends [of "is_key s"] by (auto simp: tidy_def)
  then show ?thesis using formatted_ends [of "is_value s"] by (intro trim_id) (auto simp: spell_def)
qed

lemma split_at_append: "c \<notin> set xs \<Longrightarrow> split_at c (xs @ c # ys) = Some (xs, ys)"
proof -
  assume c: "c \<notin> set xs"
  have "dropWhile (\<lambda>x. x \<noteq> c) (xs @ c # ys) = c # ys"
    using c by (subst dropWhile_append2) auto
  moreover have "takeWhile (\<lambda>x. x \<noteq> c) (xs @ c # ys) = xs"
    using c by (subst takeWhile_append2) auto
  ultimately show ?thesis by (simp add: split_at_def)
qed

lemma spelled:
  assumes "tidy s"
  shows "section_header (spell s) = None \<and> setting_of (spell s) = Some (is_key s, is_value s)
    \<and> CHR 0x0A \<notin> set (spell s)"
proof -
  have hd: "hd (spell s) = hd (is_key s)" "spell s \<noteq> []" using assms by (auto simp: spell_def tidy_def)
  have "split_at (CHR ''='') (spell s) = Some (is_key s @ '' '', '' '' @ format_ini_value (is_value s))"
    using assms split_at_append [of "CHR ''=''" "is_key s @ '' ''" "'' '' @ format_ini_value (is_value s)"]
    by (simp add: spell_def tidy_def)
  moreover have "trim (is_key s @ '' '') = is_key s" using assms by (simp add: trim_snoc_space tidy_def)
  ultimately show ?thesis
    using assms hd trim_spell [OF assms] read_formatted [of "is_value s"]
    by (auto simp: section_header_def setting_of_def setting_key_def Let_def tidy_def spell_def
        format_ini_value_def)
qed

lemma header_line:
  assumes "tidy s"
  shows "section_header (''['' @ is_section s @ '']'') = Some (is_section s)"
proof -
  have "trim (''['' @ is_section s @ '']'') = ''['' @ is_section s @ '']''"
    by (intro trim_id) auto
  then show ?thesis using assms by (simp add: section_header_def tidy_def Let_def)
qed

section \<open>The first pass\<close>

type_synonym setting_name = "string \<times> string"

definition name_of :: "ini_setting \<Rightarrow> setting_name" where
  "name_of s = (is_section s, is_key s)"

definition names :: "ini_setting list \<Rightarrow> setting_name set" where
  "names settings = name_of ` set settings"

definition wanted_value :: "ini_setting list \<Rightarrow> setting_name \<Rightarrow> string option" where
  "wanted_value settings = map_of (map (\<lambda>s. (name_of s, is_value s)) settings)"

definition assigned_name :: "string \<times> string \<times> string \<Rightarrow> setting_name" where
  "assigned_name a = (fst a, fst (snd a))"

definition updated :: "ini_setting list \<Rightarrow> string \<times> string \<times> string \<Rightarrow> string \<times> string \<times> string" where
  "updated settings a = (case a of (sect, k, v) \<Rightarrow>
     (sect, k, case wanted_value settings (sect, k) of None \<Rightarrow> v | Some v' \<Rightarrow> v'))"

definition distinct_names :: "ini_setting list \<Rightarrow> bool" where
  "distinct_names settings \<longleftrightarrow> distinct (map name_of settings)"

definition now_found :: "ini_setting list \<Rightarrow> bool list \<Rightarrow> setting_name set \<Rightarrow> bool list" where
  "now_found settings found ks = map2 (\<lambda>s f. f \<or> name_of s \<in> ks) settings found"

lemma length_now_found [simp]: "length found = length settings \<Longrightarrow> length (now_found settings found ks) = length settings"
  by (simp add: now_found_def)

lemma now_found_Un:
  "length found = length settings \<Longrightarrow>
    now_found settings (now_found settings found ks) ks' = now_found settings found (ks \<union> ks')"
  by (induction found settings rule: list_induct2) (auto simp: now_found_def)

lemma now_found_empty: "length found = length settings \<Longrightarrow> now_found settings found {} = found"
  by (induction found settings rule: list_induct2) (auto simp: now_found_def)

text \<open>At most one setting has the name of a line, so the line becomes that one's.\<close>

lemma rewrite_line_spec:
  "distinct_names settings \<Longrightarrow> length found = length settings \<Longrightarrow> \<forall>s \<in> set settings. tidy s
    \<Longrightarrow> setting_of line = Some (k, v) \<Longrightarrow> section_header line = None \<Longrightarrow> CHR 0x0A \<notin> set line
    \<Longrightarrow> rewrite_line sect k settings line found = (line', found')
    \<Longrightarrow> section_header line' = None \<and> CHR 0x0A \<notin> set line'
      \<and> setting_of line' = Some (k, case wanted_value settings (sect, k) of None \<Rightarrow> v | Some v' \<Rightarrow> v')
      \<and> found' = now_found settings found {(sect, k)}"
proof (induction settings arbitrary: found line v line' found')
  case Nil
  then show ?case by (simp add: wanted_value_def now_found_def)
next
  case (Cons s settings)
  obtain f found1 where found: "found = f # found1" "length found1 = length settings"
    using Cons.prems(2) by (cases found) auto
  define hit where "hit = (name_of s = (sect, k))"
  obtain line1 found2 where rest: "rewrite_line sect k settings (if hit then spell s else line) found1 = (line1, found2)"
    by fastforce
  have hit_iff: "(is_section s = sect \<and> is_key s = k) = hit" by (simp add: hit_def name_of_def)
  have result: "line' = line1" "found' = (f \<or> hit) # found2"
    using Cons.prems(7) rest found(1) hit_iff by (auto simp: Let_def)
  have distinct: "distinct_names settings" "name_of s \<notin> name_of ` set settings"
    using Cons.prems(1) by (auto simp: distinct_names_def)
  have tidies: "tidy s" "\<forall>s \<in> set settings. tidy s" using Cons.prems(3) by auto
  have fresh: "hit \<Longrightarrow> wanted_value settings (sect, k) = None"
    using distinct(2) by (auto simp: hit_def wanted_value_def map_of_eq_None_iff image_image)
  define v1 where "v1 = (if hit then is_value s else v)"
  have "setting_of (if hit then spell s else line) = Some (k, v1)"
    "section_header (if hit then spell s else line) = None" "CHR 0x0A \<notin> set (if hit then spell s else line)"
    using spelled [OF tidies(1)] Cons.prems(4-6) by (auto simp: v1_def hit_def name_of_def)
  from Cons.IH [OF distinct(1) found(2) tidies(2) this rest] fresh show ?case
    unfolding result
    by (auto simp: wanted_value_def v1_def hit_def now_found_def found(1) split: option.splits)
qed

lemma setting_key_of: "setting_key line = map_option fst (setting_of line)"
  by (auto simp: setting_of_def setting_key_def Let_def split: option.splits)

lemma first_pass_spec:
  "distinct_names settings \<Longrightarrow> \<forall>s \<in> set settings. tidy s \<Longrightarrow> length found = length settings
    \<Longrightarrow> \<forall>line \<in> set lines. CHR 0x0A \<notin> set line
    \<Longrightarrow> first_pass settings sect lines found = (lines', found')
    \<Longrightarrow> assignments sect lines' = map (updated settings) (assignments sect lines)
      \<and> (\<forall>line \<in> set lines'. CHR 0x0A \<notin> set line)
      \<and> found' = now_found settings found (assigned_name ` set (assignments sect lines))"
proof (induction settings sect lines found arbitrary: lines' found' rule: first_pass.induct)
  case (1 settings sect found)
  then show ?case by (simp add: now_found_empty)
next
  case (2 settings sect line lines found)
  consider (header) h where "section_header line = Some h"
    | (other) "section_header line = None" "setting_of line = None"
    | (setting) k v where "section_header line = None" "setting_of line = Some (k, v)" by fastforce
  then show ?case
  proof cases
    case header
    obtain ls fs where rest: "first_pass settings h lines found = (ls, fs)" by fastforce
    then show ?thesis using 2(3) [OF header _ _ _ _ rest] 2(4-8) header by auto
  next
    case other
    obtain ls fs where rest: "first_pass settings sect lines found = (ls, fs)" by fastforce
    have none: "setting_key line = None" using other by (simp add: setting_key_of)
    then show ?thesis using 2(1) [OF other(1) none _ _ _ _ rest] 2(4-8) other rest by auto
  next
    case setting
    then have key: "setting_key line = Some k" by (simp add: setting_key_of)
    obtain line1 found1 where line: "rewrite_line sect k settings line found = (line1, found1)" by fastforce
    obtain ls fs where rest: "first_pass settings sect lines found1 = (ls, fs)" by fastforce
    have plain: "CHR 0x0A \<notin> set line" "\<forall>line \<in> set lines. CHR 0x0A \<notin> set line" using 2(7) by auto
    note one = rewrite_line_spec [OF 2(4) 2(6) 2(5) setting(2) setting(1) plain(1) line]
    have "length found1 = length settings" using one 2(6) by simp
    from 2(2) [OF setting(1) key _ _ 2(4) 2(5) this plain(2) rest] line
    have "assignments sect ls = map (updated settings) (assignments sect lines)
      \<and> (\<forall>line \<in> set ls. CHR 0x0A \<notin> set line)
      \<and> fs = now_found settings found1 (assigned_name ` set (assignments sect lines))" by simp
    moreover have "lines' = line1 # ls" "found' = fs"
      using 2(8) setting key line rest by auto
    ultimately show ?thesis
      using one setting now_found_Un [OF 2(6)] by (simp add: updated_def assigned_name_def)
  qed
qed

section \<open>The second pass\<close>

lemma section_end_spec:
  "section_end wanted sect index found lines = Some i \<Longrightarrow> found = Some i
    \<or> index \<le> i \<and> i - index < length lines \<and> section_after sect (take (Suc (i - index)) lines) = wanted"
proof (induction lines arbitrary: sect index found)
  case Nil
  then show ?case by simp
next
  case (Cons line lines)
  define sect' where "sect' = (case section_header line of Some h \<Rightarrow> h | None \<Rightarrow> sect)"
  define found' where "found' = (case section_header line of
      Some h \<Rightarrow> if h = wanted then Some index else found
    | None \<Rightarrow> if sect = wanted \<and> trim line \<noteq> [] then Some index else found)"
  have "section_end wanted sect' (index + 1) found' lines = Some i"
    using Cons.prems by (cases "section_header line") (auto simp: sect'_def found'_def)
  from Cons.IH [OF this] consider "found' = Some i" | "index + 1 \<le> i" "i - (index + 1) < length lines"
      "section_after sect' (take (Suc (i - (index + 1))) lines) = wanted" by blast
  then show ?case
  proof cases
    case 1
    then have "found = Some i \<or> i = index \<and> sect' = wanted"
      by (auto simp: found'_def sect'_def split: option.splits if_splits)
    then show ?thesis by (auto simp: sect'_def)
  next
    case 2
    then have "Suc (i - index) = Suc (Suc (i - (index + 1)))" by simp
    with 2 show ?thesis by (auto simp: sect'_def)
  qed
qed

definition assignment_of :: "ini_setting \<Rightarrow> string \<times> string \<times> string" where
  "assignment_of s = (is_section s, is_key s, is_value s)"

text \<open>A setting added to a file goes somewhere in between, under its own section.\<close>

lemma add_setting_spec:
  assumes "tidy s" "\<forall>line \<in> set lines. CHR 0x0A \<notin> set line"
  shows "(\<exists>A B. assignments [] lines = A @ B \<and> assignments [] (add_setting s lines) = A @ assignment_of s # B)
    \<and> (\<forall>line \<in> set (add_setting s lines). CHR 0x0A \<notin> set line)"
proof (cases "end_of_section lines (is_section s)")
  case None
  have blank: "section_header [] = None" "setting_of [] = None"
    by (simp_all add: section_header_def setting_of_def setting_key_def Let_def)
  have "assignments sect ((if P then [[]] else []) @ [''['' @ is_section s @ '']'', spell s]) = [assignment_of s]"
    for sect P using header_line [OF assms(1)] spelled [OF assms(1)] blank by (simp add: assignment_of_def)
  moreover have "CHR 0x0A \<notin> set (is_section s)" using assms(1) by (simp add: tidy_def)
  ultimately show ?thesis
    using None assms(2) spelled [OF assms(1)]
    by (auto simp: add_setting_def assignments_append split: if_splits)
next
  case (Some i)
  then have sect: "section_after [] (take (i + 1) lines) = is_section s"
    using section_end_spec [of "is_section s" "[]" 0 None lines i] by (simp add: end_of_section_def)
  have "assignments [] lines = assignments [] (take (i + 1) lines) @ assignments (is_section s) (drop (i + 1) lines)"
    using assignments_append [of "[]" "take (i + 1) lines" "drop (i + 1) lines"] sect by simp
  moreover have "assignments [] (add_setting s lines) = assignments [] (take (i + 1) lines)
      @ assignment_of s # assignments (is_section s) (drop (i + 1) lines)"
    using Some sect spelled [OF assms(1)] by (simp add: add_setting_def assignments_append assignment_of_def)
  moreover have "\<forall>line \<in> set (add_setting s lines). CHR 0x0A \<notin> set line"
    using Some assms(2) spelled [OF assms(1)]
    by (auto simp: add_setting_def dest: in_set_takeD in_set_dropD)
  ultimately show ?thesis by blast
qed

text \<open>The values a file gives to a name, in order.\<close>

definition values_of :: "(string \<times> string \<times> string) list \<Rightarrow> setting_name \<Rightarrow> string list" where
  "values_of as n = map (\<lambda>a. snd (snd a)) (filter (\<lambda>a. assigned_name a = n) as)"

definition others :: "ini_setting list \<Rightarrow> (string \<times> string \<times> string) list \<Rightarrow> (string \<times> string \<times> string) list" where
  "others settings as = filter (\<lambda>a. assigned_name a \<notin> names settings) as"

lemma assigned_name_of [simp]: "assigned_name (assignment_of s) = name_of s"
  by (simp add: assigned_name_def assignment_of_def name_of_def)

lemma assigned_value [simp]: "snd (snd (assignment_of s)) = is_value s"
  by (simp add: assignment_of_def)

lemma second_pass_spec:
  "length found = length settings \<Longrightarrow> \<forall>s \<in> set settings. tidy s
    \<Longrightarrow> distinct_names settings \<Longrightarrow> \<forall>line \<in> set lines. CHR 0x0A \<notin> set line
    \<Longrightarrow> \<forall>(s, f) \<in> set (zip settings found). \<not> f \<longrightarrow> values_of (assignments [] lines) (name_of s) = []
    \<Longrightarrow> (\<forall>line \<in> set (second_pass settings found lines). CHR 0x0A \<notin> set line)
      \<and> (\<forall>P. (\<forall>s \<in> set settings. \<not> P (assignment_of s)) \<longrightarrow>
          filter P (assignments [] (second_pass settings found lines)) = filter P (assignments [] lines))
      \<and> (\<forall>(s, f) \<in> set (zip settings found).
          values_of (assignments [] (second_pass settings found lines)) (name_of s) =
            (if f then values_of (assignments [] lines) (name_of s) else [is_value s]))"
proof (induction found settings arbitrary: lines rule: list_induct2)
  case Nil
  then show ?case by simp
next
  case (Cons f found s settings)
  define lines1 where "lines1 = (if f then lines else add_setting s lines)"
  have s: "tidy s" and distinct: "distinct_names settings" "name_of s \<notin> names settings"
    using Cons.prems by (auto simp: distinct_names_def names_def)
  note added = add_setting_spec [OF s Cons.prems(3)]
  have plain: "\<forall>line \<in> set lines1. CHR 0x0A \<notin> set line"
    using added Cons.prems(3) by (simp add: lines1_def)
  have keep1: "filter P (assignments [] lines1) = filter P (assignments [] lines)"
    if "\<not> P (assignment_of s)" for P
    using added that by (auto simp: lines1_def)
  have other1: "values_of (assignments [] lines1) n = values_of (assignments [] lines) n"
    if "n \<noteq> name_of s" for n
    using keep1 [of "\<lambda>a. assigned_name a = n"] that by (simp add: values_of_def)
  have own: "values_of (assignments [] lines1) (name_of s)
      = (if f then values_of (assignments [] lines) (name_of s) else [is_value s])"
  proof (cases f)
    case True
    then show ?thesis by (simp add: lines1_def)
  next
    case False
    then have "values_of (assignments [] lines) (name_of s) = []" using Cons.prems(4) by simp
    then show ?thesis using False added
      by (auto simp: lines1_def values_of_def)
  qed
  have names: "name_of s' \<noteq> name_of s" if "(s', f') \<in> set (zip settings found)" for s' f'
    using set_zip_leftD [OF that] distinct(2) by (metis image_eqI names_def)
  have "\<forall>(s, f) \<in> set (zip settings found). \<not> f \<longrightarrow> values_of (assignments [] lines1) (name_of s) = []"
  proof (intro ballI, clarify)
    fix s' f' assume s': "(s', f') \<in> set (zip settings found)" "\<not> f'"
    then have "values_of (assignments [] lines) (name_of s') = []" using Cons.prems(4) by auto
    then show "values_of (assignments [] lines1) (name_of s') = []" using other1 names [OF s'(1)] by simp
  qed
  note IH = Cons.IH [OF _ distinct(1) plain this]
  have kept: "values_of (assignments [] (second_pass settings found lines1)) (name_of s)
      = values_of (assignments [] lines1) (name_of s)"
  proof -
    have "\<forall>s' \<in> set settings. \<not> assigned_name (assignment_of s') = name_of s"
      using distinct(2) by (metis assigned_name_of image_eqI names_def)
    with IH Cons.prems(1) show ?thesis by (simp add: values_of_def)
  qed
  have same: "second_pass (s # settings) (f # found) lines = second_pass settings found lines1"
    by (simp add: lines1_def)
  have tidies: "\<forall>s \<in> set settings. tidy s" using Cons.prems(1) by simp
  note rest = IH [OF tidies]
  show ?case unfolding same
  proof (intro conjI allI impI ballI)
    fix line assume "line \<in> set (second_pass settings found lines1)"
    then show "CHR 0x0A \<notin> set line" using rest by blast
  next
    fix P :: "string \<times> string \<times> string \<Rightarrow> bool"
    assume P: "\<forall>s' \<in> set (s # settings). \<not> P (assignment_of s')"
    then have "filter P (assignments [] (second_pass settings found lines1)) = filter P (assignments [] lines1)"
      using rest by simp
    then show "filter P (assignments [] (second_pass settings found lines1)) = filter P (assignments [] lines)"
      using keep1 P by simp
  next
    fix x assume x: "x \<in> set (zip (s # settings) (f # found))"
    obtain s' f' where sf: "x = (s', f')" by fastforce
    show "case x of (s', f') \<Rightarrow>
        values_of (assignments [] (second_pass settings found lines1)) (name_of s') =
          (if f' then values_of (assignments [] lines) (name_of s') else [is_value s'])"
    proof (cases "(s', f') = (s, f)")
      case True
      then show ?thesis using own kept sf by simp
    next
      case False
      then have later: "(s', f') \<in> set (zip settings found)" using x sf by auto
      from bspec [OF conjunct2 [OF conjunct2 [OF rest]] this] show ?thesis
        using other1 [OF names [OF later]] sf by simp
    qed
  qed
qed

section \<open>The file\<close>

lemma getlines_line: "CHR 0x0A \<notin> set l \<Longrightarrow> getlines (l @ CHR 0x0A # rest) = l # getlines rest"
proof -
  assume l: "CHR 0x0A \<notin> set l"
  have "dropWhile (\<lambda>c. c \<noteq> CHR 0x0A) (l @ CHR 0x0A # rest) = CHR 0x0A # rest"
    using l by (subst dropWhile_append2) auto
  moreover have "takeWhile (\<lambda>c. c \<noteq> CHR 0x0A) (l @ CHR 0x0A # rest) = l"
    using l by (subst takeWhile_append2) auto
  ultimately show ?thesis by (subst getlines.simps) simp
qed

lemma getlines_rebuilt:
  "\<forall>line \<in> set lines. CHR 0x0A \<notin> set line
    \<Longrightarrow> map trim (getlines (concat (map (\<lambda>line. line @ line_ending original) lines))) = map trim lines"
proof (induction lines)
  case Nil
  then show ?case by (subst getlines.simps) simp
next
  case (Cons line lines)
  obtain cr where ending: "line_ending original = cr @ [CHR 0x0A]" "cr = [] \<or> cr = [CHR 0x0D]"
    by (cases "split_text [CHR 0x0D, CHR 0x0A] original") (auto simp: line_ending_def)
  have "CHR 0x0A \<notin> set (line @ cr)" using Cons.prems ending(2) by auto
  from getlines_line [OF this] ending have
    "getlines (concat (map (\<lambda>line. line @ line_ending original) (line # lines)))
      = (line @ cr) # getlines (concat (map (\<lambda>line. line @ line_ending original) lines))" by simp
  moreover have "trim (line @ cr) = trim line" using ending(2) by (auto simp: trim_snoc_space)
  ultimately show ?case using Cons by simp
qed

lemma trim_without_cr: "trim (without_cr l) = trim l"
  by (cases l rule: rev_cases) (auto simp: without_cr_def trim_snoc_space)

lemma set_without_cr: "set (without_cr l) \<subseteq> set l"
  by (auto simp: without_cr_def dest: in_set_butlastD)

lemma lines_simps:
  "dropWhile (\<lambda>c. c \<noteq> CHR 0x0A) t = [] \<Longrightarrow> t \<noteq> [] \<Longrightarrow> split_lines t = [without_cr t]"
  "dropWhile (\<lambda>c. c \<noteq> CHR 0x0A) t = [] \<Longrightarrow> t \<noteq> [] \<Longrightarrow> getlines t = [t]"
  "dropWhile (\<lambda>c. c \<noteq> CHR 0x0A) t = c # rest
    \<Longrightarrow> split_lines t = without_cr (takeWhile (\<lambda>c. c \<noteq> CHR 0x0A) t) # split_lines rest"
  "dropWhile (\<lambda>c. c \<noteq> CHR 0x0A) t = c # rest
    \<Longrightarrow> getlines t = takeWhile (\<lambda>c. c \<noteq> CHR 0x0A) t # getlines rest"
  subgoal by (subst split_lines.simps) (simp del: dropWhile_eq_Nil_conv)
  subgoal by (subst getlines.simps) (simp del: dropWhile_eq_Nil_conv)
  subgoal by (subst split_lines.simps) auto
  subgoal by (subst getlines.simps) auto
  done

lemma split_lines_Nil [simp]: "split_lines [] = []" and getlines_Nil [simp]: "getlines [] = []"
  by (simp_all add: split_lines.simps getlines.simps)

lemma split_lines_spec:
  "map trim (split_lines t) = map trim (getlines t) \<and> (\<forall>line \<in> set (split_lines t). CHR 0x0A \<notin> set line)"
proof (induction t rule: getlines.induct)
  case (1 t)
  show ?case
  proof (cases "dropWhile (\<lambda>c. c \<noteq> CHR 0x0A) t")
    case Nil
    then have "CHR 0x0A \<notin> set t" by (auto simp: dropWhile_eq_Nil_conv)
    then show ?thesis
      using Nil lines_simps(1,2) set_without_cr [of t] trim_without_cr by (cases "t = []") auto
  next
    case (Cons c rest)
    have "CHR 0x0A \<notin> set (takeWhile (\<lambda>c. c \<noteq> CHR 0x0A) t)" by (auto dest: set_takeWhileD)
    moreover have "t \<noteq> []" using Cons by auto
    ultimately show ?thesis
      using 1 Cons lines_simps(3,4) [OF Cons] trim_without_cr
        set_without_cr [of "takeWhile (\<lambda>c. c \<noteq> CHR 0x0A) t"] by auto
  qed
qed

lemmas split_lines_getlines = split_lines_spec [THEN conjunct1]
lemmas split_lines_plain = split_lines_spec [THEN conjunct2]

lemma wanted_value_iff:
  "distinct_names settings \<Longrightarrow> s \<in> set settings \<Longrightarrow> wanted_value settings (name_of s) = Some (is_value s)"
  unfolding wanted_value_def distinct_names_def
  by (intro map_of_is_SomeI) (auto simp: comp_def)

lemma assigned_updated [simp]: "assigned_name (updated settings a) = assigned_name a"
  by (cases a) (simp add: assigned_name_def updated_def)

lemma others_updated: "others settings (map (updated settings) as) = others settings as"
proof (induction as)
  case (Cons a as)
  have "updated settings a = a" if "assigned_name a \<notin> names settings"
  proof -
    have "wanted_value settings (assigned_name a) = None"
      using that by (auto simp: wanted_value_def map_of_eq_None_iff names_def image_image)
    then show ?thesis by (cases a) (simp add: updated_def assigned_name_def)
  qed
  then show ?case using Cons by (simp add: others_def)
qed (simp add: others_def)

lemma values_updated:
  "distinct_names settings \<Longrightarrow> s \<in> set settings \<Longrightarrow>
    values_of (map (updated settings) as) (name_of s) = replicate (length (values_of as (name_of s))) (is_value s)"
proof (induction as)
  case (Cons a as)
  have "snd (snd (updated settings a)) = is_value s" if "assigned_name a = name_of s"
    using wanted_value_iff [OF Cons.prems] that by (cases a) (simp add: updated_def assigned_name_def)
  then show ?case using Cons by (simp add: values_of_def)
qed (simp add: values_of_def)

lemma found_iff:
  "length settings = n \<Longrightarrow> (s, f) \<in> set (zip settings (now_found settings (replicate n False) ks))
    \<Longrightarrow> s \<in> set settings \<and> f = (name_of s \<in> ks)"
  by (induction settings arbitrary: n) (auto simp: now_found_def)

lemma in_zip_found:
  "s \<in> set settings \<Longrightarrow> (s, name_of s \<in> ks) \<in> set (zip settings (now_found settings (replicate (length settings) False) ks))"
  by (induction settings) (auto simp: now_found_def)

lemma rebuild_spec:
  assumes "\<forall>s \<in> set settings. tidy s" "distinct_names settings"
  shows "others settings (file_assignments (rebuild original settings))
      = others settings (file_assignments original)
    \<and> (\<forall>s \<in> set settings. values_of (file_assignments (rebuild original settings)) (name_of s)
        = replicate (max 1 (length (values_of (file_assignments original) (name_of s)))) (is_value s))"
proof -
  obtain lines found where first: "first_pass settings [] (split_lines original)
      (replicate (length settings) False) = (lines, found)" by fastforce
  define old where "old = file_assignments original"
  have old: "assignments [] (split_lines original) = old"
    unfolding old_def file_assignments_def by (intro assignments_trim split_lines_getlines)
  note fst_pass = first_pass_spec [OF assms(2,1) _ split_lines_plain first, unfolded old]
  have as1: "assignments [] lines = map (updated settings) old"
    and plain: "\<forall>line \<in> set lines. CHR 0x0A \<notin> set line"
    and found: "found = now_found settings (replicate (length settings) False) (assigned_name ` set old)"
    using fst_pass by simp_all
  have "values_of old n = [] \<longleftrightarrow> n \<notin> assigned_name ` set old" for n
    by (auto simp: values_of_def filter_empty_conv)
  note none = this
  have absent: "\<forall>(s, f) \<in> set (zip settings found). \<not> f \<longrightarrow> values_of (assignments [] lines) (name_of s) = []"
  proof (intro ballI, clarify)
    fix s f assume "(s, f) \<in> set (zip settings found)" "\<not> f"
    then have "s \<in> set settings" "name_of s \<notin> assigned_name ` set old"
      using found_iff [OF refl] found by auto
    then show "values_of (assignments [] lines) (name_of s) = []"
      using values_updated [OF assms(2)] none as1 by simp
  qed
  define lines2 where "lines2 = second_pass settings found lines"
  have len: "length found = length settings" using found by simp
  note snd_pass = second_pass_spec [OF len assms plain absent, folded lines2_def]
  have new: "file_assignments (rebuild original settings) = assignments [] lines2"
    unfolding file_assignments_def rebuild_def first lines2_def [symmetric] Let_def prod.case
    using snd_pass by (intro assignments_trim getlines_rebuilt) (simp add: lines2_def)
  have "others settings (assignments [] lines2) = others settings old"
    using snd_pass others_updated [of settings old] as1 by (simp add: others_def names_def)
  moreover have "values_of (assignments [] lines2) (name_of s)
      = replicate (max 1 (length (values_of old (name_of s)))) (is_value s)" if "s \<in> set settings" for s
  proof -
    have "(s, name_of s \<in> assigned_name ` set old) \<in> set (zip settings found)"
      using in_zip_found [OF that] found by simp
    with snd_pass have "values_of (assignments [] lines2) (name_of s) =
        (if name_of s \<in> assigned_name ` set old then values_of (assignments [] lines) (name_of s)
         else [is_value s])" by fastforce
    then show ?thesis
      using values_updated [OF assms(2) that, of old] none [of "name_of s"] as1
      by (cases "values_of old (name_of s)") (auto simp: max_def)
  qed
  ultimately show ?thesis by (simp add: new old_def)
qed

definition content_at :: "(string \<rightharpoonup> string) \<Rightarrow> string \<Rightarrow> string" where
  "content_at files path = (case files path of None \<Rightarrow> [] | Some content \<Rightarrow> content)"

lemma save_outcome:
  assumes "save_ini_settings out path settings files = (result, files')"
  shows "(result = None \<and> files' = files(path @ ''.tmp'' := None, path \<mapsto> rebuild (content_at files path) settings)
      \<and> (\<exists>c. parse_ini (rebuild (content_at files path) settings) default_config = Inr c
          \<and> validate_config c = None))
    \<or> (result \<noteq> None \<and> (files' = files \<or> files' = files(path @ ''.tmp'' := wo_left_behind out)))"
  using assms
  by (auto simp: save_ini_settings_def replace_file_def write_failed_def content_at_def Let_def
      split: if_splits option.splits sum.splits)

text \<open>C31. A save does what it was asked and nothing else: when it succeeds, every setting given reads
  back with exactly the value given wherever the file sets it, and the file now sets it; the other
  settings of the file are the same ones with the same values in the same order; and the parser
  accepts the file, as its settings applied one after another, and the rules accept the result.\<close>

theorem save_changes_what_is_asked:
  assumes "save_ini_settings out path settings files = (None, files')"
    and "\<forall>s \<in> set settings. tidy s" "distinct_names settings"
  shows "\<exists>content c. files' path = Some content
    \<and> (\<forall>s \<in> set settings. values_of (file_assignments content) (name_of s) =
        replicate (max 1 (length (values_of (file_assignments (content_at files path)) (name_of s))))
          (is_value s))
    \<and> others settings (file_assignments content) = others settings (file_assignments (content_at files path))
    \<and> parse_ini content default_config = Inr c \<and> validate_config c = None
    \<and> c = fold apply_assignment (file_assignments content) default_config"
proof -
  obtain c where written: "files' path = Some (rebuild (content_at files path) settings)"
    and c: "parse_ini (rebuild (content_at files path) settings) default_config = Inr c"
      "validate_config c = None"
    using save_outcome [OF assms(1)] by auto
  show ?thesis
    using written c rebuild_spec [OF assms(2,3), of "content_at files path"] parse_ini_assigns [OF c(1)]
    by blast
qed

text \<open>A file with two settings of the microphone and one of the sounds, and a dialog that sets the
  microphone to a name that ends in a space and turns the voice gate off.\<close>

definition home_file :: "string \<rightharpoonup> string" where
  "home_file = [''config.ini'' \<mapsto>
     ''[audio]'' @ [CHR 0x0A] @ ''input_device = Old'' @ [CHR 0x0A] @ ''; a note'' @ [CHR 0x0A]
     @ ''input_device = Older'' @ [CHR 0x0A] @ ''[ui]'' @ [CHR 0x0A] @ ''room_sounds = off'' @ [CHR 0x0A]]"

definition new_microphone :: "ini_setting list" where
  "new_microphone = [\<lparr>is_section = ''audio'', is_key = ''input_device'', is_value = ''Mic ''\<rparr>,
     \<lparr>is_section = ''audio'', is_key = ''voice_gate'', is_value = ''off''\<rparr>]"

definition writable :: write_outcome where
  "writable = \<lparr>wo_directory_error = None, wo_opened = True, wo_written = True, wo_rename_error = None,
     wo_left_behind = None\<rparr>"

lemma new_microphone_saved:
  "fst (save_ini_settings writable ''config.ini'' new_microphone home_file) = None"
  by code_simp

lemma save_changes_what_is_asked_witness:
  "\<exists>content. snd (save_ini_settings writable ''config.ini'' new_microphone home_file) ''config.ini'' = Some content
    \<and> values_of (file_assignments content) (''audio'', ''input_device'') = [''Mic '', ''Mic '']
    \<and> values_of (file_assignments content) (''audio'', ''voice_gate'') = [''off'']"
proof -
  have counts: "length (values_of (file_assignments (content_at home_file ''config.ini'')) (''audio'', ''input_device'')) = 2"
    "length (values_of (file_assignments (content_at home_file ''config.ini'')) (''audio'', ''voice_gate'')) = 0"
    by code_simp+
  have "save_ini_settings writable ''config.ini'' new_microphone home_file
      = (None, snd (save_ini_settings writable ''config.ini'' new_microphone home_file))"
    using new_microphone_saved by (simp add: prod_eq_iff)
  moreover have "\<forall>s \<in> set new_microphone. tidy s" by code_simp
  moreover have "distinct_names new_microphone" by code_simp
  ultimately show ?thesis
    using save_changes_what_is_asked [of writable "''config.ini''" new_microphone home_file]
    by (auto simp: new_microphone_def name_of_def counts numeral_2_eq_2)
qed



end
