(* ===== verification/ConfigProofs.thy ===== *)
theory ConfigProofs
  imports ConfigSaveProofs
begin

text \<open>
  What the program may rely on once its settings are loaded: the rules of \<open>validate\<close> as one
  predicate, the precedence of the command line over the environment over the files, and what the
  settings written out do not show.
\<close>

section \<open>The rules\<close>

definition video_ok :: "video_config \<Rightarrow> bool" where
  "video_ok v \<longleftrightarrow> 0 < vc_width v \<and> even (vc_width v) \<and> 0 < vc_height v \<and> even (vc_height v)
     \<and> 1 \<le> vc_fps v \<and> vc_fps v \<le> 120
     \<and> 0 < vc_floor_bitrate_kbps v \<and> vc_floor_bitrate_kbps v \<le> vc_min_bitrate_kbps v
     \<and> vc_min_bitrate_kbps v \<le> vc_max_bitrate_kbps v"

definition audio_ok :: "audio_config \<Rightarrow> bool" where
  "audio_ok a \<longleftrightarrow> au_sample_rate_hz a \<in> {8000, 12000, 16000, 24000, 48000} \<and> au_channels a \<in> {1..2}
     \<and> au_frame_duration_ms a \<in> {5, 10, 20, 40, 60} \<and> au_bitrate_kbps a \<in> {6..510}
     \<and> au_noise_suppression_level a \<in> {''low'', ''moderate'', ''high'', ''very_high''}
     \<and> au_voice_gate_level a \<in> {''low'', ''moderate'', ''high'', ''very_high''}"

definition screen_audio_ok :: "screen_audio_config \<Rightarrow> bool" where
  "screen_audio_ok s \<longleftrightarrow> sa_mode s \<in> {''none'', ''system'', ''process''} \<and> sa_volume_percent s \<in> {0..200}"

definition network_ok :: "network_config \<Rightarrow> bool" where
  "network_ok n \<longleftrightarrow>
     (starts_with ''ws://'' (nc_signaling_url n) \<or> starts_with ''wss://'' (nc_signaling_url n))
     \<and> 0 < nc_reconnect_initial_delay_ms n
     \<and> nc_reconnect_initial_delay_ms n \<le> nc_reconnect_max_delay_ms n
     \<and> (nc_ice_port_range_begin n = 0 \<and> nc_ice_port_range_end n = 0
        \<or> nc_ice_port_range_begin n \<noteq> 0 \<and> nc_ice_port_range_end n \<noteq> 0
          \<and> nc_ice_port_range_begin n \<le> nc_ice_port_range_end n)"

definition server_ok :: "server_config \<Rightarrow> bool" where
  "server_ok s \<longleftrightarrow> sc_port s \<noteq> 0 \<and> is_valid_room_capacity (sc_max_participants_per_room s)
     \<and> sc_heartbeat_interval_ms s < sc_heartbeat_timeout_ms s"

definition database_ok :: "database_config \<Rightarrow> bool" where
  "database_ok d \<longleftrightarrow> (dc_enabled d \<longrightarrow> dc_uri d \<noteq> [] \<and> dc_name d \<noteq> [] \<and> 0 < dc_timeout_ms d)"

definition config_ok :: "config \<Rightarrow> bool" where
  "config_ok c \<longleftrightarrow> video_ok (cf_video c) \<and> audio_ok (cf_audio c) \<and> screen_audio_ok (cf_screen_audio c)
     \<and> network_ok (cf_network c) \<and> server_ok (cf_server c) \<and> database_ok (cf_database c)"

lemma first_error_None: "first_error es = None \<longleftrightarrow> set es \<subseteq> {None}"
  by (induction es rule: first_error.induct) auto

lemma if_error_None: "(if P then Some e else rest) = None \<longleftrightarrow> \<not> P \<and> rest = None"
  by simp

lemma validate_parts:
  "validate_video v = None \<longleftrightarrow> video_ok v"
  "validate_audio a s = None \<longleftrightarrow> audio_ok a \<and> screen_audio_ok s"
  "validate_database d = None \<longleftrightarrow> database_ok d"
  "validate_network n = None \<longleftrightarrow> network_ok n"
  "validate_server v' = None \<longleftrightarrow> server_ok v'"
  subgoal unfolding validate_video_def video_ok_def if_error_None even_iff_mod_2_eq_zero by (auto simp: not_le not_less)
  subgoal unfolding validate_audio_def audio_ok_def screen_audio_ok_def if_error_None
      is_noise_suppression_level_def kOpusSampleRates_def kOpusFrameDurations_def
      atLeastAtMost_iff de_Morgan_disj not_less not_not list.set insert_iff empty_iff
    by (rule iffI; elim conjE; intro conjI; simp)
  subgoal by (auto simp: validate_database_def database_ok_def)
  subgoal unfolding validate_network_def Let_def if_error_None
    by (auto simp: network_ok_def starts_with_def)
  subgoal unfolding validate_server_def if_error_None
    by (auto simp: server_ok_def is_valid_room_capacity_def)
  done

lemma validate_config_iff: "validate_config c = None \<longleftrightarrow> config_ok c"
  by (auto simp: validate_config_def first_error_None config_ok_def validate_parts)

section \<open>Loading\<close>

text \<open>What the files give, before the environment and the command line are heard.\<close>

definition settings_read :: "config_world \<Rightarrow> string list \<Rightarrow> config result" where
  "settings_read w argv =
     (if named_config_path w argv = [] then read_config_files w (default_config_paths w) default_config
      else read_config_file w (named_config_path w argv) default_config True)"

text \<open>The value of the last \<open>--key=value\<close> with this key.\<close>

definition option_heard :: "string \<Rightarrow> string \<Rightarrow> string option \<Rightarrow> string option" where
  "option_heard name argument found = (case split_argument argument of
     Some (key, v) \<Rightarrow> if key = name then Some v else found | None \<Rightarrow> found)"

definition last_option :: "string \<Rightarrow> string list \<Rightarrow> string option" where
  "last_option name arguments = fold (option_heard name) arguments None"

lemma load_config_cases:
  "load_config w argv unknown = Inr c \<longleftrightarrow>
     (\<exists>base. settings_read w argv = Inr base
       \<and> apply_arguments unknown (tl argv) (apply_environment w base) = Inr c \<and> config_ok c)"
  by (auto simp: load_config_def settings_read_def Let_def validate_config_iff [symmetric]
      split: sum.split_asm option.split_asm)

text \<open>A setting that the command line and the environment can both name: the option sets it and no
  other option touches it, and the environment replaces what is there or leaves it.\<close>

locale layered_setting =
  fixes get :: "config \<Rightarrow> 'a"
    and key :: string
    and meaning :: "string \<Rightarrow> 'a"
    and variable :: "config_world \<Rightarrow> 'a option"
  assumes option_sets: "apply_option unknown key v c = Inr c' \<Longrightarrow> get c' = meaning v"
    and option_keeps: "k \<noteq> key \<Longrightarrow> apply_option unknown k v c = Inr c' \<Longrightarrow> get c' = get c"
    and environment_sets:
      "get (apply_environment w c) = (case variable w of Some x \<Rightarrow> x | None \<Rightarrow> get c)"
begin

lemma argument_heard:
  assumes "apply_argument unknown argument c = Inr c'"
    and "get c = (case found of Some v \<Rightarrow> meaning v | None \<Rightarrow> below)"
  shows "get c' = (case option_heard key argument found of Some v \<Rightarrow> meaning v | None \<Rightarrow> below)"
  using assms option_sets option_keeps
  by (auto simp: apply_argument_def option_heard_def split: option.split_asm if_split_asm)

lemma arguments_heard:
  "apply_arguments unknown arguments c = Inr c' \<Longrightarrow>
   get c = (case found of Some v \<Rightarrow> meaning v | None \<Rightarrow> below) \<Longrightarrow>
   get c' = (case fold (option_heard key) arguments found of Some v \<Rightarrow> meaning v | None \<Rightarrow> below)"
proof (induction arguments arbitrary: c found)
  case (Cons argument arguments)
  then obtain c1 where "apply_argument unknown argument c = Inr c1"
    "apply_arguments unknown arguments c1 = Inr c'"
    by (auto split: sum.split_asm)
  then show ?case using Cons.IH argument_heard Cons.prems(2) by simp
qed simp

lemma layers:
  assumes "load_config w argv unknown = Inr c" "settings_read w argv = Inr base"
  shows "get c = (case last_option key (tl argv) of
     Some v \<Rightarrow> meaning v
   | None \<Rightarrow> (case variable w of Some x \<Rightarrow> x | None \<Rightarrow> get base))"
proof -
  have "apply_arguments unknown (tl argv) (apply_environment w base) = Inr c"
    using assms by (auto simp: load_config_cases)
  then show ?thesis unfolding last_option_def
    by (rule arguments_heard) (simp add: environment_sets)
qed

end

lemma fold_keeps:
  "(\<And>f c. f \<in> set fs \<Longrightarrow> get (f c) = get c) \<Longrightarrow> get (fold (\<lambda>f. f) fs c) = get c"
  by (induction fs arbitrary: c) auto

text \<open>The one place of the environment that touches a setting, by its position in the code.\<close>

lemma environment_at:
  assumes "n < length (environment_settings w)"
    and "\<And>f c. f \<in> set (take n (environment_settings w)) \<Longrightarrow> get (f c) = get c"
    and "\<And>f c. f \<in> set (drop (Suc n) (environment_settings w)) \<Longrightarrow> get (f c) = get c"
    and "\<And>c. get ((environment_settings w ! n) c) = (case v of Some x \<Rightarrow> x | None \<Rightarrow> get c)"
  shows "get (apply_environment w c) = (case v of Some x \<Rightarrow> x | None \<Rightarrow> get c)"
proof -
  have "apply_environment w c = fold (\<lambda>f. f) (drop (Suc n) (environment_settings w))
      ((environment_settings w ! n) (fold (\<lambda>f. f) (take n (environment_settings w)) c))"
    unfolding apply_environment_def by (subst id_take_nth_drop [OF assms(1)]) simp
  moreover have "get (fold (\<lambda>f. f) (drop (Suc n) (environment_settings w)) d) = get d" for d
    by (rule fold_keeps) (rule assms(3))
  moreover have "get (fold (\<lambda>f. f) (take n (environment_settings w)) c) = get c"
    by (rule fold_keeps) (rule assms(2))
  ultimately show ?thesis using assms(4) by (cases v) simp_all
qed

lemmas in_section_defs = in_video_def in_audio_def in_screen_audio_def in_network_def in_logging_def
  in_server_def in_database_def in_ui_def

lemmas env_defs = apply_env_int_def apply_env_string_def apply_env_bool_def apply_env_port_def
  apply_env_server_port_def in_section_defs

lemma signaling_url_variable:
  "nc_signaling_url (cf_network (apply_environment w c))
   = (case env w ''DV_SIGNALING_URL'' of Some x \<Rightarrow> x | None \<Rightarrow> nc_signaling_url (cf_network c))"
  by (rule environment_at [where n = 23]; simp add: environment_settings_def;
      (elim disjE)?; simp add: env_defs split: option.split)

lemma bind_address_variable:
  "sc_bind_address (cf_server (apply_environment w c))
   = (case env w ''DV_SERVER_BIND_ADDRESS'' of Some x \<Rightarrow> x | None \<Rightarrow> sc_bind_address (cf_server c))"
  by (rule environment_at [where n = 33]; simp add: environment_settings_def;
      (elim disjE)?; simp add: env_defs split: option.split)

lemma users_file_variable:
  "sc_users_file (cf_server (apply_environment w c))
   = (case env w ''DV_SERVER_USERS_FILE'' of Some x \<Rightarrow> x | None \<Rightarrow> sc_users_file (cf_server c))"
  by (rule environment_at [where n = 36]; simp add: environment_settings_def;
      (elim disjE)?; simp add: env_defs split: option.split)

text \<open>A port in the environment is heard when it is a number a port can be.\<close>

definition port_variable :: "config_world \<Rightarrow> int option" where
  "port_variable w = (case env w ''DV_SERVER_PORT'' of
     None \<Rightarrow> None
   | Some raw \<Rightarrow> (case parse_int raw of
        Some n \<Rightarrow> if 1 \<le> n \<and> n \<le> 65535 then Some n else None | None \<Rightarrow> None))"

lemma server_port_variable:
  "sc_port (cf_server (apply_environment w c))
   = (case port_variable w of Some x \<Rightarrow> x | None \<Rightarrow> sc_port (cf_server c))"
  by (rule environment_at [where n = 34]; simp add: environment_settings_def;
      (elim disjE)?; auto simp: env_defs port_variable_def split: option.split)

lemmas option_defs = apply_option_def apply_ice_port_range_def in_section_defs

interpretation signaling: layered_setting "\<lambda>c. nc_signaling_url (cf_network c)" "''signaling-url''"
    "\<lambda>v. v" "\<lambda>w. env w ''DV_SIGNALING_URL''"
  by unfold_locales (auto simp: option_defs signaling_url_variable
      split: if_split_asm option.split_asm prod.split_asm)

interpretation bind_address: layered_setting "\<lambda>c. sc_bind_address (cf_server c)" "''bind-address''"
    "\<lambda>v. v" "\<lambda>w. env w ''DV_SERVER_BIND_ADDRESS''"
  by unfold_locales (auto simp: option_defs bind_address_variable
      split: if_split_asm option.split_asm prod.split_asm)

interpretation users_file: layered_setting "\<lambda>c. sc_users_file (cf_server c)" "''users-file''"
    "\<lambda>v. v" "\<lambda>w. env w ''DV_SERVER_USERS_FILE''"
  by unfold_locales (auto simp: option_defs users_file_variable
      split: if_split_asm option.split_asm prod.split_asm)

interpretation port: layered_setting "\<lambda>c. sc_port (cf_server c)" "''port''"
    "\<lambda>v. the (parse_int v)" port_variable
  by unfold_locales (auto simp: option_defs server_port_variable
      split: if_split_asm option.split_asm prod.split_asm)

section \<open>What loading guarantees\<close>

lemma validate_code: "validate_config c = Some e \<Longrightarrow> err_code e = ''invalid_value''"
proof -
  have chain: "(if P then Some (invalid_value field reason) else rest) = Some e \<Longrightarrow>
      (rest = Some e \<Longrightarrow> err_code e = ''invalid_value'') \<Longrightarrow> err_code e = ''invalid_value''"
    for P field reason rest e
    by (auto simp: invalid_value_def mk_error_def split: if_split_asm)
  have parts: "validate_video v = Some e \<Longrightarrow> err_code e = ''invalid_value''"
    "validate_audio a s = Some e \<Longrightarrow> err_code e = ''invalid_value''"
    "validate_database d = Some e \<Longrightarrow> err_code e = ''invalid_value''"
    "validate_network n = Some e \<Longrightarrow> err_code e = ''invalid_value''"
    "validate_server sv = Some e \<Longrightarrow> err_code e = ''invalid_value''"
    for v a s d n sv
    subgoal unfolding validate_video_def by (erule chain)+ simp
    subgoal unfolding validate_audio_def by (erule chain)+ simp
    subgoal unfolding validate_database_def if_not_P by (cases "dc_enabled d"; simp; (erule chain)+; simp)
    subgoal unfolding validate_network_def Let_def by (erule chain)+ simp
    subgoal unfolding validate_server_def by (erule chain)+ simp
    done
  have "e \<in> set (concat (map (\<lambda>x. case x of Some e \<Rightarrow> [e] | None \<Rightarrow> []) es))"
    if "first_error es = Some e" for es
    using that by (induction es rule: first_error.induct) auto
  then show "validate_config c = Some e \<Longrightarrow> err_code e = ''invalid_value''"
    unfolding validate_config_def by (fastforce intro: parts split: option.split_asm)
qed

text \<open>C30. Settings are taken exactly when they obey the rules of \<open>validate\<close>. Whatever the files, the
  environment and the command line made of the settings, \<open>load\<close> hands them to the program when they
  satisfy \<open>config_ok\<close> - even frame sizes, an Opus rate, channel count and frame duration, ordered bitrate
  bounds, a websocket URL, a port range with both ends or neither, a capacity the rooms allow, a heartbeat
  timeout above its interval, a named database when one is enabled - and otherwise it refuses them with
  \<open>invalid_value\<close>: the program never starts on settings that break a rule, and no rule refuses settings
  that keep them all.\<close>

theorem load_takes_what_obeys_the_rules:
  assumes "settings_read w argv = Inr base"
    and "apply_arguments unknown (tl argv) (apply_environment w base) = Inr c"
  shows "if config_ok c then load_config w argv unknown = Inr c
         else \<exists>e. load_config w argv unknown = Inl e \<and> err_code e = ''invalid_value''"
proof (cases "validate_config c")
  case None
  then show ?thesis using assms load_config_cases validate_config_iff by auto
next
  case (Some e)
  then have "load_config w argv unknown = Inl e"
    using assms by (auto simp: load_config_def settings_read_def Let_def split: if_split_asm)
  then show ?thesis using Some validate_code validate_config_iff [of c] by auto
qed

definition sample_world :: config_world where
  "sample_world = \<lparr>
     cw_env = [''HOME'' \<mapsto> ''/home/ana'', ''DV_SERVER_PORT'' \<mapsto> ''9000'', ''DV_SIGNALING_URL'' \<mapsto> ''ws://lan''],
     cw_files = [''/home/ana/.config/partyshare/config.ini'' \<mapsto>
       ''[server]'' @ [CHR 0x0A] @ ''port = 7000'' @ [CHR 0x0A] @ ''bind_address = 10.0.0.1''],
     cw_executable_directory = [], cw_json = (\<lambda>_. None), cw_float_to_int = (\<lambda>_. 0),
     cw_type_error = (\<lambda>_. [])\<rparr>"

definition sample_base :: config where
  "sample_base = in_server (\<lambda>v. v\<lparr>sc_port := 7000, sc_bind_address := ''10.0.0.1''\<rparr>) default_config"

lemma sample_read: "settings_read sample_world [''server'', ''--port=9100''] = Inr sample_base"
  by code_simp

definition sample_loaded :: config where
  "sample_loaded = in_server (\<lambda>v. v\<lparr>sc_port := 9100\<rparr>)
     (in_network (\<lambda>v. v\<lparr>nc_signaling_url := ''ws://lan''\<rparr>) sample_base)"

lemma sample_applied:
  "apply_arguments RejectUnknown (tl [''server'', ''--port=9100'']) (apply_environment sample_world sample_base)
   = Inr sample_loaded"
  by code_simp

lemma sample_ok: "config_ok sample_loaded"
  unfolding validate_config_iff [symmetric] by code_simp

theorem load_takes_what_obeys_the_rules_witness:
  "load_config sample_world [''server'', ''--port=9100''] RejectUnknown = Inr sample_loaded"
  using load_takes_what_obeys_the_rules [OF sample_read sample_applied] sample_ok by simp

text \<open>The command line is heard before the environment, and the environment before the files. In the
  settings \<open>load\<close> returns, the signaling URL, the address the server binds, its port and its users file are
  each the value of the last \<open>--key=value\<close> that names it; without one, the value of its environment
  variable, when that is set, not empty and, of the port, a number from 1 to 65535; and without that, what
  the files said. No other option and no other variable touches them.\<close>

lemma load_precedence:
  assumes "load_config w argv unknown = Inr c" "settings_read w argv = Inr base"
  shows "nc_signaling_url (cf_network c) = (case last_option ''signaling-url'' (tl argv) of
           Some v \<Rightarrow> v | None \<Rightarrow> (case env w ''DV_SIGNALING_URL'' of
             Some x \<Rightarrow> x | None \<Rightarrow> nc_signaling_url (cf_network base)))
       \<and> sc_bind_address (cf_server c) = (case last_option ''bind-address'' (tl argv) of
           Some v \<Rightarrow> v | None \<Rightarrow> (case env w ''DV_SERVER_BIND_ADDRESS'' of
             Some x \<Rightarrow> x | None \<Rightarrow> sc_bind_address (cf_server base)))
       \<and> sc_users_file (cf_server c) = (case last_option ''users-file'' (tl argv) of
           Some v \<Rightarrow> v | None \<Rightarrow> (case env w ''DV_SERVER_USERS_FILE'' of
             Some x \<Rightarrow> x | None \<Rightarrow> sc_users_file (cf_server base)))
       \<and> sc_port (cf_server c) = (case last_option ''port'' (tl argv) of
           Some v \<Rightarrow> the (parse_int v) | None \<Rightarrow> (case port_variable w of
             Some x \<Rightarrow> x | None \<Rightarrow> sc_port (cf_server base)))"
  using signaling.layers [OF assms] bind_address.layers [OF assms] users_file.layers [OF assms]
    port.layers [OF assms] by simp

lemma sample_loads:
  "load_config sample_world [''server'', ''--port=9100''] RejectUnknown = Inr sample_loaded"
  using load_config_cases sample_read sample_applied sample_ok by blast

lemma load_precedence_witness:
  "sc_port (cf_server sample_loaded) = 9100
   \<and> sc_bind_address (cf_server sample_loaded) = ''10.0.0.1''
   \<and> nc_signaling_url (cf_network sample_loaded) = ''ws://lan''"
proof -
  have "last_option ''port'' (tl [''server'', ''--port=9100'']) = Some ''9100''"
    "last_option ''bind-address'' (tl [''server'', ''--port=9100'']) = None"
    "last_option ''signaling-url'' (tl [''server'', ''--port=9100'']) = None"
    "env sample_world ''DV_SERVER_BIND_ADDRESS'' = None"
    "env sample_world ''DV_SIGNALING_URL'' = Some ''ws://lan''"
    "parse_int ''9100'' = Some 9100"
    "sc_bind_address (cf_server sample_base) = ''10.0.0.1''"
    by code_simp+
  then show ?thesis using load_precedence [OF sample_loads sample_read] by simp
qed

section \<open>What the rules let through\<close>

text \<open>Nothing bounds the two heartbeat times from below, only one against the other.\<close>

lemma heartbeat_rule_admits_no_time_at_all:
  "validate_config (in_server (\<lambda>v. v\<lparr>sc_heartbeat_interval_ms := - 1, sc_heartbeat_timeout_ms := 0\<rparr>)
     default_config) = None"
  by code_simp

text \<open>A port of a JSON file is cast to sixteen bits without being asked whether it fits; the INI reader
  asks.\<close>

lemma json_port_wraps:
  "json_port w (\<lambda>x. in_server (\<lambda>v. v\<lparr>sc_port := x\<rparr>)) (JInt 73616) c
   = Inr (in_server (\<lambda>v. v\<lparr>sc_port := 8080\<rparr>) c)"
  by (simp add: json_port_def json_number_def to_uint16_def)

lemma ini_port_does_not_wrap:
  "parse_int raw = Some n \<Longrightarrow> 65535 < n \<Longrightarrow> apply_ini_server ''port'' raw c = NotUnderstood"
  by (simp add: apply_ini_server_def as_port_def)

text \<open>The credentials end at the first \<open>@\<close> for \<open>redact_uri\<close>: what follows it in a password that holds
  one is printed.\<close>

lemma redact_uri_shows_the_rest:
  "redact_uri ''mongodb://ana:p@ssword@db'' = ''mongodb://***@ssword@db''"
  by code_simp

end
