(* ===== verification/SignalingProofs.thy ===== *)
theory SignalingProofs
  imports SignalingClient
begin

text \<open>
  What the signaling client guarantees: how the delay grows, that there is one socket and it is the one
  in hand, that a measured round trip is of that socket, which server a reconnection knocks at, and when
  a disconnection is final.
\<close>

section \<open>The delay\<close>

lemma double_delay_bounds:
  "0 < delay \<Longrightarrow> delay \<le> ceiling \<Longrightarrow>
   delay \<le> double_delay n ceiling delay \<and> double_delay n ceiling delay \<le> ceiling"
proof (induction n ceiling delay rule: double_delay.induct)
  case (2 n ceiling delay)
  show ?case
  proof (cases "delay \<ge> trunc_div ceiling 2")
    case False
    then have "delay * 2 \<le> ceiling" using 2(2-3) by (simp add: trunc_div_def)
    then show ?thesis using 2 False by simp
  qed (use 2 in simp)
qed simp

lemma double_delay_exact:
  "0 < delay \<Longrightarrow> delay \<le> ceiling \<Longrightarrow> even ceiling \<Longrightarrow>
   double_delay n ceiling delay = min (delay * 2 ^ n) ceiling"
proof (induction n ceiling delay rule: double_delay.induct)
  case (2 n ceiling delay)
  have half: "trunc_div ceiling 2 = ceiling div 2" using 2 by (simp add: trunc_div_def)
  show ?case
  proof (cases "delay \<ge> ceiling div 2")
    case True
    have "ceiling \<le> delay * 2" using True 2(4) by auto
    also have "\<dots> \<le> delay * 2 * 2 ^ n" using 2(2) by simp
    finally show ?thesis using True half by (simp add: mult_ac)
  next
    case False
    then have "delay * 2 \<le> ceiling" by simp
    then show ?thesis using 2 False half by (simp add: mult_ac)
  qed
qed simp

text \<open>The delay before a retry doubles and stops at the ceiling. With an initial delay of at least
  one millisecond and not above the ceiling, the delay before attempt n never leaves the two; with an
  even ceiling, as the default of thirty seconds is, it is exactly the initial delay times two to the
  n-1, or the ceiling when that is less, for every n.\<close>

lemma reconnect_delay_doubles:
  assumes "0 < go_initial_delay options" "go_initial_delay options \<le> go_max_delay options"
  shows "go_initial_delay options \<le> reconnect_delay n options
    \<and> reconnect_delay n options \<le> go_max_delay options
    \<and> (even (go_max_delay options) \<longrightarrow>
        reconnect_delay n options = min (go_initial_delay options * 2 ^ nat (n - 1)) (go_max_delay options))"
  using double_delay_bounds [OF assms] double_delay_exact [OF assms] assms
  by (simp add: reconnect_delay_def)

lemma reconnect_delay_doubles_witness:
  "reconnect_delay 4 (default_signaling_options []) = 4000
   \<and> reconnect_delay 1000 (default_signaling_options []) \<le> 30000"
  using reconnect_delay_doubles [of "default_signaling_options []" 4]
    reconnect_delay_doubles [of "default_signaling_options []" 1000]
  by (simp add: default_signaling_options_def)

section \<open>One socket\<close>

definition signaling_ok :: "signaling_client \<Rightarrow> bool" where
  "signaling_ok g \<longleftrightarrow>
     map fst (sg_attached g) = (case sg_socket g of None \<Rightarrow> [] | Some n \<Rightarrow> [n])
   \<and> (sg_socket g = None \<longleftrightarrow> sg_state g = Sg_Disconnected)
   \<and> (sg_round_trip g \<noteq> None \<or> sg_probe_nonce g \<noteq> [] \<longrightarrow> sg_socket g \<noteq> None)
   \<and> (sg_state g = Sg_Connected \<longrightarrow> sg_attempts g = 0) \<and> 0 \<le> sg_attempts g
   \<and> (0 < go_max_attempts (sg_options g) \<longrightarrow> sg_attempts g \<le> go_max_attempts (sg_options g))
   \<and> (sg_retry_at g \<noteq> None \<longrightarrow> sg_wanted g)"

lemmas signaling_defs = sg_set_state_def forget_round_trip_def set_url_def detach_def sg_send_def
  probe_def open_socket_def sg_connect_def sg_disconnect_def on_open_def handle_drop_def
  handle_payload_def retry_due_def retry_run_def

lemma attached_one:
  "map fst xs = [n] \<Longrightarrow> filter (\<lambda>k. fst k \<noteq> n) xs = []"
  by (cases xs) auto

lemma new_signaling_ok: "signaling_ok (new_signaling_client options)"
  by (simp add: signaling_ok_def new_signaling_client_def)

lemma open_socket_ok:
  assumes "sg_attached g = []" "0 \<le> sg_attempts g" "sg_retry_at g \<noteq> None \<longrightarrow> sg_wanted g"
    "0 < go_max_attempts (sg_options g) \<longrightarrow> sg_attempts g \<le> go_max_attempts (sg_options g)"
  shows "signaling_ok (fst (open_socket g))"
  using assms by (auto simp: open_socket_def sg_set_state_def signaling_ok_def Let_def)

lemma handle_payload_state:
  "fst (handle_payload is_open now parsed g) = g
   \<or> fst (handle_payload is_open now parsed g) = g\<lparr>sg_pings_answered := sg_pings_answered g + 1\<rparr>
   \<or> sg_probe_nonce g \<noteq> [] \<and> fst (handle_payload is_open now parsed g)
        = g\<lparr>sg_round_trip := Some (trunc_div (now - sg_probe_sent_at g) 1000000), sg_probe_nonce := []\<rparr>"
  by (simp add: handle_payload_def sg_send_def Let_def split: sum.split option.split)

lemma signaling_call_ok: "signaling_ok g \<Longrightarrow> signaling_ok (fst (signaling_call_step c g))"
proof (induction c)
  case SgConnect
  then show ?case
    by (auto simp: sg_connect_def Let_def intro!: open_socket_ok) 
      (auto simp: signaling_ok_def)
next
  case SgDisconnect
  then show ?case
    by (auto simp: sg_disconnect_def sg_set_state_def detach_def signaling_ok_def Let_def attached_one
        split: option.splits)
next
  case (SgProbe is_open now)
  then show ?case by (auto simp: probe_def signaling_ok_def sg_send_def Let_def split: option.splits)
next
  case (SgEvent ev)
  then show ?case
  proof (induction ev)
    case (SocketOpen n)
    then show ?case
      by (auto simp: on_open_def sg_set_state_def signaling_ok_def split: option.splits)
  next
    case (SocketClosed n now)
    then show ?case
      by (auto simp: handle_drop_def forget_round_trip_def sg_set_state_def signaling_ok_def Let_def
          split: option.splits)
  next
    case (SocketError n what now)
    then show ?case
      by (auto simp: handle_drop_def forget_round_trip_def sg_set_state_def signaling_ok_def Let_def
          split: option.splits)
  next
    case (SocketText n is_open now parsed)
    moreover have "signaling_ok (g\<lparr>sg_pings_answered := k\<rparr>)" for k
      using SocketText by (auto simp: signaling_ok_def)
    moreover have "sg_probe_nonce g \<noteq> [] \<Longrightarrow>
        signaling_ok (g\<lparr>sg_round_trip := Some x, sg_probe_nonce := []\<rparr>)" for x
      using SocketText by (auto simp: signaling_ok_def)
    ultimately have "signaling_ok (fst (handle_payload is_open now parsed g))"
      using handle_payload_state [of is_open now parsed g] by metis
    then show ?case using SocketText by (simp split: option.split)
  next
    case (RetryDue now)
    then show ?case by (auto simp: retry_due_def signaling_ok_def split: option.splits)
  next
    case RetryRun
    then have "signaling_ok g" by simp
    then show ?case
      by (cases "sg_retry_under_way g"; cases "sg_socket g"; simp add: retry_run_def Let_def detach_def)
        ((rule open_socket_ok; force simp: signaling_ok_def attached_one)+)
  qed simp
qed (auto simp: set_url_def signaling_ok_def)


interpretation one_socket: invariant_machine "\<lambda>c g. fst (signaling_call_step c g)" signaling_ok
  by unfold_locales (rule signaling_call_ok)

lemma signaling_run_Cons:
  "signaling_run (c # cs) g =
     (let g' = fst (signaling_call_step c g)
      in (fst (signaling_run cs g'), snd (signaling_call_step c g) @ snd (signaling_run cs g')))"
  by (simp add: split_beta Let_def)

declare signaling_run.simps(2) [simp del]

lemma signaling_run_state: "fst (signaling_run cs g) = fold (\<lambda>c g. fst (signaling_call_step c g)) cs g"
  by (induction cs arbitrary: g) (auto simp: signaling_run_Cons Let_def)

lemma signaling_run_ok: "signaling_ok g \<Longrightarrow> signaling_ok (fst (signaling_run cs g))"
  unfolding signaling_run_state by (rule one_socket.run_good)

text \<open>The client has one socket or none. In every state it can reach, through any calls from above and
  anything the network does, the only socket whose callbacks can reach it is the one in hand; it says it
  is disconnected exactly when it has none; a round trip, or a probe in flight, belongs to a socket in hand;
  a connection that is up has no failed attempt behind it and the attempts never exceed the limit; and a
  retry is scheduled only for a connection somebody still wants.\<close>

lemma one_socket_in_hand:
  "signaling_ok (fst (signaling_run calls (new_signaling_client options)))"
  by (rule signaling_run_ok [OF new_signaling_ok])

section \<open>Which server a retry knocks at\<close>

definition opens :: "signaling_output list \<Rightarrow> (nat \<times> string) list" where
  "opens out = concat (map (\<lambda>e. case e of SocketOpens n url \<Rightarrow> [(n, url)] | _ \<Rightarrow> []) out)"

lemma opens_simps [simp]:
  "opens [] = []" "opens (xs @ ys) = opens xs @ opens ys"
  "opens (SocketOpens n url # out) = (n, url) # opens out"
  "opens (SocketCloses n # out) = opens out" "opens (FrameSent n m # out) = opens out"
  "opens (StateTold st d # out) = opens out" "opens (MessageTold m # out) = opens out"
  "opens (RoundTripTold i # out) = opens out"
  by (simp_all add: opens_def)

lemma open_socket_opens:
  "opens (snd (open_socket g)) = [(sg_sockets g, normalize_url (sg_url g))]"
  "sg_url (fst (open_socket g)) = sg_url g" "sg_wanted (fst (open_socket g)) = sg_wanted g"
  "sg_retry_at (fst (open_socket g)) = sg_retry_at g"
  "sg_retry_under_way (fst (open_socket g)) = sg_retry_under_way g"
  by (simp_all add: open_socket_def sg_set_state_def Let_def)

lemma no_connect_keeps_server:
  assumes "c \<noteq> SgConnect"
  shows "sg_url (fst (signaling_call_step c g)) = sg_url g"
    and "set (opens (snd (signaling_call_step c g))) \<subseteq> UNIV \<times> {normalize_url (sg_url g)}"
proof -
  have payload: "sg_url (fst (handle_payload o1 now p g)) = sg_url g"
    "opens (snd (handle_payload o1 now p g)) = []" for o1 now p
    by (auto simp: handle_payload_def sg_send_def Let_def split: sum.split option.split)
  have "sg_url (fst (signaling_call_step c g)) = sg_url g
    \<and> set (opens (snd (signaling_call_step c g))) \<subseteq> UNIV \<times> {normalize_url (sg_url g)}"
  proof (cases c)
    case (SgEvent ev)
    then show ?thesis
      by (cases ev) (auto simp: payload on_open_def handle_drop_def forget_round_trip_def sg_set_state_def
          retry_due_def retry_run_def open_socket_opens detach_def Let_def split: option.split)
  qed (use assms in \<open>auto simp: set_url_def probe_def sg_send_def sg_disconnect_def sg_set_state_def
        detach_def Let_def split: option.split\<close>)
  then show "sg_url (fst (signaling_call_step c g)) = sg_url g"
    and "set (opens (snd (signaling_call_step c g))) \<subseteq> UNIV \<times> {normalize_url (sg_url g)}" by blast+
qed

text \<open>A reconnection knocks at the server the call was placed on. Until the next call of \<open>connect\<close>,
  whatever address is typed in, however often the connection drops and is retried, every socket that is
  opened is opened to the address the last \<open>connect\<close> adopted.\<close>

lemma retries_stay_on_the_server:
  assumes "SgConnect \<notin> set calls" "(n, url) \<in> set (opens (snd (signaling_run calls g)))"
  shows "url = normalize_url (sg_url g)"
  using assms
proof (induction calls arbitrary: g)
  case (Cons c calls)
  then have c: "c \<noteq> SgConnect" and calls: "SgConnect \<notin> set calls" by auto
  have "(n, url) \<in> set (opens (snd (signaling_call_step c g)))
    \<or> (n, url) \<in> set (opens (snd (signaling_run calls (fst (signaling_call_step c g)))))"
    using Cons.prems(2) by (auto simp: signaling_run_Cons Let_def)
  then show ?case
    using no_connect_keeps_server [OF c, of g] Cons.IH [OF calls, of "fst (signaling_call_step c g)"]
    by auto
qed simp

definition dropped_client :: signaling_client where
  "dropped_client = fst (signaling_run
     [SgConnect, SgEvent (SocketOpen 0), SgSetUrl ''ws://elsewhere'', SgEvent (SocketClosed 0 0)]
     (new_signaling_client (default_signaling_options ''ws://here'')))"

lemma dropped_client_retries:
  "(1, ''ws://here/'') \<in> set (opens (snd (signaling_run
     [SgEvent (RetryDue 500000000), SgEvent RetryRun] dropped_client)))"
  by code_simp

lemma retries_stay_on_the_server_witness:
  "''ws://here/'' = normalize_url (sg_url dropped_client)"
  using retries_stay_on_the_server [OF _ dropped_client_retries] by simp

section \<open>When a disconnection is final\<close>

lemma disconnected_is_quiet:
  assumes "sg_attached g = []" "sg_socket g = None" "sg_retry_at g = None" "\<not> sg_retry_under_way g"
    and "c \<noteq> SgConnect"
  shows "snd (signaling_call_step c g) \<in> {[], [StateTold Sg_Disconnected ''closed by the client'']}"
    and "let g' = fst (signaling_call_step c g) in sg_attached g' = [] \<and> sg_socket g' = None
      \<and> sg_retry_at g' = None \<and> \<not> sg_retry_under_way g'"
proof -
  have "snd (signaling_call_step c g) \<in> {[], [StateTold Sg_Disconnected ''closed by the client'']}
    \<and> (let g' = fst (signaling_call_step c g) in sg_attached g' = [] \<and> sg_socket g' = None
      \<and> sg_retry_at g' = None \<and> \<not> sg_retry_under_way g')"
  proof (cases c)
    case (SgEvent ev)
    then show ?thesis using assms by (cases ev) (auto simp: retry_due_def retry_run_def)
  qed (use assms in \<open>auto simp: set_url_def probe_def sg_send_def sg_disconnect_def sg_set_state_def Let_def\<close>)
  then show "snd (signaling_call_step c g) \<in> {[], [StateTold Sg_Disconnected ''closed by the client'']}"
    and "let g' = fst (signaling_call_step c g) in sg_attached g' = [] \<and> sg_socket g' = None
      \<and> sg_retry_at g' = None \<and> \<not> sg_retry_under_way g'" by blast+
qed

lemma quiet_run:
  "sg_attached g = [] \<Longrightarrow> sg_socket g = None \<Longrightarrow> sg_retry_at g = None \<Longrightarrow> \<not> sg_retry_under_way g \<Longrightarrow>
   SgConnect \<notin> set calls \<Longrightarrow>
   set (snd (signaling_run calls g)) \<subseteq> {StateTold Sg_Disconnected ''closed by the client''}"
proof (induction calls arbitrary: g)
  case (Cons c calls)
  then have "c \<noteq> SgConnect" by auto
  from disconnected_is_quiet [OF Cons.prems(1-4) this]
    Cons.IH [of "fst (signaling_call_step c g)"] Cons.prems(5)
  show ?case by (auto simp: signaling_run_Cons Let_def)
qed simp

text \<open>C18. A disconnection is final unless a retry has already let go of its lock. After \<open>disconnect\<close> on any
  state a client can reach, with the retry thread at rest, nothing that happens before the next \<open>connect\<close>
  opens a socket, sends a frame or hands anything up. With the thread between taking a retry off the schedule
  and making it, the next thing it does is to open a socket nobody asked for: the client is connecting again
  after the call that was to stop it has returned.\<close>

theorem disconnect_final_unless_retrying:
  assumes "signaling_ok g"
  shows "if sg_retry_under_way g
    then (let (g', out) = retry_run (fst (sg_disconnect g))
          in sg_state g' = Sg_Connecting \<and> sg_socket g' \<noteq> None \<and> \<not> sg_wanted g'
            \<and> opens out = [(sg_sockets g, normalize_url (sg_url g))])
    else (\<forall>calls. SgConnect \<notin> set calls \<longrightarrow>
      set (snd (signaling_run calls (fst (sg_disconnect g)))) \<subseteq> {StateTold Sg_Disconnected ''closed by the client''})"
proof -
  let ?g = "fst (sg_disconnect g)"
  have attached: "map fst (sg_attached g) = (case sg_socket g of None \<Rightarrow> [] | Some n \<Rightarrow> [n])"
    using assms by (simp add: signaling_ok_def)
  have after: "sg_attached ?g = []" "sg_socket ?g = None" "sg_retry_at ?g = None" "\<not> sg_wanted ?g"
    "sg_retry_under_way ?g = sg_retry_under_way g" "sg_sockets ?g = sg_sockets g" "sg_url ?g = sg_url g"
    "sg_state ?g = Sg_Disconnected"
    using attached by (auto simp: sg_disconnect_def sg_set_state_def detach_def attached_one Let_def
        split: option.splits)
  show ?thesis
  proof (cases "sg_retry_under_way g")
    case True
    then show ?thesis using after
      by (simp add: retry_run_def open_socket_def sg_set_state_def Let_def)
  next
    case False
    then show ?thesis using quiet_run [OF after(1-3)] after(5) by auto
  qed
qed

lemma dropped_client_ok: "signaling_ok dropped_client"
  unfolding dropped_client_def by (rule signaling_run_ok [OF new_signaling_ok])

theorem disconnect_final_unless_retrying_witness:
  "set (snd (signaling_run [SgEvent (RetryDue 500000000), SgEvent RetryRun] (fst (sg_disconnect dropped_client))))
     \<subseteq> {StateTold Sg_Disconnected ''closed by the client''}
   \<and> opens (snd (retry_run (fst (sg_disconnect (retry_due 500000000 dropped_client))))) = [(1, ''ws://here/'')]"
proof -
  have rest: "\<not> sg_retry_under_way dropped_client" by code_simp
  have moving: "sg_retry_under_way (retry_due 500000000 dropped_client)"
    "sg_sockets (retry_due 500000000 dropped_client) = 1"
    "normalize_url (sg_url (retry_due 500000000 dropped_client)) = ''ws://here/''" by code_simp+
  have ok: "signaling_ok (retry_due 500000000 dropped_client)"
    using signaling_call_ok [OF dropped_client_ok, of "SgEvent (RetryDue 500000000)"] by simp
  have "set (snd (signaling_run calls (fst (sg_disconnect dropped_client))))
      \<subseteq> {StateTold Sg_Disconnected ''closed by the client''}" if "SgConnect \<notin> set calls" for calls
    using disconnect_final_unless_retrying [OF dropped_client_ok] rest that by simp
  moreover have "opens (snd (retry_run (fst (sg_disconnect (retry_due 500000000 dropped_client)))))
      = [(1, ''ws://here/'')]"
    using disconnect_final_unless_retrying [OF ok] moving by (simp add: split_beta)
  ultimately show ?thesis by simp
qed

section \<open>The heartbeat\<close>

text \<open>A ping is answered with its own nonce and goes no further; a pong that answers the probe in flight is
  a measurement and goes no further; everything else that parses is handed up as it came, and what does not
  parse is dropped.\<close>

lemma payload_exact:
  "handle_payload is_open now (Inl e) g = (g, [])"
  "sg_socket g = Some n \<Longrightarrow> snd (handle_payload True now (Inr (Ping nonce)) g) = [FrameSent n (Pong nonce)]"
  "get_if_ping m = None \<Longrightarrow> get_if_pong m \<noteq> Some (sg_probe_nonce g) \<Longrightarrow>
   handle_payload is_open now (Inr m) g = (g, [MessageTold m])"
  "sg_probe_nonce g \<noteq> [] \<Longrightarrow> snd (handle_payload is_open now (Inr (Pong (sg_probe_nonce g))) g)
     = [RoundTripTold (trunc_div (now - sg_probe_sent_at g) 1000000)]"
  by (simp_all add: handle_payload_def get_if_ping_def get_if_pong_def sg_send_def Let_def)

end
