(* ===== verification/ClientStart.thy ===== *)
theory ClientStart
  imports CallOptions ConfigProofs SignalingProofs
begin

text \<open>
  How the client starts a call session on the settings it loaded, of \<open>client/src/main.cpp\<close>, and what that
  gives with the rules \<open>load\<close> enforces.
\<close>

section \<open>From the settings to the session\<close>

definition start_bitrate :: "config \<Rightarrow> bitrate_range" where
  "start_bitrate c =
     (let v = cf_video c
      in if vc_auto_bitrate v
         then recommended_bitrate_kbps \<lparr>fs_width = vc_width v, fs_height = vc_height v\<rparr> (vc_fps v)
                (vc_floor_bitrate_kbps v)
         else \<lparr>br_min_kbps = vc_min_bitrate_kbps v, br_max_kbps = vc_max_bitrate_kbps v\<rparr>)"

text \<open>\<open>sound_possible\<close> is what \<open>loopback_capture_is_available\<close> answers on this system.\<close>

definition session_options :: "config \<Rightarrow> bool \<Rightarrow> call_options" where
  "session_options c sound_possible =
     (let v = cf_video c; a = cf_audio c; n = cf_network c; s = cf_screen_audio c; turn = nc_turn_url n \<noteq> []
      in \<lparr>co_media = default_media_options\<lparr>
            mo_ice_servers := nc_stun_servers n @ (if turn then [nc_turn_url n] else []),
            mo_turn_username := (if turn then nc_turn_username n else []),
            mo_turn_password := (if turn then nc_turn_password n else []),
            mo_sample_rate_hz := au_sample_rate_hz a,
            mo_channels := au_channels a,
            mo_frame_duration_ms := au_frame_duration_ms a,
            mo_echo_cancellation := au_echo_cancellation a,
            mo_noise_suppression := au_noise_suppression a,
            mo_noise_suppression_level := (case parse_noise_suppression_level (au_noise_suppression_level a) of
              Some level \<Rightarrow> level | None \<Rightarrow> NS_High),
            mo_automatic_gain_control := au_automatic_gain_control a,
            mo_voice_gate := au_voice_gate a,
            mo_voice_gate_level := (case parse_voice_gate_level (au_voice_gate_level a) of
              Some level \<Rightarrow> level | None \<Rightarrow> VG_Moderate),
            mo_input_device := au_input_device a,
            mo_output_device := au_output_device a,
            mo_capture := \<lparr>ca_max_size = \<lparr>fs_width = vc_width v, fs_height = vc_height v\<rparr>,
                           ca_max_fps = vc_fps v\<rparr>,
            mo_video_min_bitrate_kbps := br_min_kbps (start_bitrate c),
            mo_video_max_bitrate_kbps := br_max_kbps (start_bitrate c),
            mo_video_floor_bitrate_kbps := vc_floor_bitrate_kbps v,
            mo_screen_audio_volume_percent := sa_volume_percent s,
            mo_screen_audio_limiter := sa_limiter s\<rparr>,
          co_auto_bitrate = vc_auto_bitrate v,
          co_screen_audio_mode =
            (if sound_possible then screen_audio_mode_from (sa_mode s) else AudioNone)\<rparr>)"

definition start_session :: "config \<Rightarrow> bool \<Rightarrow> call_session" where
  "start_session c sound_possible =
     new_call_session (session_options c sound_possible) (nc_signaling_url (cf_network c))"

section \<open>What the start guarantees\<close>

text \<open>The fallbacks of the code are never needed: \<open>load\<close> refused every other spelling.\<close>

lemma started_levels:
  assumes "load_config w argv unknown = Inr c"
  shows "parse_noise_suppression_level (au_noise_suppression_level (cf_audio c)) \<noteq> None"
    and "parse_voice_gate_level (au_voice_gate_level (cf_audio c)) \<noteq> None"
proof -
  have "validate_audio (cf_audio c) (cf_screen_audio c) = None"
    using assms by (auto simp: load_config_cases validate_parts config_ok_def)
  then have "is_noise_suppression_level (au_noise_suppression_level (cf_audio c))"
    "is_noise_suppression_level (au_voice_gate_level (cf_audio c))"
    by (auto simp: validate_audio_def split: if_split_asm)
  then show "parse_noise_suppression_level (au_noise_suppression_level (cf_audio c)) \<noteq> None"
    "parse_voice_gate_level (au_voice_gate_level (cf_audio c)) \<noteq> None"
    by (auto simp: is_noise_suppression_level_def parse_noise_suppression_level_def
        noise_suppression_name_def parse_voice_gate_level_def voice_gate_name_def split: if_splits)
qed

lemma started_range_ok:
  assumes "load_config w argv unknown = Inr c"
  shows "range_ok (start_session c sound_possible)"
proof -
  have "validate_video (cf_video c) = None"
    using assms by (auto simp: load_config_cases config_ok_def validate_parts)
  then show ?thesis using recommended_range
    by (auto simp: range_ok_def start_session_def new_call_session_def session_options_def start_bitrate_def
        validate_video_def Let_def split: if_split_asm)
qed

text \<open>The encoder is never given an impossible range. Started on settings that \<open>load\<close> accepted, and
  whatever the interface, the server and the media layer do then, the bitrate range of the session is at
  least one kilobit with its minimum not above its maximum, and while automatic mode is on it is exactly
  the range recommended for the size and the rate in force, never a leftover of an earlier choice.\<close>

lemma bitrate_range_stays_legal:
  assumes "load_config w argv unknown = Inr c"
  shows "let S = call_run E evs (start_session c sound_possible);
             m = co_media (cs_options S);
             range = \<lparr>br_min_kbps = mo_video_min_bitrate_kbps m, br_max_kbps = mo_video_max_bitrate_kbps m\<rparr>
         in 1 \<le> br_min_kbps range \<and> br_min_kbps range \<le> br_max_kbps range
            \<and> (if co_auto_bitrate (cs_options S)
               then range = recommended_bitrate_kbps (ca_max_size (mo_capture m)) (ca_max_fps (mo_capture m))
                      (mo_video_floor_bitrate_kbps m)
               else True)"
  using range_machine.run_good [OF started_range_ok [OF assms], of E evs sound_possible]
  unfolding call_run_def range_ok_def Let_def .

lemma sample_settings_load: "load_config sample_world [''server'', ''--port=9100''] RejectUnknown = Inr sample_loaded"
  using sample_read sample_applied sample_ok unfolding load_config_cases by blast

lemma bitrate_range_stays_legal_witness:
  "\<forall>E. 1 \<le> mo_video_min_bitrate_kbps (co_media (cs_options
      (call_run E [DoSetVideoBitrate 0 100] (start_session sample_loaded True))))"
proof
  fix E
  show "1 \<le> mo_video_min_bitrate_kbps (co_media (cs_options
      (call_run E [DoSetVideoBitrate 0 100] (start_session sample_loaded True))))"
    using bitrate_range_stays_legal [OF sample_settings_load, of E "[DoSetVideoBitrate 0 100]" True]
    by (simp add: Let_def)
qed

text \<open>Three settings of the client do nothing. \<open>network.reconnect_initial_delay_ms\<close> and
  \<open>network.reconnect_max_delay_ms\<close>, documented as the client's backoff, and \<open>video.codec\<close>, documented as
  the codec of the share, are read, checked and written back; two settings that differ only in them start
  the same session, and every delay it waits is the one of 500 ms doubling to 30 s.\<close>

lemma settings_without_effect:
  "start_session (c\<lparr>cf_network := (cf_network c)\<lparr>nc_reconnect_initial_delay_ms := initial,
        nc_reconnect_max_delay_ms := longest\<rparr>,
      cf_video := (cf_video c)\<lparr>vc_codec := codec\<rparr>\<rparr>) sound_possible = start_session c sound_possible
   \<and> reconnect_delay n (sg_options (cs_signaling (start_session c sound_possible)))
     = min (500 * 2 ^ nat (n - 1)) 30000"
proof -
  let ?o = "sg_options (cs_signaling (start_session c sound_possible))"
  have o: "go_initial_delay ?o = 500" "go_max_delay ?o = 30000"
    by (simp_all add: start_session_def new_call_session_def new_signaling_client_def
        default_signaling_options_def)
  have "reconnect_delay n ?o = min (500 * 2 ^ nat (n - 1)) 30000"
    using double_delay_exact [of 500 30000 "nat (n - 1)"] by (simp add: reconnect_delay_def o)
  then show ?thesis by (simp add: start_session_def session_options_def start_bitrate_def Let_def)
qed

end
