(* ===== verification/ChatLinks.thy ===== *)
theory ChatLinks
  imports Prelude
begin

text \<open>
  The links of a chat line, \<open>client/src/app/chat_links.cpp\<close>, and the row drawn from them, \<open>to_html\<close> of
  \<open>client/src/ui/chat_view.cpp\<close>. The line is what another participant typed: what becomes a link, and
  what becomes markup, is decided here. Offsets are bytes, as in the code. \<open>QString::fromUtf8\<close> and
  \<open>toHtmlEscaped\<close> are Qt's and a parameter.
\<close>

section \<open>Bytes\<close>

abbreviation code :: "char \<Rightarrow> nat" where "code c \<equiv> of_char c"

definition lower_byte :: "char \<Rightarrow> char" where
  "lower_byte c = (if 65 \<le> code c \<and> code c \<le> 90 then char_of (code c + 32) else c)"

definition begins_with_ignoring_case :: "string \<Rightarrow> string \<Rightarrow> bool" where
  "begins_with_ignoring_case s prefix \<longleftrightarrow>
     length prefix \<le> length s \<and> map lower_byte (take (length prefix) s) = prefix"

definition scheme_byte :: "char \<Rightarrow> bool" where
  "scheme_byte c \<longleftrightarrow> 97 \<le> code c \<and> code c \<le> 122 \<or> 65 \<le> code c \<and> code c \<le> 90
     \<or> 48 \<le> code c \<and> code c \<le> 57 \<or> c \<in> set ''+-.''"

definition may_start_scheme :: "string \<Rightarrow> nat \<Rightarrow> bool" where
  "may_start_scheme s i \<longleftrightarrow> i = 0 \<or> \<not> scheme_byte (s ! (i - 1))"

definition terminates_url :: "char \<Rightarrow> bool" where
  "terminates_url c \<longleftrightarrow> code c \<le> 32 \<or> code c = 127 \<or> c \<in> set ''<>\"''"

section \<open>The end of a link\<close>

definition brackets :: "(char \<times> char) list" where
  "brackets = [(CHR ''('', CHR '')''), (CHR ''['', CHR '']''), (CHR ''{'', CHR ''}'')]"

definition ends_sentence :: "char \<Rightarrow> bool" where
  "ends_sentence c \<longleftrightarrow> c \<in> set ''.,;:!?`'' \<or> c = CHR 0x27"

text \<open>Which of the three things a turn of the loop does.\<close>

datatype trimming = KeepAll | DropOne | StopHere

definition trimming_step :: "string \<Rightarrow> nat \<Rightarrow> nat \<Rightarrow> trimming" where
  "trimming_step s first stop =
     (let final = s ! (stop - 1)
      in case List.find (\<lambda>b. snd b = final) brackets of
           Some (opener, closer) \<Rightarrow>
             (let span = take (stop - first) (drop first s)
              in if count_list span opener \<ge> count_list span closer then KeepAll else DropOne)
         | None \<Rightarrow> if ends_sentence final then DropOne else StopHere)"

function trim_trailing_punctuation :: "string \<Rightarrow> nat \<Rightarrow> nat \<Rightarrow> nat" where
  "trim_trailing_punctuation s first stop =
     (if \<not> first < stop then stop
      else case trimming_step s first stop of
             KeepAll \<Rightarrow> stop
           | DropOne \<Rightarrow> trim_trailing_punctuation s first (stop - 1)
           | StopHere \<Rightarrow> stop)"
  by pat_completeness auto
termination
  by (relation "measure (\<lambda>(s, first, stop). stop)") auto

function url_end :: "string \<Rightarrow> nat \<Rightarrow> nat" where
  "url_end s i = (if i < length s \<and> \<not> terminates_url (s ! i) then url_end s (Suc i) else i)"
  by pat_completeness auto
termination
  by (relation "measure (\<lambda>(s, i). length s - i)") auto

declare trim_trailing_punctuation.simps [simp del] url_end.simps [simp del]

section \<open>The links of a line\<close>

record link_span =
  ls_begin :: nat
  ls_end :: nat

definition scheme_at :: "string \<Rightarrow> nat \<Rightarrow> string" where
  "scheme_at s i =
     (if begins_with_ignoring_case (drop i s) ''https://'' then ''https://''
      else if begins_with_ignoring_case (drop i s) ''http://'' then ''http://'' else [])"

function links_from :: "string \<Rightarrow> nat \<Rightarrow> link_span list" where
  "links_from s i =
     (if \<not> i < length s then []
      else let scheme = scheme_at s i
           in if scheme = [] \<or> \<not> may_start_scheme s i then links_from s (i + 1)
              else let authority = i + length scheme;
                       stop = trim_trailing_punctuation s authority (url_end s authority)
                   in if stop \<le> authority then links_from s authority
                      else \<lparr>ls_begin = i, ls_end = stop\<rparr> # links_from s stop)"
  by pat_completeness auto
termination
  by (relation "measure (\<lambda>(s, i). length s - i)") (auto simp: Let_def intro: diff_less_mono2)

declare links_from.simps [simp del]

definition find_links :: "string \<Rightarrow> link_span list" where
  "find_links s = links_from s 0"

section \<open>The row\<close>

text \<open>\<open>escape\<close> is \<open>escaped\<close> of the code, which is Qt's.\<close>

definition anchor :: "string \<Rightarrow> string" where
  "anchor url = ''<a href='' @ [CHR 0x22] @ url @ [CHR 0x22] @ ''>'' @ url @ ''</a>''"

fun html_from :: "(string \<Rightarrow> string) \<Rightarrow> string \<Rightarrow> nat \<Rightarrow> link_span list \<Rightarrow> string" where
  "html_from escape s i [] = escape (drop i s)"
| "html_from escape s i (l # ls) =
     escape (take (ls_begin l - i) (drop i s))
     @ anchor (escape (take (ls_end l - ls_begin l) (drop (ls_begin l) s)))
     @ html_from escape s (ls_end l) ls"

definition to_html :: "(string \<Rightarrow> string) \<Rightarrow> string \<Rightarrow> string" where
  "to_html escape s = html_from escape s 0 (find_links s)"

section \<open>What a link is\<close>

lemma url_end_bounds:
  "i \<le> length s \<Longrightarrow> i \<le> url_end s i \<and> url_end s i \<le> length s
     \<and> (\<forall>k. i \<le> k \<and> k < url_end s i \<longrightarrow> \<not> terminates_url (s ! k))"
proof (induction s i rule: url_end.induct)
  case (1 s i)
  show ?case
  proof (cases "i < length s \<and> \<not> terminates_url (s ! i)")
    case True
    then have step: "url_end s i = url_end s (Suc i)" by (subst url_end.simps) simp
    have ih: "Suc i \<le> url_end s (Suc i)" "url_end s (Suc i) \<le> length s"
      "\<forall>k. Suc i \<le> k \<and> k < url_end s (Suc i) \<longrightarrow> \<not> terminates_url (s ! k)" using 1 True by auto
    have "\<not> terminates_url (s ! k)" if "i \<le> k" "k < url_end s (Suc i)" for k
      using that True ih(3) by (cases "k = i") auto
    then show ?thesis using ih step by auto
  next
    case False
    then have "url_end s i = i" by (subst url_end.simps) auto
    then show ?thesis using 1(2) by auto
  qed
qed

lemma trim_bounds:
  "first \<le> stop \<Longrightarrow> first \<le> trim_trailing_punctuation s first stop
     \<and> trim_trailing_punctuation s first stop \<le> stop"
proof (induction s first stop rule: trim_trailing_punctuation.induct)
  case (1 s first stop)
  show ?case
  proof (cases "first < stop \<and> trimming_step s first stop = DropOne")
    case True
    then have "trim_trailing_punctuation s first stop = trim_trailing_punctuation s first (stop - 1)"
      by (subst trim_trailing_punctuation.simps) simp
    moreover have "first \<le> stop - 1" using True by linarith
    ultimately show ?thesis using 1 True by (metis diff_le_self le_trans)
  next
    case False
    then have "trim_trailing_punctuation s first stop = stop"
      by (subst trim_trailing_punctuation.simps) (auto split: trimming.split)
    then show ?thesis using 1 by simp
  qed
qed

text \<open>What is promised of a span: it begins with a web scheme at a place a scheme may begin, something
  follows the scheme, and no byte of it is a space, a control character, a quote or an angle bracket.\<close>

definition web_link :: "string \<Rightarrow> link_span \<Rightarrow> bool" where
  "web_link s l \<longleftrightarrow>
     (let url = take (ls_end l - ls_begin l) (drop (ls_begin l) s)
      in ls_end l \<le> length s
       \<and> (begins_with_ignoring_case url ''http://'' \<and> 7 < length url
          \<or> begins_with_ignoring_case url ''https://'' \<and> 8 < length url)
       \<and> may_start_scheme s (ls_begin l)
       \<and> list_all (\<lambda>c. \<not> terminates_url c) url)"

lemma lower_byte_clean:
  assumes "lower_byte c \<in> set ''https://''"
  shows "\<not> terminates_url c"
proof -
  have "code c = code (lower_byte c) \<or> code (lower_byte c) = code c + 32 \<and> 65 \<le> code c \<and> code c \<le> 90"
    by (auto simp: lower_byte_def)
  moreover have "code (lower_byte c) \<in> {104, 116, 112, 115, 58, 47}" using assms by auto
  ultimately have "code c \<in> {104, 116, 112, 115, 58, 47, 72, 84, 80, 83}" by auto
  then show ?thesis by (auto simp: terminates_url_def)
qed

lemma begins_with_clean:
  assumes "begins_with_ignoring_case s prefix" "set prefix \<subseteq> set ''https://''"
  shows "list_all (\<lambda>c. \<not> terminates_url c) (take (length prefix) s)"
proof -
  have "lower_byte ` set (take (length prefix) s) \<subseteq> set ''https://''"
    using assms unfolding begins_with_ignoring_case_def by (metis set_map)
  then show ?thesis using lower_byte_clean by (auto simp: list_all_iff)
qed

lemma scheme_at_cases:
  assumes "scheme_at s i \<noteq> []"
  shows "begins_with_ignoring_case (drop i s) (scheme_at s i)" "scheme_at s i \<in> {''http://'', ''https://''}"
  using assms by (auto simp: scheme_at_def split: if_splits)

lemma link_is_web:
  assumes "scheme_at s i \<noteq> []" "may_start_scheme s i" "i < length s"
    "authority = i + length (scheme_at s i)"
    "stop = trim_trailing_punctuation s authority (url_end s authority)" "authority < stop"
  shows "web_link s \<lparr>ls_begin = i, ls_end = stop\<rparr>"
proof -
  let ?scheme = "scheme_at s i" and ?url = "take (stop - i) (drop i s)"
  note scheme = scheme_at_cases [OF assms(1)]
  have fits: "authority \<le> length s"
    using scheme(1) assms(3,4) unfolding begins_with_ignoring_case_def length_drop by linarith
  note e = url_end_bounds [OF fits]
  have stop: "stop \<le> url_end s authority" "stop \<le> length s"
    using trim_bounds [of authority "url_end s authority" s] e assms(5) by auto
  have head: "take (length ?scheme) ?url = take (length ?scheme) (drop i s)"
    using assms(4,6) by (simp add: min_def)
  have len: "length ?url = stop - i" using stop(2) by simp
  have begins: "begins_with_ignoring_case ?url ?scheme"
    using scheme(1) assms(4,6) unfolding begins_with_ignoring_case_def head len by simp
  have "?url = take (length ?scheme) ?url @ drop (length ?scheme) ?url"
    by (rule append_take_drop_id [symmetric])
  moreover have "list_all (\<lambda>c. \<not> terminates_url c) (take (length ?scheme) ?url)"
    using begins scheme(2) by (intro begins_with_clean) auto
  moreover have "list_all (\<lambda>c. \<not> terminates_url c) (drop (length ?scheme) ?url)"
  proof -
    have "\<not> terminates_url (drop (length ?scheme) ?url ! k)" if "k < length (drop (length ?scheme) ?url)" for k
    proof -
      have "drop (length ?scheme) ?url ! k = s ! (authority + k)" "authority + k < stop"
        using that len assms(4) stop by (auto simp: add.assoc)
      then show ?thesis using e stop(1) by auto
    qed
    then show ?thesis by (simp add: list_all_length)
  qed
  ultimately have clean: "list_all (\<lambda>c. \<not> terminates_url c) ?url" by (metis list_all_append)
  have "length ?scheme < length ?url" using len assms(4,6) by simp
  then show ?thesis using begins scheme(2) clean stop(2) assms(2)
    by (auto simp: web_link_def Let_def)
qed

lemma links_from_web:
  "list_all (web_link s) (links_from s i)
     \<and> sorted_wrt (\<lambda>a b. ls_end a \<le> ls_begin b) (links_from s i)
     \<and> list_all (\<lambda>l. i \<le> ls_begin l \<and> ls_begin l < ls_end l) (links_from s i)"
proof (induction s i rule: links_from.induct)
  case (1 s i)
  let ?scheme = "scheme_at s i"
  let ?authority = "i + length ?scheme"
  let ?stop = "trim_trailing_punctuation s ?authority (url_end s ?authority)"
  consider "\<not> i < length s" | "i < length s" "?scheme = [] \<or> \<not> may_start_scheme s i"
    | "i < length s" "?scheme \<noteq> []" "may_start_scheme s i" "?stop \<le> ?authority"
    | "i < length s" "?scheme \<noteq> []" "may_start_scheme s i" "?authority < ?stop" by fastforce
  then show ?case
  proof cases
    case 1
    then show ?thesis by (subst links_from.simps) (simp add: links_from.simps)
  next
    case 2
    then have "links_from s i = links_from s (i + 1)" by (subst links_from.simps) (simp add: Let_def)
    then show ?thesis using 1(1) [OF _ refl] 2 by (auto simp: list_all_iff)
  next
    case 3
    then have "links_from s i = links_from s ?authority" by (subst links_from.simps) (simp add: Let_def)
    then show ?thesis using 1(2) [OF _ refl _ refl refl] 3 by (auto simp: list_all_iff)
  next
    case 4
    then have step: "links_from s i = \<lparr>ls_begin = i, ls_end = ?stop\<rparr> # links_from s ?stop"
      by (subst links_from.simps) (simp add: Let_def)
    have ih: "list_all (web_link s) (links_from s ?stop)"
      "sorted_wrt (\<lambda>a b. ls_end a \<le> ls_begin b) (links_from s ?stop)"
      "list_all (\<lambda>l. ?stop \<le> ls_begin l \<and> ls_begin l < ls_end l) (links_from s ?stop)"
      using 1(3) [OF _ refl _ refl refl] 4 by auto
    have "web_link s \<lparr>ls_begin = i, ls_end = ?stop\<rparr>" using link_is_web [OF 4(2,3,1) refl refl 4(4)] .
    then show ?thesis using ih 4(4) unfolding step by (auto simp: list_all_iff)
  qed
qed


section \<open>What the row shows\<close>

text \<open>The row as pieces of the line, links marked.\<close>

fun pieces :: "string \<Rightarrow> nat \<Rightarrow> link_span list \<Rightarrow> (bool \<times> string) list" where
  "pieces s i [] = [(False, drop i s)]"
| "pieces s i (l # ls) =
     (False, take (ls_begin l - i) (drop i s))
     # (True, take (ls_end l - ls_begin l) (drop (ls_begin l) s)) # pieces s (ls_end l) ls"

definition draw_piece :: "(string \<Rightarrow> string) \<Rightarrow> bool \<times> string \<Rightarrow> string" where
  "draw_piece escape p = (if fst p then anchor (escape (snd p)) else escape (snd p))"

lemma html_from_pieces: "html_from escape s i ls = concat (map (draw_piece escape) (pieces s i ls))"
  by (induction s i ls rule: pieces.induct) (simp_all add: draw_piece_def)

lemma take_then:
  assumes "i \<le> j" "j \<le> k"
  shows "take (j - i) (drop i s) @ take (k - j) (drop j s) @ drop k s = drop i s"
proof -
  have "take (k - j) (drop j s) @ drop k s = drop j s"
    using assms(2) by (metis append_take_drop_id drop_drop le_add_diff_inverse2)
  moreover have "take (j - i) (drop i s) @ drop j s = drop i s"
    using assms(1) by (metis append_take_drop_id drop_drop le_add_diff_inverse2)
  ultimately show ?thesis by simp
qed

lemma pieces_whole:
  "sorted_wrt (\<lambda>a b. ls_end a \<le> ls_begin b) ls \<Longrightarrow> list_all (\<lambda>l. i \<le> ls_begin l \<and> ls_begin l < ls_end l) ls \<Longrightarrow>
   concat (map snd (pieces s i ls)) = drop i s"
proof (induction s i ls rule: pieces.induct)
  case (2 s i l ls)
  have "concat (map snd (pieces s (ls_end l) ls)) = drop (ls_end l) s"
    using 2 by (auto simp: list_all_iff)
  then show ?case using 2(3) take_then [of i "ls_begin l" "ls_end l" s] by simp
qed simp

lemma pieces_links:
  "list_all (web_link s) ls \<Longrightarrow> list_all (\<lambda>p. fst p \<longrightarrow>
     (begins_with_ignoring_case (snd p) ''http://'' \<or> begins_with_ignoring_case (snd p) ''https://'')
     \<and> list_all (\<lambda>c. \<not> terminates_url c) (snd p)) (pieces s i ls)"
  by (induction s i ls rule: pieces.induct) (auto simp: web_link_def Let_def)

text \<open>A row is the line and nothing else. The text drawn for a line is its pieces in order, none left
  out and none added: what is not a link goes through the escaping, and a link is one anchor whose target
  and label are the same escaped web address. So the only markup in the row, beside what the escaping
  lets through, is those anchors, whatever was typed.\<close>

lemma row_is_the_line:
  "to_html escape s = concat (map (draw_piece escape) (pieces s 0 (find_links s)))
   \<and> concat (map snd (pieces s 0 (find_links s))) = s
   \<and> list_all (\<lambda>p. if fst p
        then (begins_with_ignoring_case (snd p) ''http://'' \<or> begins_with_ignoring_case (snd p) ''https://'')
          \<and> list_all (\<lambda>c. \<not> terminates_url c) (snd p)
        else True) (pieces s 0 (find_links s))"
proof -
  note links = links_from_web [of s 0, folded find_links_def]
  have "concat (map snd (pieces s 0 (find_links s))) = s"
    using pieces_whole [of "find_links s" 0 s] links by simp
  moreover have "list_all (\<lambda>p. if fst p
        then (begins_with_ignoring_case (snd p) ''http://'' \<or> begins_with_ignoring_case (snd p) ''https://'')
          \<and> list_all (\<lambda>c. \<not> terminates_url c) (snd p) else True) (pieces s 0 (find_links s))"
    using pieces_links [of s "find_links s" 0] links by (auto simp: list_all_iff)
  ultimately show ?thesis by (simp add: to_html_def html_from_pieces)
qed

text \<open>The examples of the comments.\<close>

lemma link_examples:
  "map (\<lambda>l. take (ls_end l - ls_begin l) (drop (ls_begin l) line)) (find_links line) = urls"
  if "(line, urls) \<in> set [(''See http://example.com.'', [''http://example.com'']),
      (''(see http://example.com/a_(b))'', [''http://example.com/a_(b)'']),
      (''xhttp://a <HTTPS://b.c> http:// javascript:x'', [''HTTPS://b.c''])]"
proof -
  have "map (\<lambda>l. take (ls_end l - ls_begin l) (drop (ls_begin l) ''See http://example.com.''))
      (find_links ''See http://example.com.'') = [''http://example.com'']"
    "map (\<lambda>l. take (ls_end l - ls_begin l) (drop (ls_begin l) ''(see http://example.com/a_(b))''))
      (find_links ''(see http://example.com/a_(b))'') = [''http://example.com/a_(b)'']"
    "map (\<lambda>l. take (ls_end l - ls_begin l) (drop (ls_begin l) ''xhttp://a <HTTPS://b.c> http:// javascript:x''))
      (find_links ''xhttp://a <HTTPS://b.c> http:// javascript:x'') = [''HTTPS://b.c'']"
    by code_simp+
  then show ?thesis using that by auto
qed

end
