(* ===== verification/ServerAddress.thy ===== *)
theory ServerAddress
  imports Prelude
begin

text \<open>
  The server field of the sign-in screen, \<open>client/src/app/server_address.{hpp,cpp}\<close>: what is typed into it
  becomes the URL the session connects to, and a URL is shown in it as what would be typed. The theorems
  say what a URL that comes out is, and when the trip through the field gives back the same one.
\<close>

section \<open>Bytes and texts\<close>

definition is_blank :: "char \<Rightarrow> bool" where
  "is_blank c \<longleftrightarrow> c \<in> {CHR '' '', CHR 0x09, CHR 0x0D, CHR 0x0A}"

text \<open>\<open>std::tolower\<close> and \<open>std::isdigit\<close> in the C locale.\<close>

definition to_lower :: "char \<Rightarrow> char" where
  "to_lower c = (if 65 \<le> (of_char c :: nat) \<and> of_char c \<le> (90 :: nat) then char_of (of_char c + 32 :: nat) else c)"

definition port_digit :: "char \<Rightarrow> bool" where
  "port_digit c \<longleftrightarrow> 48 \<le> (of_char c :: nat) \<and> of_char c \<le> (57 :: nat)"

definition trimmed :: "string \<Rightarrow> string" where
  "trimmed s = rev (dropWhile is_blank (rev (dropWhile is_blank s)))"

definition starts_with_ignoring_case :: "string \<Rightarrow> string \<Rightarrow> bool" where
  "starts_with_ignoring_case s prefix \<longleftrightarrow>
     length prefix \<le> length s \<and> map to_lower prefix = map to_lower (take (length prefix) s)"

definition all_digits :: "string \<Rightarrow> bool" where
  "all_digits s \<longleftrightarrow> s \<noteq> [] \<and> list_all port_digit s"

definition begins_with :: "string \<Rightarrow> string \<Rightarrow> bool" where
  "begins_with s prefix \<longleftrightarrow> take (length prefix) s = prefix"

fun contains :: "string \<Rightarrow> string \<Rightarrow> bool" where
  "contains [] part = (part = [])"
| "contains (c # s) part = (begins_with (c # s) part \<or> contains s part)"

section \<open>The address taken apart\<close>

definition kDefaultServerPort :: string where "kDefaultServerPort = ''8080''"
definition kLongestPort :: nat where "kLongestPort = 5"
definition kHighestPort :: int where "kHighestPort = 65535"

definition kSchemes :: "(string \<times> string) list" where
  "kSchemes = [(''ws://'', ''ws://''), (''wss://'', ''wss://''), (''http://'', ''ws://''), (''https://'', ''wss://'')]"

record authority =
  au_host :: string
  au_port :: string
  au_rest :: string

definition refused :: "string \<Rightarrow> 'a result" where
  "refused message = Inl (mk_error ''invalid_value'' message)"

definition enter_the_address :: string where
  "enter_the_address =
     ''Enter the server's address: an IP or a name, such as 192.168.1.10 or party.example.com.''"

definition valid_port :: "string \<Rightarrow> bool" where
  "valid_port port \<longleftrightarrow>
     (let number = (if all_digits port \<and> length port \<le> kLongestPort then int (parse_nat port) else 0)
      in \<not> (number < 1 \<or> kHighestPort < number))"

definition ends_authority :: "char \<Rightarrow> bool" where
  "ends_authority c \<longleftrightarrow> c \<in> set ''/?#''"

text \<open>The host and, when there is a colon for one, the port.\<close>

definition split_authority :: "string \<Rightarrow> (string \<times> string option) result" where
  "split_authority authority =
     (if begins_with authority ''[''
      then (let host = takeWhile (\<lambda>c. c \<noteq> CHR '']'') authority
            in if CHR '']'' \<notin> set authority
               then refused ''An IPv6 address goes in brackets, with the port after them: [::1]:8080.''
               else (let after = drop (length host + 1) authority
                     in if after = [] then Inr (host @ '']'', None)
                        else if \<not> begins_with after '':''
                        then refused ''After an IPv6 address in brackets only a port can follow: [::1]:8080.''
                        else Inr (host @ '']'', Some (drop 1 after))))
      else (let colons = count_list authority (CHR '':'')
            in if colons = 0 then Inr (authority, None)
               else if colons = 1
               then (let host = takeWhile (\<lambda>c. c \<noteq> CHR '':'') authority
                     in Inr (host, Some (drop (length host + 1) authority)))
               else Inr (''['' @ authority @ '']'', None)))"

definition split :: "string \<Rightarrow> authority result" where
  "split s =
     (let authority = takeWhile (\<lambda>c. \<not> ends_authority c) s;
          rest = dropWhile (\<lambda>c. \<not> ends_authority c) s
      in case split_authority authority of Inl e \<Rightarrow> Inl e
         | Inr (host, port) \<Rightarrow>
             if host = [] \<or> host = ''[]'' then refused enter_the_address
             else (case port of
                 None \<Rightarrow> Inr \<lparr>au_host = host, au_port = [], au_rest = rest\<rparr>
               | Some port \<Rightarrow>
                   if valid_port port then Inr \<lparr>au_host = host, au_port = port, au_rest = rest\<rparr>
                   else refused
                     ''The port after the colon has to be a number from 1 to 65535: 192.168.1.10:8080.''))"

section \<open>Into a URL and back\<close>

text \<open>The scheme as spoken, empty when none is known, and what follows it.\<close>

fun known_scheme :: "(string \<times> string) list \<Rightarrow> string \<Rightarrow> string \<times> string" where
  "known_scheme [] address = ([], address)"
| "known_scheme ((typed, spoken) # schemes) address =
     (if starts_with_ignoring_case address typed then (spoken, drop (length typed) address)
      else known_scheme schemes address)"

definition url_of :: "string \<Rightarrow> authority \<Rightarrow> string" where
  "url_of scheme a =
     scheme @ au_host a @ (if au_port a = [] then [] else '':'' @ au_port a) @ au_rest a"

definition expand_server_address :: "string \<Rightarrow> string result" where
  "expand_server_address typed =
     (let address = trimmed typed
      in if address = [] then refused enter_the_address
         else if list_ex is_blank address then refused ''A server address has no spaces in it.''
         else
          (let (scheme, after_scheme) = known_scheme kSchemes address
           in if scheme = [] \<and> contains address ''://''
              then refused (''PartyShare reaches its server over ws:// or wss://. An IP or a name on its own ''
                @ ''is enough: 192.168.1.10, or party.example.com.'')
              else (case split after_scheme of Inl e \<Rightarrow> refused (err_message e)
                | Inr a \<Rightarrow>
                    if scheme = []
                    then Inr (url_of ''ws://''
                      (if au_port a = [] then a\<lparr>au_port := kDefaultServerPort\<rparr> else a))
                    else Inr (url_of scheme a))))"

definition display_server_address :: "string \<Rightarrow> string" where
  "display_server_address url =
     (if \<not> begins_with url ''ws://'' then url
      else (case split (drop 5 url) of Inl e \<Rightarrow> url
            | Inr a \<Rightarrow> if au_port a = [] then url else drop 5 url))"

lemma port_examples: "valid_port ''65535''" "\<not> valid_port ''65536''" "\<not> valid_port ''-1''" "\<not> valid_port []"
  by (simp_all add: valid_port_def all_digits_def port_digit_def kLongestPort_def kHighestPort_def
      parse_nat_def parse_digit_def)

lemma address_examples:
  "expand_server_address '' 192.168.1.10 '' = Inr ''ws://192.168.1.10:8080''"
  "expand_server_address ''HTTPS://party.example.com/x'' = Inr ''wss://party.example.com/x''"
  "expand_server_address ''::1'' = Inr ''ws://[::1]:8080''"
  "expand_server_address ''[::1]:9'' = Inr ''ws://[::1]:9''"
  "result_ok (expand_server_address ''host:0'') = False"
  "result_ok (expand_server_address ''ftp://host'') = False"
  "display_server_address ''ws://192.168.1.10:8080'' = ''192.168.1.10:8080''"
  "display_server_address ''ws://host'' = ''ws://host''"
  by code_simp+

text \<open>Where the trip through the field does not give back the URL that went in.\<close>

lemma field_changes_the_address:
  "expand_server_address (display_server_address ''ws://::1'') = Inr ''ws://[::1]''"
  "result_ok (expand_server_address ''ws://host:8/a://b'')"
  "\<not> result_ok (expand_server_address (display_server_address ''ws://host:8/a://b''))"
  "expand_server_address ''::1]'' = Inr ''ws://[::1]]:8080''"
  "\<not> result_ok (expand_server_address ''ws://[::1]]:8080'')"
  by code_simp+

section \<open>What comes out\<close>

abbreviation spoken :: "string \<Rightarrow> bool" where
  "spoken scheme \<equiv> scheme = ''ws://'' \<or> scheme = ''wss://''"

lemma known_scheme_spoken:
  "known_scheme kSchemes s = (scheme, after) \<Longrightarrow> scheme \<noteq> [] \<Longrightarrow> spoken scheme"
  by (auto simp: kSchemes_def split: if_splits)

lemma known_scheme_suffix: "known_scheme schemes s = (scheme, after) \<Longrightarrow> \<exists>n. after = drop n s"
  by (induction schemes s rule: known_scheme.induct) (auto intro: exI [of _ 0] split: if_splits)

lemma known_scheme_again:
  "known_scheme kSchemes (''ws://'' @ s) = (''ws://'', s)" "known_scheme kSchemes (''wss://'' @ s) = (''wss://'', s)"
  by (simp_all add: kSchemes_def starts_with_ignoring_case_def to_lower_def)

lemma trimmed_clean: "\<not> list_ex is_blank s \<Longrightarrow> trimmed s = s"
  by (simp add: trimmed_def list_ex_iff) (metis (no_types, lifting) dropWhile_eq_self_iff hd_in_set rev_is_Nil_conv rev_rev_ident set_rev)

lemma set_after:
  "set (takeWhile P s) \<subseteq> set s" "set (dropWhile P s) \<subseteq> set s" "set (drop n s) \<subseteq> set s"
  by (auto dest: set_takeWhileD set_dropWhileD in_set_dropD)

lemma split_authority_bytes:
  assumes "split_authority t = Inr (host, port)"
  shows "set host \<subseteq> set t \<union> {CHR ''['', CHR '']''}" "port = Some p \<Longrightarrow> set p \<subseteq> set t"
  using assms
  by (auto simp: split_authority_def refused_def Let_def dest: set_takeWhileD in_set_dropD split: if_splits)

lemma split_bytes:
  assumes "split s = Inr a"
  shows "set (au_host a) \<subseteq> set s \<union> {CHR ''['', CHR '']''}" "set (au_port a) \<subseteq> set s" "set (au_rest a) \<subseteq> set s"
proof -
  let ?t = "takeWhile (\<lambda>c. \<not> ends_authority c) s"
  obtain host port where hp: "split_authority ?t = Inr (host, port)"
    using assms by (auto simp: split_def Let_def split: sum.splits)
  have t: "set ?t \<subseteq> set s" by (rule set_after)
  have a: "au_host a = host" "au_rest a = dropWhile (\<lambda>c. \<not> ends_authority c) s" "au_port a = (case port of None \<Rightarrow> [] | Some p \<Rightarrow> p)"
    using assms hp by (auto simp: split_def Let_def refused_def split: if_splits option.splits)
  show "set (au_host a) \<subseteq> set s \<union> {CHR ''['', CHR '']''}"
    using split_authority_bytes(1) [OF hp] t a(1) by auto
  show "set (au_rest a) \<subseteq> set s" unfolding a(2) by (rule set_after)
  show "set (au_port a) \<subseteq> set s"
    using split_authority_bytes(2) [OF hp] t a(3) by (cases port) auto
qed

lemma expand_cases:
  assumes "expand_server_address typed = Inr url"
  obtains scheme after a where "trimmed typed \<noteq> []" "\<not> list_ex is_blank (trimmed typed)"
    "known_scheme kSchemes (trimmed typed) = (scheme, after)" "split after = Inr a"
    "scheme = [] \<Longrightarrow> \<not> contains (trimmed typed) ''://''"
    "url = (if scheme = [] then url_of ''ws://'' (if au_port a = [] then a\<lparr>au_port := kDefaultServerPort\<rparr> else a)
            else url_of scheme a)"
  using assms that
  by (auto simp: expand_server_address_def Let_def refused_def split: if_splits prod.splits sum.splits)

lemma blank_brackets:
  "\<not> is_blank (CHR ''['')" "\<not> is_blank (CHR '']'')" "\<not> is_blank (CHR '':'')" "\<not> is_blank (CHR ''/'')"
  "\<not> is_blank (CHR ''w'')" "\<not> is_blank (CHR ''s'')"
  by code_simp+

lemma split_host: "split s = Inr a \<Longrightarrow> au_host a \<noteq> []"
  by (auto simp: split_def Let_def refused_def split: sum.splits if_splits option.splits)

lemma expanded_is_clean:
  assumes "expand_server_address typed = Inr url"
  shows "(\<exists>scheme rest. spoken scheme \<and> rest \<noteq> [] \<and> url = scheme @ rest) \<and> \<not> list_ex is_blank url"
proof -
  obtain scheme after a where e: "\<not> list_ex is_blank (trimmed typed)"
    "known_scheme kSchemes (trimmed typed) = (scheme, after)" "split after = Inr a"
    "url = (if scheme = [] then url_of ''ws://'' (if au_port a = [] then a\<lparr>au_port := kDefaultServerPort\<rparr> else a)
            else url_of scheme a)"
    by (rule expand_cases [OF assms]) blast
  have "set after \<subseteq> set (trimmed typed)"
    using known_scheme_suffix [OF e(2)] by (auto dest: in_set_dropD)
  then have clean: "\<forall>c \<in> set (au_host a) \<union> set (au_port a) \<union> set (au_rest a). \<not> is_blank c"
    using split_bytes [OF e(3)] e(1) blank_brackets unfolding list_ex_iff by blast
  have default: "\<not> list_ex is_blank kDefaultServerPort" by code_simp
  obtain s a' where s: "url = url_of s a'" "spoken s" "au_host a' = au_host a" "au_rest a' = au_rest a"
    "au_port a' = au_port a \<or> au_port a' = kDefaultServerPort"
    using e(4) known_scheme_spoken [OF e(2)] by (auto split: if_splits)
  then have "\<not> list_ex is_blank url" using clean default
    by (auto simp: url_of_def list_ex_iff blank_brackets)
  then show ?thesis using s split_host [OF e(3)] by (auto simp: url_of_def)
qed

text \<open>What the field lets through is a WebSocket URL: \<open>ws://\<close> or \<open>wss://\<close> followed by something, and
  nowhere a blank.
\<close>

lemma expanded_address_is_spoken:
  assumes "expand_server_address typed = Inr url"
  shows "(\<exists>scheme rest. spoken scheme \<and> rest \<noteq> [] \<and> url = scheme @ rest) \<and> \<not> list_ex is_blank url"
  by (rule expanded_is_clean [OF assms])

lemma expanded_address_is_spoken_witness:
  "(\<exists>scheme rest. spoken scheme \<and> rest \<noteq> [] \<and> ''ws://[::1]:8080'' = scheme @ rest)
   \<and> \<not> list_ex is_blank ''ws://[::1]:8080''"
  by (rule expanded_address_is_spoken [where typed = "''::1''"]) code_simp

section \<open>The trip through the field\<close>

definition in_authority :: "string \<Rightarrow> bool" where
  "in_authority s \<longleftrightarrow> (\<forall>c \<in> set s. \<not> ends_authority c)"

definition good_host :: "string \<Rightarrow> bool" where
  "good_host host \<longleftrightarrow>
     (\<exists>h. host = ''['' @ h @ '']'' \<and> h \<noteq> [] \<and> CHR '']'' \<notin> set h \<and> in_authority h)
   \<or> host \<noteq> [] \<and> \<not> begins_with host ''['' \<and> CHR '':'' \<notin> set host \<and> in_authority host"

definition good_parts :: "authority \<Rightarrow> bool" where
  "good_parts a \<longleftrightarrow> good_host (au_host a) \<and> (au_port a = [] \<or> valid_port (au_port a))
     \<and> (au_rest a = [] \<or> ends_authority (hd (au_rest a)))"

definition well_bracketed :: "string \<Rightarrow> bool" where
  "well_bracketed s \<longleftrightarrow> begins_with s ''['' \<or> CHR '']'' \<notin> set s"

lemma valid_port_digits: "valid_port port \<Longrightarrow> port \<noteq> [] \<and> (\<forall>c \<in> set port. port_digit c)"
  by (auto simp: valid_port_def all_digits_def list_all_iff Let_def split: if_splits)

lemma digit_plain: "port_digit c \<Longrightarrow> \<not> ends_authority c \<and> c \<noteq> CHR '':''"
  by (auto simp: port_digit_def ends_authority_def)

lemma brackets_plain: "\<not> ends_authority (CHR ''['')" "\<not> ends_authority (CHR '']'')" "\<not> ends_authority (CHR '':'')"
  by code_simp+

lemma takeWhile_until: "x \<notin> set h \<Longrightarrow> takeWhile (\<lambda>c. c \<noteq> x) (h @ x # t) = h"
  by (induction h) auto

lemma break_at:
  "\<forall>c \<in> set t. P c \<Longrightarrow> r = [] \<or> \<not> P (hd r) \<Longrightarrow> takeWhile P (t @ r) = t \<and> dropWhile P (t @ r) = r"
  by (induction t) (cases r; simp)+

lemma good_host_bytes: "good_host h \<Longrightarrow> \<forall>c \<in> set h. \<not> ends_authority c"
  by (auto simp: good_host_def in_authority_def brackets_plain)

lemma split_authority_good:
  assumes "good_host host" "port = [] \<or> valid_port port"
  shows "split_authority (host @ (if port = [] then [] else '':'' @ port))
    = Inr (host, if port = [] then None else Some port)"
  using assms(1) unfolding good_host_def
proof (elim disjE conjE exE)
  fix h assume h: "host = ''['' @ h @ '']''" "CHR '']'' \<notin> set h"
  have "takeWhile (\<lambda>c. c \<noteq> CHR '']'') (''['' @ h @ '']'' @ t) = ''['' @ h" for t
    using h(2) by (simp add: takeWhile_until)
  then show ?thesis using h by (simp add: split_authority_def begins_with_def Let_def)
next
  assume h: "host \<noteq> []" "\<not> begins_with host ''[''" "CHR '':'' \<notin> set host"
  have port: "CHR '':'' \<notin> set port" using assms(2) valid_port_digits digit_plain by auto
  have "\<not> begins_with (host @ t) ''[''" for t using h(1,2) by (cases host) (auto simp: begins_with_def)
  moreover have "takeWhile (\<lambda>c. c \<noteq> CHR '':'') (host @ '':'' @ t) = host" for t
    using h(3) by (simp add: takeWhile_until)
  ultimately show ?thesis using h(2,3) port
    by (simp add: split_authority_def Let_def count_notin)
qed

lemma split_good:
  assumes "good_parts a"
  shows "split (url_of [] a) = Inr a"
proof -
  let ?p = "\<lambda>c. \<not> ends_authority c"
  let ?t = "au_host a @ (if au_port a = [] then [] else '':'' @ au_port a)"
  have host: "good_host (au_host a)" and port: "au_port a = [] \<or> valid_port (au_port a)"
    and rest: "au_rest a = [] \<or> \<not> ?p (hd (au_rest a))"
    using assms by (simp_all add: good_parts_def)
  have "\<forall>c \<in> set ?t. ?p c"
    using good_host_bytes [OF host] port valid_port_digits [of "au_port a"] digit_plain brackets_plain(3)
    by (auto split: if_splits)
  note parts = break_at [OF this rest]
  from parts have "takeWhile ?p (?t @ au_rest a) = ?t" "dropWhile ?p (?t @ au_rest a) = au_rest a"
    by (rule conjunct1, rule conjunct2)
  moreover have "au_host a \<noteq> [] \<and> au_host a \<noteq> ''[]''"
    using host by (auto simp: good_host_def begins_with_def)
  ultimately show ?thesis
    using port split_authority_good [OF host port]
    by (auto simp: split_def url_of_def Let_def)
qed

lemma split_authority_makes_good:
  assumes "split_authority t = Inr (host, port)" "well_bracketed t" "in_authority t" "host \<noteq> []" "host \<noteq> ''[]''"
  shows "good_host host"
proof (cases "begins_with t ''[''")
  case True
  then obtain t' where t: "t = CHR ''['' # t'" by (cases t) (auto simp: begins_with_def)
  let ?h = "takeWhile (\<lambda>c. c \<noteq> CHR '']'') t'"
  have host: "host = ''['' @ ?h @ '']''"
    using assms(1) True t by (auto simp: split_authority_def refused_def Let_def split: if_splits)
  have "CHR '']'' \<notin> set ?h" by (auto dest: set_takeWhileD)
  moreover have "in_authority ?h" using assms(3) t by (auto simp: in_authority_def dest: set_takeWhileD)
  moreover have "?h \<noteq> []" using assms(5) host by auto
  ultimately show ?thesis using host unfolding good_host_def by blast
next
  case False
  then have close: "CHR '']'' \<notin> set t" using assms(2) by (simp add: well_bracketed_def)
  consider "count_list t (CHR '':'') = 0" "host = t"
    | "host = takeWhile (\<lambda>c. c \<noteq> CHR '':'') t"
    | "1 < count_list t (CHR '':'')" "host = ''['' @ t @ '']''"
    using assms(1) False by (auto simp: split_authority_def Let_def split: if_splits)
  then show ?thesis
  proof cases
    case 1
    then show ?thesis using False assms(3,4) by (simp add: good_host_def count_list_0_iff)
  next
    case 2
    have "\<not> begins_with host ''[''" using False 2 assms(4) by (cases t) (auto simp: begins_with_def split: if_splits)
    moreover have "CHR '':'' \<notin> set host" using 2 by (auto dest: set_takeWhileD)
    moreover have "in_authority host" using 2 assms(3) by (auto simp: in_authority_def dest: set_takeWhileD)
    ultimately show ?thesis using assms(4) by (simp add: good_host_def)
  next
    case 3
    then have "t \<noteq> []" by auto
    then show ?thesis using 3 close assms(3) unfolding good_host_def by blast
  qed
qed

lemma split_makes_good:
  assumes "split s = Inr a" "well_bracketed s"
  shows "good_parts a"
proof -
  let ?t = "takeWhile (\<lambda>c. \<not> ends_authority c) s"
  obtain host port where hp: "split_authority ?t = Inr (host, port)"
    using assms(1) by (auto simp: split_def Let_def split: sum.splits)
  have a: "host \<noteq> []" "host \<noteq> ''[]''" "au_host a = host"
    "au_rest a = dropWhile (\<lambda>c. \<not> ends_authority c) s" "au_port a = [] \<or> valid_port (au_port a)"
    using assms(1) hp by (auto simp: split_def Let_def refused_def split: if_splits option.splits)
  have "well_bracketed ?t"
    using assms(2) brackets_plain(1)
    by (cases s) (auto simp: well_bracketed_def begins_with_def dest: set_takeWhileD)
  moreover have "in_authority ?t" by (auto simp: in_authority_def dest: set_takeWhileD)
  ultimately have "good_host host" using split_authority_makes_good [OF hp] a by blast
  moreover have "au_rest a = [] \<or> ends_authority (hd (au_rest a))"
    unfolding a(4) using hd_dropWhile [of "\<lambda>c. \<not> ends_authority c" s] by auto
  ultimately show ?thesis using a by (simp add: good_parts_def)
qed

lemma expand_as_written:
  assumes "spoken scheme" "good_parts a" "\<not> list_ex is_blank (url_of scheme a)"
  shows "expand_server_address (url_of scheme a) = Inr (url_of scheme a)"
proof -
  have url: "url_of scheme a = scheme @ url_of [] a" by (simp add: url_of_def)
  have "known_scheme kSchemes (url_of scheme a) = (scheme, url_of [] a)"
    using assms(1) known_scheme_again unfolding url by auto
  moreover have "trimmed (url_of scheme a) = url_of scheme a" by (rule trimmed_clean [OF assms(3)])
  moreover have "url_of scheme a \<noteq> []" "scheme \<noteq> []" using assms(1) by (auto simp: url_of_def)
  ultimately show ?thesis using assms(3) split_good [OF assms(2)]
    by (simp add: expand_server_address_def Let_def)
qed

lemma expand_without_scheme:
  assumes "split s = Inr a" "au_port a \<noteq> []" "\<not> contains s ''://''" "\<not> list_ex is_blank s" "s \<noteq> []"
    "known_scheme kSchemes s = ([], s)"
  shows "expand_server_address s = Inr (url_of ''ws://'' a)"
  using assms trimmed_clean [OF assms(4)] by (simp add: expand_server_address_def Let_def)

lemma contains_drop: "begins_with (drop n s) part \<Longrightarrow> part \<noteq> [] \<Longrightarrow> contains s part"
proof (induction s arbitrary: n)
  case (Cons c s)
  then show ?case by (cases n) auto
qed (simp add: begins_with_def)

lemma to_lower_id:
  assumes "to_lower c = d" "(of_char d :: nat) < 65"
  shows "c = d"
  using assms by (auto simp: to_lower_def split: if_splits)

lemma to_lower_colon: "to_lower c = CHR '':'' \<Longrightarrow> c = CHR '':''" "to_lower c = CHR ''/'' \<Longrightarrow> c = CHR ''/''"
  by (auto dest: to_lower_id)

lemma typed_scheme_contains:
  assumes "starts_with_ignoring_case s (name @ ''://'')"
  shows "contains s ''://''"
proof -
  let ?n = "length name"
  have len: "?n + 3 \<le> length s" and low: "map to_lower (name @ ''://'') = map to_lower (take (?n + 3) s)"
    using assms unfolding starts_with_ignoring_case_def by (simp_all add: numeral_3_eq_3)
  have "map to_lower (take 3 (drop ?n s)) = drop ?n (map to_lower (take (?n + 3) s))"
    by (simp add: drop_map take_drop add.commute)
  also have "\<dots> = map to_lower ''://''" unfolding low [symmetric] by simp
  also have "\<dots> = ''://''" by (simp add: to_lower_def)
  finally have "take 3 (drop ?n s) = ''://''" by (auto simp: map_eq_Cons_conv dest: to_lower_colon)
  then show ?thesis using contains_drop [of ?n s "''://''"] by (simp add: begins_with_def numeral_3_eq_3)
qed

lemma no_scheme:
  assumes "\<not> contains s ''://''"
  shows "known_scheme kSchemes s = ([], s)"
  using assms typed_scheme_contains [of s "''ws''"] typed_scheme_contains [of s "''wss''"]
    typed_scheme_contains [of s "''http''"] typed_scheme_contains [of s "''https''"]
  by (auto simp: kSchemes_def)

lemma shown_address_comes_back:
  assumes "expand_server_address url = Inr url" "\<not> contains (drop 5 url) ''://''"
  shows "expand_server_address (display_server_address url) = Inr url"
proof (cases "display_server_address url = url")
  case True
  then show ?thesis using assms(1) by simp
next
  case False
  then have plain: "begins_with url ''ws://''" by (rule contrapos_np) (simp add: display_server_address_def)
  define s where "s = drop 5 url"
  have "take 5 url = ''ws://''" using plain by (simp add: begins_with_def numeral_eq_Suc)
  then have url: "url = ''ws://'' @ s" unfolding s_def by (metis append_take_drop_id)
  obtain a where a: "split s = Inr a" "au_port a \<noteq> []" "display_server_address url = s"
    using False plain by (auto simp: display_server_address_def s_def split: sum.splits if_splits)
  note s = url a
  have clean: "\<not> list_ex is_blank url" using expanded_is_clean [OF assms(1)] by simp
  then have "\<not> list_ex is_blank s" using s(1) by simp
  moreover have "s \<noteq> []" using s(2) split_host [of s a] split_bytes(1) [of s a] by (cases s) (auto simp: split_def split_authority_def begins_with_def refused_def)
  ultimately have "expand_server_address s = Inr (url_of ''ws://'' a)"
    using expand_without_scheme [OF s(2,3)] no_scheme assms(2) s(1) by simp
  moreover have "expand_server_address url = Inr (url_of ''ws://'' a)"
    using s(1,2) trimmed_clean [OF clean] clean known_scheme_again(1) [of s]
    by (simp add: expand_server_address_def Let_def)
  ultimately show ?thesis using assms(1) s(4) by simp
qed

text \<open>The round trip the field promises: a URL it produced is taken as written when it is typed, and what
  the field shows of it, typed again, expands to the same URL. It holds when the brackets of an IPv6
  address are where they belong and no second scheme hides in the path.
\<close>

lemma address_survives_the_field:
  assumes "expand_server_address typed = Inr url"
    and "well_bracketed (snd (known_scheme kSchemes (trimmed typed)))"
    and "\<not> contains (drop 5 url) ''://''"
  shows "expand_server_address url = Inr url \<and> expand_server_address (display_server_address url) = Inr url"
proof -
  obtain scheme after a where e: "known_scheme kSchemes (trimmed typed) = (scheme, after)" "split after = Inr a"
    "url = (if scheme = [] then url_of ''ws://'' (if au_port a = [] then a\<lparr>au_port := kDefaultServerPort\<rparr> else a)
            else url_of scheme a)"
    by (rule expand_cases [OF assms(1)]) blast
  have good: "good_parts a" using split_makes_good [OF e(2)] assms(2) e(1) by simp
  have default: "valid_port kDefaultServerPort"
    by (simp add: valid_port_def all_digits_def port_digit_def kLongestPort_def kHighestPort_def
        parse_nat_def parse_digit_def kDefaultServerPort_def)
  have "\<exists>s b. url = url_of s b \<and> spoken s \<and> good_parts b"
  proof (cases "scheme = []")
    case True
    then show ?thesis using e(3) good default
      by (intro exI [of _ "''ws://''"] exI [of _ "if au_port a = [] then a\<lparr>au_port := kDefaultServerPort\<rparr> else a"])
        (auto simp: good_parts_def)
  next
    case False
    then show ?thesis using e(3) good known_scheme_spoken [OF e(1)]
      by (intro exI [of _ scheme] exI [of _ a]) simp
  qed
  then have "expand_server_address url = Inr url"
    using expand_as_written expanded_is_clean [OF assms(1)] by blast
  then show ?thesis using shown_address_comes_back assms(3) by blast
qed

lemma address_survives_the_field_witness:
  "expand_server_address ''ws://[::1]:8080'' = Inr ''ws://[::1]:8080''
   \<and> expand_server_address (display_server_address ''ws://[::1]:8080'') = Inr ''ws://[::1]:8080''"
  by (rule address_survives_the_field [where typed = "'' ::1''"]) code_simp+

end
