(* ===== verification/ScreenAudio.thy ===== *)
theory ScreenAudio
  imports Prelude "HOL-Library.Word"
begin

text \<open>
  The sound of a shared screen, \<open>client/src/audio/block_pacer.hpp\<close> and \<open>screen_audio_mixer.{hpp,cpp}\<close>: the
  ring between the capture's clock and the encoder's, and the mix of what it hands out with the
  microphone. Samples are 16 bit words read as signed; the sums are integers kept in 32 bits by the
  bounds shown here. What is under a mutex is one step. The capturer belongs to the system: what creating
  and starting one answers are parameters, and its sound comes in through \<open>push_screen_audio\<close>.
\<close>

section \<open>The ring\<close>

definition kChannels :: nat where "kChannels = 2"
definition kFramesPerBlock :: nat where "kFramesPerBlock = 480"
definition kSamplesPerBlock :: nat where "kSamplesPerBlock = kFramesPerBlock * kChannels"

record pacer_options =
  po_high_watermark_frames :: nat
  po_target_frames :: nat
  po_prime_frames :: nat

definition default_pacing :: pacer_options where
  "default_pacing = \<lparr>po_high_watermark_frames = 4800, po_target_frames = 2400, po_prime_frames = 960\<rparr>"

definition kPacing :: pacer_options where
  "kPacing = \<lparr>po_high_watermark_frames = 3000, po_target_frames = 1500, po_prime_frames = 960\<rparr>"

record pacer_stats =
  ps_frames_pushed :: nat
  ps_frames_dropped :: nat
  ps_blocks_taken :: nat
  ps_blocks_silent :: nat

type_synonym sample = "16 word"

record pacer =
  bp_options :: pacer_options
  bp_ring :: "sample list"
  bp_head :: nat
  bp_size :: nat
  bp_primed :: bool
  bp_stats :: pacer_stats

definition new_pacer :: "pacer_options \<Rightarrow> pacer" where
  "new_pacer options =
     \<lparr>bp_options = options\<lparr>po_target_frames :=
        min (po_target_frames options) (po_high_watermark_frames options)\<rparr>,
      bp_ring = replicate ((po_high_watermark_frames options + kFramesPerBlock * 2) * kChannels) 0,
      bp_head = 0, bp_size = 0, bp_primed = False,
      bp_stats = \<lparr>ps_frames_pushed = 0, ps_frames_dropped = 0, ps_blocks_taken = 0, ps_blocks_silent = 0\<rparr>\<rparr>"

definition pacer_frames :: "pacer \<Rightarrow> nat" where
  "pacer_frames b = bp_size b div kChannels"

definition pacer_read :: "pacer \<Rightarrow> sample \<times> pacer" where
  "pacer_read b =
     (bp_ring b ! bp_head b,
      b\<lparr>bp_head := (bp_head b + 1) mod length (bp_ring b), bp_size := bp_size b - 1\<rparr>)"

definition count_dropped :: "nat \<Rightarrow> pacer \<Rightarrow> pacer" where
  "count_dropped n b = b\<lparr>bp_stats := (bp_stats b)\<lparr>ps_frames_dropped := ps_frames_dropped (bp_stats b) + n\<rparr>\<rparr>"

definition count_pushed :: "nat \<Rightarrow> pacer \<Rightarrow> pacer" where
  "count_pushed n b = b\<lparr>bp_stats := (bp_stats b)\<lparr>ps_frames_pushed := ps_frames_pushed (bp_stats b) + n\<rparr>\<rparr>"

definition pacer_write :: "sample \<Rightarrow> pacer \<Rightarrow> pacer" where
  "pacer_write x b =
     (let b = (if bp_size b = length (bp_ring b) then count_dropped 1 (snd (pacer_read b)) else b)
      in b\<lparr>bp_ring := (bp_ring b)[(bp_head b + bp_size b) mod length (bp_ring b) := x],
           bp_size := bp_size b + 1\<rparr>)"

fun read_away :: "nat \<Rightarrow> pacer \<Rightarrow> pacer" where
  "read_away 0 b = b"
| "read_away (Suc n) b = read_away n (snd (pacer_read b))"

definition pacer_trim :: "pacer \<Rightarrow> pacer" where
  "pacer_trim b =
     (if pacer_frames b \<le> po_high_watermark_frames (bp_options b) then b
      else let excess = pacer_frames b - po_target_frames (bp_options b)
           in count_dropped excess (read_away (excess * kChannels) b))"

definition pacer_push :: "sample list \<Rightarrow> pacer \<Rightarrow> pacer" where
  "pacer_push interleaved b =
     pacer_trim (count_pushed (length interleaved div kChannels) (fold pacer_write interleaved b))"

definition pacer_push_silence :: "nat \<Rightarrow> pacer \<Rightarrow> pacer" where
  "pacer_push_silence frames b =
     pacer_trim (count_pushed frames (fold pacer_write (replicate (frames * kChannels) 0) b))"

fun read_block :: "nat \<Rightarrow> pacer \<Rightarrow> sample list \<times> pacer" where
  "read_block 0 b = ([], b)"
| "read_block (Suc n) b =
     (let (x, b) = pacer_read b; (xs, b) = read_block n b in (x # xs, b))"

text \<open>Into a block of \<open>kSamplesPerBlock\<close> samples.\<close>

definition pacer_take :: "pacer \<Rightarrow> (bool \<times> sample list) \<times> pacer" where
  "pacer_take b =
     (let b = b\<lparr>bp_stats := (bp_stats b)\<lparr>ps_blocks_taken := ps_blocks_taken (bp_stats b) + 1\<rparr>\<rparr>;
          b = (if \<not> bp_primed b \<and> po_prime_frames (bp_options b) \<le> pacer_frames b
               then b\<lparr>bp_primed := True\<rparr> else b)
      in if \<not> bp_primed b \<or> pacer_frames b < kFramesPerBlock
         then ((False, replicate kSamplesPerBlock 0),
               b\<lparr>bp_primed := False,
                 bp_stats := (bp_stats b)\<lparr>ps_blocks_silent := ps_blocks_silent (bp_stats b) + 1\<rparr>\<rparr>)
         else let (xs, b) = read_block kSamplesPerBlock b in ((True, xs), b))"

definition pacer_clear :: "pacer \<Rightarrow> pacer" where
  "pacer_clear b = b\<lparr>bp_head := 0, bp_size := 0, bp_primed := False\<rparr>"

section \<open>The mix\<close>

definition saturate :: "int \<Rightarrow> sample" where
  "saturate x = word_of_int (max (- 32768) (min x 32767))"

definition kGainOne :: int where "kGainOne = 256"
definition kLimiterUnityQ15 :: int where "kLimiterUnityQ15 = 32768"
definition kPeakCeiling :: int where "kPeakCeiling = 32767"
definition kLimiterReleasePerSample :: int where "kLimiterReleasePerSample = 1"

text \<open>An arithmetic shift to the right is a division that rounds down.\<close>

definition at_gain :: "sample \<Rightarrow> int \<Rightarrow> int" where
  "at_gain x gain = (sint x * gain) div 2 ^ 8"

definition at_limiter_gain :: "int \<Rightarrow> int \<Rightarrow> int" where
  "at_limiter_gain x gain_q15 = (x * gain_q15) div 2 ^ 15"

definition screen_volume :: "int \<Rightarrow> int" where
  "screen_volume percent = max 0 (min percent 200)"

text \<open>\<open>std::lround(percent / 100.0 * 256)\<close>: a fraction of a hundredth that is never half way between two
  integers, so the rounding errors of the doubles do not reach it.\<close>

definition screen_gain :: "int \<Rightarrow> int" where
  "screen_gain percent = (screen_volume percent * kGainOne * 2 + 100) div 200"

record mixer =
  mx_capturing :: bool
  mx_failure :: error
  mx_pacer :: pacer
  mx_active :: bool
  mx_microphone_muted :: bool
  mx_screen_gain :: int
  mx_limiter_enabled :: bool
  mx_limiter_gain_q15 :: int
  mx_limited_blocks :: nat

definition new_mixer :: mixer where
  "new_mixer = \<lparr>mx_capturing = False, mx_failure = mk_error [] [], mx_pacer = new_pacer kPacing, mx_active = False, mx_microphone_muted = False,
     mx_screen_gain = 256, mx_limiter_enabled = True, mx_limiter_gain_q15 = 32768, mx_limited_blocks = 0\<rparr>"

definition set_screen_volume :: "int \<Rightarrow> mixer \<Rightarrow> mixer" where
  "set_screen_volume percent x = x\<lparr>mx_screen_gain := screen_gain percent\<rparr>"

definition set_microphone_muted :: "bool \<Rightarrow> mixer \<Rightarrow> mixer" where
  "set_microphone_muted muted x = x\<lparr>mx_microphone_muted := muted\<rparr>"

definition set_limiter :: "bool \<Rightarrow> mixer \<Rightarrow> mixer" where
  "set_limiter enabled x = x\<lparr>mx_limiter_enabled := enabled\<rparr>"

definition push_screen_audio :: "sample list \<Rightarrow> mixer \<Rightarrow> mixer" where
  "push_screen_audio block x = x\<lparr>mx_pacer := pacer_push block (mx_pacer x)\<rparr>"

definition mixer_stop :: "mixer \<Rightarrow> mixer" where
  "mixer_stop x = x\<lparr>mx_active := False, mx_capturing := False, mx_pacer := pacer_clear (mx_pacer x)\<rparr>"

text \<open>\<open>created\<close> is what \<open>create_loopback_capturer\<close> answers and \<open>started\<close> what starting it does.\<close>

definition mixer_start :: "unit result \<Rightarrow> unit result \<Rightarrow> mixer \<Rightarrow> unit result \<times> mixer" where
  "mixer_start created started x =
     (let x = mixer_stop x;
          x = x\<lparr>mx_failure := mk_error [] [], mx_pacer := pacer_clear (mx_pacer x)\<rparr>
      in case created of Inl e \<Rightarrow> (Inl e, x)
         | Inr _ \<Rightarrow>
             (case started of Inl e \<Rightarrow> (Inl e, x)
              | Inr _ \<Rightarrow> (Inr (), x\<lparr>mx_capturing := True, mx_active := True\<rparr>)))"

definition note_failure :: "error \<Rightarrow> mixer \<Rightarrow> mixer" where
  "note_failure e x = x\<lparr>mx_active := False, mx_failure := e\<rparr>"

definition needed_gain :: "int \<Rightarrow> int" where
  "needed_gain peak = (kPeakCeiling * 2 ^ 15 + peak - 1) div peak"

text \<open>The state of the loop: the limiter's gain and whether it had to turn down.\<close>

definition mix_frame ::
    "bool \<Rightarrow> int \<Rightarrow> int \<Rightarrow> int \<times> bool \<Rightarrow> (sample \<times> sample) \<times> int \<times> bool" where
  "mix_frame limiting mixed_left mixed_right state =
     (let (gain_q15, limited) = state
      in if \<not> limiting then ((saturate mixed_left, saturate mixed_right), gain_q15, limited)
         else let peak = max \<bar>mixed_left\<bar> \<bar>mixed_right\<bar>;
                  (gain_q15, limited) =
                    (if kPeakCeiling < peak then (min gain_q15 (needed_gain peak), True)
                     else (gain_q15, limited))
              in ((saturate (at_limiter_gain mixed_left gain_q15),
                   saturate (at_limiter_gain mixed_right gain_q15)),
                  min kLimiterUnityQ15 (gain_q15 + kLimiterReleasePerSample), limited))"

text \<open>The two sides of frame \<open>k\<close> before limiting.\<close>

definition mixed_sides ::
    "sample list \<Rightarrow> nat \<Rightarrow> int \<Rightarrow> sample list \<Rightarrow> int \<Rightarrow> nat \<Rightarrow> int \<times> int" where
  "mixed_sides microphone channels gain screen_block volume k =
     (sint (microphone ! (k * channels)) * gain + at_gain (screen_block ! (k * 2)) volume,
      sint (microphone ! (k * channels + (channels - 1))) * gain
        + at_gain (screen_block ! (k * 2 + 1)) volume)"

fun mix_frames :: "bool \<Rightarrow> (int \<times> int) list \<Rightarrow> int \<times> bool \<Rightarrow> sample list \<times> int \<times> bool" where
  "mix_frames limiting [] state = ([], state)"
| "mix_frames limiting ((l, r) # rest) state =
     (let ((out_l, out_r), state) = mix_frame limiting l r state;
          (out, state) = mix_frames limiting rest state
      in (out_l # out_r # out, state))"

record mix_result =
  mr_channels :: nat
  mr_screen_audio :: bool
  mr_out :: "sample list"

text \<open>\<open>out_size\<close> is the length of the span the result goes into; what is written of it is the result.
  The level meter, which reads the microphone before its gain, is left out.\<close>

definition mix :: "sample list \<Rightarrow> nat \<Rightarrow> nat \<Rightarrow> mixer \<Rightarrow> mix_result \<times> mixer" where
  "mix microphone channels out_size x =
     (if channels = 0 \<or> microphone = [] then (\<lparr>mr_channels = 1, mr_screen_audio = False, mr_out = []\<rparr>, x)
      else
       (let frames = length microphone div channels;
            gain = (if mx_microphone_muted x then 0 else 1);
            have_screen_audio = (mx_active x \<or> 0 < pacer_frames (mx_pacer x));
            mixable = (have_screen_audio \<and> frames = kFramesPerBlock \<and> kSamplesPerBlock \<le> out_size
              \<and> channels \<le> 2)
        in if \<not> mixable
           then (\<lparr>mr_channels = channels, mr_screen_audio = False,
                  mr_out = map (\<lambda>s. saturate (sint s * gain)) (take out_size microphone)\<rparr>, x)
           else
            (let ((took, screen_block), pacer) = pacer_take (mx_pacer x);
                 limiting = mx_limiter_enabled x;
                 start = (if limiting then mx_limiter_gain_q15 x else kLimiterUnityQ15);
                 (out, gain_q15, limited) = mix_frames limiting
                   (map (mixed_sides microphone channels gain screen_block (mx_screen_gain x)) [0..<frames])
                   (start, False)
             in (\<lparr>mr_channels = 2, mr_screen_audio = took, mr_out = out\<rparr>,
                 x\<lparr>mx_pacer := pacer, mx_limiter_gain_q15 := gain_q15,
                   mx_limited_blocks := mx_limited_blocks x + (if limited then 1 else 0)\<rparr>))))"

end
