(* ===== verification/ScreenAudioProofs.thy ===== *)
theory ScreenAudioProofs
  imports ScreenAudio
begin

text \<open>
  What the ring and the mix guarantee: the ring is a queue that is never long, a muted microphone is not
  in the mix, and the limiter leaves nothing to clip.
\<close>

section \<open>The ring is a queue\<close>

definition pacer_wf :: "pacer \<Rightarrow> bool" where
  "pacer_wf b \<longleftrightarrow>
     length (bp_ring b) = (po_high_watermark_frames (bp_options b) + kFramesPerBlock * 2) * kChannels
   \<and> bp_head b < length (bp_ring b) \<and> bp_size b \<le> length (bp_ring b)
   \<and> po_target_frames (bp_options b) \<le> po_high_watermark_frames (bp_options b)"

definition contents :: "pacer \<Rightarrow> sample list" where
  "contents b = map (\<lambda>k. bp_ring b ! ((bp_head b + k) mod length (bp_ring b))) [0..<bp_size b]"

lemma length_contents [simp]: "length (contents b) = bp_size b"
  by (simp add: contents_def)

lemma wf_ring: "pacer_wf b \<Longrightarrow> 0 < length (bp_ring b)"
  unfolding pacer_wf_def by linarith

lemma mod_add_inj:
  fixes h :: nat
  assumes "(h + j) mod n = (h + k) mod n" "j < n" "k < n"
  shows "j = k"
proof -
  have "j' = k'" if "(h + j') mod n = (h + k') mod n" "k' < n" "j' \<le> k'" for j' k'
  proof -
    have "n dvd (h + k') - (h + j')" using that(1,3) mod_eq_dvd_iff_nat [of "h + j'" "h + k'" n] by simp
    then show ?thesis using that(2,3) by (auto dest: dvd_imp_le)
  qed
  then show ?thesis using assms by (metis nat_le_linear)
qed

lemma contents_stats [simp]:
  "contents (count_dropped n b) = contents b" "contents (count_pushed n b) = contents b"
  "contents (b\<lparr>bp_stats := st\<rparr>) = contents b" "contents (b\<lparr>bp_primed := p\<rparr>) = contents b"
  by (simp_all add: contents_def count_dropped_def count_pushed_def)

lemma wf_stats [simp]:
  "pacer_wf (count_dropped n b) = pacer_wf b" "pacer_wf (count_pushed n b) = pacer_wf b"
  "pacer_wf (b\<lparr>bp_stats := st\<rparr>) = pacer_wf b" "pacer_wf (b\<lparr>bp_primed := p\<rparr>) = pacer_wf b"
  by (simp_all add: pacer_wf_def count_dropped_def count_pushed_def)

lemma count_fields [simp]:
  "bp_size (count_dropped n b) = bp_size b" "bp_size (count_pushed n b) = bp_size b"
  "bp_options (count_dropped n b) = bp_options b" "bp_options (count_pushed n b) = bp_options b"
  "bp_ring (count_dropped n b) = bp_ring b" "bp_head (count_dropped n b) = bp_head b"
  "bp_ring (count_pushed n b) = bp_ring b" "bp_primed (count_dropped n b) = bp_primed b"
  "bp_primed (count_pushed n b) = bp_primed b"
  by (simp_all add: count_dropped_def count_pushed_def)

lemma read_wf: "pacer_wf b \<Longrightarrow> pacer_wf (snd (pacer_read b))"
  using wf_ring [of b] by (auto simp: pacer_wf_def pacer_read_def)

lemma read_contents:
  assumes "pacer_wf b" "0 < bp_size b"
  shows "contents b = fst (pacer_read b) # contents (snd (pacer_read b))"
proof -
  let ?n = "length (bp_ring b)"
  have "[0..<bp_size b] = 0 # map Suc [0..<bp_size b - 1]"
    using assms(2) by (simp add: upt_conv_Cons map_Suc_upt)
  moreover have "((bp_head b + 1) mod ?n + k) mod ?n = (bp_head b + Suc k) mod ?n" for k
    by (simp add: mod_simps)
  moreover have "bp_head b mod ?n = bp_head b" using assms(1) by (simp add: pacer_wf_def)
  ultimately show ?thesis by (simp add: contents_def pacer_read_def comp_def)
qed

lemma write_wf: "pacer_wf b \<Longrightarrow> pacer_wf (pacer_write x b)"
  using read_wf [of b] wf_ring [of b]
  by (auto simp: pacer_write_def Let_def pacer_wf_def pacer_read_def count_dropped_def)

lemma write_room:
  assumes "pacer_wf b" "bp_size b < length (bp_ring b)"
  shows "contents (pacer_write x b) = contents b @ [x]"
proof -
  let ?n = "length (bp_ring b)" and ?slot = "(bp_head b + bp_size b) mod length (bp_ring b)"
  have slot: "?slot < ?n" using wf_ring [OF assms(1)] by simp
  have "(bp_ring b)[?slot := x] ! ((bp_head b + k) mod ?n) = bp_ring b ! ((bp_head b + k) mod ?n)"
    if "k < bp_size b" for k
  proof -
    have "(bp_head b + k) mod ?n \<noteq> ?slot" using mod_add_inj [of "bp_head b" k ?n "bp_size b"] that assms(2) by auto
    then show ?thesis by simp
  qed
  then show ?thesis using assms(2) slot by (simp add: pacer_write_def contents_def)
qed

lemma write_contents:
  assumes "pacer_wf b"
  shows "contents (pacer_write x b) =
    (if bp_size b = length (bp_ring b) then tl (contents b) else contents b) @ [x]"
proof (cases "bp_size b = length (bp_ring b)")
  case True
  let ?b = "count_dropped 1 (snd (pacer_read b))"
  have size: "0 < bp_size b" using True wf_ring [OF assms] by simp
  have wf: "pacer_wf ?b" using read_wf [OF assms] by simp
  have less: "bp_size ?b < length (bp_ring ?b)" using True size by (simp add: pacer_read_def)
  then have room: "bp_size ?b \<noteq> length (bp_ring ?b)" by simp
  then have "pacer_write x b = pacer_write x ?b"
    using True unfolding pacer_write_def Let_def by (simp only: if_True if_False simp_thms)
  then show ?thesis
    using less write_room [OF wf] read_contents [OF assms size] True by simp
next
  case False
  then show ?thesis using write_room [OF assms] assms by (simp add: pacer_wf_def)
qed

lemma write_fields [simp]:
  "length (bp_ring (pacer_write x b)) = length (bp_ring b)" "bp_options (pacer_write x b) = bp_options b"
  "bp_primed (pacer_write x b) = bp_primed b"
  by (simp_all add: pacer_write_def pacer_read_def Let_def)

text \<open>The queue the ring stands for keeps the newest samples that fit.\<close>

definition newest :: "nat \<Rightarrow> 'a list \<Rightarrow> 'a list" where
  "newest n xs = drop (length xs - n) xs"

lemma newest_snoc:
  assumes "0 < n"
  shows "newest n (xs @ [x]) = (if length (newest n xs) = n then tl (newest n xs) else newest n xs) @ [x]"
  using assms by (auto simp: newest_def drop_Suc tl_drop Suc_diff_le)

lemma fold_write:
  assumes "pacer_wf b"
  shows "pacer_wf (fold pacer_write xs b)
    \<and> contents (fold pacer_write xs b) = newest (length (bp_ring b)) (contents b @ xs)
    \<and> length (bp_ring (fold pacer_write xs b)) = length (bp_ring b)
    \<and> bp_options (fold pacer_write xs b) = bp_options b \<and> bp_primed (fold pacer_write xs b) = bp_primed b"
proof (induction xs rule: rev_induct)
  case Nil
  then show ?case using assms by (simp add: newest_def pacer_wf_def)
next
  case (snoc x xs)
  let ?b = "fold pacer_write xs b"
  have "length (newest (length (bp_ring b)) (contents b @ xs)) = bp_size ?b"
    using snoc by (metis length_contents)
  then show ?case
    using snoc write_wf [of ?b x] write_contents [of ?b x] newest_snoc [of "length (bp_ring b)" "contents b @ xs" x]
      wf_ring [OF assms] by simp
qed

lemma read_away_contents:
  assumes "pacer_wf b" "n \<le> bp_size b"
  shows "pacer_wf (read_away n b) \<and> contents (read_away n b) = drop n (contents b)
    \<and> bp_options (read_away n b) = bp_options b \<and> bp_primed (read_away n b) = bp_primed b"
  using assms
proof (induction n arbitrary: b)
  case (Suc n)
  let ?b = "snd (pacer_read b)"
  have "pacer_wf ?b" "n \<le> bp_size ?b" "bp_options ?b = bp_options b" "bp_primed ?b = bp_primed b"
    using Suc.prems read_wf by (auto simp: pacer_read_def)
  then show ?case using Suc.IH [of ?b] read_contents [of b] Suc.prems by simp
qed simp

text \<open>The queue after a push, and what a take hands out.\<close>

definition trimmed_queue :: "pacer_options \<Rightarrow> 'a list \<Rightarrow> 'a list" where
  "trimmed_queue options q =
     (if length q div kChannels \<le> po_high_watermark_frames options then q
      else drop ((length q div kChannels - po_target_frames options) * kChannels) q)"

definition queue_push :: "pacer_options \<Rightarrow> 'a list \<Rightarrow> 'a list \<Rightarrow> 'a list" where
  "queue_push options xs q = trimmed_queue options
     (newest ((po_high_watermark_frames options + kFramesPerBlock * 2) * kChannels) (q @ xs))"

definition queue_take :: "pacer_options \<Rightarrow> bool \<Rightarrow> sample list \<Rightarrow> (bool \<times> sample list) \<times> bool \<times> sample list" where
  "queue_take options primed q =
     (if (primed \<or> po_prime_frames options \<le> length q div kChannels) \<and> kSamplesPerBlock \<le> length q
      then ((True, take kSamplesPerBlock q), True, drop kSamplesPerBlock q)
      else ((False, replicate kSamplesPerBlock 0), False, q))"

lemma trim_contents:
  assumes "pacer_wf b"
  shows "pacer_wf (pacer_trim b) \<and> contents (pacer_trim b) = trimmed_queue (bp_options b) (contents b)
    \<and> bp_options (pacer_trim b) = bp_options b \<and> bp_primed (pacer_trim b) = bp_primed b"
proof -
  let ?excess = "pacer_frames b - po_target_frames (bp_options b)"
  have "?excess * kChannels \<le> bp_size b"
  proof -
    have "?excess * kChannels \<le> pacer_frames b * kChannels" by simp
    also have "\<dots> \<le> bp_size b" by (simp add: pacer_frames_def)
    finally show ?thesis .
  qed
  then show ?thesis
    using assms read_away_contents [OF assms, of "?excess * kChannels"]
    by (auto simp: pacer_trim_def trimmed_queue_def pacer_frames_def Let_def)
qed

lemma read_block_contents:
  assumes "pacer_wf b" "n \<le> bp_size b"
  shows "pacer_wf (snd (read_block n b)) \<and> fst (read_block n b) = take n (contents b)
    \<and> contents (snd (read_block n b)) = drop n (contents b)
    \<and> bp_options (snd (read_block n b)) = bp_options b \<and> bp_primed (snd (read_block n b)) = bp_primed b"
  using assms
proof (induction n arbitrary: b)
  case (Suc n)
  let ?b = "snd (pacer_read b)"
  have "pacer_wf ?b" "n \<le> bp_size ?b" "bp_options ?b = bp_options b" "bp_primed ?b = bp_primed b"
    using Suc.prems read_wf by (auto simp: pacer_read_def)
  then show ?case using Suc.IH [of ?b] read_contents [of b] Suc.prems
    by (simp add: Let_def split_beta)
qed simp

text \<open>One call of the pacer by either thread, on the ring and on the queue.\<close>

datatype pacer_call = Push "sample list" | PushSilence nat | Take | Clear

fun pacer_step :: "pacer_call \<Rightarrow> pacer \<Rightarrow> (bool \<times> sample list) list \<times> pacer" where
  "pacer_step (Push xs) b = ([], pacer_push xs b)"
| "pacer_step (PushSilence n) b = ([], pacer_push_silence n b)"
| "pacer_step Take b = (let (block, b) = pacer_take b in ([block], b))"
| "pacer_step Clear b = ([], pacer_clear b)"

fun pacer_run :: "pacer_call list \<Rightarrow> pacer \<Rightarrow> (bool \<times> sample list) list \<times> pacer" where
  "pacer_run [] b = ([], b)"
| "pacer_run (c # cs) b =
     (let (out, b) = pacer_step c b; (rest, b) = pacer_run cs b in (out @ rest, b))"

fun queue_step ::
    "pacer_options \<Rightarrow> pacer_call \<Rightarrow> bool \<times> sample list \<Rightarrow> (bool \<times> sample list) list \<times> bool \<times> sample list" where
  "queue_step options (Push xs) (primed, q) = ([], primed, queue_push options xs q)"
| "queue_step options (PushSilence n) (primed, q) =
     ([], primed, queue_push options (replicate (n * kChannels) 0) q)"
| "queue_step options Take (primed, q) = (let (block, st) = queue_take options primed q in ([block], st))"
| "queue_step options Clear (primed, q) = ([], False, [])"

fun queue_run ::
    "pacer_options \<Rightarrow> pacer_call list \<Rightarrow> bool \<times> sample list \<Rightarrow> (bool \<times> sample list) list" where
  "queue_run options [] st = []"
| "queue_run options (c # cs) st =
     (let (out, st) = queue_step options c st in out @ queue_run options cs st)"

definition queue_of :: "pacer \<Rightarrow> bool \<times> sample list" where
  "queue_of b = (bp_primed b, contents b)"

lemma pushed_contents:
  assumes "pacer_wf b"
  shows "pacer_wf (pacer_trim (count_pushed n (fold pacer_write xs b)))
    \<and> queue_of (pacer_trim (count_pushed n (fold pacer_write xs b)))
        = (bp_primed b, queue_push (bp_options b) xs (contents b))
    \<and> bp_options (pacer_trim (count_pushed n (fold pacer_write xs b))) = bp_options b"
proof -
  let ?b = "fold pacer_write xs b"
  have "pacer_wf (count_pushed n ?b)" using fold_write [OF assms, of xs] by simp
  moreover have "length (bp_ring b) = (po_high_watermark_frames (bp_options b) + kFramesPerBlock * 2) * kChannels"
    using assms by (simp add: pacer_wf_def)
  ultimately show ?thesis
    using trim_contents [of "count_pushed n ?b"] fold_write [OF assms, of xs]
    by (simp add: queue_of_def queue_push_def)
qed

lemma less_frames: "pacer_frames b < kFramesPerBlock \<longleftrightarrow> \<not> kSamplesPerBlock \<le> bp_size b"
  by (auto simp: pacer_frames_def kFramesPerBlock_def kSamplesPerBlock_def kChannels_def)

lemma take_contents:
  assumes "pacer_wf b"
  shows "pacer_wf (snd (pacer_take b)) \<and> bp_options (snd (pacer_take b)) = bp_options b
    \<and> (fst (pacer_take b), queue_of (snd (pacer_take b)))
        = queue_take (bp_options b) (bp_primed b) (contents b)"
proof -
  define b1 where "b1 = b\<lparr>bp_stats := (bp_stats b)\<lparr>ps_blocks_taken := ps_blocks_taken (bp_stats b) + 1\<rparr>\<rparr>"
  define b2 where "b2 = (if \<not> bp_primed b1 \<and> po_prime_frames (bp_options b1) \<le> pacer_frames b1
    then b1\<lparr>bp_primed := True\<rparr> else b1)"
  have b2: "pacer_wf b2" "contents b2 = contents b" "bp_options b2 = bp_options b" "bp_size b2 = bp_size b"
    "bp_primed b2 = (bp_primed b \<or> po_prime_frames (bp_options b) \<le> bp_size b div kChannels)"
    "pacer_frames b2 = pacer_frames b"
    using assms by (auto simp: b2_def b1_def pacer_frames_def)
  have take_def: "pacer_take b =
     (if \<not> bp_primed b2 \<or> pacer_frames b2 < kFramesPerBlock
      then ((False, replicate kSamplesPerBlock 0),
            b2\<lparr>bp_primed := False,
              bp_stats := (bp_stats b2)\<lparr>ps_blocks_silent := ps_blocks_silent (bp_stats b2) + 1\<rparr>\<rparr>)
      else let (xs, b) = read_block kSamplesPerBlock b2 in ((True, xs), b))"
    by (simp only: pacer_take_def Let_def b2_def b1_def)
  show ?thesis
  proof (cases "bp_primed b2 \<and> kSamplesPerBlock \<le> bp_size b2")
    case True
    then show ?thesis
      using b2 less_frames [of b2] read_block_contents [OF b2(1), of kSamplesPerBlock]
      by (simp add: take_def queue_take_def queue_of_def split_beta)
  next
    case False
    then show ?thesis using b2 less_frames [of b2]
      by (auto simp: take_def queue_take_def queue_of_def)
  qed
qed

lemma step_refines:
  assumes "pacer_wf b"
  shows "pacer_wf (snd (pacer_step c b)) \<and> bp_options (snd (pacer_step c b)) = bp_options b
    \<and> queue_step (bp_options b) c (queue_of b) = (fst (pacer_step c b), queue_of (snd (pacer_step c b)))"
proof (cases c)
  case Take
  then show ?thesis using take_contents [OF assms]
    by (auto simp: queue_of_def split_beta prod_eq_iff Let_def)
next
  case Clear
  then show ?thesis using assms wf_ring [OF assms]
    by (simp add: queue_of_def pacer_clear_def pacer_wf_def contents_def)
qed (use pushed_contents [OF assms] in
      \<open>simp_all add: queue_of_def pacer_push_def pacer_push_silence_def del: fold_replicate\<close>)

lemma run_refines:
  assumes "pacer_wf b"
  shows "fst (pacer_run cs b) = queue_run (bp_options b) cs (queue_of b) \<and> pacer_wf (snd (pacer_run cs b))
    \<and> bp_options (snd (pacer_run cs b)) = bp_options b"
  using assms
proof (induction cs arbitrary: b)
  case (Cons c cs)
  then show ?case using step_refines [of b c] Cons.IH [of "snd (pacer_step c b)"]
    by (simp add: split_beta)
qed simp

definition paced :: "pacer_options \<Rightarrow> pacer_options" where
  "paced options = options\<lparr>po_target_frames :=
     min (po_target_frames options) (po_high_watermark_frames options)\<rparr>"

lemma new_wf: "pacer_wf (new_pacer options)" "queue_of (new_pacer options) = (False, [])"
  "bp_options (new_pacer options) = paced options"
  by (simp_all add: pacer_wf_def new_pacer_def queue_of_def contents_def paced_def
      kFramesPerBlock_def kChannels_def)

text \<open>C20. Through any calls of the capture's thread and the encoder's, what the ring hands out is what a plain
  queue would: the samples in the order they were captured, whole blocks or silence, the oldest dropped
  when too much waits.
\<close>

theorem pacer_is_a_queue:
  "fst (pacer_run cs (new_pacer options)) = queue_run (paced options) cs (False, [])"
  using run_refines [OF new_wf(1), of cs options] by (simp add: new_wf)

lemma trimmed_lag:
  "po_target_frames options \<le> po_high_watermark_frames options \<Longrightarrow>
   length (trimmed_queue options q) div kChannels \<le> po_high_watermark_frames options"
  by (auto simp: trimmed_queue_def kChannels_def)

lemma step_lag:
  assumes "pacer_wf b" "pacer_frames b \<le> po_high_watermark_frames (bp_options b)"
  shows "pacer_frames (snd (pacer_step c b)) \<le> po_high_watermark_frames (bp_options b)"
proof -
  have target: "po_target_frames (bp_options b) \<le> po_high_watermark_frames (bp_options b)"
    using assms(1) by (simp add: pacer_wf_def)
  have "length (snd (snd (queue_step (bp_options b) c (queue_of b)))) div kChannels
      \<le> po_high_watermark_frames (bp_options b)"
  proof (cases c)
    case Take
    then show ?thesis using assms(2)
      by (auto simp: queue_of_def queue_take_def pacer_frames_def Let_def kChannels_def)
  qed (use target in \<open>simp_all add: queue_of_def queue_push_def trimmed_lag\<close>)
  then show ?thesis using step_refines [OF assms(1), of c] by (simp add: queue_of_def pacer_frames_def)
qed

text \<open>The sound waiting in the ring never exceeds the high watermark once a call returns, whatever the two
  threads do: the share is at most that late.
\<close>

lemma pacer_is_never_late:
  "pacer_frames (snd (pacer_run cs (new_pacer options))) \<le> po_high_watermark_frames options"
proof -
  have "pacer_frames (snd (pacer_run cs b)) \<le> po_high_watermark_frames (bp_options b)"
    if "pacer_wf b" "pacer_frames b \<le> po_high_watermark_frames (bp_options b)" for b
    using that
  proof (induction cs arbitrary: b)
    case (Cons c cs)
    then show ?case using step_refines [of b c] step_lag [of b c] Cons.IH [of "snd (pacer_step c b)"]
      by (simp add: split_beta)
  qed simp
  from this [of "new_pacer options"] show ?thesis
    using new_wf(1) by (simp add: new_wf(3) paced_def) (simp add: new_pacer_def pacer_frames_def)
qed

text \<open>What is thrown away is counted in frames by a trim and in samples by a full ring.\<close>

lemma write_counts:
  assumes "pacer_wf b"
  shows "ps_frames_dropped (bp_stats (pacer_write x b))
      = ps_frames_dropped (bp_stats b) + (if bp_size b = length (bp_ring b) then 1 else 0)"
    "bp_size (pacer_write x b) = (if bp_size b = length (bp_ring b) then bp_size b else bp_size b + 1)"
  using wf_ring [OF assms] by (simp_all add: pacer_write_def pacer_read_def count_dropped_def)

lemma write_drops:
  assumes "pacer_wf b"
  shows "ps_frames_dropped (bp_stats (fold pacer_write xs b))
      = ps_frames_dropped (bp_stats b) + (bp_size b + length xs - length (bp_ring b))
    \<and> bp_size (fold pacer_write xs b) = min (length (bp_ring b)) (bp_size b + length xs)"
proof (induction xs rule: rev_induct)
  case Nil
  then show ?case using assms by (simp add: pacer_wf_def)
next
  case (snoc x xs)
  let ?b = "fold pacer_write xs b"
  have ring: "length (bp_ring ?b) = length (bp_ring b)" using fold_write [OF assms, of xs] by simp
  have wf: "pacer_wf ?b" using fold_write [OF assms, of xs] by simp
  show ?case
  proof (cases "bp_size ?b = length (bp_ring b)")
    case True
    then show ?thesis using snoc ring write_counts [OF wf, of x] by simp
  next
    case False
    then show ?thesis using snoc ring write_counts [OF wf, of x] by simp
  qed
qed

lemma read_away_stats [simp]: "bp_stats (read_away n b) = bp_stats b"
  by (induction n arbitrary: b) (simp_all add: pacer_read_def)

lemma push_drops:
  fixes xs :: "sample list"
  assumes "pacer_wf b"
  defines "n \<equiv> min (length (bp_ring b)) (bp_size b + length xs) div kChannels"
  shows "ps_frames_dropped (bp_stats (pacer_push xs b)) =
    ps_frames_dropped (bp_stats b) + (bp_size b + length xs - length (bp_ring b))
      + (if n \<le> po_high_watermark_frames (bp_options b) then 0 else n - po_target_frames (bp_options b))"
  using write_drops [OF assms(1), of xs] fold_write [OF assms(1), of xs]
  by (auto simp: pacer_push_def pacer_trim_def Let_def n_def pacer_frames_def count_pushed_def count_dropped_def)

section \<open>The microphone\<close>

text \<open>C19. A muted microphone is not heard: what a block mixes to, and everything the mixer keeps, is the same
  whatever was said into it.
\<close>

theorem muted_microphone_is_not_mixed:
  assumes "mx_microphone_muted x" "length said = length silent"
  shows "mix said channels out_size x = mix silent channels out_size x"
proof -
  have unmixed: "map (\<lambda>s. saturate (sint s * 0)) (take n m) = replicate (min n (length m)) (saturate 0)"
    for n and m :: "sample list" by (simp add: map_replicate_const min.commute)
  have sides: "mixed_sides said channels 0 block v = mixed_sides silent channels 0 block v" for block v
    by (simp add: mixed_sides_def fun_eq_iff)
  have "said = [] \<longleftrightarrow> silent = []" using assms(2) by auto
  then show ?thesis using assms by (simp only: mix_def Let_def if_True sides unmixed)
qed

theorem muted_microphone_is_not_mixed_witness:
  "mix (replicate 480 7) 1 960 (set_microphone_muted True new_mixer)
   = mix (replicate 480 0) 1 960 (set_microphone_muted True new_mixer)"
  by (rule muted_microphone_is_not_mixed) (simp_all add: set_microphone_muted_def)

section \<open>The limiter\<close>

definition mixer_ok :: "mixer \<Rightarrow> bool" where
  "mixer_ok x \<longleftrightarrow> pacer_wf (mx_pacer x) \<and> 0 \<le> mx_screen_gain x \<and> mx_screen_gain x \<le> 512
    \<and> 1 \<le> mx_limiter_gain_q15 x \<and> mx_limiter_gain_q15 x \<le> kLimiterUnityQ15"

text \<open>A frame at gain \<open>g\<close> in Q15, two sums that may be wider than a sample.\<close>

lemma needed_gain_fits:
  assumes "kPeakCeiling < peak" "peak \<le> 98304"
  shows "1 \<le> needed_gain peak" "needed_gain peak \<le> kLimiterUnityQ15"
    "peak * needed_gain peak \<le> 32767 * 32768 + 98303"
proof -
  let ?n = "kPeakCeiling * 2 ^ 15 + peak - 1"
  have pos: "0 < peak" using assms(1) by (simp add: kPeakCeiling_def)
  have "peak * (?n div peak) = ?n - ?n mod peak" by (rule minus_mod_eq_mult_div [symmetric])
  moreover have "0 \<le> ?n mod peak" using pos by (rule pos_mod_sign)
  ultimately have le: "peak * needed_gain peak \<le> ?n" unfolding needed_gain_def by linarith
  then show "peak * needed_gain peak \<le> 32767 * 32768 + 98303" using assms(2) by (simp add: kPeakCeiling_def)
  have "peak div peak \<le> ?n div peak" using pos by (intro zdiv_mono1) (simp_all add: kPeakCeiling_def)
  then show "1 \<le> needed_gain peak" using pos by (simp add: needed_gain_def)
  have "?n < peak * 32769" using assms(1) by (simp add: kPeakCeiling_def)
  with le have "peak * needed_gain peak < peak * 32769" by linarith
  then have "needed_gain peak < 32769" using pos by (simp only: mult_less_cancel_left_pos)
  then show "needed_gain peak \<le> kLimiterUnityQ15" by (simp add: kLimiterUnityQ15_def)
qed

lemma at_limiter_gain_bound:
  assumes "\<bar>x\<bar> * g \<le> 32767 * 32768 + 98303" "0 \<le> g"
  shows "\<bar>at_limiter_gain x g\<bar> \<le> 32770"
proof -
  have "\<bar>x * g\<bar> \<le> 32767 * 32768 + 98303" using assms by (simp add: abs_mult)
  then have "- 1073807359 \<le> x * g" "x * g \<le> 1073807359" by (simp_all add: abs_le_iff)
  from zdiv_mono1 [OF this(1), of "32768"] zdiv_mono1 [OF this(2), of "32768"]
  show ?thesis unfolding at_limiter_gain_def by (simp add: abs_le_iff)
qed

text \<open>The gain the frame goes out at, and the one the next frame starts from.\<close>

definition gain_for :: "int \<Rightarrow> int \<Rightarrow> int \<Rightarrow> int" where
  "gain_for l r g =
     (let peak = max \<bar>l\<bar> \<bar>r\<bar> in if kPeakCeiling < peak then min g (needed_gain peak) else g)"

definition released :: "int \<Rightarrow> int" where
  "released g = min kLimiterUnityQ15 (g + kLimiterReleasePerSample)"

lemma mix_frame_limited:
  "mix_frame True l r (g, limited) =
    ((saturate (at_limiter_gain l (gain_for l r g)), saturate (at_limiter_gain r (gain_for l r g))),
     released (gain_for l r g), limited \<or> kPeakCeiling < max \<bar>l\<bar> \<bar>r\<bar>)"
  by (auto simp: mix_frame_def gain_for_def released_def Let_def)

abbreviation gain_ok :: "int \<Rightarrow> bool" where
  "gain_ok g \<equiv> 1 \<le> g \<and> g \<le> kLimiterUnityQ15"

lemma gain_for_ok:
  assumes "gain_ok g" "\<bar>l\<bar> \<le> 98304" "\<bar>r\<bar> \<le> 98304"
  shows "gain_ok (gain_for l r g)" "gain_for l r g \<le> g"
    "\<bar>at_limiter_gain l (gain_for l r g)\<bar> \<le> 32770" "\<bar>at_limiter_gain r (gain_for l r g)\<bar> \<le> 32770"
proof -
  define peak where "peak = max \<bar>l\<bar> \<bar>r\<bar>"
  let ?g = "gain_for l r g"
  have ok: "gain_ok ?g \<and> ?g \<le> g \<and> peak * ?g \<le> 32767 * 32768 + 98303"
  proof (cases "kPeakCeiling < peak")
    case True
    have "peak \<le> 98304" using assms by (simp add: peak_def)
    note needed = needed_gain_fits [OF True this]
    have "peak * ?g \<le> peak * needed_gain peak"
      using True by (intro mult_left_mono) (simp_all add: gain_for_def peak_def [symmetric] kPeakCeiling_def)
    then show ?thesis using True needed assms(1) by (simp add: gain_for_def peak_def [symmetric])
  next
    case False
    have "peak * g \<le> 32767 * 32768"
      using False assms(1) by (intro mult_mono) (simp_all add: kPeakCeiling_def kLimiterUnityQ15_def)
    then show ?thesis using False assms(1) by (simp add: gain_for_def peak_def [symmetric])
  qed
  then show "gain_ok ?g" "?g \<le> g" by simp_all
  have "\<bar>l\<bar> * ?g \<le> peak * ?g" "\<bar>r\<bar> * ?g \<le> peak * ?g"
    using ok by (auto intro!: mult_right_mono simp: peak_def)
  then have "\<bar>l\<bar> * ?g \<le> 32767 * 32768 + 98303" "\<bar>r\<bar> * ?g \<le> 32767 * 32768 + 98303" "0 \<le> ?g"
    using ok by linarith+
  then show "\<bar>at_limiter_gain l ?g\<bar> \<le> 32770" "\<bar>at_limiter_gain r ?g\<bar> \<le> 32770"
    by (auto intro!: at_limiter_gain_bound)
qed

lemma released_ok: "gain_ok g \<Longrightarrow> gain_ok (released g)"
  by (auto simp: released_def kLimiterReleasePerSample_def kLimiterUnityQ15_def)

text \<open>The gains of a block, one for each frame.\<close>

fun frame_gains :: "(int \<times> int) list \<Rightarrow> int \<Rightarrow> int list" where
  "frame_gains [] g = []"
| "frame_gains ((l, r) # rest) g = gain_for l r g # frame_gains rest (released (gain_for l r g))"

definition at_gains :: "(int \<times> int) list \<Rightarrow> int list \<Rightarrow> int list" where
  "at_gains sides gains =
     concat (map2 (\<lambda>(l, r) g. [at_limiter_gain l g, at_limiter_gain r g]) sides gains)"

lemma limited_frames: "fst (mix_frames True sides (g, limited)) = map saturate (at_gains sides (frame_gains sides g))"
proof (induction sides arbitrary: g limited)
  case (Cons s sides)
  then show ?case by (cases s) (simp add: mix_frame_limited at_gains_def split_beta Let_def)
qed (simp add: at_gains_def)

lemma limiter_gain_kept:
  assumes "gain_ok g" "\<forall>(l, r) \<in> set sides. \<bar>l\<bar> \<le> 98304 \<and> \<bar>r\<bar> \<le> 98304"
  shows "gain_ok (fst (snd (mix_frames True sides (g, limited))))"
    and "\<forall>x \<in> set (at_gains sides (frame_gains sides g)). \<bar>x\<bar> \<le> 32770"
    and "\<forall>g \<in> set (frame_gains sides g). gain_ok g"
proof -
  have "gain_ok (fst (snd (mix_frames True sides (g, limited))))
      \<and> (\<forall>x \<in> set (at_gains sides (frame_gains sides g)). \<bar>x\<bar> \<le> 32770)
      \<and> (\<forall>g \<in> set (frame_gains sides g). gain_ok g)"
    using assms
  proof (induction sides arbitrary: g limited)
    case (Cons s sides)
    obtain l r where s: "s = (l, r)" by (cases s)
    have ok: "gain_ok g" "\<bar>l\<bar> \<le> 98304" "\<bar>r\<bar> \<le> 98304" using Cons.prems s by auto
    note frame = gain_for_ok [OF ok]
    show ?case using Cons.IH [OF released_ok [OF frame(1)]] Cons.prems(2) frame s
      by (auto simp: mix_frame_limited at_gains_def split_beta Let_def)
  qed (simp add: at_gains_def)
  then show "gain_ok (fst (snd (mix_frames True sides (g, limited))))"
    and "\<forall>x \<in> set (at_gains sides (frame_gains sides g)). \<bar>x\<bar> \<le> 32770"
    and "\<forall>g \<in> set (frame_gains sides g). gain_ok g" by simp_all
qed

lemma at_gain_bound:
  assumes "0 \<le> g" "g \<le> 512"
  shows "\<bar>at_gain x g\<bar> \<le> 65536"
proof -
  have "- 32768 \<le> sint x" "sint x \<le> 32767" using sint_range_size [of x] by (simp_all add: word_size)
  then have "- 32768 * g \<le> sint x * g" "sint x * g \<le> 32767 * g"
    using assms by (intro mult_right_mono; simp)+
  then have "- 16777216 \<le> sint x * g" "sint x * g \<le> 16777216" using assms by linarith+
  from zdiv_mono1 [OF this(1), of 256] zdiv_mono1 [OF this(2), of 256]
  show ?thesis by (simp add: at_gain_def abs_le_iff)
qed

lemma mixed_sides_bound:
  assumes "0 \<le> v" "v \<le> 512" "mixed_sides m channels (if muted then 0 else 1) block v k = (l, r)"
  shows "\<bar>l\<bar> \<le> 98304 \<and> \<bar>r\<bar> \<le> 98304"
proof -
  have "\<bar>sint x * (if muted then 0 else 1) + at_gain y v\<bar> \<le> 98304" for x y :: sample
  proof -
    have "\<bar>sint x * (if muted then 0 else 1)\<bar> \<le> 32768"
      using sint_range_size [of x] by (auto simp: word_size)
    then show ?thesis using at_gain_bound [OF assms(1,2), of y] by linarith
  qed
  then show ?thesis using assms(3) unfolding mixed_sides_def by (metis prod.inject)
qed

definition block_sides :: "sample list \<Rightarrow> nat \<Rightarrow> mixer \<Rightarrow> (int \<times> int) list" where
  "block_sides microphone channels x =
     map (mixed_sides microphone channels (if mx_microphone_muted x then 0 else 1)
            (snd (fst (pacer_take (mx_pacer x)))) (mx_screen_gain x))
       [0..<length microphone div channels]"

lemma block_sides_bound:
  "mixer_ok x \<Longrightarrow> \<forall>(l, r) \<in> set (block_sides microphone channels x). \<bar>l\<bar> \<le> 98304 \<and> \<bar>r\<bar> \<le> 98304"
  using mixed_sides_bound [of "mx_screen_gain x" microphone channels "mx_microphone_muted x", OF _ _ surjective_pairing]
  unfolding block_sides_def mixer_ok_def set_map by (intro ballI; elim imageE; simp only: split_beta)

definition mixable :: "sample list \<Rightarrow> nat \<Rightarrow> nat \<Rightarrow> mixer \<Rightarrow> bool" where
  "mixable microphone channels out_size x \<longleftrightarrow>
     (mx_active x \<or> 0 < pacer_frames (mx_pacer x)) \<and> length microphone div channels = kFramesPerBlock
   \<and> kSamplesPerBlock \<le> out_size \<and> channels \<le> 2"

lemma mixable_starts: "mixable microphone channels out_size x \<Longrightarrow> \<not> (channels = 0 \<or> microphone = [])"
  by (cases "channels = 0") (auto simp: mixable_def kFramesPerBlock_def)

lemma mix_limited:
  assumes "mixable microphone channels out_size x" "mx_limiter_enabled x"
  shows "mr_out (fst (mix microphone channels out_size x)) =
      fst (mix_frames True (block_sides microphone channels x) (mx_limiter_gain_q15 x, False))"
    "snd (mix microphone channels out_size x) =
      x\<lparr>mx_pacer := snd (pacer_take (mx_pacer x)),
        mx_limiter_gain_q15 :=
          fst (snd (mix_frames True (block_sides microphone channels x) (mx_limiter_gain_q15 x, False))),
        mx_limited_blocks := mx_limited_blocks x +
          (if snd (snd (mix_frames True (block_sides microphone channels x) (mx_limiter_gain_q15 x, False)))
           then 1 else 0)\<rparr>"
  using assms(1) [unfolded mixable_def] assms(2) mixable_starts [OF assms(1)]
  unfolding mix_def block_sides_def by (simp_all add: Let_def split_beta)



lemma mix_keeps_ok:
  assumes "mixer_ok x"
  shows "mixer_ok (snd (mix microphone channels out_size x))"
proof (cases "mixable microphone channels out_size x")
  case True
  have pacer: "pacer_wf (snd (pacer_take (mx_pacer x)))"
    using assms take_contents by (simp add: mixer_ok_def)
  have gain: "gain_ok (mx_limiter_gain_q15 x)" using assms by (simp add: mixer_ok_def)
  have off: "fst (snd (mix_frames False s (g, b))) = g" for s g b
    by (induction s) (auto simp: mix_frame_def split_beta Let_def)
  show ?thesis
  proof (cases "mx_limiter_enabled x")
    case limiting: True
    then show ?thesis
      using pacer limiter_gain_kept(1) [OF gain block_sides_bound [OF assms]] mix_limited(2) [OF True] assms
      by (simp add: mixer_ok_def)
  next
    case False
    then show ?thesis using pacer off True [unfolded mixable_def] mixable_starts [OF True] assms
      unfolding mix_def by (simp add: Let_def split_beta mixer_ok_def kLimiterUnityQ15_def)
  qed
next
  case False
  then have "snd (mix microphone channels out_size x) = x"
    by (auto simp: mix_def mixable_def Let_def)
  then show ?thesis using assms by simp
qed

text \<open>What the threads around the mixer call, each call one step.\<close>

datatype mixer_call =
    MixerStart "unit result" "unit result" | MixerStop | MixerFailed error
  | MicrophoneMuted bool | ScreenVolume int | LimiterSet bool
  | ScreenBlock "sample list" | MixBlock "sample list" nat nat

fun mixer_step :: "mixer_call \<Rightarrow> mixer \<Rightarrow> mixer" where
  "mixer_step (MixerStart created started) x = snd (mixer_start created started x)"
| "mixer_step MixerStop x = mixer_stop x"
| "mixer_step (MixerFailed e) x = note_failure e x"
| "mixer_step (MicrophoneMuted muted) x = set_microphone_muted muted x"
| "mixer_step (ScreenVolume percent) x = set_screen_volume percent x"
| "mixer_step (LimiterSet enabled) x = set_limiter enabled x"
| "mixer_step (ScreenBlock block) x = push_screen_audio block x"
| "mixer_step (MixBlock microphone channels out_size) x = snd (mix microphone channels out_size x)"

lemma pacer_clear_wf: "pacer_wf b \<Longrightarrow> pacer_wf (pacer_clear b)"
  using step_refines [of b Clear] by simp

lemma pacer_push_wf: "pacer_wf b \<Longrightarrow> pacer_wf (pacer_push xs b)"
  using step_refines [of b "Push xs"] by simp

lemma screen_gain_range: "0 \<le> screen_gain percent \<and> screen_gain percent \<le> 512"
  by (auto simp: screen_gain_def screen_volume_def kGainOne_def)

lemma mixer_step_ok:
  assumes "mixer_ok x"
  shows "mixer_ok (mixer_step c x)"
proof (cases c)
  case (MixBlock microphone channels out_size)
  then show ?thesis using mix_keeps_ok [OF assms] by simp
qed (use assms screen_gain_range in
     \<open>auto simp: mixer_ok_def mixer_start_def mixer_stop_def note_failure_def
      set_microphone_muted_def set_screen_volume_def set_limiter_def push_screen_audio_def
      pacer_clear_wf pacer_push_wf Let_def split: sum.splits\<close>)

text \<open>Whatever the threads around the mixer do, in any order, it stays in the bounds its arithmetic was
  sized for: the ring is well formed, the gains keep every sum and product within 32 and 64 bits.
\<close>

lemma mixer_stays_in_bounds: "mixer_ok (fold mixer_step calls new_mixer)"
proof -
  have "mixer_ok (fold mixer_step calls x)" if "mixer_ok x" for x
    using that by (induction calls arbitrary: x) (simp_all add: mixer_step_ok)
  then show ?thesis by (simp add: new_mixer_def mixer_ok_def new_wf kLimiterUnityQ15_def)
qed

text \<open>Starting anew stops the capture that runs, and a start that fails leaves it stopped.\<close>

lemma failed_start_stops_the_capture:
  "mixer_start (Inl e) started x = (Inl e, (mixer_stop x)\<lparr>mx_failure := mk_error [] []\<rparr>)"
  by (simp add: mixer_start_def mixer_stop_def pacer_clear_def Let_def)

end
