(* ===== verification/HubMedia.thy ===== *)
theory HubMedia
  imports HubProperties
begin

text \<open>
  What the hub tells the media layer. Over every event a server handles, the calls it makes on the
  interface \<open>MediaSignals\<close> say how the seats of the room manager changed: whoever follows the calls knows
  who is in which room.
\<close>

section \<open>What the calls say of the rooms\<close>

fun seat_call :: "media_call \<Rightarrow> (string \<Rightarrow> string option) \<Rightarrow> string \<Rightarrow> string option" where
  "seat_call (ParticipantJoined rid name user label) s = s(u_id user \<mapsto> rid)"
| "seat_call (ParticipantLeft rid uid) s = s(uid := None)"
| "seat_call _ s = s"

fun seats_nobody :: "media_call \<Rightarrow> bool" where
  "seats_nobody (ParticipantJoined rid name user label) = False"
| "seats_nobody (ParticipantLeft rid uid) = False"
| "seats_nobody _ = True"

lemma seats_nobody_fold: "list_all seats_nobody cs \<Longrightarrow> fold seat_call cs s = s"
proof (induction cs arbitrary: s)
  case (Cons c cs)
  then show ?case by (cases c) simp_all
qed simp

text \<open>The calls made on the way from one state to another say how the seats changed.\<close>

definition mirrors :: "hub \<Rightarrow> hub \<Rightarrow> bool" where
  "mirrors h h' \<longleftrightarrow> h_has_media h' = h_has_media h
     \<and> (h_has_media h \<longrightarrow> (\<exists>cs. h_media h' = h_media h @ cs \<and> fold seat_call cs (seat h) = seat h'))"

definition silent :: "hub \<Rightarrow> hub \<Rightarrow> bool" where
  "silent h h' \<longleftrightarrow> h_has_media h' = h_has_media h
     \<and> (\<exists>cs. h_media h' = h_media h @ cs \<and> list_all seats_nobody cs)"

lemma mirrors_refl [simp]: "mirrors h h"
  by (simp add: mirrors_def)

lemma mirrors_trans: "mirrors a b \<Longrightarrow> mirrors b c \<Longrightarrow> mirrors a c"
  unfolding mirrors_def by force

lemma silent_refl [simp]: "silent h h"
  by (simp add: silent_def)

lemma silent_trans: "silent a b \<Longrightarrow> silent b c \<Longrightarrow> silent a c"
  unfolding silent_def by force

lemma silent_mirrors: "silent h h' \<Longrightarrow> seat h' = seat h \<Longrightarrow> mirrors h h'"
  unfolding silent_def mirrors_def using seats_nobody_fold by metis

lemma quiet_mirrors: "quiet h h' \<Longrightarrow> silent h h' \<Longrightarrow> mirrors h h'"
  using silent_mirrors by (simp add: quiet_def)

lemma silent_same:
  "h_media h' = h_media h \<Longrightarrow> h_has_media h' = h_has_media h \<Longrightarrow> silent g h' = silent g h"
  by (simp add: silent_def)

lemma mirrors_same:
  "h_media h' = h_media h \<Longrightarrow> h_has_media h' = h_has_media h \<Longrightarrow> seat h' = seat h \<Longrightarrow> mirrors g h' = mirrors g h"
  by (simp add: mirrors_def)

lemma media_kept [simp]:
  "h_media (send c m h) = h_media h" "h_media (reply_error c e h) = h_media h"
  "h_media (err code msg c h) = h_media h" "h_media (room_not_found rid c h) = h_media h"
  "h_media (mismatch field c h) = h_media h" "h_media (throw_hub what h) = h_media h"
  "h_media (broadcast rid m exc h) = h_media h" "h_media (broadcast_room_list h) = h_media h"
  "h_media (record_entry E u act t r d h) = h_media h" "h_media (set_users s h) = h_media h"
  "h_media (upd_user c f h) = h_media h" "h_media (drop_identity c h) = h_media h"
  "h_media (set_hub_chat cs h) = h_media h" "h_media (close_session E c h) = h_media h"
  "h_media (open_session E c h) = h_media h" "h_media (discard_session_end_request uid h) = h_media h"
  by (simp_all add: send_eq reply_error_def err_def room_not_found_def mismatch_def throw_hub_def broadcast_eq
      broadcast_room_list_eq record_entry_def set_users_def upd_user_def drop_identity_def set_hub_chat_def
      close_session_def open_session_def discard_session_end_request_def Let_def split: option.split sum.split prod.split)

lemma has_media_kept [simp]:
  "h_has_media (set_users s h) = h_has_media h" "h_has_media (upd_user c f h) = h_has_media h"
  "h_has_media (drop_identity c h) = h_has_media h" "h_has_media (set_hub_chat cs h) = h_has_media h"
  "h_has_media (close_session E c h) = h_has_media h" "h_has_media (open_session E c h) = h_has_media h"
  "h_has_media (discard_session_end_request uid h) = h_has_media h"
  by (simp_all add: set_users_def upd_user_def drop_identity_def set_hub_chat_def
      close_session_def open_session_def discard_session_end_request_def Let_def split: option.split sum.split prod.split)

lemmas kept_silent [simp] = media_kept [THEN silent_same]

lemma fields_silent [simp]:
  "silent g (h\<lparr>h_rooms := M\<rparr>) = silent g h" "silent g (h\<lparr>h_auth := A\<rparr>) = silent g h"
  "silent g (h\<lparr>h_notices := n\<rparr>) = silent g h" "silent g (h\<lparr>h_sessions := ss\<rparr>) = silent g h"
  "silent g (h\<lparr>h_connections := cs\<rparr>) = silent g h" "silent g (h\<lparr>h_user_to_connection := us\<rparr>) = silent g h"
  "silent g (upd_connection c f h) = silent g h"
  by (simp_all add: silent_def)

lemma tell_silent: "seats_nobody call \<Longrightarrow> silent g h \<Longrightarrow> silent g (tell_media call h)"
  by (auto simp: tell_media_def silent_def)

lemma silent_if: "silent h A \<Longrightarrow> silent h B \<Longrightarrow> silent h (if b then A else B)"
  and silent_option: "silent h A \<Longrightarrow> (\<And>x. silent h (F x)) \<Longrightarrow> silent h (case y of None \<Rightarrow> A | Some x \<Rightarrow> F x)"
  and silent_sum: "(\<And>x. silent h (G x)) \<Longrightarrow> (\<And>x. silent h (F x)) \<Longrightarrow> silent h (case z of Inl x \<Rightarrow> G x | Inr x \<Rightarrow> F x)"
  by (auto split: option.split sum.split)

lemma silent_pair: "(\<And>x y. silent h (F x y)) \<Longrightarrow> silent h (case p of (x, y) \<Rightarrow> F x y)"
  by (simp split: prod.split)

lemmas silent_branches = silent_if silent_option silent_sum silent_pair

lemma with_user_silent: "(\<And>u. silent h (k u)) \<Longrightarrow> silent h (with_user c h k)"
  by (simp add: with_user_def silent_option)

lemma silent_fold: "(\<And>x g. silent g (f x g)) \<Longrightarrow> silent h (fold f xs h)"
  by (induction xs arbitrary: h) (auto intro: silent_trans)

lemma silent_hand_over: "silent h (hand_over_notice c n h)"
  unfolding hand_over_notice_def by (intro silent_branches) simp_all

lemma silent_deliver_pending: "silent h (deliver_pending_notices c h)"
  unfolding deliver_pending_notices_def by (intro silent_branches silent_fold silent_hand_over) simp

section \<open>The handlers that seat nobody\<close>

lemma silent_handlers:
  "silent h (handle_create_room E c uid name cap h)" "silent h (handle_mute c rid uid m h)"
  "silent h (handle_screen_share c rid uid sharing audio h)" "silent h (handle_relay c msg rid f t h)"
  "silent h (handle_chat E c cm h)" "silent h (handle_list_chat c rid n h)" "silent h (handle_nudge c rid f t now h)"
  "silent h (handle_acknowledge_notice E c nid h)" "silent h (handle_force_mute E c rid uid m h)"
  "silent h (handle_update_room E c rid cap h)" "silent h (handle_list_users c h)" "silent h (handle_list_rooms c h)"
  "silent h (handle_list_audit c n actor h)" "silent h (handle_list_sessions c n h)"
  "silent h (handle_create_user E c name pw display ro h)" "silent h (handle_update_user E c uid new_role new_name password h)"
  unfolding handle_create_room_def handle_mute_def handle_screen_share_def handle_relay_def handle_chat_def
    handle_list_chat_def handle_nudge_def handle_acknowledge_notice_def handle_force_mute_def handle_update_room_def
    handle_list_users_def handle_list_rooms_def handle_list_audit_def handle_list_sessions_def
    handle_create_user_def handle_update_user_def apply_update_def Let_def
  by (intro with_user_silent silent_branches tell_silent | simp)+

lemma silent_handle_send_notice: "silent h (handle_send_notice E c uid text h)"
proof -
  have "silent h (hand_over_notice t n (h\<lparr>h_notices := x\<rparr>))" for t n x
    by (rule silent_trans [OF _ silent_hand_over]) simp
  then show ?thesis unfolding handle_send_notice_def Let_def
    by (intro with_user_silent silent_branches | simp add: silent_option)+
qed

lemma seat_rooms: "h_rooms h' = h_rooms h \<Longrightarrow> seat h' = seat h"
  by (simp add: seat_def fun_eq_iff)

lemma rooms_kept [simp]:
  "h_rooms (set_users s h) = h_rooms h" "h_rooms (upd_user c f h) = h_rooms h"
  "h_rooms (open_session E c h) = h_rooms h" "h_rooms (discard_session_end_request uid h) = h_rooms h"
  by (simp_all add: set_users_def upd_user_def open_session_def discard_session_end_request_def Let_def
      split: option.split sum.split prod.split)

lemma rooms_if: "h_rooms A = R \<Longrightarrow> h_rooms B = R \<Longrightarrow> h_rooms (if b then A else B) = R"
  and rooms_option: "h_rooms A = R \<Longrightarrow> (\<And>x. h_rooms (F x) = R) \<Longrightarrow> h_rooms (case y of None \<Rightarrow> A | Some x \<Rightarrow> F x) = R"
  and rooms_sum: "(\<And>x. h_rooms (G x) = R) \<Longrightarrow> (\<And>x. h_rooms (F x) = R) \<Longrightarrow> h_rooms (case z of Inl x \<Rightarrow> G x | Inr x \<Rightarrow> F x) = R"
  and rooms_pair: "(\<And>x y. h_rooms (H x y) = R) \<Longrightarrow> h_rooms (case p of (x, y) \<Rightarrow> H x y) = R"
  by (auto split: option.split sum.split prod.split)

lemma account_handlers_rooms:
  "h_rooms (handle_create_user E c name pw display ro h) = h_rooms h"
  "h_rooms (handle_update_user E c uid new_role new_name password h) = h_rooms h"
  unfolding handle_create_user_def handle_update_user_def apply_update_def with_user_def Let_def
  by (intro rooms_if rooms_option rooms_sum rooms_pair | simp)+

lemma mirrors_handlers:
  "mirrors h (handle_create_room E c uid name cap h)" "mirrors h (handle_mute c rid uid m h)"
  "mirrors h (handle_screen_share c rid uid sharing audio h)" "mirrors h (handle_relay c msg rid f t h)"
  "mirrors h (handle_chat E c cm h)" "mirrors h (handle_list_chat c rid n h)" "mirrors h (handle_nudge c rid f t now h)"
  "mirrors h (handle_acknowledge_notice E c nid h)" "mirrors h (handle_force_mute E c rid uid m h)"
  "mirrors h (handle_update_room E c rid cap h)" "mirrors h (handle_send_notice E c uid text h)"
  by (intro quiet_mirrors silent_handlers silent_handle_send_notice quiet_handle_create_room quiet_handle_mute
      quiet_handle_screen_share quiet_handle_relay quiet_handle_chat quiet_handle_list_chat quiet_handle_nudge
      quiet_handle_acknowledge_notice quiet_handle_force_mute quiet_handle_update_room quiet_handle_send_notice)+

lemma mirrors_accounts:
  "mirrors h (handle_list_users c h)" "mirrors h (handle_list_rooms c h)"
  "mirrors h (handle_list_audit c n actor h)" "mirrors h (handle_list_sessions c n h)"
  "mirrors h (handle_create_user E c name pw display ro h)"
  "mirrors h (handle_update_user E c uid new_role new_name password h)"
  by (rule silent_mirrors, rule silent_handlers, rule seat_rooms, simp add: handle_list_users_def
      handle_list_rooms_def handle_list_audit_def handle_list_sessions_def account_handlers_rooms)+

section \<open>The handlers that seat people\<close>

lemma seat_eq: "seat h = room_of (h_rooms h)"
  by (simp add: seat_def fun_eq_iff)

lemma mirrors_reports [simp]:
  "mirrors g (send c m h) = mirrors g h" "mirrors g (reply_error c e h) = mirrors g h"
  "mirrors g (err code msg c h) = mirrors g h" "mirrors g (mismatch field c h) = mirrors g h"
  "mirrors g (room_not_found rid c h) = mirrors g h" "mirrors g (throw_hub what h) = mirrors g h"
  "mirrors g (broadcast rid m exc h) = mirrors g h" "mirrors g (broadcast_room_list h) = mirrors g h"
  "mirrors g (record_entry E u act t r d h) = mirrors g h" "mirrors g (upd_connection c f h) = mirrors g h"
  "mirrors g (h\<lparr>h_auth := A\<rparr>) = mirrors g h" "mirrors g (h\<lparr>h_user_to_connection := us\<rparr>) = mirrors g h"
  "mirrors g (h\<lparr>h_sessions := ss\<rparr>) = mirrors g h" "mirrors g (h\<lparr>h_notices := ns\<rparr>) = mirrors g h"
  "mirrors g (h\<lparr>h_connections := cs\<rparr>) = mirrors g h" "mirrors g (set_users us' h) = mirrors g h"
  "mirrors g (upd_user c w h) = mirrors g h" "mirrors g (close_session E c h) = mirrors g h"
  "mirrors g (open_session E c h) = mirrors g h" "mirrors g (drop_identity c h) = mirrors g h"
  "mirrors g (discard_session_end_request uid h) = mirrors g h"
  by (simp_all add: mirrors_def seat_eq)

lemma mirrors_if: "mirrors h A \<Longrightarrow> mirrors h B \<Longrightarrow> mirrors h (if b then A else B)"
  and mirrors_option: "mirrors h A \<Longrightarrow> (\<And>x. y = Some x \<Longrightarrow> mirrors h (F x)) \<Longrightarrow> mirrors h (case y of None \<Rightarrow> A | Some x \<Rightarrow> F x)"
  by (auto split: option.split)

lemma with_user_mirrors: "(\<And>u. conn_user h c = Some u \<Longrightarrow> mirrors h (k u)) \<Longrightarrow> mirrors h (with_user c h k)"
  by (auto simp: with_user_def split: option.split)

text \<open>Somebody is gone from their room, and then the others and the media layer are told.\<close>

lemma departed:
  assumes "h_media g = h_media h" "h_has_media g = h_has_media h" "seat g = (seat h)(uid := None)"
  shows "mirrors h (announce_departure rid uid w g)"
proof -
  have "seat (announce_departure rid uid w g) = seat g" "h_has_media (announce_departure rid uid w g) = h_has_media g"
    by simp_all
  moreover have "h_media (announce_departure rid uid w g) =
      (if h_has_media g then h_media g @ [ParticipantLeft rid uid] else h_media g)"
    by (simp add: announce_departure_def tell_media_def Let_def)
  ultimately show ?thesis using assms by (simp add: mirrors_def)
qed

lemma mirrors_evict:
  assumes good: "mgr_good (h_rooms h)" and here: "seat h uid = Some rid"
  shows "mirrors h (evict rid uid reason h)"
proof -
  have seat: "seat (evict rid uid reason h) = (seat h)(uid := None)"
    using evict_frame [OF good, of rid uid reason] here by (auto simp: fun_eq_iff)
  have "h_media (evict rid uid reason h) = (if h_has_media h then h_media h @ [ParticipantLeft rid uid] else h_media h)"
    "h_has_media (evict rid uid reason h) = h_has_media h"
    by (simp_all add: evict_def tell_media_def Let_def split: option.split)
  then show ?thesis using seat by (simp add: mirrors_def)
qed

lemma seat_removed:
  "mgr_good (h_rooms h) \<Longrightarrow> seat (h\<lparr>h_rooms := snd (remove_from_any_room uid (h_rooms h))\<rparr>) = (seat h)(uid := None)"
  by (simp add: seat_def fun_eq_iff mgr_good_def room_of_remove_from_any_room)

lemma mirrors_handle_leave_room:
  assumes "mgr_good (h_rooms h)"
  shows "mirrors h (handle_leave_room c rid uid h)"
proof -
  obtain f M where op: "leave rid uid (h_rooms h) = (f, M)" by fastforce
  have wf: "mgr_wf (h_rooms h)" using assms by (simp add: mgr_good_def)
  have room: "room_of M i = (if i = uid \<and> f = None then None else seat h i)" for i
    using room_of_leave [of rid uid "h_rooms h" i] by (simp add: op seat_def)
  show ?thesis
  proof (cases f)
    case None
    let ?g = "upd_connection c (\<lambda>s. s\<lparr>cn_room_id := None\<rparr>) (h\<lparr>h_rooms := M\<rparr>)"
    have "seat ?g = (seat h)(uid := None)" using room None by (simp add: fun_eq_iff rooms_views)
    then have "mirrors h (announce_departure rid uid w ?g)" for w by (intro departed) simp_all
    then have gone: "mirrors h (broadcast_room_list (announce_departure rid uid w ?g))" for w
      by (simp add: mirrors_def)
    show ?thesis unfolding handle_leave_room_def op None prod.case option.case Let_def
      by (rule with_user_mirrors, intro mirrors_if gone) simp
  next
    case (Some e)
    have "seat (h\<lparr>h_rooms := M\<rparr>) = seat h" using room Some by (simp add: fun_eq_iff rooms_views)
    then have "mirrors h (reply_error c e (h\<lparr>h_rooms := M\<rparr>))" by (simp add: mirrors_def)
    then show ?thesis unfolding handle_leave_room_def op Some prod.case option.case Let_def
      by (intro with_user_mirrors mirrors_if) simp_all
  qed
qed

lemma mirrors_handle_kick:
  assumes "mgr_good (h_rooms h)"
  shows "mirrors h (handle_kick E c rid uid reason h)"
  unfolding handle_kick_def
proof (rule with_user_mirrors, rule mirrors_option)
  fix u room
  assume room: "mgr_find (h_rooms h) rid = Some room"
  let ?g = "record_entry E u ''kick'' uid rid reason h"
  show "mirrors h (if \<not> room_contains room uid then err ''not_in_room'' (uid @ '' is not in '' @ rid) c h
      else if uid = u_id u then err ''invalid_target'' ''use leave_room to remove yourself from a room'' c h
      else evict rid uid reason ?g)"
  proof (cases "room_contains room uid")
    case True
    then have "seat ?g uid = Some rid"
      using assms room by (simp add: seat_def room_of_contains mgr_good_def)
    then have "mirrors ?g (evict rid uid reason ?g)" using assms by (intro mirrors_evict) simp_all
    then have "mirrors h (evict rid uid reason ?g)" by (rule mirrors_trans [rotated]) simp
    then show ?thesis by simp
  qed simp
qed simp

lemma mirrors_end_session_of:
  assumes good: "mgr_good (h_rooms h)"
  shows "mirrors h (end_session_of E uid reason h)"
proof -
  define h1 where "h1 = (case connection_of_user h uid of None \<Rightarrow> h | Some c \<Rightarrow> send c (SessionEnded reason) h)"
  define h2 where "h2 = (case room_of (h_rooms h1) uid of None \<Rightarrow> h1 | Some rid \<Rightarrow> evict rid uid reason h1)"
  have h1: "mirrors h h1" "mgr_good (h_rooms h1)" using good by (simp_all add: h1_def split: option.split)
  have "mirrors h1 h2" unfolding h2_def
    by (cases "room_of (h_rooms h1) uid") (simp_all add: mirrors_evict [OF h1(2)] seat_def)
  then have "mirrors h h2" by (rule mirrors_trans [OF h1(1)])
  then show ?thesis
    unfolding end_session_of_def Let_def h1_def [symmetric] h2_def [symmetric]
    by (simp split: option.split)
qed

lemma end_session_of_good: "mgr_good (h_rooms h) \<Longrightarrow> mgr_good (h_rooms (end_session_of E uid reason h))"
  using ended_end_session_of by (simp add: ended_def)

lemma silent_announce_restriction: "silent h (announce_restriction actor target reason h)"
  unfolding announce_restriction_def Let_def by (simp add: silent_option split: option.split)

lemma silent_apply_in_room: "silent h (apply_in_room actor target before room_id h)"
  unfolding apply_in_room_def Let_def
  by (intro silent_option) (simp_all split: option.split prod.split)

lemma mirrors_enforce:
  assumes "mgr_good (h_rooms h)"
  shows "mirrors h (enforce E actor target before reason h)"
proof -
  let ?g = "announce_restriction actor target reason h"
  have g: "mirrors h ?g" "mgr_good (h_rooms ?g)"
    using quiet_mirrors [OF quiet_announce_restriction silent_announce_restriction]
      quiet_announce_restriction [of h actor target reason] assms by (auto simp: quiet_def)
  have "mirrors ?g (apply_in_room actor target before x ?g)" for x
    by (rule quiet_mirrors [OF quiet_apply_in_room silent_apply_in_room])
  then show ?thesis unfolding enforce_split Let_def
    using g mirrors_trans [OF g(1)] mirrors_end_session_of [OF g(2)] by simp
qed

lemma enforce_good: "mgr_good (h_rooms h) \<Longrightarrow> mgr_good (h_rooms (enforce E actor target before reason h))"
  using quiet_announce_restriction [of h actor target reason] end_session_of_good
    quiet_apply_in_room [of "announce_restriction actor target reason h" actor target before]
  unfolding enforce_split Let_def by (simp add: quiet_def)

text \<open>Everybody who is in the room is there until it is their turn.\<close>

lemma mirrors_evictions:
  "mgr_good (h_rooms h) \<Longrightarrow> distinct us \<Longrightarrow> \<forall>uid \<in> set us. seat h uid = Some rid \<Longrightarrow>
   mirrors h (fold (\<lambda>uid. evict rid uid reason) us h) \<and> mgr_good (h_rooms (fold (\<lambda>uid. evict rid uid reason) us h))
   \<and> seat (fold (\<lambda>uid. evict rid uid reason) us h) = (\<lambda>i. if i \<in> set us then None else seat h i)"
proof (induction us arbitrary: h)
  case (Cons u us)
  let ?g = "evict rid u reason h"
  have f: "mgr_good (h_rooms ?g)" "seat ?g = (seat h)(u := None)"
    using evict_frame [OF Cons.prems(1), of rid u reason] Cons.prems(3) by (auto simp: fun_eq_iff)
  have "\<forall>uid \<in> set us. seat ?g uid = Some rid" using Cons.prems(2,3) by (auto simp: f(2))
  note IH = Cons.IH [OF f(1) _ this]
  have "mirrors h ?g" using mirrors_evict [OF Cons.prems(1)] Cons.prems(3) by simp
  then show ?case using IH Cons.prems(2) mirrors_trans by (auto simp: f(2) fun_eq_iff)
qed simp

lemma mirrors_handle_delete_room:
  assumes good: "mgr_good (h_rooms h)"
  shows "mirrors h (handle_delete_room E c rid h)"
  unfolding handle_delete_room_def
proof (rule with_user_mirrors, goal_cases)
  case (1 u)
  define occ where "occ = (case mgr_find (h_rooms h) rid of None \<Rightarrow> []
          | Some room \<Rightarrow> map p_id (rm_participants room))"
  define g where "g = fold (\<lambda>uid. evict rid uid kRoomClosed) occ h"
  have wf: "mgr_wf (h_rooms h)" using good by (simp add: mgr_good_def)
  have who: "i \<in> set occ \<longleftrightarrow> seat h i = Some rid" for i
    by (cases "mgr_find (h_rooms h) rid")
      (auto simp: occ_def seat_def room_of_contains [OF wf] room_contains_iff)
  have "distinct occ"
    using seatingD [OF mgr_wfD [OF wf]] by (auto simp: occ_def mgr_find_def room_wf_def split: option.split)
  then have g: "mirrors h g" "mgr_good (h_rooms g)" "seat g = (\<lambda>i. if i \<in> set occ then None else seat h i)"
    using mirrors_evictions [OF good, of occ rid kRoomClosed] who by (simp_all add: g_def)
  obtain r M where op: "remove_room rid (h_rooms g) = (r, M)" by fastforce
  then have M: "M = snd (remove_room rid (h_rooms g))" by simp
  have "mgr_wf (h_rooms g)" using g(2) by (simp add: mgr_good_def)
  then have "room_of M = seat g"
    using who g(3) by (auto simp: M room_of_remove_room seat_eq fun_eq_iff)
  then have "mirrors h (g\<lparr>h_rooms := M\<rparr>)" using g(1) by (simp add: mirrors_def seat_eq)
  then show ?case
    unfolding Let_def occ_def [symmetric] g_def [symmetric] op prod.case
    by (simp split: sum.split list.split)
qed

lemma mirrors_handle_end_session:
  "mgr_good (h_rooms h) \<Longrightarrow> mirrors h (handle_end_session E c uid reason h)"
  unfolding handle_end_session_def Let_def
  by (intro with_user_mirrors mirrors_if) (auto intro: mirrors_trans [OF _ mirrors_end_session_of])

lemma mirrors_handle_change_password:
  "mgr_good (h_rooms h) \<Longrightarrow> mirrors h (handle_change_password E c cur new h)"
  unfolding handle_change_password_def Let_def
  by (rule with_user_mirrors)
    (auto intro: mirrors_trans [OF _ mirrors_end_session_of] split: prod.split sum.split option.split)

lemma mirrors_handle_delete_user:
  "mgr_good (h_rooms h) \<Longrightarrow> mirrors h (handle_delete_user E c uid h)"
  unfolding handle_delete_user_def Let_def
  by (rule with_user_mirrors, intro mirrors_option mirrors_if)
    (auto simp: mirrors_end_session_of split: prod.split option.split)

lemma mirrors_handle_restrict_user:
  "mgr_good (h_rooms h) \<Longrightarrow> mirrors h (handle_restrict_user E c uid bn mt sl ss reason h)"
  unfolding handle_restrict_user_def Let_def
  by (rule with_user_mirrors, intro mirrors_option mirrors_if)
    (auto intro: mirrors_trans [OF _ mirrors_enforce] split: prod.split option.split)

section \<open>Joining, signing in and out\<close>

text \<open>A join: the calls say where the newcomer was and where they are now.\<close>

lemma greet_media:
  assumes "mgr_find (h_rooms h) rid \<noteq> None" "h_has_media h"
  obtains name label where "h_media (greet c rid u h) = h_media h @ [ParticipantJoined rid name u label]"
proof -
  have folded: "h_media (fold (\<lambda>p h. if p_id p = i then h else send c (UserJoined rid (p_user p)) h) ps g) = h_media g"
    "h_has_media (fold (\<lambda>p h. if p_id p = i then h else send c (UserJoined rid (p_user p)) h) ps g) = h_has_media g"
    for i ps g by (induction ps arbitrary: g) simp_all
  have shared: "h_media (case x of None \<Rightarrow> g | Some s \<Rightarrow> send c (m s) g) = h_media g"
    "h_has_media (case x of None \<Rightarrow> g | Some s \<Rightarrow> send c (m s) g) = h_has_media g"
    for x :: "participant option" and m g by (simp_all split: option.split)
  obtain room where "mgr_find (h_rooms h) rid = Some room" using assms(1) by blast
  then show thesis using assms(2) that by (simp add: greet_def tell_media_def folded shared Let_def)
qed

lemma greet_has_media: "h_has_media (greet c rid u h) = h_has_media h"
proof -
  have folded:
    "h_has_media (fold (\<lambda>p h. if p_id p = i then h else send c (UserJoined rid (p_user p)) h) ps g) = h_has_media g"
    for i ps g by (induction ps arbitrary: g) simp_all
  show ?thesis by (auto simp: greet_def folded Let_def split: option.split)
qed

lemma enter_room_media:
  assumes good: "mgr_good (h_rooms h)" and e: "enter_room c rid u h = (True, g)"
  shows "h_has_media g = h_has_media h" "seat g = (seat h)(u_id u \<mapsto> rid)" "mgr_find (h_rooms g) rid \<noteq> None"
    and "\<exists>cs. h_media g = h_media h @ cs \<and> (\<forall>s. (fold seat_call cs s)(u_id u \<mapsto> rid) = s(u_id u \<mapsto> rid))"
proof -
  obtain f M where op: "join rid u (h_rooms h) = (f, M)" by fastforce
  then have f: "f = None" using e by (cases f) (simp_all add: enter_room_def)
  have wf: "mgr_wf (h_rooms h)" using good by (simp add: mgr_good_def)
  have M: "room_of M = (seat h)(u_id u \<mapsto> rid)"
    using room_of_join [OF wf, of rid u] op f by (auto simp: fun_eq_iff seat_def)
  have Mwf: "mgr_wf M" using join_wf [OF wf, of rid u] op by simp
  let ?h2 = "upd_user c (\<lambda>v. v\<lparr>u_display_name := u_display_name u\<rparr>)
    (upd_connection c (\<lambda>s. s\<lparr>cn_room_id := Some rid\<rparr>) (h\<lparr>h_rooms := M\<rparr>))"
  define h3 where "h3 = (case room_of (h_rooms h) (u_id u) of None \<Rightarrow> ?h2
     | Some p \<Rightarrow> if p \<noteq> rid then announce_departure p (u_id u)
         (case room_of (h_rooms h) (u_id u) of None \<Rightarrow> False | Some p \<Rightarrow> is_sharing_screen h p (u_id u)) ?h2 else ?h2)"
  have h3: "h_has_media h3 = h_has_media h" "h_rooms h3 = M"
    by (simp_all add: h3_def split: option.split)
  have calls: "\<exists>cs. h_media h3 = h_media h @ cs \<and> (\<forall>s. (fold seat_call cs s)(u_id u \<mapsto> rid) = s(u_id u \<mapsto> rid))"
    by (auto simp: h3_def announce_departure_def tell_media_def Let_def split: option.split)
  have g: "g = (if r_muted (u_restrictions u)
      then h3\<lparr>h_rooms := snd (set_muted rid (u_id u) True True (h_rooms h3))\<rparr> else h3)"
    using e op f unfolding enter_room_def Let_def h3_def by simp
  have seat: "seat g = room_of M" by (simp add: g seat_eq h3 fun_eq_iff)
  show "h_has_media g = h_has_media h" "seat g = (seat h)(u_id u \<mapsto> rid)" using h3 M seat by (simp_all add: g)
  show "\<exists>cs. h_media g = h_media h @ cs \<and> (\<forall>s. (fold seat_call cs s)(u_id u \<mapsto> rid) = s(u_id u \<mapsto> rid))"
    using calls by (simp add: g)
  have "mgr_wf (h_rooms g)" using set_muted_wf [OF Mwf] Mwf by (simp add: g h3)
  moreover have "room_of (h_rooms g) (u_id u) = Some rid" using seat M by (simp add: seat_eq)
  ultimately show "mgr_find (h_rooms g) rid \<noteq> None" by (auto simp: room_of_contains)
qed

lemma mirrors_handle_join_room:
  assumes good: "mgr_good (h_rooms h)"
  shows "mirrors h (handle_join_room c rid uid name h)"
  unfolding handle_join_room_def Let_def
proof (rule with_user_mirrors, intro mirrors_if, goal_cases)
  case (3 u)
  define u' where "u' = (joining_name name u)\<lparr>u_restrictions := restrictions_of h (u_id (joining_name name u))\<rparr>"
  define g where "g = upd_user c (\<lambda>v. v\<lparr>u_restrictions := restrictions_of h (u_id (joining_name name u))\<rparr>) h"
  have g: "mirrors h g" "mgr_good (h_rooms g)" "h_media g = h_media h" "h_has_media g = h_has_media h" "seat g = seat h"
    using good by (simp_all add: g_def seat_eq)
  have "mirrors h (case enter_room c rid u' g of (True, k) \<Rightarrow> greet c rid u' k | (False, k) \<Rightarrow> k)"
  proof (cases "enter_room c rid u' g")
    case (Pair b k)
    show ?thesis
    proof (cases b)
      case True
      have "enter_room c rid u' g = (True, k)" using Pair True by simp
      note k = enter_room_media [OF g(2) this]
      have seat: "seat (greet c rid u' k) = (seat h)(u_id u' \<mapsto> rid)"
        using quiet_greet [of k c rid u'] k(2) g(5) by (simp add: quiet_def)
      obtain cs where cs: "h_media k = h_media h @ cs" "(fold seat_call cs (seat h))(u_id u' \<mapsto> rid) = (seat h)(u_id u' \<mapsto> rid)"
        using k(4) g(3) by metis
      have "mirrors h (greet c rid u' k)" unfolding mirrors_def
      proof (intro conjI impI)
        show "h_has_media (greet c rid u' k) = h_has_media h" using k(1) g(4) by (simp add: greet_has_media)
        assume media: "h_has_media h"
        obtain nm lb where "h_media (greet c rid u' k) = h_media k @ [ParticipantJoined rid nm u' lb]"
          by (rule greet_media [OF k(3)]) (use k(1) g(4) media in auto)
        then show "\<exists>cs. h_media (greet c rid u' k) = h_media h @ cs \<and> fold seat_call cs (seat h) = seat (greet c rid u' k)"
          using cs seat by simp
      qed
      then show ?thesis by (simp add: Pair True)
    next
      case False
      then have "h_media k = h_media g" "h_has_media k = h_has_media g" "seat k = seat g"
        using Pair by (auto simp: enter_room_def Let_def seat_eq dest: join_error split: prod.splits option.splits)
      then show ?thesis using g False by (simp add: Pair mirrors_def)
    qed
  qed
  then show ?case by (simp add: u'_def g_def split: prod.splits bool.splits)
qed simp_all

lemma mirrors_removed:
  assumes "mgr_good (h_rooms h)" "room_of (h_rooms h) uid = Some rid"
  shows "mirrors h (announce_departure rid uid w (h\<lparr>h_rooms := snd (remove_from_any_room uid (h_rooms h))\<rparr>))"
  using departed [of "h\<lparr>h_rooms := snd (remove_from_any_room uid (h_rooms h))\<rparr>" h uid rid w]
    seat_removed [OF assms(1), of uid] by simp

lemma mirrors_detach_previous:
  assumes "mgr_good (h_rooms h)"
  shows "mirrors h (detach_previous E c uid h)"
  unfolding detach_previous_def Let_def
  by (intro mirrors_option mirrors_if) (auto simp: mirrors_removed [OF assms] split: option.split)

lemma mirrors_deliver_pending: "mirrors g h \<Longrightarrow> mirrors g (deliver_pending_notices c h)"
  using mirrors_trans quiet_mirrors [OF quiet_deliver_pending silent_deliver_pending] by blast

lemma mirrors_handle_authenticate:
  assumes "mgr_good (h_rooms h)"
  shows "mirrors h (handle_authenticate E c username password now h)"
proof -
  have "mirrors h (detach_previous E c uid (h\<lparr>h_auth := A\<rparr>))" for uid A
    using mirrors_trans [OF _ mirrors_detach_previous [of "h\<lparr>h_auth := A\<rparr>" E c uid], of h] assms by simp
  then show ?thesis unfolding handle_authenticate_def Let_def
    by (auto intro!: mirrors_deliver_pending split: prod.split sum.split)
qed

text \<open>What a frame, a closing connection or a heartbeat starts from.\<close>

abbreviation fresh_hub :: "hub \<Rightarrow> hub" where
  "fresh_hub h \<equiv> h\<lparr>h_out := [], h_media := [], h_fault := None\<rparr>"

lemma mirrors_on_disconnect:
  assumes good: "mgr_good (h_rooms h)"
  shows "mirrors (fresh_hub h) (on_disconnect E c h)"
proof -
  have removed: "mirrors (fresh_hub h) (announce_departure rid uid w
      (g\<lparr>h_rooms := snd (remove_from_any_room uid (h_rooms g))\<rparr>))"
    if "mirrors (fresh_hub h) g" "mgr_good (h_rooms g)" "room_of (h_rooms g) uid = Some rid" for g uid rid w
    using mirrors_trans [OF that(1) mirrors_removed [OF that(2,3)]] .
  show ?thesis unfolding on_disconnect_def Let_def
    by (intro mirrors_option mirrors_if) (auto simp: removed good split: if_splits)
qed

section \<open>The heartbeat\<close>

lemma mirrors_fold:
  assumes "\<And>x g. P g \<Longrightarrow> mirrors g (f x g) \<and> P (f x g)" "P h"
  shows "mirrors h (fold f xs h)"
  using assms(2) by (induction xs arbitrary: h) (use assms(1) mirrors_trans in fastforce)+

lemma mirrors_tick_connections:
  "mirrors g (fst x) \<Longrightarrow> mirrors g (fst (fold (tick_connection now) cs x))"
proof (induction cs arbitrary: x)
  case (Cons c cs)
  have "mirrors g (fst (tick_connection now c x))"
    using Cons.prems by (cases x) (auto simp: tick_connection_def Let_def split: option.split)
  from Cons.IH [OF this] show ?case by simp
qed simp

lemma mirrors_apply_restrictions:
  assumes "hub_safe h"
  shows "mirrors h (apply_restrictions_written_elsewhere E h)"
proof -
  have change: "mirrors g (apply_change E x g) \<and> hub_safe (apply_change E x g)" if "hub_safe g" for x g
    using that safe_good [OF that] safe_apply_change
    by (auto simp: apply_change_def mirrors_enforce split: option.split)
  have gone: "mirrors g (end_session_of E uid reason g) \<and> hub_safe (end_session_of E uid reason g)"
    if "hub_safe g" for uid reason g
    using that safe_good [OF that] safe_end_session_of mirrors_end_session_of by blast
  have requested: "mirrors g (apply_requested E uid g) \<and> hub_safe (apply_requested E uid g)" if "hub_safe g" for uid g
    using that safe_good [OF that] safe_apply_requested by (simp add: apply_requested_def Let_def mirrors_end_session_of)
  have "mirrors h (fold (apply_requested E) c (fold (\<lambda>uid. end_session_of E uid reason) b (fold (apply_change E) a h)))"
    for a b c reason
  proof -
    have a: "hub_safe (fold (apply_change E) a h)" by (intro safe_fold safe_apply_change assms)
    have b: "hub_safe (fold (\<lambda>uid. end_session_of E uid reason) b (fold (apply_change E) a h))"
      by (intro safe_fold safe_end_session_of a)
    show ?thesis
      using mirrors_fold [of hub_safe "apply_change E", OF change assms]
        mirrors_fold [of hub_safe "\<lambda>uid. end_session_of E uid reason", OF gone a]
        mirrors_fold [of hub_safe "apply_requested E", OF requested b] mirrors_trans by blast
  qed
  then show ?thesis
    unfolding apply_restrictions_written_elsewhere_def Let_def by (intro mirrors_if) simp_all
qed

lemma mirrors_tick:
  assumes "hub_safe h"
  shows "mirrors (fresh_hub h) (snd (tick E now h))"
proof -
  obtain h1 t a where f: "fold (tick_connection now) (map fst (h_connections (fresh_hub h))) (fresh_hub h, [], []) = (h1, t, a)"
    by (metis prod_cases3)
  have "hub_safe (fresh_hub h)" using assms by (simp add: safe_fresh)
  then have h1: "mirrors (fresh_hub h) h1" "hub_safe h1"
    using mirrors_tick_connections [of "fresh_hub h" "(fresh_hub h, [], [])" now "map fst (h_connections (fresh_hub h))"]
      safe_tick_connections [of "(fresh_hub h, [], [])" now "map fst (h_connections (fresh_hub h))"]
    by (simp_all only: f fst_conv mirrors_refl)
  define h2 where "h2 = (h1\<lparr>h_sessions := snd (sessions_touch (e_wall E) a (h_sessions h1))\<rparr>)"
  define h3 where "h3 = h2\<lparr>h_auth := expire_tokens now (h_auth h2)\<rparr>"
  have "hub_safe h2" unfolding h2_def by (rule safe_quiet [OF h1(2) quiet_other_stores(1)])
  then have h3: "hub_safe h3"
    by (rule safe_quiet) (auto simp: h3_def quiet_def auth_views token_owners_def expire_tokens_def)
  have "mirrors (fresh_hub h) h3" using h1(1) by (simp add: h3_def h2_def)
  then have "mirrors (fresh_hub h) (apply_restrictions_written_elsewhere E h3)"
    using mirrors_apply_restrictions [OF h3] mirrors_trans by blast
  then have "mirrors (fresh_hub h) (deliver_notices_written_elsewhere (apply_restrictions_written_elsewhere E h3))"
    unfolding deliver_notices_written_elsewhere_def
    by (rule mirrors_trans) (rule mirrors_fold [where P = "\<lambda>_. True"], simp_all add: mirrors_deliver_pending)
  then show ?thesis unfolding tick_def Let_def f prod.case snd_conv h2_def [symmetric] h3_def [symmetric] .
qed

section \<open>Frames\<close>

lemma mirrors_dispatch:
  assumes "mgr_good (h_rooms h)"
  shows "mirrors h (dispatch E c now m h)"
  using assms
  by (cases m) (simp_all add: mirrors_handlers mirrors_accounts mirrors_handle_authenticate mirrors_handle_join_room
      mirrors_handle_leave_room mirrors_handle_change_password mirrors_handle_kick mirrors_handle_restrict_user
      mirrors_handle_delete_user mirrors_handle_delete_room mirrors_handle_end_session)

lemma mirrors_handle_frame:
  assumes "mgr_good (h_rooms h)"
  shows "mirrors h (handle_frame E c m now h)"
proof -
  have "mirrors h (dispatch E c now m (upd_user c f h))" for f
    using mirrors_trans [OF _ mirrors_dispatch [of "upd_user c f h" E c now m], of h] assms by simp
  then show ?thesis unfolding handle_frame_def Let_def
    using mirrors_dispatch [OF assms] by (auto split: access.split option.split)
qed

lemma mirrors_on_message:
  assumes "mgr_good (h_rooms h)"
  shows "mirrors (fresh_hub h) (on_message E c parsed now h)"
proof -
  let ?h1 = "upd_connection c (\<lambda>s. s\<lparr>cn_last_seen := now\<rparr>) (fresh_hub h)"
  have "mirrors (fresh_hub h) (handle_frame E c m now ?h1)" for m
    using mirrors_trans [OF _ mirrors_handle_frame [of ?h1 E c m now], of "fresh_hub h"] assms by simp
  then show ?thesis unfolding on_message_def Let_def by (auto split: sum.split)
qed

text \<open>The calls one event makes: a new connection makes none, and leaves those of the last frame listed.\<close>

fun calls_made :: "event \<Rightarrow> hub \<Rightarrow> media_call list" where
  "calls_made (Connected c addr now) h' = []"
| "calls_made (WrittenElsewhere s) h' = []"
| "calls_made _ h' = h_media h'"

lemma step_mirrored:
  assumes "hub_safe h" "served e" "h_has_media h"
  shows "h_has_media (hub_step (E, e) h)
    \<and> fold seat_call (calls_made e (hub_step (E, e) h)) (seat h) = seat (hub_step (E, e) h)"
proof -
  note good = safe_good [OF assms(1)]
  have fresh: "seat (fresh_hub h) = seat h" "h_has_media (fresh_hub h)" using assms(3) by (simp_all add: seat_eq)
  have from_fresh: "h_has_media h' \<and> fold seat_call (h_media h') (seat h) = seat h'" if "mirrors (fresh_hub h) h'" for h'
    using that fresh by (auto simp: mirrors_def)
  show ?thesis
  proof (cases e)
    case (Connected c addr now)
    then show ?thesis using assms(3) by (simp add: on_connect_def seat_eq)
  next
    case (Frame c parsed now)
    then show ?thesis using from_fresh [OF mirrors_on_message [OF good]] by simp
  next
    case (Disconnected c)
    then show ?thesis using from_fresh [OF mirrors_on_disconnect [OF good]] by simp
  next
    case (Heartbeat now)
    then show ?thesis using from_fresh [OF mirrors_tick [OF assms(1)]] by simp
  qed (use assms(2) in \<open>simp add: served_def\<close>)
qed

end
