(* ===== verification/MediaRouter.thy ===== *)
theory MediaRouter
  imports VideoFeedback VideoStitcher Protocol "HOL-Library.AList"
begin

text \<open>
  The forwarding unit of the server, \<open>server/src/sfu/media_router.{hpp,cpp}\<close>: one session with one
  connection per participant, the tracks that carry everybody else to them, the table packets are
  forwarded by and the cap the viewers put on a share. libdatachannel is a parameter: what it answers is
  a record of functions, what is asked of it a list of calls, what it reports an event. A call under
  the router's mutex is one step; the order in which a hash map is walked is the order of a list.
\<close>

section \<open>What libdatachannel is asked and answers\<close>

text \<open>A connection is known by when it was made, a track by its connection and its mid.\<close>

type_synonym track = "nat \<times> nat"

record rtc_configuration =
  cg_ice_servers :: "string list"
  cg_port_range :: "(nat \<times> nat) option"

datatype track_description =
    ReceiveAudio "description_call list"
  | SendAudio "description_call list" "32 word" string
  | ReceiveVideo int
  | SendVideo int "32 word"

datatype rtc_call =
    NewConnection nat rtc_configuration
  | AddTrack track track_description
  | CloseTrack track
  | CloseConnection nat
  | MakeOffer nat
  | TakeAnswer nat string
  | TakeCandidate nat string string
  | RequestKeyframe track
  | TellClient string message

record rtc_answers =
  an_usable_server :: "string \<Rightarrow> bool"
  an_codec_found :: bool
  an_open :: "track \<Rightarrow> bool"
  an_stable :: "nat \<Rightarrow> bool"
  an_offered :: "nat \<Rightarrow> bool"
  an_keyframe_asked :: "track \<Rightarrow> bool"

text \<open>What is read from and written to the header of a packet.\<close>

record 'p packet_library =
  pl_is_rtcp :: "'p \<Rightarrow> bool"
  pl_size :: "'p \<Rightarrow> nat"
  pl_header_size :: nat
  pl_padding :: "'p \<Rightarrow> bool"
  pl_payload_type :: "'p \<Rightarrow> int"
  pl_sequence :: "'p \<Rightarrow> 16 word"
  pl_timestamp :: "'p \<Rightarrow> 32 word"
  pl_set_ssrc :: "32 word \<Rightarrow> 'p \<Rightarrow> 'p"
  pl_set_payload_type :: "int \<Rightarrow> 'p \<Rightarrow> 'p"
  pl_set_sequence :: "16 word \<Rightarrow> 'p \<Rightarrow> 'p"
  pl_set_timestamp :: "32 word \<Rightarrow> 'p \<Rightarrow> 'p"

section \<open>State\<close>

record router_options =
  op_ice_servers :: "string list"
  op_port_range_begin :: nat
  op_port_range_end :: nat
  op_opus_payload_type :: int
  op_opus_max_bitrate_kbps :: int
  op_red_payload_type :: "int option"
  op_audio_nack :: bool
  op_audio_adaptive :: bool
  op_audio_adaptive_min_kbps :: int
  op_h264_payload_type :: int
  op_bandwidth :: bandwidth_options
  op_bandwidth_defaults :: bandwidth_options

text \<open>The last field stands for the defaults of \<open>BandwidthEstimator::Options\<close>, doubles that depend on \<open>fl\<close>.\<close>

definition default_router_options :: "(real \<Rightarrow> real) \<Rightarrow> router_options" where
  "default_router_options fl = \<lparr>op_ice_servers = [], op_port_range_begin = 0, op_port_range_end = 0,
     op_opus_payload_type = 111, op_opus_max_bitrate_kbps = 128, op_red_payload_type = Some 63,
     op_audio_nack = True, op_audio_adaptive = False, op_audio_adaptive_min_kbps = 16,
     op_h264_payload_type = 96, op_bandwidth = default_bandwidth_options fl,
     op_bandwidth_defaults = default_bandwidth_options fl\<rparr>"

text \<open>Objects held by shared pointers are numbered: stitchers, repairs and feedbacks.\<close>

record outbound =
  ob_track :: track
  ob_ssrc :: "32 word"
  ob_payload_type :: int
  ob_stitcher :: "nat option"

record rtc_route =
  to_room_id :: string
  to_room_label :: string
  to_user_label :: string
  to_audio :: "outbound list"
  to_video :: "outbound list"

record routing_table =
  tb_by_source :: "(string, rtc_route) hash_map"
  tb_video_inbound :: "string \<Rightarrow> track list"
  tb_video_feedback :: "string \<Rightarrow> nat list"

record media_session =
  sn_room_id :: string
  sn_user_label :: string
  sn_room_label :: string
  sn_connection :: nat
  sn_inbound :: track
  sn_audio_repair :: "nat option"
  sn_audio_feedback :: "nat option"
  sn_outbound :: "(string, outbound) hash_map"
  sn_video_inbound :: "track option"
  sn_video_outbound :: "outbound option"
  sn_video_feedback :: "nat option"
  sn_next_mid :: nat
  sn_renegotiation_pending :: bool

datatype task = Deliver string message | Renegotiate string

text \<open>\<open>next_ssrc_\<close> is counted here without end and used in 32 bits.\<close>

record router =
  rt_options :: router_options
  rt_sessions :: "(string, media_session) hash_map"
  rt_next_ssrc :: nat
  rt_routes :: routing_table
  rt_tasks :: "task list"
  rt_has_handler :: bool
  rt_stopping :: bool
  rt_audio_packets_received :: nat
  rt_audio_packets_forwarded :: nat
  rt_audio_red_packets_received :: nat
  rt_audio_nacks_received :: nat
  rt_video_packets_received :: nat
  rt_video_packets_forwarded :: nat
  rt_keyframe_requests_forwarded :: nat
  rt_viewer_bandwidth_kbps :: "(string, int) hash_map"
  rt_viewer_room :: "(string, string) hash_map"
  rt_sharer_by_room :: "(string, string) hash_map"
  rt_viewer_reports_received :: nat
  rt_viewer_ceiling_kbps :: int
  rt_next_connection :: nat
  rt_next_object :: nat
  rt_stitchers :: "nat \<Rightarrow> stitcher"
  rt_repairs :: "nat \<Rightarrow> loss_repair"
  rt_feedbacks :: "nat \<Rightarrow> video_feedback"
  rt_calls :: "rtc_call list"

definition empty_table :: routing_table where
  "empty_table = \<lparr>tb_by_source = [], tb_video_inbound = (\<lambda>_. []), tb_video_feedback = (\<lambda>_. [])\<rparr>"

definition default_feedback_options :: feedback_options where
  "default_feedback_options = \<lparr>fo_repair = default_repair_options, fo_bandwidth_interval = milliseconds 1000\<rparr>"

definition new_router :: "router_options \<Rightarrow> router" where
  "new_router options =
     \<lparr>rt_options = options, rt_sessions = [], rt_next_ssrc = 1, rt_routes = empty_table, rt_tasks = [],
      rt_has_handler = False, rt_stopping = False,
      rt_audio_packets_received = 0, rt_audio_packets_forwarded = 0, rt_audio_red_packets_received = 0,
      rt_audio_nacks_received = 0, rt_video_packets_received = 0, rt_video_packets_forwarded = 0,
      rt_keyframe_requests_forwarded = 0, rt_viewer_bandwidth_kbps = [], rt_viewer_room = [],
      rt_sharer_by_room = [], rt_viewer_reports_received = 0, rt_viewer_ceiling_kbps = 0,
      rt_next_connection = 0, rt_next_object = 0, rt_stitchers = (\<lambda>_. new_stitcher),
      rt_repairs = (\<lambda>_. new_loss_repair),
      rt_feedbacks = (\<lambda>_. new_video_feedback default_feedback_options (op_bandwidth options)),
      rt_calls = []\<rparr>"

definition ask :: "rtc_call \<Rightarrow> router \<Rightarrow> router" where
  "ask call r = r\<lparr>rt_calls := rt_calls r @ [call]\<rparr>"

definition find_session :: "router \<Rightarrow> string \<Rightarrow> media_session option" where
  "find_session r uid = map_of (rt_sessions r) uid"

definition set_session :: "string \<Rightarrow> media_session \<Rightarrow> router \<Rightarrow> router" where
  "set_session uid s r = r\<lparr>rt_sessions := AList.update uid s (rt_sessions r)\<rparr>"

section \<open>Small parts\<close>

definition router_audio_codecs :: "router_options \<Rightarrow> audio_codecs" where
  "router_audio_codecs options =
     \<lparr>ac_opus_payload_type = op_opus_payload_type options,
      ac_opus_max_bitrate_kbps = op_opus_max_bitrate_kbps options,
      ac_red_payload_type = op_red_payload_type options, ac_nack = op_audio_nack options\<rparr>"

definition make_configuration :: "rtc_answers \<Rightarrow> router_options \<Rightarrow> rtc_configuration" where
  "make_configuration A options =
     \<lparr>cg_ice_servers = filter (\<lambda>s. s \<noteq> [] \<and> an_usable_server A s) (op_ice_servers options),
      cg_port_range =
        (if op_port_range_begin options \<noteq> 0 \<and> op_port_range_end options \<noteq> 0
         then Some (op_port_range_begin options, op_port_range_end options) else None)\<rparr>"

definition post :: "task \<Rightarrow> router \<Rightarrow> router" where
  "post t r = r\<lparr>rt_tasks := rt_tasks r @ [t]\<rparr>"

definition enqueue :: "string \<Rightarrow> message \<Rightarrow> router \<Rightarrow> router" where
  "enqueue uid m r = post (Deliver uid m) r"

definition on_signal :: "router \<Rightarrow> router" where
  "on_signal r = r\<lparr>rt_has_handler := True\<rparr>"

definition negotiate :: "rtc_answers \<Rightarrow> string \<Rightarrow> router \<Rightarrow> router" where
  "negotiate A uid r =
     (case find_session r uid of
        None \<Rightarrow> r
      | Some s \<Rightarrow>
          if \<not> sn_renegotiation_pending s \<and> an_offered A (sn_connection s) then r
          else if \<not> an_stable A (sn_connection s)
          then set_session uid (s\<lparr>sn_renegotiation_pending := True\<rparr>) r
          else ask (MakeOffer (sn_connection s)) (set_session uid (s\<lparr>sn_renegotiation_pending := False\<rparr>) r))"

section \<open>The table\<close>

definition route_of :: "(string, media_session) hash_map \<Rightarrow> string \<Rightarrow> media_session \<Rightarrow> rtc_route" where
  "route_of sessions uid s =
     (let others = filter (\<lambda>(other, t). other \<noteq> uid \<and> sn_room_id t = sn_room_id s) sessions
      in \<lparr>to_room_id = sn_room_id s, to_room_label = sn_room_label s, to_user_label = sn_user_label s,
          to_audio = List.map_filter (\<lambda>(other, t). map_of (sn_outbound t) uid) others,
          to_video = List.map_filter (\<lambda>(other, t). sn_video_outbound t) others\<rparr>)"

definition table_of :: "(string, media_session) hash_map \<Rightarrow> routing_table" where
  "table_of sessions =
     \<lparr>tb_by_source = map (\<lambda>(uid, s). (uid, route_of sessions uid s)) sessions,
      tb_video_inbound = (\<lambda>rid. List.map_filter (\<lambda>(uid, s). sn_video_inbound s)
        (filter (\<lambda>(uid, s). sn_room_id s = rid) sessions)),
      tb_video_feedback = (\<lambda>rid. List.map_filter (\<lambda>(uid, s). sn_video_feedback s)
        (filter (\<lambda>(uid, s). sn_room_id s = rid) sessions))\<rparr>"

definition publish_routes :: "router \<Rightarrow> router" where
  "publish_routes r = r\<lparr>rt_routes := table_of (rt_sessions r)\<rparr>"

section \<open>The cap of the viewers\<close>

definition smallest_viewer_report :: "router \<Rightarrow> string \<Rightarrow> int" where
  "smallest_viewer_report r rid =
     fold (\<lambda>(viewer, kbps) smallest.
         if map_of (rt_viewer_room r) viewer \<noteq> Some rid then smallest
         else if smallest = 0 then kbps else min smallest kbps)
       (rt_viewer_bandwidth_kbps r) 0"

definition apply_viewer_ceiling :: "string \<Rightarrow> int \<Rightarrow> router \<Rightarrow> router" where
  "apply_viewer_ceiling rid kbps r =
     r\<lparr>rt_feedbacks := fold (\<lambda>i f. f(i := set_bandwidth_ceiling kbps (f i)))
         (tb_video_feedback (rt_routes r) rid) (rt_feedbacks r)\<rparr>"

definition forget_viewer_bandwidth :: "string \<Rightarrow> router \<Rightarrow> router" where
  "forget_viewer_bandwidth viewer r =
     (case map_of (rt_viewer_room r) viewer of
        None \<Rightarrow> r
      | Some rid \<Rightarrow>
          (let r = r\<lparr>rt_viewer_room := AList.delete viewer (rt_viewer_room r),
                     rt_viewer_bandwidth_kbps := AList.delete viewer (rt_viewer_bandwidth_kbps r)\<rparr>;
               smallest = smallest_viewer_report r rid
           in apply_viewer_ceiling rid smallest (r\<lparr>rt_viewer_ceiling_kbps := smallest\<rparr>)))"

text \<open>\<open>bitrate_bps\<close> is an unsigned int of 32 bits, so the division fits an int.\<close>

definition note_viewer_bandwidth :: "string \<Rightarrow> string \<Rightarrow> nat \<Rightarrow> router \<Rightarrow> router" where
  "note_viewer_bandwidth viewer rid bitrate_bps r =
     (let kbps = int (bitrate_bps div 1000)
      in if kbps \<le> 0 \<or> map_of (rt_sharer_by_room r) rid = Some viewer then r
         else
          (let r = r\<lparr>rt_viewer_bandwidth_kbps := AList.update viewer kbps (rt_viewer_bandwidth_kbps r),
                     rt_viewer_room := AList.update viewer rid (rt_viewer_room r)\<rparr>;
               smallest = smallest_viewer_report r rid;
               r = r\<lparr>rt_viewer_ceiling_kbps := smallest,
                     rt_viewer_reports_received := rt_viewer_reports_received r + 1\<rparr>
           in apply_viewer_ceiling rid smallest r))"

section \<open>Joining and leaving\<close>

definition add_outbound_track :: "rtc_answers \<Rightarrow> string \<Rightarrow> string \<Rightarrow> router \<Rightarrow> router" where
  "add_outbound_track A uid source r =
     (case find_session r uid of
        None \<Rightarrow> r
      | Some s \<Rightarrow>
          if map_of (sn_outbound s) source \<noteq> None then r
          else
           (let ssrc = of_nat (rt_next_ssrc r);
                track = (sn_connection s, sn_next_mid s);
                codecs = add_audio_codecs (an_codec_found A) (router_audio_codecs (rt_options r));
                out = \<lparr>ob_track = track, ob_ssrc = ssrc,
                       ob_payload_type = op_opus_payload_type (rt_options r), ob_stitcher = None\<rparr>
            in set_session uid
                 (s\<lparr>sn_next_mid := sn_next_mid s + 1,
                    sn_outbound := AList.update source out (sn_outbound s),
                    sn_renegotiation_pending := True\<rparr>)
                 (ask (AddTrack track (SendAudio codecs ssrc source))
                   (r\<lparr>rt_next_ssrc := rt_next_ssrc r + 1\<rparr>))))"

definition video_outbound_track :: "router \<Rightarrow> nat \<Rightarrow> nat \<Rightarrow> outbound" where
  "video_outbound_track r mid stitcher =
     \<lparr>ob_track = (rt_next_connection r, mid), ob_ssrc = of_nat (rt_next_ssrc r),
      ob_payload_type = op_h264_payload_type (rt_options r), ob_stitcher = Some stitcher\<rparr>"

text \<open>The session of a newcomer, before it knows of anybody.\<close>

definition new_media_session :: "router \<Rightarrow> string \<Rightarrow> string \<Rightarrow> string \<Rightarrow> media_session" where
  "new_media_session r rid room_name label =
     (let c = rt_next_connection r; i = rt_next_object r; options = rt_options r
      in \<lparr>sn_room_id = rid, sn_user_label = label, sn_room_label = room_name, sn_connection = c,
          sn_inbound = (c, 0),
          sn_audio_repair = (if \<not> op_audio_adaptive options \<and> op_audio_nack options then Some i else None),
          sn_audio_feedback = (if op_audio_adaptive options then Some i else None),
          sn_outbound = [], sn_video_inbound = Some (c, 1),
          sn_video_outbound = Some (video_outbound_track r 2 i),
          sn_video_feedback = Some (i + 1), sn_next_mid = 3, sn_renegotiation_pending = True\<rparr>)"

definition audio_feedback_bandwidth :: "router_options \<Rightarrow> bandwidth_options" where
  "audio_feedback_bandwidth options =
     (op_bandwidth_defaults options)\<lparr>bo_start_kbps := op_opus_max_bitrate_kbps options,
       bo_min_kbps := op_audio_adaptive_min_kbps options, bo_max_kbps := op_opus_max_bitrate_kbps options\<rparr>"

text \<open>Under the lock: the connection with its tracks and handlers, and nobody wired to it yet. The key is
  not there any more, so \<open>emplace\<close> inserts.\<close>

definition create_session :: "rtc_answers \<Rightarrow> string \<Rightarrow> string \<Rightarrow> string \<Rightarrow> string \<Rightarrow> router \<Rightarrow> router" where
  "create_session A rid room_name uid label r =
     (let c = rt_next_connection r; i = rt_next_object r; options = rt_options r;
          s = new_media_session r rid room_name label;
          ssrc = of_nat (rt_next_ssrc r)
      in r\<lparr>rt_next_connection := c + 1, rt_next_object := i + 2, rt_next_ssrc := rt_next_ssrc r + 1,
           rt_stitchers := (rt_stitchers r)(i := new_stitcher),
           rt_repairs := (rt_repairs r)(i := new_loss_repair),
           rt_feedbacks := (rt_feedbacks r)
             (i := new_video_feedback default_feedback_options (audio_feedback_bandwidth options),
              i + 1 := new_video_feedback default_feedback_options (op_bandwidth options)),
           rt_sessions := AList.update uid s (rt_sessions r),
           rt_calls := rt_calls r @
             [NewConnection c (make_configuration A options),
              AddTrack (c, 0) (ReceiveAudio (add_audio_codecs (an_codec_found A) (router_audio_codecs options))),
              AddTrack (c, 1) (ReceiveVideo (op_h264_payload_type options)),
              AddTrack (c, 2) (SendVideo (op_h264_payload_type options) ssrc)]\<rparr>)"

definition wire :: "rtc_answers \<Rightarrow> string \<Rightarrow> string \<Rightarrow> string \<Rightarrow> router \<Rightarrow> router" where
  "wire A uid rid other r =
     (case find_session r other of
        None \<Rightarrow> r
      | Some t \<Rightarrow>
          if other = uid \<or> sn_room_id t \<noteq> rid then r
          else negotiate A other (add_outbound_track A other uid (add_outbound_track A uid other r)))"

definition replace_session :: "string \<Rightarrow> router \<Rightarrow> router" where
  "replace_session uid r =
     (case find_session r uid of
        None \<Rightarrow> r
      | Some s \<Rightarrow>
          forget_viewer_bandwidth uid
            (ask (CloseConnection (sn_connection s))
              (r\<lparr>rt_sessions := AList.delete uid (rt_sessions r)\<rparr>)))"

definition on_participant_joined ::
    "rtc_answers \<Rightarrow> string \<Rightarrow> string \<Rightarrow> string \<Rightarrow> string \<Rightarrow> router \<Rightarrow> router" where
  "on_participant_joined A rid room_name uid label r =
     (let r = replace_session uid r;
          r = create_session A rid room_name uid label r;
          r = fold (wire A uid rid) (map fst (rt_sessions r)) r
      in negotiate A uid (publish_routes r))"

definition unwire :: "rtc_answers \<Rightarrow> string \<Rightarrow> string \<Rightarrow> string \<Rightarrow> router \<Rightarrow> router" where
  "unwire A uid rid other r =
     (case find_session r other of
        None \<Rightarrow> r
      | Some t \<Rightarrow>
          if sn_room_id t \<noteq> rid then r
          else (case map_of (sn_outbound t) uid of
              None \<Rightarrow> r
            | Some out \<Rightarrow>
                negotiate A other
                  (set_session other (t\<lparr>sn_outbound := AList.delete uid (sn_outbound t)\<rparr>)
                    (ask (CloseTrack (ob_track out)) r))))"

definition on_participant_left :: "rtc_answers \<Rightarrow> string \<Rightarrow> string \<Rightarrow> router \<Rightarrow> router" where
  "on_participant_left A rid uid r =
     (case find_session r uid of
        None \<Rightarrow> r
      | Some s \<Rightarrow>
         (let r = r\<lparr>rt_sessions := AList.delete uid (rt_sessions r)\<rparr>;
              r = fold (unwire A uid rid) (map fst (rt_sessions r)) r;
              r = ask (CloseConnection (sn_connection s)) (publish_routes r);
              r = (if map_of (rt_sharer_by_room r) rid = Some uid
                   then r\<lparr>rt_sharer_by_room := AList.delete rid (rt_sharer_by_room r)\<rparr> else r)
          in forget_viewer_bandwidth uid r))"

definition on_screen_share_started :: "string \<Rightarrow> string \<Rightarrow> router \<Rightarrow> router" where
  "on_screen_share_started rid uid r =
     forget_viewer_bandwidth uid (r\<lparr>rt_sharer_by_room := AList.update rid uid (rt_sharer_by_room r)\<rparr>)"

text \<open>A description or a candidate that libdatachannel rejects throws, is logged and changes nothing here.\<close>

definition on_media_signal :: "string \<Rightarrow> string \<Rightarrow> message \<Rightarrow> router \<Rightarrow> router" where
  "on_media_signal rid from_uid m r =
     (case find_session r from_uid of
        None \<Rightarrow> r
      | Some s \<Rightarrow>
          if sn_room_id s \<noteq> rid then r
          else (case m of
              Answer _ _ _ sdp \<Rightarrow> ask (TakeAnswer (sn_connection s) sdp) r
            | IceCandidate _ _ _ candidate mid _ \<Rightarrow> ask (TakeCandidate (sn_connection s) candidate mid) r
            | _ \<Rightarrow> r))"

text \<open>The destructor, once its thread has drained the queue and stopped.\<close>

definition shut_down :: "router \<Rightarrow> router" where
  "shut_down r =
     fold (\<lambda>(uid, s). ask (CloseConnection (sn_connection s))) (rt_sessions r)
       (r\<lparr>rt_stopping := True, rt_sessions := []\<rparr>)"

section \<open>What libdatachannel reports\<close>

definition on_sfu_description :: "string \<Rightarrow> string \<Rightarrow> bool \<Rightarrow> string \<Rightarrow> router \<Rightarrow> router" where
  "on_sfu_description uid rid is_offer sdp r =
     (if is_offer then enqueue uid (Offer rid kSfuUserId uid sdp) r else r)"

definition on_sfu_candidate :: "string \<Rightarrow> string \<Rightarrow> string \<Rightarrow> string \<Rightarrow> router \<Rightarrow> router" where
  "on_sfu_candidate uid rid candidate mid r =
     enqueue uid (IceCandidate rid kSfuUserId uid candidate mid 0) r"

definition on_signaling_state :: "string \<Rightarrow> bool \<Rightarrow> router \<Rightarrow> router" where
  "on_signaling_state uid is_stable r = (if is_stable then post (Renegotiate uid) r else r)"

definition on_audio_nack :: "router \<Rightarrow> router" where
  "on_audio_nack r = r\<lparr>rt_audio_nacks_received := rt_audio_nacks_received r + 1\<rparr>"

definition request_keyframe_from_sharer :: "rtc_answers \<Rightarrow> string \<Rightarrow> router \<Rightarrow> router" where
  "request_keyframe_from_sharer A rid r =
     fold (\<lambda>t r.
         if \<not> an_open A t then r
         else (let r = ask (RequestKeyframe t) r
               in if an_keyframe_asked A t
                  then r\<lparr>rt_keyframe_requests_forwarded := rt_keyframe_requests_forwarded r + 1\<rparr> else r))
       (tb_video_inbound (rt_routes r) rid) r"

text \<open>One turn of the worker: what the task does when it is not thrown out of. A handler is there or
  not; what it does with the frame is the transport's.\<close>

definition run_task :: "rtc_answers \<Rightarrow> task \<Rightarrow> router \<Rightarrow> router" where
  "run_task A t r =
     (case t of
        Deliver uid m \<Rightarrow> if rt_has_handler r then ask (TellClient uid m) r else r
      | Renegotiate uid \<Rightarrow>
          (case find_session r uid of
             None \<Rightarrow> r
           | Some s \<Rightarrow> if sn_renegotiation_pending s then negotiate A uid r else r))"

definition worker_turn :: "rtc_answers \<Rightarrow> router \<Rightarrow> router" where
  "worker_turn A r = (case rt_tasks r of [] \<Rightarrow> r | t # ts \<Rightarrow> run_task A t (r\<lparr>rt_tasks := ts\<rparr>))"

section \<open>Forwarding\<close>

definition not_forwarded :: "'p packet_library \<Rightarrow> 'p \<Rightarrow> bool" where
  "not_forwarded L p \<longleftrightarrow> pl_is_rtcp L p \<or> pl_size L p < pl_header_size L \<or> pl_padding L p"

definition forward_audio ::
    "'p packet_library \<Rightarrow> rtc_answers \<Rightarrow> string \<Rightarrow> string \<Rightarrow> 'p \<Rightarrow> router \<Rightarrow> (track \<times> 'p) list \<times> router" where
  "forward_audio L A from_uid rid p r =
     (if not_forwarded L p then ([], r)
      else
       (let r = r\<lparr>rt_audio_packets_received := rt_audio_packets_received r + 1,
                 rt_audio_red_packets_received := rt_audio_red_packets_received r +
                   (if op_red_payload_type (rt_options r) = Some (pl_payload_type L p) then 1 else 0)\<rparr>
        in case map_of (tb_by_source (rt_routes r)) from_uid of
             None \<Rightarrow> ([], r)
           | Some route \<Rightarrow>
               if to_room_id route \<noteq> rid then ([], r)
               else
                (let sent = map (\<lambda>d. (ob_track d, pl_set_ssrc L (ob_ssrc d) p))
                              (filter (\<lambda>d. an_open A (ob_track d)) (to_audio route))
                 in (sent, r\<lparr>rt_audio_packets_forwarded := rt_audio_packets_forwarded r + length sent\<rparr>))))"

definition rewrite_video ::
    "'p packet_library \<Rightarrow> string \<Rightarrow> 'p \<Rightarrow> outbound \<Rightarrow> (nat \<Rightarrow> stitcher) \<Rightarrow> 'p \<times> (nat \<Rightarrow> stitcher)" where
  "rewrite_video L from_uid p d stitchers =
     (let copy = pl_set_payload_type L (ob_payload_type d mod 256) (pl_set_ssrc L (ob_ssrc d) p)
      in case ob_stitcher d of
           None \<Rightarrow> (copy, stitchers)
         | Some i \<Rightarrow>
             (let (w, st) = rewrite_packet from_uid (pl_sequence L p) (pl_timestamp L p) (stitchers i)
              in (pl_set_timestamp L (rw_timestamp w) (pl_set_sequence L (rw_sequence w) copy),
                  stitchers(i := st))))"

fun send_video ::
    "'p packet_library \<Rightarrow> rtc_answers \<Rightarrow> string \<Rightarrow> 'p \<Rightarrow> outbound list \<Rightarrow> (nat \<Rightarrow> stitcher)
      \<Rightarrow> (track \<times> 'p) list \<times> (nat \<Rightarrow> stitcher)" where
  "send_video L A from_uid p [] stitchers = ([], stitchers)"
| "send_video L A from_uid p (d # ds) stitchers =
     (if \<not> an_open A (ob_track d) then send_video L A from_uid p ds stitchers
      else (let (copy, stitchers) = rewrite_video L from_uid p d stitchers;
                (sent, stitchers) = send_video L A from_uid p ds stitchers
            in ((ob_track d, copy) # sent, stitchers)))"

definition forward_video ::
    "'p packet_library \<Rightarrow> rtc_answers \<Rightarrow> string \<Rightarrow> string \<Rightarrow> 'p \<Rightarrow> router \<Rightarrow> (track \<times> 'p) list \<times> router" where
  "forward_video L A from_uid rid p r =
     (if not_forwarded L p then ([], r)
      else
       (let r = r\<lparr>rt_video_packets_received := rt_video_packets_received r + 1\<rparr>
        in case map_of (tb_by_source (rt_routes r)) from_uid of
             None \<Rightarrow> ([], r)
           | Some route \<Rightarrow>
               if to_room_id route \<noteq> rid then ([], r)
               else
                (let (sent, stitchers) = send_video L A from_uid p (to_video route) (rt_stitchers r)
                 in (sent, r\<lparr>rt_stitchers := stitchers,
                           rt_video_packets_forwarded := rt_video_packets_forwarded r + length sent\<rparr>))))"

section \<open>What is measured\<close>

definition session_count :: "router \<Rightarrow> nat" where
  "session_count r = length (rt_sessions r)"

definition outbound_track_count :: "router \<Rightarrow> string \<Rightarrow> nat" where
  "outbound_track_count r uid = (case find_session r uid of None \<Rightarrow> 0 | Some s \<Rightarrow> length (sn_outbound s))"

definition has_video_tracks :: "router \<Rightarrow> string \<Rightarrow> bool" where
  "has_video_tracks r uid = (case find_session r uid of None \<Rightarrow> False
     | Some s \<Rightarrow> sn_video_inbound s \<noteq> None \<and> sn_video_outbound s \<noteq> None)"

record repair_stats =
  rp_requests_sent :: nat
  rp_packets_missing :: nat
  rp_packets_repaired :: nat
  rp_bandwidth_reports_sent :: nat
  rp_target_kbps :: int

definition add_repair :: "loss_repair \<Rightarrow> repair_stats \<Rightarrow> repair_stats" where
  "add_repair l t = t\<lparr>rp_requests_sent := rp_requests_sent t + lr_requests_sent l,
     rp_packets_missing := rp_packets_missing t + lr_packets_missing l,
     rp_packets_repaired := rp_packets_repaired t + lr_packets_repaired l\<rparr>"

definition add_feedback :: "video_feedback \<Rightarrow> repair_stats \<Rightarrow> repair_stats" where
  "add_feedback v t = (add_repair (vf_repair v) t)\<lparr>
     rp_bandwidth_reports_sent := rp_bandwidth_reports_sent t + vf_bandwidth_reports_sent v,
     rp_target_kbps := max (rp_target_kbps t) (vf_target_kbps v)\<rparr>"

definition no_repairs :: repair_stats where
  "no_repairs = \<lparr>rp_requests_sent = 0, rp_packets_missing = 0, rp_packets_repaired = 0,
     rp_bandwidth_reports_sent = 0, rp_target_kbps = 0\<rparr>"

definition audio_repair_stats :: "router \<Rightarrow> repair_stats" where
  "audio_repair_stats r =
     fold (\<lambda>(uid, s) t. case sn_audio_repair s of
           Some i \<Rightarrow> add_repair (rt_repairs r i) t
         | None \<Rightarrow> (case sn_audio_feedback s of Some i \<Rightarrow> add_feedback (rt_feedbacks r i) t | None \<Rightarrow> t))
       (rt_sessions r) no_repairs"

text \<open>With the reports and the cap of the viewers beside it.\<close>

definition video_repair_stats :: "router \<Rightarrow> repair_stats \<times> nat \<times> int" where
  "video_repair_stats r =
     (fold (\<lambda>(uid, s) t. case sn_video_feedback s of
          None \<Rightarrow> t
        | Some i \<Rightarrow> (let v = rt_feedbacks r i
                     in (add_repair (vf_repair v) t)\<lparr>rp_target_kbps := max (rp_target_kbps t) (vf_target_kbps v)\<rparr>))
        (rt_sessions r) no_repairs,
      rt_viewer_reports_received r, rt_viewer_ceiling_kbps r)"

end
