(* ===== verification/MediaRouterProofs.thy ===== *)
theory MediaRouterProofs
  imports MediaRouter
begin

text \<open>
  What the forwarding unit guarantees in every state it reaches: everybody in a room has a track for
  everybody else in it, every track has a source of its own, and the published table is the one of the
  sessions. One lemma per operation, and the router as a machine.
\<close>

section \<open>Well formed states\<close>

definition session_ok :: "router \<Rightarrow> string \<Rightarrow> media_session \<Rightarrow> bool" where
  "session_ok r u s \<longleftrightarrow>
     sn_connection s < rt_next_connection r \<and> 3 \<le> sn_next_mid s
   \<and> sn_video_inbound s = Some (sn_connection s, 1)
   \<and> (\<exists>d i. sn_video_outbound s = Some d \<and> ob_track d = (sn_connection s, 2) \<and> ob_stitcher d = Some i
        \<and> i < rt_next_object r)
   \<and> (\<exists>j. sn_video_feedback s = Some j \<and> j < rt_next_object r)
   \<and> map_of (sn_outbound s) u = None
   \<and> (\<forall>v d. map_of (sn_outbound s) v = Some d \<longrightarrow> fst (ob_track d) = sn_connection s
        \<and> 3 \<le> snd (ob_track d) \<and> snd (ob_track d) < sn_next_mid s \<and> ob_stitcher d = None)
   \<and> (\<forall>v w d e. map_of (sn_outbound s) v = Some d \<and> map_of (sn_outbound s) w = Some e
        \<and> ob_track d = ob_track e \<longrightarrow> v = w)"

definition apart :: "media_session \<Rightarrow> media_session \<Rightarrow> bool" where
  "apart s t \<longleftrightarrow> sn_connection s \<noteq> sn_connection t \<and> sn_video_feedback s \<noteq> sn_video_feedback t
     \<and> map_option ob_stitcher (sn_video_outbound s) \<noteq> map_option ob_stitcher (sn_video_outbound t)"

definition outs :: "media_session \<Rightarrow> outbound set" where
  "outs s = set_option (sn_video_outbound s) \<union> ran (map_of (sn_outbound s))"

definition all_outs :: "router \<Rightarrow> outbound set" where
  "all_outs r = {d. \<exists>u s. find_session r u = Some s \<and> d \<in> outs s}"

definition ssrcs_ok :: "router \<Rightarrow> bool" where
  "ssrcs_ok r \<longleftrightarrow> 0 < rt_next_ssrc r \<and> (rt_next_ssrc r \<le> 2 ^ 32 \<longrightarrow>
     (\<forall>d \<in> all_outs r. unat (ob_ssrc d) < rt_next_ssrc r)
   \<and> (\<forall>d \<in> all_outs r. \<forall>e \<in> all_outs r. ob_ssrc d = ob_ssrc e \<longrightarrow> ob_track d = ob_track e))"

lemma ssrcs_sub:
  "ssrcs_ok r \<Longrightarrow> all_outs r' \<subseteq> all_outs r \<Longrightarrow> rt_next_ssrc r' = rt_next_ssrc r \<Longrightarrow> ssrcs_ok r'"
  unfolding ssrcs_ok_def by auto

lemma unat_next: "n < 2 ^ 32 \<Longrightarrow> unat (of_nat n :: 32 word) = n"
  by (simp add: unat_of_nat take_bit_nat_eq_self)

lemma ssrcs_insert:
  assumes ok: "ssrcs_ok r" and sub: "all_outs r' \<subseteq> insert d (all_outs r)"
    and d: "ob_ssrc d = of_nat (rt_next_ssrc r)" and next_: "rt_next_ssrc r' = rt_next_ssrc r + 1"
  shows "ssrcs_ok r'"
  unfolding ssrcs_ok_def next_
proof (intro conjI impI)
  assume room: "rt_next_ssrc r + 1 \<le> 2 ^ 32"
  then have le: "rt_next_ssrc r \<le> 2 ^ 32" by simp
  have old: "unat (ob_ssrc e) < rt_next_ssrc r" if "e \<in> all_outs r" for e
    using ok that room by (simp add: ssrcs_ok_def)
  have new: "unat (ob_ssrc d) = rt_next_ssrc r" using room unat_next by (simp add: d)
  show "\<forall>d \<in> all_outs r'. unat (ob_ssrc d) < rt_next_ssrc r + 1" using sub old new by fastforce
  have same: "ob_track e = ob_track f" if "e \<in> all_outs r" "f \<in> all_outs r" "ob_ssrc e = ob_ssrc f" for e f
    using ok that le unfolding ssrcs_ok_def by blast
  have ne: "ob_ssrc e \<noteq> ob_ssrc d \<and> ob_ssrc d \<noteq> ob_ssrc e" if "e \<in> all_outs r" for e
    using old [OF that] new by auto
  have distinct: "ob_track e = ob_track f"
    if "e \<in> insert d (all_outs r)" "f \<in> insert d (all_outs r)" "ob_ssrc e = ob_ssrc f" for e f
    using that same ne unfolding insert_iff by blast
  show "\<forall>e \<in> all_outs r'. \<forall>f \<in> all_outs r'. ob_ssrc e = ob_ssrc f \<longrightarrow> ob_track e = ob_track f"
    using sub distinct by blast
qed simp

definition sessions_ok :: "router \<Rightarrow> bool" where
  "sessions_ok r \<longleftrightarrow> distinct (map fst (rt_sessions r))
   \<and> (\<forall>u s. find_session r u = Some s \<longrightarrow> session_ok r u s)
   \<and> (\<forall>u v s t. find_session r u = Some s \<and> find_session r v = Some t \<and> u \<noteq> v \<longrightarrow> apart s t)
   \<and> ssrcs_ok r"

text \<open>Everybody in a room has a track for everybody else in it.\<close>

definition meshed :: "router \<Rightarrow> bool" where
  "meshed r \<longleftrightarrow> (\<forall>u v s t. find_session r u = Some s \<and> find_session r v = Some t \<and> u \<noteq> v
     \<and> sn_room_id s = sn_room_id t \<longrightarrow> map_of (sn_outbound t) u \<noteq> None)"

definition router_ok :: "router \<Rightarrow> bool" where
  "router_ok r \<longleftrightarrow> sessions_ok r \<and> meshed r \<and> rt_routes r = table_of (rt_sessions r)"

section \<open>One session at a time\<close>

lemma find_set_session: "find_session (set_session u s r) v = (if v = u then Some s else find_session r v)"
  by (simp add: find_session_def set_session_def update_conv)

lemma find_frame [simp]:
  "find_session (ask c r) = find_session r" "find_session (post t r) = find_session r"
  "find_session (publish_routes r) = find_session r" "find_session (apply_viewer_ceiling rid k r) = find_session r"
  "find_session (r\<lparr>rt_next_ssrc := n\<rparr>) = find_session r" "find_session (r\<lparr>rt_calls := cs\<rparr>) = find_session r"
  by (simp_all add: find_session_def ask_def post_def publish_routes_def apply_viewer_ceiling_def fun_eq_iff)

lemma keys_set_session:
  "find_session r u \<noteq> None \<Longrightarrow> map fst (rt_sessions (set_session u s r)) = map fst (rt_sessions r)"
  by (simp add: set_session_def find_session_def update_keys map_of_eq_None_iff)

lemma ask_fields [simp]:
  "rt_sessions (ask c r) = rt_sessions r" "rt_next_ssrc (ask c r) = rt_next_ssrc r"
  "rt_next_connection (ask c r) = rt_next_connection r" "rt_next_object (ask c r) = rt_next_object r"
  "rt_routes (ask c r) = rt_routes r" "rt_options (ask c r) = rt_options r" "rt_tasks (ask c r) = rt_tasks r"
  by (simp_all add: ask_def)

lemma set_session_fields [simp]:
  "rt_next_ssrc (set_session u s r) = rt_next_ssrc r" "rt_next_connection (set_session u s r) = rt_next_connection r"
  "rt_next_object (set_session u s r) = rt_next_object r" "rt_routes (set_session u s r) = rt_routes r"
  "rt_options (set_session u s r) = rt_options r" "rt_calls (set_session u s r) = rt_calls r"
  "rt_tasks (set_session u s r) = rt_tasks r"
  by (simp_all add: set_session_def)

lemma session_ok_frame:
  "rt_next_connection r' = rt_next_connection r \<Longrightarrow> rt_next_object r' = rt_next_object r \<Longrightarrow>
   session_ok r' u s = session_ok r u s"
  by (simp add: session_ok_def)

lemma sessions_ok_cong:
  assumes "rt_sessions r' = rt_sessions r" "rt_next_connection r' = rt_next_connection r"
    "rt_next_object r' = rt_next_object r" "rt_next_ssrc r' = rt_next_ssrc r"
  shows "sessions_ok r' = sessions_ok r"
  using assms by (simp add: sessions_ok_def ssrcs_ok_def all_outs_def find_session_def session_ok_def)

lemma apart_cong:
  assumes "sn_connection s' = sn_connection s" "sn_video_feedback s' = sn_video_feedback s"
    "sn_video_outbound s' = sn_video_outbound s"
  shows "apart s' t = apart s t" "apart t s' = apart t s"
  using assms by (simp_all add: apart_def)

text \<open>Replacing a session by one that carries the same and is addressed the same.\<close>

lemma sessions_ok_set_same:
  assumes ok: "sessions_ok r" and old: "find_session r u = Some s"
    and same: "session_ok r u s'" "sn_connection s' = sn_connection s"
      "sn_video_feedback s' = sn_video_feedback s" "sn_video_outbound s' = sn_video_outbound s"
      "outs s' \<subseteq> outs s"
  shows "sessions_ok (set_session u s' r)"
  unfolding sessions_ok_def
proof (intro conjI allI impI)
  show "distinct (map fst (rt_sessions (set_session u s' r)))"
    using ok old by (simp add: keys_set_session sessions_ok_def)
  show "session_ok (set_session u s' r) v t" if "find_session (set_session u s' r) v = Some t" for v t
    using that ok same(1) by (auto simp: find_set_session session_ok_def sessions_ok_def split: if_splits)
  show "apart t t'" if "find_session (set_session u s' r) v = Some t
      \<and> find_session (set_session u s' r) w = Some t' \<and> v \<noteq> w" for v w t t'
    using that ok old apart_cong [OF same(2-4)] unfolding sessions_ok_def find_set_session
    by (metis option.inject)
  show "ssrcs_ok (set_session u s' r)"
  proof (rule ssrcs_sub)
    show "all_outs (set_session u s' r) \<subseteq> all_outs r"
      using old same(5) by (auto simp: all_outs_def find_set_session split: if_splits)
  qed (use ok in \<open>simp_all add: sessions_ok_def\<close>)
qed

lemma negotiate_cases:
  obtains "negotiate A u r = r"
  | s b where "find_session r u = Some s" "negotiate A u r = set_session u (s\<lparr>sn_renegotiation_pending := b\<rparr>) r"
  | s where "find_session r u = Some s"
      "negotiate A u r = ask (MakeOffer (sn_connection s)) (set_session u (s\<lparr>sn_renegotiation_pending := False\<rparr>) r)"
proof (cases "find_session r u")
  case None
  then show thesis using that(1) by (simp add: negotiate_def)
next
  case (Some s)
  show thesis
  proof (cases "\<not> sn_renegotiation_pending s \<and> an_offered A (sn_connection s)")
    case True
    then show thesis using Some that(1) by (simp add: negotiate_def)
  next
    case False
    show thesis
    proof (cases "an_stable A (sn_connection s)")
      case stable: True
      show thesis using False stable Some by (intro that(3) [of s]) (auto simp: negotiate_def)
    next
      case unstable: False
      show thesis using False unstable Some by (intro that(2) [of s True]) (auto simp: negotiate_def)
    qed
  qed
qed

lemma pending_same [simp]:
  "session_ok r u (s\<lparr>sn_renegotiation_pending := b\<rparr>) = session_ok r u s"
  "outs (s\<lparr>sn_renegotiation_pending := b\<rparr>) = outs s"
  by (simp_all add: session_ok_def outs_def)

lemma sessions_ok_ask [simp]: "sessions_ok (ask c r) = sessions_ok r"
  by (rule sessions_ok_cong) simp_all

lemma sessions_ok_negotiate: "sessions_ok r \<Longrightarrow> sessions_ok (negotiate A u r)"
proof (rule negotiate_cases [of A u r])
  assume ok: "sessions_ok r"
  have set: "sessions_ok (set_session u (s\<lparr>sn_renegotiation_pending := b\<rparr>) r)" if "find_session r u = Some s" for s b
    using that ok by (intro sessions_ok_set_same [OF ok that]) (simp_all add: sessions_ok_def)
  show ?thesis if "negotiate A u r = r" using that ok by simp
  show ?thesis if "find_session r u = Some s"
    "negotiate A u r = set_session u (s\<lparr>sn_renegotiation_pending := b\<rparr>) r" for s b using that set by simp
  show ?thesis if "find_session r u = Some s" "negotiate A u r = ask (MakeOffer (sn_connection s))
      (set_session u (s\<lparr>sn_renegotiation_pending := False\<rparr>) r)" for s using that set by simp
qed

text \<open>Adding a track that carries \<open>source\<close>.\<close>

lemma add_outbound_cases:
  obtains "find_session r u = None" "add_outbound_track A u source r = r"
  | s where "find_session r u = Some s" "map_of (sn_outbound s) source \<noteq> None" "add_outbound_track A u source r = r"
  | s d codecs where "find_session r u = Some s" "map_of (sn_outbound s) source = None"
      "ob_track d = (sn_connection s, sn_next_mid s)" "ob_ssrc d = of_nat (rt_next_ssrc r)" "ob_stitcher d = None"
      "ob_payload_type d = op_opus_payload_type (rt_options r)"
      "add_outbound_track A u source r =
        set_session u (s\<lparr>sn_next_mid := sn_next_mid s + 1,
            sn_outbound := AList.update source d (sn_outbound s), sn_renegotiation_pending := True\<rparr>)
          (ask (AddTrack (ob_track d) (SendAudio codecs (ob_ssrc d) source)) (r\<lparr>rt_next_ssrc := rt_next_ssrc r + 1\<rparr>))"
proof (cases "find_session r u")
  case None
  then show thesis using that(1) by (simp add: add_outbound_track_def)
next
  case (Some s)
  show thesis
  proof (cases "map_of (sn_outbound s) source")
    case None
    let ?d = "\<lparr>ob_track = (sn_connection s, sn_next_mid s), ob_ssrc = of_nat (rt_next_ssrc r),
      ob_payload_type = op_opus_payload_type (rt_options r), ob_stitcher = None\<rparr>"
    let ?codecs = "add_audio_codecs (an_codec_found A) (router_audio_codecs (rt_options r))"
    show thesis using Some None by (intro that(3) [of s ?d ?codecs]) (simp_all add: add_outbound_track_def Let_def)
  next
    case some: (Some d)
    then show thesis using Some that(2) by (simp add: add_outbound_track_def)
  qed
qed

lemma outs_added:
  "map_of (sn_outbound s) v = None \<Longrightarrow> outs (s\<lparr>sn_next_mid := n, sn_outbound := AList.update v d (sn_outbound s),
     sn_renegotiation_pending := b\<rparr>) = insert d (outs s)"
  by (simp add: outs_def update_conv' ran_map_upd)

lemma sessions_ok_add:
  assumes ok: "sessions_ok r" and other: "source \<noteq> u"
  shows "sessions_ok (add_outbound_track A u source r)"
proof (rule add_outbound_cases [of r u A source])
  fix s d codecs
  assume s: "find_session r u = Some s" and new: "map_of (sn_outbound s) source = None"
    and d: "ob_track d = (sn_connection s, sn_next_mid s)" "ob_ssrc d = of_nat (rt_next_ssrc r)" "ob_stitcher d = None"
    and eq: "add_outbound_track A u source r =
        set_session u (s\<lparr>sn_next_mid := sn_next_mid s + 1,
            sn_outbound := AList.update source d (sn_outbound s), sn_renegotiation_pending := True\<rparr>)
          (ask (AddTrack (ob_track d) (SendAudio codecs (ob_ssrc d) source)) (r\<lparr>rt_next_ssrc := rt_next_ssrc r + 1\<rparr>))"
  let ?s = "s\<lparr>sn_next_mid := sn_next_mid s + 1,
      sn_outbound := AList.update source d (sn_outbound s), sn_renegotiation_pending := True\<rparr>"
  let ?r = "ask (AddTrack (ob_track d) (SendAudio codecs (ob_ssrc d) source)) (r\<lparr>rt_next_ssrc := rt_next_ssrc r + 1\<rparr>)"
  have old: "session_ok r u s" using ok s by (simp add: sessions_ok_def)
  have carried: "map_of (sn_outbound ?s) v = Some e \<longleftrightarrow>
      (if v = source then e = d else map_of (sn_outbound s) v = Some e)" for v e by (auto simp: update_conv)
  have mid: "snd (ob_track e) < sn_next_mid s" if "map_of (sn_outbound s) v = Some e" for v e
    using old that by (simp add: session_ok_def)
  then have fresh: "(sn_connection s, sn_next_mid s) \<noteq> ob_track e" "ob_track e \<noteq> (sn_connection s, sn_next_mid s)"
    if "map_of (sn_outbound s) v = Some e" for v e using that by (metis less_irrefl snd_conv)+
  have new_ok: "session_ok r u ?s"
    using old d other unfolding session_ok_def carried
    by (intro conjI allI impI) (auto simp: update_conv dest: mid fresh split: if_splits)
  have find: "find_session ?r = find_session r" by simp
  have cong: "apart ?s t = apart s t" "apart t ?s = apart t s" for t by (simp_all add: apart_def)
  have next_: "rt_next_connection ?r = rt_next_connection r" "rt_next_object ?r = rt_next_object r"
    "rt_sessions ?r = rt_sessions r" "rt_next_ssrc ?r = rt_next_ssrc r + 1" by (simp_all add: ask_def)
  show ?thesis unfolding eq sessions_ok_def
  proof (intro conjI allI impI)
    show "distinct (map fst (rt_sessions (set_session u ?s ?r)))"
      using ok s by (simp add: keys_set_session sessions_ok_def)
    show "session_ok (set_session u ?s ?r) v t" if "find_session (set_session u ?s ?r) v = Some t" for v t
    proof -
      have "session_ok r v t" using that ok new_ok
        by (auto simp: find_set_session find sessions_ok_def split: if_splits)
      then show ?thesis by (simp add: session_ok_def ask_def)
    qed
    show "apart t t'" if "find_session (set_session u ?s ?r) v = Some t
        \<and> find_session (set_session u ?s ?r) w = Some t' \<and> v \<noteq> w" for v w t t'
      using that ok s cong unfolding sessions_ok_def find_set_session find by (metis option.inject)
    show "ssrcs_ok (set_session u ?s ?r)"
    proof (rule ssrcs_insert [of r _ d])
      show "all_outs (set_session u ?s ?r) \<subseteq> insert d (all_outs r)"
        using s outs_added [OF new, where n = "sn_next_mid s + 1" and d = d and b = True]
        unfolding all_outs_def find_set_session find by (auto split: if_splits)
    qed (use ok d(2) in \<open>simp_all add: sessions_ok_def\<close>)
  qed
qed (use ok in simp_all)

section \<open>The table does not see a pending offer\<close>

definition still :: "string \<times> media_session \<Rightarrow> string \<times> media_session" where
  "still x = (fst x, (snd x)\<lparr>sn_renegotiation_pending := False\<rparr>)"

lemma still_route: "route_of (map still xs) u (s\<lparr>sn_renegotiation_pending := b\<rparr>) = route_of xs u s"
  by (simp add: route_of_def List.map_filter_def still_def split_beta filter_map comp_def)

lemma still_table: "table_of (map still xs) = table_of xs"
  unfolding table_of_def
  by (simp add: List.map_filter_def still_def [abs_def] split_beta filter_map comp_def
      still_route [unfolded still_def [abs_def]])

lemma still_update:
  "map_of xs u = Some s \<Longrightarrow> map still (AList.update u (s\<lparr>sn_renegotiation_pending := b\<rparr>) xs) = map still xs"
  by (induction xs) (auto simp: still_def split: if_splits)

lemma table_negotiate: "table_of (rt_sessions (negotiate A u r)) = table_of (rt_sessions r)"
proof -
  have "table_of (rt_sessions (set_session u (s\<lparr>sn_renegotiation_pending := b\<rparr>) r)) = table_of (rt_sessions r)"
    if "find_session r u = Some s" for s b
    using still_update [of "rt_sessions r" u s b] that still_table
    by (metis find_session_def set_session_def router.select_convs(2) router.surjective router.update_convs(2))
  then show ?thesis by (cases rule: negotiate_cases [of A u r]) simp_all
qed

section \<open>Who carries whom\<close>

definition carries :: "router \<Rightarrow> string \<Rightarrow> string \<Rightarrow> bool" where
  "carries r u v \<longleftrightarrow> (\<exists>s. find_session r u = Some s \<and> map_of (sn_outbound s) v \<noteq> None)"

lemma meshed_carries: "meshed r \<longleftrightarrow> (\<forall>u v s t. find_session r u = Some s \<and> find_session r v = Some t \<and> u \<noteq> v
     \<and> sn_room_id s = sn_room_id t \<longrightarrow> carries r v u)"
  by (auto simp: meshed_def carries_def)

text \<open>The same people in the same rooms, and the tracks for them kept but for those of \<open>U\<close>.\<close>

definition like :: "string set \<Rightarrow> media_session \<Rightarrow> media_session \<Rightarrow> bool" where
  "like U s s' \<longleftrightarrow> sn_room_id s' = sn_room_id s \<and> sn_connection s' = sn_connection s
   \<and> sn_video_inbound s' = sn_video_inbound s \<and> sn_video_outbound s' = sn_video_outbound s
   \<and> sn_video_feedback s' = sn_video_feedback s
   \<and> (\<forall>v d. v \<notin> U \<and> map_of (sn_outbound s) v = Some d \<longrightarrow> map_of (sn_outbound s') v = Some d)"

lemma like_trans: "like U s t \<Longrightarrow> like U t w \<Longrightarrow> like U s w"
  by (simp add: like_def)

lemma like_refl [simp]: "like U s s"
  by (simp add: like_def)

definition kept :: "string set \<Rightarrow> router \<Rightarrow> router \<Rightarrow> bool" where
  "kept U r r' \<longleftrightarrow> map fst (rt_sessions r') = map fst (rt_sessions r)
   \<and> (\<forall>u s. find_session r u = Some s \<longrightarrow> (\<exists>s'. find_session r' u = Some s' \<and> like U s s'))"

lemma kept_refl [simp]: "kept U r r"
  by (auto simp: kept_def)

lemma kept_trans: "kept U r r' \<Longrightarrow> kept U r' r'' \<Longrightarrow> kept U r r''"
  unfolding kept_def using like_trans by fastforce

lemma kept_ask [simp]: "kept U r (ask c r') = kept U r r'"
  by (simp add: kept_def)

lemma kept_set:
  assumes "find_session r u = Some s" "like U s s'"
  shows "kept U r (set_session u s' r)"
  using assms by (auto simp: kept_def keys_set_session find_set_session)

lemma kept_negotiate: "kept U r (negotiate A u r)"
  by (rule negotiate_cases [of A u r]) (auto intro: kept_set simp: like_def)

lemma kept_add: "kept U r (add_outbound_track A u source r)"
proof (rule add_outbound_cases [of r u A source])
  fix s d codecs
  assume s: "find_session r u = Some s" "map_of (sn_outbound s) source = None"
    and eq: "add_outbound_track A u source r =
        set_session u (s\<lparr>sn_next_mid := sn_next_mid s + 1,
            sn_outbound := AList.update source d (sn_outbound s), sn_renegotiation_pending := True\<rparr>)
          (ask (AddTrack (ob_track d) (SendAudio codecs (ob_ssrc d) source)) (r\<lparr>rt_next_ssrc := rt_next_ssrc r + 1\<rparr>))"
  let ?r = "ask (AddTrack (ob_track d) (SendAudio codecs (ob_ssrc d) source)) (r\<lparr>rt_next_ssrc := rt_next_ssrc r + 1\<rparr>)"
  have "kept U ?r (set_session u (s\<lparr>sn_next_mid := sn_next_mid s + 1,
            sn_outbound := AList.update source d (sn_outbound s), sn_renegotiation_pending := True\<rparr>) ?r)"
    using s by (intro kept_set [of _ _ s]) (auto simp: update_conv like_def)
  moreover have "kept U r ?r" by (simp add: kept_def)
  ultimately show ?thesis unfolding eq by (rule kept_trans [rotated])
qed simp_all

lemma carries_kept: "carries r u v \<Longrightarrow> kept U r r' \<Longrightarrow> v \<notin> U \<Longrightarrow> carries r' u v"
  unfolding carries_def kept_def like_def by fastforce

lemma added_carries: "find_session r u \<noteq> None \<Longrightarrow> carries (add_outbound_track A u source r) u source"
  by (rule add_outbound_cases [of r u A source]) (auto simp: carries_def find_set_session update_conv)

lemma kept_room: "kept U r r' \<Longrightarrow> find_session r u = Some s \<Longrightarrow>
    \<exists>s'. find_session r' u = Some s' \<and> sn_room_id s' = sn_room_id s"
  unfolding kept_def like_def by blast

lemma kept_present: "kept U r r' \<Longrightarrow> find_session r' u = None \<longleftrightarrow> find_session r u = None"
  by (simp add: kept_def find_session_def map_of_eq_None_iff flip: set_map)

text \<open>And back: nobody new.\<close>

lemma kept_before: "kept U r r' \<Longrightarrow> find_session r' u = Some s' \<Longrightarrow>
    \<exists>s. find_session r u = Some s \<and> sn_room_id s' = sn_room_id s"
  using kept_present [of U r r' u] kept_room [of U r r' u] by fastforce

lemma meshed_kept:
  assumes "meshed r" "kept U r r'" "\<And>u. u \<in> U \<Longrightarrow> find_session r u = None"
  shows "meshed r'"
  unfolding meshed_carries
proof (intro allI impI)
  fix u v s t
  assume a: "find_session r' u = Some s \<and> find_session r' v = Some t \<and> u \<noteq> v \<and> sn_room_id s = sn_room_id t"
  then obtain s0 t0 where b: "find_session r u = Some s0" "find_session r v = Some t0"
      "sn_room_id s0 = sn_room_id t0"
    using kept_before [OF assms(2)] by metis
  then have "carries r v u" using assms(1) a by (auto simp: meshed_carries)
  moreover have "u \<notin> U" using b(1) assms(3) by auto
  ultimately show "carries r' v u" using carries_kept assms(2) by blast
qed

section \<open>Joining\<close>

lemma wire_ok: "sessions_ok r \<Longrightarrow> sessions_ok (wire A uid rid other r) \<and> kept U r (wire A uid rid other r)"
  by (auto simp: wire_def sessions_ok_negotiate sessions_ok_add split: option.split
      intro: kept_trans [OF kept_add] kept_trans [OF kept_trans [OF kept_add kept_add] kept_negotiate])

lemma wire_links:
  assumes "find_session r uid \<noteq> None" "find_session r other = Some t" "sn_room_id t = rid" "other \<noteq> uid"
  shows "carries (wire A uid rid other r) uid other \<and> carries (wire A uid rid other r) other uid"
proof -
  let ?r1 = "add_outbound_track A uid other r" and ?r2 = "add_outbound_track A other uid (add_outbound_track A uid other r)"
  have wire: "wire A uid rid other r = negotiate A other ?r2" using assms by (simp add: wire_def)
  have "carries ?r1 uid other" using added_carries assms(1) by simp
  then have "carries (negotiate A other ?r2) uid other"
    using kept_trans [OF kept_add kept_negotiate] carries_kept [of ?r1 uid other "{}"] by blast
  moreover have "find_session ?r1 other \<noteq> None" using kept_present [OF kept_add [where U = "{}" and r = r and A = A and u = uid and source = other], of other] assms(2) by simp
  then have "carries ?r2 other uid" by (rule added_carries)
  then have "carries (negotiate A other ?r2) other uid"
    using kept_negotiate carries_kept [of ?r2 other uid "{}"] by blast
  ultimately show ?thesis unfolding wire by simp
qed

lemma fold_wire:
  assumes "sessions_ok r" "find_session r uid \<noteq> None"
  shows "sessions_ok (fold (wire A uid rid) ks r) \<and> kept {} r (fold (wire A uid rid) ks r)
    \<and> (\<forall>other \<in> set ks. \<forall>t. find_session r other = Some t \<and> sn_room_id t = rid \<and> other \<noteq> uid \<longrightarrow>
        carries (fold (wire A uid rid) ks r) uid other \<and> carries (fold (wire A uid rid) ks r) other uid)"
  using assms
proof (induction ks arbitrary: r)
  case (Cons k ks)
  let ?r = "wire A uid rid k r"
  have ok: "sessions_ok ?r" and kept: "kept {} r ?r" using wire_ok [OF Cons.prems(1)] by blast+
  have present: "find_session ?r uid \<noteq> None" using kept_present [OF kept] Cons.prems(2) by simp
  note IH = Cons.IH [OF ok present]
  have "carries (fold (wire A uid rid) ks ?r) uid k \<and> carries (fold (wire A uid rid) ks ?r) k uid"
    if "find_session r k = Some t" "sn_room_id t = rid" "k \<noteq> uid" for t
    using wire_links [OF Cons.prems(2) that] carries_kept IH by blast
  moreover have "\<exists>t'. find_session ?r other = Some t' \<and> sn_room_id t' = rid"
    if "find_session r other = Some t" "sn_room_id t = rid" for other t
    using kept_room [OF kept that(1)] that(2) by simp
  ultimately show ?case using IH kept_trans [OF kept] by fastforce
qed simp

text \<open>A session taken out, whoever else is left.\<close>

lemma sessions_ok_sub:
  assumes ok: "sessions_ok r" and find: "\<And>v. find_session r' v = (if v = u then None else find_session r v)"
    and distinct: "distinct (map fst (rt_sessions r'))"
    and same: "rt_next_connection r' = rt_next_connection r" "rt_next_object r' = rt_next_object r"
      "rt_next_ssrc r' = rt_next_ssrc r"
  shows "sessions_ok r'"
  unfolding sessions_ok_def
proof (intro conjI allI impI distinct)
  show "session_ok r' v s" if "find_session r' v = Some s" for v s
    using that ok session_ok_frame [OF same(1,2)] by (auto simp: find sessions_ok_def split: if_splits)
  show "apart s t" if "find_session r' v = Some s \<and> find_session r' w = Some t \<and> v \<noteq> w" for v w s t
    using that ok unfolding sessions_ok_def find by (auto split: if_splits)
  show "ssrcs_ok r'"
    by (rule ssrcs_sub [of r]) (use ok same in \<open>auto simp: sessions_ok_def all_outs_def find split: if_splits\<close>)
qed

lemma find_deleted: "find_session (r\<lparr>rt_sessions := AList.delete u (rt_sessions r)\<rparr>) v
    = (if v = u then None else find_session r v)"
  by (simp add: find_session_def delete_conv)

lemma sessions_ok_delete: "sessions_ok r \<Longrightarrow> sessions_ok (r\<lparr>rt_sessions := AList.delete u (rt_sessions r)\<rparr>)"
  by (rule sessions_ok_sub [of r _ u]) (simp_all add: find_deleted distinct_delete sessions_ok_def)

lemma meshed_delete:
  assumes "meshed r" "\<And>v. find_session r' v = (if v = u then None else find_session r v)"
  shows "meshed r'"
  using assms(1) unfolding meshed_def assms(2) by (auto split: if_splits)

lemma forget_fields [simp]:
  "rt_sessions (forget_viewer_bandwidth v r) = rt_sessions r"
  "rt_next_connection (forget_viewer_bandwidth v r) = rt_next_connection r"
  "rt_next_object (forget_viewer_bandwidth v r) = rt_next_object r"
  "rt_next_ssrc (forget_viewer_bandwidth v r) = rt_next_ssrc r"
  "rt_routes (forget_viewer_bandwidth v r) = rt_routes r"
  "rt_calls (forget_viewer_bandwidth v r) = rt_calls r" "rt_tasks (forget_viewer_bandwidth v r) = rt_tasks r"
  "rt_options (forget_viewer_bandwidth v r) = rt_options r"
  by (simp_all add: forget_viewer_bandwidth_def apply_viewer_ceiling_def Let_def split: option.split)

lemma find_forget [simp]: "find_session (forget_viewer_bandwidth v r) = find_session r"
  by (simp add: find_session_def fun_eq_iff)

lemma sessions_ok_forget [simp]: "sessions_ok (forget_viewer_bandwidth v r) = sessions_ok r"
  by (rule sessions_ok_cong) simp_all

lemma replaced:
  assumes "sessions_ok r" "meshed r"
  shows "sessions_ok (replace_session u r) \<and> meshed (replace_session u r)
    \<and> (\<forall>v. find_session (replace_session u r) v = (if v = u then None else find_session r v))"
proof (cases "find_session r u")
  case None
  then show ?thesis using assms by (simp add: replace_session_def)
next
  case (Some s)
  let ?r = "r\<lparr>rt_sessions := AList.delete u (rt_sessions r)\<rparr>"
  have find: "find_session (replace_session u r) v = (if v = u then None else find_session r v)" for v
    using Some find_deleted [of u r v] by (simp add: replace_session_def)
  have "sessions_ok (replace_session u r)" using Some sessions_ok_delete [OF assms(1)] by (simp add: replace_session_def)
  then show ?thesis using meshed_delete [OF assms(2) find] find by simp
qed

lemma created_find:
  "find_session (create_session A rid name uid label r) v =
    (if v = uid then Some (new_media_session r rid name label) else find_session r v)"
  by (simp add: create_session_def find_session_def update_conv Let_def)

lemma created_ok:
  assumes ok: "sessions_ok r" and new: "find_session r uid = None"
  shows "sessions_ok (create_session A rid name uid label r)"
proof -
  let ?r = "create_session A rid name uid label r" and ?s = "new_media_session r rid name label"
  have fields: "rt_next_connection ?r = rt_next_connection r + 1" "rt_next_object ?r = rt_next_object r + 2"
    "rt_next_ssrc ?r = rt_next_ssrc r + 1" by (simp_all add: create_session_def Let_def)
  have before: "session_ok ?r v t" if "session_ok r v t" for v t
    using that unfolding session_ok_def fields by force
  have new_ok: "session_ok ?r uid ?s"
    by (simp add: session_ok_def new_media_session_def video_outbound_track_def Let_def fields)
  have away: "apart t ?s \<and> apart ?s t" if "session_ok r v t" for v t
    using that by (auto simp: session_ok_def apart_def new_media_session_def video_outbound_track_def Let_def)
  show ?thesis unfolding sessions_ok_def
  proof (intro conjI allI impI)
    show "distinct (map fst (rt_sessions ?r))"
      using ok new by (simp add: create_session_def sessions_ok_def Let_def distinct_update)
    show "session_ok ?r v t" if "find_session ?r v = Some t" for v t
      using that before new_ok ok unfolding created_find by (auto simp: sessions_ok_def split: if_splits)
    show "apart t t'" if "find_session ?r v = Some t \<and> find_session ?r w = Some t' \<and> v \<noteq> w" for v w t t'
      using that away ok unfolding created_find sessions_ok_def by (auto split: if_splits)
    show "ssrcs_ok ?r"
    proof (rule ssrcs_insert [of r _ "the (sn_video_outbound ?s)"])
      show "all_outs ?r \<subseteq> insert (the (sn_video_outbound ?s)) (all_outs r)"
        unfolding all_outs_def created_find
        by (auto simp: outs_def new_media_session_def video_outbound_track_def Let_def split: if_splits)
    qed (use ok in \<open>simp_all add: sessions_ok_def fields new_media_session_def video_outbound_track_def Let_def\<close>)
  qed
qed

lemma published [simp]:
  "sessions_ok (publish_routes r) = sessions_ok r" "meshed (publish_routes r) = meshed r"
  "router_ok (publish_routes r) \<longleftrightarrow> sessions_ok r \<and> meshed r"
proof -
  show core: "sessions_ok (publish_routes r) = sessions_ok r" by (rule sessions_ok_cong) (simp_all add: publish_routes_def)
  show mesh: "meshed (publish_routes r) = meshed r" by (simp add: publish_routes_def meshed_def find_session_def)
  have "rt_routes (publish_routes r) = table_of (rt_sessions (publish_routes r))" by (simp add: publish_routes_def)
  then show "router_ok (publish_routes r) \<longleftrightarrow> sessions_ok r \<and> meshed r" using core mesh by (simp add: router_ok_def)
qed

lemma joined_ok:
  assumes "sessions_ok r" "meshed r"
  shows "router_ok (on_participant_joined A rid name uid label r)"
proof -
  define r1 where "r1 = replace_session uid r"
  define r2 where "r2 = create_session A rid name uid label r1"
  define r3 where "r3 = fold (wire A uid rid) (map fst (rt_sessions r2)) r2"
  have eq: "on_participant_joined A rid name uid label r = negotiate A uid (publish_routes r3)"
    by (simp add: on_participant_joined_def r1_def r2_def r3_def Let_def)
  have r1: "sessions_ok r1" "meshed r1" "find_session r1 uid = None"
    using replaced [OF assms, of uid] by (simp_all add: r1_def)
  have r2: "sessions_ok r2" "find_session r2 uid \<noteq> None" using created_ok [OF r1(1,3)] by (simp_all add: r2_def created_find)
  note wired = fold_wire [OF r2, of A rid "map fst (rt_sessions r2)", folded r3_def]
  have room: "sn_room_id s = rid" if "find_session r2 uid = Some s" for s
    using that by (auto simp: r2_def created_find new_media_session_def video_outbound_track_def Let_def)
  have "meshed r3" unfolding meshed_carries
  proof (intro allI impI)
    fix u v s t
    assume a: "find_session r3 u = Some s \<and> find_session r3 v = Some t \<and> u \<noteq> v \<and> sn_room_id s = sn_room_id t"
    then obtain s0 t0 where b: "find_session r2 u = Some s0" "find_session r2 v = Some t0" "sn_room_id s0 = sn_room_id t0"
      using kept_before [of "{}" r2 r3] wired by metis
    have keys: "u \<in> set (map fst (rt_sessions r2))" "v \<in> set (map fst (rt_sessions r2))"
      using b by (force simp: find_session_def dest: map_of_SomeD)+
    show "carries r3 v u"
    proof (cases "u = uid \<or> v = uid")
      case True
      then show ?thesis using wired keys a b room by metis
    next
      case False
      then have "carries r1 v u" using b a r1(2) by (auto simp: r2_def created_find meshed_carries)
      then have "carries r2 v u" using False by (simp add: carries_def r2_def created_find)
      then show ?thesis using wired carries_kept by blast
    qed
  qed
  then have "sessions_ok (publish_routes r3)" "meshed (publish_routes r3)"
    using wired by simp_all
  moreover have "rt_routes (negotiate A uid (publish_routes r3)) = table_of (rt_sessions (publish_routes r3))"
    by (rule negotiate_cases [of A uid "publish_routes r3"]) (simp_all add: publish_routes_def)
  ultimately show ?thesis unfolding eq router_ok_def
    using sessions_ok_negotiate meshed_kept [OF _ kept_negotiate [of "{}"]] table_negotiate by fastforce
qed

text \<open>What a join leaves of the others, and where it seats the newcomer.\<close>

lemma joined_keeps:
  assumes "sessions_ok r" "meshed r"
  shows "v \<noteq> uid \<Longrightarrow> find_session r v = Some t \<Longrightarrow>
      \<exists>t'. find_session (on_participant_joined A rid name uid label r) v = Some t' \<and> like {} t t'"
    and "v \<noteq> uid \<Longrightarrow> find_session r v = None \<Longrightarrow> find_session (on_participant_joined A rid name uid label r) v = None"
    and "\<exists>s'. find_session (on_participant_joined A rid name uid label r) uid = Some s' \<and> sn_room_id s' = rid"
proof -
  define r1 where "r1 = replace_session uid r"
  define r2 where "r2 = create_session A rid name uid label r1"
  define r3 where "r3 = fold (wire A uid rid) (map fst (rt_sessions r2)) r2"
  have eq: "on_participant_joined A rid name uid label r = negotiate A uid (publish_routes r3)"
    by (simp add: on_participant_joined_def r1_def r2_def r3_def Let_def)
  have r1: "sessions_ok r1" "find_session r1 uid = None"
    using replaced [OF assms, of uid] by (simp_all add: r1_def)
  have others: "find_session r1 v = find_session r v" if "v \<noteq> uid" for v
    using replaced [OF assms, of uid] that by (simp add: r1_def)
  have r2: "sessions_ok r2" "find_session r2 uid \<noteq> None"
    using created_ok [OF r1] by (simp_all add: r2_def created_find)
  have "kept {} r2 r3" using fold_wire [OF r2, of A rid "map fst (rt_sessions r2)"] by (simp add: r3_def)
  then have "kept {} r2 (publish_routes r3)" by (simp add: kept_def publish_routes_def find_session_def)
  then have kept: "kept {} r2 (on_participant_joined A rid name uid label r)"
    unfolding eq by (rule kept_trans [OF _ kept_negotiate])
  show "\<exists>t'. find_session (on_participant_joined A rid name uid label r) v = Some t' \<and> like {} t t'"
    if "v \<noteq> uid" "find_session r v = Some t"
    using kept that others unfolding kept_def by (simp add: r2_def created_find)
  show "find_session (on_participant_joined A rid name uid label r) v = None"
    if "v \<noteq> uid" "find_session r v = None"
    using kept_present [OF kept] that others by (simp add: r2_def created_find)
  have "\<exists>s. find_session r2 uid = Some s \<and> sn_room_id s = rid"
    by (simp add: r2_def created_find new_media_session_def video_outbound_track_def Let_def)
  then show "\<exists>s'. find_session (on_participant_joined A rid name uid label r) uid = Some s' \<and> sn_room_id s' = rid"
    using kept_room [OF kept] by blast
qed

section \<open>Leaving\<close>

lemma unwire_ok:
  assumes "sessions_ok r"
  shows "sessions_ok (unwire A uid rid other r) \<and> kept {uid} r (unwire A uid rid other r)"
proof (cases "\<exists>t d. find_session r other = Some t \<and> sn_room_id t = rid \<and> map_of (sn_outbound t) uid = Some d")
  case True
  then obtain t d where t: "find_session r other = Some t" "sn_room_id t = rid" "map_of (sn_outbound t) uid = Some d"
    by blast
  let ?t = "t\<lparr>sn_outbound := AList.delete uid (sn_outbound t)\<rparr>" and ?r = "ask (CloseTrack (ob_track d)) r"
  have eq: "unwire A uid rid other r = negotiate A other (set_session other ?t ?r)" using t by (simp add: unwire_def)
  have out: "map_of (sn_outbound ?t) v = (if v = uid then None else map_of (sn_outbound t) v)" for v
    by (simp add: delete_conv)
  have "session_ok r other t" using assms t by (simp add: sessions_ok_def)
  then have "session_ok ?r other ?t" unfolding session_ok_def out by (auto simp: ask_def split: if_splits)
  moreover have "outs ?t \<subseteq> outs t" unfolding outs_def out by (auto simp: ran_def split: if_splits)
  ultimately have "sessions_ok (set_session other ?t ?r)"
    using assms t by (intro sessions_ok_set_same [of ?r other t]) simp_all
  moreover have "kept {uid} r (set_session other ?t ?r)"
    using t by (intro kept_trans [OF _ kept_set [of ?r other t]]) (simp_all add: like_def out)
  ultimately show ?thesis unfolding eq using sessions_ok_negotiate kept_trans [OF _ kept_negotiate] by blast
next
  case False
  then have "unwire A uid rid other r = r" by (auto simp: unwire_def split: option.split)
  then show ?thesis using assms by simp
qed

lemma fold_unwire:
  "sessions_ok r \<Longrightarrow> sessions_ok (fold (unwire A uid rid) ks r) \<and> kept {uid} r (fold (unwire A uid rid) ks r)"
proof (induction ks arbitrary: r)
  case (Cons k ks)
  then show ?case using unwire_ok [OF Cons.prems] kept_trans by fastforce
qed simp

lemma router_ok_cong:
  assumes "rt_sessions r' = rt_sessions r" "rt_next_connection r' = rt_next_connection r"
    "rt_next_object r' = rt_next_object r" "rt_next_ssrc r' = rt_next_ssrc r" "rt_routes r' = rt_routes r"
  shows "router_ok r' = router_ok r"
  using assms sessions_ok_cong [OF assms(1-4)] by (simp add: router_ok_def meshed_def find_session_def)

lemma left_ok:
  assumes "router_ok r"
  shows "router_ok (on_participant_left A rid uid r)"
proof (cases "find_session r uid")
  case None
  then show ?thesis using assms by (simp add: on_participant_left_def)
next
  case (Some s)
  define r1 where "r1 = r\<lparr>rt_sessions := AList.delete uid (rt_sessions r)\<rparr>"
  define r2 where "r2 = fold (unwire A uid rid) (map fst (rt_sessions r1)) r1"
  have r1: "sessions_ok r1" "find_session r1 v = (if v = uid then None else find_session r v)" for v
    using assms sessions_ok_delete find_deleted by (simp_all add: router_ok_def r1_def)
  have "meshed r1" using meshed_delete [OF _ r1(2)] assms by (simp add: router_ok_def)
  moreover have r2: "sessions_ok r2" "kept {uid} r1 r2" using fold_unwire [OF r1(1)] by (simp_all add: r2_def)
  ultimately have "meshed r2" using r1(2) by (intro meshed_kept [where r = r1 and r' = r2 and U = "{uid}"]) auto
  then have "router_ok (publish_routes r2)" using r2(1) by simp
  moreover have "rt_sessions (on_participant_left A rid uid r) = rt_sessions (publish_routes r2)
      \<and> rt_next_connection (on_participant_left A rid uid r) = rt_next_connection (publish_routes r2)
      \<and> rt_next_object (on_participant_left A rid uid r) = rt_next_object (publish_routes r2)
      \<and> rt_next_ssrc (on_participant_left A rid uid r) = rt_next_ssrc (publish_routes r2)
      \<and> rt_routes (on_participant_left A rid uid r) = rt_routes (publish_routes r2)"
    using Some by (simp add: on_participant_left_def Let_def r1_def r2_def publish_routes_def ask_def)
  ultimately show ?thesis using router_ok_cong by blast
qed

section \<open>Everything that happens to the router\<close>

datatype router_event =
    Joined rtc_answers string string string string
  | Left rtc_answers string string
  | ShareStarted string string
  | Signalled string string message
  | HandlerSet
  | LocalDescription string string bool string
  | LocalCandidate string string string string
  | SignalingState string bool
  | AudioNacked
  | KeyframeWanted rtc_answers string
  | ViewerReport string string nat
  | WorkerTurn rtc_answers

fun router_step :: "router_event \<Rightarrow> router \<Rightarrow> router" where
  "router_step (Joined A rid name uid label) r = on_participant_joined A rid name uid label r"
| "router_step (Left A rid uid) r = on_participant_left A rid uid r"
| "router_step (ShareStarted rid uid) r = on_screen_share_started rid uid r"
| "router_step (Signalled rid uid m) r = on_media_signal rid uid m r"
| "router_step HandlerSet r = on_signal r"
| "router_step (LocalDescription uid rid is_offer sdp) r = on_sfu_description uid rid is_offer sdp r"
| "router_step (LocalCandidate uid rid candidate mid) r = on_sfu_candidate uid rid candidate mid r"
| "router_step (SignalingState uid is_stable) r = on_signaling_state uid is_stable r"
| "router_step AudioNacked r = on_audio_nack r"
| "router_step (KeyframeWanted A rid) r = request_keyframe_from_sharer A rid r"
| "router_step (ViewerReport viewer rid bps) r = note_viewer_bandwidth viewer rid bps r"
| "router_step (WorkerTurn A) r = worker_turn A r"

text \<open>Packets go by in between: they change counters and stitchers.\<close>

inductive reached :: "'p packet_library \<Rightarrow> router_options \<Rightarrow> router \<Rightarrow> bool" for L options where
  reached_new: "reached L options (new_router options)"
| reached_step: "reached L options r \<Longrightarrow> reached L options (router_step e r)"
| reached_audio: "reached L options r \<Longrightarrow> reached L options (snd (forward_audio L A uid rid p r))"
| reached_video: "reached L options r \<Longrightarrow> reached L options (snd (forward_video L A uid rid p r))"

definition routing_same :: "router \<Rightarrow> router \<Rightarrow> bool" where
  "routing_same r r' \<longleftrightarrow> rt_sessions r' = rt_sessions r \<and> rt_next_connection r' = rt_next_connection r
     \<and> rt_next_object r' = rt_next_object r \<and> rt_next_ssrc r' = rt_next_ssrc r \<and> rt_routes r' = rt_routes r"

lemma routing_same_ok: "routing_same r r' \<Longrightarrow> router_ok r \<Longrightarrow> router_ok r'"
  unfolding routing_same_def using router_ok_cong by blast

lemma quiet_events:
  "routing_same r (on_screen_share_started rid uid r)" "routing_same r (on_media_signal rid uid m r)"
  "routing_same r (on_signal r)" "routing_same r (on_sfu_description uid rid is_offer sdp r)"
  "routing_same r (on_sfu_candidate uid rid candidate mid r)" "routing_same r (on_signaling_state uid is_stable r)"
  "routing_same r (on_audio_nack r)" "routing_same r (note_viewer_bandwidth uid rid bps r)"
  "routing_same r (snd (forward_audio L A uid rid p r))" "routing_same r (snd (forward_video L A uid rid p r))"
  by (simp_all add: routing_same_def on_screen_share_started_def on_media_signal_def on_signal_def
      on_sfu_description_def on_sfu_candidate_def on_signaling_state_def on_audio_nack_def enqueue_def
      post_def note_viewer_bandwidth_def apply_viewer_ceiling_def forward_audio_def forward_video_def
      Let_def split_beta split: option.split message.split)

lemma keyframe_same: "routing_same r (request_keyframe_from_sharer A rid r)"
proof -
  define f where "f = (\<lambda>t r. if \<not> an_open A t then r else (let r = ask (RequestKeyframe t) r
      in if an_keyframe_asked A t
         then r\<lparr>rt_keyframe_requests_forwarded := rt_keyframe_requests_forwarded r + 1\<rparr> else r))"
  have step: "routing_same r0 (f t r) = routing_same r0 r" for r0 t r by (simp add: f_def routing_same_def Let_def)
  have "routing_same r0 (fold f ts r) = routing_same r0 r" for ts r0 r
    by (induction ts arbitrary: r) (simp_all add: step)
  then have "routing_same r (fold f (tb_video_inbound (rt_routes r) rid) r)" by (simp add: routing_same_def)
  then show ?thesis by (simp add: request_keyframe_from_sharer_def f_def)
qed

lemma router_ok_negotiate:
  assumes "router_ok r"
  shows "router_ok (negotiate A u r)"
proof -
  have "rt_routes (negotiate A u r) = rt_routes r" by (rule negotiate_cases [of A u r]) simp_all
  then show ?thesis using assms sessions_ok_negotiate meshed_kept [OF _ kept_negotiate [of "{}"]] table_negotiate
    unfolding router_ok_def by fastforce
qed

lemma worker_turn_ok:
  assumes "router_ok r"
  shows "router_ok (worker_turn A r)"
proof (cases "rt_tasks r")
  case (Cons t ts)
  have "router_ok (r\<lparr>rt_tasks := ts\<rparr>)" using assms routing_same_ok [of r "r\<lparr>rt_tasks := ts\<rparr>"]
    by (simp add: routing_same_def)
  moreover have "router_ok (ask c r)" if "router_ok r" for c r
    using that routing_same_ok [of r "ask c r"] by (simp add: routing_same_def)
  ultimately show ?thesis using Cons
    by (auto simp: worker_turn_def run_task_def router_ok_negotiate split: task.split option.split)
qed (use assms in \<open>simp add: worker_turn_def\<close>)

lemma router_step_ok:
  assumes "router_ok r"
  shows "router_ok (router_step e r)"
proof -
  have same: "router_ok r'" if "routing_same r r'" for r' using routing_same_ok that assms by blast
  show ?thesis
  proof (cases e)
    case Joined
    then show ?thesis using joined_ok assms by (simp add: router_ok_def)
  qed (simp_all add: same quiet_events keyframe_same left_ok worker_turn_ok assms)
qed

interpretation router_machine: invariant_machine router_step router_ok
  by unfold_locales (rule router_step_ok)

lemma new_router_ok: "router_ok (new_router options)"
  by (simp add: router_ok_def sessions_ok_def meshed_def ssrcs_ok_def all_outs_def new_router_def find_session_def
      table_of_def empty_table_def List.map_filter_def)

lemma reached_ok: "reached L options r \<Longrightarrow> router_ok r"
  by (induction rule: reached.induct)
    (auto intro: new_router_ok router_step_ok routing_same_ok quiet_events(9,10))

end
