(* ===== verification/MediaRouterCap.thy ===== *)
theory MediaRouterCap
  imports MediaRouterProofs
begin

text \<open>
  What the viewers of a share say they can take: the reports on record, the least of them per room, and
  that it is what the feedback of the room, and of no other, is held to.
\<close>

section \<open>The cap of the viewers\<close>

text \<open>What a viewer is held to have said, and about which room.\<close>

definition reported :: "router \<Rightarrow> string \<Rightarrow> (int \<times> string) option" where
  "reported r v = (case map_of (rt_viewer_bandwidth_kbps r) v of None \<Rightarrow> None
     | Some kbps \<Rightarrow> map_option (\<lambda>rid. (kbps, rid)) (map_of (rt_viewer_room r) v))"

definition reports_ok :: "router \<Rightarrow> bool" where
  "reports_ok r \<longleftrightarrow> distinct (map fst (rt_viewer_bandwidth_kbps r))
     \<and> (\<forall>v kbps. map_of (rt_viewer_bandwidth_kbps r) v = Some kbps \<longrightarrow> 0 < kbps)"

definition capped_at :: "router \<Rightarrow> string \<Rightarrow> int \<Rightarrow> bool" where
  "capped_at r rid cap \<longleftrightarrow> (\<forall>v kbps. reported r v = Some (kbps, rid) \<longrightarrow> 0 < cap \<and> cap \<le> kbps)
     \<and> (cap = 0 \<or> (\<exists>v. reported r v = Some (cap, rid)))"

definition smaller :: "(string \<Rightarrow> string option) \<Rightarrow> string \<Rightarrow> string \<times> int \<Rightarrow> int \<Rightarrow> int" where
  "smaller room rid x s = (if room (fst x) \<noteq> Some rid then s else if s = 0 then snd x else min s (snd x))"

lemma smallest_fold:
  assumes "\<forall>x \<in> set xs. 0 < snd x" "0 \<le> a"
  shows "(\<forall>x \<in> set xs. room (fst x) = Some rid
        \<longrightarrow> 0 < fold (smaller room rid) xs a \<and> fold (smaller room rid) xs a \<le> snd x)
    \<and> (0 < a \<longrightarrow> 0 < fold (smaller room rid) xs a \<and> fold (smaller room rid) xs a \<le> a)
    \<and> (fold (smaller room rid) xs a = a
       \<or> (\<exists>x \<in> set xs. room (fst x) = Some rid \<and> snd x = fold (smaller room rid) xs a))"
  using assms
proof (induction xs arbitrary: a)
  case (Cons x xs)
  have a: "0 \<le> smaller room rid x a" using Cons.prems by (auto simp: smaller_def)
  show ?case using Cons.IH [OF _ a] Cons.prems by (auto simp: smaller_def min_def split: if_splits)
qed simp

lemma smallest_smaller:
  "smallest_viewer_report r rid = fold (smaller (map_of (rt_viewer_room r)) rid) (rt_viewer_bandwidth_kbps r) 0"
  unfolding smallest_viewer_report_def
  by (rule arg_cong [of _ _ "\<lambda>f. fold f _ 0"]) (auto simp: smaller_def fun_eq_iff)

lemma smallest_is_the_cap:
  assumes "reports_ok r"
  shows "capped_at r rid (smallest_viewer_report r rid)"
proof -
  let ?bw = "rt_viewer_bandwidth_kbps r"
  let ?s = "smallest_viewer_report r rid" and ?room = "map_of (rt_viewer_room r)"
  have mem: "(v, k) \<in> set ?bw \<longleftrightarrow> map_of ?bw v = Some k" for v k
    using assms by (simp add: reports_ok_def)
  have positive: "\<forall>x \<in> set ?bw. 0 < snd x" using assms mem by (auto simp: reports_ok_def)
  have reported: "reported r v = Some (k, rid) \<longleftrightarrow> (v, k) \<in> set ?bw \<and> ?room v = Some rid" for v k
    by (auto simp: reported_def mem split: option.split)
  note s = smallest_fold [OF positive order.refl, of ?room rid, folded smallest_smaller]
  have "0 < ?s \<and> ?s \<le> k" if "reported r v = Some (k, rid)" for v k
    using s that unfolding reported by fastforce
  moreover have "?s = 0 \<or> (\<exists>v. reported r v = Some (?s, rid))"
    using s unfolding reported by force
  ultimately show ?thesis unfolding capped_at_def by blast
qed

lemma ceilings:
  "rt_feedbacks (apply_viewer_ceiling rid kbps r) j =
     (if j \<in> set (tb_video_feedback (rt_routes r) rid) then set_bandwidth_ceiling kbps (rt_feedbacks r j)
      else rt_feedbacks r j)"
proof -
  have twice: "set_bandwidth_ceiling kbps (set_bandwidth_ceiling kbps v) = set_bandwidth_ceiling kbps v" for v
    by (simp add: set_bandwidth_ceiling_def set_ceiling_def)
  have all: "fold (\<lambda>i f. f(i := set_bandwidth_ceiling kbps (f i))) ks f j =
      (if j \<in> set ks then set_bandwidth_ceiling kbps (f j) else f j)" for ks f
    by (induction ks arbitrary: f) (auto simp: twice)
  show ?thesis by (simp add: apply_viewer_ceiling_def all)
qed

lemma in_map_filter: "y \<in> set (List.map_filter f xs) \<longleftrightarrow> (\<exists>x \<in> set xs. f x = Some y)"
  by (force simp: List.map_filter_def)

lemma feedback_of_room:
  assumes "router_ok r" "find_session r w = Some t" "sn_video_feedback t = Some j"
  shows "j \<in> set (tb_video_feedback (rt_routes r) rid) \<longleftrightarrow> sn_room_id t = rid"
proof -
  have core: "sessions_ok r" and routes: "rt_routes r = table_of (rt_sessions r)"
    using assms(1) by (simp_all add: router_ok_def)
  have mem: "(v, s) \<in> set (rt_sessions r) \<longleftrightarrow> find_session r v = Some s" for v s
    using core by (simp add: sessions_ok_def find_session_def)
  have "j \<in> set (tb_video_feedback (rt_routes r) rid) \<longleftrightarrow>
      (\<exists>v s. find_session r v = Some s \<and> sn_room_id s = rid \<and> sn_video_feedback s = Some j)"
    by (force simp: routes table_of_def in_map_filter mem)
  moreover have "v = w" if "find_session r v = Some s" "sn_video_feedback s = Some j" for v s
    using core assms(2,3) that unfolding sessions_ok_def apart_def by metis
  ultimately show ?thesis using assms(2,3) by (metis option.inject)
qed

lemma reports_ok_cong:
  assumes "rt_viewer_bandwidth_kbps r' = rt_viewer_bandwidth_kbps r"
  shows "reports_ok r' = reports_ok r"
  using assms by (simp add: reports_ok_def)

lemma reports_untouched:
  "rt_viewer_bandwidth_kbps (ask c r) = rt_viewer_bandwidth_kbps r"
  "rt_viewer_bandwidth_kbps (set_session u s r) = rt_viewer_bandwidth_kbps r"
  "rt_viewer_bandwidth_kbps (publish_routes r) = rt_viewer_bandwidth_kbps r"
  "rt_viewer_bandwidth_kbps (negotiate A u r) = rt_viewer_bandwidth_kbps r"
  "rt_viewer_bandwidth_kbps (add_outbound_track A u v r) = rt_viewer_bandwidth_kbps r"
  "rt_viewer_bandwidth_kbps (create_session A rid name u label r) = rt_viewer_bandwidth_kbps r"
  "rt_viewer_bandwidth_kbps (apply_viewer_ceiling rid k r) = rt_viewer_bandwidth_kbps r"
  by (simp_all add: ask_def set_session_def publish_routes_def negotiate_def add_outbound_track_def
      create_session_def apply_viewer_ceiling_def Let_def split: option.split)

lemma reports_wired:
  "rt_viewer_bandwidth_kbps (wire A u rid v r) = rt_viewer_bandwidth_kbps r"
  "rt_viewer_bandwidth_kbps (unwire A rid u v r) = rt_viewer_bandwidth_kbps r"
  by (simp_all add: wire_def unwire_def reports_untouched split: option.split)

lemma reports_fold:
  assumes "\<And>k r. rt_viewer_bandwidth_kbps (f k r) = rt_viewer_bandwidth_kbps r"
  shows "rt_viewer_bandwidth_kbps (fold f ks r) = rt_viewer_bandwidth_kbps r"
  by (induction ks arbitrary: r) (simp_all add: assms)

lemma reports_forget:
  assumes "reports_ok r"
  shows "reports_ok (forget_viewer_bandwidth u r)"
proof (cases "map_of (rt_viewer_room r) u")
  case None
  then show ?thesis using assms by (simp add: forget_viewer_bandwidth_def)
next
  case (Some rid)
  have "rt_viewer_bandwidth_kbps (forget_viewer_bandwidth u r) = AList.delete u (rt_viewer_bandwidth_kbps r)"
    using Some by (simp add: forget_viewer_bandwidth_def reports_untouched Let_def)
  then show ?thesis using assms
    by (auto simp: reports_ok_def distinct_delete delete_conv split: if_splits)
qed

lemma reports_then_forget:
  "reports_ok r \<Longrightarrow> rt_viewer_bandwidth_kbps r' = rt_viewer_bandwidth_kbps r
   \<Longrightarrow> reports_ok (forget_viewer_bandwidth u r')"
  using reports_forget reports_ok_cong by blast

lemma reports_note:
  assumes "reports_ok r"
  shows "reports_ok (note_viewer_bandwidth u rid bps r)"
proof (cases "int (bps div 1000) \<le> 0 \<or> map_of (rt_sharer_by_room r) rid = Some u")
  case True
  then show ?thesis using assms by (simp add: note_viewer_bandwidth_def Let_def)
next
  case False
  then have "rt_viewer_bandwidth_kbps (note_viewer_bandwidth u rid bps r)
      = AList.update u (int (bps div 1000)) (rt_viewer_bandwidth_kbps r)"
    by (simp only: note_viewer_bandwidth_def reports_untouched Let_def if_False) simp
  then show ?thesis using assms False
    by (auto simp: reports_ok_def distinct_update update_conv split: if_splits)
qed

lemma reports_run_task: "rt_viewer_bandwidth_kbps (run_task A t r) = rt_viewer_bandwidth_kbps r"
  by (simp add: run_task_def reports_untouched split: task.split option.split)

lemma reports_step:
  assumes "reports_ok r"
  shows "reports_ok (router_step e r)"
proof -
  have same: "reports_ok r'" if "rt_viewer_bandwidth_kbps r' = rt_viewer_bandwidth_kbps r" for r'
    using reports_ok_cong [OF that] assms by simp
  show ?thesis
  proof (cases e)
    case (Joined A rid name uid label)
    have "reports_ok (replace_session uid r)"
      using assms by (auto simp: replace_session_def reports_ok_def reports_untouched split: option.split
          intro!: reports_forget [unfolded reports_ok_def])
    then show ?thesis using Joined
      by (simp add: on_participant_joined_def Let_def reports_ok_def reports_untouched reports_fold reports_wired)
  next
    case (Left A rid uid)
    then show ?thesis using assms
      by (auto simp: on_participant_left_def Let_def reports_untouched reports_fold reports_wired
          split: option.split intro!: reports_then_forget [OF assms])
  next
    case (ShareStarted rid uid)
    then show ?thesis by (simp add: on_screen_share_started_def reports_then_forget [OF assms])
  next
    case (KeyframeWanted A rid)
    then show ?thesis
      by (auto simp: request_keyframe_from_sharer_def reports_untouched Let_def intro!: same reports_fold)
  next
    case (WorkerTurn A)
    then show ?thesis
      by (auto simp: worker_turn_def reports_run_task intro!: same split: list.split)
  next
    case (ViewerReport viewer rid bps)
    then show ?thesis using assms by (simp add: reports_note)
  qed (auto simp: on_media_signal_def on_signal_def on_sfu_description_def on_sfu_candidate_def post_def
      on_signaling_state_def on_audio_nack_def enqueue_def reports_untouched split: option.split message.split
      intro!: same)
qed

lemma reached_reports: "reached L options r \<Longrightarrow> reports_ok r"
proof (induction rule: reached.induct)
  case (reached_audio r A uid rid p)
  then show ?case by (simp add: forward_audio_def reports_ok_def Let_def split: option.split)
next
  case (reached_video r A uid rid p)
  then show ?case by (simp add: forward_video_def reports_ok_def Let_def split_beta split: option.split)
qed (simp_all add: reports_step, simp add: reports_ok_def new_router_def)

section \<open>What the sharer is asked for\<close>

lemma told_cong:
  "rt_viewer_bandwidth_kbps r' = rt_viewer_bandwidth_kbps r \<Longrightarrow> rt_viewer_room r' = rt_viewer_room r
   \<Longrightarrow> reported r' v = reported r v"
  unfolding reported_def by (simp only:)

lemma capped_cong:
  assumes "rt_viewer_bandwidth_kbps r' = rt_viewer_bandwidth_kbps r" "rt_viewer_room r' = rt_viewer_room r"
  shows "capped_at r' rid cap = capped_at r rid cap"
  by (simp add: capped_at_def told_cong [OF assms])

lemma forgotten:
  assumes "map_of (rt_viewer_room r) u = Some rid"
  defines "r' \<equiv> forget_viewer_bandwidth u r"
  shows "reported r' = (reported r)(u := None)" "reports_ok r \<Longrightarrow> capped_at r' rid (rt_viewer_ceiling_kbps r')"
    and "rt_feedbacks r' j = (if j \<in> set (tb_video_feedback (rt_routes r) rid)
      then set_bandwidth_ceiling (rt_viewer_ceiling_kbps r') (rt_feedbacks r j) else rt_feedbacks r j)"
proof -
  let ?q = "r\<lparr>rt_viewer_room := AList.delete u (rt_viewer_room r),
      rt_viewer_bandwidth_kbps := AList.delete u (rt_viewer_bandwidth_kbps r)\<rparr>"
  let ?cap = "smallest_viewer_report ?q rid"
  have r': "r' = apply_viewer_ceiling rid ?cap (?q\<lparr>rt_viewer_ceiling_kbps := ?cap\<rparr>)"
    using assms by (simp add: forget_viewer_bandwidth_def Let_def)
  have fields: "rt_viewer_bandwidth_kbps r' = rt_viewer_bandwidth_kbps ?q" "rt_viewer_room r' = rt_viewer_room ?q"
    "rt_viewer_ceiling_kbps r' = ?cap" by (simp_all add: r' apply_viewer_ceiling_def)
  show "reported r' = (reported r)(u := None)"
    by (rule ext) (simp add: reported_def fields delete_conv split: option.split)
  show "capped_at r' rid (rt_viewer_ceiling_kbps r')" if ok: "reports_ok r"
  proof -
    have "reports_ok ?q" using ok by (auto simp: reports_ok_def distinct_delete delete_conv split: if_splits)
    then have "capped_at ?q rid ?cap" by (rule smallest_is_the_cap)
    then show ?thesis unfolding fields(3) by (simp add: capped_cong [OF fields(1,2)])
  qed
  show "rt_feedbacks r' j = (if j \<in> set (tb_video_feedback (rt_routes r) rid)
      then set_bandwidth_ceiling (rt_viewer_ceiling_kbps r') (rt_feedbacks r j) else rt_feedbacks r j)"
    unfolding fields(3) by (simp add: r' ceilings)
qed

lemma noted:
  assumes "0 < bps div 1000" "map_of (rt_sharer_by_room r) rid \<noteq> Some u"
  defines "r' \<equiv> note_viewer_bandwidth u rid bps r"
  shows "reported r' = (reported r)(u \<mapsto> (int (bps div 1000), rid))"
    and "reports_ok r \<Longrightarrow> capped_at r' rid (rt_viewer_ceiling_kbps r')"
    and "rt_feedbacks r' j = (if j \<in> set (tb_video_feedback (rt_routes r) rid)
      then set_bandwidth_ceiling (rt_viewer_ceiling_kbps r') (rt_feedbacks r j) else rt_feedbacks r j)"
proof -
  let ?kbps = "int (bps div 1000)"
  let ?q = "r\<lparr>rt_viewer_bandwidth_kbps := AList.update u ?kbps (rt_viewer_bandwidth_kbps r),
      rt_viewer_room := AList.update u rid (rt_viewer_room r)\<rparr>"
  let ?cap = "smallest_viewer_report ?q rid"
  have go: "\<not> (?kbps \<le> 0 \<or> map_of (rt_sharer_by_room r) rid = Some u)" using assms by linarith
  have r': "r' = apply_viewer_ceiling rid ?cap (?q\<lparr>rt_viewer_ceiling_kbps := ?cap,
      rt_viewer_reports_received := rt_viewer_reports_received ?q + 1\<rparr>)"
    unfolding r'_def note_viewer_bandwidth_def Let_def if_not_P [OF go] by simp
  have fields: "rt_viewer_bandwidth_kbps r' = rt_viewer_bandwidth_kbps ?q" "rt_viewer_room r' = rt_viewer_room ?q"
    "rt_viewer_ceiling_kbps r' = ?cap" by (simp_all add: r' apply_viewer_ceiling_def)
  show "reported r' = (reported r)(u \<mapsto> (?kbps, rid))"
    by (rule ext) (simp add: reported_def fields update_conv split: option.split)
  show "capped_at r' rid (rt_viewer_ceiling_kbps r')" if ok: "reports_ok r"
  proof -
    have "reports_ok ?q" using ok go by (auto simp: reports_ok_def distinct_update update_conv split: if_splits)
    then have "capped_at ?q rid ?cap" by (rule smallest_is_the_cap)
    then show ?thesis unfolding fields(3) by (simp add: capped_cong [OF fields(1,2)])
  qed
  show "rt_feedbacks r' j = (if j \<in> set (tb_video_feedback (rt_routes r) rid)
      then set_bandwidth_ceiling (rt_viewer_ceiling_kbps r') (rt_feedbacks r j) else rt_feedbacks r j)"
    unfolding fields(3) by (simp add: r' ceilings)
qed

text \<open>C13. The slowest viewer of a room caps the share. A report that is taken replaces what its viewer said
  before; the cap is then the least that any viewer is on record with for that room, and the feedback
  of every session of the room, and of no other, is set to it.\<close>

theorem slowest_viewer_caps_the_share:
  assumes "reached L options r" "0 < bps div 1000" "map_of (rt_sharer_by_room r) rid \<noteq> Some u"
  shows "reported (note_viewer_bandwidth u rid bps r) = (reported r)(u \<mapsto> (int (bps div 1000), rid))
    \<and> capped_at (note_viewer_bandwidth u rid bps r) rid (rt_viewer_ceiling_kbps (note_viewer_bandwidth u rid bps r))
    \<and> (\<forall>w t j. find_session r w = Some t \<and> sn_video_feedback t = Some j
        \<longrightarrow> rt_feedbacks (note_viewer_bandwidth u rid bps r) j =
          (if sn_room_id t = rid
           then set_bandwidth_ceiling (rt_viewer_ceiling_kbps (note_viewer_bandwidth u rid bps r)) (rt_feedbacks r j)
           else rt_feedbacks r j))"
  using noted [OF assms(2,3)] reached_reports [OF assms(1)]
  by (auto simp: feedback_of_room [OF reached_ok [OF assms(1)]])

lemma fields_untouched [simp]:
  "rt_viewer_room (ask c r) = rt_viewer_room r" "rt_viewer_room (set_session u s r) = rt_viewer_room r"
  "rt_viewer_room (publish_routes r) = rt_viewer_room r" "rt_viewer_room (negotiate A u r) = rt_viewer_room r"
  "rt_feedbacks (ask c r) = rt_feedbacks r" "rt_feedbacks (set_session u s r) = rt_feedbacks r"
  "rt_feedbacks (publish_routes r) = rt_feedbacks r" "rt_feedbacks (negotiate A u r) = rt_feedbacks r"
  by (simp_all add: ask_def set_session_def publish_routes_def negotiate_def split: option.split)

lemma unwire_untouched:
  "rt_viewer_room (fold (unwire A rid u) ks r) = rt_viewer_room r"
  "rt_feedbacks (fold (unwire A rid u) ks r) = rt_feedbacks r"
  "rt_viewer_bandwidth_kbps (fold (unwire A rid u) ks r) = rt_viewer_bandwidth_kbps r"
proof -
  have "rt_viewer_room (unwire A rid u v r) = rt_viewer_room r" "rt_feedbacks (unwire A rid u v r) = rt_feedbacks r"
    for v r by (simp_all add: unwire_def split: option.split)
  then show "rt_viewer_room (fold (unwire A rid u) ks r) = rt_viewer_room r"
    "rt_feedbacks (fold (unwire A rid u) ks r) = rt_feedbacks r"
    by (induction ks arbitrary: r) simp_all
qed (rule reports_fold, rule reports_wired)

text \<open>Whoever leaves stops holding the others back: nothing they reported is on record any more, and the
  cap of the room they watched is the least of what the others said, or lifted when nobody is left.\<close>

lemma leaver_lifts_the_cap:
  assumes "reached L options r" "find_session r u = Some s" "map_of (rt_viewer_room r) u = Some watched"
  shows "reported (on_participant_left A rid u r) = (reported r)(u := None)
    \<and> capped_at (on_participant_left A rid u r) watched (rt_viewer_ceiling_kbps (on_participant_left A rid u r))
    \<and> (\<forall>w t j. find_session (on_participant_left A rid u r) w = Some t \<and> sn_video_feedback t = Some j
        \<longrightarrow> rt_feedbacks (on_participant_left A rid u r) j =
          (if sn_room_id t = watched
           then set_bandwidth_ceiling (rt_viewer_ceiling_kbps (on_participant_left A rid u r)) (rt_feedbacks r j)
           else rt_feedbacks r j))"
proof -
  define r' where "r' = on_participant_left A rid u r"
  obtain q where q: "r' = forget_viewer_bandwidth u q" "rt_viewer_room q = rt_viewer_room r"
      "rt_feedbacks q = rt_feedbacks r" "rt_viewer_bandwidth_kbps q = rt_viewer_bandwidth_kbps r"
    using assms(2) by (simp add: r'_def on_participant_left_def Let_def unwire_untouched reports_untouched)
  have ok: "router_ok r'" using left_ok reached_ok [OF assms(1)] by (simp add: r'_def)
  have routes: "rt_routes r' = rt_routes q"
    by (simp add: q(1) forget_viewer_bandwidth_def apply_viewer_ceiling_def Let_def split: option.split)
  have room: "map_of (rt_viewer_room q) u = Some watched" using assms(3) q(2) by simp
  have "reports_ok q" using reached_reports [OF assms(1)] reports_ok_cong [OF q(4)] by simp
  then have "reported r' = (reported r)(u := None)" "capped_at r' watched (rt_viewer_ceiling_kbps r')"
    "rt_feedbacks r' j = (if j \<in> set (tb_video_feedback (rt_routes r') watched)
      then set_bandwidth_ceiling (rt_viewer_ceiling_kbps r') (rt_feedbacks r j) else rt_feedbacks r j)" for j
    using forgotten [OF room] told_cong [OF q(4,2)] by (simp_all add: q(1,3) routes [unfolded q(1)] fun_eq_iff)
  then show ?thesis using feedback_of_room [OF ok] unfolding r'_def by auto
qed

text \<open>The number the statistics show is of the room touched last: leaving a room nobody else watches shows
  no cap, whatever another room is held to.\<close>

lemma ceiling_of_the_last_room:
  assumes "reached L options r" "map_of (rt_viewer_room r) u = Some watched"
    and "\<And>v kbps. v \<noteq> u \<Longrightarrow> reported r v \<noteq> Some (kbps, watched)" and "reported r w = Some (kbps, room)" "room \<noteq> watched" "w \<noteq> u"
  shows "reported (forget_viewer_bandwidth u r) w = Some (kbps, room)
    \<and> snd (snd (video_repair_stats (forget_viewer_bandwidth u r))) = 0"
  using forgotten [OF assms(2)] reached_reports [OF assms(1)] assms(3-6)
  by (auto simp: capped_at_def video_repair_stats_def split: if_splits)

end
