(* ===== verification/MediaRouterProperties.thy ===== *)
theory MediaRouterProperties
  imports MediaRouterCap
begin

text \<open>
  The properties of the forwarding unit: who gets a packet and how it is marked, that no two streams are
  confused, what the slowest viewer does to a share, and two things the code does not do.
\<close>

section \<open>Forwarding\<close>

definition others_in :: "router \<Rightarrow> string \<Rightarrow> string \<Rightarrow> (string \<times> media_session) list" where
  "others_in r u rid = filter (\<lambda>(v, t). v \<noteq> u \<and> sn_room_id t = rid) (rt_sessions r)"

definition carrying :: "string \<Rightarrow> media_session \<Rightarrow> outbound" where
  "carrying u t = the (map_of (sn_outbound t) u)"

definition showing :: "media_session \<Rightarrow> outbound" where
  "showing t = the (sn_video_outbound t)"

lemma map_filter_the: "(\<forall>x \<in> set xs. f x \<noteq> None) \<Longrightarrow> List.map_filter f xs = map (\<lambda>x. the (f x)) xs"
  by (induction xs) (auto simp: List.map_filter_simps)

lemma source_in_list: "map_of (map (\<lambda>(u, s). (u, f u s)) xs) u = map_option (f u) (map_of xs u)"
  by (induction xs) auto

lemma source_in_table: "map_of (tb_by_source (table_of xs)) u = map_option (route_of xs u) (map_of xs u)"
  by (simp add: table_of_def source_in_list)

lemma in_others:
  assumes "router_ok r" "(v, t) \<in> set (others_in r u rid)"
  shows "find_session r v = Some t" "v \<noteq> u" "sn_room_id t = rid" "session_ok r v t"
proof -
  show "find_session r v = Some t" "v \<noteq> u" "sn_room_id t = rid"
    using assms by (auto simp: others_in_def router_ok_def sessions_ok_def find_session_def)
  then show "session_ok r v t" using assms(1) by (simp add: router_ok_def sessions_ok_def)
qed

lemma route_others:
  assumes ok: "router_ok r" and s: "find_session r u = Some s"
  shows "to_audio (route_of (rt_sessions r) u s) = map (\<lambda>(v, t). carrying u t) (others_in r u (sn_room_id s))"
    and "to_video (route_of (rt_sessions r) u s) = map (\<lambda>(v, t). showing t) (others_in r u (sn_room_id s))"
    and "\<forall>(v, t) \<in> set (others_in r u (sn_room_id s)). map_of (sn_outbound t) u = Some (carrying u t)
      \<and> fst (ob_track (carrying u t)) = sn_connection t"
    and "\<forall>(v, t) \<in> set (others_in r u (sn_room_id s)). sn_video_outbound t = Some (showing t)
      \<and> fst (ob_track (showing t)) = sn_connection t"
proof -
  have carried: "map_of (sn_outbound t) u = Some (carrying u t) \<and> fst (ob_track (carrying u t)) = sn_connection t"
    and shown: "sn_video_outbound t = Some (showing t) \<and> fst (ob_track (showing t)) = sn_connection t"
    if "(v, t) \<in> set (others_in r u (sn_room_id s))" for v t
  proof -
    note o = in_others [OF ok that]
    have "map_of (sn_outbound t) u \<noteq> None"
      using ok s o by (metis meshed_def router_ok_def)
    then obtain d where d: "map_of (sn_outbound t) u = Some d" by blast
    then show "map_of (sn_outbound t) u = Some (carrying u t) \<and> fst (ob_track (carrying u t)) = sn_connection t"
      using o(4) by (simp add: session_ok_def carrying_def)
    show "sn_video_outbound t = Some (showing t) \<and> fst (ob_track (showing t)) = sn_connection t"
      using o(4) by (auto simp: session_ok_def showing_def)
  qed
  have routes: "to_audio (route_of (rt_sessions r) u s)
      = List.map_filter (\<lambda>(v, t). map_of (sn_outbound t) u) (others_in r u (sn_room_id s))"
    "to_video (route_of (rt_sessions r) u s)
      = List.map_filter (\<lambda>(v, t). sn_video_outbound t) (others_in r u (sn_room_id s))"
    by (simp_all add: route_of_def others_in_def Let_def)
  have "\<forall>x \<in> set (others_in r u (sn_room_id s)). map_of (sn_outbound (snd x)) u \<noteq> None"
    "\<forall>x \<in> set (others_in r u (sn_room_id s)). sn_video_outbound (snd x) \<noteq> None"
    using carried shown by fastforce+
  then show "to_audio (route_of (rt_sessions r) u s) = map (\<lambda>(v, t). carrying u t) (others_in r u (sn_room_id s))"
    and "to_video (route_of (rt_sessions r) u s) = map (\<lambda>(v, t). showing t) (others_in r u (sn_room_id s))"
    by (simp_all add: routes case_prod_unfold map_filter_the carrying_def showing_def)
  show "\<forall>(v, t) \<in> set (others_in r u (sn_room_id s)). map_of (sn_outbound t) u = Some (carrying u t)
      \<and> fst (ob_track (carrying u t)) = sn_connection t" using carried by blast
  show "\<forall>(v, t) \<in> set (others_in r u (sn_room_id s)). sn_video_outbound t = Some (showing t)
      \<and> fst (ob_track (showing t)) = sn_connection t" using shown by blast
qed

lemma route_found:
  assumes "router_ok r"
  shows "map_of (tb_by_source (rt_routes r)) u = map_option (route_of (rt_sessions r) u) (find_session r u)"
  using assms source_in_table by (simp add: router_ok_def find_session_def)

lemma route_room [simp]: "to_room_id (route_of xs u s) = sn_room_id s"
  by (simp add: route_of_def Let_def)

lemma audio_sent:
  assumes ok: "router_ok r"
  shows "fst (forward_audio L A u rid p r) =
    (case find_session r u of None \<Rightarrow> []
     | Some s \<Rightarrow> if not_forwarded L p \<or> sn_room_id s \<noteq> rid then []
        else map (\<lambda>(v, t). (ob_track (carrying u t), pl_set_ssrc L (ob_ssrc (carrying u t)) p))
          (filter (\<lambda>(v, t). an_open A (ob_track (carrying u t))) (others_in r u rid)))"
proof (cases "find_session r u")
  case None
  then show ?thesis using route_found [OF ok, of u] by (simp add: forward_audio_def Let_def)
next
  case (Some s)
  then show ?thesis using route_found [OF ok, of u] route_others(1) [OF ok Some]
    by (simp add: forward_audio_def Let_def filter_map comp_def case_prod_unfold)
qed

lemma send_video_tracks:
  "map fst (fst (send_video L A u p ds st)) = map ob_track (filter (\<lambda>d. an_open A (ob_track d)) ds)"
  by (induction ds arbitrary: st) (auto simp: split_beta Let_def)

lemma video_sent:
  assumes ok: "router_ok r"
  shows "map fst (fst (forward_video L A u rid p r)) =
    (case find_session r u of None \<Rightarrow> []
     | Some s \<Rightarrow> if not_forwarded L p \<or> sn_room_id s \<noteq> rid then []
        else map (\<lambda>(v, t). ob_track (showing t))
          (filter (\<lambda>(v, t). an_open A (ob_track (showing t))) (others_in r u rid)))"
proof (cases "find_session r u")
  case None
  then show ?thesis using route_found [OF ok, of u] by (simp add: forward_video_def Let_def)
next
  case (Some s)
  then show ?thesis using route_found [OF ok, of u] route_others(2) [OF ok Some]
    by (simp add: forward_video_def Let_def filter_map comp_def case_prod_unfold send_video_tracks)
qed

text \<open>C6. Everybody in a room hears everybody else in it. In every state the router reaches, a packet of
  somebody with a session in the room goes out once for each other participant whose track is open, on
  that participant's own connection and track for this speaker, and the source is all that changes in it.\<close>

theorem everybody_is_heard:
  assumes "reached L options r" "find_session r u = Some s" "\<not> not_forwarded L p"
  shows "fst (forward_audio L A u (sn_room_id s) p r) =
      map (\<lambda>(v, t). (ob_track (carrying u t), pl_set_ssrc L (ob_ssrc (carrying u t)) p))
        (filter (\<lambda>(v, t). an_open A (ob_track (carrying u t))) (others_in r u (sn_room_id s)))
    \<and> (\<forall>(v, t) \<in> set (others_in r u (sn_room_id s)). map_of (sn_outbound t) u = Some (carrying u t)
        \<and> fst (ob_track (carrying u t)) = sn_connection t)"
  using route_others(3) [OF reached_ok [OF assms(1)] assms(2)] assms(2,3)
  by (simp add: audio_sent [OF reached_ok [OF assms(1)]])

lemma forwarded_inside:
  assumes ok: "router_ok r"
    and sent: "sent \<in> set (map fst (fst (forward_audio L A u rid p r))) \<union> set (map fst (fst (forward_video L A u rid p r)))"
  shows "\<exists>s v t. find_session r u = Some s \<and> sn_room_id s = rid \<and> find_session r v = Some t \<and> v \<noteq> u
    \<and> sn_room_id t = rid \<and> fst sent = sn_connection t"
proof (cases "find_session r u")
  case None
  then show ?thesis using sent by (simp add: video_sent audio_sent ok)
next
  case (Some s)
  have room: "sn_room_id s = rid"
    using sent Some by (auto simp: video_sent [OF ok] audio_sent [OF ok] split: if_splits)
  obtain v t where t: "(v, t) \<in> set (others_in r u rid)"
      "sent = ob_track (carrying u t) \<or> sent = ob_track (showing t)"
    using sent Some by (auto simp: video_sent [OF ok] audio_sent [OF ok] split: if_splits)
  then have "fst sent = sn_connection t" using route_others(3,4) [OF ok Some] room by blast
  then show ?thesis using Some room in_others [OF ok t(1)] by blast
qed

text \<open>C7. Media stays in the room. Whatever arrives under whatever name, what goes out goes to somebody
  else who has a session in that room, and only if the sender has one there too.\<close>

theorem media_stays_in_the_room:
  assumes "reached L options r"
    and "sent \<in> set (map fst (fst (forward_audio L A u rid p r))) \<union> set (map fst (fst (forward_video L A u rid p r)))"
  shows "\<exists>s v t. find_session r u = Some s \<and> sn_room_id s = rid \<and> find_session r v = Some t \<and> v \<noteq> u
    \<and> sn_room_id t = rid \<and> fst sent = sn_connection t"
  using forwarded_inside [OF reached_ok [OF assms(1)] assms(2)] .


section \<open>What leaving does not do\<close>

text \<open>Nothing is waiting: every connection has made its offer and no track waits for another.\<close>

definition settled :: "rtc_answers \<Rightarrow> router \<Rightarrow> bool" where
  "settled A r \<longleftrightarrow> (\<forall>u s. find_session r u = Some s \<longrightarrow>
     \<not> sn_renegotiation_pending s \<and> an_offered A (sn_connection s))"

fun is_offer :: "rtc_call \<Rightarrow> bool" where
  "is_offer (MakeOffer c) = True"
| "is_offer _ = False"

lemma ask_calls: "rt_calls (ask c r) = rt_calls r @ [c]"
  by (simp add: ask_def)

lemma settled_keeps: "settled A r \<Longrightarrow> negotiate A v r = r"
  by (auto simp: settled_def negotiate_def split: option.split)

lemma settled_unwire:
  assumes "settled A r"
  shows "settled A (unwire A u rid v r) \<and> rt_tasks (unwire A u rid v r) = rt_tasks r
    \<and> filter is_offer (rt_calls (unwire A u rid v r)) = filter is_offer (rt_calls r)
    \<and> set (rt_calls r) \<subseteq> set (rt_calls (unwire A u rid v r))"
proof (cases "\<exists>t d. find_session r v = Some t \<and> sn_room_id t = rid \<and> map_of (sn_outbound t) u = Some d")
  case True
  then obtain t d where t: "find_session r v = Some t" "sn_room_id t = rid" "map_of (sn_outbound t) u = Some d"
    by blast
  let ?r = "set_session v (t\<lparr>sn_outbound := AList.delete u (sn_outbound t)\<rparr>) (ask (CloseTrack (ob_track d)) r)"
  have "settled A ?r" using assms t by (simp add: settled_def find_set_session)
  then show ?thesis using t by (auto simp: unwire_def settled_keeps ask_calls)
next
  case False
  then have "unwire A u rid v r = r" by (auto simp: unwire_def split: option.split)
  then show ?thesis using assms by simp
qed

lemma unwire_closes:
  assumes "find_session r v = Some t" "sn_room_id t = rid" "map_of (sn_outbound t) u = Some d"
  shows "CloseTrack (ob_track d) \<in> set (rt_calls (unwire A u rid v r))"
proof -
  let ?r = "set_session v (t\<lparr>sn_outbound := AList.delete u (sn_outbound t)\<rparr>) (ask (CloseTrack (ob_track d)) r)"
  have "unwire A u rid v r = negotiate A v ?r" using assms by (simp add: unwire_def)
  moreover have "set (rt_calls ?r) \<subseteq> set (rt_calls (negotiate A v ?r))"
    by (rule negotiate_cases [of A v ?r]) (auto simp: ask_calls)
  ultimately show ?thesis by (auto simp: ask_calls)
qed

lemma unwire_elsewhere: "w \<noteq> v \<Longrightarrow> find_session (unwire A u rid v r) w = find_session r w"
  by (auto simp: unwire_def negotiate_def find_set_session split: option.split)

lemma settled_fold:
  assumes "settled A r"
  shows "settled A (fold (unwire A u rid) ks r) \<and> rt_tasks (fold (unwire A u rid) ks r) = rt_tasks r
    \<and> filter is_offer (rt_calls (fold (unwire A u rid) ks r)) = filter is_offer (rt_calls r) \<and> set (rt_calls r) \<subseteq> set (rt_calls (fold (unwire A u rid) ks r))
    \<and> (\<forall>v \<in> set ks. \<forall>t d. find_session r v = Some t \<and> sn_room_id t = rid \<and> map_of (sn_outbound t) u = Some d
        \<longrightarrow> CloseTrack (ob_track d) \<in> set (rt_calls (fold (unwire A u rid) ks r)))"
  using assms
proof (induction ks arbitrary: r)
  case (Cons k ks)
  note one = settled_unwire [OF Cons.prems, of u rid k]
  note rest = Cons.IH [OF conjunct1 [OF one]]
  have "CloseTrack (ob_track d) \<in> set (rt_calls (fold (unwire A u rid) (k # ks) r))"
    if "v \<in> set (k # ks)" "find_session r v = Some t" "sn_room_id t = rid" "map_of (sn_outbound t) u = Some d" for v t d
  proof (cases "v = k")
    case True
    then show ?thesis using unwire_closes that(2-4) rest by fastforce
  next
    case False
    then show ?thesis using rest that by (auto simp: unwire_elsewhere)
  qed
  then show ?case using one rest by fastforce
qed simp


text \<open>Joining again keeps the tracks and the sources by which the others hear one.\<close>

lemma rejoin_keeps_the_tracks:
  assumes "reached L options r" "v \<noteq> u" "find_session r v = Some t" "map_of (sn_outbound t) u = Some d"
  shows "\<exists>t'. find_session (on_participant_joined A rid name u label r) v = Some t' \<and> map_of (sn_outbound t') u = Some d"
  using joined_keeps(1) [of r v u t A rid name label] reached_ok [OF assms(1)] assms(2-4)
  by (auto simp: router_ok_def like_def)

section \<open>The properties at work\<close>

text \<open>Two people in a room; a packet is a source and a payload.\<close>

definition toy_packets :: "(32 word \<times> nat) packet_library" where
  "toy_packets = \<lparr>pl_is_rtcp = (\<lambda>_. False), pl_size = (\<lambda>_. 20), pl_header_size = 12, pl_padding = (\<lambda>_. False),
     pl_payload_type = (\<lambda>_. 111), pl_sequence = (\<lambda>p. of_nat (snd p)), pl_timestamp = (\<lambda>p. of_nat (snd p)),
     pl_set_ssrc = (\<lambda>s p. (s, snd p)), pl_set_payload_type = (\<lambda>_ p. p), pl_set_sequence = (\<lambda>_ p. p),
     pl_set_timestamp = (\<lambda>_ p. p)\<rparr>"

definition all_well :: rtc_answers where
  "all_well = \<lparr>an_usable_server = (\<lambda>_. True), an_codec_found = True, an_open = (\<lambda>_. True), an_stable = (\<lambda>_. True),
     an_offered = (\<lambda>_. True), an_keyframe_asked = (\<lambda>_. True)\<rparr>"

definition pair :: "router_options \<Rightarrow> router" where
  "pair options = router_step (Joined all_well ''sala'' ''Sala'' ''u2'' ''Bia'')
     (router_step (Joined all_well ''sala'' ''Sala'' ''u1'' ''Ana'') (new_router options))"

lemma pair_reached: "reached L options (pair options)"
  unfolding pair_def by (intro reached_step reached_new)

lemma pair_sessions:
  "map (\<lambda>(u, s). (u, sn_room_id s, sn_connection s, sn_video_feedback s, sn_renegotiation_pending s,
        map (\<lambda>(v, d). (v, ob_track d, ob_ssrc d)) (sn_outbound s),
        map_option (\<lambda>d. (ob_track d, ob_ssrc d)) (sn_video_outbound s))) (rt_sessions (pair options))
   = [(''u1'', ''sala'', 0, Some 1, False, [(''u2'', (0, 3), 4)], Some ((0, 2), 1)),
      (''u2'', ''sala'', 1, Some 3, False, [(''u1'', (1, 3), 3)], Some ((1, 2), 2))]"
  by (simp add: pair_def new_router_def on_participant_joined_def replace_session_def create_session_def
      new_media_session_def video_outbound_track_def wire_def add_outbound_track_def negotiate_def ask_def find_session_def set_session_def
      publish_routes_def all_well_def Let_def)

lemma pair_cases:
  obtains s t where "rt_sessions (pair options) = [(''u1'', s), (''u2'', t)]"
    "sn_room_id s = ''sala''" "sn_connection s = 0" "sn_video_feedback s = Some 1" "\<not> sn_renegotiation_pending s"
    "sn_room_id t = ''sala''" "sn_connection t = 1" "sn_video_feedback t = Some 3" "\<not> sn_renegotiation_pending t"
    "map (\<lambda>(v, d). (v, ob_track d, ob_ssrc d)) (sn_outbound s) = [(''u2'', (0, 3), 4)]"
    "map (\<lambda>(v, d). (v, ob_track d, ob_ssrc d)) (sn_outbound t) = [(''u1'', (1, 3), 3)]"
    "map_option (\<lambda>d. (ob_track d, ob_ssrc d)) (sn_video_outbound s) = Some ((0, 2), 1)"
    "map_option (\<lambda>d. (ob_track d, ob_ssrc d)) (sn_video_outbound t) = Some ((1, 2), 2)"
  using pair_sessions [of options] by (auto simp del: map_eq_Cons_conv simp: map_eq_Cons_conv [of _ "rt_sessions _"])

lemma everybody_is_heard_witness:
  "\<forall>options. fst (forward_audio toy_packets all_well ''u1'' ''sala'' (7, 9) (pair options)) = [((1, 3), (3, 9))]"
proof
  fix options
  show "fst (forward_audio toy_packets all_well ''u1'' ''sala'' (7, 9) (pair options)) = [((1, 3), (3, 9))]"
  proof (rule pair_cases [of options])
    fix s t
    assume p: "rt_sessions (pair options) = [(''u1'', s), (''u2'', t)]" "sn_room_id s = ''sala''" "sn_room_id t = ''sala''"
      and out: "map (\<lambda>(v, d). (v, ob_track d, ob_ssrc d)) (sn_outbound t) = [(''u1'', (1, 3), 3)]"
    have s: "find_session (pair options) ''u1'' = Some s" by (simp add: find_session_def p)
    have "\<not> not_forwarded toy_packets (7, 9)" by (simp add: not_forwarded_def toy_packets_def)
    then show ?thesis
      using everybody_is_heard [OF pair_reached s, of toy_packets "(7, 9)" all_well] p out
      by (auto simp: others_in_def carrying_def all_well_def toy_packets_def)
  qed
qed

lemma pair_video:
  "(1, 2) \<in> set (map fst (fst (forward_video toy_packets all_well ''u1'' ''sala'' (7, 9) (pair options))))"
proof (rule pair_cases [of options])
  fix s t
  assume p: "rt_sessions (pair options) = [(''u1'', s), (''u2'', t)]" "sn_room_id s = ''sala''" "sn_room_id t = ''sala''"
    and out: "map_option (\<lambda>d. (ob_track d, ob_ssrc d)) (sn_video_outbound t) = Some ((1, 2), 2)"
  have s: "find_session (pair options) ''u1'' = Some s" by (simp add: find_session_def p)
  have "\<not> not_forwarded toy_packets (7, 9)" by (simp add: not_forwarded_def toy_packets_def)
  then show ?thesis
    using p s out by (auto simp: video_sent [OF reached_ok [OF pair_reached]] others_in_def showing_def all_well_def)
qed

lemma media_stays_in_the_room_witness:
  "\<forall>options. \<exists>s v t. find_session (pair options) ''u1'' = Some s \<and> sn_room_id s = ''sala''
     \<and> find_session (pair options) v = Some t \<and> v \<noteq> ''u1'' \<and> sn_room_id t = ''sala'' \<and> sn_connection t = 1"
proof
  fix options
  note sent = UnI2 [OF pair_video [of options], of "set (map fst (fst (forward_audio toy_packets all_well ''u1'' ''sala'' (7, 9) (pair options))))"]
  obtain s v t where "find_session (pair options) ''u1'' = Some s" "sn_room_id s = ''sala''"
      "find_session (pair options) v = Some t" "v \<noteq> ''u1''" "sn_room_id t = ''sala''" "fst (1 :: nat, 2 :: nat) = sn_connection t"
    using media_stays_in_the_room [OF pair_reached sent] by blast
  then show "\<exists>s v t. find_session (pair options) ''u1'' = Some s \<and> sn_room_id s = ''sala''
     \<and> find_session (pair options) v = Some t \<and> v \<noteq> ''u1'' \<and> sn_room_id t = ''sala'' \<and> sn_connection t = 1"
    by (metis fst_conv)
qed

lemma pair_counts: "rt_next_ssrc (pair options) = 5" "rt_viewer_room (pair options) = []"
    "rt_viewer_bandwidth_kbps (pair options) = []" "rt_sharer_by_room (pair options) = []"
  by (simp_all add: pair_def new_router_def on_participant_joined_def replace_session_def create_session_def
      new_media_session_def video_outbound_track_def wire_def add_outbound_track_def negotiate_def ask_def find_session_def set_session_def
      publish_routes_def all_well_def Let_def)


lemma slowest_viewer_caps_the_share_witness:
  "\<forall>options. reported (note_viewer_bandwidth ''u2'' ''sala'' 800000 (pair options)) ''u2'' = Some (800, ''sala'')
     \<and> rt_viewer_ceiling_kbps (note_viewer_bandwidth ''u2'' ''sala'' 800000 (pair options)) = 800"
proof
  fix options
  have "(0 :: nat) < 800000 div 1000" "map_of (rt_sharer_by_room (pair options)) ''sala'' \<noteq> Some ''u2''"
    by (simp_all add: pair_counts)
  note cap = slowest_viewer_caps_the_share [OF pair_reached this]
  have none: "reported (pair options) = (\<lambda>_. None)" by (rule ext) (simp add: reported_def pair_counts)
  show "reported (note_viewer_bandwidth ''u2'' ''sala'' 800000 (pair options)) ''u2'' = Some (800, ''sala'')
     \<and> rt_viewer_ceiling_kbps (note_viewer_bandwidth ''u2'' ''sala'' 800000 (pair options)) = 800"
    using cap by (auto simp: none capped_at_def split: if_splits)
qed

lemma leaver_lifts_the_cap_witness:
  "\<forall>options. rt_viewer_ceiling_kbps (on_participant_left all_well ''sala'' ''u2''
     (router_step (ViewerReport ''u2'' ''sala'' 800000) (pair options))) = 0"
proof
  fix options
  let ?r = "router_step (ViewerReport ''u2'' ''sala'' 800000) (pair options)"
  have reached: "reached toy_packets options ?r" by (intro reached_step pair_reached)
  have same: "find_session ?r = find_session (pair options)"
    by (rule ext) (simp add: note_viewer_bandwidth_def apply_viewer_ceiling_def find_session_def Let_def)
  obtain s where "find_session (pair options) ''u2'' = Some s"
    by (rule pair_cases [of options]) (simp add: find_session_def)
  then have s: "find_session ?r ''u2'' = Some s" by (simp only: same)
  have room: "map_of (rt_viewer_room ?r) ''u2'' = Some ''sala''"
    and none: "reported ?r = [''u2'' \<mapsto> (800, ''sala'')]"
    by (auto simp: fun_eq_iff reported_def note_viewer_bandwidth_def apply_viewer_ceiling_def pair_counts Let_def)
  show "rt_viewer_ceiling_kbps (on_participant_left all_well ''sala'' ''u2'' ?r) = 0"
    using leaver_lifts_the_cap [OF reached s room, of all_well "''sala''"] 
    by (auto simp: none [simplified] capped_at_def split: if_splits)
qed


end
