(* ===== verification/MediaTogether.thy ===== *)
theory MediaTogether
  imports HubMedia MediaRouterProperties
begin

text \<open>
  The hub and the forwarding unit as \<open>server/src/signaling/server.cpp\<close> puts them together: every call the hub makes
  on the interface \<open>MediaSignals\<close> is carried out by the router before the next frame. What the router
  believes of the rooms is then what the room manager holds.
\<close>

section \<open>What the router makes of the calls\<close>

definition router_seat :: "router \<Rightarrow> string \<Rightarrow> string option" where
  "router_seat r u = map_option sn_room_id (find_session r u)"

fun media_step :: "rtc_answers \<Rightarrow> media_call \<Rightarrow> router \<Rightarrow> router" where
  "media_step A (ParticipantJoined rid name user label) r = router_step (Joined A rid name (u_id user) label) r"
| "media_step A (ParticipantLeft rid uid) r = router_step (router_event.Left A rid uid) r"
| "media_step A (SharingStarted rid uid) r = router_step (ShareStarted rid uid) r"
| "media_step A (MediaSignal rid uid m) r = router_step (Signalled rid uid m) r"

lemma kept_seats: "kept U r r' \<Longrightarrow> router_seat r' = router_seat r"
proof
  fix u
  assume kept: "kept U r r'"
  show "router_seat r' u = router_seat r u"
    using kept_present [OF kept, of u] kept_room [OF kept, of u]
    by (cases "find_session r u") (auto simp: router_seat_def)
qed

lemma joined_seats:
  assumes "router_ok r"
  shows "router_seat (on_participant_joined A rid name uid label r) = (router_seat r)(uid \<mapsto> rid)"
proof
  fix v
  have ok: "sessions_ok r" "meshed r" using assms by (simp_all add: router_ok_def)
  show "router_seat (on_participant_joined A rid name uid label r) v = ((router_seat r)(uid \<mapsto> rid)) v"
  proof (cases "v = uid")
    case True
    then show ?thesis using joined_keeps(3) [OF ok, of A rid name uid label] by (auto simp: router_seat_def)
  next
    case False
    then show ?thesis
      using joined_keeps(1) [OF ok False, of _ A rid name label] joined_keeps(2) [OF ok False, of A rid name label]
      by (cases "find_session r v") (auto simp: router_seat_def like_def)
  qed
qed

lemma left_seats:
  assumes "router_ok r"
  shows "router_seat (on_participant_left A rid uid r) = (router_seat r)(uid := None)"
proof (cases "find_session r uid")
  case None
  then show ?thesis by (auto simp: on_participant_left_def router_seat_def fun_eq_iff)
next
  case (Some s)
  define r1 where "r1 = r\<lparr>rt_sessions := AList.delete uid (rt_sessions r)\<rparr>"
  define r2 where "r2 = fold (unwire A uid rid) (map fst (rt_sessions r1)) r1"
  have "sessions_ok r1" using assms sessions_ok_delete by (simp add: r1_def router_ok_def)
  then have "router_seat r2 = router_seat r1" using fold_unwire kept_seats by (metis r2_def)
  moreover have "router_seat (on_participant_left A rid uid r) = router_seat r2"
    using Some by (simp add: on_participant_left_def Let_def r1_def r2_def publish_routes_def ask_def router_seat_def
        find_session_def forget_viewer_bandwidth_def apply_viewer_ceiling_def fun_eq_iff split: option.split)
  ultimately show ?thesis by (simp add: fun_eq_iff router_seat_def r1_def find_deleted)
qed

lemma routing_same_seats: "routing_same r r' \<Longrightarrow> router_seat r' = router_seat r"
  by (simp add: routing_same_def router_seat_def find_session_def fun_eq_iff)

lemma media_step_seats:
  assumes "router_ok r"
  shows "router_seat (media_step A call r) = seat_call call (router_seat r) \<and> router_ok (media_step A call r)"
proof (cases call)
  case ParticipantJoined
  then show ?thesis using joined_seats [OF assms] router_step_ok [OF assms] by (simp del: router_step.simps) simp
next
  case ParticipantLeft
  then show ?thesis using left_seats [OF assms] router_step_ok [OF assms] by (simp del: router_step.simps) simp
next
  case SharingStarted
  then show ?thesis using quiet_events(1) routing_same_seats router_step_ok [OF assms] by (simp del: router_step.simps) simp
next
  case MediaSignal
  then show ?thesis using quiet_events(2) routing_same_seats router_step_ok [OF assms] by (simp del: router_step.simps) simp
qed

lemma media_steps_seats:
  "router_ok r \<Longrightarrow> router_seat (fold (media_step A) cs r) = fold seat_call cs (router_seat r)"
proof (induction cs arbitrary: r)
  case (Cons c cs)
  then show ?case using media_step_seats [OF Cons.prems, of A c] by simp
qed simp

text \<open>An event of the router's own: libdatachannel or the worker, not the hub.\<close>

fun own_event :: "router_event \<Rightarrow> bool" where
  "own_event (Joined A rid name uid label) = False"
| "own_event (router_event.Left A rid uid) = False"
| "own_event (ShareStarted rid uid) = False"
| "own_event (Signalled rid uid m) = False"
| "own_event _ = True"

lemma own_event_seats: "own_event e \<Longrightarrow> router_seat (router_step e r) = router_seat r"
proof (cases e)
  case (WorkerTurn A)
  have "router_seat (run_task A t q) = router_seat q" for t q
    using kept_seats [OF kept_negotiate [of "{}"]]
    by (auto simp: run_task_def router_seat_def fun_eq_iff split: task.split option.split)
  then show ?thesis using WorkerTurn by (auto simp: worker_turn_def router_seat_def find_session_def fun_eq_iff split: list.split)
qed (simp_all add: routing_same_seats quiet_events keyframe_same)

section \<open>The two of them running\<close>

inductive running :: "'p packet_library \<Rightarrow> router_options \<Rightarrow> hub \<Rightarrow> hub \<Rightarrow> router \<Rightarrow> bool" for L options h0 where
  running_start: "running L options h0 h0 (new_router options)"
| running_hub: "running L options h0 h r \<Longrightarrow> served e \<Longrightarrow> fresh_draw E h \<Longrightarrow>
    running L options h0 (hub_step (E, e) h) (fold (media_step A) (calls_made e (hub_step (E, e) h)) r)"
| running_router: "running L options h0 h r \<Longrightarrow> own_event e \<Longrightarrow> running L options h0 h (router_step e r)"
| running_audio: "running L options h0 h r \<Longrightarrow> running L options h0 h (snd (forward_audio L A uid rid p r))"
| running_video: "running L options h0 h r \<Longrightarrow> running L options h0 h (snd (forward_video L A uid rid p r))"

lemma media_steps_reached: "reached L options r \<Longrightarrow> reached L options (fold (media_step A) cs r)"
proof (induction cs arbitrary: r)
  case (Cons c cs)
  have "\<exists>e. media_step A c r = router_step e r" by (cases c) (auto simp del: router_step.simps)
  then show ?case using Cons reached_step by (metis fold_simps(2))
qed simp

lemma running_agrees:
  assumes "running L options h0 h r" "hub_safe h0" "h_has_media h0" "seat h0 = (\<lambda>_. None)"
  shows "hub_safe h \<and> h_has_media h \<and> reached L options r \<and> router_seat r = seat h"
  using assms(1)
proof (induction rule: running.induct)
  case running_start
  have "router_seat (new_router options) = (\<lambda>_. None)"
    by (simp add: router_seat_def new_router_def find_session_def fun_eq_iff)
  then show ?case using assms reached_new by auto
next
  case (running_hub h r e E A)
  then have "router_seat (fold (media_step A) (calls_made e (hub_step (E, e) h)) r) = seat (hub_step (E, e) h)"
    using step_mirrored [of h e E] media_steps_seats [OF reached_ok, of L options r A] by simp
  then show ?case using running_hub step_mirrored safe_step media_steps_reached by blast
next
  case (running_router h r e)
  then show ?case using own_event_seats reached_step by metis
next
  case (running_audio h r A uid rid p)
  then show ?case using routing_same_seats [OF quiet_events(9)] reached_audio by metis
next
  case (running_video h r A uid rid p)
  then show ?case using routing_same_seats [OF quiet_events(10)] reached_video by metis
qed

lemma running_agrees_new:
  assumes "accounts_ok users" and "list_all (\<lambda>r. is_int32 (rr_capacity r)) rooms"
    and "running L options
      (set_media_signals True (new_hub mx i t users rooms chat notices sessions audit)) h r"
  shows "hub_safe h \<and> h_has_media h \<and> reached L options r \<and> router_seat r = seat h"
proof -
  let ?h0 = "new_hub mx i t users rooms chat notices sessions audit"
  have "hub_safe (set_media_signals True ?h0)"
    using new_hub_safe [OF assms(1,2)]
    by (simp add: hub_safe_def set_media_signals_def core_ok_def conn_uid_def conn_user_def find_connection_def
        connection_of_user_def seat_def token_owners_def)
  moreover have "seat (set_media_signals True ?h0) = (\<lambda>_. None)"
  proof -
    obtain M n where f: "fold load_record (rooms_list rooms) (new_room_manager mx (Some rooms) (Some chat), 0) = (M, n)"
      by fastforce
    then have "h_rooms (set_media_signals True ?h0) = M"
      by (simp add: set_media_signals_def new_hub_def load_rooms_def new_room_manager_def)
    moreover have "room_of M v = None" for v
      using load_record_fold [OF f] by (simp add: room_of_def new_room_manager_def)
    ultimately show ?thesis by (simp add: seat_eq fun_eq_iff)
  qed
  ultimately show ?thesis
    using running_agrees [OF assms(3)] by (simp add: set_media_signals_def)
qed

text \<open>What the router believes of the rooms, and between whom it forwards.\<close>

lemma running_follows_the_rooms:
  assumes "accounts_ok users" and "list_all (\<lambda>r. is_int32 (rr_capacity r)) rooms"
    and "running L options
      (set_media_signals True (new_hub mx i t users rooms chat notices sessions audit)) h r"
  shows "(\<forall>u. map_option sn_room_id (find_session r u) = room_of (h_rooms h) u)
    \<and> (\<forall>A u rid p. \<forall>sent \<in> set (map fst (fst (forward_audio L A u rid p r)))
          \<union> set (map fst (fst (forward_video L A u rid p r))).
        room_of (h_rooms h) u = Some rid
      \<and> (\<exists>v t. v \<noteq> u \<and> room_of (h_rooms h) v = Some rid \<and> find_session r v = Some t
          \<and> fst sent = sn_connection t))"
proof -
  have "reached L options r" "router_seat r = seat h" using running_agrees_new [OF assms] by simp_all
  then have seats: "map_option sn_room_id (find_session r u) = room_of (h_rooms h) u" and ok: "router_ok r" for u
    using reached_ok by (auto simp: router_seat_def seat_eq fun_eq_iff)
  have "room_of (h_rooms h) u = Some rid
      \<and> (\<exists>v t. v \<noteq> u \<and> room_of (h_rooms h) v = Some rid \<and> find_session r v = Some t \<and> fst sent = sn_connection t)"
    if "sent \<in> set (map fst (fst (forward_audio L A u rid p r))) \<union> set (map fst (fst (forward_video L A u rid p r)))"
    for A u rid p sent
    using forwarded_inside [OF ok that] seats by (metis option.simps(9))
  then show ?thesis using seats by blast
qed

end
