(* ===== verification/SignalingServer.thy ===== *)
theory SignalingServer
  imports MediaTogether Codec
begin

text \<open>
  The server around the hub, \<open>server/src/signaling/server.{hpp,cpp}\<close>: a socket per connection, the frames
  that come in on it and what the hub and the router have to say going out, and the thread of the
  heartbeat. The sockets are libdatachannel's: what they answer is a parameter, what they are asked the
  list \<open>tp_calls\<close>, what they report an event. A callback under the mutex of the server is one step.
\<close>

section \<open>State\<close>

text \<open>What a socket answers: whether it is open, whether putting a message on it throws, in the
  serialisation or in the socket, and the port the operating system chose.\<close>

record socket_answers =
  sk_open :: "nat \<Rightarrow> bool"
  sk_throws :: "nat \<Rightarrow> message \<Rightarrow> bool"
  sk_port :: nat

datatype socket_call =
    Listen nat "string option"
  | StopListening
  | SendText nat string
  | CloseSocket nat

record server_options =
  so_bind_address :: string
  so_port :: nat
  so_enable_sfu :: bool
  so_sfu :: router_options

record transport =
  tp_options :: server_options
  tp_hub :: hub
  tp_router :: "router option"
  tp_listening :: bool
  tp_sockets :: "nat list"
  tp_next_connection_id :: nat
  tp_running :: bool
  tp_next_tick :: time
  tp_calls :: "socket_call list"

text \<open>The constructor. Its hub is the one \<open>new_hub\<close> builds from the options.\<close>

definition new_server :: "server_options \<Rightarrow> hub \<Rightarrow> transport" where
  "new_server options h =
     \<lparr>tp_options = options,
      tp_hub = (if so_enable_sfu options then set_media_signals True h else h),
      tp_router = (if so_enable_sfu options then Some (on_signal (new_router (so_sfu options))) else None),
      tp_listening = False, tp_sockets = [], tp_next_connection_id = 1, tp_running = False, tp_next_tick = 0,
      tp_calls = []\<rparr>"

section \<open>Sending\<close>

definition dispatch_one :: "(json \<Rightarrow> string) \<Rightarrow> socket_answers \<Rightarrow> outgoing \<Rightarrow> transport \<Rightarrow> transport" where
  "dispatch_one dump K x t =
     (let c = o_connection x; m = o_message x
      in if c \<notin> set (tp_sockets t) \<or> \<not> sk_open K c then t
         else if sk_throws K c m then t
         else t\<lparr>tp_calls := tp_calls t @ [SendText c (serialize dump m)]\<rparr>)"

definition dispatch_all :: "(json \<Rightarrow> string) \<Rightarrow> socket_answers \<Rightarrow> outgoing list \<Rightarrow> transport \<Rightarrow> transport" where
  "dispatch_all dump K out t = fold (dispatch_one dump K) out t"

definition send_to_user :: "(json \<Rightarrow> string) \<Rightarrow> socket_answers \<Rightarrow> string \<Rightarrow> message \<Rightarrow> transport \<Rightarrow> transport" where
  "send_to_user dump K uid m t =
     (case connection_of_user (tp_hub t) uid of
        None \<Rightarrow> t
      | Some c \<Rightarrow> dispatch_all dump K [\<lparr>o_connection = c, o_message = m\<rparr>] t)"

text \<open>The hub has handled something: the calls it made on the router are carried out, and what it
  returned goes out. A handler that threw returned nothing.\<close>

definition hub_handled ::
    "(json \<Rightarrow> string) \<Rightarrow> socket_answers \<Rightarrow> rtc_answers \<Rightarrow> hub \<Rightarrow> transport \<Rightarrow> transport" where
  "hub_handled dump K A h t =
     (let t = t\<lparr>tp_hub := h, tp_router := map_option (fold (media_step A) (h_media h)) (tp_router t)\<rparr>
      in if h_fault h \<noteq> None then t else dispatch_all dump K (h_out h) t)"

section \<open>A socket\<close>

text \<open>A new socket, given where it is connected from: its number, and the address the callbacks hold.\<close>

definition on_client :: "string option \<Rightarrow> transport \<Rightarrow> (nat \<times> string) \<times> transport" where
  "on_client remote t =
     (let c = tp_next_connection_id t;
          address = (case remote of None \<Rightarrow> ''unknown'' | Some a \<Rightarrow> a)
      in ((c, address), t\<lparr>tp_next_connection_id := c + 1, tp_sockets := tp_sockets t @ [c]\<rparr>))"

definition on_socket_open :: "nat \<Rightarrow> string \<Rightarrow> time \<Rightarrow> transport \<Rightarrow> transport" where
  "on_socket_open c address now t = t\<lparr>tp_hub := on_connect c address now (tp_hub t)\<rparr>"

text \<open>\<open>None\<close> is a binary frame.\<close>

definition on_socket_message ::
    "environment \<Rightarrow> (string \<Rightarrow> json option) \<Rightarrow> (json \<Rightarrow> string) \<Rightarrow> socket_answers \<Rightarrow> rtc_answers
      \<Rightarrow> nat \<Rightarrow> string option \<Rightarrow> time \<Rightarrow> transport \<Rightarrow> transport" where
  "on_socket_message E json_parse dump K A c data now t =
     (case data of
        None \<Rightarrow> dispatch_all dump K [\<lparr>o_connection = c,
          o_message = ErrorMessage ''invalid_json'' ''binary frames are not part of this protocol''\<rparr>] t
      | Some frame \<Rightarrow> hub_handled dump K A (on_message E c (parse json_parse frame) now (tp_hub t)) t)"

definition on_socket_closed ::
    "environment \<Rightarrow> (json \<Rightarrow> string) \<Rightarrow> socket_answers \<Rightarrow> rtc_answers \<Rightarrow> nat \<Rightarrow> transport \<Rightarrow> transport" where
  "on_socket_closed E dump K A c t =
     (let h = on_disconnect E c (tp_hub t);
          t = hub_handled dump K A h t
      in if h_fault h \<noteq> None then t else t\<lparr>tp_sockets := removeAll c (tp_sockets t)\<rparr>)"

definition close_connection :: "nat \<Rightarrow> transport \<Rightarrow> transport" where
  "close_connection c t =
     (if c \<notin> set (tp_sockets t) then t else t\<lparr>tp_calls := tp_calls t @ [CloseSocket c]\<rparr>)"

section \<open>The threads\<close>

text \<open>One turn of the loop of the heartbeat, and one of the router's worker with what its handler does.\<close>

definition heartbeat_turn ::
    "environment \<Rightarrow> (json \<Rightarrow> string) \<Rightarrow> socket_answers \<Rightarrow> rtc_answers \<Rightarrow> time \<Rightarrow> transport \<Rightarrow> transport" where
  "heartbeat_turn E dump K A now t =
     (if \<not> tp_running t \<or> now < tp_next_tick t then t
      else (let t = t\<lparr>tp_next_tick := now + h_heartbeat_interval (tp_hub t)\<rparr>;
                (timed_out, h) = tick E now (tp_hub t)
            in fold close_connection timed_out (hub_handled dump K A h t)))"

definition router_turn :: "(json \<Rightarrow> string) \<Rightarrow> socket_answers \<Rightarrow> rtc_answers \<Rightarrow> transport \<Rightarrow> transport" where
  "router_turn dump K A t =
     (case tp_router t of
        None \<Rightarrow> t
      | Some r \<Rightarrow>
         (let t = t\<lparr>tp_router := Some (worker_turn A r)\<rparr>
          in case rt_tasks r of
               Deliver uid m # _ \<Rightarrow> if rt_has_handler r then send_to_user dump K uid m t else t
             | _ \<Rightarrow> t))"

section \<open>Starting and stopping\<close>

text \<open>The loop of the heartbeat takes its first turn from the time it starts.\<close>

definition start_server :: "time \<Rightarrow> transport \<Rightarrow> transport" where
  "start_server now t =
     (let bind = so_bind_address (tp_options t)
      in t\<lparr>tp_calls := tp_calls t @ [Listen (so_port (tp_options t))
             (if bind \<noteq> [] \<and> bind \<noteq> ''0.0.0.0'' then Some bind else None)],
           tp_listening := True, tp_running := True, tp_next_tick := now\<rparr>)"

definition stop_server :: "transport \<Rightarrow> transport" where
  "stop_server t =
     (if \<not> tp_running t then t
      else t\<lparr>tp_running := False, tp_listening := False, tp_sockets := [],
             tp_calls := tp_calls t @ (if tp_listening t then [StopListening] else [])
               @ map CloseSocket (tp_sockets t)\<rparr>)"

definition server_port :: "socket_answers \<Rightarrow> transport \<Rightarrow> nat" where
  "server_port K t = (if tp_listening t then sk_port K else so_port (tp_options t))"

definition server_add_user :: "environment \<Rightarrow> string \<Rightarrow> string \<Rightarrow> string \<Rightarrow> role \<Rightarrow> transport
    \<Rightarrow> (string + user result) \<times> transport" where
  "server_add_user E username password display_name r t =
     (let (answer, A) = add_user (e_crypto E) (e_wall E) username password display_name r (h_auth (tp_hub t))
      in (answer, t\<lparr>tp_hub := (tp_hub t)\<lparr>h_auth := A\<rparr>\<rparr>))"

definition server_connection_count :: "transport \<Rightarrow> nat" where
  "server_connection_count t = length (h_connections (tp_hub t))"

end
