(* ===== verification/ServerStart.thy ===== *)
theory ServerStart
  imports SignalingServer ConfigProofs
begin

text \<open>
  How the server starts, \<open>server/src/main.cpp\<close>: the arguments, the settings and what they become, the database
  that is opened or not, the administrator \<open>--create-admin\<close> names, and the accounts of a users file. What the
  process prints and logs is left out; a process that ends is its exit code and the accounts it leaves.
\<close>

section \<open>Arguments and accounts\<close>

definition wants_help :: "string list \<Rightarrow> bool" where
  "wants_help argv = list_ex (\<lambda>a. a = ''--help'' \<or> a = ''-h'') (tl argv)"

definition split_credentials :: "string \<Rightarrow> (string \<times> string) option" where
  "split_credentials text = (case split_at (CHR '':'') text of
     None \<Rightarrow> None
   | Some (username, password) \<Rightarrow> if username = [] \<or> password = [] then None else Some (username, password))"

text \<open>Of the \<open>Authenticator\<close> only the store outlives the call. On the left, an exception that reaches \<open>main\<close>.\<close>

definition create_admin :: "crypto \<Rightarrow> int \<Rightarrow> string \<Rightarrow> user_store \<Rightarrow> int throwing \<times> user_store" where
  "create_admin C wall specification users =
     (case split_credentials specification of
        None \<Rightarrow> (Inr 1, users)
      | Some (username, password) \<Rightarrow>
         (let authenticator = \<lparr>at_token_lifetime = default_token_lifetime, at_users = users, at_tokens = [],
                               at_draws = 0\<rparr>
          in case users_find_by_username users username of
               Some existing \<Rightarrow>
                 (let updated = existing\<lparr>ac_user := (ac_user existing)\<lparr>u_role := Admin\<rparr>\<rparr>
                  in case users_update updated users of
                       (Some failure, users) \<Rightarrow> (Inr 1, users)
                     | (None, users) \<Rightarrow>
                        (case set_password C (ac_id updated) password (authenticator\<lparr>at_users := users\<rparr>) of
                           (Inl what, A) \<Rightarrow> (Inl what, at_users A)
                         | (Inr (Some failure), A) \<Rightarrow> (Inr 1, at_users A)
                         | (Inr None, A) \<Rightarrow> (Inr 0, at_users A)))
             | None \<Rightarrow>
                 (case add_user C wall username password [] Admin authenticator of
                    (Inl what, A) \<Rightarrow> (Inl what, at_users A)
                  | (Inr (Inl failure), A) \<Rightarrow> (Inr 1, at_users A)
                  | (Inr (Inr created), A) \<Rightarrow> (Inr 0, at_users A))))"

section \<open>The users file\<close>

definition get_string :: "config_world \<Rightarrow> json \<Rightarrow> string throwing" where
  "get_string w j = (case j of JString s \<Rightarrow> Inr s | _ \<Rightarrow> Inl (cw_type_error w j))"

text \<open>One entry: whether an account came of it.\<close>

definition load_entry :: "environment \<Rightarrow> config_world \<Rightarrow> json \<Rightarrow> transport \<Rightarrow> bool throwing \<times> transport" where
  "load_entry E w entry t =
     (case (json_members entry ''username'', json_members entry ''password'') of
        (Some u, Some p) \<Rightarrow>
          (case get_string w u of Inl what \<Rightarrow> (Inl what, t) | Inr username \<Rightarrow>
          (case get_string w p of Inl what \<Rightarrow> (Inl what, t) | Inr password \<Rightarrow>
          (case (case json_members entry ''display_name'' of None \<Rightarrow> Inr [] | Some d \<Rightarrow> get_string w d) of
             Inl what \<Rightarrow> (Inl what, t)
           | Inr display_name \<Rightarrow>
              (let r = role_from_string (case json_members entry ''role'' of Some (JString r) \<Rightarrow> r | _ \<Rightarrow> []);
                   (answer, t) = server_add_user E username password display_name r t
               in case answer of
                    Inl what \<Rightarrow> (Inl what, t)
                  | Inr (Inl failure) \<Rightarrow> (Inr False, t)
                  | Inr (Inr user) \<Rightarrow> (Inr True, t)))))
      | _ \<Rightarrow> (Inr False, t))"

fun load_entries :: "environment \<Rightarrow> config_world \<Rightarrow> json list \<Rightarrow> int \<Rightarrow> transport \<Rightarrow> int throwing \<times> transport" where
  "load_entries E w [] loaded t = (Inr loaded, t)"
| "load_entries E w (entry # rest) loaded t =
     (case load_entry E w entry t of
        (Inl what, t) \<Rightarrow> (Inl what, t)
      | (Inr added, t) \<Rightarrow> load_entries E w rest (if added then loaded + 1 else loaded) t)"

definition load_users :: "environment \<Rightarrow> config_world \<Rightarrow> string \<Rightarrow> transport \<Rightarrow> int throwing \<times> transport" where
  "load_users E w path t =
     (case cw_files w path of
        None \<Rightarrow> (Inr 0, t)
      | Some text \<Rightarrow> (case cw_json w text of
          Some (JArray entries) \<Rightarrow> load_entries E w entries 0 t
        | _ \<Rightarrow> (Inr 0, t)))"

section \<open>From the settings to the server\<close>

definition build_turn_url :: "network_config \<Rightarrow> string" where
  "build_turn_url n =
     (if nc_turn_username n = [] then nc_turn_url n
      else (let (scheme, host) = (case split_text ''://'' (nc_turn_url n) of
                  None \<Rightarrow> (''turn://'', nc_turn_url n)
                | Some (before, after) \<Rightarrow> (before @ ''://'', after))
            in scheme @ nc_turn_username n @ '':'' @ nc_turn_password n @ ''@'' @ host))"

definition router_options_from :: "(real \<Rightarrow> real) \<Rightarrow> config \<Rightarrow> router_options" where
  "router_options_from fl c =
     (let n = cf_network c; v = cf_video c; a = cf_audio c; defaults = default_router_options fl
      in defaults\<lparr>
           op_ice_servers := nc_stun_servers n @ (if nc_turn_url n \<noteq> [] then [build_turn_url n] else []),
           op_port_range_begin := nat (nc_ice_port_range_begin n),
           op_port_range_end := nat (nc_ice_port_range_end n),
           op_bandwidth := (op_bandwidth defaults)\<lparr>bo_start_kbps := vc_min_bitrate_kbps v,
             bo_max_kbps := vc_max_bitrate_kbps v, bo_min_kbps := vc_floor_bitrate_kbps v\<rparr>,
           op_opus_max_bitrate_kbps := au_bitrate_kbps a,
           op_red_payload_type := (if au_redundancy a then op_red_payload_type defaults else None),
           op_audio_nack := au_retransmission a,
           op_audio_adaptive := au_adaptive a\<rparr>)"

definition server_options_from :: "(real \<Rightarrow> real) \<Rightarrow> config \<Rightarrow> server_options" where
  "server_options_from fl c =
     \<lparr>so_bind_address = sc_bind_address (cf_server c), so_port = nat (sc_port (cf_server c)),
      so_enable_sfu = True, so_sfu = router_options_from fl c\<rparr>"

text \<open>The stores of a database, or those in memory the hub makes when there is none.\<close>

record databases =
  db_users :: user_store
  db_rooms :: room_store
  db_chat :: chat_store
  db_notices :: notice_store
  db_sessions :: session_store
  db_audit :: audit_log

definition in_memory :: databases where
  "in_memory = \<lparr>db_users = [], db_rooms = [], db_chat = empty_chat_store, db_notices = empty_notice_store,
     db_sessions = empty_session_store, db_audit = empty_audit_log\<rparr>"

definition hub_from :: "config \<Rightarrow> databases \<Rightarrow> hub" where
  "hub_from c db = new_hub (sc_max_participants_per_room (cf_server c))
     (milliseconds (sc_heartbeat_interval_ms (cf_server c))) (milliseconds (sc_heartbeat_timeout_ms (cf_server c)))
     (db_users db) (db_rooms db) (db_chat db) (db_notices db) (db_sessions db) (db_audit db)"

section \<open>The process\<close>

text \<open>\<open>Exited\<close> holds the exit code, and the accounts when a database was open; \<open>Started\<close> the server as it
  begins to listen. \<open>has_mongo\<close> is how the program was built, \<open>open_database\<close> what the driver answers.\<close>

datatype server_process = Exited int "user_store option" | Started transport

definition server_main :: "environment \<Rightarrow> config_world \<Rightarrow> (real \<Rightarrow> real) \<Rightarrow> bool
    \<Rightarrow> (string \<Rightarrow> string \<Rightarrow> int \<Rightarrow> databases result) \<Rightarrow> string list \<Rightarrow> time \<Rightarrow> server_process" where
  "server_main E w fl has_mongo open_database argv now =
     (if wants_help argv then Exited 0 None
      else case load_config w argv RejectUnknown of
        Inl e \<Rightarrow> Exited 1 None
      | Inr c \<Rightarrow>
         (let d = cf_database c; spec = sc_create_admin (cf_server c);
              opened = (if \<not> dc_enabled d then Inr None
                        else if \<not> has_mongo then Inl (mk_error [] [])
                        else map_sum id Some (open_database (dc_uri d) (dc_name d) (dc_timeout_ms d)))
          in case opened of
               Inl failure \<Rightarrow> Exited 1 None
             | Inr database \<Rightarrow>
                (if spec \<noteq> []
                 then (case database of
                         None \<Rightarrow> Exited 1 None
                       | Some db \<Rightarrow> (case create_admin (e_crypto E) (e_wall E) spec (db_users db) of
                             (Inl what, users) \<Rightarrow> Exited 1 (Some users)
                           | (Inr code, users) \<Rightarrow> Exited code (Some users)))
                 else (let stores = (case database of None \<Rightarrow> in_memory | Some db \<Rightarrow> db);
                           server = new_server (server_options_from fl c) (hub_from c stores);
                           (loaded, server) = (if sc_users_file (cf_server c) \<noteq> []
                             then load_users E w (sc_users_file (cf_server c)) server else (Inr 0, server))
                       in case loaded of
                            Inl what \<Rightarrow> Exited 1 (map_option (\<lambda>_. hub_users (tp_hub server)) database)
                          | Inr n \<Rightarrow> Started (start_server now server)))))"

end
