(* ===== verification/SignalingServerProofs.thy ===== *)
theory SignalingServerProofs
  imports SignalingServer HubHeartbeat
begin

text \<open>
  What holds of the whole server: any run of it is a run of the hub and the router side by side, so that
  media stays in the rooms, and a client that falls silent is taken out for everybody.
\<close>

section \<open>The parts of the state an operation touches\<close>

lemma dispatch_one_frame [simp]:
  "tp_hub (dispatch_one dump K x t) = tp_hub t" "tp_router (dispatch_one dump K x t) = tp_router t"
  "tp_sockets (dispatch_one dump K x t) = tp_sockets t" "tp_running (dispatch_one dump K x t) = tp_running t"
  "tp_next_tick (dispatch_one dump K x t) = tp_next_tick t" "tp_options (dispatch_one dump K x t) = tp_options t"
  "tp_next_connection_id (dispatch_one dump K x t) = tp_next_connection_id t"
  by (simp_all add: dispatch_one_def Let_def)

lemma dispatch_frame [simp]:
  "tp_hub (dispatch_all dump K out t) = tp_hub t" "tp_router (dispatch_all dump K out t) = tp_router t"
  "tp_sockets (dispatch_all dump K out t) = tp_sockets t" "tp_running (dispatch_all dump K out t) = tp_running t"
  "tp_next_tick (dispatch_all dump K out t) = tp_next_tick t" "tp_options (dispatch_all dump K out t) = tp_options t"
  "tp_next_connection_id (dispatch_all dump K out t) = tp_next_connection_id t"
  unfolding dispatch_all_def by (induction out arbitrary: t) simp_all

text \<open>What goes out: the frames for the sockets that are there, open and willing, in order.\<close>

lemma dispatch_sends:
  "tp_calls (dispatch_all dump K out t) = tp_calls t @ map (\<lambda>x. SendText (o_connection x) (serialize dump (o_message x)))
     (filter (\<lambda>x. o_connection x \<in> set (tp_sockets t) \<and> sk_open K (o_connection x)
        \<and> \<not> sk_throws K (o_connection x) (o_message x)) out)"
proof (induction out arbitrary: t)
  case (Cons x out)
  have "dispatch_all dump K (x # out) t = dispatch_all dump K out (dispatch_one dump K x t)"
    by (simp add: dispatch_all_def)
  then show ?case using Cons [of "dispatch_one dump K x t"] by (simp add: dispatch_one_def Let_def)
qed (simp add: dispatch_all_def)

lemma hub_handled_frame [simp]:
  "tp_hub (hub_handled dump K A h t) = h"
  "tp_router (hub_handled dump K A h t) = map_option (fold (media_step A) (h_media h)) (tp_router t)"
  "tp_sockets (hub_handled dump K A h t) = tp_sockets t" "tp_running (hub_handled dump K A h t) = tp_running t"
  "tp_next_tick (hub_handled dump K A h t) = tp_next_tick t"
  "tp_next_connection_id (hub_handled dump K A h t) = tp_next_connection_id t"
  by (simp_all add: hub_handled_def Let_def)

lemma send_to_user_frame [simp]:
  "tp_hub (send_to_user dump K uid m t) = tp_hub t" "tp_router (send_to_user dump K uid m t) = tp_router t"
  by (simp_all add: send_to_user_def split: option.split)

lemma close_connections [simp]:
  "tp_hub (fold close_connection cs t) = tp_hub t" "tp_router (fold close_connection cs t) = tp_router t"
  "tp_sockets (fold close_connection cs t) = tp_sockets t"
  "tp_calls (fold close_connection cs t) = tp_calls t @ map CloseSocket (filter (\<lambda>c. c \<in> set (tp_sockets t)) cs)"
  by (induction cs arbitrary: t) (simp_all add: close_connection_def)

section \<open>A server at work\<close>

text \<open>Everything that happens to a server, in any order. Accounts are those it was built with and those its
  administrators make: another program writing them is left out, as in \<open>reachable\<close>.\<close>

inductive serving :: "'p packet_library \<Rightarrow> (string \<Rightarrow> json option) \<Rightarrow> (json \<Rightarrow> string) \<Rightarrow> server_options \<Rightarrow> hub
    \<Rightarrow> transport \<Rightarrow> bool" for L json_parse dump options h0 where
  serving_new: "serving L json_parse dump options h0 (new_server options h0)"
| serving_start: "serving L json_parse dump options h0 t \<Longrightarrow> serving L json_parse dump options h0 (start_server now t)"
| serving_stop: "serving L json_parse dump options h0 t \<Longrightarrow> serving L json_parse dump options h0 (stop_server t)"
| serving_client: "serving L json_parse dump options h0 t \<Longrightarrow> serving L json_parse dump options h0 (snd (on_client remote t))"
| serving_open: "serving L json_parse dump options h0 t \<Longrightarrow> fresh_draw E (tp_hub t) \<Longrightarrow>
    serving L json_parse dump options h0 (on_socket_open c address now t)"
| serving_message: "serving L json_parse dump options h0 t \<Longrightarrow> fresh_draw E (tp_hub t) \<Longrightarrow>
    serving L json_parse dump options h0 (on_socket_message E json_parse dump K A c data now t)"
| serving_closed: "serving L json_parse dump options h0 t \<Longrightarrow> fresh_draw E (tp_hub t) \<Longrightarrow>
    serving L json_parse dump options h0 (on_socket_closed E dump K A c t)"
| serving_heartbeat: "serving L json_parse dump options h0 t \<Longrightarrow> fresh_draw E (tp_hub t) \<Longrightarrow>
    serving L json_parse dump options h0 (heartbeat_turn E dump K A now t)"
| serving_router: "serving L json_parse dump options h0 t \<Longrightarrow>
    serving L json_parse dump options h0 (router_turn dump K A t)"
| serving_report: "serving L json_parse dump options h0 t \<Longrightarrow> own_event e \<Longrightarrow>
    serving L json_parse dump options h0 (t\<lparr>tp_router := map_option (router_step e) (tp_router t)\<rparr>)"
| serving_audio: "serving L json_parse dump options h0 t \<Longrightarrow>
    serving L json_parse dump options h0 (t\<lparr>tp_router := map_option (\<lambda>r. snd (forward_audio L A uid rid p r)) (tp_router t)\<rparr>)"
| serving_video: "serving L json_parse dump options h0 t \<Longrightarrow>
    serving L json_parse dump options h0 (t\<lparr>tp_router := map_option (\<lambda>r. snd (forward_video L A uid rid p r)) (tp_router t)\<rparr>)"

definition runs_both :: "'p packet_library \<Rightarrow> router_options \<Rightarrow> hub \<Rightarrow> transport \<Rightarrow> bool" where
  "runs_both L options h0 t \<longleftrightarrow> (\<exists>r. tp_router t = Some r \<and> running L options h0 (tp_hub t) r)"

lemma runs_both_same:
  "runs_both L options h0 t \<Longrightarrow> tp_hub t' = tp_hub t \<Longrightarrow> tp_router t' = tp_router t \<Longrightarrow> runs_both L options h0 t'"
  by (simp add: runs_both_def)

lemma runs_both_hub:
  assumes "runs_both L options h0 t" "fresh_draw E (tp_hub t)" "served e"
    and "tp_hub t' = hub_step (E, e) (tp_hub t)"
    and "tp_router t' = map_option (fold (media_step A) (calls_made e (hub_step (E, e) (tp_hub t)))) (tp_router t)"
  shows "runs_both L options h0 t'"
  using assms running_hub unfolding runs_both_def by fastforce

lemma serving_runs_both:
  assumes "serving L json_parse dump options h0 t" "so_enable_sfu options"
  shows "runs_both L (so_sfu options) (set_media_signals True h0) t"
  using assms(1)
proof (induction rule: serving.induct)
  case serving_new
  have "running L (so_sfu options) (set_media_signals True h0) (set_media_signals True h0)
      (router_step HandlerSet (new_router (so_sfu options)))"
    by (intro running_router running_start) simp
  then show ?case using assms(2) by (simp add: runs_both_def new_server_def)
next
  case (serving_open t E c address now)
  show ?case
    by (rule runs_both_hub [OF serving_open.IH serving_open.hyps(2), of "Connected c address now"])
      (simp_all add: served_def on_socket_open_def option.map_id)
next
  case (serving_message t E K A c data now)
  show ?case
  proof (cases data)
    case None
    then show ?thesis using runs_both_same [OF serving_message.IH] by (simp add: on_socket_message_def)
  next
    case (Some frame)
    then show ?thesis
      by (intro runs_both_hub [OF serving_message.IH serving_message.hyps(2), of "Frame c (parse json_parse frame) now"])
        (simp_all add: served_def on_socket_message_def)
  qed
next
  case (serving_closed t E K A c)
  show ?case
    by (rule runs_both_hub [OF serving_closed.IH serving_closed.hyps(2), of "Disconnected c" _ A])
      (simp_all add: served_def on_socket_closed_def Let_def)
next
  case (serving_heartbeat t E K A now)
  show ?case
  proof (cases "\<not> tp_running t \<or> now < tp_next_tick t")
    case True
    then show ?thesis using runs_both_same [OF serving_heartbeat.IH] by (simp add: heartbeat_turn_def)
  next
    case False
    then show ?thesis
      by (intro runs_both_hub [OF serving_heartbeat.IH serving_heartbeat.hyps(2), of "Heartbeat now"])
        (simp_all add: served_def heartbeat_turn_def Let_def split_beta)
  qed
next
  case (serving_router t K A)
  obtain r where r: "tp_router t = Some r" "running L (so_sfu options) (set_media_signals True h0) (tp_hub t) r"
    using serving_router.IH by (auto simp: runs_both_def)
  have "running L (so_sfu options) (set_media_signals True h0) (tp_hub t) (router_step (WorkerTurn A) r)"
    by (intro running_router r(2)) simp
  then show ?case using r(1)
    by (simp add: runs_both_def router_turn_def Let_def split: list.split task.split)
next
  case (serving_report t e)
  then show ?case using running_router by (fastforce simp: runs_both_def)
next
  case (serving_audio t A uid rid p)
  then show ?case using running_audio by (fastforce simp: runs_both_def)
next
  case (serving_video t A uid rid p)
  then show ?case using running_video by (fastforce simp: runs_both_def)
qed (auto intro: runs_both_same simp: start_server_def stop_server_def on_client_def Let_def)

section \<open>A server the properties are applied to\<close>

text \<open>One client: she signs in, opens a room and walks in. A frame is a word for its message.\<close>

definition toy_frame :: "string \<Rightarrow> json option" where
  "toy_frame s = Some (message_to_json (if s = ''hi'' then Authenticate ''ada'' ''pw''
     else if s = ''open'' then CreateRoom ''00'' ''sala'' False 0 else JoinRoom ''012345'' ''00'' []))"

definition all_open :: socket_answers where
  "all_open = \<lparr>sk_open = (\<lambda>_. True), sk_throws = (\<lambda>_ _. False), sk_port = 8080\<rparr>"

abbreviation toy_server :: "router_options \<Rightarrow> server_options" where
  "toy_server sfu \<equiv> \<lparr>so_bind_address = ''0.0.0.0'', so_port = 8080, so_enable_sfu = True, so_sfu = sfu\<rparr>"

definition arrived :: "router_options \<Rightarrow> transport" where
  "arrived sfu = on_socket_open 1 ''::1'' 0 (snd (on_client None (start_server 0 (new_server (toy_server sfu) toy_hub))))"

fun says :: "string list \<Rightarrow> transport \<Rightarrow> transport" where
  "says [] t = t"
| "says (f # fs) t = says fs (on_socket_message toy_env toy_frame (\<lambda>_. []) all_open all_well 1 (Some f) 0 t)"

definition heard_as :: "string list \<Rightarrow> event list" where
  "heard_as fs = map (\<lambda>f. Frame 1 (parse toy_frame f) 0) fs"

definition at_work :: "router_options \<Rightarrow> transport" where
  "at_work sfu = says [''hi'', ''open'', ''join''] (arrived sfu)"

lemma says_hub: "tp_hub (says fs t) = run (heard_as fs) (tp_hub t)"
  by (induction fs arbitrary: t) (simp_all add: run_def heard_as_def on_socket_message_def)

lemma says_frame:
  "tp_sockets (says fs t) = tp_sockets t" "tp_running (says fs t) = tp_running t"
  "tp_next_tick (says fs t) = tp_next_tick t"
  by (induction fs arbitrary: t) (simp_all add: on_socket_message_def)

lemma serving_says:
  "serving L toy_frame (\<lambda>_. []) options h0 t \<Longrightarrow> fresh_run (heard_as fs) (tp_hub t)
    \<Longrightarrow> serving L toy_frame (\<lambda>_. []) options h0 (says fs t)"
proof (induction fs arbitrary: t)
  case (Cons f fs)
  let ?t = "on_socket_message toy_env toy_frame (\<lambda>_. []) all_open all_well 1 (Some f) 0 t"
  have "serving L toy_frame (\<lambda>_. []) options h0 ?t" "fresh_run (heard_as fs) (tp_hub ?t)"
    using Cons.prems by (simp_all add: heard_as_def serving_message) (simp add: on_socket_message_def)
  then show ?case using Cons.IH by simp
qed simp

lemma arrived_hub: "tp_hub (arrived sfu) = run [Connected 1 ''::1'' 0] (set_media_signals True toy_hub)"
  by (simp add: arrived_def on_socket_open_def on_client_def start_server_def new_server_def run_def Let_def)

lemma serving_at_work:
  "serving toy_packets toy_frame (\<lambda>_. []) (toy_server sfu) (new_hub 8 (seconds 5) (seconds 15) toy_users []
      empty_chat_store empty_notice_store empty_session_store empty_audit_log) (at_work sfu)"
proof -
  have "fresh_draw toy_env (set_media_signals True toy_hub)" by code_simp
  then have "serving toy_packets toy_frame (\<lambda>_. []) (toy_server sfu) toy_hub (arrived sfu)"
    unfolding arrived_def
    by (intro serving_open serving_client serving_start serving_new)
      (simp add: on_client_def start_server_def new_server_def Let_def)
  moreover have "fresh_run (heard_as [''hi'', ''open'', ''join''])
      (run [Connected 1 ''::1'' 0] (set_media_signals True toy_hub))" by code_simp
  ultimately show ?thesis
    unfolding at_work_def toy_hub_def [symmetric] by (intro serving_says) (simp_all add: arrived_hub)
qed

lemma at_work_hub:
  "tp_hub (at_work sfu) = run (heard_as [''hi'', ''open'', ''join''])
     (run [Connected 1 ''::1'' 0] (set_media_signals True toy_hub))"
  by (simp only: at_work_def says_hub arrived_hub)

lemma at_work_seated: "room_of (h_rooms (tp_hub (at_work sfu))) ''00'' = Some ''012345''"
  unfolding at_work_hub by code_simp

lemma at_work_silent:
  "tp_running (at_work sfu) \<and> tp_next_tick (at_work sfu) \<le> seconds 15 \<and> 1 \<in> set (tp_sockets (at_work sfu))
    \<and> overdue (seconds 15) (tp_hub (at_work sfu)) 1"
proof -
  have "tp_running (at_work sfu)" "tp_next_tick (at_work sfu) \<le> seconds 15" "1 \<in> set (tp_sockets (at_work sfu))"
    unfolding at_work_def says_frame
    by (simp_all add: arrived_def on_socket_open_def on_client_def start_server_def new_server_def seconds_def Let_def)
  moreover have "overdue (seconds 15) (tp_hub (at_work sfu)) 1" unfolding at_work_hub by code_simp
  ultimately show ?thesis by simp
qed

lemma at_work_identity: "conn_user (tp_hub (at_work sfu)) 1 = Some ada"
  unfolding at_work_hub by code_simp

section \<open>Media stays in the rooms\<close>

text \<open>C3. On a server that routes media, the router has at every moment a session for exactly the people the
  room manager seats, in the room it seats them in; and a packet is forwarded only from somebody seated
  in the room it came for, to the connection of somebody else seated there. Whatever clients, sockets,
  heartbeats, packets and reports do, in whatever order.\<close>

theorem media_follows_the_rooms:
  assumes "accounts_ok users" and "list_all (\<lambda>r. is_int32 (rr_capacity r)) rooms" and "so_enable_sfu options"
    and "serving L json_parse dump options (new_hub mx i m users rooms chat notices sessions audit) t"
  shows "\<exists>r. tp_router t = Some r
    \<and> (\<forall>u. map_option sn_room_id (find_session r u) = room_of (h_rooms (tp_hub t)) u)
    \<and> (\<forall>A u rid p. \<forall>sent \<in> set (map fst (fst (forward_audio L A u rid p r)))
          \<union> set (map fst (fst (forward_video L A u rid p r))).
        room_of (h_rooms (tp_hub t)) u = Some rid
      \<and> (\<exists>v s. v \<noteq> u \<and> room_of (h_rooms (tp_hub t)) v = Some rid \<and> find_session r v = Some s
          \<and> fst sent = sn_connection s))"
proof -
  obtain r where r: "tp_router t = Some r"
      "running L (so_sfu options) (set_media_signals True (new_hub mx i m users rooms chat notices sessions audit)) (tp_hub t) r"
    using serving_runs_both [OF assms(4,3)] by (auto simp: runs_both_def)
  show ?thesis by (rule exI [of _ r], rule conjI, rule r(1), rule running_follows_the_rooms [OF assms(1,2) r(2)])
qed

lemma media_follows_the_rooms_witness:
  "\<forall>sfu. \<exists>r. tp_router (at_work sfu) = Some r \<and> map_option sn_room_id (find_session r ''00'') = Some ''012345''"
proof
  fix sfu
  show "\<exists>r. tp_router (at_work sfu) = Some r \<and> map_option sn_room_id (find_session r ''00'') = Some ''012345''"
    by (rule exE [OF media_follows_the_rooms [OF toy_accounts _ _ serving_at_work [of sfu]]])
      (simp, simp, metis at_work_seated)
qed

section \<open>Falling silent\<close>

lemma overdue_kept: "overdue now h c \<Longrightarrow> overdue now (fst (tick_connection now d (h, x, a))) c"
  using tick_connection_others(2) [of c d now h x a]
  by (cases "c = d") (auto simp: tick_connection_eq due_def split: option.splits)

lemma timed_out_kept: "c \<in> set (fst (snd X)) \<Longrightarrow> c \<in> set (fst (snd (fold (tick_connection now) cs X)))"
proof (induction cs arbitrary: X)
  case (Cons d cs)
  have "c \<in> set (fst (snd (tick_connection now d X)))"
    using Cons.prems by (cases X) (simp add: tick_connection_eq)
  then show ?case using Cons.IH by simp
qed simp

lemma given_up_on:
  "c \<in> set cs \<Longrightarrow> overdue now (fst X) c \<Longrightarrow> c \<in> set (fst (snd (fold (tick_connection now) cs X)))"
proof (induction cs arbitrary: X)
  case (Cons d cs)
  obtain h x a where X: "X = (h, x, a)" by (metis prod_cases3)
  show ?case
  proof (cases "c = d")
    case True
    then have "c \<in> set (fst (snd (tick_connection now d X)))" using Cons.prems(2) by (simp add: X tick_connection_eq)
    then show ?thesis using timed_out_kept by simp
  next
    case False
    then show ?thesis using Cons overdue_kept [of now h c d x a] by (simp add: X)
  qed
qed simp

lemma tick_gives_up:
  assumes "overdue now h c"
  shows "c \<in> set (fst (tick E now h))"
proof -
  let ?h0 = "h\<lparr>h_out := [], h_media := [], h_fault := None\<rparr>"
  obtain h1 x a where f: "fold (tick_connection now) (map fst (h_connections h)) (?h0, [], []) = (h1, x, a)"
    by (metis prod_cases3)
  have "c \<in> set (map fst (h_connections h))"
    using assms by (force simp: overdue_def find_connection_def dest: map_of_SomeD split: option.splits)
  moreover have "overdue now ?h0 c" using assms by (simp add: overdue_def find_connection_def split: option.splits)
  ultimately have "c \<in> set x" using given_up_on [of c _ now "(?h0, [], [])"] f by fastforce
  then show ?thesis using f by (simp add: tick_def Let_def)
qed

lemma disconnect_unseats:
  assumes "mgr_good (h_rooms h)" "conn_user h c = Some u"
  shows "room_of (h_rooms (on_disconnect E c h)) (u_id u) = None" "find_connection (on_disconnect E c h) c = None"
proof -
  obtain s where s: "find_connection (fresh_hub h) c = Some s" "cn_user s = Some u"
    using assms(2) by (auto simp: conn_user_def find_connection_def split: option.splits)
  define g where "g = close_session E c (fresh_hub h)"
  have g: "h_rooms g = h_rooms h" by (simp add: g_def)
  have gone: "find_connection (k\<lparr>h_connections := AList.delete c (h_connections k)\<rparr>) c = None" for k
    by (simp add: find_connection_def)
  have conns: "find_connection (k\<lparr>h_user_to_connection := x\<rparr>) c = find_connection k c"
    "find_connection (k\<lparr>h_rooms := M\<rparr>) c = find_connection k c" for k x M by (simp_all add: find_connection_def)
  have good: "mgr_wf (h_rooms h)" using assms(1) by (simp add: mgr_good_def)
  show "room_of (h_rooms (on_disconnect E c h)) (u_id u) = None"
    using s by (auto simp: on_disconnect_def Let_def room_of_remove_from_any_room [OF good] split: option.split)
  show "find_connection (on_disconnect E c h) c = None"
    using s by (auto simp: on_disconnect_def Let_def gone conns split: option.split)
qed

text \<open>C4. A client that falls silent is taken out. The first heartbeat that finds a connection silent for the
  timeout closes its socket; and when a socket closes, whoever was signed in on it is in no room any
  more, has no session with the router, and the connection and the socket are forgotten.\<close>

theorem silent_client_is_taken_out:
  assumes "accounts_ok users" and "list_all (\<lambda>r. is_int32 (rr_capacity r)) rooms" and "so_enable_sfu options"
    and "serving L json_parse dump options (new_hub mx i m users rooms chat notices sessions audit) t"
  shows "(tp_running t \<and> tp_next_tick t \<le> now \<and> c \<in> set (tp_sockets t) \<and> overdue now (tp_hub t) c \<longrightarrow>
      CloseSocket c \<in> set (tp_calls (heartbeat_turn E dump K A now t)))
    \<and> (conn_user (tp_hub t) c = Some u \<longrightarrow>
        room_of (h_rooms (tp_hub (on_socket_closed E dump K A c t))) (u_id u) = None
      \<and> (\<forall>r. tp_router (on_socket_closed E dump K A c t) = Some r \<longrightarrow> find_session r (u_id u) = None)
      \<and> find_connection (tp_hub (on_socket_closed E dump K A c t)) c = None)"
proof (intro conjI impI allI)
  assume a: "tp_running t \<and> tp_next_tick t \<le> now \<and> c \<in> set (tp_sockets t) \<and> overdue now (tp_hub t) c"
  obtain out h where tick: "tick E now (tp_hub t) = (out, h)" by fastforce
  then have "c \<in> set out" using tick_gives_up [of now "tp_hub t" c E] a by simp
  then show "CloseSocket c \<in> set (tp_calls (heartbeat_turn E dump K A now t))"
    using a tick by (auto simp: heartbeat_turn_def Let_def)
next
  assume u: "conn_user (tp_hub t) c = Some u"
  let ?t = "on_socket_closed E dump K A c t" and ?h = "on_disconnect E c (tp_hub t)"
  obtain r where r: "tp_router t = Some r"
      "running L (so_sfu options) (set_media_signals True (new_hub mx i m users rooms chat notices sessions audit)) (tp_hub t) r"
    using serving_runs_both [OF assms(4,3)] by (auto simp: runs_both_def)
  note agrees = running_agrees_new [OF assms(1,2) r(2)]
  have good: "mgr_good (h_rooms (tp_hub t))" using agrees safe_good by blast
  have hub: "tp_hub ?t = ?h" by (simp add: on_socket_closed_def Let_def)
  show "room_of (h_rooms (tp_hub ?t)) (u_id u) = None" "find_connection (tp_hub ?t) c = None"
    using disconnect_unseats [OF good u] by (simp_all add: hub)
  have "tp_router ?t = Some (fold (media_step A) (h_media ?h) r)" by (simp add: on_socket_closed_def Let_def r(1))
  moreover have "router_seat (fold (media_step A) (h_media ?h) r) = fold seat_call (h_media ?h) (seat (tp_hub t))"
    using media_steps_seats [OF reached_ok, of L "so_sfu options" r A "h_media ?h"] agrees by simp
  moreover have "fold seat_call (h_media ?h) (seat (tp_hub t)) = seat ?h"
    using step_mirrored [of "tp_hub t" "Disconnected c" E] agrees by (simp add: served_def)
  ultimately have "map_option router_seat (tp_router ?t) = Some (seat ?h)" by simp
  then have seats: "router_seat r' = seat ?h" if "tp_router ?t = Some r'" for r' using that by simp
  show "find_session r' (u_id u) = None" if t: "tp_router ?t = Some r'" for r'
  proof -
    have "router_seat r' (u_id u) = None"
      unfolding seats [OF t] seat_eq by (rule disconnect_unseats(1) [OF good u])
    then show ?thesis by (simp add: router_seat_def)
  qed
qed

lemma silent_client_is_taken_out_witness:
  "\<forall>sfu. CloseSocket 1 \<in> set (tp_calls (heartbeat_turn toy_env (\<lambda>_. []) all_open all_well (seconds 15) (at_work sfu)))
    \<and> room_of (h_rooms (tp_hub (on_socket_closed toy_env (\<lambda>_. []) all_open all_well 1 (at_work sfu)))) ''00'' = None"
proof
  fix sfu
  have id: "u_id ada = ''00''" by (simp add: ada_def)
  show "CloseSocket 1 \<in> set (tp_calls (heartbeat_turn toy_env (\<lambda>_. []) all_open all_well (seconds 15) (at_work sfu)))
    \<and> room_of (h_rooms (tp_hub (on_socket_closed toy_env (\<lambda>_. []) all_open all_well 1 (at_work sfu)))) ''00'' = None"
    using silent_client_is_taken_out [OF toy_accounts _ _ serving_at_work [of sfu], where now = "seconds 15" and c = 1
      and E = toy_env and K = all_open and A = all_well and u = ada]
      at_work_silent [of sfu] at_work_identity [of sfu] by (simp only: id) simp
qed

end
