(* ===== verification/ServerStartProofs.thy ===== *)
theory ServerStartProofs
  imports ServerStart SignalingServerProofs
begin

text \<open>
  What the start of the server gives: an administrator who can sign in, and a server that listens only with
  the stores it was told to use and settings within their limits.
\<close>

section \<open>The administrator\<close>

lemma find_by_name_update:
  assumes "distinct (map ac_id xs)" "distinct (map ac_username xs)"
    and "List.find (\<lambda>x. ac_id x = i) xs = Some b" "ac_username a = ac_username b"
  shows "List.find (\<lambda>x. ac_username x = n) (update_first (\<lambda>x. ac_id x = i) (\<lambda>_. a) xs)
    = (if n = ac_username b then Some a else List.find (\<lambda>x. ac_username x = n) xs)"
  using assms(1-3)
proof (induction xs)
  case (Cons x xs)
  show ?case
  proof (cases "ac_id x = i")
    case True
    then show ?thesis using Cons.prems assms(4) by auto
  next
    case False
    then have "b \<in> set xs" using Cons.prems by (auto simp: find_Some_iff)
    then have "ac_username x \<noteq> ac_username b" using Cons.prems by force
    then show ?thesis using Cons False by auto
  qed
qed simp

lemma users_update_by_name:
  assumes "users_wf s" "users_find_by_id s (ac_id a) = Some b" "ac_username a = ac_username b"
  shows "users_find_by_username (snd (users_update a s)) n
    = (if n = ac_username b then Some (a\<lparr>ac_created_at := ac_created_at b\<rparr>) else users_find_by_username s n)"
  using assms find_by_name_update [of s "ac_id a" b "a\<lparr>ac_created_at := ac_created_at b\<rparr>" n]
  by (simp add: users_update_def users_find_by_username_def users_find_by_id_def users_wf_def)

lemma found_by_both:
  assumes "users_wf s" "users_find_by_username s n = Some a"
  shows "users_find_by_id s (ac_id a) = Some a"
proof -
  have "a \<in> set s" using assms(2) by (auto simp: users_find_by_username_def find_Some_iff)
  moreover obtain b where b: "users_find_by_id s (ac_id a) = Some b"
    using \<open>a \<in> set s\<close> by (cases "users_find_by_id s (ac_id a)") (auto simp: users_find_by_id_def find_None_iff)
  then have "b \<in> set s" "ac_id b = ac_id a" by (auto simp: users_find_by_id_def find_Some_iff)
  ultimately show ?thesis using b assms(1) by (metis users_wf_def distinct_map inj_onD)
qed

lemma credentials_both: "split_credentials spec = Some (n, p) \<Longrightarrow> n \<noteq> [] \<and> p \<noteq> []"
  by (auto simp: split_credentials_def split: option.splits prod.splits if_splits)

text \<open>Promoting an account that is there and resetting its password.\<close>

lemma promoted:
  assumes "users_wf s" "users_find_by_username s n = Some b"
    and "users_update (b\<lparr>ac_user := (ac_user b)\<lparr>u_role := Admin\<rparr>\<rparr>) s = (None, s1)"
    and "set_password C (ac_id b) p A = (Inr None, B)" "at_users A = s1"
  shows "\<exists>a. users_find_by_username (at_users B) n = Some a \<and> ac_role a = Admin
    \<and> derive_key_hex C p (ac_salt_hex a) = Inr (ac_password_hash_hex a) \<and> ac_id a = ac_id b
    \<and> u_restrictions (ac_user a) = u_restrictions (ac_user b)
    \<and> (\<forall>m. m \<noteq> n \<longrightarrow> users_find_by_username (at_users B) m = users_find_by_username s m)"
proof -
  let ?b = "b\<lparr>ac_user := (ac_user b)\<lparr>u_role := Admin\<rparr>\<rparr>"
  have name: "ac_username b = n" using mem_users.by_name_name [OF assms(2)] .
  have id: "ac_id ?b = ac_id b" by (simp add: ac_id_def)
  have b: "users_find_by_id s (ac_id ?b) = Some b" using found_by_both [OF assms(1,2)] id by simp
  have s1: "s1 = snd (users_update ?b s)" using assms(3) by simp
  have wf1: "users_wf s1" unfolding s1 by (rule users_wf_update [OF assms(1)]) (use b in simp)
  have by1: "users_find_by_id s1 (ac_id b) = Some (?b\<lparr>ac_created_at := ac_created_at b\<rparr>)"
    using mem_users.update_same [OF b] id by (simp add: s1)
  obtain salt key where k: "derive_key_hex C p salt = Inr key"
      "users_update (?b\<lparr>ac_created_at := ac_created_at b, ac_salt_hex := salt, ac_password_hash_hex := key\<rparr>) s1
        = (None, at_users B)"
    using set_password_okD [OF assms(4)] by1 assms(5) by auto
  let ?a = "?b\<lparr>ac_created_at := ac_created_at b, ac_salt_hex := salt, ac_password_hash_hex := key\<rparr>"
  have B: "at_users B = snd (users_update ?a s1)" using k(2) by simp
  have "users_find_by_id s1 (ac_id ?a) = Some (?b\<lparr>ac_created_at := ac_created_at b\<rparr>)"
    using by1 by (simp add: ac_id_def)
  from users_update_by_name [OF wf1 this]
  have by_name: "users_find_by_username (at_users B) m = (if m = n then Some ?a else users_find_by_username s1 m)" for m
    using name by (simp add: B)
  moreover have "users_find_by_username s1 m = users_find_by_username s m" if "m \<noteq> n" for m
    using users_update_by_name [OF assms(1) b, of m] that name by (simp add: s1)
  ultimately show ?thesis using k(1) by (intro exI [of _ ?a]) (simp add: ac_role_def ac_id_def)
qed

lemma created:
  assumes "add_user C wall n p [] Admin A = (Inr (Inr u), B)"
  shows "\<exists>a. users_find_by_username (at_users B) n = Some a \<and> ac_role a = Admin
    \<and> derive_key_hex C p (ac_salt_hex a) = Inr (ac_password_hash_hex a)
    \<and> \<not> r_banned (u_restrictions (ac_user a)) \<and> users_find_by_username (at_users A) n = None
    \<and> (\<forall>m. m \<noteq> n \<longrightarrow> users_find_by_username (at_users B) m = users_find_by_username (at_users A) m)"
proof -
  obtain uid salt key where k: "derive_key_hex C p salt = Inr key"
      "users_create wall (new_account n [] Admin uid salt key) (at_users A) = (None, at_users B)"
    using add_user_okD [OF assms] by blast
  let ?a = "new_account n [] Admin uid salt key"
  have free: "users_find_by_username (at_users A) n = None"
    using mem_users.create_taken [of "at_users A" ?a _ wall] k(2)
    by (cases "users_find_by_username (at_users A) n") auto
  then have "users_find_by_username (at_users B) n = Some (?a\<lparr>ac_created_at := wall\<rparr>)"
    using mem_users.create_free [of "at_users A" ?a wall] k(2) by simp
  moreover have "users_find_by_username (at_users B) m = users_find_by_username (at_users A) m" if "m \<noteq> n" for m
  proof -
    have "List.find (\<lambda>x. ac_username x = m) (xs @ [?a\<lparr>ac_created_at := wall\<rparr>]) = List.find (\<lambda>x. ac_username x = m) xs" for xs
      using that by (induction xs) simp_all
    moreover have "at_users B = at_users A @ [?a\<lparr>ac_created_at := wall\<rparr>]"
      using k(2) by (auto simp: users_create_def Let_def split: if_splits)
    ultimately show ?thesis by (simp add: users_find_by_username_def)
  qed
  ultimately show ?thesis using k(1) free
    by (intro exI [of _ "?a\<lparr>ac_created_at := wall\<rparr>"]) (simp add: ac_role_def new_account_def)
qed

text \<open>C8. The administrator \<open>--create-admin\<close> names can sign in. When the command exits with 0 the name is
  that of an account with the role of an administrator whose stored key the password derives, so that an
  authenticator over these accounts hands it a session - unless it was there before and banned, for the
  command lifts no ban. No other name leads to another account than before.\<close>

theorem created_administrator_signs_in:
  assumes "users_wf users" and "create_admin C wall spec users = (Inr 0, users')"
  shows "\<exists>n p a. split_credentials spec = Some (n, p) \<and> users_find_by_username users' n = Some a
    \<and> ac_role a = Admin
    \<and> r_banned (u_restrictions (ac_user a)) = (case users_find_by_username users n of
          None \<Rightarrow> False | Some b \<Rightarrow> r_banned (u_restrictions (ac_user b)))
    \<and> (\<forall>A now. at_users A = users' \<and> \<not> r_banned (u_restrictions (ac_user a))
          \<and> cr_rand C (at_draws A) 32 \<noteq> None \<longrightarrow>
        (\<exists>s B. authenticate C n p now A = (Inr (Inr s), B) \<and> s_user s = ac_user a))
    \<and> (\<forall>m. m \<noteq> n \<longrightarrow> users_find_by_username users' m = users_find_by_username users m)"
proof -
  obtain n p where np: "split_credentials spec = Some (n, p)"
    using assms(2) by (cases "split_credentials spec") (auto simp: create_admin_def)
  let ?A = "\<lparr>at_token_lifetime = default_token_lifetime, at_users = users, at_tokens = [], at_draws = 0\<rparr>"
  have "\<exists>a. users_find_by_username users' n = Some a \<and> ac_role a = Admin
      \<and> derive_key_hex C p (ac_salt_hex a) = Inr (ac_password_hash_hex a)
      \<and> r_banned (u_restrictions (ac_user a)) = (case users_find_by_username users n of
          None \<Rightarrow> False | Some b \<Rightarrow> r_banned (u_restrictions (ac_user b)))
      \<and> (\<forall>m. m \<noteq> n \<longrightarrow> users_find_by_username users' m = users_find_by_username users m)"
  proof (cases "users_find_by_username users n")
    case None
    then obtain u B where "add_user C wall n p [] Admin ?A = (Inr (Inr u), B)" "users' = at_users B"
      using assms(2) np by (auto simp: create_admin_def Let_def split: sum.splits prod.splits)
    then show ?thesis using created [of C wall n p ?A u B] None by auto
  next
    case (Some b)
    let ?b = "b\<lparr>ac_user := (ac_user b)\<lparr>u_role := Admin\<rparr>\<rparr>"
    obtain f s1 where f: "users_update ?b users = (f, s1)" by fastforce
    have id: "ac_id ?b = ac_id b" by (simp add: ac_id_def)
    obtain B where "f = None" "set_password C (ac_id b) p (?A\<lparr>at_users := s1\<rparr>) = (Inr None, B)" "users' = at_users B"
      using assms(2) np Some f id
      by (auto simp: create_admin_def Let_def split: option.splits sum.splits prod.splits)
    then show ?thesis using promoted [OF assms(1) Some, of s1 C p "?A\<lparr>at_users := s1\<rparr>" B] Some f by auto
  qed
  then show ?thesis using np authenticate_same_key by metis
qed

theorem created_administrator_signs_in_witness:
  "\<exists>users' a. create_admin toy_crypto 7 ''bob:zz'' toy_users = (Inr 0, users')
    \<and> users_find_by_username users' ''bob'' = Some a \<and> ac_role a = Admin"
proof -
  obtain code users' where c: "create_admin toy_crypto 7 ''bob:zz'' toy_users = (code, users')" by fastforce
  have "fst (create_admin toy_crypto 7 ''bob:zz'' toy_users) = Inr 0" by code_simp
  then have zero: "create_admin toy_crypto 7 ''bob:zz'' toy_users = (Inr 0, users')" using c by simp
  have wf: "users_wf toy_users" by code_simp
  have "split_credentials ''bob:zz'' = Some (''bob'', ''zz'')" by code_simp
  then show ?thesis using created_administrator_signs_in [OF wf zero] zero by auto
qed

section \<open>What a server starts with\<close>

text \<open>The users file only adds accounts.\<close>

definition more_accounts :: "transport \<Rightarrow> transport \<Rightarrow> bool" where
  "more_accounts t t' \<longleftrightarrow> (\<exists>A. t' = t\<lparr>tp_hub := (tp_hub t)\<lparr>h_auth := A\<rparr>\<rparr> \<and> set (hub_users (tp_hub t)) \<subseteq> set (at_users A))"

lemma more_accounts_refl: "more_accounts t t"
  unfolding more_accounts_def by (rule exI [of _ "h_auth (tp_hub t)"]) simp

lemma more_accounts_trans: "more_accounts t t1 \<Longrightarrow> more_accounts t1 t2 \<Longrightarrow> more_accounts t t2"
  unfolding more_accounts_def by force

lemma add_user_adds: "more_accounts t (snd (server_add_user E n p d r t))"
proof -
  obtain q A where a: "add_user (e_crypto E) (e_wall E) n p d r (h_auth (tp_hub t)) = (q, A)" by fastforce
  have "set s \<subseteq> set (snd (users_create w x s))" for w x s by (auto simp: users_create_def Let_def)
  then have "set (hub_users (tp_hub t)) \<subseteq> set (at_users A)"
    using add_user_users [of "e_crypto E" "e_wall E" n p d r "h_auth (tp_hub t)"] a by (metis order_refl snd_conv)
  then show ?thesis using a by (auto simp: server_add_user_def more_accounts_def)
qed

lemma load_entry_adds: "load_entry E w e t = (q, t') \<Longrightarrow> more_accounts t t'"
  using add_user_adds [of t E] more_accounts_refl [of t]
  by (auto simp: load_entry_def Let_def split: option.splits sum.splits prod.splits) (metis snd_conv)+

lemma load_entries_adds: "load_entries E w es n t = (q, t') \<Longrightarrow> more_accounts t t'"
proof (induction es arbitrary: n t)
  case (Cons e es)
  obtain q1 t1 where 1: "load_entry E w e t = (q1, t1)" by fastforce
  show ?case
    using Cons.prems 1 load_entry_adds [OF 1] Cons.IH more_accounts_trans by (auto split: sum.splits)
qed (simp add: more_accounts_refl)

lemma load_users_adds: "load_users E w path t = (q, t') \<Longrightarrow> more_accounts t t'"
  by (auto simp: load_users_def more_accounts_refl load_entries_adds split: option.splits json.splits)

lemma hub_from_capacity: "max_capacity (h_rooms (hub_from c db)) =
    (let n = sc_max_participants_per_room (cf_server c)
     in if n < kMinRoomCapacity then kMinRoomCapacity else if kMaxRoomCapacity < n then kMaxRoomCapacity else n)"
proof -
  have "mgr_max_participants (fst (fold load_record rs X)) = mgr_max_participants (fst X)" for rs X
    by (induction rs arbitrary: X) (simp_all add: load_record_def Let_def split_beta)
  then show ?thesis
    by (simp add: hub_from_def new_hub_def load_rooms_def new_room_manager_def max_capacity_def Let_def split_beta)
qed

lemma startedD:
  assumes "server_main E w fl has_mongo open_database argv now = Started t"
  shows "\<exists>c db t0. load_config w argv RejectUnknown = Inr c \<and> sc_create_admin (cf_server c) = []
    \<and> (dc_enabled (cf_database c) \<longrightarrow> has_mongo \<and> open_database (dc_uri (cf_database c)) (dc_name (cf_database c))
          (dc_timeout_ms (cf_database c)) = Inr db)
    \<and> more_accounts (new_server (server_options_from fl c) (hub_from c db)) t0 \<and> t = start_server now t0"
proof -
  obtain c where c: "load_config w argv RejectUnknown = Inr c"
    using assms by (auto simp: server_main_def split: if_splits sum.splits)
  let ?d = "cf_database c" and ?s = "\<lambda>db. new_server (server_options_from fl c) (hub_from c db)"
  let ?opened = "if \<not> dc_enabled ?d then Inr None else if \<not> has_mongo then Inl (mk_error [] [])
    else map_sum id Some (open_database (dc_uri ?d) (dc_name ?d) (dc_timeout_ms ?d))"
  obtain database where d: "?opened = Inr database"
    using assms c by (cases ?opened) (auto simp: server_main_def split: if_splits)
  define db where "db = (case database of None \<Rightarrow> in_memory | Some db \<Rightarrow> db)"
  have admin: "sc_create_admin (cf_server c) = []"
    using assms c d by (auto simp: server_main_def Let_def split: if_split_asm option.splits sum.splits prod.splits)
  obtain q t0 where l: "(if sc_users_file (cf_server c) \<noteq> [] then load_users E w (sc_users_file (cf_server c)) (?s db)
      else (Inr 0, ?s db)) = (q, t0)" by fastforce
  have t: "t = start_server now t0"
    using assms c d admin l by (auto simp: server_main_def Let_def db_def split: if_split_asm sum.splits)
  have more: "more_accounts (?s db) t0"
    using l load_users_adds more_accounts_refl by (auto split: if_splits)
  have "dc_enabled ?d \<longrightarrow> has_mongo \<and> open_database (dc_uri ?d) (dc_name ?d) (dc_timeout_ms ?d) = Inr db"
    using d by (cases "open_database (dc_uri ?d) (dc_name ?d) (dc_timeout_ms ?d)") (auto simp: db_def split: if_splits)
  then show ?thesis using c admin more t by blast
qed


lemma sample_server: "\<exists>t. server_main toy_env sample_world fl False (\<lambda>_ _ _. Inl (mk_error [] []))
    [''server'', ''--port=9100''] 0 = Started t"
proof -
  have "\<not> wants_help [''server'', ''--port=9100'']" "\<not> dc_enabled (cf_database sample_loaded)"
    "sc_create_admin (cf_server sample_loaded) = []" "sc_users_file (cf_server sample_loaded) = []" by code_simp+
  then show ?thesis by (simp add: server_main_def sample_loads Let_def)
qed


section \<open>What the settings become\<close>

text \<open>The URL the shipped configuration shows, \<open>turn:turn.example.com:3478\<close>, has no \<open>://\<close>: with a user name
  the scheme is put in front of it again, in a form the comment on the function does not describe.\<close>

lemma turn_url_doubles_the_scheme:
  assumes "nc_turn_url n = ''turn:turn.example.com:3478''" "nc_turn_username n = ''ana''" "nc_turn_password n = ''pw''"
  shows "build_turn_url n = ''turn://ana:pw@turn:turn.example.com:3478''"
proof -
  have "split_text ''://'' ''turn:turn.example.com:3478'' = None" by code_simp
  then show ?thesis using assms by (simp add: build_turn_url_def)
qed

text \<open>An entry of the users file whose name is not a text is not skipped: the exception ends the server.\<close>

lemma number_in_the_users_file:
  assumes "json_members entry ''username'' = Some (JInt n)" "json_members entry ''password'' = Some p"
  shows "load_entries E w (entry # rest) loaded t = (Inl (cw_type_error w (JInt n)), t)"
  using assms by (simp add: load_entry_def get_string_def)

end
