(* ===== verification/Spec2Isabelle.thy ===== *)
theory Spec2Isabelle
  imports HubFindings CodecErrors VideoStitcher VideoFeedback Together ClientStart ChatLinks ServerAddress
    ScreenAudioProofs ServerStartProofs
begin

text \<open>
  A verification of PartyShare: rooms where people talk, write and share a screen through one server.

  \<^bold>\<open>The program.\<close> A desktop client holds one WebSocket to the server and one WebRTC session. Over the
  socket go the messages of \<open>shared/src/protocol/message.cpp\<close>, as JSON; the server's hub
  (\<open>server/src/signaling/hub.cpp\<close>) answers them from its stores, its authenticator and its room manager
  and tells the other connections what happened. Audio and video go through a forwarding unit beside the
  hub (\<open>server/src/sfu\<close>). Both programs read one configuration (\<open>shared/src/config/config.cpp\<close>).

  \<^bold>\<open>Theories and code.\<close>

  \<^item> \<open>Prelude\<close>: errors as sums (\<open>dv/core/result.hpp\<close>), 32 and 64 bit integers, decimal text, hash maps as
    association lists, the locale of machines with an invariant, which the room manager, the hub, the
    call and its bitrate range interpret.
  \<^item> \<open>Models\<close>, \<open>Protocol\<close>: the records of \<open>shared/include/dv/models\<close> and the rules on names, texts and
    sizes; the 47 messages with their wire names, and who may send them (\<open>permissions.hpp\<close>).
  \<^item> \<open>Codec\<close>, \<open>CodecRoundtrip\<close>, \<open>CodecErrors\<close>: \<open>message.cpp\<close>, serialize and parse field by field over JSON
    values: every message that fits its types survives, what is accepted is well formed, and the refusals
    are classified.
  \<^item> \<open>Stores\<close>, \<open>RecordStores\<close>, \<open>SessionStores\<close>: the six memory stores (\<open>store/memory_store.cpp\<close>), each
    behind the locale that states its contract.
  \<^item> \<open>Authenticator\<close>, \<open>RestrictionSource\<close>, \<open>RoomManager\<close>: the files of those names, with tokens, the poll
    for what other programs wrote, and rooms with their invariant.
  \<^item> \<open>HubState\<close>, \<open>HubRooms\<close>, \<open>HubAdmin\<close>, \<open>Hub\<close>: the hub, handler by handler in the order of \<open>hub.cpp\<close>, the
    gate before them, connecting, disconnecting and the heartbeat. A hub is a record of its stores and
    connections; what a frame sends is the list \<open>h_out\<close>. \<open>HubFrames\<close> and \<open>HubSafety\<close> show what each
    handler leaves alone and that all keep \<open>hub_safe\<close>; \<open>HubProperties\<close> lifts that to reachable states;
    \<open>HubGate\<close>, \<open>HubRoomEffects\<close>, \<open>HubAdminEffects\<close>, \<open>HubHeartbeat\<close> give the effects of the handlers
    exactly; \<open>HubScenarios\<close> and \<open>HubFindings\<close> are runs on concrete stores.
  \<^item> \<open>VideoStitcher\<close>, \<open>LossRepair\<close>, \<open>LossRepairProofs\<close>, \<open>VideoFeedback\<close>: the parts of the forwarding unit
    that are its own: one viewer's track across handovers, the requests for lost packets, the bandwidth
    estimate. Sequence numbers are 16 bit words and timestamps 32 bit words, which wrap as the code's do.
  \<^item> \<open>MediaRouter\<close>, \<open>MediaRouterProofs\<close>, \<open>MediaRouterCap\<close>, \<open>MediaRouterProperties\<close>:
    \<open>server/src/sfu/media_router.cpp\<close>: the sessions and their tracks, the table packets are forwarded by,
    who is offered what, the worker's queue, and the cap the viewers put on a share. \<open>reached\<close> are the
    states any sequence of calls, reports and packets leads to; \<open>router_ok\<close> holds in all of them.
  \<^item> \<open>HubMedia\<close>, \<open>MediaTogether\<close>: the hub and the router side by side. The calls the hub makes mirror the
    seats of the room manager, handler by handler, and the router follows them.
  \<^item> \<open>SignalingServer\<close>, \<open>SignalingServerProofs\<close>: \<open>server/src/signaling/server.cpp\<close>, which joins them: the
    sockets, the frames in and out, the thread of the heartbeat, starting and stopping. \<open>serving\<close> are the
    runs of a whole server; every one is a run of the hub and the router, and their properties meet there.
  \<^item> \<open>ServerStart\<close>, \<open>ServerStartProofs\<close>: \<open>server/src/main.cpp\<close>, from the arguments and the settings to a server
    that listens, or to an exit code: the database, \<open>--create-admin\<close>, the users file.
  \<^item> \<open>Config\<close>, \<open>ConfigLoad\<close>, \<open>ConfigSave\<close>, \<open>ConfigSaveProofs\<close>, \<open>ConfigProofs\<close>: \<open>config.cpp\<close>: the two file formats,
    the environment and the command line in their order, the rules of \<open>validate\<close>, and saving a setting.
  \<^item> \<open>ScreenQuality\<close>: \<open>client/src/video/frame_size.hpp\<close> and \<open>screen_quality.hpp\<close>.
  \<^item> \<open>SignalingClient\<close>, \<open>SignalingProofs\<close>: \<open>client/src/network/signaling_client.cpp\<close>, the socket, its
    callbacks and the thread that retries.
  \<^item> \<open>CallSession\<close>, \<open>CallControls\<close>, \<open>CallSignals\<close>: \<open>client/src/app/call_session.cpp\<close>, every request of the
    interface, every message of the server and every callback, composed into \<open>call_step\<close>. A call is a
    record of the fields of the class and the log of what it did. \<open>CallProofs\<close> shows what each operation
    leaves alone and that all keep the invariant of the microphone and the media sessions; \<open>CallOptions\<close>
    the same of the bitrate range; \<open>CallProperties\<close> the properties and the exact order of the operations
    where order matters; \<open>CallFindings\<close> are runs that end where the comments say they cannot.
  \<^item> \<open>ClientStart\<close>: how \<open>client/src/main.cpp\<close> starts a call on the settings loaded. \<open>Together\<close>: the hub and
    a client on one wire, what a newcomer is shown against what the room manager holds.
  \<^item> \<open>ChatLinks\<close>, \<open>ServerAddress\<close>: \<open>client/src/ui/chat_links.cpp\<close> and the row drawn from it, what of a
    chat line becomes a link; \<open>client/src/app/server_address.cpp\<close>, from what is typed to a URL and back.
  \<^item> \<open>ScreenAudio\<close>, \<open>ScreenAudioProofs\<close>: \<open>client/src/audio/block_pacer.hpp\<close> and
    \<open>screen_audio_mixer.cpp\<close>, the ring between two clocks as a queue, and the mix of the screen with the
    microphone in the arithmetic of the code, limiter and clamp.

  \<^bold>\<open>Bounds and fuel.\<close> No fuel is used. The loops of the code are structural recursion on the list they
  walk, or recursion with a measure: trimming on the length, the hole of a stream on the distance of its
  16 bit numbers, the delay of a reconnection on the attempt. Drawing an identifier of a room is tried
  \<open>kMaxIdAttempts\<close> (64) times, the code's own bound, and then refused. Counters of 64 bits that only
  count up are natural numbers.

  \<^bold>\<open>Parameters.\<close> Code that is not in the repository is an argument of the definitions: OpenSSL's random
  bytes and key derivation (\<open>crypto\<close>), the digits of \<open>std::mt19937\<close> and the clock (\<open>environment\<close>), the JSON
  library and the file system (\<open>config_world\<close>, \<open>write_outcome\<close>), packet headers and the packing of
  feedback packets (libdatachannel), what a peer connection answers the router (\<open>rtc_answers\<close>,
  \<open>packet_library\<close>; what it is asked is the list \<open>rt_calls\<close>), whether a socket is open, what arrives
  on it and whether sending throws (\<open>socket_answers\<close>; what it is asked is \<open>tp_calls\<close>), what a media session
  answers (libwebrtc, \<open>call_environment\<close>), and the rounding of doubles, which are reals. Hypotheses on them
  state their documented behaviour - a fresh draw was not drawn before, a key derivation is a function.
  The iteration order of an unordered map is the order of its list, which is any order.

  \<^bold>\<open>Threads.\<close> A call under one mutex is one step. Where the code lets go of a lock in the middle and the
  difference can be seen, both halves are definitions of their own: the thread that retries a connection
  and \<open>set_muted\<close>. The properties of a call are over runs whose requests and events are steps;
  \<open>CallFindings\<close> shows what the two halves of \<open>set_muted\<close> do when something happens between them.

  \<^bold>\<open>Not modelled.\<close> The MongoDB stores of the server, whose operations are calls of a driver: a database is
  the stores it gives, with the contract of those in memory; of the media router the RTCP handlers it hands to
  libdatachannel and the text of its descriptions; logging and crash reports; the Qt interface, the
  libwebrtc session and the capture devices of the client, and its statistics; the administration tool,
  which is written in Go and appears as another writer of the accounts.
\<close>

end
